(* ===== verification/Prelude.thy ===== *)
theory Prelude
  imports Main "HOL-Library.Word"
begin

text \<open>
  Shared material of the development: the names of the machine integer types the kernel
  extension uses, the collections of rewrite rules the component theories add to, and generic
  lemmas on lists, options and words that several components need.
\<close>

unbundle bit_operations_syntax

section \<open>Types\<close>

text \<open>\<open>u32\<close> is the extension's \<open>unsigned int\<close> and \<open>uint32_t\<close>, \<open>u64\<close> its \<open>uint64_t\<close>.\<close>

type_synonym u32 = "32 word"
type_synonym u64 = "64 word"

section \<open>Collections of rules\<close>

text \<open>
  \<open>kext_defs\<close> collects the unfoldings of one-line accessors and constructors,
  \<open>kext_frame\<close> the equations that say which parts of a state an operation leaves alone, and
  \<open>kext_inv\<close> the preservation rules of the component invariants.
\<close>

named_theorems kext_defs
named_theorems kext_frame
named_theorems kext_inv

section \<open>Lists\<close>

text \<open>\<open>map_if P f xs\<close>: the loop that applies \<open>f\<close> to the entries of an array that satisfy \<open>P\<close>.\<close>

definition map_if :: "('a \<Rightarrow> bool) \<Rightarrow> ('a \<Rightarrow> 'a) \<Rightarrow> 'a list \<Rightarrow> 'a list" where
  "map_if P f xs = map (\<lambda>x. if P x then f x else x) xs"

lemma map_if_Nil [simp]: "map_if P f [] = []"
  by (simp add: map_if_def)

lemma map_if_Cons [simp]: "map_if P f (x # xs) = (if P x then f x else x) # map_if P f xs"
  by (simp add: map_if_def)

lemma length_map_if [simp]: "length (map_if P f xs) = length xs"
  by (simp add: map_if_def)

lemma nth_map_if [simp]:
  "i < length xs \<Longrightarrow> map_if P f xs ! i = (if P (xs ! i) then f (xs ! i) else xs ! i)"
  by (simp add: map_if_def)

lemma set_map_if: "set (map_if P f xs) = (\<lambda>x. if P x then f x else x) ` set xs"
  by (simp add: map_if_def)

lemma map_if_proj:
  assumes "\<And>x. g (f x) = g x"
  shows "map g (map_if P f xs) = map g xs"
  using assms by (simp add: map_if_def)

lemma map_if_none: "(\<And>x. x \<in> set xs \<Longrightarrow> \<not> P x) \<Longrightarrow> map_if P f xs = xs"
  by (induction xs) auto

lemma map_if_map_if:
  assumes "\<And>x. P (f x) = P x"
  shows "map_if P g (map_if P f xs) = map_if P (g \<circ> f) xs"
  using assms by (simp add: map_if_def)

lemma map_if_all: "(\<And>x. x \<in> set xs \<Longrightarrow> P x) \<Longrightarrow> map_if P f xs = map f xs"
  by (induction xs) auto

lemma find_key_distinct:
  assumes "distinct (map k xs)" and "x \<in> set xs"
  shows "find (\<lambda>y. k y = k x) xs = Some x"
  using assms
proof (induction xs)
  case Nil
  then show ?case by simp
next
  case (Cons a xs)
  show ?case
  proof (cases "a = x")
    case True
    then show ?thesis by simp
  next
    case False
    with Cons.prems have "x \<in> set xs" by simp
    with Cons.prems(1) have "k a \<noteq> k x" by force
    with Cons \<open>x \<in> set xs\<close> show ?thesis by simp
  qed
qed

lemma find_map_if:
  assumes "\<And>x. Q (f x) = Q x"
  shows "find Q (map_if P f xs) = map_option (\<lambda>x. if P x then f x else x) (find Q xs)"
  using assms by (induction xs) auto

section \<open>Bitwise union of words\<close>

text \<open>\<open>or_list ws\<close> is the loop \<open>v = 0; for w in ws: v |= w\<close>.\<close>

definition or_list :: "'a::len word list \<Rightarrow> 'a word" where
  "or_list ws = foldl (OR) 0 ws"

lemma foldl_or: "foldl (OR) a ws = a OR foldl (OR) 0 (ws :: 'a::len word list)"
proof (induction ws arbitrary: a)
  case Nil
  then show ?case by simp
next
  case (Cons w ws)
  have "foldl (OR) (a OR w) ws = (a OR w) OR foldl (OR) 0 ws" by (rule Cons.IH)
  moreover have "foldl (OR) w ws = w OR foldl (OR) 0 ws" by (rule Cons.IH)
  ultimately show ?case by (simp add: or.assoc)
qed

lemma or_list_Nil [simp]: "or_list [] = 0"
  by (simp add: or_list_def)

lemma or_list_Cons [simp]: "or_list (w # ws) = w OR or_list ws"
  by (simp add: or_list_def foldl_or [of w])

lemma or_list_append: "or_list (xs @ ys) = or_list xs OR or_list ys"
  by (induction xs) (simp_all add: or.assoc)

lemma bit_or_list: "bit (or_list ws) n \<longleftrightarrow> (\<exists>w \<in> set ws. bit w n)"
  by (induction ws) (auto simp: bit_or_iff)

lemma word_subset_iff: "(a AND b = b) \<longleftrightarrow> (\<forall>n. bit b n \<longrightarrow> bit a n)"
  for a b :: "'a::len word"
  by (auto simp: bit_eq_iff bit_and_iff dest: bit_imp_le_length)

end
