(* ===== verification/Symbols.thy ===== *)
theory Symbols
  imports Prelude
begin

text \<open>
  The symbolic constants of the bridge (\<^verbatim>\<open>src/bridge/generator/keycode/data\<close>). The build turns each
  data file into C++ constants with \<^verbatim>\<open>make-code.rb\<close>: a line holds a name and a value, and the
  value \<^verbatim>\<open>--AUTO--\<close> stands for the Ruby \<open>succ\<close> of the previous value. On the hexadecimal
  strings of \<^verbatim>\<open>KeyCode.data\<close> that is the string successor, so \<open>0x10000009\<close> is followed by
  \<open>0x10000010\<close>. The numbers below are the values this rule gives to the symbols that the
  modelled code names.
\<close>

section \<open>Types of the symbols\<close>

text \<open>Each is a C++ class around one \<open>unsigned int\<close> with equality.\<close>

type_synonym KeyCode = u32
type_synonym ModifierFlag = u32
type_synonym EventType = u32
type_synonym KeyboardType = u32
type_synonym ConsumerKeyCode = u32
type_synonym PointingButton = u32
type_synonym ScrollWheel = u32
type_synonym PointingRelative = u32
type_synonym Option = u32
type_synonym DeviceVendor = u32
type_synonym DeviceProduct = u32
type_synonym DeviceLocation = u32
type_synonym InputSource = u32

section \<open>\<^verbatim>\<open>ModifierFlag.data\<close>\<close>

abbreviation (input) ModifierFlag_ZERO :: ModifierFlag where
  "ModifierFlag_ZERO \<equiv> 0"

abbreviation (input) ModifierFlag_CAPSLOCK :: ModifierFlag where
  "ModifierFlag_CAPSLOCK \<equiv> 1"

abbreviation (input) ModifierFlag_SHIFT_L :: ModifierFlag where
  "ModifierFlag_SHIFT_L \<equiv> 2"

abbreviation (input) ModifierFlag_SHIFT_R :: ModifierFlag where
  "ModifierFlag_SHIFT_R \<equiv> 3"

abbreviation (input) ModifierFlag_CONTROL_L :: ModifierFlag where
  "ModifierFlag_CONTROL_L \<equiv> 4"

abbreviation (input) ModifierFlag_CONTROL_R :: ModifierFlag where
  "ModifierFlag_CONTROL_R \<equiv> 5"

abbreviation (input) ModifierFlag_OPTION_L :: ModifierFlag where
  "ModifierFlag_OPTION_L \<equiv> 6"

abbreviation (input) ModifierFlag_OPTION_R :: ModifierFlag where
  "ModifierFlag_OPTION_R \<equiv> 7"

abbreviation (input) ModifierFlag_COMMAND_L :: ModifierFlag where
  "ModifierFlag_COMMAND_L \<equiv> 8"

abbreviation (input) ModifierFlag_COMMAND_R :: ModifierFlag where
  "ModifierFlag_COMMAND_R \<equiv> 9"

abbreviation (input) ModifierFlag_NUMPAD :: ModifierFlag where
  "ModifierFlag_NUMPAD \<equiv> 10"

abbreviation (input) ModifierFlag_FN :: ModifierFlag where
  "ModifierFlag_FN \<equiv> 11"

abbreviation (input) ModifierFlag_NONE :: ModifierFlag where
  "ModifierFlag_NONE \<equiv> 12"

section \<open>\<^verbatim>\<open>EventType.data\<close>\<close>

abbreviation (input) EventType_NONE :: EventType where
  "EventType_NONE \<equiv> 0"

abbreviation (input) EventType_DOWN :: EventType where
  "EventType_DOWN \<equiv> 10"

abbreviation (input) EventType_UP :: EventType where
  "EventType_UP \<equiv> 11"

abbreviation (input) EventType_MODIFY :: EventType where
  "EventType_MODIFY \<equiv> 12"

section \<open>\<^verbatim>\<open>KeyCode.data\<close>\<close>

abbreviation (input) KeyCode_A :: KeyCode where
  "KeyCode_A \<equiv> 0x0"

abbreviation (input) KeyCode_BACKSLASH :: KeyCode where
  "KeyCode_BACKSLASH \<equiv> 0x2a"

abbreviation (input) KeyCode_KEYPAD_0 :: KeyCode where
  "KeyCode_KEYPAD_0 \<equiv> 0x52"

abbreviation (input) KeyCode_KEYPAD_1 :: KeyCode where
  "KeyCode_KEYPAD_1 \<equiv> 0x53"

abbreviation (input) KeyCode_KEYPAD_2 :: KeyCode where
  "KeyCode_KEYPAD_2 \<equiv> 0x54"

abbreviation (input) KeyCode_KEYPAD_3 :: KeyCode where
  "KeyCode_KEYPAD_3 \<equiv> 0x55"

abbreviation (input) KeyCode_KEYPAD_4 :: KeyCode where
  "KeyCode_KEYPAD_4 \<equiv> 0x56"

abbreviation (input) KeyCode_KEYPAD_5 :: KeyCode where
  "KeyCode_KEYPAD_5 \<equiv> 0x57"

abbreviation (input) KeyCode_KEYPAD_6 :: KeyCode where
  "KeyCode_KEYPAD_6 \<equiv> 0x58"

abbreviation (input) KeyCode_KEYPAD_7 :: KeyCode where
  "KeyCode_KEYPAD_7 \<equiv> 0x59"

abbreviation (input) KeyCode_KEYPAD_8 :: KeyCode where
  "KeyCode_KEYPAD_8 \<equiv> 0x5b"

abbreviation (input) KeyCode_KEYPAD_9 :: KeyCode where
  "KeyCode_KEYPAD_9 \<equiv> 0x5c"

abbreviation (input) KeyCode_KEYPAD_CLEAR :: KeyCode where
  "KeyCode_KEYPAD_CLEAR \<equiv> 0x47"

abbreviation (input) KeyCode_KEYPAD_COMMA :: KeyCode where
  "KeyCode_KEYPAD_COMMA \<equiv> 0x5f"

abbreviation (input) KeyCode_KEYPAD_DOT :: KeyCode where
  "KeyCode_KEYPAD_DOT \<equiv> 0x41"

abbreviation (input) KeyCode_KEYPAD_EQUAL :: KeyCode where
  "KeyCode_KEYPAD_EQUAL \<equiv> 0x51"

abbreviation (input) KeyCode_KEYPAD_MINUS :: KeyCode where
  "KeyCode_KEYPAD_MINUS \<equiv> 0x4e"

abbreviation (input) KeyCode_KEYPAD_MULTIPLY :: KeyCode where
  "KeyCode_KEYPAD_MULTIPLY \<equiv> 0x43"

abbreviation (input) KeyCode_KEYPAD_PLUS :: KeyCode where
  "KeyCode_KEYPAD_PLUS \<equiv> 0x45"

abbreviation (input) KeyCode_KEYPAD_SLASH :: KeyCode where
  "KeyCode_KEYPAD_SLASH \<equiv> 0x4b"

abbreviation (input) KeyCode_DELETE :: KeyCode where
  "KeyCode_DELETE \<equiv> 0x33"

abbreviation (input) KeyCode_ENTER :: KeyCode where
  "KeyCode_ENTER \<equiv> 0x4c"

abbreviation (input) KeyCode_FORWARD_DELETE :: KeyCode where
  "KeyCode_FORWARD_DELETE \<equiv> 0x75"

abbreviation (input) KeyCode_RETURN :: KeyCode where
  "KeyCode_RETURN \<equiv> 0x24"

abbreviation (input) KeyCode_SPACE :: KeyCode where
  "KeyCode_SPACE \<equiv> 0x31"

abbreviation (input) KeyCode_TAB :: KeyCode where
  "KeyCode_TAB \<equiv> 0x30"

abbreviation (input) KeyCode_CURSOR_UP :: KeyCode where
  "KeyCode_CURSOR_UP \<equiv> 0x7e"

abbreviation (input) KeyCode_CURSOR_DOWN :: KeyCode where
  "KeyCode_CURSOR_DOWN \<equiv> 0x7d"

abbreviation (input) KeyCode_CURSOR_LEFT :: KeyCode where
  "KeyCode_CURSOR_LEFT \<equiv> 0x7b"

abbreviation (input) KeyCode_CURSOR_RIGHT :: KeyCode where
  "KeyCode_CURSOR_RIGHT \<equiv> 0x7c"

abbreviation (input) KeyCode_PAGEUP :: KeyCode where
  "KeyCode_PAGEUP \<equiv> 0x74"

abbreviation (input) KeyCode_PAGEDOWN :: KeyCode where
  "KeyCode_PAGEDOWN \<equiv> 0x79"

abbreviation (input) KeyCode_HOME :: KeyCode where
  "KeyCode_HOME \<equiv> 0x73"

abbreviation (input) KeyCode_END :: KeyCode where
  "KeyCode_END \<equiv> 0x77"

abbreviation (input) KeyCode_CAPSLOCK :: KeyCode where
  "KeyCode_CAPSLOCK \<equiv> 0x39"

abbreviation (input) KeyCode_COMMAND_L :: KeyCode where
  "KeyCode_COMMAND_L \<equiv> 0x37"

abbreviation (input) KeyCode_COMMAND_R :: KeyCode where
  "KeyCode_COMMAND_R \<equiv> 0x36"

abbreviation (input) KeyCode_CONTROL_L :: KeyCode where
  "KeyCode_CONTROL_L \<equiv> 0x3b"

abbreviation (input) KeyCode_CONTROL_R :: KeyCode where
  "KeyCode_CONTROL_R \<equiv> 0x3e"

abbreviation (input) KeyCode_FN :: KeyCode where
  "KeyCode_FN \<equiv> 0x3f"

abbreviation (input) KeyCode_OPTION_L :: KeyCode where
  "KeyCode_OPTION_L \<equiv> 0x3a"

abbreviation (input) KeyCode_OPTION_R :: KeyCode where
  "KeyCode_OPTION_R \<equiv> 0x3d"

abbreviation (input) KeyCode_SHIFT_L :: KeyCode where
  "KeyCode_SHIFT_L \<equiv> 0x38"

abbreviation (input) KeyCode_SHIFT_R :: KeyCode where
  "KeyCode_SHIFT_R \<equiv> 0x3c"

abbreviation (input) KeyCode_JIS_EISUU :: KeyCode where
  "KeyCode_JIS_EISUU \<equiv> 0x66"

abbreviation (input) KeyCode_JIS_KANA :: KeyCode where
  "KeyCode_JIS_KANA \<equiv> 0x68"

abbreviation (input) KeyCode_JIS_YEN :: KeyCode where
  "KeyCode_JIS_YEN \<equiv> 0x5d"

abbreviation (input) KeyCode_VK_NONE :: KeyCode where
  "KeyCode_VK_NONE \<equiv> 0x10000001"

abbreviation (input) KeyCode_VK_PSEUDO_KEY :: KeyCode where
  "KeyCode_VK_PSEUDO_KEY \<equiv> 0x10000002"

abbreviation (input) KeyCode_VK_WAIT_10MS :: KeyCode where
  "KeyCode_VK_WAIT_10MS \<equiv> 0x10000003"

abbreviation (input) KeyCode_VK_WAIT_50MS :: KeyCode where
  "KeyCode_VK_WAIT_50MS \<equiv> 0x10000004"

abbreviation (input) KeyCode_VK_WAIT_100MS :: KeyCode where
  "KeyCode_VK_WAIT_100MS \<equiv> 0x10000005"

abbreviation (input) KeyCode_VK_LOCK_CAPSLOCK :: KeyCode where
  "KeyCode_VK_LOCK_CAPSLOCK \<equiv> 0x10000006"

abbreviation (input) KeyCode_VK_LOCK_COMMAND_L :: KeyCode where
  "KeyCode_VK_LOCK_COMMAND_L \<equiv> 0x10000007"

abbreviation (input) KeyCode_VK_LOCK_COMMAND_R :: KeyCode where
  "KeyCode_VK_LOCK_COMMAND_R \<equiv> 0x10000008"

abbreviation (input) KeyCode_VK_LOCK_CONTROL_L :: KeyCode where
  "KeyCode_VK_LOCK_CONTROL_L \<equiv> 0x10000009"

abbreviation (input) KeyCode_VK_LOCK_CONTROL_R :: KeyCode where
  "KeyCode_VK_LOCK_CONTROL_R \<equiv> 0x10000010"

abbreviation (input) KeyCode_VK_LOCK_FN :: KeyCode where
  "KeyCode_VK_LOCK_FN \<equiv> 0x10000011"

abbreviation (input) KeyCode_VK_LOCK_OPTION_L :: KeyCode where
  "KeyCode_VK_LOCK_OPTION_L \<equiv> 0x10000012"

abbreviation (input) KeyCode_VK_LOCK_OPTION_R :: KeyCode where
  "KeyCode_VK_LOCK_OPTION_R \<equiv> 0x10000013"

abbreviation (input) KeyCode_VK_LOCK_SHIFT_L :: KeyCode where
  "KeyCode_VK_LOCK_SHIFT_L \<equiv> 0x10000014"

abbreviation (input) KeyCode_VK_LOCK_SHIFT_R :: KeyCode where
  "KeyCode_VK_LOCK_SHIFT_R \<equiv> 0x10000015"

abbreviation (input) KeyCode_VK_LOCK_CAPSLOCK_FORCE_ON :: KeyCode where
  "KeyCode_VK_LOCK_CAPSLOCK_FORCE_ON \<equiv> 0x10000016"

abbreviation (input) KeyCode_VK_LOCK_COMMAND_L_FORCE_ON :: KeyCode where
  "KeyCode_VK_LOCK_COMMAND_L_FORCE_ON \<equiv> 0x10000017"

abbreviation (input) KeyCode_VK_LOCK_COMMAND_R_FORCE_ON :: KeyCode where
  "KeyCode_VK_LOCK_COMMAND_R_FORCE_ON \<equiv> 0x10000018"

abbreviation (input) KeyCode_VK_LOCK_CONTROL_L_FORCE_ON :: KeyCode where
  "KeyCode_VK_LOCK_CONTROL_L_FORCE_ON \<equiv> 0x10000019"

abbreviation (input) KeyCode_VK_LOCK_CONTROL_R_FORCE_ON :: KeyCode where
  "KeyCode_VK_LOCK_CONTROL_R_FORCE_ON \<equiv> 0x10000020"

abbreviation (input) KeyCode_VK_LOCK_FN_FORCE_ON :: KeyCode where
  "KeyCode_VK_LOCK_FN_FORCE_ON \<equiv> 0x10000021"

abbreviation (input) KeyCode_VK_LOCK_OPTION_L_FORCE_ON :: KeyCode where
  "KeyCode_VK_LOCK_OPTION_L_FORCE_ON \<equiv> 0x10000022"

abbreviation (input) KeyCode_VK_LOCK_OPTION_R_FORCE_ON :: KeyCode where
  "KeyCode_VK_LOCK_OPTION_R_FORCE_ON \<equiv> 0x10000023"

abbreviation (input) KeyCode_VK_LOCK_SHIFT_L_FORCE_ON :: KeyCode where
  "KeyCode_VK_LOCK_SHIFT_L_FORCE_ON \<equiv> 0x10000024"

abbreviation (input) KeyCode_VK_LOCK_SHIFT_R_FORCE_ON :: KeyCode where
  "KeyCode_VK_LOCK_SHIFT_R_FORCE_ON \<equiv> 0x10000025"

abbreviation (input) KeyCode_VK_LOCK_CAPSLOCK_FORCE_OFF :: KeyCode where
  "KeyCode_VK_LOCK_CAPSLOCK_FORCE_OFF \<equiv> 0x10000026"

abbreviation (input) KeyCode_VK_LOCK_COMMAND_L_FORCE_OFF :: KeyCode where
  "KeyCode_VK_LOCK_COMMAND_L_FORCE_OFF \<equiv> 0x10000027"

abbreviation (input) KeyCode_VK_LOCK_COMMAND_R_FORCE_OFF :: KeyCode where
  "KeyCode_VK_LOCK_COMMAND_R_FORCE_OFF \<equiv> 0x10000028"

abbreviation (input) KeyCode_VK_LOCK_CONTROL_L_FORCE_OFF :: KeyCode where
  "KeyCode_VK_LOCK_CONTROL_L_FORCE_OFF \<equiv> 0x10000029"

abbreviation (input) KeyCode_VK_LOCK_CONTROL_R_FORCE_OFF :: KeyCode where
  "KeyCode_VK_LOCK_CONTROL_R_FORCE_OFF \<equiv> 0x10000030"

abbreviation (input) KeyCode_VK_LOCK_FN_FORCE_OFF :: KeyCode where
  "KeyCode_VK_LOCK_FN_FORCE_OFF \<equiv> 0x10000031"

abbreviation (input) KeyCode_VK_LOCK_OPTION_L_FORCE_OFF :: KeyCode where
  "KeyCode_VK_LOCK_OPTION_L_FORCE_OFF \<equiv> 0x10000032"

abbreviation (input) KeyCode_VK_LOCK_OPTION_R_FORCE_OFF :: KeyCode where
  "KeyCode_VK_LOCK_OPTION_R_FORCE_OFF \<equiv> 0x10000033"

abbreviation (input) KeyCode_VK_LOCK_SHIFT_L_FORCE_OFF :: KeyCode where
  "KeyCode_VK_LOCK_SHIFT_L_FORCE_OFF \<equiv> 0x10000034"

abbreviation (input) KeyCode_VK_LOCK_SHIFT_R_FORCE_OFF :: KeyCode where
  "KeyCode_VK_LOCK_SHIFT_R_FORCE_OFF \<equiv> 0x10000035"

abbreviation (input) KeyCode_VK_LOCK_ALL_FORCE_OFF :: KeyCode where
  "KeyCode_VK_LOCK_ALL_FORCE_OFF \<equiv> 0x10000036"

abbreviation (input) KeyCode_VK_NEGATIVE_LOCK_CAPSLOCK :: KeyCode where
  "KeyCode_VK_NEGATIVE_LOCK_CAPSLOCK \<equiv> 0x10000037"

abbreviation (input) KeyCode_VK_NEGATIVE_LOCK_COMMAND_L :: KeyCode where
  "KeyCode_VK_NEGATIVE_LOCK_COMMAND_L \<equiv> 0x10000038"

abbreviation (input) KeyCode_VK_NEGATIVE_LOCK_COMMAND_R :: KeyCode where
  "KeyCode_VK_NEGATIVE_LOCK_COMMAND_R \<equiv> 0x10000039"

abbreviation (input) KeyCode_VK_NEGATIVE_LOCK_CONTROL_L :: KeyCode where
  "KeyCode_VK_NEGATIVE_LOCK_CONTROL_L \<equiv> 0x10000040"

abbreviation (input) KeyCode_VK_NEGATIVE_LOCK_CONTROL_R :: KeyCode where
  "KeyCode_VK_NEGATIVE_LOCK_CONTROL_R \<equiv> 0x10000041"

abbreviation (input) KeyCode_VK_NEGATIVE_LOCK_FN :: KeyCode where
  "KeyCode_VK_NEGATIVE_LOCK_FN \<equiv> 0x10000042"

abbreviation (input) KeyCode_VK_NEGATIVE_LOCK_OPTION_L :: KeyCode where
  "KeyCode_VK_NEGATIVE_LOCK_OPTION_L \<equiv> 0x10000043"

abbreviation (input) KeyCode_VK_NEGATIVE_LOCK_OPTION_R :: KeyCode where
  "KeyCode_VK_NEGATIVE_LOCK_OPTION_R \<equiv> 0x10000044"

abbreviation (input) KeyCode_VK_NEGATIVE_LOCK_SHIFT_L :: KeyCode where
  "KeyCode_VK_NEGATIVE_LOCK_SHIFT_L \<equiv> 0x10000045"

abbreviation (input) KeyCode_VK_NEGATIVE_LOCK_SHIFT_R :: KeyCode where
  "KeyCode_VK_NEGATIVE_LOCK_SHIFT_R \<equiv> 0x10000046"

abbreviation (input) KeyCode_VK_NEGATIVE_LOCK_CAPSLOCK_FORCE_ON :: KeyCode where
  "KeyCode_VK_NEGATIVE_LOCK_CAPSLOCK_FORCE_ON \<equiv> 0x10000047"

abbreviation (input) KeyCode_VK_NEGATIVE_LOCK_COMMAND_L_FORCE_ON :: KeyCode where
  "KeyCode_VK_NEGATIVE_LOCK_COMMAND_L_FORCE_ON \<equiv> 0x10000048"

abbreviation (input) KeyCode_VK_NEGATIVE_LOCK_COMMAND_R_FORCE_ON :: KeyCode where
  "KeyCode_VK_NEGATIVE_LOCK_COMMAND_R_FORCE_ON \<equiv> 0x10000049"

abbreviation (input) KeyCode_VK_NEGATIVE_LOCK_CONTROL_L_FORCE_ON :: KeyCode where
  "KeyCode_VK_NEGATIVE_LOCK_CONTROL_L_FORCE_ON \<equiv> 0x10000050"

abbreviation (input) KeyCode_VK_NEGATIVE_LOCK_CONTROL_R_FORCE_ON :: KeyCode where
  "KeyCode_VK_NEGATIVE_LOCK_CONTROL_R_FORCE_ON \<equiv> 0x10000051"

abbreviation (input) KeyCode_VK_NEGATIVE_LOCK_FN_FORCE_ON :: KeyCode where
  "KeyCode_VK_NEGATIVE_LOCK_FN_FORCE_ON \<equiv> 0x10000052"

abbreviation (input) KeyCode_VK_NEGATIVE_LOCK_OPTION_L_FORCE_ON :: KeyCode where
  "KeyCode_VK_NEGATIVE_LOCK_OPTION_L_FORCE_ON \<equiv> 0x10000053"

abbreviation (input) KeyCode_VK_NEGATIVE_LOCK_OPTION_R_FORCE_ON :: KeyCode where
  "KeyCode_VK_NEGATIVE_LOCK_OPTION_R_FORCE_ON \<equiv> 0x10000054"

abbreviation (input) KeyCode_VK_NEGATIVE_LOCK_SHIFT_L_FORCE_ON :: KeyCode where
  "KeyCode_VK_NEGATIVE_LOCK_SHIFT_L_FORCE_ON \<equiv> 0x10000055"

abbreviation (input) KeyCode_VK_NEGATIVE_LOCK_SHIFT_R_FORCE_ON :: KeyCode where
  "KeyCode_VK_NEGATIVE_LOCK_SHIFT_R_FORCE_ON \<equiv> 0x10000056"

abbreviation (input) KeyCode_VK_NEGATIVE_LOCK_CAPSLOCK_FORCE_OFF :: KeyCode where
  "KeyCode_VK_NEGATIVE_LOCK_CAPSLOCK_FORCE_OFF \<equiv> 0x10000057"

abbreviation (input) KeyCode_VK_NEGATIVE_LOCK_COMMAND_L_FORCE_OFF :: KeyCode where
  "KeyCode_VK_NEGATIVE_LOCK_COMMAND_L_FORCE_OFF \<equiv> 0x10000058"

abbreviation (input) KeyCode_VK_NEGATIVE_LOCK_COMMAND_R_FORCE_OFF :: KeyCode where
  "KeyCode_VK_NEGATIVE_LOCK_COMMAND_R_FORCE_OFF \<equiv> 0x10000059"

abbreviation (input) KeyCode_VK_NEGATIVE_LOCK_CONTROL_L_FORCE_OFF :: KeyCode where
  "KeyCode_VK_NEGATIVE_LOCK_CONTROL_L_FORCE_OFF \<equiv> 0x10000060"

abbreviation (input) KeyCode_VK_NEGATIVE_LOCK_CONTROL_R_FORCE_OFF :: KeyCode where
  "KeyCode_VK_NEGATIVE_LOCK_CONTROL_R_FORCE_OFF \<equiv> 0x10000061"

abbreviation (input) KeyCode_VK_NEGATIVE_LOCK_FN_FORCE_OFF :: KeyCode where
  "KeyCode_VK_NEGATIVE_LOCK_FN_FORCE_OFF \<equiv> 0x10000062"

abbreviation (input) KeyCode_VK_NEGATIVE_LOCK_OPTION_L_FORCE_OFF :: KeyCode where
  "KeyCode_VK_NEGATIVE_LOCK_OPTION_L_FORCE_OFF \<equiv> 0x10000063"

abbreviation (input) KeyCode_VK_NEGATIVE_LOCK_OPTION_R_FORCE_OFF :: KeyCode where
  "KeyCode_VK_NEGATIVE_LOCK_OPTION_R_FORCE_OFF \<equiv> 0x10000064"

abbreviation (input) KeyCode_VK_NEGATIVE_LOCK_SHIFT_L_FORCE_OFF :: KeyCode where
  "KeyCode_VK_NEGATIVE_LOCK_SHIFT_L_FORCE_OFF \<equiv> 0x10000065"

abbreviation (input) KeyCode_VK_NEGATIVE_LOCK_SHIFT_R_FORCE_OFF :: KeyCode where
  "KeyCode_VK_NEGATIVE_LOCK_SHIFT_R_FORCE_OFF \<equiv> 0x10000066"

abbreviation (input) KeyCode_VK_NEGATIVE_LOCK_ALL_FORCE_OFF :: KeyCode where
  "KeyCode_VK_NEGATIVE_LOCK_ALL_FORCE_OFF \<equiv> 0x10000067"

abbreviation (input) KeyCode_VK_STICKY_CAPSLOCK :: KeyCode where
  "KeyCode_VK_STICKY_CAPSLOCK \<equiv> 0x10000068"

abbreviation (input) KeyCode_VK_STICKY_COMMAND_L :: KeyCode where
  "KeyCode_VK_STICKY_COMMAND_L \<equiv> 0x10000069"

abbreviation (input) KeyCode_VK_STICKY_COMMAND_R :: KeyCode where
  "KeyCode_VK_STICKY_COMMAND_R \<equiv> 0x10000070"

abbreviation (input) KeyCode_VK_STICKY_CONTROL_L :: KeyCode where
  "KeyCode_VK_STICKY_CONTROL_L \<equiv> 0x10000071"

abbreviation (input) KeyCode_VK_STICKY_CONTROL_R :: KeyCode where
  "KeyCode_VK_STICKY_CONTROL_R \<equiv> 0x10000072"

abbreviation (input) KeyCode_VK_STICKY_FN :: KeyCode where
  "KeyCode_VK_STICKY_FN \<equiv> 0x10000073"

abbreviation (input) KeyCode_VK_STICKY_OPTION_L :: KeyCode where
  "KeyCode_VK_STICKY_OPTION_L \<equiv> 0x10000074"

abbreviation (input) KeyCode_VK_STICKY_OPTION_R :: KeyCode where
  "KeyCode_VK_STICKY_OPTION_R \<equiv> 0x10000075"

abbreviation (input) KeyCode_VK_STICKY_SHIFT_L :: KeyCode where
  "KeyCode_VK_STICKY_SHIFT_L \<equiv> 0x10000076"

abbreviation (input) KeyCode_VK_STICKY_SHIFT_R :: KeyCode where
  "KeyCode_VK_STICKY_SHIFT_R \<equiv> 0x10000077"

abbreviation (input) KeyCode_VK_STICKY_CAPSLOCK_FORCE_ON :: KeyCode where
  "KeyCode_VK_STICKY_CAPSLOCK_FORCE_ON \<equiv> 0x10000078"

abbreviation (input) KeyCode_VK_STICKY_COMMAND_L_FORCE_ON :: KeyCode where
  "KeyCode_VK_STICKY_COMMAND_L_FORCE_ON \<equiv> 0x10000079"

abbreviation (input) KeyCode_VK_STICKY_COMMAND_R_FORCE_ON :: KeyCode where
  "KeyCode_VK_STICKY_COMMAND_R_FORCE_ON \<equiv> 0x10000080"

abbreviation (input) KeyCode_VK_STICKY_CONTROL_L_FORCE_ON :: KeyCode where
  "KeyCode_VK_STICKY_CONTROL_L_FORCE_ON \<equiv> 0x10000081"

abbreviation (input) KeyCode_VK_STICKY_CONTROL_R_FORCE_ON :: KeyCode where
  "KeyCode_VK_STICKY_CONTROL_R_FORCE_ON \<equiv> 0x10000082"

abbreviation (input) KeyCode_VK_STICKY_FN_FORCE_ON :: KeyCode where
  "KeyCode_VK_STICKY_FN_FORCE_ON \<equiv> 0x10000083"

abbreviation (input) KeyCode_VK_STICKY_OPTION_L_FORCE_ON :: KeyCode where
  "KeyCode_VK_STICKY_OPTION_L_FORCE_ON \<equiv> 0x10000084"

abbreviation (input) KeyCode_VK_STICKY_OPTION_R_FORCE_ON :: KeyCode where
  "KeyCode_VK_STICKY_OPTION_R_FORCE_ON \<equiv> 0x10000085"

abbreviation (input) KeyCode_VK_STICKY_SHIFT_L_FORCE_ON :: KeyCode where
  "KeyCode_VK_STICKY_SHIFT_L_FORCE_ON \<equiv> 0x10000086"

abbreviation (input) KeyCode_VK_STICKY_SHIFT_R_FORCE_ON :: KeyCode where
  "KeyCode_VK_STICKY_SHIFT_R_FORCE_ON \<equiv> 0x10000087"

abbreviation (input) KeyCode_VK_STICKY_CAPSLOCK_FORCE_OFF :: KeyCode where
  "KeyCode_VK_STICKY_CAPSLOCK_FORCE_OFF \<equiv> 0x10000088"

abbreviation (input) KeyCode_VK_STICKY_COMMAND_L_FORCE_OFF :: KeyCode where
  "KeyCode_VK_STICKY_COMMAND_L_FORCE_OFF \<equiv> 0x10000089"

abbreviation (input) KeyCode_VK_STICKY_COMMAND_R_FORCE_OFF :: KeyCode where
  "KeyCode_VK_STICKY_COMMAND_R_FORCE_OFF \<equiv> 0x10000090"

abbreviation (input) KeyCode_VK_STICKY_CONTROL_L_FORCE_OFF :: KeyCode where
  "KeyCode_VK_STICKY_CONTROL_L_FORCE_OFF \<equiv> 0x10000091"

abbreviation (input) KeyCode_VK_STICKY_CONTROL_R_FORCE_OFF :: KeyCode where
  "KeyCode_VK_STICKY_CONTROL_R_FORCE_OFF \<equiv> 0x10000092"

abbreviation (input) KeyCode_VK_STICKY_FN_FORCE_OFF :: KeyCode where
  "KeyCode_VK_STICKY_FN_FORCE_OFF \<equiv> 0x10000093"

abbreviation (input) KeyCode_VK_STICKY_OPTION_L_FORCE_OFF :: KeyCode where
  "KeyCode_VK_STICKY_OPTION_L_FORCE_OFF \<equiv> 0x10000094"

abbreviation (input) KeyCode_VK_STICKY_OPTION_R_FORCE_OFF :: KeyCode where
  "KeyCode_VK_STICKY_OPTION_R_FORCE_OFF \<equiv> 0x10000095"

abbreviation (input) KeyCode_VK_STICKY_SHIFT_L_FORCE_OFF :: KeyCode where
  "KeyCode_VK_STICKY_SHIFT_L_FORCE_OFF \<equiv> 0x10000096"

abbreviation (input) KeyCode_VK_STICKY_SHIFT_R_FORCE_OFF :: KeyCode where
  "KeyCode_VK_STICKY_SHIFT_R_FORCE_OFF \<equiv> 0x10000097"

abbreviation (input) KeyCode_VK_STICKY_ACTIVE_MODIFIERS_TOGGLE :: KeyCode where
  "KeyCode_VK_STICKY_ACTIVE_MODIFIERS_TOGGLE \<equiv> 0x10000098"

abbreviation (input) KeyCode_VK_STICKY_ACTIVE_MODIFIERS_FORCE_ON :: KeyCode where
  "KeyCode_VK_STICKY_ACTIVE_MODIFIERS_FORCE_ON \<equiv> 0x10000099"

abbreviation (input) KeyCode_VK_STICKY_ACTIVE_MODIFIERS_FORCE_OFF :: KeyCode where
  "KeyCode_VK_STICKY_ACTIVE_MODIFIERS_FORCE_OFF \<equiv> 0x10000100"

abbreviation (input) KeyCode_VK_STICKY_ALL_FORCE_OFF :: KeyCode where
  "KeyCode_VK_STICKY_ALL_FORCE_OFF \<equiv> 0x10000101"

abbreviation (input) KeyCode_VK_LAZY_COMMAND_L :: KeyCode where
  "KeyCode_VK_LAZY_COMMAND_L \<equiv> 0x10000102"

abbreviation (input) KeyCode_VK_LAZY_COMMAND_R :: KeyCode where
  "KeyCode_VK_LAZY_COMMAND_R \<equiv> 0x10000103"

abbreviation (input) KeyCode_VK_LAZY_CONTROL_L :: KeyCode where
  "KeyCode_VK_LAZY_CONTROL_L \<equiv> 0x10000104"

abbreviation (input) KeyCode_VK_LAZY_CONTROL_R :: KeyCode where
  "KeyCode_VK_LAZY_CONTROL_R \<equiv> 0x10000105"

abbreviation (input) KeyCode_VK_LAZY_FN :: KeyCode where
  "KeyCode_VK_LAZY_FN \<equiv> 0x10000106"

abbreviation (input) KeyCode_VK_LAZY_OPTION_L :: KeyCode where
  "KeyCode_VK_LAZY_OPTION_L \<equiv> 0x10000107"

abbreviation (input) KeyCode_VK_LAZY_OPTION_R :: KeyCode where
  "KeyCode_VK_LAZY_OPTION_R \<equiv> 0x10000108"

abbreviation (input) KeyCode_VK_LAZY_SHIFT_L :: KeyCode where
  "KeyCode_VK_LAZY_SHIFT_L \<equiv> 0x10000109"

abbreviation (input) KeyCode_VK_LAZY_SHIFT_R :: KeyCode where
  "KeyCode_VK_LAZY_SHIFT_R \<equiv> 0x10000110"

abbreviation (input) KeyCode_VK_PARTIAL_KEYDOWN :: KeyCode where
  "KeyCode_VK_PARTIAL_KEYDOWN \<equiv> 0x10000111"

abbreviation (input) KeyCode_VK_PARTIAL_KEYUP :: KeyCode where
  "KeyCode_VK_PARTIAL_KEYUP \<equiv> 0x10000112"

abbreviation (input) KeyCode_VK_CONSUMERKEY_BRIGHTNESS_DOWN :: KeyCode where
  "KeyCode_VK_CONSUMERKEY_BRIGHTNESS_DOWN \<equiv> 0x10000113"

abbreviation (input) KeyCode_VK_CONSUMERKEY_BRIGHTNESS_UP :: KeyCode where
  "KeyCode_VK_CONSUMERKEY_BRIGHTNESS_UP \<equiv> 0x10000114"

abbreviation (input) KeyCode_VK_CONSUMERKEY_KEYBOARDLIGHT_LOW :: KeyCode where
  "KeyCode_VK_CONSUMERKEY_KEYBOARDLIGHT_LOW \<equiv> 0x10000115"

abbreviation (input) KeyCode_VK_CONSUMERKEY_KEYBOARDLIGHT_HIGH :: KeyCode where
  "KeyCode_VK_CONSUMERKEY_KEYBOARDLIGHT_HIGH \<equiv> 0x10000116"

abbreviation (input) KeyCode_VK_CONSUMERKEY_MUSIC_PREV :: KeyCode where
  "KeyCode_VK_CONSUMERKEY_MUSIC_PREV \<equiv> 0x10000117"

abbreviation (input) KeyCode_VK_CONSUMERKEY_MUSIC_PLAY :: KeyCode where
  "KeyCode_VK_CONSUMERKEY_MUSIC_PLAY \<equiv> 0x10000118"

abbreviation (input) KeyCode_VK_CONSUMERKEY_MUSIC_NEXT :: KeyCode where
  "KeyCode_VK_CONSUMERKEY_MUSIC_NEXT \<equiv> 0x10000119"

abbreviation (input) KeyCode_VK_CONSUMERKEY_VOLUME_MUTE :: KeyCode where
  "KeyCode_VK_CONSUMERKEY_VOLUME_MUTE \<equiv> 0x10000120"

abbreviation (input) KeyCode_VK_CONSUMERKEY_VOLUME_DOWN :: KeyCode where
  "KeyCode_VK_CONSUMERKEY_VOLUME_DOWN \<equiv> 0x10000121"

abbreviation (input) KeyCode_VK_CONSUMERKEY_VOLUME_UP :: KeyCode where
  "KeyCode_VK_CONSUMERKEY_VOLUME_UP \<equiv> 0x10000122"

abbreviation (input) KeyCode_VK_CONSUMERKEY_EJECT :: KeyCode where
  "KeyCode_VK_CONSUMERKEY_EJECT \<equiv> 0x10000123"

abbreviation (input) KeyCode_VK_CONSUMERKEY_POWER :: KeyCode where
  "KeyCode_VK_CONSUMERKEY_POWER \<equiv> 0x10000124"

abbreviation (input) KeyCode_VK_MOUSEKEY_UP :: KeyCode where
  "KeyCode_VK_MOUSEKEY_UP \<equiv> 0x10000125"

abbreviation (input) KeyCode_VK_MOUSEKEY_DOWN :: KeyCode where
  "KeyCode_VK_MOUSEKEY_DOWN \<equiv> 0x10000126"

abbreviation (input) KeyCode_VK_MOUSEKEY_LEFT :: KeyCode where
  "KeyCode_VK_MOUSEKEY_LEFT \<equiv> 0x10000127"

abbreviation (input) KeyCode_VK_MOUSEKEY_RIGHT :: KeyCode where
  "KeyCode_VK_MOUSEKEY_RIGHT \<equiv> 0x10000128"

abbreviation (input) KeyCode_VK_MOUSEKEY_DIAGONAL_NE :: KeyCode where
  "KeyCode_VK_MOUSEKEY_DIAGONAL_NE \<equiv> 0x10000129"

abbreviation (input) KeyCode_VK_MOUSEKEY_DIAGONAL_NW :: KeyCode where
  "KeyCode_VK_MOUSEKEY_DIAGONAL_NW \<equiv> 0x10000130"

abbreviation (input) KeyCode_VK_MOUSEKEY_DIAGONAL_SE :: KeyCode where
  "KeyCode_VK_MOUSEKEY_DIAGONAL_SE \<equiv> 0x10000131"

abbreviation (input) KeyCode_VK_MOUSEKEY_DIAGONAL_SW :: KeyCode where
  "KeyCode_VK_MOUSEKEY_DIAGONAL_SW \<equiv> 0x10000132"

abbreviation (input) KeyCode_VK_MOUSEKEY_SCROLL_UP :: KeyCode where
  "KeyCode_VK_MOUSEKEY_SCROLL_UP \<equiv> 0x10000133"

abbreviation (input) KeyCode_VK_MOUSEKEY_SCROLL_DOWN :: KeyCode where
  "KeyCode_VK_MOUSEKEY_SCROLL_DOWN \<equiv> 0x10000134"

abbreviation (input) KeyCode_VK_MOUSEKEY_SCROLL_LEFT :: KeyCode where
  "KeyCode_VK_MOUSEKEY_SCROLL_LEFT \<equiv> 0x10000135"

abbreviation (input) KeyCode_VK_MOUSEKEY_SCROLL_RIGHT :: KeyCode where
  "KeyCode_VK_MOUSEKEY_SCROLL_RIGHT \<equiv> 0x10000136"

abbreviation (input) KeyCode_VK_MOUSEKEY_HIGHSPEED :: KeyCode where
  "KeyCode_VK_MOUSEKEY_HIGHSPEED \<equiv> 0x10000137"

abbreviation (input) KeyCode_VK_MOUSEKEY_FIXED_DISTANCE_UP :: KeyCode where
  "KeyCode_VK_MOUSEKEY_FIXED_DISTANCE_UP \<equiv> 0x10000138"

abbreviation (input) KeyCode_VK_MOUSEKEY_FIXED_DISTANCE_DOWN :: KeyCode where
  "KeyCode_VK_MOUSEKEY_FIXED_DISTANCE_DOWN \<equiv> 0x10000139"

abbreviation (input) KeyCode_VK_MOUSEKEY_FIXED_DISTANCE_LEFT :: KeyCode where
  "KeyCode_VK_MOUSEKEY_FIXED_DISTANCE_LEFT \<equiv> 0x10000140"

abbreviation (input) KeyCode_VK_MOUSEKEY_FIXED_DISTANCE_RIGHT :: KeyCode where
  "KeyCode_VK_MOUSEKEY_FIXED_DISTANCE_RIGHT \<equiv> 0x10000141"

abbreviation (input) KeyCode_VK_MOUSEKEY_FIXED_DISTANCE_SCROLL_UP :: KeyCode where
  "KeyCode_VK_MOUSEKEY_FIXED_DISTANCE_SCROLL_UP \<equiv> 0x10000142"

abbreviation (input) KeyCode_VK_MOUSEKEY_FIXED_DISTANCE_SCROLL_DOWN :: KeyCode where
  "KeyCode_VK_MOUSEKEY_FIXED_DISTANCE_SCROLL_DOWN \<equiv> 0x10000143"

abbreviation (input) KeyCode_VK_MOUSEKEY_FIXED_DISTANCE_SCROLL_LEFT :: KeyCode where
  "KeyCode_VK_MOUSEKEY_FIXED_DISTANCE_SCROLL_LEFT \<equiv> 0x10000144"

abbreviation (input) KeyCode_VK_MOUSEKEY_FIXED_DISTANCE_SCROLL_RIGHT :: KeyCode where
  "KeyCode_VK_MOUSEKEY_FIXED_DISTANCE_SCROLL_RIGHT \<equiv> 0x10000145"

abbreviation (input) KeyCode_VK_MOUSEKEY_BUTTON_LEFT :: KeyCode where
  "KeyCode_VK_MOUSEKEY_BUTTON_LEFT \<equiv> 0x10000146"

abbreviation (input) KeyCode_VK_MOUSEKEY_BUTTON_MIDDLE :: KeyCode where
  "KeyCode_VK_MOUSEKEY_BUTTON_MIDDLE \<equiv> 0x10000147"

abbreviation (input) KeyCode_VK_MOUSEKEY_BUTTON_RIGHT :: KeyCode where
  "KeyCode_VK_MOUSEKEY_BUTTON_RIGHT \<equiv> 0x10000148"

abbreviation (input) KeyCode_VK_MOUSEKEY_BUTTON_BUTTON4 :: KeyCode where
  "KeyCode_VK_MOUSEKEY_BUTTON_BUTTON4 \<equiv> 0x10000149"

abbreviation (input) KeyCode_VK_MOUSEKEY_BUTTON_BUTTON5 :: KeyCode where
  "KeyCode_VK_MOUSEKEY_BUTTON_BUTTON5 \<equiv> 0x10000150"

abbreviation (input) KeyCode_VK_MOUSEKEY_BUTTON_BUTTON6 :: KeyCode where
  "KeyCode_VK_MOUSEKEY_BUTTON_BUTTON6 \<equiv> 0x10000151"

abbreviation (input) KeyCode_VK_MOUSEKEY_BUTTON_BUTTON7 :: KeyCode where
  "KeyCode_VK_MOUSEKEY_BUTTON_BUTTON7 \<equiv> 0x10000152"

abbreviation (input) KeyCode_VK_MOUSEKEY_BUTTON_BUTTON8 :: KeyCode where
  "KeyCode_VK_MOUSEKEY_BUTTON_BUTTON8 \<equiv> 0x10000153"

abbreviation (input) KeyCode_VK_MOUSEKEY_BUTTON_BUTTON9 :: KeyCode where
  "KeyCode_VK_MOUSEKEY_BUTTON_BUTTON9 \<equiv> 0x10000154"

abbreviation (input) KeyCode_VK_MOUSEKEY_BUTTON_BUTTON10 :: KeyCode where
  "KeyCode_VK_MOUSEKEY_BUTTON_BUTTON10 \<equiv> 0x10000155"

abbreviation (input) KeyCode_VK_MOUSEKEY_BUTTON_BUTTON11 :: KeyCode where
  "KeyCode_VK_MOUSEKEY_BUTTON_BUTTON11 \<equiv> 0x10000156"

abbreviation (input) KeyCode_VK_MOUSEKEY_BUTTON_BUTTON12 :: KeyCode where
  "KeyCode_VK_MOUSEKEY_BUTTON_BUTTON12 \<equiv> 0x10000157"

abbreviation (input) KeyCode_VK_MOUSEKEY_BUTTON_BUTTON13 :: KeyCode where
  "KeyCode_VK_MOUSEKEY_BUTTON_BUTTON13 \<equiv> 0x10000158"

abbreviation (input) KeyCode_VK_MOUSEKEY_BUTTON_BUTTON14 :: KeyCode where
  "KeyCode_VK_MOUSEKEY_BUTTON_BUTTON14 \<equiv> 0x10000159"

abbreviation (input) KeyCode_VK_MOUSEKEY_BUTTON_BUTTON15 :: KeyCode where
  "KeyCode_VK_MOUSEKEY_BUTTON_BUTTON15 \<equiv> 0x10000160"

abbreviation (input) KeyCode_VK_MOUSEKEY_BUTTON_BUTTON16 :: KeyCode where
  "KeyCode_VK_MOUSEKEY_BUTTON_BUTTON16 \<equiv> 0x10000161"

abbreviation (input) KeyCode_VK_MOUSEKEY_LOCK_BUTTON_LEFT :: KeyCode where
  "KeyCode_VK_MOUSEKEY_LOCK_BUTTON_LEFT \<equiv> 0x10000162"

abbreviation (input) KeyCode_VK_MOUSEKEY_LOCK_BUTTON_MIDDLE :: KeyCode where
  "KeyCode_VK_MOUSEKEY_LOCK_BUTTON_MIDDLE \<equiv> 0x10000163"

abbreviation (input) KeyCode_VK_MOUSEKEY_LOCK_BUTTON_RIGHT :: KeyCode where
  "KeyCode_VK_MOUSEKEY_LOCK_BUTTON_RIGHT \<equiv> 0x10000164"

abbreviation (input) KeyCode_VK_MOUSEKEY_LOCK_BUTTON_BUTTON4 :: KeyCode where
  "KeyCode_VK_MOUSEKEY_LOCK_BUTTON_BUTTON4 \<equiv> 0x10000165"

abbreviation (input) KeyCode_VK_MOUSEKEY_LOCK_BUTTON_BUTTON5 :: KeyCode where
  "KeyCode_VK_MOUSEKEY_LOCK_BUTTON_BUTTON5 \<equiv> 0x10000166"

abbreviation (input) KeyCode_VK_MOUSEKEY_LOCK_BUTTON_BUTTON6 :: KeyCode where
  "KeyCode_VK_MOUSEKEY_LOCK_BUTTON_BUTTON6 \<equiv> 0x10000167"

abbreviation (input) KeyCode_VK_MOUSEKEY_LOCK_BUTTON_BUTTON7 :: KeyCode where
  "KeyCode_VK_MOUSEKEY_LOCK_BUTTON_BUTTON7 \<equiv> 0x10000168"

abbreviation (input) KeyCode_VK_MOUSEKEY_LOCK_BUTTON_BUTTON8 :: KeyCode where
  "KeyCode_VK_MOUSEKEY_LOCK_BUTTON_BUTTON8 \<equiv> 0x10000169"

abbreviation (input) KeyCode_VK_MOUSEKEY_LOCK_BUTTON_BUTTON9 :: KeyCode where
  "KeyCode_VK_MOUSEKEY_LOCK_BUTTON_BUTTON9 \<equiv> 0x10000170"

abbreviation (input) KeyCode_VK_MOUSEKEY_LOCK_BUTTON_BUTTON10 :: KeyCode where
  "KeyCode_VK_MOUSEKEY_LOCK_BUTTON_BUTTON10 \<equiv> 0x10000171"

abbreviation (input) KeyCode_VK_MOUSEKEY_LOCK_BUTTON_BUTTON11 :: KeyCode where
  "KeyCode_VK_MOUSEKEY_LOCK_BUTTON_BUTTON11 \<equiv> 0x10000172"

abbreviation (input) KeyCode_VK_MOUSEKEY_LOCK_BUTTON_BUTTON12 :: KeyCode where
  "KeyCode_VK_MOUSEKEY_LOCK_BUTTON_BUTTON12 \<equiv> 0x10000173"

abbreviation (input) KeyCode_VK_MOUSEKEY_LOCK_BUTTON_BUTTON13 :: KeyCode where
  "KeyCode_VK_MOUSEKEY_LOCK_BUTTON_BUTTON13 \<equiv> 0x10000174"

abbreviation (input) KeyCode_VK_MOUSEKEY_LOCK_BUTTON_BUTTON14 :: KeyCode where
  "KeyCode_VK_MOUSEKEY_LOCK_BUTTON_BUTTON14 \<equiv> 0x10000175"

abbreviation (input) KeyCode_VK_MOUSEKEY_LOCK_BUTTON_BUTTON15 :: KeyCode where
  "KeyCode_VK_MOUSEKEY_LOCK_BUTTON_BUTTON15 \<equiv> 0x10000176"

abbreviation (input) KeyCode_VK_MOUSEKEY_LOCK_BUTTON_BUTTON16 :: KeyCode where
  "KeyCode_VK_MOUSEKEY_LOCK_BUTTON_BUTTON16 \<equiv> 0x10000177"

abbreviation (input) KeyCode_VK_MOUSEKEY_LOCK_BUTTON_ALL_FORCE_OFF :: KeyCode where
  "KeyCode_VK_MOUSEKEY_LOCK_BUTTON_ALL_FORCE_OFF \<equiv> 0x10000178"

abbreviation (input) KeyCode_VK_IOHIDPOSTEVENT_NX_KEYTYPE_SOUND_UP :: KeyCode where
  "KeyCode_VK_IOHIDPOSTEVENT_NX_KEYTYPE_SOUND_UP \<equiv> 0x10000179"

abbreviation (input) KeyCode_VK_IOHIDPOSTEVENT_NX_KEYTYPE_SOUND_DOWN :: KeyCode where
  "KeyCode_VK_IOHIDPOSTEVENT_NX_KEYTYPE_SOUND_DOWN \<equiv> 0x10000180"

abbreviation (input) KeyCode_VK_IOHIDPOSTEVENT_NX_KEYTYPE_BRIGHTNESS_UP :: KeyCode where
  "KeyCode_VK_IOHIDPOSTEVENT_NX_KEYTYPE_BRIGHTNESS_UP \<equiv> 0x10000181"

abbreviation (input) KeyCode_VK_IOHIDPOSTEVENT_NX_KEYTYPE_BRIGHTNESS_DOWN :: KeyCode where
  "KeyCode_VK_IOHIDPOSTEVENT_NX_KEYTYPE_BRIGHTNESS_DOWN \<equiv> 0x10000182"

abbreviation (input) KeyCode_VK_IOHIDPOSTEVENT_NX_KEYTYPE_MUTE :: KeyCode where
  "KeyCode_VK_IOHIDPOSTEVENT_NX_KEYTYPE_MUTE \<equiv> 0x10000183"

abbreviation (input) KeyCode_VK_IOHIDPOSTEVENT_NX_KEYTYPE_PLAY :: KeyCode where
  "KeyCode_VK_IOHIDPOSTEVENT_NX_KEYTYPE_PLAY \<equiv> 0x10000184"

abbreviation (input) KeyCode_VK_IOHIDPOSTEVENT_NX_KEYTYPE_NEXT :: KeyCode where
  "KeyCode_VK_IOHIDPOSTEVENT_NX_KEYTYPE_NEXT \<equiv> 0x10000185"

abbreviation (input) KeyCode_VK_IOHIDPOSTEVENT_NX_KEYTYPE_PREVIOUS :: KeyCode where
  "KeyCode_VK_IOHIDPOSTEVENT_NX_KEYTYPE_PREVIOUS \<equiv> 0x10000186"

abbreviation (input) KeyCode_VK_IOHIDPOSTEVENT_NX_KEYTYPE_ILLUMINATION_UP :: KeyCode where
  "KeyCode_VK_IOHIDPOSTEVENT_NX_KEYTYPE_ILLUMINATION_UP \<equiv> 0x10000187"

abbreviation (input) KeyCode_VK_IOHIDPOSTEVENT_NX_KEYTYPE_ILLUMINATION_DOWN :: KeyCode where
  "KeyCode_VK_IOHIDPOSTEVENT_NX_KEYTYPE_ILLUMINATION_DOWN \<equiv> 0x10000188"

abbreviation (input) KeyCode_VK_IOHIDPOSTEVENT_NX_KEYTYPE_ILLUMINATION_TOGGLE :: KeyCode where
  "KeyCode_VK_IOHIDPOSTEVENT_NX_KEYTYPE_ILLUMINATION_TOGGLE \<equiv> 0x10000189"

abbreviation (input) KeyCode_VK_IOHIDPOSTEVENT_NX_POWER_KEY :: KeyCode where
  "KeyCode_VK_IOHIDPOSTEVENT_NX_POWER_KEY \<equiv> 0x10000190"

abbreviation (input) KeyCode_VK_IOHIKEYBOARD_TOGGLE_NUMLOCK :: KeyCode where
  "KeyCode_VK_IOHIKEYBOARD_TOGGLE_NUMLOCK \<equiv> 0x10000191"

abbreviation (input) KeyCode_VK_KEYTOKEY_DELAYED_ACTION_DROP_EVENT :: KeyCode where
  "KeyCode_VK_KEYTOKEY_DELAYED_ACTION_DROP_EVENT \<equiv> 0x10000192"

abbreviation (input) KeyCode_VK_JIS_TOGGLE_EISUU_KANA :: KeyCode where
  "KeyCode_VK_JIS_TOGGLE_EISUU_KANA \<equiv> 0x10000193"

abbreviation (input) KeyCode_VK_JIS_BACKSLASH :: KeyCode where
  "KeyCode_VK_JIS_BACKSLASH \<equiv> 0x10000194"

abbreviation (input) KeyCode_VK_JIS_YEN :: KeyCode where
  "KeyCode_VK_JIS_YEN \<equiv> 0x10000195"

section \<open>\<^verbatim>\<open>ConsumerKeyCode.data\<close>\<close>

abbreviation (input) ConsumerKeyCode_BRIGHTNESS_DOWN :: ConsumerKeyCode where
  "ConsumerKeyCode_BRIGHTNESS_DOWN \<equiv> 0x3"

abbreviation (input) ConsumerKeyCode_BRIGHTNESS_UP :: ConsumerKeyCode where
  "ConsumerKeyCode_BRIGHTNESS_UP \<equiv> 0x2"

abbreviation (input) ConsumerKeyCode_KEYBOARDLIGHT_OFF :: ConsumerKeyCode where
  "ConsumerKeyCode_KEYBOARDLIGHT_OFF \<equiv> 0x17"

abbreviation (input) ConsumerKeyCode_KEYBOARDLIGHT_LOW :: ConsumerKeyCode where
  "ConsumerKeyCode_KEYBOARDLIGHT_LOW \<equiv> 0x16"

abbreviation (input) ConsumerKeyCode_KEYBOARDLIGHT_HIGH :: ConsumerKeyCode where
  "ConsumerKeyCode_KEYBOARDLIGHT_HIGH \<equiv> 0x15"

abbreviation (input) ConsumerKeyCode_MUSIC_PREV :: ConsumerKeyCode where
  "ConsumerKeyCode_MUSIC_PREV \<equiv> 0x14"

abbreviation (input) ConsumerKeyCode_MUSIC_PLAY :: ConsumerKeyCode where
  "ConsumerKeyCode_MUSIC_PLAY \<equiv> 0x10"

abbreviation (input) ConsumerKeyCode_MUSIC_NEXT :: ConsumerKeyCode where
  "ConsumerKeyCode_MUSIC_NEXT \<equiv> 0x13"

abbreviation (input) ConsumerKeyCode_MUSIC_PREV_18 :: ConsumerKeyCode where
  "ConsumerKeyCode_MUSIC_PREV_18 \<equiv> 0x12"

abbreviation (input) ConsumerKeyCode_MUSIC_PREV_0x12 :: ConsumerKeyCode where
  "ConsumerKeyCode_MUSIC_PREV_0x12 \<equiv> 0x12"

abbreviation (input) ConsumerKeyCode_MUSIC_NEXT_17 :: ConsumerKeyCode where
  "ConsumerKeyCode_MUSIC_NEXT_17 \<equiv> 0x11"

abbreviation (input) ConsumerKeyCode_MUSIC_NEXT_0x11 :: ConsumerKeyCode where
  "ConsumerKeyCode_MUSIC_NEXT_0x11 \<equiv> 0x11"

abbreviation (input) ConsumerKeyCode_VOLUME_MUTE :: ConsumerKeyCode where
  "ConsumerKeyCode_VOLUME_MUTE \<equiv> 0x7"

abbreviation (input) ConsumerKeyCode_VOLUME_DOWN :: ConsumerKeyCode where
  "ConsumerKeyCode_VOLUME_DOWN \<equiv> 0x1"

abbreviation (input) ConsumerKeyCode_VOLUME_UP :: ConsumerKeyCode where
  "ConsumerKeyCode_VOLUME_UP \<equiv> 0x0"

abbreviation (input) ConsumerKeyCode_EJECT :: ConsumerKeyCode where
  "ConsumerKeyCode_EJECT \<equiv> 0xe"

abbreviation (input) ConsumerKeyCode_POWER :: ConsumerKeyCode where
  "ConsumerKeyCode_POWER \<equiv> 0x6"

abbreviation (input) ConsumerKeyCode_NUMLOCK :: ConsumerKeyCode where
  "ConsumerKeyCode_NUMLOCK \<equiv> 0xa"

abbreviation (input) ConsumerKeyCode_VIDEO_MIRROR :: ConsumerKeyCode where
  "ConsumerKeyCode_VIDEO_MIRROR \<equiv> 0xf"

abbreviation (input) ConsumerKeyCode_VK_PSEUDO_KEY :: ConsumerKeyCode where
  "ConsumerKeyCode_VK_PSEUDO_KEY \<equiv> 0x10000001"

abbreviation (input) ConsumerKeyCode_VK_NONE :: ConsumerKeyCode where
  "ConsumerKeyCode_VK_NONE \<equiv> 0x10000002"

section \<open>\<^verbatim>\<open>PointingButton.data\<close>\<close>

abbreviation (input) PointingButton_NONE :: PointingButton where
  "PointingButton_NONE \<equiv> 0x0"

abbreviation (input) PointingButton_RIGHT :: PointingButton where
  "PointingButton_RIGHT \<equiv> 0x1"

abbreviation (input) PointingButton_MIDDLE :: PointingButton where
  "PointingButton_MIDDLE \<equiv> 0x2"

abbreviation (input) PointingButton_LEFT :: PointingButton where
  "PointingButton_LEFT \<equiv> 0x4"

abbreviation (input) PointingButton_BUTTON4 :: PointingButton where
  "PointingButton_BUTTON4 \<equiv> 0x8"

abbreviation (input) PointingButton_BUTTON5 :: PointingButton where
  "PointingButton_BUTTON5 \<equiv> 0x10"

abbreviation (input) PointingButton_BUTTON6 :: PointingButton where
  "PointingButton_BUTTON6 \<equiv> 0x20"

abbreviation (input) PointingButton_BUTTON7 :: PointingButton where
  "PointingButton_BUTTON7 \<equiv> 0x40"

abbreviation (input) PointingButton_BUTTON8 :: PointingButton where
  "PointingButton_BUTTON8 \<equiv> 0x80"

abbreviation (input) PointingButton_BUTTON9 :: PointingButton where
  "PointingButton_BUTTON9 \<equiv> 0x100"

abbreviation (input) PointingButton_BUTTON10 :: PointingButton where
  "PointingButton_BUTTON10 \<equiv> 0x200"

abbreviation (input) PointingButton_BUTTON11 :: PointingButton where
  "PointingButton_BUTTON11 \<equiv> 0x400"

abbreviation (input) PointingButton_BUTTON12 :: PointingButton where
  "PointingButton_BUTTON12 \<equiv> 0x800"

abbreviation (input) PointingButton_BUTTON13 :: PointingButton where
  "PointingButton_BUTTON13 \<equiv> 0x1000"

abbreviation (input) PointingButton_BUTTON14 :: PointingButton where
  "PointingButton_BUTTON14 \<equiv> 0x2000"

abbreviation (input) PointingButton_BUTTON15 :: PointingButton where
  "PointingButton_BUTTON15 \<equiv> 0x4000"

abbreviation (input) PointingButton_BUTTON16 :: PointingButton where
  "PointingButton_BUTTON16 \<equiv> 0x8000"

abbreviation (input) PointingButton_BUTTON17 :: PointingButton where
  "PointingButton_BUTTON17 \<equiv> 0x10000"

abbreviation (input) PointingButton_BUTTON18 :: PointingButton where
  "PointingButton_BUTTON18 \<equiv> 0x20000"

abbreviation (input) PointingButton_BUTTON19 :: PointingButton where
  "PointingButton_BUTTON19 \<equiv> 0x40000"

abbreviation (input) PointingButton_BUTTON20 :: PointingButton where
  "PointingButton_BUTTON20 \<equiv> 0x80000"

abbreviation (input) PointingButton_BUTTON21 :: PointingButton where
  "PointingButton_BUTTON21 \<equiv> 0x100000"

abbreviation (input) PointingButton_BUTTON22 :: PointingButton where
  "PointingButton_BUTTON22 \<equiv> 0x200000"

abbreviation (input) PointingButton_BUTTON23 :: PointingButton where
  "PointingButton_BUTTON23 \<equiv> 0x400000"

abbreviation (input) PointingButton_BUTTON24 :: PointingButton where
  "PointingButton_BUTTON24 \<equiv> 0x800000"

abbreviation (input) PointingButton_BUTTON25 :: PointingButton where
  "PointingButton_BUTTON25 \<equiv> 0x1000000"

abbreviation (input) PointingButton_BUTTON26 :: PointingButton where
  "PointingButton_BUTTON26 \<equiv> 0x2000000"

abbreviation (input) PointingButton_BUTTON27 :: PointingButton where
  "PointingButton_BUTTON27 \<equiv> 0x4000000"

abbreviation (input) PointingButton_BUTTON28 :: PointingButton where
  "PointingButton_BUTTON28 \<equiv> 0x8000000"

abbreviation (input) PointingButton_BUTTON29 :: PointingButton where
  "PointingButton_BUTTON29 \<equiv> 0x10000000"

abbreviation (input) PointingButton_BUTTON30 :: PointingButton where
  "PointingButton_BUTTON30 \<equiv> 0x20000000"

abbreviation (input) PointingButton_BUTTON31 :: PointingButton where
  "PointingButton_BUTTON31 \<equiv> 0x40000000"

abbreviation (input) PointingButton_BUTTON32 :: PointingButton where
  "PointingButton_BUTTON32 \<equiv> 0x80000000"

section \<open>\<^verbatim>\<open>ScrollWheel.data\<close>\<close>

abbreviation (input) ScrollWheel_NONE :: ScrollWheel where
  "ScrollWheel_NONE \<equiv> 1"

abbreviation (input) ScrollWheel_UP :: ScrollWheel where
  "ScrollWheel_UP \<equiv> 2"

abbreviation (input) ScrollWheel_DOWN :: ScrollWheel where
  "ScrollWheel_DOWN \<equiv> 3"

abbreviation (input) ScrollWheel_LEFT :: ScrollWheel where
  "ScrollWheel_LEFT \<equiv> 4"

abbreviation (input) ScrollWheel_RIGHT :: ScrollWheel where
  "ScrollWheel_RIGHT \<equiv> 5"

section \<open>\<^verbatim>\<open>PointingRelative.data\<close>\<close>

abbreviation (input) PointingRelative_NONE :: PointingRelative where
  "PointingRelative_NONE \<equiv> 1"

abbreviation (input) PointingRelative_UP :: PointingRelative where
  "PointingRelative_UP \<equiv> 2"

abbreviation (input) PointingRelative_DOWN :: PointingRelative where
  "PointingRelative_DOWN \<equiv> 3"

abbreviation (input) PointingRelative_LEFT :: PointingRelative where
  "PointingRelative_LEFT \<equiv> 4"

abbreviation (input) PointingRelative_RIGHT :: PointingRelative where
  "PointingRelative_RIGHT \<equiv> 5"

section \<open>\<^verbatim>\<open>KeyboardType.data\<close>\<close>

abbreviation (input) KeyboardType_MACBOOK :: KeyboardType where
  "KeyboardType_MACBOOK \<equiv> 37"

abbreviation (input) KeyboardType_JIS_MACBOOK_2008 :: KeyboardType where
  "KeyboardType_JIS_MACBOOK_2008 \<equiv> 45"

section \<open>\<^verbatim>\<open>Option.data\<close>\<close>

abbreviation (input) Option_IGNORE_PASSTHROUGH :: Option where
  "Option_IGNORE_PASSTHROUGH \<equiv> 1"

abbreviation (input) Option_KEYOVERLAIDMODIFIER_REPEAT :: Option where
  "Option_KEYOVERLAIDMODIFIER_REPEAT \<equiv> 2"

abbreviation (input) Option_KEYOVERLAIDMODIFIER_REPEAT_TOKEYS :: Option where
  "Option_KEYOVERLAIDMODIFIER_REPEAT_TOKEYS \<equiv> 3"

abbreviation (input) Option_SIMULTANEOUSKEYPRESSES_RAW :: Option where
  "Option_SIMULTANEOUSKEYPRESSES_RAW \<equiv> 4"

abbreviation (input) Option_SIMULTANEOUSKEYPRESSES_POST_FROM_EVENTS_AS_RAW :: Option where
  "Option_SIMULTANEOUSKEYPRESSES_POST_FROM_EVENTS_AS_RAW \<equiv> 5"

abbreviation (input) Option_SIMULTANEOUSKEYPRESSES_STRICT_KEY_ORDER :: Option where
  "Option_SIMULTANEOUSKEYPRESSES_STRICT_KEY_ORDER \<equiv> 6"

abbreviation (input) Option_NOREPEAT :: Option where
  "Option_NOREPEAT \<equiv> 7"

abbreviation (input) Option_KEYTOKEY_BEFORE_KEYDOWN :: Option where
  "Option_KEYTOKEY_BEFORE_KEYDOWN \<equiv> 8"

abbreviation (input) Option_KEYTOKEY_AFTER_KEYUP :: Option where
  "Option_KEYTOKEY_AFTER_KEYUP \<equiv> 9"

abbreviation (input) Option_KEYTOKEY_DELAYED_ACTION :: Option where
  "Option_KEYTOKEY_DELAYED_ACTION \<equiv> 10"

abbreviation (input) Option_KEYTOKEY_DELAYED_ACTION_CANCELED_BY :: Option where
  "Option_KEYTOKEY_DELAYED_ACTION_CANCELED_BY \<equiv> 11"

abbreviation (input) Option_KEYTOKEY_DELAYED_ACTION_CANCELED_DEFAULT :: Option where
  "Option_KEYTOKEY_DELAYED_ACTION_CANCELED_DEFAULT \<equiv> 12"

abbreviation (input) Option_KEYTOKEY_INCREASE_MODIFIER_FLAGS :: Option where
  "Option_KEYTOKEY_INCREASE_MODIFIER_FLAGS \<equiv> 13"

abbreviation (input) Option_POINTINGRELATIVETOSCROLL_TOFLAGS :: Option where
  "Option_POINTINGRELATIVETOSCROLL_TOFLAGS \<equiv> 14"

abbreviation (input) Option_POINTINGRELATIVETOSCROLL_TOKEYS :: Option where
  "Option_POINTINGRELATIVETOSCROLL_TOKEYS \<equiv> 15"

abbreviation (input) Option_DROPALLKEYS_DROP_KEY :: Option where
  "Option_DROPALLKEYS_DROP_KEY \<equiv> 16"

abbreviation (input) Option_DROPALLKEYS_DROP_CONSUMERKEY :: Option where
  "Option_DROPALLKEYS_DROP_CONSUMERKEY \<equiv> 17"

abbreviation (input) Option_DROPALLKEYS_DROP_POINTINGBUTTON :: Option where
  "Option_DROPALLKEYS_DROP_POINTINGBUTTON \<equiv> 18"

abbreviation (input) Option_DROPSCROLLWHEEL_DROP_HORIZONTAL_SCROLL :: Option where
  "Option_DROPSCROLLWHEEL_DROP_HORIZONTAL_SCROLL \<equiv> 19"

abbreviation (input) Option_DROPSCROLLWHEEL_DROP_MOMENTUM_SCROLL :: Option where
  "Option_DROPSCROLLWHEEL_DROP_MOMENTUM_SCROLL \<equiv> 20"

abbreviation (input) Option_FLIPPOINTINGRELATIVE_HORIZONTAL :: Option where
  "Option_FLIPPOINTINGRELATIVE_HORIZONTAL \<equiv> 21"

abbreviation (input) Option_FLIPPOINTINGRELATIVE_VERTICAL :: Option where
  "Option_FLIPPOINTINGRELATIVE_VERTICAL \<equiv> 22"

abbreviation (input) Option_FLIPSCROLLWHEEL_HORIZONTAL :: Option where
  "Option_FLIPSCROLLWHEEL_HORIZONTAL \<equiv> 23"

abbreviation (input) Option_FLIPSCROLLWHEEL_VERTICAL :: Option where
  "Option_FLIPSCROLLWHEEL_VERTICAL \<equiv> 24"

abbreviation (input) Option_FLIPSCROLLWHEEL_ROTATE :: Option where
  "Option_FLIPSCROLLWHEEL_ROTATE \<equiv> 25"

abbreviation (input) Option_UNINTERRUPTIBLE_BY_SCROLL_WHEEL :: Option where
  "Option_UNINTERRUPTIBLE_BY_SCROLL_WHEEL \<equiv> 26"

abbreviation (input) Option_FORCENUMLOCKON_FORCE_OFF :: Option where
  "Option_FORCENUMLOCKON_FORCE_OFF \<equiv> 27"

abbreviation (input) Option_USE_SEPARATOR :: Option where
  "Option_USE_SEPARATOR \<equiv> 28"

abbreviation (input) Option_SEPARATOR :: Option where
  "Option_SEPARATOR \<equiv> 29"

section \<open>\<^verbatim>\<open>DeviceVendor.data\<close>\<close>

abbreviation (input) DeviceVendor_APPLE_COMPUTER :: DeviceVendor where
  "DeviceVendor_APPLE_COMPUTER \<equiv> 0x5ac"

abbreviation (input) DeviceVendor_Apple_Bluetooth :: DeviceVendor where
  "DeviceVendor_Apple_Bluetooth \<equiv> 0x4c"

abbreviation (input) DeviceVendor_PSEUDO :: DeviceVendor where
  "DeviceVendor_PSEUDO \<equiv> 0x0"

abbreviation (input) DeviceVendor_LOGITECH :: DeviceVendor where
  "DeviceVendor_LOGITECH \<equiv> 0x46d"

abbreviation (input) DeviceVendor_Razer :: DeviceVendor where
  "DeviceVendor_Razer \<equiv> 0x1532"

abbreviation (input) DeviceVendor_Mionix :: DeviceVendor where
  "DeviceVendor_Mionix \<equiv> 0x22d4"

section \<open>\<^verbatim>\<open>DeviceProduct.data\<close>\<close>

abbreviation (input) DeviceProduct_APPLE_INTERNAL_KEYBOARD_TRACKPAD_0x0218 :: DeviceProduct where
  "DeviceProduct_APPLE_INTERNAL_KEYBOARD_TRACKPAD_0x0218 \<equiv> 0x218"

abbreviation (input) DeviceProduct_LOGITECH_CORDLESS_PRESENTER :: DeviceProduct where
  "DeviceProduct_LOGITECH_CORDLESS_PRESENTER \<equiv> 0xc515"

abbreviation (input) DeviceProduct_LOGITECH_USB_HEADSET :: DeviceProduct where
  "DeviceProduct_LOGITECH_USB_HEADSET \<equiv> 0xa0b"

abbreviation (input) DeviceProduct_Logitech_Bluetooth_Mouse_M555b :: DeviceProduct where
  "DeviceProduct_Logitech_Bluetooth_Mouse_M555b \<equiv> 0xb009"

abbreviation (input) DeviceProduct_Razer_DeathAdder_Chroma :: DeviceProduct where
  "DeviceProduct_Razer_DeathAdder_Chroma \<equiv> 0x43"

abbreviation (input) DeviceProduct_Mionix_Naos_7000 :: DeviceProduct where
  "DeviceProduct_Mionix_Naos_7000 \<equiv> 0x130c"

abbreviation (input) DeviceProduct_PSEUDO :: DeviceProduct where
  "DeviceProduct_PSEUDO \<equiv> 0x0"

abbreviation (input) DeviceProduct_ANY :: DeviceProduct where
  "DeviceProduct_ANY \<equiv> 0x0"

section \<open>\<^verbatim>\<open>DeviceLocation.data\<close>\<close>

abbreviation (input) DeviceLocation_ANY :: DeviceLocation where
  "DeviceLocation_ANY \<equiv> 0x0"

section \<open>\<^verbatim>\<open>InputSource.data\<close>\<close>

abbreviation (input) InputSource_JAPANESE :: InputSource where
  "InputSource_JAPANESE \<equiv> 3"

end
