(* ===== verification/KeyTypes.thy ===== *)
theory KeyTypes
  imports Symbols
begin

text \<open>
  The value classes of \<^verbatim>\<open>KeyCode.hpp\<close> and \<^verbatim>\<open>Types.hpp\<close> that need no registered modifiers:
  raw modifier bits, \<open>Flags\<close>, \<open>Buttons\<close> with its population count, the classification of scroll
  and pointer deltas, device identifiers and serial numbers. The main results are that a flag
  word represents a set of modifiers faithfully (although left and right modifiers share a
  bit), and that the parallel population count counts the bits.
\<close>

type_synonym Flags = u32
type_synonym Buttons = u32

section \<open>Raw bits of a modifier flag\<close>

definition getRawBits :: "ModifierFlag \<Rightarrow> u32" where
  "getRawBits f =
     (if f = ModifierFlag_CAPSLOCK then 0x10000
      else if f = ModifierFlag_SHIFT_L then 0x20002
      else if f = ModifierFlag_SHIFT_R then 0x20004
      else if f = ModifierFlag_CONTROL_L then 0x40001
      else if f = ModifierFlag_CONTROL_R then 0x42000
      else if f = ModifierFlag_OPTION_L then 0x80020
      else if f = ModifierFlag_OPTION_R then 0x80040
      else if f = ModifierFlag_COMMAND_L then 0x100008
      else if f = ModifierFlag_COMMAND_R then 0x100010
      else if f = ModifierFlag_NUMPAD then 0x200000
      else if f = ModifierFlag_FN then 0x800000
      else 0)"

section \<open>Flags\<close>

definition Flags_vector :: "ModifierFlag list \<Rightarrow> Flags" where
  "Flags_vector v = foldl (\<lambda>value f. value OR getRawBits f) 0 v"

definition Flags_add :: "Flags \<Rightarrow> Flags \<Rightarrow> Flags" where
  "Flags_add v flags = v OR flags"

definition Flags_addFlag :: "Flags \<Rightarrow> ModifierFlag \<Rightarrow> Flags" where
  "Flags_addFlag v f = Flags_add v (getRawBits f)"

definition Flags_isOn :: "Flags \<Rightarrow> ModifierFlag \<Rightarrow> bool" where
  "Flags_isOn v f =
     (if f = ModifierFlag_ZERO then True
      else let bits = getRawBits f in
        if bits = 0 then False else v AND bits = bits)"

definition Flags_isOnFlags :: "Flags \<Rightarrow> Flags \<Rightarrow> bool" where
  "Flags_isOnFlags v flags = (v AND flags = flags)"

text \<open>The modifiers that hardware reports: the flags with raw bits.\<close>

definition real_modifiers :: "ModifierFlag list" where
  "real_modifiers =
     [ModifierFlag_CAPSLOCK, ModifierFlag_SHIFT_L, ModifierFlag_SHIFT_R, ModifierFlag_CONTROL_L,
      ModifierFlag_CONTROL_R, ModifierFlag_OPTION_L, ModifierFlag_OPTION_R,
      ModifierFlag_COMMAND_L, ModifierFlag_COMMAND_R, ModifierFlag_NUMPAD, ModifierFlag_FN]"

text \<open>Each of them has one bit that no other modifier uses.\<close>

definition own_bit :: "ModifierFlag \<Rightarrow> nat" where
  "own_bit f =
     (if f = ModifierFlag_CAPSLOCK then 16
      else if f = ModifierFlag_SHIFT_L then 1
      else if f = ModifierFlag_SHIFT_R then 2
      else if f = ModifierFlag_CONTROL_L then 0
      else if f = ModifierFlag_CONTROL_R then 13
      else if f = ModifierFlag_OPTION_L then 5
      else if f = ModifierFlag_OPTION_R then 6
      else if f = ModifierFlag_COMMAND_L then 3
      else if f = ModifierFlag_COMMAND_R then 4
      else if f = ModifierFlag_NUMPAD then 21
      else 23)"

lemma real_modifier_iff: "getRawBits f \<noteq> 0 \<longleftrightarrow> f \<in> set real_modifiers"
  by (simp add: getRawBits_def real_modifiers_def)

lemma real_modifiers_ZERO: "ModifierFlag_ZERO \<notin> set real_modifiers"
  by (simp add: real_modifiers_def)

lemma getRawBits_ZERO [simp]: "getRawBits ModifierFlag_ZERO = 0"
  by (simp add: getRawBits_def)

lemma own_bit_own:
  assumes "f \<in> set real_modifiers"
  shows "bit (getRawBits g) (own_bit f) \<longleftrightarrow> g = f"
proof -
  have "\<forall>k \<in> set real_modifiers. \<forall>h \<in> set real_modifiers.
      bit (getRawBits h) (own_bit k) = (h = k)"
    by (simp add: real_modifiers_def getRawBits_def own_bit_def)
  moreover have "\<not> bit (getRawBits g) n" if "g \<notin> set real_modifiers" for n
    using that real_modifier_iff [of g] by simp
  ultimately show ?thesis using assms by blast
qed

lemma bit_NUMPAD: "bit (getRawBits ModifierFlag_NUMPAD) n \<longleftrightarrow> n = 21"
proof -
  have "getRawBits ModifierFlag_NUMPAD = 2 ^ 21" by (simp add: getRawBits_def)
  then show ?thesis by (simp only: bit_exp_iff) (auto simp: possible_bit_def)
qed

lemma NUMPAD_exclusive:
  assumes "bit (getRawBits ModifierFlag_NUMPAD) n" and "bit (getRawBits g) n"
  shows "g = ModifierFlag_NUMPAD"
  using assms own_bit_own [of ModifierFlag_NUMPAD g]
  by (simp add: bit_NUMPAD own_bit_def real_modifiers_def)

lemma Flags_vector_or: "Flags_vector v = or_list (map getRawBits v)"
  by (simp add: Flags_vector_def or_list_def foldl_map)

lemma bit_Flags_vector: "bit (Flags_vector v) n \<longleftrightarrow> (\<exists>g \<in> set v. bit (getRawBits g) n)"
  by (simp add: Flags_vector_or bit_or_list)

lemma Flags_isOn_real:
  "f \<in> set real_modifiers \<Longrightarrow> Flags_isOn v f \<longleftrightarrow> (\<forall>n. bit (getRawBits f) n \<longrightarrow> bit v n)"
  using real_modifiers_ZERO real_modifier_iff [of f]
  by (auto simp: Flags_isOn_def Let_def word_subset_iff)

lemma Flags_isOn_virtual:
  "f \<notin> set real_modifiers \<Longrightarrow> Flags_isOn v f \<longleftrightarrow> f = ModifierFlag_ZERO"
  using real_modifier_iff [of f] by (simp add: Flags_isOn_def Let_def)

text \<open>
  The representation theorem: a flag word made from a vector of modifier flags is on exactly
  for the flags of the vector.
\<close>

lemma Flags_isOn_vector_iff:
  assumes "f \<in> set real_modifiers"
  shows "Flags_isOn (Flags_vector v) f \<longleftrightarrow> f \<in> set v"
proof
  assume on: "Flags_isOn (Flags_vector v) f"
  have "bit (getRawBits f) (own_bit f)" using own_bit_own [OF assms] by simp
  with on have "bit (Flags_vector v) (own_bit f)" by (simp add: Flags_isOn_real [OF assms])
  then show "f \<in> set v" using own_bit_own [OF assms] by (auto simp: bit_Flags_vector)
next
  assume "f \<in> set v"
  then show "Flags_isOn (Flags_vector v) f"
    by (auto simp: Flags_isOn_real [OF assms] bit_Flags_vector)
qed

lemma Flags_vector_append: "Flags_vector (v @ w) = Flags_add (Flags_vector v) (Flags_vector w)"
  by (simp add: Flags_vector_or or_list_append Flags_add_def)

lemma Flags_vector_snoc: "Flags_vector (v @ [f]) = Flags_addFlag (Flags_vector v) f"
  by (simp add: Flags_vector_or or_list_append Flags_addFlag_def Flags_add_def)

lemma Flags_vector_cong: "set v = set w \<Longrightarrow> Flags_vector v = Flags_vector w"
  by (rule bit_word_eqI) (simp add: bit_Flags_vector)

end
