(* ===== verification/ModifierPairs.thy ===== *)
theory ModifierPairs
  imports KeyTypes
begin

text \<open>
  The table of registered modifiers (\<^verbatim>\<open>KeyCodeModifierFlagPairs\<close>): for every modifier flag
  its key code and the virtual keys that lock, negatively lock and stick it. On top of it: the
  removal of one modifier from a flag word (\<open>Flags::remove\<close>), which must put back the bits that
  left and right modifiers share, and the modifier test of key codes and event types.
\<close>

section \<open>The table\<close>

datatype KeyCodeType =
    KCT_KEYCODE
  | KCT_VK_LOCK
  | KCT_VK_LOCK_FORCE_ON
  | KCT_VK_LOCK_FORCE_OFF
  | KCT_VK_NEGATIVE_LOCK
  | KCT_VK_NEGATIVE_LOCK_FORCE_ON
  | KCT_VK_NEGATIVE_LOCK_FORCE_OFF
  | KCT_VK_STICKY
  | KCT_VK_STICKY_FORCE_ON
  | KCT_VK_STICKY_FORCE_OFF
  | KCT_END

fun KeyCodeType_index :: "KeyCodeType \<Rightarrow> nat" where
  "KeyCodeType_index KCT_KEYCODE = 0"
| "KeyCodeType_index KCT_VK_LOCK = 1"
| "KeyCodeType_index KCT_VK_LOCK_FORCE_ON = 2"
| "KeyCodeType_index KCT_VK_LOCK_FORCE_OFF = 3"
| "KeyCodeType_index KCT_VK_NEGATIVE_LOCK = 4"
| "KeyCodeType_index KCT_VK_NEGATIVE_LOCK_FORCE_ON = 5"
| "KeyCodeType_index KCT_VK_NEGATIVE_LOCK_FORCE_OFF = 6"
| "KeyCodeType_index KCT_VK_STICKY = 7"
| "KeyCodeType_index KCT_VK_STICKY_FORCE_ON = 8"
| "KeyCodeType_index KCT_VK_STICKY_FORCE_OFF = 9"
| "KeyCodeType_index KCT_END = 10"

record Pair =
  pr_modifierFlag :: ModifierFlag
  pr_keyCode :: "KeyCode list"

definition Pair_new ::
  "ModifierFlag \<Rightarrow> KeyCode \<Rightarrow> KeyCode \<Rightarrow> KeyCode \<Rightarrow> KeyCode \<Rightarrow> KeyCode \<Rightarrow> KeyCode \<Rightarrow> KeyCode \<Rightarrow>
   KeyCode \<Rightarrow> KeyCode \<Rightarrow> KeyCode \<Rightarrow> Pair"
where
  "Pair_new m k vk_lock vk_lock_force_on vk_lock_force_off vk_negative_lock
     vk_negative_lock_force_on vk_negative_lock_force_off vk_sticky vk_sticky_force_on
     vk_sticky_force_off =
     \<lparr>pr_modifierFlag = m,
      pr_keyCode = [k, vk_lock, vk_lock_force_on, vk_lock_force_off, vk_negative_lock,
        vk_negative_lock_force_on, vk_negative_lock_force_off, vk_sticky, vk_sticky_force_on,
        vk_sticky_force_off]\<rparr>"

definition Pair_getKeyCode :: "Pair \<Rightarrow> KeyCodeType \<Rightarrow> KeyCode" where
  "Pair_getKeyCode p type =
     (if type = KCT_END then KeyCode_VK_NONE else pr_keyCode p ! KeyCodeType_index type)"

text \<open>The pairs that \<open>clearVirtualModifiers\<close> registers with the macro \<open>REGISTER_MODIFIER\<close>.\<close>

definition normal_pairs :: "Pair list" where
  "normal_pairs =
     [Pair_new ModifierFlag_CAPSLOCK KeyCode_CAPSLOCK KeyCode_VK_LOCK_CAPSLOCK
        KeyCode_VK_LOCK_CAPSLOCK_FORCE_ON KeyCode_VK_LOCK_CAPSLOCK_FORCE_OFF
        KeyCode_VK_NEGATIVE_LOCK_CAPSLOCK KeyCode_VK_NEGATIVE_LOCK_CAPSLOCK_FORCE_ON
        KeyCode_VK_NEGATIVE_LOCK_CAPSLOCK_FORCE_OFF KeyCode_VK_STICKY_CAPSLOCK
        KeyCode_VK_STICKY_CAPSLOCK_FORCE_ON KeyCode_VK_STICKY_CAPSLOCK_FORCE_OFF,
      Pair_new ModifierFlag_COMMAND_L KeyCode_COMMAND_L KeyCode_VK_LOCK_COMMAND_L
        KeyCode_VK_LOCK_COMMAND_L_FORCE_ON KeyCode_VK_LOCK_COMMAND_L_FORCE_OFF
        KeyCode_VK_NEGATIVE_LOCK_COMMAND_L KeyCode_VK_NEGATIVE_LOCK_COMMAND_L_FORCE_ON
        KeyCode_VK_NEGATIVE_LOCK_COMMAND_L_FORCE_OFF KeyCode_VK_STICKY_COMMAND_L
        KeyCode_VK_STICKY_COMMAND_L_FORCE_ON KeyCode_VK_STICKY_COMMAND_L_FORCE_OFF,
      Pair_new ModifierFlag_COMMAND_R KeyCode_COMMAND_R KeyCode_VK_LOCK_COMMAND_R
        KeyCode_VK_LOCK_COMMAND_R_FORCE_ON KeyCode_VK_LOCK_COMMAND_R_FORCE_OFF
        KeyCode_VK_NEGATIVE_LOCK_COMMAND_R KeyCode_VK_NEGATIVE_LOCK_COMMAND_R_FORCE_ON
        KeyCode_VK_NEGATIVE_LOCK_COMMAND_R_FORCE_OFF KeyCode_VK_STICKY_COMMAND_R
        KeyCode_VK_STICKY_COMMAND_R_FORCE_ON KeyCode_VK_STICKY_COMMAND_R_FORCE_OFF,
      Pair_new ModifierFlag_CONTROL_L KeyCode_CONTROL_L KeyCode_VK_LOCK_CONTROL_L
        KeyCode_VK_LOCK_CONTROL_L_FORCE_ON KeyCode_VK_LOCK_CONTROL_L_FORCE_OFF
        KeyCode_VK_NEGATIVE_LOCK_CONTROL_L KeyCode_VK_NEGATIVE_LOCK_CONTROL_L_FORCE_ON
        KeyCode_VK_NEGATIVE_LOCK_CONTROL_L_FORCE_OFF KeyCode_VK_STICKY_CONTROL_L
        KeyCode_VK_STICKY_CONTROL_L_FORCE_ON KeyCode_VK_STICKY_CONTROL_L_FORCE_OFF,
      Pair_new ModifierFlag_CONTROL_R KeyCode_CONTROL_R KeyCode_VK_LOCK_CONTROL_R
        KeyCode_VK_LOCK_CONTROL_R_FORCE_ON KeyCode_VK_LOCK_CONTROL_R_FORCE_OFF
        KeyCode_VK_NEGATIVE_LOCK_CONTROL_R KeyCode_VK_NEGATIVE_LOCK_CONTROL_R_FORCE_ON
        KeyCode_VK_NEGATIVE_LOCK_CONTROL_R_FORCE_OFF KeyCode_VK_STICKY_CONTROL_R
        KeyCode_VK_STICKY_CONTROL_R_FORCE_ON KeyCode_VK_STICKY_CONTROL_R_FORCE_OFF,
      Pair_new ModifierFlag_FN KeyCode_FN KeyCode_VK_LOCK_FN
        KeyCode_VK_LOCK_FN_FORCE_ON KeyCode_VK_LOCK_FN_FORCE_OFF
        KeyCode_VK_NEGATIVE_LOCK_FN KeyCode_VK_NEGATIVE_LOCK_FN_FORCE_ON
        KeyCode_VK_NEGATIVE_LOCK_FN_FORCE_OFF KeyCode_VK_STICKY_FN
        KeyCode_VK_STICKY_FN_FORCE_ON KeyCode_VK_STICKY_FN_FORCE_OFF,
      Pair_new ModifierFlag_OPTION_L KeyCode_OPTION_L KeyCode_VK_LOCK_OPTION_L
        KeyCode_VK_LOCK_OPTION_L_FORCE_ON KeyCode_VK_LOCK_OPTION_L_FORCE_OFF
        KeyCode_VK_NEGATIVE_LOCK_OPTION_L KeyCode_VK_NEGATIVE_LOCK_OPTION_L_FORCE_ON
        KeyCode_VK_NEGATIVE_LOCK_OPTION_L_FORCE_OFF KeyCode_VK_STICKY_OPTION_L
        KeyCode_VK_STICKY_OPTION_L_FORCE_ON KeyCode_VK_STICKY_OPTION_L_FORCE_OFF,
      Pair_new ModifierFlag_OPTION_R KeyCode_OPTION_R KeyCode_VK_LOCK_OPTION_R
        KeyCode_VK_LOCK_OPTION_R_FORCE_ON KeyCode_VK_LOCK_OPTION_R_FORCE_OFF
        KeyCode_VK_NEGATIVE_LOCK_OPTION_R KeyCode_VK_NEGATIVE_LOCK_OPTION_R_FORCE_ON
        KeyCode_VK_NEGATIVE_LOCK_OPTION_R_FORCE_OFF KeyCode_VK_STICKY_OPTION_R
        KeyCode_VK_STICKY_OPTION_R_FORCE_ON KeyCode_VK_STICKY_OPTION_R_FORCE_OFF,
      Pair_new ModifierFlag_SHIFT_L KeyCode_SHIFT_L KeyCode_VK_LOCK_SHIFT_L
        KeyCode_VK_LOCK_SHIFT_L_FORCE_ON KeyCode_VK_LOCK_SHIFT_L_FORCE_OFF
        KeyCode_VK_NEGATIVE_LOCK_SHIFT_L KeyCode_VK_NEGATIVE_LOCK_SHIFT_L_FORCE_ON
        KeyCode_VK_NEGATIVE_LOCK_SHIFT_L_FORCE_OFF KeyCode_VK_STICKY_SHIFT_L
        KeyCode_VK_STICKY_SHIFT_L_FORCE_ON KeyCode_VK_STICKY_SHIFT_L_FORCE_OFF,
      Pair_new ModifierFlag_SHIFT_R KeyCode_SHIFT_R KeyCode_VK_LOCK_SHIFT_R
        KeyCode_VK_LOCK_SHIFT_R_FORCE_ON KeyCode_VK_LOCK_SHIFT_R_FORCE_OFF
        KeyCode_VK_NEGATIVE_LOCK_SHIFT_R KeyCode_VK_NEGATIVE_LOCK_SHIFT_R_FORCE_ON
        KeyCode_VK_NEGATIVE_LOCK_SHIFT_R_FORCE_OFF KeyCode_VK_STICKY_SHIFT_R
        KeyCode_VK_STICKY_SHIFT_R_FORCE_ON KeyCode_VK_STICKY_SHIFT_R_FORCE_OFF]"

definition Pairs_getKeyCode :: "Pair list \<Rightarrow> ModifierFlag \<Rightarrow> KeyCodeType \<Rightarrow> KeyCode" where
  "Pairs_getKeyCode pairs m type =
     (case find (\<lambda>p. pr_modifierFlag p = m) pairs of
        Some p \<Rightarrow> Pair_getKeyCode p type
      | None \<Rightarrow> KeyCode_VK_NONE)"

definition Pairs_getModifierFlag :: "Pair list \<Rightarrow> KeyCode \<Rightarrow> KeyCodeType \<Rightarrow> ModifierFlag" where
  "Pairs_getModifierFlag pairs k type =
     (case find (\<lambda>p. Pair_getKeyCode p type = k) pairs of
        Some p \<Rightarrow> pr_modifierFlag p
      | None \<Rightarrow> ModifierFlag_ZERO)"

definition ModifierFlag_getKeyCode :: "Pair list \<Rightarrow> ModifierFlag \<Rightarrow> KeyCode" where
  "ModifierFlag_getKeyCode pairs f = Pairs_getKeyCode pairs f KCT_KEYCODE"

definition KeyCode_getModifierFlag :: "Pair list \<Rightarrow> KeyCode \<Rightarrow> ModifierFlag" where
  "KeyCode_getModifierFlag pairs k = Pairs_getModifierFlag pairs k KCT_KEYCODE"

definition KeyCode_isModifier :: "Pair list \<Rightarrow> KeyCode \<Rightarrow> bool" where
  "KeyCode_isModifier pairs k = (KeyCode_getModifierFlag pairs k \<noteq> ModifierFlag_ZERO)"

definition isKeyDownOrModifierDown ::
  "Pair list \<Rightarrow> EventType \<Rightarrow> KeyCode \<Rightarrow> Flags \<Rightarrow> bool"
where
  "isKeyDownOrModifierDown pairs eventType key flags =
     (if eventType = EventType_DOWN then True
      else if eventType = EventType_MODIFY
      then Flags_isOn flags (KeyCode_getModifierFlag pairs key)
      else False)"

section \<open>Lookups in the table\<close>

text \<open>
  A table is well formed when flags and, for every kind of key, key codes identify their pair.
  The table of normal modifiers is; registering virtual modifiers with fresh codes keeps it so.
\<close>

definition pairs_wf :: "Pair list \<Rightarrow> bool" where
  "pairs_wf pairs =
     (distinct (map pr_modifierFlag pairs) \<and>
      distinct (map (\<lambda>p. Pair_getKeyCode p KCT_KEYCODE) pairs) \<and>
      ModifierFlag_ZERO \<notin> set (map pr_modifierFlag pairs))"

lemma pairs_wf_normal: "pairs_wf normal_pairs"
  by (simp add: pairs_wf_def normal_pairs_def Pair_new_def Pair_getKeyCode_def)

text \<open>Key codes and modifier flags translate back and forth.\<close>

lemma getModifierFlag_getKeyCode:
  assumes "pairs_wf pairs" and "f \<in> set (map pr_modifierFlag pairs)"
  shows "KeyCode_getModifierFlag pairs (ModifierFlag_getKeyCode pairs f) = f"
proof -
  from assms(2) obtain p where p: "p \<in> set pairs" "pr_modifierFlag p = f" by auto
  have "find (\<lambda>q. pr_modifierFlag q = f) pairs = Some p"
    using find_key_distinct [of pr_modifierFlag pairs p] assms(1) p by (simp add: pairs_wf_def)
  moreover have "find (\<lambda>q. Pair_getKeyCode q KCT_KEYCODE = Pair_getKeyCode p KCT_KEYCODE) pairs = Some p"
    using find_key_distinct [of "\<lambda>q. Pair_getKeyCode q KCT_KEYCODE" pairs p] assms(1) p
    by (simp add: pairs_wf_def)
  ultimately show ?thesis
    using p(2) by (simp add: ModifierFlag_getKeyCode_def Pairs_getKeyCode_def
        KeyCode_getModifierFlag_def Pairs_getModifierFlag_def)
qed

lemma getKeyCode_getModifierFlag:
  assumes "pairs_wf pairs" and "KeyCode_isModifier pairs k"
  shows "ModifierFlag_getKeyCode pairs (KeyCode_getModifierFlag pairs k) = k"
proof -
  from assms(2) obtain p where f: "find (\<lambda>q. Pair_getKeyCode q KCT_KEYCODE = k) pairs = Some p"
    by (auto simp: KeyCode_isModifier_def KeyCode_getModifierFlag_def Pairs_getModifierFlag_def
        split: option.splits)
  then have p: "p \<in> set pairs" "Pair_getKeyCode p KCT_KEYCODE = k"
    by (auto simp: find_Some_iff)
  have "find (\<lambda>q. pr_modifierFlag q = pr_modifierFlag p) pairs = Some p"
    using find_key_distinct [of pr_modifierFlag pairs p] assms(1) p(1) by (simp add: pairs_wf_def)
  with f p(2) show ?thesis
    by (simp add: ModifierFlag_getKeyCode_def Pairs_getKeyCode_def KeyCode_getModifierFlag_def
        Pairs_getModifierFlag_def)
qed

section \<open>Removing a modifier from a flag word\<close>

definition Flags_remove :: "Pair list \<Rightarrow> Flags \<Rightarrow> ModifierFlag \<Rightarrow> Flags" where
  "Flags_remove pairs v flag =
     (let old = v;
          v = v AND NOT (getRawBits flag)
      in foldl (\<lambda>v p.
           let f = pr_modifierFlag p in
           if f = flag then v
           else if \<not> Flags_isOn old f then v
           else v OR getRawBits f) v pairs)"

definition Flags_stripNUMPAD :: "Pair list \<Rightarrow> Flags \<Rightarrow> Flags" where
  "Flags_stripNUMPAD pairs v = Flags_remove pairs v ModifierFlag_NUMPAD"

definition Flags_stripFN :: "Pair list \<Rightarrow> Flags \<Rightarrow> Flags" where
  "Flags_stripFN pairs v = Flags_remove pairs v ModifierFlag_FN"

lemma foldl_restore:
  "foldl (\<lambda>v p. let f = pr_modifierFlag p in
       if f = flag then v else if \<not> Flags_isOn old f then v else v OR getRawBits f) v pairs =
   v OR Flags_vector (filter (\<lambda>f. f \<noteq> flag \<and> Flags_isOn old f) (map pr_modifierFlag pairs))"
  by (induction pairs arbitrary: v) (simp_all add: Let_def Flags_vector_or or.assoc)

lemma bit_Flags_remove:
  "bit (Flags_remove pairs v flag) n \<longleftrightarrow>
     bit v n \<and> \<not> bit (getRawBits flag) n \<or>
     (\<exists>f \<in> pr_modifierFlag ` set pairs. f \<noteq> flag \<and> Flags_isOn v f \<and> bit (getRawBits f) n)"
  by (auto simp: Flags_remove_def Let_def foldl_restore [unfolded Let_def] bit_or_iff bit_and_iff
      bit_not_iff bit_Flags_vector dest: bit_imp_le_length)

text \<open>
  On a word that stands for a vector of modifiers, all registered (\<open>NUMPAD\<close>, which is never
  registered, may occur too), \<open>remove\<close> gives the word of the vector without that modifier.
\<close>

lemma Flags_remove_vector:
  assumes "set v \<subseteq> insert ModifierFlag_NUMPAD (set (map pr_modifierFlag pairs))"
  shows "Flags_remove pairs (Flags_vector v) flag = Flags_vector (filter (\<lambda>f. f \<noteq> flag) v)"
proof (rule bit_word_eqI)
  fix n :: nat
  have on: "f \<in> set v" if "Flags_isOn (Flags_vector v) f" and "bit (getRawBits f) n" for f
    using that real_modifier_iff [of f] Flags_isOn_vector_iff [of f v] by fastforce
  have restored: "\<exists>f \<in> pr_modifierFlag ` set pairs.
      f \<noteq> flag \<and> Flags_isOn (Flags_vector v) f \<and> bit (getRawBits f) n"
    if g: "g \<in> set v" "g \<noteq> flag" "bit (getRawBits g) n" "bit (getRawBits flag) n" for g
  proof -
    have "g \<noteq> ModifierFlag_NUMPAD" using NUMPAD_exclusive [of n flag] g by blast
    with assms g(1) have "g \<in> pr_modifierFlag ` set pairs" by auto
    moreover have "g \<in> set real_modifiers" using g(3) real_modifier_iff [of g] by fastforce
    ultimately show ?thesis using g Flags_isOn_vector_iff [of g v] by auto
  qed
  show "bit (Flags_remove pairs (Flags_vector v) flag) n \<longleftrightarrow>
      bit (Flags_vector (filter (\<lambda>f. f \<noteq> flag) v)) n"
    unfolding bit_Flags_remove unfolding bit_Flags_vector using on restored by auto
qed

lemma Flags_isOn_remove:
  assumes "set v \<subseteq> insert ModifierFlag_NUMPAD (set (map pr_modifierFlag pairs))"
    and "f \<in> set real_modifiers"
  shows "Flags_isOn (Flags_remove pairs (Flags_vector v) flag) f \<longleftrightarrow> f \<in> set v \<and> f \<noteq> flag"
  by (simp add: Flags_remove_vector [OF assms(1)] Flags_isOn_vector_iff [OF assms(2)])

end
