(* ===== verification/KeyNormalize.thy ===== *)
theory KeyNormalize
  imports ModifierPairs
begin

text \<open>
  Key normalisation of \<^verbatim>\<open>KeyCode.cpp\<close>. Hardware reports \<open>fn+Up\<close> as \<open>PageUp\<close>; the extension works
  on \<open>fn+Up\<close> and translates back on output. The table \<open>fnkeyhack\<close> keeps, for each of its six
  rows and both directions, whether a translated key is being held, so that the key-up of a
  translated key is translated even when \<open>fn\<close> was released first.
\<close>

section \<open>The table of fn keys\<close>

record FNKeyHack =
  fh_fromKeyCode :: KeyCode
  fh_toKeyCode :: KeyCode
  fh_active_normalize :: bool
  fh_active_reverse :: bool

definition FNKeyHack_new :: "KeyCode \<Rightarrow> KeyCode \<Rightarrow> FNKeyHack" where
  "FNKeyHack_new fk tk =
     \<lparr>fh_fromKeyCode = fk, fh_toKeyCode = tk, fh_active_normalize = False,
      fh_active_reverse = False\<rparr>"

definition fnkeyhack_init :: "FNKeyHack list" where
  "fnkeyhack_init =
     [FNKeyHack_new KeyCode_PAGEUP KeyCode_CURSOR_UP,
      FNKeyHack_new KeyCode_PAGEDOWN KeyCode_CURSOR_DOWN,
      FNKeyHack_new KeyCode_HOME KeyCode_CURSOR_LEFT,
      FNKeyHack_new KeyCode_END KeyCode_CURSOR_RIGHT,
      FNKeyHack_new KeyCode_ENTER KeyCode_RETURN,
      FNKeyHack_new KeyCode_FORWARD_DELETE KeyCode_DELETE]"

text \<open>\<open>remap\<close> returns whether it translated, the new key and the new value of \<open>active\<close>.\<close>

definition FNKeyHack_remap ::
  "Pair list \<Rightarrow> KeyCode \<Rightarrow> Flags \<Rightarrow> EventType \<Rightarrow> bool \<Rightarrow> KeyCode \<Rightarrow> KeyCode \<Rightarrow> bool \<times> KeyCode \<times> bool"
where
  "FNKeyHack_remap pairs key flags eventType active fromKeyCode toKeyCode =
     (if key \<noteq> fromKeyCode then (False, key, active)
      else if isKeyDownOrModifierDown pairs eventType key flags
      then (if \<not> Flags_isOn flags ModifierFlag_FN then (False, key, active)
            else (True, toKeyCode, True))
      else (if \<not> active then (False, key, active) else (True, toKeyCode, False)))"

definition FNKeyHack_normalize ::
  "Pair list \<Rightarrow> FNKeyHack \<Rightarrow> KeyCode \<Rightarrow> Flags \<Rightarrow> EventType \<Rightarrow> bool \<times> KeyCode \<times> FNKeyHack"
where
  "FNKeyHack_normalize pairs h key flags eventType =
     (case FNKeyHack_remap pairs key flags eventType (fh_active_normalize h)
             (fh_fromKeyCode h) (fh_toKeyCode h) of
        (done, key', active) \<Rightarrow> (done, key', h\<lparr>fh_active_normalize := active\<rparr>))"

definition FNKeyHack_reverse ::
  "Pair list \<Rightarrow> FNKeyHack \<Rightarrow> KeyCode \<Rightarrow> Flags \<Rightarrow> EventType \<Rightarrow> bool \<times> KeyCode \<times> FNKeyHack"
where
  "FNKeyHack_reverse pairs h key flags eventType =
     (case FNKeyHack_remap pairs key flags eventType (fh_active_reverse h)
             (fh_toKeyCode h) (fh_fromKeyCode h) of
        (done, key', active) \<Rightarrow> (done, key', h\<lparr>fh_active_reverse := active\<rparr>))"

text \<open>The loops over the table stop at the first row that translates.\<close>

fun fnkeyhack_loop ::
  "(FNKeyHack \<Rightarrow> KeyCode \<Rightarrow> bool \<times> KeyCode \<times> FNKeyHack) \<Rightarrow> FNKeyHack list \<Rightarrow> KeyCode \<Rightarrow>
   KeyCode \<times> FNKeyHack list"
where
  "fnkeyhack_loop step [] key = (key, [])"
| "fnkeyhack_loop step (h # hs) key =
     (case step h key of
        (done, key', h') \<Rightarrow>
          if done then (key', h' # hs)
          else (case fnkeyhack_loop step hs key' of (key'', hs') \<Rightarrow> (key'', h' # hs')))"

definition normalizeKey ::
  "Pair list \<Rightarrow> FNKeyHack list \<Rightarrow> KeyCode \<Rightarrow> Flags \<Rightarrow> EventType \<Rightarrow> KeyCode \<times> Flags \<times> FNKeyHack list"
where
  "normalizeKey pairs hs key flags eventType =
     (let flags = Flags_stripNUMPAD pairs flags in
      case fnkeyhack_loop (\<lambda>h k. FNKeyHack_normalize pairs h k flags eventType) hs key of
        (key, hs) \<Rightarrow> (key, flags, hs))"

definition isNumpadKey :: "KeyCode \<Rightarrow> bool" where
  "isNumpadKey key =
     (key \<in> {KeyCode_KEYPAD_0, KeyCode_KEYPAD_1, KeyCode_KEYPAD_2, KeyCode_KEYPAD_3,
        KeyCode_KEYPAD_4, KeyCode_KEYPAD_5, KeyCode_KEYPAD_6, KeyCode_KEYPAD_7, KeyCode_KEYPAD_8,
        KeyCode_KEYPAD_9, KeyCode_KEYPAD_DOT, KeyCode_KEYPAD_MULTIPLY, KeyCode_KEYPAD_PLUS,
        KeyCode_KEYPAD_SLASH, KeyCode_KEYPAD_MINUS, KeyCode_KEYPAD_EQUAL})"

definition isCursorKey :: "KeyCode \<Rightarrow> bool" where
  "isCursorKey key =
     (key \<in> {KeyCode_CURSOR_UP, KeyCode_CURSOR_DOWN, KeyCode_CURSOR_LEFT, KeyCode_CURSOR_RIGHT})"

definition reverseNormalizeKey ::
  "Pair list \<Rightarrow> FNKeyHack list \<Rightarrow> KeyCode \<Rightarrow> Flags \<Rightarrow> EventType \<Rightarrow> KeyCode \<times> Flags \<times> FNKeyHack list"
where
  "reverseNormalizeKey pairs hs key flags eventType =
     (case fnkeyhack_loop (\<lambda>h k. FNKeyHack_reverse pairs h k flags eventType) hs key of
        (key, hs) \<Rightarrow>
          let flags = Flags_stripNUMPAD pairs flags;
              flags = (if isNumpadKey key then Flags_addFlag flags ModifierFlag_NUMPAD else flags);
              flags = (if isCursorKey key then Flags_addFlag flags ModifierFlag_NUMPAD else flags)
          in (key, flags, hs))"

section \<open>Well-formed tables\<close>

text \<open>
  No operation changes the key codes of a row. A table is well formed when all its from and to
  keys are different; then at most one row can translate a key.
\<close>

definition fn_wf :: "FNKeyHack list \<Rightarrow> bool" where
  "fn_wf hs = distinct (map fh_fromKeyCode hs @ map fh_toKeyCode hs)"

definition fn_rows :: "FNKeyHack list \<Rightarrow> (KeyCode \<times> KeyCode) list" where
  "fn_rows hs = map (\<lambda>h. (fh_fromKeyCode h, fh_toKeyCode h)) hs"

lemma fn_wf_init: "fn_wf fnkeyhack_init"
  by (simp add: fn_wf_def fnkeyhack_init_def FNKeyHack_new_def)

lemma fn_wf_rows: "fn_rows hs = fn_rows hs' \<Longrightarrow> fn_wf hs = fn_wf hs'"
proof -
  assume rows: "fn_rows hs = fn_rows hs'"
  have "map fst (fn_rows hs) @ map snd (fn_rows hs) = map fh_fromKeyCode hs @ map fh_toKeyCode hs" for hs
    by (simp add: fn_rows_def comp_def)
  then have "fn_wf hs = distinct (map fst (fn_rows hs) @ map snd (fn_rows hs))" for hs
    by (simp only: fn_wf_def)
  with rows show ?thesis by metis
qed

text \<open>
  Both directions are instances of one interface: a step that only touches a row whose source key
  is the given key, and that leaves the key alone when it does not translate.
\<close>

locale fn_direction =
  fixes step :: "FNKeyHack \<Rightarrow> KeyCode \<Rightarrow> bool \<times> KeyCode \<times> FNKeyHack"
    and source :: "FNKeyHack \<Rightarrow> KeyCode"
  assumes step_other: "key \<noteq> source h \<Longrightarrow> step h key = (False, key, h)"
    and step_idle: "step h key = (False, key', h') \<Longrightarrow> key' = key"
    and step_rows: "step h key = (d, key', h') \<Longrightarrow>
          fh_fromKeyCode h' = fh_fromKeyCode h \<and> fh_toKeyCode h' = fh_toKeyCode h"
begin

lemma loop_rows: "fn_rows (snd (fnkeyhack_loop step hs key)) = fn_rows hs"
proof (induction hs arbitrary: key)
  case Nil
  then show ?case by simp
next
  case (Cons h hs)
  obtain d k' h' where "step h key = (d, k', h')" by (metis prod_cases3)
  with step_rows [of h key d k' h'] Cons.IH [of k'] show ?case
    by (auto simp: fn_rows_def split: prod.splits)
qed

lemma loop_other: "key \<notin> source ` set hs \<Longrightarrow> fnkeyhack_loop step hs key = (key, hs)"
  by (induction hs) (auto simp: step_other)

lemma loop_at:
  assumes "distinct (map source (xs @ h # ys))"
  shows "fnkeyhack_loop step (xs @ h # ys) (source h) =
    (case step h (source h) of (d, key', h') \<Rightarrow> (key', xs @ h' # ys))"
  using assms
proof (induction xs)
  case Nil
  obtain d k' h' where st: "step h (source h) = (d, k', h')" by (metis prod_cases3)
  have "source h \<notin> source ` set ys" using Nil by auto
  with st step_idle [of h "source h" k' h'] show ?case
    by (cases d) (auto simp: loop_other)
next
  case (Cons x xs)
  then have "source h \<noteq> source x" by auto
  with Cons show ?case by (simp add: step_other split: prod.splits)
qed

end

interpretation norm: fn_direction "\<lambda>h k. FNKeyHack_normalize pairs h k flags et" fh_fromKeyCode
  for pairs flags et
  by unfold_locales
    (auto simp: FNKeyHack_normalize_def FNKeyHack_remap_def split: prod.splits if_splits)

interpretation rev_norm: fn_direction "\<lambda>h k. FNKeyHack_reverse pairs h k flags et" fh_toKeyCode
  for pairs flags et
  by unfold_locales
    (auto simp: FNKeyHack_reverse_def FNKeyHack_remap_def split: prod.splits if_splits)

text \<open>Unfoldings of the two operations through the loops.\<close>

lemma normalizeKey_eq:
  "normalizeKey pairs hs key flags et =
     (let fl = Flags_stripNUMPAD pairs flags;
          r = fnkeyhack_loop (\<lambda>h k. FNKeyHack_normalize pairs h k fl et) hs key
      in (fst r, fl, snd r))"
  by (simp add: normalizeKey_def Let_def case_prod_beta)

lemma reverseNormalizeKey_key:
  "fst (reverseNormalizeKey pairs hs key flags et) =
     fst (fnkeyhack_loop (\<lambda>h k. FNKeyHack_reverse pairs h k flags et) hs key)"
  by (simp add: reverseNormalizeKey_def Let_def case_prod_beta)

lemma normalizeKey_rows: "fn_rows (snd (snd (normalizeKey pairs hs key flags et))) = fn_rows hs"
  by (simp add: normalizeKey_eq Let_def norm.loop_rows)

lemma fn_wf_fromD: "fn_wf (xs @ h # ys) \<Longrightarrow> distinct (map fh_fromKeyCode (xs @ h # ys))"
  by (auto simp: fn_wf_def)

lemma fn_wf_toD: "fn_wf (xs @ h # ys) \<Longrightarrow> distinct (map fh_toKeyCode (xs @ h # ys))"
  by (simp add: fn_wf_def)

lemma stripNUMPAD_FN: "Flags_isOn (Flags_stripNUMPAD pairs v) ModifierFlag_FN \<longleftrightarrow> Flags_isOn v ModifierFlag_FN"
proof -
  have fn: "ModifierFlag_FN \<in> set real_modifiers" by (simp add: real_modifiers_def)
  have "getRawBits ModifierFlag_FN = 2 ^ 23" by (simp add: getRawBits_def)
  then have b: "bit (getRawBits ModifierFlag_FN) n \<longleftrightarrow> n = 23" for n
    by (auto simp only: bit_exp_iff possible_bit_word) simp_all
  have "bit (Flags_stripNUMPAD pairs v) 23 \<longleftrightarrow> bit v 23"
    using own_bit_own [OF fn] Flags_isOn_real [OF fn, of v]
    by (auto simp: Flags_stripNUMPAD_def bit_Flags_remove bit_NUMPAD own_bit_def b)
  then show ?thesis by (simp add: Flags_isOn_real [OF fn] b)
qed

section \<open>Press and release are translated alike\<close>

text \<open>\<open>normalize_run\<close>: the table after a sequence of hardware events.\<close>

definition normalize_run ::
  "Pair list \<Rightarrow> FNKeyHack list \<Rightarrow> (KeyCode \<times> Flags \<times> EventType) list \<Rightarrow> FNKeyHack list"
where
  "normalize_run pairs hs es =
     foldl (\<lambda>hs (key, flags, et). snd (snd (normalizeKey pairs hs key flags et))) hs es"

definition held :: "FNKeyHack list \<Rightarrow> KeyCode \<Rightarrow> bool" where
  "held hs key = (\<exists>h \<in> set hs. fh_fromKeyCode h = key \<and> fh_active_normalize h)"

lemma normalize_down:
  assumes "fn_wf (xs @ h # ys)"
  shows "normalizeKey pairs (xs @ h # ys) (fh_fromKeyCode h) flags EventType_DOWN =
    (if Flags_isOn flags ModifierFlag_FN
     then (fh_toKeyCode h, Flags_stripNUMPAD pairs flags, xs @ h\<lparr>fh_active_normalize := True\<rparr> # ys)
     else (fh_fromKeyCode h, Flags_stripNUMPAD pairs flags, xs @ h # ys))"
  using norm.loop_at [OF fn_wf_fromD [OF assms]]
  by (simp add: normalizeKey_eq Let_def FNKeyHack_normalize_def FNKeyHack_remap_def
      isKeyDownOrModifierDown_def stripNUMPAD_FN)

lemma normalize_up:
  assumes "fn_wf (xs @ h # ys)"
  shows "normalizeKey pairs (xs @ h # ys) (fh_fromKeyCode h) flags EventType_UP =
    (if fh_active_normalize h
     then (fh_toKeyCode h, Flags_stripNUMPAD pairs flags, xs @ h\<lparr>fh_active_normalize := False\<rparr> # ys)
     else (fh_fromKeyCode h, Flags_stripNUMPAD pairs flags, xs @ h # ys))"
  using norm.loop_at [OF fn_wf_fromD [OF assms]]
  by (simp add: normalizeKey_eq Let_def FNKeyHack_normalize_def FNKeyHack_remap_def
      isKeyDownOrModifierDown_def)

lemma normalize_step_other:
  assumes wf: "fn_wf (xs @ h # ys)" and ne: "key \<noteq> fh_fromKeyCode h"
  shows "\<exists>xs' ys'. snd (snd (normalizeKey pairs (xs @ h # ys) key flags et)) = xs' @ h # ys'"
proof (cases "key \<in> fh_fromKeyCode ` set (xs @ h # ys)")
  case False
  then show ?thesis by (auto simp: normalizeKey_eq Let_def norm.loop_other)
next
  case True
  with ne obtain g where g: "fh_fromKeyCode g = key" "g \<in> set xs \<or> g \<in> set ys" by auto
  let ?step = "\<lambda>h k. FNKeyHack_normalize pairs h k (Flags_stripNUMPAD pairs flags) et"
  obtain d k' g' where st: "?step g key = (d, k', g')" by (metis prod_cases3)
  show ?thesis
  proof (cases "g \<in> set xs")
    case True
    then obtain us vs where xs: "xs = us @ g # vs" by (meson split_list)
    have "distinct (map fh_fromKeyCode (us @ g # (vs @ h # ys)))" using fn_wf_fromD [OF wf] xs by simp
    from norm.loop_at [OF this] g(1) xs st
    have "snd (snd (normalizeKey pairs (xs @ h # ys) key flags et)) = (us @ g' # vs) @ h # ys"
      by (simp add: normalizeKey_eq Let_def)
    then show ?thesis by blast
  next
    case False
    with g obtain us vs where ys: "ys = us @ g # vs" by (meson split_list)
    have "distinct (map fh_fromKeyCode ((xs @ h # us) @ g # vs))" using fn_wf_fromD [OF wf] ys by simp
    from norm.loop_at [OF this] g(1) ys st
    have "snd (snd (normalizeKey pairs (xs @ h # ys) key flags et)) = xs @ h # (us @ g' # vs)"
      by (simp add: normalizeKey_eq Let_def)
    then show ?thesis by blast
  qed
qed

lemma normalize_run_other:
  assumes "fn_wf (xs @ h # ys)" and "\<forall>e \<in> set es. fst e \<noteq> fh_fromKeyCode h"
  shows "\<exists>xs' ys'. normalize_run pairs (xs @ h # ys) es = xs' @ h # ys' \<and> fn_wf (xs' @ h # ys')"
  using assms
proof (induction es arbitrary: xs ys)
  case Nil
  then show ?case by (auto simp: normalize_run_def)
next
  case (Cons e es)
  obtain key flags et where e: "e = (key, flags, et)" by (metis prod_cases3)
  let ?t = "snd (snd (normalizeKey pairs (xs @ h # ys) key flags et))"
  obtain xs' ys' where t: "?t = xs' @ h # ys'"
    using normalize_step_other [OF Cons.prems(1), of key pairs flags et] Cons.prems(2) e by auto
  have "fn_wf ?t" using fn_wf_rows [OF normalizeKey_rows] Cons.prems(1) by blast
  with t have "fn_wf (xs' @ h # ys')" by simp
  from Cons.IH [OF this] Cons.prems(2) e t show ?case by (simp add: normalize_run_def)
qed

text \<open>
  C22: When a key that is not held already is pressed and later released, with any events of other
  keys in between and whatever happens to the fn modifier meanwhile, \<open>normalizeKey\<close> gives the
  release the same key code as the press.
\<close>

theorem normalizeKey_press_release:
  assumes wf: "fn_wf hs" and up: "\<not> held hs key"
    and others: "\<forall>e \<in> set es. fst e \<noteq> key"
  shows "fst (normalizeKey pairs
           (normalize_run pairs (snd (snd (normalizeKey pairs hs key flags EventType_DOWN))) es)
           key flags' EventType_UP) =
         fst (normalizeKey pairs hs key flags EventType_DOWN)"
proof (cases "key \<in> fh_fromKeyCode ` set hs")
  case True
  then obtain xs h ys where hs: "hs = xs @ h # ys" and k: "fh_fromKeyCode h = key"
    by (metis imageE split_list)
  have h: "\<not> fh_active_normalize h" using up hs k by (auto simp: held_def)
  define on where "on = Flags_isOn flags ModifierFlag_FN"
  define h' where "h' = (if on then h\<lparr>fh_active_normalize := True\<rparr> else h)"
  have h': "fh_fromKeyCode h' = key" "fh_toKeyCode h' = fh_toKeyCode h" "fh_active_normalize h' = on"
    using k h by (simp_all add: h'_def)
  have down: "snd (snd (normalizeKey pairs hs key flags EventType_DOWN)) = xs @ h' # ys"
    "fst (normalizeKey pairs hs key flags EventType_DOWN) = (if on then fh_toKeyCode h else key)"
    using normalize_down [of xs h ys pairs flags] wf hs k by (simp_all add: h'_def on_def)
  have wf': "fn_wf (xs @ h' # ys)"
    using fn_wf_rows [OF normalizeKey_rows] wf down(1) by metis
  obtain xs' ys' where r: "normalize_run pairs (xs @ h' # ys) es = xs' @ h' # ys'"
    and wf'': "fn_wf (xs' @ h' # ys')"
    using normalize_run_other [OF wf'] others h'(1) by blast
  show ?thesis
    using normalize_up [OF wf'', of pairs flags'] r down h' by simp
next
  case False
  have keep: "fst ` set (fn_rows (normalize_run pairs t es)) = fst ` set (fn_rows t)" for t
  proof (induction es arbitrary: t)
    case (Cons e es)
    obtain k f et where "e = (k, f, et)" by (metis prod_cases3)
    with Cons.IH show ?case by (simp add: normalize_run_def normalizeKey_rows)
  qed (simp add: normalize_run_def)
  have fst_rows: "fst ` set (fn_rows t) = fh_fromKeyCode ` set t" for t
    by (auto simp: fn_rows_def image_comp comp_def)
  let ?t = "normalize_run pairs (snd (snd (normalizeKey pairs hs key flags EventType_DOWN))) es"
  have "key \<notin> fh_fromKeyCode ` set ?t"
    using False keep normalizeKey_rows fst_rows by metis
  with False show ?thesis by (simp add: normalizeKey_eq Let_def norm.loop_other)
qed

theorem normalizeKey_press_release_witness:
  "fst (normalizeKey normal_pairs
           (normalize_run normal_pairs
              (snd (snd (normalizeKey normal_pairs fnkeyhack_init KeyCode_PAGEUP 0x800000 EventType_DOWN)))
              [(KeyCode_FN, 0, EventType_MODIFY)])
           KeyCode_PAGEUP 0 EventType_UP) = KeyCode_CURSOR_UP"
proof -
  have "\<not> held fnkeyhack_init KeyCode_PAGEUP"
    by (simp add: held_def fnkeyhack_init_def FNKeyHack_new_def)
  moreover have "\<forall>e \<in> set [(KeyCode_FN, 0 :: Flags, EventType_MODIFY)]. fst e \<noteq> KeyCode_PAGEUP" by simp
  ultimately have "fst (normalizeKey normal_pairs
           (normalize_run normal_pairs
              (snd (snd (normalizeKey normal_pairs fnkeyhack_init KeyCode_PAGEUP 0x800000 EventType_DOWN)))
              [(KeyCode_FN, 0, EventType_MODIFY)])
           KeyCode_PAGEUP 0 EventType_UP) =
      fst (normalizeKey normal_pairs fnkeyhack_init KeyCode_PAGEUP 0x800000 EventType_DOWN)"
    by (rule normalizeKey_press_release [OF fn_wf_init])
  also have "\<dots> = KeyCode_CURSOR_UP"
    using normalize_down [of "[]" "FNKeyHack_new KeyCode_PAGEUP KeyCode_CURSOR_UP" "tl fnkeyhack_init"
        normal_pairs "0x800000"] fn_wf_init
    by (simp add: fnkeyhack_init_def FNKeyHack_new_def Flags_isOn_def getRawBits_def)
  finally show ?thesis .
qed

section \<open>Normalisation and its reverse\<close>

lemma reverse_down:
  assumes "fn_wf (xs @ h # ys)"
  shows "fst (reverseNormalizeKey pairs (xs @ h # ys) (fh_toKeyCode h) flags EventType_DOWN) =
    (if Flags_isOn flags ModifierFlag_FN then fh_fromKeyCode h else fh_toKeyCode h)"
  using rev_norm.loop_at [OF fn_wf_toD [OF assms]]
  by (simp add: reverseNormalizeKey_key FNKeyHack_reverse_def FNKeyHack_remap_def
      isKeyDownOrModifierDown_def)

text \<open>
  C23: What the extension passes on unchanged leaves as it came in: for a pressed key that is not
  one of the translated arrow, return and delete keys, \<open>reverseNormalizeKey\<close> after \<open>normalizeKey\<close>
  gives the key code the hardware sent.
\<close>

theorem normalize_reverse_roundtrip:
  assumes wf: "fn_wf hs" and key: "key \<notin> fh_toKeyCode ` set hs"
  shows "case normalizeKey pairs hs key flags EventType_DOWN of
           (k, fl, hs') \<Rightarrow> fst (reverseNormalizeKey pairs hs' k fl EventType_DOWN) = key"
proof (cases "key \<in> fh_fromKeyCode ` set hs")
  case True
  then obtain xs h ys where hs: "hs = xs @ h # ys" and k: "fh_fromKeyCode h = key"
    by (metis imageE split_list)
  note down = normalize_down [of xs h ys pairs flags, OF wf [unfolded hs], unfolded k]
  show ?thesis
  proof (cases "Flags_isOn flags ModifierFlag_FN")
    case True
    let ?h = "h\<lparr>fh_active_normalize := True\<rparr>"
    have "fn_wf (xs @ ?h # ys)" using wf hs by (simp add: fn_wf_def)
    from reverse_down [OF this] show ?thesis using down True hs k by (simp add: stripNUMPAD_FN)
  next
    case False
    then show ?thesis using down hs key by (simp add: reverseNormalizeKey_key rev_norm.loop_other)
  qed
next
  case False
  then show ?thesis
    using key by (simp add: normalizeKey_eq Let_def norm.loop_other reverseNormalizeKey_key
        rev_norm.loop_other)
qed

theorem normalize_reverse_roundtrip_witness:
  "case normalizeKey normal_pairs fnkeyhack_init KeyCode_HOME 0x800000 EventType_DOWN of
     (k, fl, hs') \<Rightarrow> fst (reverseNormalizeKey normal_pairs hs' k fl EventType_DOWN) = KeyCode_HOME"
proof -
  have "KeyCode_HOME \<notin> fh_toKeyCode ` set fnkeyhack_init"
    by (simp add: fnkeyhack_init_def FNKeyHack_new_def)
  then show ?thesis by (rule normalize_reverse_roundtrip [OF fn_wf_init])
qed

end
