(* ===== verification/Utf8Copy.thy ===== *)
theory Utf8Copy
  imports Prelude
begin

text \<open>
  \<^verbatim>\<open>strlcpy_utf8.hpp\<close>: copying a C string into a buffer of given size without leaving an
  incomplete multi-byte character at its end. C strings are lists of non-zero bytes; the
  terminating zero is the byte read at the length of the list.
\<close>

type_synonym byte = "8 word"

definition c_strlcpy :: "byte list \<Rightarrow> nat \<Rightarrow> byte list" where
  "c_strlcpy src sz = take (sz - 1) src"

definition c_strlcat :: "'a list \<Rightarrow> 'a list \<Rightarrow> nat \<Rightarrow> 'a list" where
  "c_strlcat dst src sz = (if sz \<le> length dst then dst else take (sz - 1) (dst @ src))"

definition c_char_at :: "byte list \<Rightarrow> nat \<Rightarrow> byte" where
  "c_char_at s i = (if i < length s then s ! i else 0)"

text \<open>The length of a character, from its first byte; \<open>None\<close> for a byte that starts none.\<close>

definition utf8_length :: "byte \<Rightarrow> nat option" where
  "utf8_length b =
     (if b AND 0x80 = 0 then Some 1
      else if b AND 0xe0 = 0xc0 then Some 2
      else if b AND 0xf0 = 0xe0 then Some 3
      else if b AND 0xf8 = 0xf0 then Some 4
      else None)"

lemma utf8_length_pos: "utf8_length b = Some k \<Longrightarrow> 0 < k"
  by (auto simp: utf8_length_def split: if_splits)

text \<open>The loop, from index \<open>i\<close> on: it returns \<open>previous\<close>, where the string is cut.\<close>

function utf8_scan :: "byte list \<Rightarrow> nat \<Rightarrow> nat" where
  "utf8_scan dst i =
     (case utf8_length (c_char_at dst i) of
        None \<Rightarrow> i
      | Some k \<Rightarrow> if i + k > length dst then i else utf8_scan dst (i + k))"
  by pat_completeness auto
termination
  by (relation "measure (\<lambda>(dst, i). length dst - i)") (auto dest: utf8_length_pos)

declare utf8_scan.simps [simp del]

text \<open>\<open>strlcpy_utf8::strlcpy\<close> with non-null arguments: \<open>None\<close> is the error return \<open>-1\<close>.\<close>

definition strlcpy_utf8 :: "byte list \<Rightarrow> nat \<Rightarrow> (byte list \<times> nat) option" where
  "strlcpy_utf8 src sz =
     (if sz = 0 then None
      else let dst = c_strlcpy src sz in Some (take (utf8_scan dst 0) dst, length src))"

section \<open>The copy is the longest prefix of whole characters\<close>

definition utf8_char :: "byte list \<Rightarrow> bool" where
  "utf8_char c = (c \<noteq> [] \<and> utf8_length (hd c) = Some (length c) \<and> 0 \<notin> set c)"


text \<open>The longest prefix of a sequence of characters that fits into \<open>n\<close> bytes.\<close>

fun fitting :: "nat \<Rightarrow> byte list list \<Rightarrow> byte list" where
  "fitting n [] = []"
| "fitting n (c # cs) = (if length c \<le> n then c @ fitting (n - length c) cs else [])"

lemma length_fitting: "length (fitting n cs) \<le> n"
proof (induction n cs rule: fitting.induct)
  case (2 n c cs)
  then show ?case by auto
qed simp

lemma scan_stops_at_end: "utf8_scan dst (length dst) = length dst"
  by (simp add: utf8_scan.simps [of dst "length dst"] c_char_at_def utf8_length_def)

lemma scan_whole:
  assumes "list_all utf8_char cs"
  shows "utf8_scan (pre @ take n (concat cs)) (length pre) = length pre + length (fitting n cs)"
  using assms
proof (induction cs arbitrary: pre n)
  case Nil
  show ?case using scan_stops_at_end [of pre] by simp
next
  case (Cons c cs)
  let ?dst = "pre @ take n (concat (c # cs))"
  have c: "utf8_length (hd c) = Some (length c)" "c \<noteq> []" using Cons.prems by (simp_all add: utf8_char_def)
  show ?case
  proof (cases "n = 0")
    case True
    then show ?thesis using scan_stops_at_end [of pre] c(2) by simp
  next
    case False
    have first: "c_char_at ?dst (length pre) = hd c"
      using False c(2) by (simp add: c_char_at_def nth_append hd_append hd_conv_nth)
    show ?thesis
    proof (cases "length c \<le> n")
      case True
      then have dst: "?dst = (pre @ c) @ take (n - length c) (concat cs)" by simp
      have "utf8_scan ?dst (length pre) = utf8_scan ?dst (length pre + length c)"
        using first c True by (subst utf8_scan.simps) simp
      also have "\<dots> = length (pre @ c) + length (fitting (n - length c) cs)"
        unfolding dst using Cons.IH [of "pre @ c" "n - length c"] Cons.prems by simp
      finally show ?thesis using True by simp
    next
      case False
      then show ?thesis using first c by (subst utf8_scan.simps) simp
    qed
  qed
qed

lemma take_fitting: "take (length (fitting n cs)) (take n (concat cs)) = fitting n cs"
proof (induction n cs rule: fitting.induct)
  case (2 n c cs)
  then show ?case by auto
qed simp

text \<open>
  C33: Copying a well-formed UTF-8 string into a buffer of non-zero size gives the longest prefix
  of whole characters that fits beside the terminating zero, and returns the length of the
  source as \<open>strlcpy\<close> does; no character is ever cut.
\<close>

theorem strlcpy_utf8_whole:
  assumes "list_all utf8_char cs" and "0 < sz"
  shows "strlcpy_utf8 (concat cs) sz = Some (fitting (sz - 1) cs, length (concat cs)) \<and>
         length (fitting (sz - 1) cs) < sz"
proof -
  have "utf8_scan (c_strlcpy (concat cs) sz) 0 = length (fitting (sz - 1) cs)"
    using scan_whole [OF assms(1), of "[]" "sz - 1"] by (simp add: c_strlcpy_def)
  then have "take (utf8_scan (c_strlcpy (concat cs) sz) 0) (c_strlcpy (concat cs) sz) = fitting (sz - 1) cs"
    by (simp only: c_strlcpy_def take_fitting)
  moreover have "length (fitting (sz - 1) cs) < sz"
    using length_fitting [of "sz - 1" cs] assms(2) by linarith
  ultimately show ?thesis using assms(2) by (simp add: strlcpy_utf8_def Let_def)
qed

theorem strlcpy_utf8_whole_witness:
  "strlcpy_utf8 (concat [[0x61], [0xc3, 0xa9]]) 3 = Some ([0x61], 3) \<and>
   strlcpy_utf8 (concat [[0x61], [0xc3, 0xa9]]) 4 = Some ([0x61, 0xc3, 0xa9], 3)"
proof -
  have cs: "list_all utf8_char [[0x61], [0xc3, 0xa9]]"
    by (simp add: utf8_char_def utf8_length_def)
  show ?thesis
    using strlcpy_utf8_whole [OF cs, of 3] strlcpy_utf8_whole [OF cs, of 4] by simp
qed

end
