(* ===== verification/EventParams.thy ===== *)
theory EventParams
  imports ModifierPairs
begin

text \<open>
  Event parameters (\<^verbatim>\<open>Params.hpp\<close>) and the part of \<^verbatim>\<open>FromEvent\<close> that matches events: which key,
  consumer key or button an event belongs to and whether it presses or releases it. The C++
  class hierarchy under \<open>Params_Base\<close> is one datatype; the virtual accessors
  \<open>get_Params_...\<close>, which return null except in their own class, are option-valued functions.
\<close>

section \<open>Parameters\<close>

record KeyboardParams =
  kp_eventType :: EventType
  kp_flags :: Flags
  kp_key :: KeyCode
  kp_charCode :: u32
  kp_charSet :: u32
  kp_origCharCode :: u32
  kp_origCharSet :: u32
  kp_keyboardType :: KeyboardType
  kp_repeat :: bool
  kp_ex_iskeydown :: bool

record SpecialParams =
  sp_eventType :: EventType
  sp_flags :: Flags
  sp_key :: ConsumerKeyCode
  sp_flavor :: u32
  sp_guid :: u64
  sp_repeat :: bool
  sp_ex_iskeydown :: bool

record PointerParams =
  pp_buttons :: Buttons
  pp_dx :: int
  pp_dy :: int
  pp_ex_button :: PointingButton
  pp_ex_isbuttondown :: bool

record ScrollParams =
  sw_deltaAxis1 :: int
  sw_deltaAxis2 :: int
  sw_deltaAxis3 :: int
  sw_fixedDelta1 :: int
  sw_fixedDelta2 :: int
  sw_fixedDelta3 :: int
  sw_pointDelta1 :: int
  sw_pointDelta2 :: int
  sw_pointDelta3 :: int
  sw_options :: int

text \<open>\<open>P_Empty\<close> is \<open>Params_Base::emptyInstance\<close>, which dereferencing a null pointer gives.\<close>

datatype Params =
    P_Empty
  | P_Keyboard KeyboardParams
  | P_UpdateEventFlags Flags
  | P_Special SpecialParams
  | P_RelativePointer PointerParams
  | P_ScrollWheel ScrollParams
  | P_Wait int

text \<open>The constructors that compute the \<open>ex_\<close> members.\<close>

definition KeyboardParams_full ::
  "Pair list \<Rightarrow> EventType \<Rightarrow> Flags \<Rightarrow> KeyCode \<Rightarrow> u32 \<Rightarrow> u32 \<Rightarrow> u32 \<Rightarrow> u32 \<Rightarrow> KeyboardType \<Rightarrow> bool \<Rightarrow>
   KeyboardParams"
where
  "KeyboardParams_full pairs et fl kc cc cs occ ocs kt r =
     \<lparr>kp_eventType = et, kp_flags = fl, kp_key = kc, kp_charCode = cc, kp_charSet = cs,
      kp_origCharCode = occ, kp_origCharSet = ocs, kp_keyboardType = kt, kp_repeat = r,
      kp_ex_iskeydown = isKeyDownOrModifierDown pairs et kc fl\<rparr>"

definition KeyboardParams_new ::
  "Pair list \<Rightarrow> EventType \<Rightarrow> Flags \<Rightarrow> KeyCode \<Rightarrow> KeyboardType \<Rightarrow> bool \<Rightarrow> KeyboardParams"
where
  "KeyboardParams_new pairs et fl kc kt r = KeyboardParams_full pairs et fl kc 0 0 0 0 kt r"

definition SpecialParams_full ::
  "EventType \<Rightarrow> Flags \<Rightarrow> ConsumerKeyCode \<Rightarrow> u32 \<Rightarrow> u64 \<Rightarrow> bool \<Rightarrow> SpecialParams"
where
  "SpecialParams_full et fl ckc fv g r =
     \<lparr>sp_eventType = et, sp_flags = fl, sp_key = ckc, sp_flavor = fv, sp_guid = g, sp_repeat = r,
      sp_ex_iskeydown = (et = EventType_DOWN)\<rparr>"

definition SpecialParams_new ::
  "EventType \<Rightarrow> Flags \<Rightarrow> ConsumerKeyCode \<Rightarrow> bool \<Rightarrow> SpecialParams"
where
  "SpecialParams_new et fl ckc r = SpecialParams_full et fl ckc ckc (- 1) r"

definition PointerParams_new ::
  "Buttons \<Rightarrow> int \<Rightarrow> int \<Rightarrow> PointingButton \<Rightarrow> bool \<Rightarrow> PointerParams"
where
  "PointerParams_new bt x y ex_btn ex_isdown =
     \<lparr>pp_buttons = bt, pp_dx = x, pp_dy = y, pp_ex_button = ex_btn, pp_ex_isbuttondown = ex_isdown\<rparr>"

text \<open>
  \<open>iskeydown\<close> returns whether the event is a press or release at all, and through its reference
  argument which: here \<open>None\<close> when it returns false.
\<close>

fun iskeydown :: "Params \<Rightarrow> bool option" where
  "iskeydown (P_Keyboard p) = Some (kp_ex_iskeydown p)"
| "iskeydown (P_Special p) = Some (sp_ex_iskeydown p)"
| "iskeydown (P_RelativePointer p) =
     (if pp_ex_button p = PointingButton_NONE then None else Some (pp_ex_isbuttondown p))"
| "iskeydown _ = None"

fun Params_isModifier :: "Pair list \<Rightarrow> Params \<Rightarrow> bool" where
  "Params_isModifier pairs (P_Keyboard p) = KeyCode_isModifier pairs (kp_key p)"
| "Params_isModifier pairs _ = False"

fun isRepeat :: "Params \<Rightarrow> bool" where
  "isRepeat (P_Keyboard p) = kp_repeat p"
| "isRepeat (P_Special p) = sp_repeat p"
| "isRepeat _ = False"

section \<open>FromEvent\<close>

text \<open>\<open>Type\<close> and the three payload members of \<open>FromEvent\<close>.\<close>

datatype FromEvent =
    FE_NONE
  | FE_KEY KeyCode
  | FE_CONSUMER_KEY ConsumerKeyCode
  | FE_POINTING_BUTTON PointingButton

fun FromEvent_of_params :: "Params \<Rightarrow> FromEvent" where
  "FromEvent_of_params (P_Keyboard p) = FE_KEY (kp_key p)"
| "FromEvent_of_params (P_Special p) = FE_CONSUMER_KEY (sp_key p)"
| "FromEvent_of_params (P_RelativePointer p) = FE_POINTING_BUTTON (pp_ex_button p)"
| "FromEvent_of_params _ = FE_NONE"

abbreviation (input) BRIDGE_DATATYPE_NONE :: u32 where "BRIDGE_DATATYPE_NONE \<equiv> 0"
abbreviation (input) BRIDGE_DATATYPE_KEYCODE :: u32 where "BRIDGE_DATATYPE_KEYCODE \<equiv> 1"
abbreviation (input) BRIDGE_DATATYPE_CONSUMERKEYCODE :: u32 where "BRIDGE_DATATYPE_CONSUMERKEYCODE \<equiv> 4"
abbreviation (input) BRIDGE_DATATYPE_POINTINGBUTTON :: u32 where "BRIDGE_DATATYPE_POINTINGBUTTON \<equiv> 5"
abbreviation (input) BRIDGE_DATATYPE_SCROLLWHEEL :: u32 where "BRIDGE_DATATYPE_SCROLLWHEEL \<equiv> 6"

definition FromEvent_of_data :: "u32 \<Rightarrow> u32 \<Rightarrow> FromEvent" where
  "FromEvent_of_data datatype v =
     (if datatype = BRIDGE_DATATYPE_KEYCODE then FE_KEY v
      else if datatype = BRIDGE_DATATYPE_CONSUMERKEYCODE then FE_CONSUMER_KEY v
      else if datatype = BRIDGE_DATATYPE_POINTINGBUTTON then FE_POINTING_BUTTON v
      else FE_NONE)"

text \<open>The private \<open>isTargetEvent(bool& isDown, ...)\<close>: \<open>None\<close> when it returns false.\<close>

fun isTargetEventDown :: "FromEvent \<Rightarrow> Params \<Rightarrow> bool option" where
  "isTargetEventDown (FE_KEY k) (P_Keyboard p) =
     (if kp_key p \<noteq> k then None else Some (kp_ex_iskeydown p))"
| "isTargetEventDown (FE_CONSUMER_KEY k) (P_Special p) =
     (if sp_key p \<noteq> k then None else Some (sp_ex_iskeydown p))"
| "isTargetEventDown (FE_POINTING_BUTTON b) (P_RelativePointer p) =
     (if pp_ex_button p \<noteq> b then None else Some (pp_ex_isbuttondown p))"
| "isTargetEventDown _ _ = None"

definition isTargetEvent :: "FromEvent \<Rightarrow> Params \<Rightarrow> bool" where
  "isTargetEvent e p = (case isTargetEventDown e p of None \<Rightarrow> False | Some _ \<Rightarrow> True)"

definition isTargetDownEvent :: "FromEvent \<Rightarrow> Params \<Rightarrow> bool" where
  "isTargetDownEvent e p = (case isTargetEventDown e p of None \<Rightarrow> False | Some isDown \<Rightarrow> isDown)"

definition isTargetUpEvent :: "FromEvent \<Rightarrow> Params \<Rightarrow> bool" where
  "isTargetUpEvent e p = (case isTargetEventDown e p of None \<Rightarrow> False | Some isDown \<Rightarrow> \<not> isDown)"

definition FromEvent_getModifierFlag :: "Pair list \<Rightarrow> FromEvent \<Rightarrow> ModifierFlag" where
  "FromEvent_getModifierFlag pairs e =
     (case e of FE_KEY k \<Rightarrow> KeyCode_getModifierFlag pairs k | _ \<Rightarrow> ModifierFlag_ZERO)"

definition FromEvent_getPointingButton :: "FromEvent \<Rightarrow> PointingButton" where
  "FromEvent_getPointingButton e =
     (case e of FE_POINTING_BUTTON b \<Rightarrow> b | _ \<Rightarrow> PointingButton_NONE)"

section \<open>Matching\<close>

text \<open>
  An event matches the \<open>FromEvent\<close> made from it, and matching depends only on that: two events
  with the same \<open>FromEvent\<close> match the same patterns.
\<close>

lemma isTargetEventDown_of_params:
  "iskeydown p = Some d \<Longrightarrow> isTargetEventDown (FromEvent_of_params p) p = Some d"
  by (cases p) (auto split: if_splits)

lemma isTargetEventDown_iff:
  "iskeydown p = Some d \<Longrightarrow>
     isTargetEventDown e p = (if FromEvent_of_params p = e then Some d else None)"
  by (cases p; cases e) (auto split: if_splits)

lemma isTarget_partition:
  "isTargetEvent e p \<longleftrightarrow> isTargetDownEvent e p \<or> isTargetUpEvent e p"
  "\<not> (isTargetDownEvent e p \<and> isTargetUpEvent e p)"
  by (auto simp: isTargetEvent_def isTargetDownEvent_def isTargetUpEvent_def split: option.splits)

text \<open>
  A \<open>FromEvent\<close> recognises an event that presses or releases something exactly when it is the
  \<open>FromEvent\<close> of that event, and then reports the direction that \<open>iskeydown\<close> reports.
\<close>

theorem FromEvent_recognises:
  assumes "iskeydown p = Some d"
  shows "(isTargetEvent e p \<longleftrightarrow> e = FromEvent_of_params p) \<and>
         (isTargetDownEvent e p \<longleftrightarrow> e = FromEvent_of_params p \<and> d) \<and>
         (isTargetUpEvent e p \<longleftrightarrow> e = FromEvent_of_params p \<and> \<not> d)"
  using isTargetEventDown_iff [OF assms, of e]
  by (auto simp: isTargetEvent_def isTargetDownEvent_def isTargetUpEvent_def)

theorem FromEvent_recognises_witness:
  "isTargetDownEvent (FE_KEY KeyCode_A)
     (P_Keyboard (KeyboardParams_new [] EventType_DOWN 0 KeyCode_A 0 False)) \<and>
   \<not> isTargetEvent (FE_KEY KeyCode_RETURN)
     (P_Keyboard (KeyboardParams_new [] EventType_DOWN 0 KeyCode_A 0 False))"
  using FromEvent_recognises
    [of "P_Keyboard (KeyboardParams_new [] EventType_DOWN 0 KeyCode_A 0 False)" True "FE_KEY KeyCode_A"]
  and FromEvent_recognises
    [of "P_Keyboard (KeyboardParams_new [] EventType_DOWN 0 KeyCode_A 0 False)" True "FE_KEY KeyCode_RETURN"]
  by code_simp

end
