(* ===== verification/LinkedList.thy ===== *)
theory LinkedList
  imports Prelude "HOL-Library.Monad_Syntax"
begin

text \<open>
  \<^verbatim>\<open>List\<close>: the intrusive doubly linked list of all queues of the extension, on an explicit heap of
  items. A null pointer is \<open>None\<close>; an operation returns \<open>None\<close> when it would dereference a pointer
  that is not in the heap. The list of items refines a HOL list, for every operation and for the
  loop that deletes the items satisfying a condition while it walks the list, with which
  \<^verbatim>\<open>PressDownKeys\<close>, \<^verbatim>\<open>EventOutputQueue\<close>, \<^verbatim>\<open>PressingPhysicalKeys\<close> and others use it. The theories of
  those components rest on this refinement and take queues to be lists.
\<close>

section \<open>Model\<close>

type_synonym addr = nat

record 'v Node =
  nd_prev :: "addr option"
  nd_next :: "addr option"
  nd_data :: 'v

record 'v ListObj =
  l_heap :: "addr \<Rightarrow> 'v Node option"
  l_front :: "addr option"
  l_back :: "addr option"
  l_size :: u64

definition read_node :: "addr \<Rightarrow> 'v ListObj \<Rightarrow> 'v Node option" where
  "read_node a s = l_heap s a"

definition write_next :: "addr \<Rightarrow> addr option \<Rightarrow> 'v ListObj \<Rightarrow> 'v ListObj option" where
  "write_next a q s =
     do { n \<leftarrow> l_heap s a; Some (s\<lparr>l_heap := (l_heap s)(a := Some (n\<lparr>nd_next := q\<rparr>))\<rparr>) }"

definition write_prev :: "addr \<Rightarrow> addr option \<Rightarrow> 'v ListObj \<Rightarrow> 'v ListObj option" where
  "write_prev a q s =
     do { n \<leftarrow> l_heap s a; Some (s\<lparr>l_heap := (l_heap s)(a := Some (n\<lparr>nd_prev := q\<rparr>))\<rparr>) }"

definition List_new :: "(addr \<Rightarrow> 'v Node option) \<Rightarrow> 'v ListObj" where
  "List_new h = \<lparr>l_heap = h, l_front = None, l_back = None, l_size = 0\<rparr>"

text \<open>\<open>erase\<close>: unlink an item and return its successor.\<close>

definition List_erase :: "addr option \<Rightarrow> 'v ListObj \<Rightarrow> (addr option \<times> 'v ListObj) option" where
  "List_erase p s =
     (case p of
        None \<Rightarrow> Some (None, s)
      | Some a \<Rightarrow> do {
          n \<leftarrow> read_node a s;
          let nxt = nd_next n;
          s \<leftarrow> (case nd_prev n of None \<Rightarrow> Some s | Some q \<Rightarrow> write_next q (nd_next n) s);
          n \<leftarrow> read_node a s;
          s \<leftarrow> (case nd_next n of None \<Rightarrow> Some s | Some q \<Rightarrow> write_prev q (nd_prev n) s);
          n \<leftarrow> read_node a s;
          let s = (if l_front s = Some a then s\<lparr>l_front := nd_next n\<rparr> else s);
          let s = (if l_back s = Some a then s\<lparr>l_back := nd_prev n\<rparr> else s);
          Some (nxt, s\<lparr>l_size := l_size s - 1\<rparr>)
        })"

definition List_erase_and_delete ::
  "addr option \<Rightarrow> 'v ListObj \<Rightarrow> (addr option \<times> 'v ListObj) option"
where
  "List_erase_and_delete p s =
     (case p of
        None \<Rightarrow> Some (None, s)
      | Some a \<Rightarrow> do {
          (nxt, s) \<leftarrow> List_erase p s;
          Some (nxt, s\<lparr>l_heap := (l_heap s)(a := None)\<rparr>)
        })"

partial_function (option) List_clear :: "'v ListObj \<Rightarrow> 'v ListObj option" where
  "List_clear s =
     (case l_front s of
        None \<Rightarrow> Some s
      | Some a \<Rightarrow> do { (nxt, s) \<leftarrow> List_erase_and_delete (Some a) s; List_clear s })"

definition List_insert ::
  "addr option \<Rightarrow> addr option \<Rightarrow> 'v ListObj \<Rightarrow> (addr option \<times> 'v ListObj) option"
where
  "List_insert p newval s =
     (case newval of
        None \<Rightarrow> Some (None, s)
      | Some v \<Rightarrow>
          (case p of
             None \<Rightarrow> do {
               s \<leftarrow> (case l_front s of None \<Rightarrow> Some s | Some f \<Rightarrow> write_prev f newval s);
               s \<leftarrow> write_prev v None s;
               s \<leftarrow> write_next v (l_front s) s;
               let s = s\<lparr>l_front := newval\<rparr>;
               let s = (if l_back s = None then s\<lparr>l_back := l_front s\<rparr> else s);
               Some (newval, s\<lparr>l_size := l_size s + 1\<rparr>)
             }
           | Some a \<Rightarrow> do {
               s \<leftarrow> write_next v p s;
               n \<leftarrow> read_node a s;
               s \<leftarrow> (case nd_prev n of
                       Some q \<Rightarrow> do { s \<leftarrow> write_prev v (nd_prev n) s; write_next q newval s }
                     | None \<Rightarrow> Some (s\<lparr>l_front := newval\<rparr>));
               s \<leftarrow> write_prev a newval s;
               Some (newval, s\<lparr>l_size := l_size s + 1\<rparr>)
             }))"

definition List_push_back :: "addr option \<Rightarrow> 'v ListObj \<Rightarrow> 'v ListObj option" where
  "List_push_back p s =
     (case p of
        None \<Rightarrow> Some s
      | Some a \<Rightarrow> do {
          s \<leftarrow> (case l_back s of None \<Rightarrow> Some s | Some b \<Rightarrow> write_next b p s);
          s \<leftarrow> write_prev a (l_back s) s;
          s \<leftarrow> write_next a None s;
          let s = s\<lparr>l_back := p\<rparr>;
          let s = (if l_front s = None then s\<lparr>l_front := l_back s\<rparr> else s);
          Some (s\<lparr>l_size := l_size s + 1\<rparr>)
        })"

definition List_push_front :: "addr option \<Rightarrow> 'v ListObj \<Rightarrow> 'v ListObj option" where
  "List_push_front p s =
     (case p of None \<Rightarrow> Some s | Some a \<Rightarrow> do { (q, s) \<leftarrow> List_insert None p s; Some s })"

definition List_pop_front :: "'v ListObj \<Rightarrow> 'v ListObj option" where
  "List_pop_front s = map_option snd (List_erase_and_delete (l_front s) s)"

definition List_pop_back :: "'v ListObj \<Rightarrow> 'v ListObj option" where
  "List_pop_back s = map_option snd (List_erase_and_delete (l_back s) s)"

text \<open>\<open>new Item\<close>: a node at an address that is not in use.\<close>

definition new_item :: "addr \<Rightarrow> 'v \<Rightarrow> 'v ListObj \<Rightarrow> 'v ListObj" where
  "new_item a x s = s\<lparr>l_heap := (l_heap s)(a := Some \<lparr>nd_prev = None, nd_next = None, nd_data = x\<rparr>)\<rparr>"

text \<open>
  The loop \<open>for (;;) { if (!p) break; if (P) p = erase_and_delete(p); else p = p->getnext(); }\<close> from
  the pointer \<open>p\<close> on.
\<close>

partial_function (option) erase_if_from ::
  "('v \<Rightarrow> bool) \<Rightarrow> addr option \<Rightarrow> 'v ListObj \<Rightarrow> 'v ListObj option"
where
  "erase_if_from P p s =
     (case p of
        None \<Rightarrow> Some s
      | Some a \<Rightarrow> do {
          n \<leftarrow> read_node a s;
          if P (nd_data n) then do { (q, s) \<leftarrow> List_erase_and_delete p s; erase_if_from P q s }
          else erase_if_from P (nd_next n) s
        })"

section \<open>Segments of the heap\<close>

definition first_of :: "(addr \<times> 'v) list \<Rightarrow> addr option \<Rightarrow> addr option" where
  "first_of as nx = (case as of [] \<Rightarrow> nx | (a, _) # _ \<Rightarrow> Some a)"

definition last_of :: "(addr \<times> 'v) list \<Rightarrow> addr option \<Rightarrow> addr option" where
  "last_of as pr = (if as = [] then pr else Some (fst (last as)))"

fun seg :: "(addr \<Rightarrow> 'v Node option) \<Rightarrow> addr option \<Rightarrow> (addr \<times> 'v) list \<Rightarrow> addr option \<Rightarrow> bool" where
  "seg h pr [] nx = True"
| "seg h pr ((a, x) # as) nx =
     (h a = Some \<lparr>nd_prev = pr, nd_next = first_of as nx, nd_data = x\<rparr> \<and> seg h (Some a) as nx)"

lemma first_of_simps [simp]:
  "first_of [] nx = nx" "first_of ((a, x) # as) nx = Some a"
  "first_of (as @ bs) nx = first_of as (first_of bs nx)"
  by (auto simp: first_of_def split: list.split)

lemma last_of_simps [simp]:
  "last_of [] pr = pr" "last_of ((a, x) # as) pr = last_of as (Some a)"
  "last_of (as @ [(a, x)]) pr = Some a"
  by (auto simp: last_of_def)

lemma last_of_append [simp]: "last_of (as @ bs) pr = last_of bs (last_of as pr)"
  by (auto simp: last_of_def)

lemma end_of_not_null [simp]:
  "first_of as (Some c) \<noteq> None" "last_of as (Some c) \<noteq> None"
  "\<exists>y. first_of as (Some c) = Some y" "\<exists>y. last_of as (Some c) = Some y"
  by (auto simp: first_of_def last_of_def split: list.split)

lemma end_of_other [simp]:
  assumes "a \<noteq> c" and "a \<notin> fst ` set as"
  shows "first_of as (Some c) \<noteq> Some a" and "last_of as (Some c) \<noteq> Some a"
proof -
  show "first_of as (Some c) \<noteq> Some a"
    using assms by (auto simp: first_of_def split: list.split)
  show "last_of as (Some c) \<noteq> Some a"
    using assms last_in_set [of as] by (auto simp: last_of_def)
qed

lemma seg_append: "seg h pr (as @ bs) nx \<longleftrightarrow> seg h pr as (first_of bs nx) \<and> seg h (last_of as pr) bs nx"
  by (induction h pr as nx rule: seg.induct) auto

lemma seg_frame: "b \<notin> fst ` set as \<Longrightarrow> seg (h(b := v)) pr as nx = seg h pr as nx"
  by (induction h pr as nx rule: seg.induct) auto

text \<open>Redirecting the last next pointer and the first previous pointer of a segment.\<close>

lemma seg_set_next:
  assumes "seg h pr (as @ [(a, x)]) nx" and "distinct (map fst (as @ [(a, x)]))" and "h a = Some n"
  shows "seg (h(a := Some (n\<lparr>nd_next := nx'\<rparr>))) pr (as @ [(a, x)]) nx'"
  using assms by (auto simp: seg_append seg_frame)

lemma seg_set_prev:
  assumes "seg h pr ((a, x) # as) nx" and "distinct (map fst ((a, x) # as))" and "h a = Some n"
  shows "seg (h(a := Some (n\<lparr>nd_prev := pr'\<rparr>))) pr' ((a, x) # as) nx"
  using assms by (auto simp: seg_frame)

text \<open>The list object represents the items at the given addresses.\<close>

definition rep :: "(addr \<times> 'v) list \<Rightarrow> 'v ListObj \<Rightarrow> bool" where
  "rep as s = (seg (l_heap s) None as None \<and> distinct (map fst as) \<and>
               l_front s = first_of as None \<and> l_back s = last_of as None \<and>
               l_size s = of_nat (length as))"

definition frame_outside :: "(addr \<times> 'v) list \<Rightarrow> 'v ListObj \<Rightarrow> 'v ListObj \<Rightarrow> bool" where
  "frame_outside as s t = (\<forall>b. b \<notin> fst ` set as \<longrightarrow> l_heap t b = l_heap s b)"

lemmas list_op_defs =
  List_erase_def List_erase_and_delete_def read_node_def write_next_def write_prev_def Let_def image_Un

lemma erase_rep:
  assumes "rep (l @ (a, x) # r) s"
  shows "\<exists>t. List_erase (Some a) s = Some (first_of r None, t) \<and> rep (l @ r) t \<and>
             frame_outside (l @ (a, x) # r) s t"
proof (cases l rule: rev_cases)
  case Nil
  show ?thesis
  proof (cases r)
    case Nil
    with \<open>l = []\<close> assms show ?thesis
      by (auto simp: rep_def list_op_defs frame_outside_def)
  next
    case (Cons b r')
    obtain d z where b: "b = (d, z)" by (cases b)
    with \<open>l = []\<close> Cons assms show ?thesis
      by (auto simp: rep_def list_op_defs frame_outside_def seg_frame)
  qed
next
  case (snoc l' b)
  obtain c y where c: "b = (c, y)" by (cases b)
  show ?thesis
  proof (cases r)
    case Nil
    with snoc c assms show ?thesis
      by (auto simp: rep_def list_op_defs frame_outside_def seg_append seg_frame)
  next
    case (Cons b' r')
    obtain d z where b': "b' = (d, z)" by (cases b')
    with snoc c Cons assms show ?thesis
      by (auto simp: rep_def list_op_defs frame_outside_def seg_append seg_frame)
  qed
qed

lemma rep_delete:
  assumes "rep as s" and "a \<notin> fst ` set as"
  shows "rep as (s\<lparr>l_heap := (l_heap s)(a := v)\<rparr>)"
  using assms by (simp add: rep_def seg_frame)

lemma erase_and_delete_rep:
  assumes "rep (l @ (a, x) # r) s"
  shows "\<exists>t. List_erase_and_delete (Some a) s = Some (first_of r None, t) \<and> rep (l @ r) t \<and>
             l_heap t a = None \<and> frame_outside (l @ (a, x) # r) s t"
proof -
  from erase_rep [OF assms] obtain t where
    t: "List_erase (Some a) s = Some (first_of r None, t)" "rep (l @ r) t"
       "frame_outside (l @ (a, x) # r) s t" by blast
  have "a \<notin> fst ` set (l @ r)" using assms by (auto simp: rep_def)
  with t show ?thesis
    by (auto simp: List_erase_and_delete_def rep_delete frame_outside_def)
qed

lemma push_back_rep:
  assumes "rep as s" and "l_heap s a = Some n" and "a \<notin> fst ` set as"
  shows "\<exists>t. List_push_back (Some a) s = Some t \<and> rep (as @ [(a, nd_data n)]) t \<and>
             frame_outside ((a, nd_data n) # as) s t"
proof (cases as rule: rev_cases)
  case Nil
  with assms show ?thesis
    by (cases n) (auto simp: rep_def List_push_back_def list_op_defs frame_outside_def)
next
  case (snoc as' b)
  obtain c y where "b = (c, y)" by (cases b)
  with snoc assms show ?thesis
    by (cases n) (auto simp: rep_def List_push_back_def list_op_defs frame_outside_def seg_append seg_frame)
qed

lemma insert_front_rep:
  assumes "rep as s" and "l_heap s a = Some n" and "a \<notin> fst ` set as"
  shows "\<exists>t. List_insert None (Some a) s = Some (Some a, t) \<and> rep ((a, nd_data n) # as) t \<and>
             frame_outside ((a, nd_data n) # as) s t"
proof (cases as)
  case Nil
  with assms show ?thesis
    by (cases n) (auto simp: rep_def List_insert_def list_op_defs frame_outside_def)
next
  case (Cons b as')
  obtain c y where c: "b = (c, y)" by (cases b)
  with Cons assms show ?thesis
    by (cases n) (auto simp: rep_def List_insert_def list_op_defs frame_outside_def seg_frame)
qed

lemma insert_before_rep:
  assumes "rep (l @ (b, y) # r) s" and "l_heap s a = Some n" and "nd_prev n = None"
    and "a \<notin> fst ` set (l @ (b, y) # r)"
  shows "\<exists>t. List_insert (Some b) (Some a) s = Some (Some a, t) \<and> rep (l @ (a, nd_data n) # (b, y) # r) t \<and>
             frame_outside ((a, nd_data n) # l @ (b, y) # r) s t"
proof (cases l rule: rev_cases)
  case Nil
  with assms show ?thesis
    by (cases n) (auto simp: rep_def List_insert_def list_op_defs frame_outside_def seg_frame)
next
  case (snoc l' e)
  obtain c z where "e = (c, z)" by (cases e)
  with snoc assms show ?thesis
    by (cases n) (auto simp: rep_def List_insert_def list_op_defs frame_outside_def seg_append seg_frame)
qed

section \<open>Loops\<close>

lemma clear_rep:
  assumes "rep as s"
  shows "\<exists>t. List_clear s = Some t \<and> rep [] t \<and> (\<forall>a \<in> fst ` set as. l_heap t a = None) \<and>
             frame_outside as s t"
  using assms
proof (induction as arbitrary: s)
  case Nil
  then show ?case by (simp add: List_clear.simps [of s] rep_def frame_outside_def)
next
  case (Cons b as)
  obtain a x where b: "b = (a, x)" by (cases b)
  from erase_and_delete_rep [of "[]" a x as s] Cons.prems b obtain u where
    u: "List_erase_and_delete (Some a) s = Some (first_of as None, u)" "rep as u" "l_heap u a = None"
       "frame_outside ((a, x) # as) s u" by auto
  from Cons.IH [OF u(2)] obtain t where
    t: "List_clear u = Some t" "rep [] t" "\<forall>a \<in> fst ` set as. l_heap t a = None" "frame_outside as u t"
    by blast
  have "a \<notin> fst ` set as" using Cons.prems by (auto simp: rep_def b)
  then have "l_heap t a = None" using u(3) t(4) by (simp add: frame_outside_def)
  moreover have "List_clear s = Some t"
    using Cons.prems u(1) t(1) by (simp add: List_clear.simps [of s] b rep_def)
  moreover have "frame_outside (b # as) s t"
    using u(4) t(4) by (auto simp: frame_outside_def b)
  ultimately show ?case using t by (auto simp: b)
qed

lemma erase_if_from_rep:
  assumes "rep (l @ r) s"
  shows "\<exists>t. erase_if_from P (first_of r None) s = Some t \<and> rep (l @ filter (\<lambda>ax. \<not> P (snd ax)) r) t"
  using assms
proof (induction r arbitrary: l s)
  case Nil
  then show ?case by (simp add: erase_if_from.simps)
next
  case (Cons b r)
  obtain a x where b: "b = (a, x)" by (cases b)
  have node: "read_node a s = Some \<lparr>nd_prev = last_of l None, nd_next = first_of r None, nd_data = x\<rparr>"
    using Cons.prems by (simp add: b rep_def seg_append read_node_def)
  show ?case
  proof (cases "P x")
    case True
    from erase_and_delete_rep [of l a x r s] Cons.prems b obtain u where
      u: "List_erase_and_delete (Some a) s = Some (first_of r None, u)" "rep (l @ r) u" by auto
    from Cons.IH [OF u(2)] show ?thesis
      using True by (simp add: b erase_if_from.simps [of P "Some a"] node u(1))
  next
    case False
    from Cons.IH [of "l @ [b]" s] Cons.prems show ?thesis
      using False by (simp add: b erase_if_from.simps [of P "Some a"] node)
  qed
qed

section \<open>Refinement of lists\<close>

definition list_abs :: "'v ListObj \<Rightarrow> 'v list \<Rightarrow> bool" where
  "list_abs s xs = (\<exists>as. rep as s \<and> map snd as = xs)"

text \<open>\<open>queue.push_back(new Item(x))\<close>, for whatever free address the allocator returns.\<close>

definition push_new :: "'v \<Rightarrow> 'v ListObj \<Rightarrow> 'v ListObj \<Rightarrow> bool" where
  "push_new x s t = (\<exists>a. l_heap s a = None \<and> List_push_back (Some a) (new_item a x s) = Some t)"

lemma rep_address: "rep as s \<Longrightarrow> a \<in> fst ` set as \<Longrightarrow> l_heap s a \<noteq> None"
  by (auto simp: rep_def seg_append dest!: split_list)

lemma rep_new_item: "rep as s \<Longrightarrow> l_heap s a = None \<Longrightarrow> rep as (new_item a x s)"
  using rep_address [of as s a] by (auto simp: new_item_def intro!: rep_delete)

lemma push_new_total:
  assumes "list_abs s xs" and "l_heap s a = None"
  shows "\<exists>t. List_push_back (Some a) (new_item a x s) = Some t \<and> list_abs t (xs @ [x])"
proof -
  from assms(1) obtain as where as: "rep as s" "map snd as = xs" by (auto simp: list_abs_def)
  have "a \<notin> fst ` set as" using rep_address [OF as(1)] assms(2) by blast
  moreover have "l_heap (new_item a x s) a = Some \<lparr>nd_prev = None, nd_next = None, nd_data = x\<rparr>"
    by (simp add: new_item_def)
  ultimately obtain t where "List_push_back (Some a) (new_item a x s) = Some t" "rep (as @ [(a, x)]) t"
    using push_back_rep [OF rep_new_item [OF as(1) assms(2)]] by fastforce
  with as(2) show ?thesis by (auto simp: list_abs_def intro!: exI [of _ "as @ [(a, x)]"])
qed

lemma pop_front_abs:
  assumes "list_abs s xs"
  shows "\<exists>t. List_pop_front s = Some t \<and> list_abs t (tl xs)"
proof -
  from assms obtain as where as: "rep as s" "map snd as = xs" by (auto simp: list_abs_def)
  show ?thesis
  proof (cases as)
    case Nil
    with as have "l_front s = None" by (simp add: rep_def)
    with Nil as show ?thesis by (auto simp: List_pop_front_def List_erase_and_delete_def list_abs_def)
  next
    case (Cons b as')
    obtain a x where b: "b = (a, x)" by (cases b)
    then have "l_front s = Some a" using as Cons by (simp add: rep_def)
    with erase_and_delete_rep [of "[]" a x as' s] as Cons b show ?thesis
      by (auto simp: List_pop_front_def list_abs_def)
  qed
qed

text \<open>
  The contract of a queue, and the order it guarantees to its clients: after pushing \<open>ys\<close> behind
  \<open>xs\<close>, popping gives the items in that order.
\<close>

locale fifo_queue =
  fixes abs :: "'s \<Rightarrow> 'v list \<Rightarrow> bool"
    and push :: "'v \<Rightarrow> 's \<Rightarrow> 's \<Rightarrow> bool"
    and pop :: "'s \<Rightarrow> 's option"
  assumes push_abs: "abs s xs \<Longrightarrow> push x s t \<Longrightarrow> abs t (xs @ [x])"
    and pop_abs: "abs s xs \<Longrightarrow> \<exists>t. pop s = Some t \<and> abs t (tl xs)"
begin

inductive pushes :: "'v list \<Rightarrow> 's \<Rightarrow> 's \<Rightarrow> bool" where
  pushes_Nil: "pushes [] s s"
| pushes_Cons: "push x s t \<Longrightarrow> pushes xs t u \<Longrightarrow> pushes (x # xs) s u"

primrec pops :: "nat \<Rightarrow> 's \<Rightarrow> 's option" where
  "pops 0 s = Some s"
| "pops (Suc k) s = Option.bind (pop s) (pops k)"

lemma pushes_abs: "pushes ys s t \<Longrightarrow> abs s xs \<Longrightarrow> abs t (xs @ ys)"
proof (induction arbitrary: xs rule: pushes.induct)
  case (pushes_Cons x s t ys u)
  from pushes_Cons.IH [OF push_abs [OF pushes_Cons.prems pushes_Cons.hyps(1)]] show ?case by simp
qed simp

lemma pops_abs: "abs s xs \<Longrightarrow> \<exists>t. pops k s = Some t \<and> abs t (drop k xs)"
proof (induction k arbitrary: s xs)
  case (Suc k)
  from pop_abs [OF Suc.prems] obtain u where u: "pop s = Some u" "abs u (tl xs)" by blast
  from Suc.IH [OF u(2)] u(1) show ?case by (simp add: drop_Suc)
qed simp

lemma fifo:
  assumes "abs s xs" and "pushes ys s t"
  shows "\<exists>u. pops k t = Some u \<and> abs u (drop k (xs @ ys))"
  using pops_abs [OF pushes_abs [OF assms(2,1)]] .

end

interpretation list_queue: fifo_queue list_abs push_new List_pop_front
proof
  show "list_abs t (xs @ [x])" if "list_abs s xs" "push_new x s t" for s xs x and t :: "'a ListObj"
  proof -
    from that(2) obtain a where a: "l_heap s a = None" "List_push_back (Some a) (new_item a x s) = Some t"
      by (auto simp: push_new_def)
    from push_new_total [OF that(1) a(1), of x] a(2) show ?thesis by simp
  qed
  show "\<exists>t. List_pop_front s = Some t \<and> list_abs t (tl xs)" if "list_abs s xs" for xs and s :: "'a ListObj"
    using pop_front_abs [OF that] .
qed

text \<open>
  C24: On a list object that represents \<open>xs\<close>, deleting the items that satisfy a condition while
  walking the list terminates without touching freed memory, and the object then represents the
  other items in their order.
\<close>

theorem List_erase_if:
  assumes "list_abs s xs"
  shows "\<exists>t. erase_if_from P (l_front s) s = Some t \<and> list_abs t (filter (\<lambda>x. \<not> P x) xs)"
proof -
  from assms obtain as where as: "rep as s" "map snd as = xs" by (auto simp: list_abs_def)
  have "l_front s = first_of as None" using as by (simp add: rep_def)
  moreover have "map snd (filter (\<lambda>ax. \<not> P (snd ax)) as) = filter (\<lambda>x. \<not> P x) xs"
    by (simp add: filter_map comp_def flip: as(2))
  ultimately show ?thesis
    using erase_if_from_rep [of "[]" as s P] as(1) unfolding list_abs_def by auto
qed


text \<open>A list of two items.\<close>

definition two_items :: "string ListObj" where
  "two_items =
     \<lparr>l_heap = (\<lambda>_. None)
        (10 := Some \<lparr>nd_prev = None, nd_next = Some 20, nd_data = ''a''\<rparr>,
         20 := Some \<lparr>nd_prev = Some 10, nd_next = None, nd_data = ''b''\<rparr>),
      l_front = Some 10, l_back = Some 20, l_size = 2\<rparr>"

lemma two_items_rep: "rep [(10, ''a''), (20, ''b'')] two_items"
  by (simp add: rep_def two_items_def)

theorem List_erase_if_witness:
  "\<exists>t. erase_if_from (\<lambda>x. x = ''a'') (Some 10) two_items = Some t \<and> list_abs t [''b'']"
proof -
  have "list_abs two_items [''a'', ''b'']"
    unfolding list_abs_def by (rule exI [of _ "[(10, ''a''), (20, ''b'')]"]) (simp add: two_items_rep)
  from List_erase_if [OF this, of "\<lambda>x. x = ''a''"] show ?thesis by (simp add: two_items_def)
qed


text \<open>
  The queues are first in, first out: items pushed behind the represented ones come out after
  them, in the order of the pushes.
\<close>

lemma List_fifo:
  assumes "list_abs s xs" and "list_queue.pushes ys s t"
  shows "\<exists>u. list_queue.pops k t = Some u \<and> list_abs u (drop k (xs @ ys))"
  using assms by (rule list_queue.fifo)

end
