(* ===== verification/Containers.thy ===== *)
theory Containers
  imports Prelude "HOL-Library.Monad_Syntax"
begin

text \<open>
  The growable arrays (\<^verbatim>\<open>Vector.hpp\<close>) and the weak pointers (\<^verbatim>\<open>WeakPointer.hpp\<close>) that macros declare
  for the types of the extension.
\<close>

section \<open>Vector\<close>

text \<open>
  \<open>vec_array\<close> is \<open>None\<close> for a null pointer. \<open>d\<close> is a default-constructed element, and \<open>alloc n\<close> says
  whether \<open>new TYPENAME[n]\<close> succeeds (in the kernel it can return null). An operation that accesses
  the array through a null pointer or out of its bounds gives \<open>None\<close>.
\<close>

record 'a Vec =
  vec_array :: "'a list option"
  vec_capacity :: nat
  vec_size :: nat

abbreviation (input) CHUNKSIZE :: nat where "CHUNKSIZE \<equiv> 16"

definition Vec_new :: "'a Vec" where
  "Vec_new = \<lparr>vec_array = None, vec_capacity = 0, vec_size = 0\<rparr>"

definition Vec_get :: "'a Vec \<Rightarrow> nat \<Rightarrow> 'a option" where
  "Vec_get v i = do { a \<leftarrow> vec_array v; if i < length a then Some (a ! i) else None }"

fun copy_elements :: "'a Vec \<Rightarrow> nat list \<Rightarrow> 'a list \<Rightarrow> 'a list option" where
  "copy_elements v [] p = Some p"
| "copy_elements v (i # is) p =
     do { x \<leftarrow> Vec_get v i; if i < length p then copy_elements v is (p[i := x]) else None }"

definition Vec_reserve :: "(nat \<Rightarrow> bool) \<Rightarrow> 'a \<Rightarrow> nat \<Rightarrow> 'a Vec \<Rightarrow> 'a Vec option" where
  "Vec_reserve alloc d n v =
     (if n \<le> vec_capacity v then Some v
      else if alloc n then do {
        p \<leftarrow> copy_elements v [0..<vec_size v] (replicate n d);
        Some (v\<lparr>vec_capacity := n, vec_array := Some p\<rparr>)
      }
      else Some v)"

definition Vec_clear :: "'a Vec \<Rightarrow> 'a Vec" where
  "Vec_clear v = \<lparr>vec_array = None, vec_capacity = 0, vec_size = 0\<rparr>"

definition Vec_push_back :: "(nat \<Rightarrow> bool) \<Rightarrow> 'a \<Rightarrow> 'a \<Rightarrow> 'a Vec \<Rightarrow> 'a Vec option" where
  "Vec_push_back alloc d newval v = do {
     v \<leftarrow> (if vec_size v \<ge> vec_capacity v then Vec_reserve alloc d (vec_capacity v + CHUNKSIZE) v else Some v);
     if vec_size v < vec_capacity v then do {
       a \<leftarrow> vec_array v;
       if vec_size v < length a
       then Some (v\<lparr>vec_array := Some (a[vec_size v := newval]), vec_size := vec_size v + 1\<rparr>)
       else None
     }
     else Some v
   }"

text \<open>\<open>operator=\<close> for two different objects; the result of \<open>new\<close> is not checked.\<close>

definition Vec_assign :: "(nat \<Rightarrow> bool) \<Rightarrow> 'a \<Rightarrow> 'a Vec \<Rightarrow> 'a Vec \<Rightarrow> 'a Vec option" where
  "Vec_assign alloc d rhs v =
     (let v = (Vec_clear v)\<lparr>vec_capacity := vec_capacity rhs, vec_size := vec_size rhs\<rparr> in
      if vec_size v = 0 then Some (v\<lparr>vec_array := None\<rparr>)
      else if alloc (vec_capacity v) then do {
        p \<leftarrow> copy_elements rhs [0..<vec_size v] (replicate (vec_capacity v) d);
        Some (v\<lparr>vec_array := Some p\<rparr>)
      }
      else None)"

fun is_include_from :: "'a Vec \<Rightarrow> 'a \<Rightarrow> nat list \<Rightarrow> bool option" where
  "is_include_from v x [] = Some False"
| "is_include_from v x (i # is) = do { y \<leftarrow> Vec_get v i; if y = x then Some True else is_include_from v x is }"

definition Vec_is_include :: "'a Vec \<Rightarrow> 'a \<Rightarrow> bool option" where
  "Vec_is_include v x = is_include_from v x [0..<vec_size v]"

text \<open>Well-formed vectors and the list they hold.\<close>

definition vec_ok :: "'a Vec \<Rightarrow> bool" where
  "vec_ok v = (vec_size v \<le> vec_capacity v \<and>
     (case vec_array v of None \<Rightarrow> vec_capacity v = 0 | Some a \<Rightarrow> length a = vec_capacity v))"

definition vec_list :: "'a Vec \<Rightarrow> 'a list" where
  "vec_list v = (case vec_array v of None \<Rightarrow> [] | Some a \<Rightarrow> take (vec_size v) a)"

lemma vec_ok_get: "vec_ok v \<Longrightarrow> i < vec_size v \<Longrightarrow> Vec_get v i = Some (vec_list v ! i)"
  by (auto simp: vec_ok_def Vec_get_def vec_list_def split: option.splits)

lemma length_vec_list: "vec_ok v \<Longrightarrow> length (vec_list v) = vec_size v"
  by (auto simp: vec_ok_def vec_list_def split: option.splits)

lemma copy_elements_from:
  assumes "vec_ok v" and "i \<le> vec_size v" and "vec_size v \<le> length p" and "take i p = take i (vec_list v)"
  shows "\<exists>q. copy_elements v [i..<vec_size v] p = Some q \<and> length q = length p \<and>
             take (vec_size v) q = vec_list v"
  using assms(2-)
proof (induction "vec_size v - i" arbitrary: i p)
  case 0
  then show ?case using length_vec_list [OF assms(1)] by simp
next
  case (Suc k)
  then have i: "i < vec_size v" by simp
  let ?p = "p[i := vec_list v ! i]"
  have "take (Suc i) ?p = take (Suc i) (vec_list v)"
    using Suc.prems i length_vec_list [OF assms(1)] by (simp add: take_Suc_conv_app_nth)
  moreover have "k = vec_size v - Suc i" using Suc.hyps(2) by simp
  ultimately obtain q where "copy_elements v [Suc i..<vec_size v] ?p = Some q" "length q = length ?p"
    "take (vec_size v) q = vec_list v"
    using Suc.hyps(1) [of "Suc i" ?p] Suc.prems i by auto
  then show ?case
    using i Suc.prems vec_ok_get [OF assms(1) i] by (simp add: upt_conv_Cons)
qed

lemma copy_elements_ok:
  assumes "vec_ok v" and "vec_size v \<le> n"
  shows "\<exists>q. copy_elements v [0..<vec_size v] (replicate n d) = Some q \<and> length q = n \<and>
             take (vec_size v) q = vec_list v"
  using copy_elements_from [OF assms(1), of 0 "replicate n d"] assms(2) by simp

lemma reserve_ok:
  assumes "vec_ok v"
  shows "\<exists>w. Vec_reserve alloc d n v = Some w \<and> vec_ok w \<and> vec_list w = vec_list v \<and>
             vec_size w = vec_size v \<and>
             vec_capacity w = (if n \<le> vec_capacity v \<or> \<not> alloc n then vec_capacity v else n)"
proof (cases "n \<le> vec_capacity v \<or> \<not> alloc n")
  case True
  with assms show ?thesis by (auto simp: Vec_reserve_def)
next
  case False
  then have "vec_size v \<le> n" using assms by (simp add: vec_ok_def)
  from copy_elements_ok [OF assms this, of d] False show ?thesis
    using \<open>vec_size v \<le> n\<close> by (auto simp: Vec_reserve_def vec_ok_def vec_list_def)
qed

lemma push_back_ok:
  assumes "vec_ok v" and "alloc (vec_capacity v + CHUNKSIZE)"
  shows "\<exists>w. Vec_push_back alloc d x v = Some w \<and> vec_ok w \<and> vec_list w = vec_list v @ [x] \<and>
             vec_capacity w = (if vec_size v < vec_capacity v then vec_capacity v else vec_capacity v + CHUNKSIZE)"
proof -
  obtain u where u: "(if vec_size v \<ge> vec_capacity v then Vec_reserve alloc d (vec_capacity v + CHUNKSIZE) v else Some v) = Some u"
    "vec_ok u" "vec_list u = vec_list v" "vec_size u = vec_size v"
    "vec_capacity u = (if vec_size v < vec_capacity v then vec_capacity v else vec_capacity v + CHUNKSIZE)"
    using reserve_ok [OF assms(1), of alloc d "vec_capacity v + CHUNKSIZE"] assms
    by (cases "vec_size v < vec_capacity v") auto
  have lt: "vec_size u < vec_capacity u" using u assms(1) by (auto simp: vec_ok_def)
  then obtain a where a: "vec_array u = Some a" "length a = vec_capacity u"
    using u(2) by (auto simp: vec_ok_def split: option.splits)
  let ?w = "u\<lparr>vec_array := Some (a[vec_size u := x]), vec_size := vec_size u + 1\<rparr>"
  have "Vec_push_back alloc d x v = Some ?w" using u(1) lt a by (simp add: Vec_push_back_def)
  moreover have "vec_ok ?w" using lt a by (simp add: vec_ok_def)
  moreover have "vec_list v = take (vec_size u) a" using a(1) u(3) by (simp add: vec_list_def)
  moreover have "vec_list ?w = take (vec_size u) a @ [x]"
    using lt a by (simp add: vec_list_def take_Suc_conv_app_nth)
  ultimately show ?thesis using u(5) by auto
qed

lemma chunk_step:
  assumes "c = CHUNKSIZE * ((n + 15) div CHUNKSIZE)" and "n \<le> c"
  shows "(if n < c then c else c + CHUNKSIZE) = CHUNKSIZE * ((Suc n + 15) div CHUNKSIZE)"
proof -
  define q where "q = (n + 15) div 16"
  define m where "m = (n + 15) mod 16"
  have n: "n + 15 = 16 * q + m" "m < 16" by (simp_all add: q_def m_def)
  have "(Suc n + 15) div 16 = (if m = 15 then q + 1 else q)"
  proof (cases "m = 15")
    case True
    with n have "Suc n + 15 = 16 * (q + 1)" by simp
    then show ?thesis using True by simp
  next
    case False
    with n have "Suc n + 15 = 16 * q + Suc m" "Suc m < 16" by simp_all
    then show ?thesis using False by simp
  qed
  moreover have "n < c \<longleftrightarrow> m \<noteq> 15" using n assms by (auto simp: q_def)
  ultimately show ?thesis using assms(1) by (simp add: q_def)
qed

text \<open>Pushing a list of values.\<close>

primrec push_all :: "(nat \<Rightarrow> bool) \<Rightarrow> 'a \<Rightarrow> 'a list \<Rightarrow> 'a Vec \<Rightarrow> 'a Vec option" where
  "push_all alloc d [] v = Some v"
| "push_all alloc d (x # xs) v = do { v \<leftarrow> Vec_push_back alloc d x v; push_all alloc d xs v }"

text \<open>
  When memory can be allocated, pushing values onto a new vector never accesses memory
  outside its array, the vector then holds the values in order, and its capacity is the smallest
  multiple of the chunk size that holds them.
\<close>

theorem Vector_push_back:
  assumes "\<forall>n. alloc n"
  shows "\<exists>v. push_all alloc d xs Vec_new = Some v \<and> vec_ok v \<and> vec_list v = xs \<and>
             vec_capacity v = CHUNKSIZE * ((length xs + 15) div CHUNKSIZE)"
proof -
  have "\<exists>w. push_all alloc d xs v = Some w \<and> vec_ok w \<and> vec_list w = vec_list v @ xs \<and>
            vec_capacity w = CHUNKSIZE * ((vec_size v + length xs + 15) div CHUNKSIZE)"
    if "vec_ok v" "vec_capacity v = CHUNKSIZE * ((vec_size v + 15) div CHUNKSIZE)" for v :: "'a Vec"
    using that
  proof (induction xs arbitrary: v)
    case (Cons x xs)
    from push_back_ok [OF Cons.prems(1), of alloc d x] assms obtain u where
      u: "Vec_push_back alloc d x v = Some u" "vec_ok u" "vec_list u = vec_list v @ [x]"
         "vec_capacity u = (if vec_size v < vec_capacity v then vec_capacity v else vec_capacity v + CHUNKSIZE)"
      by auto
    have size: "vec_size u = Suc (vec_size v)"
      using u(2,3) length_vec_list [OF u(2)] length_vec_list [OF Cons.prems(1)] by simp
    have "vec_size v \<le> vec_capacity v" using Cons.prems(1) by (simp add: vec_ok_def)
    then have "vec_capacity u = CHUNKSIZE * ((vec_size u + 15) div CHUNKSIZE)"
      using u(4) chunk_step [OF Cons.prems(2)] by (simp add: size)
    from Cons.IH [OF u(2) this] u show ?case by (auto simp: size)
  qed simp
  from this [of Vec_new] show ?thesis by (simp add: Vec_new_def vec_ok_def vec_list_def)
qed

theorem Vector_push_back_witness:
  "\<exists>v. push_all (\<lambda>_. True) 0 [5, 6, 7 :: int] Vec_new = Some v \<and> vec_list v = [5, 6, 7] \<and> vec_capacity v = 16"
  using Vector_push_back [of "\<lambda>_. True" 0 "[5, 6, 7 :: int]"] by auto

text \<open>
  C35: Assigning a vector copies its elements, and \<open>is_include\<close> on the copy is membership. The
  exception is a vector that has capacity and no element: the copy then has a null array and a
  positive capacity, and the next \<open>push_back\<close> writes through the null pointer.
\<close>

theorem Vector_assign:
  assumes "vec_ok rhs" and "alloc (vec_capacity rhs)"
  shows "\<exists>v. Vec_assign alloc d rhs v0 = Some v \<and> vec_list v = vec_list rhs \<and>
             Vec_is_include v x = Some (x \<in> set (vec_list rhs)) \<and>
             (if vec_size rhs = 0 \<and> 0 < vec_capacity rhs
              then Vec_push_back alloc d x v = None else vec_ok v)"
proof (cases "vec_size rhs = 0")
  case True
  with assms show ?thesis
    by (auto simp: Vec_assign_def Vec_clear_def vec_list_def Vec_is_include_def Vec_push_back_def vec_ok_def
        split: option.split)
next
  case False
  have "vec_size rhs \<le> vec_capacity rhs" using assms(1) by (simp add: vec_ok_def)
  from copy_elements_ok [OF assms(1) this, of d] obtain q where
    q: "copy_elements rhs [0..<vec_size rhs] (replicate (vec_capacity rhs) d) = Some q"
       "length q = vec_capacity rhs" "take (vec_size rhs) q = vec_list rhs" by blast
  let ?v = "\<lparr>vec_array = Some q, vec_capacity = vec_capacity rhs, vec_size = vec_size rhs\<rparr>"
  have v: "Vec_assign alloc d rhs v0 = Some ?v"
    using False q assms(2) by (simp add: Vec_assign_def Vec_clear_def)
  have ok: "vec_ok ?v" "vec_list ?v = vec_list rhs"
    using q \<open>vec_size rhs \<le> vec_capacity rhs\<close> by (simp_all add: vec_ok_def vec_list_def)
  have "is_include_from ?v x is = Some (x \<in> (\<lambda>i. vec_list rhs ! i) ` set is)"
    if "set is \<subseteq> {..<vec_size rhs}" for "is"
    using that vec_ok_get [OF ok(1)] ok(2) by (induction "is") auto
  from this [of "[0..<vec_size rhs]"] have "Vec_is_include ?v x = Some (x \<in> set (vec_list rhs))"
    using length_vec_list [OF assms(1)] nth_image [of "vec_size rhs" "vec_list rhs"]
    by (auto simp: Vec_is_include_def atLeast0LessThan)
  with v ok False show ?thesis by auto
qed

theorem Vector_assign_witness:
  "\<exists>v. Vec_assign (\<lambda>_. True) 0 \<lparr>vec_array = Some (replicate 16 0), vec_capacity = 16, vec_size = 0\<rparr> Vec_new = Some v \<and>
       Vec_push_back (\<lambda>_. True) 0 (5 :: int) v = None"
  using Vector_assign [of "\<lparr>vec_array = Some (replicate 16 (0 :: int)), vec_capacity = 16, vec_size = 0\<rparr>"
      "\<lambda>_. True" 0 Vec_new 5]
  by (auto simp: vec_ok_def)

section \<open>WeakPointer\<close>

text \<open>
  The manager keeps the live objects with the number each got when it was constructed; \<open>lastid_\<close> is
  a C++ \<open>int\<close>, here an integer. Pointers are numbers; the list is the one of theory \<open>LinkedList\<close>.
\<close>

record WeakManager =
  wm_list :: "(nat \<times> int) list"
  wm_lastid :: int

definition WeakManager_new :: WeakManager where
  "WeakManager_new = \<lparr>wm_list = [], wm_lastid = 0\<rparr>"

definition Weak_add :: "nat \<Rightarrow> WeakManager \<Rightarrow> WeakManager" where
  "Weak_add p m = m\<lparr>wm_lastid := wm_lastid m + 1, wm_list := wm_list m @ [(p, wm_lastid m + 1)]\<rparr>"

fun remove_first :: "nat \<Rightarrow> (nat \<times> int) list \<Rightarrow> (nat \<times> int) list" where
  "remove_first p [] = []"
| "remove_first p (x # xs) = (if fst x = p then xs else x # remove_first p xs)"

definition Weak_remove :: "nat \<Rightarrow> WeakManager \<Rightarrow> WeakManager" where
  "Weak_remove p m = m\<lparr>wm_list := remove_first p (wm_list m)\<rparr>"

definition Weak_expired :: "WeakManager \<Rightarrow> nat \<Rightarrow> int \<Rightarrow> bool" where
  "Weak_expired m p i = (find (\<lambda>x. fst x = p \<and> snd x = i) (wm_list m) = None)"

definition Weak_getid :: "WeakManager \<Rightarrow> nat \<Rightarrow> int" where
  "Weak_getid m p = (case find (\<lambda>x. fst x = p) (wm_list m) of Some x \<Rightarrow> snd x | None \<Rightarrow> - 1)"

text \<open>
  Constructing and destroying objects. A constructor calls \<open>add\<close> for an address that no live object
  has.
\<close>

inductive weak_step :: "WeakManager \<Rightarrow> WeakManager \<Rightarrow> bool" where
  weak_construct: "p \<notin> fst ` set (wm_list m) \<Longrightarrow> weak_step m (Weak_add p m)"
| weak_destroy: "weak_step m (Weak_remove p m)"

definition weak_inv :: "WeakManager \<Rightarrow> bool" where
  "weak_inv m = (distinct (map fst (wm_list m)) \<and> (\<forall>x \<in> set (wm_list m). 0 < snd x \<and> snd x \<le> wm_lastid m) \<and>
                 0 \<le> wm_lastid m)"

lemma remove_first_filter: "distinct (map fst xs) \<Longrightarrow> remove_first p xs = filter (\<lambda>x. fst x \<noteq> p) xs"
proof (induction xs)
  case (Cons x xs)
  then show ?case by (auto simp: rev_image_eqI intro!: filter_True [symmetric])
qed simp

lemma Weak_expired_iff: "Weak_expired m p i \<longleftrightarrow> (p, i) \<notin> set (wm_list m)"
  by (force simp: Weak_expired_def find_None_iff)

lemma weak_step_inv:
  assumes "weak_step m n" and "weak_inv m"
  shows "weak_inv n"
  using assms
proof (induction rule: weak_step.induct)
  case (weak_construct p m)
  then show ?case by (force simp: weak_inv_def Weak_add_def)
next
  case (weak_destroy m p)
  then show ?case by (auto simp: weak_inv_def Weak_remove_def remove_first_filter distinct_map_filter)
qed

lemma weak_steps_inv: "weak_step\<^sup>*\<^sup>* m n \<Longrightarrow> weak_inv m \<Longrightarrow> weak_inv n"
  by (induction rule: rtranclp_induct) (auto intro: weak_step_inv)

lemma weak_dead_step:
  assumes "weak_step m n" and "weak_inv m" and "i \<le> wm_lastid m" and "(p, i) \<notin> set (wm_list m)"
  shows "i \<le> wm_lastid n \<and> (p, i) \<notin> set (wm_list n)"
  using assms
  by (induction rule: weak_step.induct)
     (auto simp: Weak_add_def Weak_remove_def weak_inv_def remove_first_filter)

lemma weak_dead_steps:
  assumes "weak_step\<^sup>*\<^sup>* m n" and "weak_inv m" and "i \<le> wm_lastid m" and "(p, i) \<notin> set (wm_list m)"
  shows "i \<le> wm_lastid n \<and> (p, i) \<notin> set (wm_list n)"
  using assms(1)
proof (induction rule: rtranclp_induct)
  case base
  then show ?case using assms by simp
next
  case (step n k)
  have "weak_inv n" using step.hyps(1) assms(2) by (rule weak_steps_inv)
  from weak_dead_step [OF step.hyps(2) this, of i p] step.IH show ?case by blast
qed

text \<open>
  A weak pointer to a live object is not expired; once the object is destroyed it is expired
  for good, also when a later object is constructed at the same address.
\<close>

theorem WeakPointer_expires:
  assumes "weak_step\<^sup>*\<^sup>* WeakManager_new m" and "p \<in> fst ` set (wm_list m)"
    and "weak_step\<^sup>*\<^sup>* (Weak_remove p m) n"
  shows "\<not> Weak_expired m p (Weak_getid m p) \<and> Weak_expired n p (Weak_getid m p)"
proof -
  have "weak_inv WeakManager_new" by (simp add: weak_inv_def WeakManager_new_def)
  then have inv: "weak_inv m" using assms(1) weak_steps_inv by blast
  from assms(2) obtain i where i: "(p, i) \<in> set (wm_list m)" by auto
  have "find (\<lambda>x. fst x = p) (wm_list m) = Some (p, i)"
    using find_key_distinct [of fst "wm_list m" "(p, i)"] inv i by (simp add: weak_inv_def)
  then have id: "Weak_getid m p = i" by (simp add: Weak_getid_def)
  have inv': "weak_inv (Weak_remove p m)" using weak_destroy inv by (rule weak_step_inv)
  have "(p, i) \<notin> set (wm_list (Weak_remove p m))"
    using inv by (simp add: Weak_remove_def weak_inv_def remove_first_filter)
  moreover have "i \<le> wm_lastid (Weak_remove p m)" using inv i by (auto simp: Weak_remove_def weak_inv_def)
  ultimately have "(p, i) \<notin> set (wm_list n)" using weak_dead_steps [OF assms(3) inv'] by blast
  with i show ?thesis by (simp add: Weak_expired_iff id)
qed

theorem WeakPointer_expires_witness:
  "let m = Weak_add 7 WeakManager_new; n = Weak_add 7 (Weak_remove 7 m) in
   \<not> Weak_expired m 7 (Weak_getid m 7) \<and> Weak_expired n 7 (Weak_getid m 7) \<and> \<not> Weak_expired n 7 (Weak_getid n 7)"
proof -
  let ?m = "Weak_add 7 WeakManager_new"
  have "weak_step\<^sup>*\<^sup>* WeakManager_new ?m"
    by (intro r_into_rtranclp weak_construct) (simp add: WeakManager_new_def)
  moreover have "weak_step\<^sup>*\<^sup>* (Weak_remove 7 ?m) (Weak_add 7 (Weak_remove 7 ?m))"
    by (intro r_into_rtranclp weak_construct) (simp add: WeakManager_new_def Weak_add_def Weak_remove_def)
  ultimately show ?thesis
    using WeakPointer_expires [of ?m 7 "Weak_add 7 (Weak_remove 7 ?m)"]
    by (simp add: Let_def WeakManager_new_def Weak_add_def Weak_remove_def Weak_expired_def Weak_getid_def)
qed

end
