(* ===== verification/CommonState.thy ===== *)
theory CommonState
  imports EventParams Utf8Copy "HOL-Library.Signed_Division"
begin

text \<open>
  The shared data of the extension (\<^verbatim>\<open>CommonData\<close>): the current device, keyboard type and workspace,
  the last pressed and released keys and the last sent event with their time stamps
  (\<^verbatim>\<open>IntervalChecker\<close>), the status messages for user space, the modifier names and the
  configuration values. It is the base record that the state records of the other components
  extend. Time is an input: \<open>cs_clock\<close> is what \<open>clock_get_system_microtime\<close> returns, and the
  notifications the extension sends to user space are collected in \<open>cs_notifications\<close>.
\<close>

section \<open>IntervalChecker\<close>

type_synonym microtime = "u64 \<times> u32"

text \<open>
  \<open>static_cast<int>(s - secs) * 1000 + static_cast<int>(m - microsecs) / 1000\<close>, with the 32-bit
  conversions of C++ and its division towards zero.
\<close>

definition getmillisec :: "microtime \<Rightarrow> microtime \<Rightarrow> u32" where
  "getmillisec now begin =
     (ucast (fst now - fst begin) * 1000 +
      word_of_int (sint (snd now - snd begin) sdiv 1000))"

text \<open>Elapsed time in microseconds.\<close>

definition elapsed :: "microtime \<Rightarrow> microtime \<Rightarrow> int" where
  "elapsed now begin = (uint (fst now) - uint (fst begin)) * 1000000 + (uint (snd now) - uint (snd begin))"

lemma sint_diff_usec:
  fixes m m0 :: u32
  assumes "m < 1000000" and "m0 < 1000000"
  shows "sint (m - m0) = uint m - uint m0"
proof -
  have b: "uint m < 1000000" "uint m0 < 1000000" "0 \<le> uint m" "0 \<le> uint m0"
    using assms by (simp_all add: word_less_def)
  have "m - m0 = word_of_int (uint m - uint m0)" by (rule word_sub_wi)
  then have "sint (m - m0) = signed_take_bit 31 (uint m - uint m0)"
    by (simp only: sint_sbintrunc') simp
  also have "\<dots> = uint m - uint m0"
  proof (rule signed_take_bit_int_eq_self)
    have p: "(2::int) ^ 31 = 2147483648" by simp
    show "- (2 ^ 31) \<le> uint m - uint m0" unfolding p using b by linarith
    show "uint m - uint m0 < 2 ^ 31" unfolding p using b by linarith
  qed
  finally show ?thesis .
qed

lemma sdiv_1000: "\<bar>1000 * (d sdiv 1000) - d\<bar> < 1000" for d :: int
proof -
  have "1000 * (\<bar>d\<bar> div 1000) = \<bar>d\<bar> - \<bar>d\<bar> mod 1000" by (simp only: minus_mod_eq_mult_div)
  moreover have "0 \<le> \<bar>d\<bar> mod 1000" "\<bar>d\<bar> mod 1000 < 1000" by simp_all
  ultimately have "\<bar>1000 * (\<bar>d\<bar> div 1000) - \<bar>d\<bar>\<bar> < 1000" by linarith
  then show ?thesis
    unfolding signed_divide_int_def by (cases "d = 0"; cases "0 < d") auto
qed

text \<open>
  For a clock that has not run backwards and an interval below 2^31 milliseconds,
  \<open>getmillisec\<close> is the elapsed time up to less than one millisecond (it rounds down when the
  microsecond part grew and up when it shrank).
\<close>

theorem getmillisec_accurate:
  assumes now: "snd now < 1000000" and start: "snd start < 1000000"
    and fwd: "0 \<le> elapsed now start" and small: "elapsed now start < 2 ^ 31 * 1000"
  shows "\<bar>1000 * uint (getmillisec now start) - elapsed now start\<bar> < 1000"
proof -
  define ds where "ds = uint (fst now) - uint (fst start)"
  define dm where "dm = uint (snd now) - uint (snd start)"
  have "uint (snd now) < 1000000" "uint (snd start) < 1000000"
    using now start by (simp_all add: word_less_def)
  moreover have "0 \<le> uint (snd now)" "0 \<le> uint (snd start)" by simp_all
  ultimately have dm: "\<bar>dm\<bar> < 1000000" unfolding dm_def by linarith
  have el: "elapsed now start = ds * 1000000 + dm" by (simp add: dm_def ds_def elapsed_def)
  have ds: "0 \<le> ds" "ds < 2147483648" using dm fwd small unfolding el by simp_all
  define r where "r = ds * 1000 + dm sdiv 1000"
  have r: "\<bar>1000 * r - elapsed now start\<bar> < 1000"
    using sdiv_1000 [of dm] unfolding el r_def by (simp add: algebra_simps)
  then have pos: "0 \<le> r" "r < 4294967296" using fwd small by simp_all
  have "uint (fst now - fst start) = ds"
    using ds uint_sub_lem [of "fst start" "fst now"] by (simp add: ds_def)
  then have "ucast (fst now - fst start) = (word_of_int ds :: u32)"
    by (simp only: ucast_eq)
  then have "getmillisec now start = word_of_int r"
    using sint_diff_usec [OF now start]
    by (simp add: getmillisec_def r_def dm_def wi_hom_syms)
  then have "uint (getmillisec now start) = r"
    using pos by (simp add: uint_word_of_int)
  with r show ?thesis by simp
qed

theorem getmillisec_accurate_witness:
  "\<bar>1000 * uint (getmillisec (5, 1000) (2, 900000)) - elapsed (5, 1000) (2, 900000)\<bar> < 1000"
proof -
  have "elapsed (5, 1000) (2, 900000) = 2101000" by (simp add: elapsed_def)
  then show ?thesis using getmillisec_accurate [of "(5, 1000)" "(2, 900000)"] by simp
qed

section \<open>Device identifiers\<close>

record DeviceIdentifier =
  di_vendor :: DeviceVendor
  di_product :: DeviceProduct
  di_location :: DeviceLocation

definition DeviceIdentifier_isEqual ::
  "DeviceIdentifier \<Rightarrow> DeviceVendor \<Rightarrow> DeviceProduct \<Rightarrow> DeviceLocation \<Rightarrow> bool"
where
  "DeviceIdentifier_isEqual d v p l =
     (if di_vendor d \<noteq> v then False
      else if DeviceProduct_ANY \<noteq> p \<and> di_product d \<noteq> p then False
      else if DeviceLocation_ANY \<noteq> l \<and> di_location d \<noteq> l then False
      else True)"

definition DeviceIdentifier_isEqualVendorProduct ::
  "DeviceIdentifier \<Rightarrow> DeviceVendor \<Rightarrow> DeviceProduct \<Rightarrow> bool"
where
  "DeviceIdentifier_isEqualVendorProduct d v p = (di_vendor d = v \<and> di_product d = p)"

definition DeviceVendor_isApple :: "DeviceVendor \<Rightarrow> bool" where
  "DeviceVendor_isApple v = (v = DeviceVendor_APPLE_COMPUTER \<or> v = DeviceVendor_Apple_Bluetooth)"

definition ConsumerKeyCode_isRepeatable :: "ConsumerKeyCode \<Rightarrow> bool" where
  "ConsumerKeyCode_isRepeatable k =
     (if k = ConsumerKeyCode_BRIGHTNESS_DOWN then True
      else if k = ConsumerKeyCode_BRIGHTNESS_UP then True
      else if k = ConsumerKeyCode_KEYBOARDLIGHT_LOW then True
      else if k = ConsumerKeyCode_KEYBOARDLIGHT_HIGH then True
      else if k = ConsumerKeyCode_MUSIC_PREV then True
      else if k = ConsumerKeyCode_MUSIC_NEXT then True
      else if k = ConsumerKeyCode_VOLUME_DOWN then True
      else if k = ConsumerKeyCode_VOLUME_UP then True
      else False)"

section \<open>Configuration values\<close>

text \<open>
  The essential configuration is an array whose index enumeration and default values the build
  generates from the XML files; here an index is its name. The getters clamp the stored value.
\<close>

datatype ConfigIndex =
    general_ignore_bouncing_events
  | general_lazy_modifiers_with_mouse_event
  | general_allow_devices_multiple_same_key
  | general_disable_internal_keyboard_if_external_keyboard_exsits
  | repeat_initial_wait
  | repeat_wait
  | parameter_wait_before_and_after_a_modifier_key_event
  | parameter_wait_before_and_after_a_click_event
  | parameter_ignore_bouncing_threshold_for_keyboard
  | parameter_ignore_bouncing_threshold_for_mice
  | parameter_simultaneouskeypresses_delay
  | parameter_simultaneouskeypresses_pointingbutton_delay
  | parameter_blockuntilkeyup_timeout
  | pointing_relative2scroll_rate
  | parameter_mousekey_high_speed_of_pointer
  | parameter_mousekey_initial_wait_of_pointer
  | parameter_mousekey_repeat_wait_of_pointer
  | parameter_mousekey_high_speed_of_scroll
  | parameter_mousekey_initial_wait_of_scroll
  | parameter_mousekey_repeat_wait_of_scroll
  | parameter_fixed_distance_magnification
  | parameter_fixed_distance_scroll_magnification
  | parameter_mouse_key_scroll_not_natural_direction
  | parameter_maximum_speed_of_pointer
  | parameter_maximum_speed_of_scroll
  | parameter_acceleration_of_pointer
  | parameter_acceleration_of_scroll
  | general_allow_devices_vendor_id_product_id_are_zero
  | general_dont_remap_any_pointing
  | general_dont_remap_apple_keyboard
  | general_dont_remap_apple_pointing
  | general_dont_remap_external
  | general_dont_remap_internal
  | general_dont_remap_non_apple_keyboard
  | general_dont_remap_non_apple_pointing
  | general_dont_remap_thirdvendor_keyboard
  | general_dont_remap_thirdvendor_pointing
  | general_ignore_invalid_devices_from_external_keyboard
  | general_passthrough_capslock_led_status
  | general_treat_bluetooth_usb_host_controller_broadcom_as_pointing_device
  | general_treat_unifying_as_pointing_device
  | notsave_automatically_enable_keyboard_device
  | notsave_automatically_enable_pointing_device
  | option_pointing_disable_horizontal_scroll
  | option_pointing_disable_momentum_scroll
  | option_pointing_disable_vertical_scroll
  | option_pointing_enable_scrollwheel_fixation
  | option_pointing_reverse_horizontal_scrolling
  | option_pointing_reverse_vertical_scrolling
  | parameter_doublepressmodifier_threshold
  | parameter_holdingkeytokey_wait
  | parameter_keyoverlaidmodifier_initial_modifier_wait
  | parameter_keyoverlaidmodifier_timeout
  | parameter_keytokey_delayed_action_timeout
  | parameter_pointingrelativetokey_detection_interval
  | parameter_scrollwheeltokey_keyrepeat_wait
  | repeat_keyoverlaidmodifier_initial_wait

definition Config_getvalue_min :: "int \<Rightarrow> int \<Rightarrow> u32" where
  "Config_getvalue_min v minval = word_of_int (if v < minval then minval else v)"

definition Config_getvalue :: "int \<Rightarrow> int \<Rightarrow> int \<Rightarrow> u32" where
  "Config_getvalue v minval maxval =
     word_of_int (if v < minval then minval else if v > maxval then maxval else v)"

section \<open>Last pressed, released and sent events\<close>

record LastPhysicalKey =
  lp_datatype :: u32
  lp_value :: u32
  lp_ic :: microtime

record LastSentEvent =
  ls_datatype :: u32
  ls_value :: u32
  ls_eventtype :: EventType
  ls_ic :: microtime

text \<open>\<open>LastPressedPhysicalKey::update\<close> and \<open>LastReleasedPhysicalKey::update\<close>.\<close>

definition LastPressed_update :: "microtime \<Rightarrow> Params \<Rightarrow> LastPhysicalKey \<Rightarrow> LastPhysicalKey" where
  "LastPressed_update now newval l =
     (case newval of
        P_Keyboard p \<Rightarrow>
          if kp_ex_iskeydown p
          then \<lparr>lp_datatype = BRIDGE_DATATYPE_KEYCODE, lp_value = kp_key p, lp_ic = now\<rparr> else l
      | P_Special p \<Rightarrow>
          if sp_ex_iskeydown p
          then \<lparr>lp_datatype = BRIDGE_DATATYPE_CONSUMERKEYCODE, lp_value = sp_key p, lp_ic = now\<rparr> else l
      | P_RelativePointer p \<Rightarrow>
          if pp_ex_button p \<noteq> PointingButton_NONE \<and> pp_ex_isbuttondown p
          then \<lparr>lp_datatype = BRIDGE_DATATYPE_POINTINGBUTTON, lp_value = pp_ex_button p, lp_ic = now\<rparr>
          else l
      | _ \<Rightarrow> l)"

definition LastReleased_update :: "microtime \<Rightarrow> Params \<Rightarrow> LastPhysicalKey \<Rightarrow> LastPhysicalKey" where
  "LastReleased_update now newval l =
     (case newval of
        P_Keyboard p \<Rightarrow>
          if \<not> kp_ex_iskeydown p
          then \<lparr>lp_datatype = BRIDGE_DATATYPE_KEYCODE, lp_value = kp_key p, lp_ic = now\<rparr> else l
      | P_Special p \<Rightarrow>
          if \<not> sp_ex_iskeydown p
          then \<lparr>lp_datatype = BRIDGE_DATATYPE_CONSUMERKEYCODE, lp_value = sp_key p, lp_ic = now\<rparr> else l
      | P_RelativePointer p \<Rightarrow>
          if pp_ex_button p \<noteq> PointingButton_NONE \<and> \<not> pp_ex_isbuttondown p
          then \<lparr>lp_datatype = BRIDGE_DATATYPE_POINTINGBUTTON, lp_value = pp_ex_button p, lp_ic = now\<rparr>
          else l
      | _ \<Rightarrow> l)"

definition LastSentEvent_update :: "microtime \<Rightarrow> Params \<Rightarrow> LastSentEvent \<Rightarrow> LastSentEvent" where
  "LastSentEvent_update now newval l =
     (let l = l\<lparr>ls_datatype := BRIDGE_DATATYPE_NONE, ls_eventtype := EventType_NONE\<rparr> in
      case newval of
        P_Keyboard p \<Rightarrow>
          l\<lparr>ls_datatype := BRIDGE_DATATYPE_KEYCODE, ls_value := kp_key p,
            ls_eventtype := kp_eventType p, ls_ic := now\<rparr>
      | P_Special p \<Rightarrow>
          l\<lparr>ls_datatype := BRIDGE_DATATYPE_CONSUMERKEYCODE, ls_value := sp_key p,
            ls_eventtype := sp_eventType p, ls_ic := now\<rparr>
      | P_RelativePointer p \<Rightarrow>
          l\<lparr>ls_datatype := BRIDGE_DATATYPE_POINTINGBUTTON, ls_value := pp_ex_button p,
            ls_eventtype :=
              (case iskeydown newval of
                 Some keydown \<Rightarrow> if keydown then EventType_DOWN else EventType_UP
               | None \<Rightarrow> EventType_NONE),
            ls_ic := now\<rparr>
      | P_ScrollWheel p \<Rightarrow>
          l\<lparr>ls_datatype := BRIDGE_DATATYPE_SCROLLWHEEL, ls_value := 0,
            ls_eventtype := EventType_NONE, ls_ic := now\<rparr>
      | _ \<Rightarrow> l)"

section \<open>Modifier names\<close>

definition ascii :: "string \<Rightarrow> byte list" where
  "ascii s = map of_char s"

definition ModifierName_MAXLEN :: nat where
  "ModifierName_MAXLEN = 32"

definition ModifierName_item :: "ModifierFlag \<Rightarrow> byte list \<Rightarrow> ModifierFlag \<times> byte list" where
  "ModifierName_item f name =
     (f, case strlcpy_utf8 name ModifierName_MAXLEN of Some (copied, _) \<Rightarrow> copied | None \<Rightarrow> [])"

definition normal_names :: "(ModifierFlag \<times> byte list) list" where
  "normal_names =
     [ModifierName_item ModifierFlag_CAPSLOCK (ascii ''caps''),
      ModifierName_item ModifierFlag_SHIFT_L (ascii ''shift''),
      ModifierName_item ModifierFlag_SHIFT_R (ascii ''shift''),
      ModifierName_item ModifierFlag_CONTROL_L (ascii ''control''),
      ModifierName_item ModifierFlag_CONTROL_R (ascii ''control''),
      ModifierName_item ModifierFlag_OPTION_L (ascii ''option''),
      ModifierName_item ModifierFlag_OPTION_R (ascii ''option''),
      ModifierName_item ModifierFlag_COMMAND_L (ascii ''command''),
      ModifierName_item ModifierFlag_COMMAND_R (ascii ''command''),
      ModifierName_item ModifierFlag_FN (ascii ''fn'')]"

lemma normal_names_value:
  "normal_names =
     [(ModifierFlag_CAPSLOCK, ascii ''caps''), (ModifierFlag_SHIFT_L, ascii ''shift''),
      (ModifierFlag_SHIFT_R, ascii ''shift''), (ModifierFlag_CONTROL_L, ascii ''control''),
      (ModifierFlag_CONTROL_R, ascii ''control''), (ModifierFlag_OPTION_L, ascii ''option''),
      (ModifierFlag_OPTION_R, ascii ''option''), (ModifierFlag_COMMAND_L, ascii ''command''),
      (ModifierFlag_COMMAND_R, ascii ''command''), (ModifierFlag_FN, ascii ''fn'')]"
  by code_simp

definition ModifierName_getName :: "(ModifierFlag \<times> byte list) list \<Rightarrow> ModifierFlag \<Rightarrow> byte list option" where
  "ModifierName_getName names f = map_option snd (find (\<lambda>it. f = fst it) names)"

section \<open>CommonData\<close>

record CommonState =
  cs_clock :: microtime
  cs_config :: "ConfigIndex \<Rightarrow> int"
  cs_pairs :: "Pair list"
  cs_names :: "(ModifierFlag \<times> byte list) list"
  cs_keyboardType :: KeyboardType
  cs_deviceIdentifier :: DeviceIdentifier
  cs_appIds :: "u32 list"
  cs_inputSourceIds :: "u32 list"
  cs_uiElementRoleId :: u32
  cs_windowNameIds :: "u32 list"
  cs_lastpressed :: LastPhysicalKey
  cs_lastreleased :: LastPhysicalKey
  cs_lastsent :: LastSentEvent
  cs_statusmessage :: "byte list list"
  cs_notifications :: "(nat \<times> nat) list"

abbreviation (input) STATUS_MESSAGE_NONE :: nat where "STATUS_MESSAGE_NONE \<equiv> 0"
abbreviation (input) STATUS_MESSAGE_MODIFIER_LOCK :: nat where "STATUS_MESSAGE_MODIFIER_LOCK \<equiv> 2"
abbreviation (input) STATUS_MESSAGE_MODIFIER_CAPS_LOCK :: nat where "STATUS_MESSAGE_MODIFIER_CAPS_LOCK \<equiv> 3"
abbreviation (input) STATUS_MESSAGE_MODIFIER_STICKY :: nat where "STATUS_MESSAGE_MODIFIER_STICKY \<equiv> 4"
abbreviation (input) STATUS_MESSAGE_POINTING_BUTTON_LOCK :: nat where "STATUS_MESSAGE_POINTING_BUTTON_LOCK \<equiv> 5"
abbreviation (input) STATUS_MESSAGE_END :: nat where "STATUS_MESSAGE_END \<equiv> 6"
abbreviation (input) STATUS_MESSAGE_MAXLEN :: nat where "STATUS_MESSAGE_MAXLEN \<equiv> 128"
abbreviation (input) NOTIFICATION_STATUS_MESSAGE_UPDATED :: nat where "NOTIFICATION_STATUS_MESSAGE_UPDATED \<equiv> 2"

definition index_ok :: "nat \<Rightarrow> bool" where
  "index_ok i = (STATUS_MESSAGE_NONE < i \<and> i < STATUS_MESSAGE_END)"

definition clear_statusmessage :: "nat \<Rightarrow> 'a CommonState_scheme \<Rightarrow> 'a CommonState_scheme" where
  "clear_statusmessage i s =
     (if \<not> index_ok i then s else s\<lparr>cs_statusmessage := (cs_statusmessage s)[i := []]\<rparr>)"

definition append_statusmessage ::
  "nat \<Rightarrow> byte list \<Rightarrow> 'a CommonState_scheme \<Rightarrow> 'a CommonState_scheme"
where
  "append_statusmessage i message s =
     (if \<not> index_ok i then s
      else s\<lparr>cs_statusmessage := (cs_statusmessage s)
              [i := c_strlcat (cs_statusmessage s ! i) message STATUS_MESSAGE_MAXLEN]\<rparr>)"

definition send_notification_statusmessage ::
  "nat \<Rightarrow> 'a CommonState_scheme \<Rightarrow> 'a CommonState_scheme"
where
  "send_notification_statusmessage i s =
     (if \<not> index_ok i then s
      else s\<lparr>cs_notifications := cs_notifications s @ [(NOTIFICATION_STATUS_MESSAGE_UPDATED, i)]\<rparr>)"

definition get_statusmessage :: "nat \<Rightarrow> 'a CommonState_scheme \<Rightarrow> byte list option" where
  "get_statusmessage i s = (if \<not> index_ok i then None else Some (cs_statusmessage s ! i))"

definition setcurrent_lastsentevent :: "Params \<Rightarrow> 'a CommonState_scheme \<Rightarrow> 'a CommonState_scheme" where
  "setcurrent_lastsentevent p s = s\<lparr>cs_lastsent := LastSentEvent_update (cs_clock s) p (cs_lastsent s)\<rparr>"

definition setcurrent_lastpressedphysicalkey ::
  "Params \<Rightarrow> 'a CommonState_scheme \<Rightarrow> 'a CommonState_scheme"
where
  "setcurrent_lastpressedphysicalkey p s =
     s\<lparr>cs_lastpressed := LastPressed_update (cs_clock s) p (cs_lastpressed s)\<rparr>"

definition setcurrent_lastreleasedphysicalkey ::
  "Params \<Rightarrow> 'a CommonState_scheme \<Rightarrow> 'a CommonState_scheme"
where
  "setcurrent_lastreleasedphysicalkey p s =
     s\<lparr>cs_lastreleased := LastReleased_update (cs_clock s) p (cs_lastreleased s)\<rparr>"

text \<open>
  \<open>setcurrent_workspaceIds\<close>: user space sends type and value pairs; the loop bound
  \<open>i < count - 1\<close> ignores an odd last element.
\<close>

abbreviation (input) BRIDGE_WORKSPACETYPE_NONE :: u32 where "BRIDGE_WORKSPACETYPE_NONE \<equiv> 74"
abbreviation (input) BRIDGE_WORKSPACETYPE_APP_ID :: u32 where "BRIDGE_WORKSPACETYPE_APP_ID \<equiv> 75"
abbreviation (input) BRIDGE_WORKSPACETYPE_INPUT_SOURCE_ID :: u32 where "BRIDGE_WORKSPACETYPE_INPUT_SOURCE_ID \<equiv> 76"
abbreviation (input) BRIDGE_WORKSPACETYPE_UI_ELEMENT_ROLE_ID :: u32 where "BRIDGE_WORKSPACETYPE_UI_ELEMENT_ROLE_ID \<equiv> 77"
abbreviation (input) BRIDGE_WORKSPACETYPE_WINDOW_NAME_ID :: u32 where "BRIDGE_WORKSPACETYPE_WINDOW_NAME_ID \<equiv> 78"

fun setcurrent_workspaceIds_loop :: "u32 list \<Rightarrow> 'a CommonState_scheme \<Rightarrow> 'a CommonState_scheme" where
  "setcurrent_workspaceIds_loop (type # val # ids) s =
     setcurrent_workspaceIds_loop ids
       (if type = BRIDGE_WORKSPACETYPE_NONE then s
        else if type = BRIDGE_WORKSPACETYPE_APP_ID then s\<lparr>cs_appIds := cs_appIds s @ [val]\<rparr>
        else if type = BRIDGE_WORKSPACETYPE_INPUT_SOURCE_ID
             then s\<lparr>cs_inputSourceIds := cs_inputSourceIds s @ [val]\<rparr>
        else if type = BRIDGE_WORKSPACETYPE_UI_ELEMENT_ROLE_ID then s\<lparr>cs_uiElementRoleId := val\<rparr>
        else if type = BRIDGE_WORKSPACETYPE_WINDOW_NAME_ID
             then s\<lparr>cs_windowNameIds := cs_windowNameIds s @ [val]\<rparr>
        else s)"
| "setcurrent_workspaceIds_loop ids s = s"

definition setcurrent_workspaceIds :: "u32 list \<Rightarrow> 'a CommonState_scheme \<Rightarrow> 'a CommonState_scheme" where
  "setcurrent_workspaceIds ids s =
     setcurrent_workspaceIds_loop ids
       (s\<lparr>cs_appIds := [], cs_windowNameIds := [], cs_uiElementRoleId := 0, cs_inputSourceIds := []\<rparr>)"

definition CommonData_initialize :: "'a CommonState_scheme \<Rightarrow> 'a CommonState_scheme" where
  "CommonData_initialize s = s\<lparr>cs_statusmessage := replicate STATUS_MESSAGE_END []\<rparr>"

text \<open>
  The zero-initialised static members; the configuration values and the modifier names are those
  that \<open>initialize\<close> functions set.
\<close>

definition common_static :: CommonState where
  "common_static =
     \<lparr>cs_clock = (0, 0), cs_config = (\<lambda>_. 0), cs_pairs = [], cs_names = normal_names,
      cs_keyboardType = 0,
      cs_deviceIdentifier = \<lparr>di_vendor = 0, di_product = 0, di_location = 0\<rparr>,
      cs_appIds = [], cs_inputSourceIds = [], cs_uiElementRoleId = 0, cs_windowNameIds = [],
      cs_lastpressed = \<lparr>lp_datatype = 0, lp_value = 0, lp_ic = (0, 0)\<rparr>,
      cs_lastreleased = \<lparr>lp_datatype = 0, lp_value = 0, lp_ic = (0, 0)\<rparr>,
      cs_lastsent = \<lparr>ls_datatype = 0, ls_value = 0, ls_eventtype = EventType_NONE, ls_ic = (0, 0)\<rparr>,
      cs_statusmessage = replicate STATUS_MESSAGE_END [], cs_notifications = []\<rparr>"

end
