(* ===== verification/FlagState.thy ===== *)
theory FlagState
  imports CommonState
begin

text \<open>
  \<^verbatim>\<open>FlagStatus\<close>: the counters the extension keeps for every registered modifier, and from which it
  computes the modifier flags of the events it sends. The state record extends the shared data
  with the items of the global object and with the function-local static buffer of
  \<open>updateStatusMessage\<close>. A counter is a C++ \<open>int\<close>, whose overflow is undefined; here it is an
  integer. The other objects of the class (saved copies of the global one) are lists of items.
\<close>

section \<open>Item\<close>

record FlagItem =
  fi_flag :: ModifierFlag
  fi_count :: int
  fi_temporary_count :: int
  fi_lock_count :: int
  fi_negative_lock_count :: int
  fi_sticky_count :: int
  fi_lazy_count :: int
  fi_lazy_enabled :: bool

definition Item_new :: FlagItem where
  "Item_new = \<lparr>fi_flag = ModifierFlag_ZERO, fi_count = 0, fi_temporary_count = 0, fi_lock_count = 0,
     fi_negative_lock_count = 0, fi_sticky_count = 0, fi_lazy_count = 0, fi_lazy_enabled = False\<rparr>"

definition Item_initialize :: "ModifierFlag \<Rightarrow> FlagItem \<Rightarrow> FlagItem" where
  "Item_initialize f it = it\<lparr>fi_flag := f, fi_count := 0, fi_temporary_count := 0, fi_lock_count := 0,
     fi_negative_lock_count := 0, fi_sticky_count := 0\<rparr>"

text \<open>C++ \<open>!n\<close> on an \<open>int\<close>.\<close>

definition c_not :: "int \<Rightarrow> int" where
  "c_not n = (if n = 0 then 1 else 0)"

definition Item_increase :: "FlagItem \<Rightarrow> FlagItem" where
  "Item_increase it =
     (if fi_flag it = ModifierFlag_CAPSLOCK then it\<lparr>fi_lock_count := c_not (fi_lock_count it)\<rparr>
      else it\<lparr>fi_count := fi_count it + 1\<rparr>)"

definition Item_decrease :: "FlagItem \<Rightarrow> FlagItem" where
  "Item_decrease it =
     (if fi_flag it = ModifierFlag_CAPSLOCK then it else it\<lparr>fi_count := fi_count it - 1\<rparr>)"

definition Item_set :: "FlagItem \<Rightarrow> FlagItem" where
  "Item_set it = it\<lparr>fi_temporary_count := 0\<rparr>"

definition Item_setKey :: "Pair list \<Rightarrow> KeyCode \<Rightarrow> Flags \<Rightarrow> FlagItem \<Rightarrow> FlagItem" where
  "Item_setKey pairs key flags it =
     (let it = it\<lparr>fi_temporary_count := 0\<rparr> in
      if key \<noteq> ModifierFlag_getKeyCode pairs (fi_flag it) then it
      else if fi_flag it = ModifierFlag_CAPSLOCK then
        (if Flags_isOn flags (fi_flag it) then it\<lparr>fi_lock_count := 1\<rparr> else it\<lparr>fi_lock_count := 0\<rparr>)
      else
        (if Flags_isOn flags (fi_flag it) then Item_increase it else Item_decrease it))"

definition Item_reset :: "FlagItem \<Rightarrow> FlagItem" where
  "Item_reset it = it\<lparr>fi_count := 0, fi_temporary_count := 0, fi_lazy_count := 0, fi_lazy_enabled := False\<rparr>"

definition Item_sum :: "bool \<Rightarrow> FlagItem \<Rightarrow> int" where
  "Item_sum forceEnableLazy it =
     (let sum = fi_count it + fi_temporary_count it + fi_lock_count it - fi_negative_lock_count it
                + fi_sticky_count it in
      if forceEnableLazy \<or> fi_lazy_enabled it then sum + fi_lazy_count it else sum)"

definition Item_temporary_increase :: "FlagItem \<Rightarrow> FlagItem" where
  "Item_temporary_increase it = it\<lparr>fi_temporary_count := fi_temporary_count it + 1\<rparr>"
definition Item_temporary_decrease :: "FlagItem \<Rightarrow> FlagItem" where
  "Item_temporary_decrease it = it\<lparr>fi_temporary_count := fi_temporary_count it - 1\<rparr>"
definition Item_lock_increase :: "FlagItem \<Rightarrow> FlagItem" where
  "Item_lock_increase it = it\<lparr>fi_lock_count := 1\<rparr>"
definition Item_lock_decrease :: "FlagItem \<Rightarrow> FlagItem" where
  "Item_lock_decrease it = it\<lparr>fi_lock_count := 0\<rparr>"
definition Item_lock_toggle :: "FlagItem \<Rightarrow> FlagItem" where
  "Item_lock_toggle it = it\<lparr>fi_lock_count := c_not (fi_lock_count it)\<rparr>"
definition Item_negative_lock_increase :: "FlagItem \<Rightarrow> FlagItem" where
  "Item_negative_lock_increase it = it\<lparr>fi_negative_lock_count := 1\<rparr>"
definition Item_negative_lock_decrease :: "FlagItem \<Rightarrow> FlagItem" where
  "Item_negative_lock_decrease it = it\<lparr>fi_negative_lock_count := 0\<rparr>"
definition Item_negative_lock_toggle :: "FlagItem \<Rightarrow> FlagItem" where
  "Item_negative_lock_toggle it = it\<lparr>fi_negative_lock_count := c_not (fi_negative_lock_count it)\<rparr>"
definition Item_sticky_increase :: "FlagItem \<Rightarrow> FlagItem" where
  "Item_sticky_increase it = it\<lparr>fi_sticky_count := 1\<rparr>"
definition Item_sticky_decrease :: "FlagItem \<Rightarrow> FlagItem" where
  "Item_sticky_decrease it = it\<lparr>fi_sticky_count := 0\<rparr>"
definition Item_sticky_toggle :: "FlagItem \<Rightarrow> FlagItem" where
  "Item_sticky_toggle it = it\<lparr>fi_sticky_count := c_not (fi_sticky_count it)\<rparr>"
definition Item_lazy_increase :: "FlagItem \<Rightarrow> FlagItem" where
  "Item_lazy_increase it = it\<lparr>fi_lazy_count := fi_lazy_count it + 1\<rparr>"
definition Item_lazy_decrease :: "FlagItem \<Rightarrow> FlagItem" where
  "Item_lazy_decrease it = it\<lparr>fi_lazy_count := fi_lazy_count it - 1\<rparr>"
definition Item_lazy_enable :: "FlagItem \<Rightarrow> FlagItem" where
  "Item_lazy_enable it = it\<lparr>fi_lazy_enabled := True\<rparr>"
definition Item_lazy_disable_if_off :: "FlagItem \<Rightarrow> FlagItem" where
  "Item_lazy_disable_if_off it = (if Item_sum True it \<le> 0 then it\<lparr>fi_lazy_enabled := False\<rparr> else it)"

lemmas Item_defs =
  Item_new_def Item_initialize_def Item_increase_def Item_decrease_def Item_set_def Item_setKey_def
  Item_reset_def Item_temporary_increase_def Item_temporary_decrease_def Item_lock_increase_def
  Item_lock_decrease_def Item_lock_toggle_def Item_negative_lock_increase_def
  Item_negative_lock_decrease_def Item_negative_lock_toggle_def Item_sticky_increase_def
  Item_sticky_decrease_def Item_sticky_toggle_def Item_lazy_increase_def Item_lazy_decrease_def
  Item_lazy_enable_def Item_lazy_disable_if_off_def c_not_def

section \<open>State and status messages\<close>

record FlagState = CommonState +
  fs_item :: "FlagItem list"
  fs_previousMessage :: "byte list"

text \<open>The body of the loop of \<open>updateStatusMessage(statusMessageIndex)\<close>.\<close>

definition updateStatusMessage_item ::
  "nat \<Rightarrow> FlagItem \<Rightarrow> 'a FlagState_scheme \<Rightarrow> 'a FlagState_scheme"
where
  "updateStatusMessage_item idx it s =
     (case ModifierName_getName (cs_names s) (fi_flag it) of
        None \<Rightarrow> s
      | Some name \<Rightarrow>
          if idx = STATUS_MESSAGE_MODIFIER_LOCK then
            if fi_flag it \<noteq> ModifierFlag_CAPSLOCK then
              if fi_negative_lock_count it > 0 then
                append_statusmessage idx (ascii '' '')
                  (append_statusmessage idx name (append_statusmessage idx (ascii ''-'') s))
              else if fi_lock_count it > 0 then
                append_statusmessage idx (ascii '' '') (append_statusmessage idx name s)
              else s
            else s
          else if idx = STATUS_MESSAGE_MODIFIER_CAPS_LOCK then
            if fi_flag it = ModifierFlag_CAPSLOCK then
              if fi_lock_count it > 0 then
                append_statusmessage idx (ascii '' '') (append_statusmessage idx name s)
              else s
            else s
          else if idx = STATUS_MESSAGE_MODIFIER_STICKY then
            if fi_sticky_count it > 0 then
              append_statusmessage idx (ascii '' '') (append_statusmessage idx name s)
            else s
          else s)"

definition updateStatusMessage_index :: "nat \<Rightarrow> 'a FlagState_scheme \<Rightarrow> 'a FlagState_scheme" where
  "updateStatusMessage_index idx s =
     fold (updateStatusMessage_item idx) (fs_item s) (clear_statusmessage idx s)"

text \<open>
  \<open>updateStatusMessage()\<close>: the static buffer is extended with \<open>strlcat\<close>, so it accumulates the
  messages of all calls until it is full.
\<close>

definition updateStatusMessage_step :: "nat \<Rightarrow> 'a FlagState_scheme \<Rightarrow> 'a FlagState_scheme" where
  "updateStatusMessage_step idx s =
     (let s = s\<lparr>fs_previousMessage := c_strlcat (fs_previousMessage s) (cs_statusmessage s ! idx)
                                       STATUS_MESSAGE_MAXLEN\<rparr>;
          s = updateStatusMessage_index idx s
      in if cs_statusmessage s ! idx \<noteq> fs_previousMessage s
         then send_notification_statusmessage idx s else s)"

definition updateStatusMessage :: "'a FlagState_scheme \<Rightarrow> 'a FlagState_scheme" where
  "updateStatusMessage s =
     fold updateStatusMessage_step
       [STATUS_MESSAGE_MODIFIER_LOCK, STATUS_MESSAGE_MODIFIER_CAPS_LOCK, STATUS_MESSAGE_MODIFIER_STICKY] s"

text \<open>The zero-initialised statics, before \<open>initialize\<close> is called.\<close>

definition flags_static :: FlagState where
  "flags_static = CommonState.extend common_static \<lparr>fs_item = [], fs_previousMessage = []\<rparr>"

section \<open>Operations\<close>

definition items_of_pairs :: "Pair list \<Rightarrow> FlagItem list" where
  "items_of_pairs pairs = map (\<lambda>p. Item_initialize (pr_modifierFlag p) Item_new) pairs"

definition FlagStatus_initialize :: "'a FlagState_scheme \<Rightarrow> 'a FlagState_scheme" where
  "FlagStatus_initialize s = s\<lparr>fs_item := items_of_pairs (cs_pairs s)\<rparr>"

text \<open>The constructor \<open>FlagStatus(Flags)\<close> makes a new object.\<close>

definition FlagStatus_of_flags :: "Pair list \<Rightarrow> Flags \<Rightarrow> FlagItem list" where
  "FlagStatus_of_flags pairs flags =
     map_if (\<lambda>it. Flags_isOn flags (fi_flag it)) Item_increase (items_of_pairs pairs)"

text \<open>Changing every item and then updating the messages.\<close>

definition FlagStatus_all ::
  "(FlagItem \<Rightarrow> bool) \<Rightarrow> (FlagItem \<Rightarrow> FlagItem) \<Rightarrow> 'a FlagState_scheme \<Rightarrow> 'a FlagState_scheme"
where
  "FlagStatus_all P f s = s\<lparr>fs_item := map_if P f (fs_item s)\<rparr>"

definition FlagStatus_set :: "'a FlagState_scheme \<Rightarrow> 'a FlagState_scheme" where
  "FlagStatus_set s = updateStatusMessage (FlagStatus_all (\<lambda>_. True) Item_set s)"

definition FlagStatus_setKey :: "KeyCode \<Rightarrow> Flags \<Rightarrow> 'a FlagState_scheme \<Rightarrow> 'a FlagState_scheme" where
  "FlagStatus_setKey key flags s =
     updateStatusMessage (FlagStatus_all (\<lambda>_. True) (Item_setKey (cs_pairs s) key flags) s)"

definition FlagStatus_reset :: "'a FlagState_scheme \<Rightarrow> 'a FlagState_scheme" where
  "FlagStatus_reset s = updateStatusMessage (FlagStatus_all (\<lambda>_. True) Item_reset s)"

definition FlagStatus_isOn1 :: "FlagItem list \<Rightarrow> ModifierFlag \<Rightarrow> bool" where
  "FlagStatus_isOn1 items f =
     (case find (\<lambda>it. fi_flag it = f) items of Some it \<Rightarrow> Item_sum True it > 0 | None \<Rightarrow> False)"

text \<open>The first loop of \<open>isOn\<close>: \<open>None\<close> is its early return, otherwise the value of \<open>strict\<close>.\<close>

fun FlagStatus_isOn_loop :: "FlagItem list \<Rightarrow> bool \<Rightarrow> ModifierFlag list \<Rightarrow> bool option" where
  "FlagStatus_isOn_loop items strict [] = Some strict"
| "FlagStatus_isOn_loop items strict (f # fs) =
     (if f = ModifierFlag_ZERO then FlagStatus_isOn_loop items strict fs
      else if f = ModifierFlag_NONE then FlagStatus_isOn_loop items True fs
      else if \<not> FlagStatus_isOn1 items f then None
      else FlagStatus_isOn_loop items strict fs)"

definition FlagStatus_isOn :: "FlagItem list \<Rightarrow> ModifierFlag list \<Rightarrow> bool" where
  "FlagStatus_isOn items modifierFlags =
     (case FlagStatus_isOn_loop items False modifierFlags of
        None \<Rightarrow> False
      | Some strict \<Rightarrow>
          if strict
          then list_all (\<lambda>it. \<not> (Item_sum True it > 0 \<and> fi_flag it \<notin> set modifierFlags)) items
          else True)"

definition FlagStatus_isLocked :: "FlagItem list \<Rightarrow> ModifierFlag list \<Rightarrow> bool" where
  "FlagStatus_isLocked items modifierFlags =
     list_all (\<lambda>it. fi_flag it = ModifierFlag_ZERO \<or> fi_flag it = ModifierFlag_NONE \<or>
                    \<not> (fi_flag it \<in> set modifierFlags \<and> fi_lock_count it \<le> 0)) items"

definition FlagStatus_isStuck :: "FlagItem list \<Rightarrow> ModifierFlag list \<Rightarrow> bool" where
  "FlagStatus_isStuck items modifierFlags =
     list_all (\<lambda>it. fi_flag it = ModifierFlag_ZERO \<or> fi_flag it = ModifierFlag_NONE \<or>
                    \<not> (fi_flag it \<in> set modifierFlags \<and> fi_sticky_count it \<le> 0)) items"

definition FlagStatus_makeFlags :: "FlagItem list \<Rightarrow> Flags" where
  "FlagStatus_makeFlags items =
     foldl (\<lambda>flags it. if Item_sum False it > 0 then Flags_addFlag flags (fi_flag it) else flags) 0 items"

definition FlagStatus_getFlag :: "FlagItem list \<Rightarrow> nat \<Rightarrow> ModifierFlag" where
  "FlagStatus_getFlag items i = (if i < length items then fi_flag (items ! i) else ModifierFlag_ZERO)"

text \<open>
  The methods that the two macros \<open>DEFINE_METHODS\<close> define, each overloaded for a flag, a flag and a
  vector of flags, and a vector. \<open>upd\<close> says when the loop body updates the status messages.
\<close>

datatype FlagArg =
    FA_Flag ModifierFlag
  | FA_FlagAnd ModifierFlag "ModifierFlag list"
  | FA_Flags "ModifierFlag list"

fun selects :: "FlagArg \<Rightarrow> ModifierFlag \<Rightarrow> bool" where
  "selects (FA_Flag m) f = (m = f)"
| "selects (FA_FlagAnd m ms) f = (m = f \<or> f \<in> set ms)"
| "selects (FA_Flags ms) f = (f \<in> set ms)"

definition methods_body ::
  "(FlagItem \<Rightarrow> FlagItem) \<Rightarrow> (ModifierFlag \<Rightarrow> bool) \<Rightarrow> FlagArg \<Rightarrow> nat \<Rightarrow>
   'a FlagState_scheme \<Rightarrow> 'a FlagState_scheme"
where
  "methods_body f upd a i s =
     (if selects a (fi_flag (fs_item s ! i)) then
        let s = s\<lparr>fs_item := (fs_item s)[i := f (fs_item s ! i)]\<rparr> in
        if upd (fi_flag (fs_item s ! i)) then updateStatusMessage s else s
      else s)"

definition DEFINE_METHODS_count ::
  "(FlagItem \<Rightarrow> FlagItem) \<Rightarrow> FlagArg \<Rightarrow> 'a FlagState_scheme \<Rightarrow> 'a FlagState_scheme"
where
  "DEFINE_METHODS_count f a s =
     fold (methods_body f (\<lambda>m. m = ModifierFlag_CAPSLOCK) a) [0..<length (fs_item s)] s"

definition DEFINE_METHODS_lock ::
  "(FlagItem \<Rightarrow> FlagItem) \<Rightarrow> FlagArg \<Rightarrow> 'a FlagState_scheme \<Rightarrow> 'a FlagState_scheme"
where
  "DEFINE_METHODS_lock f a s =
     fold (methods_body f (\<lambda>m. True) a) [0..<length (fs_item s)] s"

definition FlagStatus_increase :: "FlagArg \<Rightarrow> 'a FlagState_scheme \<Rightarrow> 'a FlagState_scheme" where
  "FlagStatus_increase = DEFINE_METHODS_count Item_increase"
definition FlagStatus_decrease :: "FlagArg \<Rightarrow> 'a FlagState_scheme \<Rightarrow> 'a FlagState_scheme" where
  "FlagStatus_decrease = DEFINE_METHODS_count Item_decrease"
definition FlagStatus_temporary_increase :: "FlagArg \<Rightarrow> 'a FlagState_scheme \<Rightarrow> 'a FlagState_scheme" where
  "FlagStatus_temporary_increase = DEFINE_METHODS_count Item_temporary_increase"
definition FlagStatus_temporary_decrease :: "FlagArg \<Rightarrow> 'a FlagState_scheme \<Rightarrow> 'a FlagState_scheme" where
  "FlagStatus_temporary_decrease = DEFINE_METHODS_count Item_temporary_decrease"
definition FlagStatus_lazy_increase :: "FlagArg \<Rightarrow> 'a FlagState_scheme \<Rightarrow> 'a FlagState_scheme" where
  "FlagStatus_lazy_increase = DEFINE_METHODS_count Item_lazy_increase"
definition FlagStatus_lazy_decrease :: "FlagArg \<Rightarrow> 'a FlagState_scheme \<Rightarrow> 'a FlagState_scheme" where
  "FlagStatus_lazy_decrease = DEFINE_METHODS_count Item_lazy_decrease"
definition FlagStatus_lock_increase :: "FlagArg \<Rightarrow> 'a FlagState_scheme \<Rightarrow> 'a FlagState_scheme" where
  "FlagStatus_lock_increase = DEFINE_METHODS_lock Item_lock_increase"
definition FlagStatus_lock_decrease :: "FlagArg \<Rightarrow> 'a FlagState_scheme \<Rightarrow> 'a FlagState_scheme" where
  "FlagStatus_lock_decrease = DEFINE_METHODS_lock Item_lock_decrease"
definition FlagStatus_lock_toggle :: "FlagArg \<Rightarrow> 'a FlagState_scheme \<Rightarrow> 'a FlagState_scheme" where
  "FlagStatus_lock_toggle = DEFINE_METHODS_lock Item_lock_toggle"
definition FlagStatus_negative_lock_increase :: "FlagArg \<Rightarrow> 'a FlagState_scheme \<Rightarrow> 'a FlagState_scheme" where
  "FlagStatus_negative_lock_increase = DEFINE_METHODS_lock Item_negative_lock_increase"
definition FlagStatus_negative_lock_decrease :: "FlagArg \<Rightarrow> 'a FlagState_scheme \<Rightarrow> 'a FlagState_scheme" where
  "FlagStatus_negative_lock_decrease = DEFINE_METHODS_lock Item_negative_lock_decrease"
definition FlagStatus_negative_lock_toggle :: "FlagArg \<Rightarrow> 'a FlagState_scheme \<Rightarrow> 'a FlagState_scheme" where
  "FlagStatus_negative_lock_toggle = DEFINE_METHODS_lock Item_negative_lock_toggle"
definition FlagStatus_sticky_increase :: "FlagArg \<Rightarrow> 'a FlagState_scheme \<Rightarrow> 'a FlagState_scheme" where
  "FlagStatus_sticky_increase = DEFINE_METHODS_lock Item_sticky_increase"
definition FlagStatus_sticky_decrease :: "FlagArg \<Rightarrow> 'a FlagState_scheme \<Rightarrow> 'a FlagState_scheme" where
  "FlagStatus_sticky_decrease = DEFINE_METHODS_lock Item_sticky_decrease"
definition FlagStatus_sticky_toggle :: "FlagArg \<Rightarrow> 'a FlagState_scheme \<Rightarrow> 'a FlagState_scheme" where
  "FlagStatus_sticky_toggle = DEFINE_METHODS_lock Item_sticky_toggle"

definition sticky_active_modifiers ::
  "(FlagItem \<Rightarrow> FlagItem) \<Rightarrow> 'a FlagState_scheme \<Rightarrow> 'a FlagState_scheme"
where
  "sticky_active_modifiers f s =
     updateStatusMessage (FlagStatus_all (\<lambda>it. Item_sum True it > 0) f s)"

definition sticky_active_modifiers_toggle :: "'a FlagState_scheme \<Rightarrow> 'a FlagState_scheme" where
  "sticky_active_modifiers_toggle = sticky_active_modifiers Item_sticky_toggle"
definition sticky_active_modifiers_increase :: "'a FlagState_scheme \<Rightarrow> 'a FlagState_scheme" where
  "sticky_active_modifiers_increase = sticky_active_modifiers Item_sticky_increase"
definition sticky_active_modifiers_decrease :: "'a FlagState_scheme \<Rightarrow> 'a FlagState_scheme" where
  "sticky_active_modifiers_decrease = sticky_active_modifiers Item_sticky_decrease"

definition FlagStatus_sticky_clear :: "'a FlagState_scheme \<Rightarrow> 'a FlagState_scheme" where
  "FlagStatus_sticky_clear s = updateStatusMessage (FlagStatus_all (\<lambda>_. True) Item_sticky_decrease s)"

definition FlagStatus_lock_clear :: "'a FlagState_scheme \<Rightarrow> 'a FlagState_scheme" where
  "FlagStatus_lock_clear s =
     updateStatusMessage (FlagStatus_all (\<lambda>it. fi_lock_count it \<noteq> 0) Item_lock_decrease s)"

definition FlagStatus_negative_lock_clear :: "'a FlagState_scheme \<Rightarrow> 'a FlagState_scheme" where
  "FlagStatus_negative_lock_clear s =
     updateStatusMessage (FlagStatus_all (\<lambda>it. fi_negative_lock_count it \<noteq> 0) Item_negative_lock_decrease s)"

definition FlagStatus_lazy_enable :: "'a FlagState_scheme \<Rightarrow> 'a FlagState_scheme" where
  "FlagStatus_lazy_enable s = FlagStatus_all (\<lambda>_. True) Item_lazy_enable s"

definition FlagStatus_lazy_disable_if_off :: "'a FlagState_scheme \<Rightarrow> 'a FlagState_scheme" where
  "FlagStatus_lazy_disable_if_off s = FlagStatus_all (\<lambda>_. True) Item_lazy_disable_if_off s"

definition FlagStatus_subtract :: "FlagItem list \<Rightarrow> FlagItem list \<Rightarrow> ModifierFlag list" where
  "FlagStatus_subtract items other =
     (if length items = length other then
        concat (map (\<lambda>i. let sum1 = Item_sum True (items ! i); sum2 = Item_sum True (other ! i) in
                         if sum1 > sum2 then replicate (nat (sum1 - sum2)) (fi_flag (items ! i)) else [])
                    [0..<length items])
      else [])"

text \<open>
  \<open>ScopedSetter\<close>: the constructor returns the vectors \<open>added_\<close> and \<open>removed_\<close> of the object, which
  the destructor uses.
\<close>

definition ScopedSetter_new ::
  "FlagItem list \<Rightarrow> 'a FlagState_scheme \<Rightarrow> (ModifierFlag list \<times> ModifierFlag list) \<times> 'a FlagState_scheme"
where
  "ScopedSetter_new newval s =
     (let added = FlagStatus_subtract (fs_item s) newval;
          removed = FlagStatus_subtract newval (fs_item s);
          s = fold (\<lambda>f. FlagStatus_decrease (FA_Flag f)) added s;
          s = fold (\<lambda>f. FlagStatus_increase (FA_Flag f)) removed s
      in ((added, removed), s))"

definition ScopedSetter_delete ::
  "ModifierFlag list \<times> ModifierFlag list \<Rightarrow> 'a FlagState_scheme \<Rightarrow> 'a FlagState_scheme"
where
  "ScopedSetter_delete setter s =
     fold (\<lambda>f. FlagStatus_decrease (FA_Flag f)) (snd setter)
       (fold (\<lambda>f. FlagStatus_increase (FA_Flag f)) (fst setter) s)"

text \<open>\<open>KeyCodeModifierFlagPairs\<close>: registering modifiers resets the flag status.\<close>

definition clearVirtualModifiers :: "'a FlagState_scheme \<Rightarrow> 'a FlagState_scheme" where
  "clearVirtualModifiers s = FlagStatus_initialize (s\<lparr>cs_pairs := normal_pairs\<rparr>)"

definition registerVirtualModifier :: "Pair \<Rightarrow> 'a FlagState_scheme \<Rightarrow> 'a FlagState_scheme" where
  "registerVirtualModifier p s = FlagStatus_initialize (s\<lparr>cs_pairs := cs_pairs s @ [p]\<rparr>)"

section \<open>What the operations leave alone\<close>

text \<open>The state without the messages and notifications for user space.\<close>

definition quiet :: "'a FlagState_scheme \<Rightarrow> 'a FlagState_scheme" where
  "quiet s = s\<lparr>cs_statusmessage := [], cs_notifications := [], fs_previousMessage := []\<rparr>"

lemma quiet_append [simp]: "quiet (append_statusmessage i m s) = quiet s"
  by (simp add: quiet_def append_statusmessage_def)

lemma quiet_clear [simp]: "quiet (clear_statusmessage i s) = quiet s"
  by (simp add: quiet_def clear_statusmessage_def)

lemma quiet_send [simp]: "quiet (send_notification_statusmessage i s) = quiet s"
  by (simp add: quiet_def send_notification_statusmessage_def)

lemma quiet_previousMessage [simp]: "quiet (s\<lparr>fs_previousMessage := m\<rparr>) = quiet s"
  by (simp add: quiet_def)

lemma quiet_fold:
  assumes "\<And>x s. quiet (f x s) = quiet s"
  shows "quiet (fold f xs s) = quiet s"
  using assms by (induction xs arbitrary: s) simp_all

lemma quiet_item [simp]: "quiet (updateStatusMessage_item idx it s) = quiet s"
  by (simp add: updateStatusMessage_item_def split: option.split)

lemma quiet_index [simp]: "quiet (updateStatusMessage_index idx s) = quiet s"
  by (simp add: updateStatusMessage_index_def quiet_fold)

lemma quiet_updateStatusMessage [simp]: "quiet (updateStatusMessage s) = quiet s"
  unfolding updateStatusMessage_def
  by (rule quiet_fold) (simp add: updateStatusMessage_step_def Let_def)

lemma quiet_eqD:
  assumes "quiet s = quiet t"
  shows "fs_item s = fs_item t" and "cs_pairs s = cs_pairs t" and "cs_names s = cs_names t"
    and "cs_clock s = cs_clock t" and "cs_config s = cs_config t"
    and "cs_lastsent s = cs_lastsent t" and "FlagState.more s = FlagState.more t"
proof -
  have p: "fs_item (quiet u) = fs_item u" "cs_pairs (quiet u) = cs_pairs u"
    "cs_names (quiet u) = cs_names u" "cs_clock (quiet u) = cs_clock u"
    "cs_config (quiet u) = cs_config u" "cs_lastsent (quiet u) = cs_lastsent u"
    "FlagState.more (quiet u) = FlagState.more u" for u :: "'a FlagState_scheme"
    by (simp_all add: quiet_def)
  show "fs_item s = fs_item t" using assms p(1) [of s] p(1) [of t] by simp
  show "cs_pairs s = cs_pairs t" using assms p(2) [of s] p(2) [of t] by simp
  show "cs_names s = cs_names t" using assms p(3) [of s] p(3) [of t] by simp
  show "cs_clock s = cs_clock t" using assms p(4) [of s] p(4) [of t] by simp
  show "cs_config s = cs_config t" using assms p(5) [of s] p(5) [of t] by simp
  show "cs_lastsent s = cs_lastsent t" using assms p(6) [of s] p(6) [of t] by simp
  show "FlagState.more s = FlagState.more t" using assms p(7) [of s] p(7) [of t] by simp
qed

lemma quiet_set_item: "quiet s = quiet t \<Longrightarrow> quiet (s\<lparr>fs_item := x\<rparr>) = quiet (t\<lparr>fs_item := x\<rparr>)"
  unfolding quiet_def by (cases s, cases t) simp

lemmas updateStatusMessage_frame [simp, kext_frame] = quiet_eqD [OF quiet_updateStatusMessage]

text \<open>The loops of the macros change the selected items and nothing else but messages.\<close>

abbreviation selected :: "FlagArg \<Rightarrow> FlagItem \<Rightarrow> bool" where
  "selected a it \<equiv> selects a (fi_flag it)"

lemma quiet_methods_body:
  "quiet (methods_body f upd a i s) =
     quiet (s\<lparr>fs_item := (fs_item s)[i := if selected a (fs_item s ! i) then f (fs_item s ! i)
                                        else fs_item s ! i]\<rparr>)"
  by (simp add: methods_body_def Let_def)

lemma quiet_methods_loop:
  assumes "n \<le> length (fs_item s)"
  shows "quiet (fold (methods_body f upd a) [0..<n] s) =
         quiet (s\<lparr>fs_item := map_if (selected a) f (take n (fs_item s)) @ drop n (fs_item s)\<rparr>)"
  using assms
proof (induction n)
  case 0
  then show ?case by simp
next
  case (Suc n)
  define t where "t = fold (methods_body f upd a) [0..<n] s"
  define p where "p = map_if (selected a) f (take n (fs_item s))"
  have n: "n < length (fs_item s)" using Suc.prems by simp
  have t: "quiet t = quiet (s\<lparr>fs_item := p @ drop n (fs_item s)\<rparr>)" using Suc by (simp add: t_def p_def)
  have items: "fs_item t = p @ fs_item s ! n # drop (Suc n) (fs_item s)"
    using quiet_eqD(1) [OF t] n by (simp add: Cons_nth_drop_Suc)
  have len: "length p = n" using n by (simp add: p_def)
  let ?x = "if selected a (fs_item s ! n) then f (fs_item s ! n) else fs_item s ! n"
  have "quiet (methods_body f upd a n t) = quiet (t\<lparr>fs_item := p @ ?x # drop (Suc n) (fs_item s)\<rparr>)"
    by (simp only: quiet_methods_body items) (simp add: nth_append list_update_append len)
  also have "\<dots> = quiet (s\<lparr>fs_item := p @ ?x # drop (Suc n) (fs_item s)\<rparr>)"
    using quiet_set_item [OF t] by simp
  finally have "quiet (methods_body f upd a n t) =
    quiet (s\<lparr>fs_item := p @ ?x # drop (Suc n) (fs_item s)\<rparr>)" .
  moreover have "map_if (selected a) f (take (Suc n) (fs_item s)) = p @ [?x]"
    using n by (simp add: p_def map_if_def take_Suc_conv_app_nth)
  ultimately show ?case by (simp add: t_def)
qed

lemma quiet_count_method:
  "quiet (DEFINE_METHODS_count f a s) = quiet (FlagStatus_all (selected a) f s)"
  by (simp add: DEFINE_METHODS_count_def FlagStatus_all_def quiet_methods_loop)

lemma quiet_lock_method:
  "quiet (DEFINE_METHODS_lock f a s) = quiet (FlagStatus_all (selected a) f s)"
  by (simp add: DEFINE_METHODS_lock_def FlagStatus_all_def quiet_methods_loop)

lemma FlagStatus_all_simps [simp]:
  "fs_item (FlagStatus_all P f s) = map_if P f (fs_item s)"
  "cs_pairs (FlagStatus_all P f s) = cs_pairs s"
  "cs_names (FlagStatus_all P f s) = cs_names s"
  "FlagState.more (FlagStatus_all P f s) = FlagState.more s"
  by (simp_all add: FlagStatus_all_def)

lemmas count_method_frame [simp, kext_frame] =
  quiet_eqD [OF quiet_count_method, simplified]
lemmas lock_method_frame [simp, kext_frame] =
  quiet_eqD [OF quiet_lock_method, simplified]

section \<open>Invariant\<close>

definition item_ok :: "FlagItem \<Rightarrow> bool" where
  "item_ok it = (fi_lock_count it \<in> {0, 1} \<and> fi_negative_lock_count it \<in> {0, 1} \<and>
                 fi_sticky_count it \<in> {0, 1})"

definition flags_inv :: "'a FlagState_scheme \<Rightarrow> bool" where
  "flags_inv s = (map fi_flag (fs_item s) = map pr_modifierFlag (cs_pairs s) \<and>
                  list_all item_ok (fs_item s))"

text \<open>
  The contract of an operation on one item: it keeps the flag and the ranges of the locks. The
  methods that apply such an operation then keep the invariant of the object.
\<close>

locale item_op =
  fixes f :: "FlagItem \<Rightarrow> FlagItem"
  assumes keeps_flag: "fi_flag (f it) = fi_flag it"
    and keeps_ok: "item_ok it \<Longrightarrow> item_ok (f it)"
begin

lemma map_if_inv:
  assumes "map fi_flag items = fs" and "list_all item_ok items"
  shows "map fi_flag (map_if P f items) = fs" and "list_all item_ok (map_if P f items)"
  using assms by (auto simp: map_if_def list_all_iff keeps_flag keeps_ok)

lemma all_inv: "flags_inv s \<Longrightarrow> flags_inv (FlagStatus_all P f s)"
  using map_if_inv by (auto simp: flags_inv_def)

lemma all_update_inv: "flags_inv s \<Longrightarrow> flags_inv (updateStatusMessage (FlagStatus_all P f s))"
  using all_inv [of s P] by (simp add: flags_inv_def)

lemma count_method_inv: "flags_inv s \<Longrightarrow> flags_inv (DEFINE_METHODS_count f a s)"
  using all_inv [of s "selected a"] by (simp add: flags_inv_def)

lemma lock_method_inv: "flags_inv s \<Longrightarrow> flags_inv (DEFINE_METHODS_lock f a s)"
  using all_inv [of s "selected a"] by (simp add: flags_inv_def)

end

interpretation op_increase: item_op Item_increase
  by unfold_locales (auto simp: Item_defs item_ok_def)
interpretation op_decrease: item_op Item_decrease
  by unfold_locales (auto simp: Item_defs item_ok_def)
interpretation op_set: item_op Item_set
  by unfold_locales (auto simp: Item_defs item_ok_def)
interpretation op_setKey: item_op "Item_setKey pairs key flags" for pairs key flags
  by unfold_locales (auto simp: Item_defs item_ok_def Let_def)
interpretation op_reset: item_op Item_reset
  by unfold_locales (auto simp: Item_defs item_ok_def)
interpretation op_temporary_increase: item_op Item_temporary_increase
  by unfold_locales (auto simp: Item_defs item_ok_def)
interpretation op_temporary_decrease: item_op Item_temporary_decrease
  by unfold_locales (auto simp: Item_defs item_ok_def)
interpretation op_lock_increase: item_op Item_lock_increase
  by unfold_locales (auto simp: Item_defs item_ok_def)
interpretation op_lock_decrease: item_op Item_lock_decrease
  by unfold_locales (auto simp: Item_defs item_ok_def)
interpretation op_lock_toggle: item_op Item_lock_toggle
  by unfold_locales (auto simp: Item_defs item_ok_def)
interpretation op_negative_lock_increase: item_op Item_negative_lock_increase
  by unfold_locales (auto simp: Item_defs item_ok_def)
interpretation op_negative_lock_decrease: item_op Item_negative_lock_decrease
  by unfold_locales (auto simp: Item_defs item_ok_def)
interpretation op_negative_lock_toggle: item_op Item_negative_lock_toggle
  by unfold_locales (auto simp: Item_defs item_ok_def)
interpretation op_sticky_increase: item_op Item_sticky_increase
  by unfold_locales (auto simp: Item_defs item_ok_def)
interpretation op_sticky_decrease: item_op Item_sticky_decrease
  by unfold_locales (auto simp: Item_defs item_ok_def)
interpretation op_sticky_toggle: item_op Item_sticky_toggle
  by unfold_locales (auto simp: Item_defs item_ok_def)
interpretation op_lazy_increase: item_op Item_lazy_increase
  by unfold_locales (auto simp: Item_defs item_ok_def)
interpretation op_lazy_decrease: item_op Item_lazy_decrease
  by unfold_locales (auto simp: Item_defs item_ok_def)
interpretation op_lazy_enable: item_op Item_lazy_enable
  by unfold_locales (auto simp: Item_defs item_ok_def)
interpretation op_lazy_disable_if_off: item_op Item_lazy_disable_if_off
  by unfold_locales (auto simp: Item_defs item_ok_def)

section \<open>The object as a state machine\<close>

text \<open>One step is a call of one of the mutating methods of the global object.\<close>

inductive flag_step :: "'a FlagState_scheme \<Rightarrow> 'a FlagState_scheme \<Rightarrow> bool" where
  step_set: "flag_step s (FlagStatus_set s)"
| step_setKey: "flag_step s (FlagStatus_setKey key flags s)"
| step_reset: "flag_step s (FlagStatus_reset s)"
| step_count: "f \<in> {Item_increase, Item_decrease, Item_temporary_increase, Item_temporary_decrease,
    Item_lazy_increase, Item_lazy_decrease} \<Longrightarrow> flag_step s (DEFINE_METHODS_count f a s)"
| step_lock: "f \<in> {Item_lock_increase, Item_lock_decrease, Item_lock_toggle,
    Item_negative_lock_increase, Item_negative_lock_decrease, Item_negative_lock_toggle,
    Item_sticky_increase, Item_sticky_decrease, Item_sticky_toggle} \<Longrightarrow>
    flag_step s (DEFINE_METHODS_lock f a s)"
| step_sticky_active: "f \<in> {Item_sticky_toggle, Item_sticky_increase, Item_sticky_decrease} \<Longrightarrow>
    flag_step s (sticky_active_modifiers f s)"
| step_sticky_clear: "flag_step s (FlagStatus_sticky_clear s)"
| step_lock_clear: "flag_step s (FlagStatus_lock_clear s)"
| step_negative_lock_clear: "flag_step s (FlagStatus_negative_lock_clear s)"
| step_lazy_enable: "flag_step s (FlagStatus_lazy_enable s)"
| step_lazy_disable_if_off: "flag_step s (FlagStatus_lazy_disable_if_off s)"
| step_register: "flag_step s (registerVirtualModifier p s)"
| step_clear: "flag_step s (clearVirtualModifiers s)"

lemma items_of_pairs_inv: "flags_inv (FlagStatus_initialize s)"
  by (induction "cs_pairs s")
     (auto simp: flags_inv_def FlagStatus_initialize_def items_of_pairs_def Item_defs item_ok_def
        list_all_iff)

lemma flag_step_inv [kext_inv]:
  assumes "flag_step s t" and "flags_inv s"
  shows "flags_inv t"
  using assms
proof (induction rule: flag_step.induct)
  case (step_count f s a)
  then show ?case
    by (elim insertE emptyE)
       (simp_all add: op_increase.count_method_inv op_decrease.count_method_inv
          op_temporary_increase.count_method_inv op_temporary_decrease.count_method_inv
          op_lazy_increase.count_method_inv op_lazy_decrease.count_method_inv)
next
  case (step_lock f s a)
  then show ?case
    by (elim insertE emptyE)
       (simp_all add: op_lock_increase.lock_method_inv op_lock_decrease.lock_method_inv
          op_lock_toggle.lock_method_inv op_negative_lock_increase.lock_method_inv
          op_negative_lock_decrease.lock_method_inv op_negative_lock_toggle.lock_method_inv
          op_sticky_increase.lock_method_inv op_sticky_decrease.lock_method_inv
          op_sticky_toggle.lock_method_inv)
next
  case (step_sticky_active f s)
  then show ?case
    by (elim insertE emptyE)
       (simp_all add: sticky_active_modifiers_def op_sticky_toggle.all_update_inv
          op_sticky_increase.all_update_inv op_sticky_decrease.all_update_inv)
qed (simp_all add: FlagStatus_set_def FlagStatus_setKey_def FlagStatus_reset_def
       FlagStatus_sticky_clear_def FlagStatus_lock_clear_def FlagStatus_negative_lock_clear_def
       FlagStatus_lazy_enable_def FlagStatus_lazy_disable_if_off_def registerVirtualModifier_def
       clearVirtualModifiers_def items_of_pairs_inv op_set.all_update_inv op_setKey.all_update_inv
       op_reset.all_update_inv op_sticky_decrease.all_update_inv op_lock_decrease.all_update_inv
       op_negative_lock_decrease.all_update_inv op_lazy_enable.all_inv op_lazy_disable_if_off.all_inv)

lemma flag_steps_inv: "flag_step\<^sup>*\<^sup>* s t \<Longrightarrow> flags_inv s \<Longrightarrow> flags_inv t"
  by (induction rule: rtranclp_induct) (auto intro: flag_step_inv)

text \<open>
  C4: Whatever methods have been called since the modifiers were registered, there is exactly one
  item per registered modifier, in the order of registration, and every lock, negative lock and
  sticky counter is 0 or 1.
\<close>

theorem FlagStatus_reachable:
  assumes "flag_step\<^sup>*\<^sup>* (clearVirtualModifiers s0) s"
  shows "map fi_flag (fs_item s) = map pr_modifierFlag (cs_pairs s) \<and>
         (\<forall>it \<in> set (fs_item s). fi_lock_count it \<in> {0, 1} \<and> fi_negative_lock_count it \<in> {0, 1} \<and>
            fi_sticky_count it \<in> {0, 1})"
proof -
  have "flags_inv (clearVirtualModifiers s0)"
    unfolding clearVirtualModifiers_def by (rule items_of_pairs_inv)
  with assms have "flags_inv s" by (rule flag_steps_inv)
  then show ?thesis by (simp add: flags_inv_def list_all_iff item_ok_def)
qed

theorem FlagStatus_reachable_witness:
  "let s = FlagStatus_lock_toggle (FA_Flag ModifierFlag_SHIFT_L) (clearVirtualModifiers flags_static) in
   map fi_flag (fs_item s) = map pr_modifierFlag (cs_pairs s) \<and>
   (\<forall>it \<in> set (fs_item s). fi_lock_count it \<in> {0, 1} \<and> fi_negative_lock_count it \<in> {0, 1} \<and>
      fi_sticky_count it \<in> {0, 1})"
proof -
  let ?s = "clearVirtualModifiers flags_static"
  have "flag_step ?s (FlagStatus_lock_toggle (FA_Flag ModifierFlag_SHIFT_L) ?s)"
    unfolding FlagStatus_lock_toggle_def by (rule step_lock) simp
  then have "flag_step\<^sup>*\<^sup>* ?s (FlagStatus_lock_toggle (FA_Flag ModifierFlag_SHIFT_L) ?s)" by blast
  from FlagStatus_reachable [OF this] show ?thesis unfolding Let_def .
qed

section \<open>Counting modifiers\<close>

text \<open>A modifier other than caps lock: increase and decrease calls in any order.\<close>

definition change_flag :: "bool \<times> ModifierFlag \<Rightarrow> 'a FlagState_scheme \<Rightarrow> 'a FlagState_scheme" where
  "change_flag c = (if fst c then FlagStatus_increase (FA_Flag (snd c))
                    else FlagStatus_decrease (FA_Flag (snd c)))"

definition change_item :: "bool \<times> ModifierFlag \<Rightarrow> FlagItem \<Rightarrow> FlagItem" where
  "change_item c it = (if snd c = fi_flag it then (if fst c then Item_increase it else Item_decrease it)
                       else it)"

lemma fs_item_change_flag: "fs_item (change_flag c s) = map (change_item c) (fs_item s)"
  by (simp add: change_flag_def FlagStatus_increase_def FlagStatus_decrease_def map_if_def
      change_item_def)

lemma fs_item_change_flags: "fs_item (fold change_flag cs s) = map (fold change_item cs) (fs_item s)"
proof (induction cs arbitrary: s)
  case (Cons c cs)
  then show ?case by (simp add: fs_item_change_flag)
qed simp

lemma fold_change_item:
  assumes "fi_flag it \<noteq> ModifierFlag_CAPSLOCK"
  shows "fold change_item cs it =
    it\<lparr>fi_count := fi_count it + int (count_list cs (True, fi_flag it)) - int (count_list cs (False, fi_flag it))\<rparr>"
  using assms
proof (induction cs arbitrary: it)
  case (Cons c cs)
  obtain b m where c: "c = (b, m)" by (cases c)
  have "fi_flag (change_item c it) = fi_flag it"
    by (simp add: change_item_def op_increase.keeps_flag op_decrease.keeps_flag)
  then show ?case
    using Cons by (cases b) (auto simp: c change_item_def Item_increase_def Item_decrease_def)
qed simp

lemma fold_change_caps:
  assumes "fi_flag it = ModifierFlag_CAPSLOCK" and "fi_lock_count it \<in> {0, 1}"
  shows "fold change_item cs it =
    it\<lparr>fi_lock_count := (fi_lock_count it + int (count_list cs (True, ModifierFlag_CAPSLOCK))) mod 2\<rparr>"
  using assms
proof (induction cs arbitrary: it)
  case (Cons c cs)
  obtain b m where c: "c = (b, m)" by (cases c)
  let ?n = "int (count_list cs (True, ModifierFlag_CAPSLOCK))"
  have m: "(1 - l + ?n) mod 2 = (l + (?n + 1)) mod 2" if "l \<in> {0, 1}" for l :: int
    using that by (auto simp: algebra_simps)
  show ?case
  proof (cases "b \<and> m = fi_flag it")
    case True
    then have "change_item c it = it\<lparr>fi_lock_count := 1 - fi_lock_count it\<rparr>"
      using Cons.prems by (auto simp: c change_item_def Item_increase_def c_not_def)
    then show ?thesis
      using Cons.IH [of "it\<lparr>fi_lock_count := 1 - fi_lock_count it\<rparr>"] Cons.prems True m
      by (auto simp: c algebra_simps)
  next
    case False
    then have "change_item c it = it"
      using Cons.prems by (auto simp: c change_item_def Item_decrease_def)
    then show ?thesis using Cons False by (auto simp: c)
  qed
qed auto



section \<open>The flags of an event\<close>

lemma makeFlags_vector:
  "FlagStatus_makeFlags items = Flags_vector (map fi_flag (filter (\<lambda>it. Item_sum False it > 0) items))"
proof -
  have "foldl (\<lambda>flags it. if Item_sum False it > 0 then Flags_addFlag flags (fi_flag it) else flags) v items =
        v OR Flags_vector (map fi_flag (filter (\<lambda>it. Item_sum False it > 0) items))" for v
    by (induction items arbitrary: v)
       (simp_all add: Flags_vector_or Flags_addFlag_def Flags_add_def or.assoc)
  then show ?thesis by (simp add: FlagStatus_makeFlags_def)
qed

text \<open>
  The flags of outgoing events contain a hardware modifier exactly when the sum of the counters of
  an item for it is positive. Virtual modifiers have no bits and never show.
\<close>

theorem makeFlags_isOn:
  "Flags_isOn (FlagStatus_makeFlags items) f \<longleftrightarrow>
     f = ModifierFlag_ZERO \<or>
     f \<in> set real_modifiers \<and> (\<exists>it \<in> set items. fi_flag it = f \<and> Item_sum False it > 0)"
proof (cases "f \<in> set real_modifiers")
  case True
  with real_modifiers_ZERO have "f \<noteq> ModifierFlag_ZERO" by metis
  with True show ?thesis by (auto simp: makeFlags_vector Flags_isOn_vector_iff)
next
  case False
  then show ?thesis by (simp add: Flags_isOn_virtual)
qed

lemma isOn_loop:
  "FlagStatus_isOn_loop items strict fs =
     (if \<forall>f \<in> set fs. f = ModifierFlag_ZERO \<or> f = ModifierFlag_NONE \<or> FlagStatus_isOn1 items f
      then Some (strict \<or> ModifierFlag_NONE \<in> set fs) else None)"
  by (induction items strict fs rule: FlagStatus_isOn_loop.induct) auto

lemma isOn1_iff:
  assumes "distinct (map fi_flag items)"
  shows "FlagStatus_isOn1 items f \<longleftrightarrow> (\<exists>it \<in> set items. fi_flag it = f \<and> Item_sum True it > 0)"
proof (cases "\<exists>it \<in> set items. fi_flag it = f")
  case True
  then obtain it where it: "it \<in> set items" "fi_flag it = f" by blast
  have "find (\<lambda>y. fi_flag y = f) items = Some it" using find_key_distinct [OF assms it(1)] it(2) by simp
  then have "FlagStatus_isOn1 items f \<longleftrightarrow> Item_sum True it > 0" by (simp add: FlagStatus_isOn1_def)
  moreover have "\<forall>it' \<in> set items. fi_flag it' = f \<longrightarrow> it' = it"
    using assms it by (metis distinct_map inj_onD)
  ultimately show ?thesis using it by metis
next
  case False
  then have "find (\<lambda>it. fi_flag it = f) items = None" by (simp add: find_None_iff)
  with False show ?thesis by (auto simp: FlagStatus_isOn1_def)
qed

text \<open>
  C14: \<open>isOn\<close> holds when every flag asked for is active and, if \<open>NONE\<close> is among them, no other
  modifier is active.
\<close>

theorem FlagStatus_isOn_iff:
  assumes "distinct (map fi_flag items)"
  shows "FlagStatus_isOn items fs \<longleftrightarrow>
    (\<forall>f \<in> set fs - {ModifierFlag_ZERO, ModifierFlag_NONE}.
       \<exists>it \<in> set items. fi_flag it = f \<and> Item_sum True it > 0) \<and>
    (ModifierFlag_NONE \<in> set fs \<longrightarrow>
       (\<forall>it \<in> set items. Item_sum True it > 0 \<longrightarrow> fi_flag it \<in> set fs))"
  using isOn1_iff [OF assms]
  by (auto simp: FlagStatus_isOn_def isOn_loop list_all_iff)

theorem FlagStatus_isOn_iff_witness:
  "FlagStatus_isOn [Item_increase (Item_initialize ModifierFlag_SHIFT_L Item_new)]
     [ModifierFlag_SHIFT_L, ModifierFlag_NONE]"
proof -
  let ?items = "[Item_increase (Item_initialize ModifierFlag_SHIFT_L Item_new)]"
  have "distinct (map fi_flag ?items)" by simp
  from FlagStatus_isOn_iff [OF this, of "[ModifierFlag_SHIFT_L, ModifierFlag_NONE]"]
  show ?thesis by (auto simp: Item_defs Item_sum_def)
qed

section \<open>ScopedSetter\<close>

lemma count_list_replicate: "count_list (replicate n x) y = (if x = y then n else 0)"
  by (induction n) auto

lemma count_list_concat: "count_list (concat xss) x = sum_list (map (\<lambda>xs. count_list xs x) xss)"
  by (induction xss) simp_all

lemma count_list_map_Pair: "count_list (map (Pair b) xs) (b', x) = (if b = b' then count_list xs x else 0)"
  by (induction xs) auto

lemma count_list_subtract:
  assumes len: "length items = length other" and i: "i < length items"
    and dist: "distinct (map fi_flag items)"
  shows "count_list (FlagStatus_subtract items other) (fi_flag (items ! i)) =
         nat (Item_sum True (items ! i) - Item_sum True (other ! i))"
proof -
  let ?d = "\<lambda>j. nat (Item_sum True (items ! j) - Item_sum True (other ! j))"
  have eq: "fi_flag (items ! j) = fi_flag (items ! i) \<longleftrightarrow> j = i" if "j < length items" for j
    using dist i that nth_eq_iff_index_eq [of "map fi_flag items" j i] by simp
  have "count_list (FlagStatus_subtract items other) (fi_flag (items ! i)) =
        sum_list (map (\<lambda>j. if fi_flag (items ! j) = fi_flag (items ! i) then ?d j else 0) [0..<length items])"
    using len
    by (simp add: FlagStatus_subtract_def count_list_concat comp_def Let_def)
       (rule arg_cong [of _ _ sum_list], rule map_cong, auto simp: count_list_replicate)
  also have "\<dots> = sum_list (map (\<lambda>j. if j = i then ?d j else 0) [0..<length items])"
    by (rule arg_cong [of _ _ sum_list], rule map_cong) (auto simp: eq)
  also have "\<dots> = (\<Sum>j \<in> {0..<length items}. if j = i then ?d j else 0)"
    by (simp only: interv_sum_list_conv_sum_set_nat set_upt)
  also have "\<dots> = ?d i" using i by simp
  finally show ?thesis .
qed

text \<open>The calls that the constructor and the destructor make.\<close>

lemma fold_change_map: "fold change_flag (map (Pair b) fs) = fold (\<lambda>f. change_flag (b, f)) fs"
  by (induction fs) simp_all

lemma ScopedSetter_new_fold:
  "snd (ScopedSetter_new newval s) =
     fold change_flag (map (Pair False) (FlagStatus_subtract (fs_item s) newval) @
                       map (Pair True) (FlagStatus_subtract newval (fs_item s))) s"
  by (simp add: ScopedSetter_new_def Let_def fold_change_map change_flag_def)

lemma ScopedSetter_delete_fold:
  "ScopedSetter_delete (a, r) s = fold change_flag (map (Pair True) a @ map (Pair False) r) s"
  by (simp add: ScopedSetter_delete_def fold_change_map change_flag_def)

lemma ScopedSetter_new_fst:
  "fst (ScopedSetter_new newval s) =
     (FlagStatus_subtract (fs_item s) newval, FlagStatus_subtract newval (fs_item s))"
  by (simp add: ScopedSetter_new_def Let_def)

lemma Item_sum_count: "Item_sum b (it\<lparr>fi_count := n\<rparr>) = Item_sum b it - fi_count it + n"
  by (simp add: Item_sum_def Let_def)

lemma same_flags_nth:
  assumes "map fi_flag newval = map fi_flag items" and "i < length items"
  shows "fi_flag (newval ! i) = fi_flag (items ! i)" and "i < length newval"
    and "length newval = length items"
  using assms by (metis length_map nth_map, metis length_map, metis length_map)

lemma count_added_removed:
  assumes flags: "map fi_flag newval = map fi_flag (fs_item s)"
    and dist: "distinct (map fi_flag (fs_item s))" and i: "i < length (fs_item s)"
  shows "count_list (FlagStatus_subtract (fs_item s) newval) (fi_flag (fs_item s ! i)) =
           nat (Item_sum True (fs_item s ! i) - Item_sum True (newval ! i))"
    and "count_list (FlagStatus_subtract newval (fs_item s)) (fi_flag (fs_item s ! i)) =
           nat (Item_sum True (newval ! i) - Item_sum True (fs_item s ! i))"
  using count_list_subtract [of "fs_item s" newval i] count_list_subtract [of newval "fs_item s" i]
    same_flags_nth [OF flags i] dist i flags by simp_all

text \<open>
  Inside the scope of a \<open>ScopedSetter\<close> every modifier other than caps lock has the sum it has in
  the status that was passed in.
\<close>

theorem ScopedSetter_sums:
  assumes flags: "map fi_flag newval = map fi_flag (fs_item s)"
    and dist: "distinct (map fi_flag (fs_item s))"
    and i: "i < length (fs_item s)" and caps: "fi_flag (fs_item s ! i) \<noteq> ModifierFlag_CAPSLOCK"
  shows "Item_sum True (fs_item (snd (ScopedSetter_new newval s)) ! i) = Item_sum True (newval ! i)"
  using i caps
  by (simp add: ScopedSetter_new_fold fs_item_change_flags fold_change_item [OF caps] Item_sum_count
      count_list_map_Pair count_added_removed [OF flags dist i] del: fold_append)


text \<open>Caps lock on, and a saved status with caps lock off.\<close>

definition caps_locked :: FlagState where
  "caps_locked = flags_static\<lparr>fs_item := [(Item_initialize ModifierFlag_CAPSLOCK Item_new)\<lparr>fi_lock_count := 1\<rparr>,
     Item_initialize ModifierFlag_SHIFT_L Item_new]\<rparr>"

definition shift_pressed :: "FlagItem list" where
  "shift_pressed = [Item_initialize ModifierFlag_CAPSLOCK Item_new,
     (Item_initialize ModifierFlag_SHIFT_L Item_new)\<lparr>fi_count := 1\<rparr>]"

theorem ScopedSetter_sums_witness:
  "Item_sum True (fs_item (snd (ScopedSetter_new shift_pressed caps_locked)) ! 1) = 1"
  using ScopedSetter_sums [of shift_pressed caps_locked 1]
  by (simp add: shift_pressed_def caps_locked_def Item_defs Item_sum_def)


section \<open>Status messages\<close>

text \<open>What one item contributes to the message with the given index.\<close>

definition item_message :: "(ModifierFlag \<times> byte list) list \<Rightarrow> nat \<Rightarrow> FlagItem \<Rightarrow> byte list" where
  "item_message names idx it =
     (case ModifierName_getName names (fi_flag it) of
        None \<Rightarrow> []
      | Some name \<Rightarrow>
          if idx = STATUS_MESSAGE_MODIFIER_LOCK \<and> fi_flag it \<noteq> ModifierFlag_CAPSLOCK \<and>
             fi_negative_lock_count it > 0 then ascii ''-'' @ name @ ascii '' ''
          else if idx = STATUS_MESSAGE_MODIFIER_LOCK \<and> fi_flag it \<noteq> ModifierFlag_CAPSLOCK \<and>
             fi_lock_count it > 0 \<or>
             idx = STATUS_MESSAGE_MODIFIER_CAPS_LOCK \<and> fi_flag it = ModifierFlag_CAPSLOCK \<and>
             fi_lock_count it > 0 \<or>
             idx = STATUS_MESSAGE_MODIFIER_STICKY \<and> fi_sticky_count it > 0 then name @ ascii '' ''
          else [])"

definition messages_ok :: "'a CommonState_scheme \<Rightarrow> bool" where
  "messages_ok s = (length (cs_statusmessage s) = STATUS_MESSAGE_END \<and>
                    (\<forall>m \<in> set (cs_statusmessage s). length m < STATUS_MESSAGE_MAXLEN))"

text \<open>The state with the given text appended to a message, cut at the size of the buffer.\<close>

definition extend_message :: "nat \<Rightarrow> byte list \<Rightarrow> 'a CommonState_scheme \<Rightarrow> 'a CommonState_scheme" where
  "extend_message idx m s =
     s\<lparr>cs_statusmessage := (cs_statusmessage s)
         [idx := take (STATUS_MESSAGE_MAXLEN - 1) (cs_statusmessage s ! idx @ m)]\<rparr>"

lemma take_take_append: "take n (take n xs @ ys) = take n (xs @ ys)"
  by (cases "length xs \<le> n") (simp_all add: min_def)

lemma messages_ok_extend:
  assumes "messages_ok s"
  shows "messages_ok (extend_message idx m s)"
proof -
  have "length x < STATUS_MESSAGE_MAXLEN" if "x \<in> set (cs_statusmessage (extend_message idx m s))" for x
    using assms that set_update_subset_insert [of "cs_statusmessage s" idx]
    unfolding messages_ok_def extend_message_def by fastforce
  then show ?thesis using assms by (simp add: messages_ok_def extend_message_def)
qed

lemma append_statusmessage_extend:
  assumes "messages_ok s" and "0 < idx" and "idx < STATUS_MESSAGE_END"
  shows "append_statusmessage idx m s = extend_message idx m s"
proof -
  have "length (cs_statusmessage s ! idx) < STATUS_MESSAGE_MAXLEN"
    using assms by (simp add: messages_ok_def)
  then show ?thesis
    using assms by (simp add: append_statusmessage_def extend_message_def c_strlcat_def index_ok_def)
qed

lemma extend_message_Nil:
  assumes "messages_ok s" and "idx < STATUS_MESSAGE_END"
  shows "extend_message idx [] s = s"
proof -
  have "length (cs_statusmessage s ! idx) < STATUS_MESSAGE_MAXLEN"
    using assms by (simp add: messages_ok_def)
  then show ?thesis by (simp add: extend_message_def)
qed

lemma extend_message_twice:
  assumes "messages_ok s" and "idx < STATUS_MESSAGE_END"
  shows "extend_message idx b (extend_message idx a s) = extend_message idx (a @ b) s"
  using assms by (simp add: extend_message_def messages_ok_def take_take_append del: take_append)

lemma updateStatusMessage_item_extend:
  assumes "messages_ok s" and "0 < idx" and "idx < STATUS_MESSAGE_END"
  shows "updateStatusMessage_item idx it s = extend_message idx (item_message (cs_names s) idx it) s"
  using assms
  by (auto simp: updateStatusMessage_item_def item_message_def append_statusmessage_extend
      messages_ok_extend extend_message_twice extend_message_Nil split: option.split)

lemma fold_updateStatusMessage_item:
  assumes "messages_ok s" and "0 < idx" and "idx < STATUS_MESSAGE_END"
  shows "fold (updateStatusMessage_item idx) items s =
         extend_message idx (concat (map (item_message (cs_names s) idx) items)) s"
  using assms
proof (induction items arbitrary: s)
  case Nil
  then show ?case by (simp add: extend_message_Nil)
next
  case (Cons it items)
  have "cs_names (extend_message idx m s) = cs_names s" for m by (simp add: extend_message_def)
  with Cons show ?case
    by (simp add: updateStatusMessage_item_extend messages_ok_extend extend_message_twice)
qed

definition modifier_message :: "nat \<Rightarrow> 'a FlagState_scheme \<Rightarrow> byte list" where
  "modifier_message idx s =
     take (STATUS_MESSAGE_MAXLEN - 1) (concat (map (item_message (cs_names s) idx) (fs_item s)))"

lemma messages_ok_clear: "messages_ok s \<Longrightarrow> messages_ok (clear_statusmessage idx s)"
  using set_update_subset_insert [of "cs_statusmessage s" idx "[]"]
  by (auto simp: messages_ok_def clear_statusmessage_def)

lemma clear_then_extend:
  assumes "messages_ok s" and "0 < idx" and "idx < STATUS_MESSAGE_END"
  shows "cs_statusmessage (extend_message idx m (clear_statusmessage idx s)) =
         (cs_statusmessage s)[idx := take (STATUS_MESSAGE_MAXLEN - 1) m]"
  using assms by (simp add: extend_message_def clear_statusmessage_def index_ok_def messages_ok_def)

lemma cs_statusmessage_index:
  assumes "messages_ok s" and "0 < idx" and "idx < STATUS_MESSAGE_END"
  shows "cs_statusmessage (updateStatusMessage_index idx s) =
         (cs_statusmessage s)[idx := modifier_message idx s]"
    and "messages_ok (updateStatusMessage_index idx s)"
proof -
  have "cs_names (clear_statusmessage idx s) = cs_names s" by (simp add: clear_statusmessage_def)
  then have eq: "updateStatusMessage_index idx s =
     extend_message idx (concat (map (item_message (cs_names s) idx) (fs_item s))) (clear_statusmessage idx s)"
    using fold_updateStatusMessage_item [OF messages_ok_clear [OF assms(1)] assms(2,3)]
    by (simp add: updateStatusMessage_index_def)
  show "cs_statusmessage (updateStatusMessage_index idx s) = (cs_statusmessage s)[idx := modifier_message idx s]"
    using clear_then_extend [OF assms] by (simp add: eq modifier_message_def)
  show "messages_ok (updateStatusMessage_index idx s)"
    unfolding eq by (intro messages_ok_extend messages_ok_clear assms)
qed

lemma updateStatusMessage_step_text:
  assumes "messages_ok s" and "0 < idx" and "idx < STATUS_MESSAGE_END"
  shows "cs_statusmessage (updateStatusMessage_step idx s) = (cs_statusmessage s)[idx := modifier_message idx s]"
    and "messages_ok (updateStatusMessage_step idx s)"
    and "modifier_message j (updateStatusMessage_step idx s) = modifier_message j s"
proof -
  let ?s = "s\<lparr>fs_previousMessage := c_strlcat (fs_previousMessage s) (cs_statusmessage s ! idx) STATUS_MESSAGE_MAXLEN\<rparr>"
  have ok: "messages_ok ?s" using assms(1) by (simp add: messages_ok_def)
  note idx = cs_statusmessage_index [OF ok assms(2,3)]
  show "cs_statusmessage (updateStatusMessage_step idx s) = (cs_statusmessage s)[idx := modifier_message idx s]"
    using idx by (simp add: updateStatusMessage_step_def Let_def send_notification_statusmessage_def
        modifier_message_def)
  show "messages_ok (updateStatusMessage_step idx s)"
    using idx(2) by (simp add: updateStatusMessage_step_def Let_def send_notification_statusmessage_def
        messages_ok_def)
  have "quiet (updateStatusMessage_step idx s) = quiet s"
    by (simp add: updateStatusMessage_step_def Let_def)
  from quiet_eqD [OF this] show "modifier_message j (updateStatusMessage_step idx s) = modifier_message j s"
    by (simp add: modifier_message_def)
qed

text \<open>
  After an update, the three modifier messages that user space reads are the texts of the current
  locks and sticky modifiers, cut at the size of the message buffer.
\<close>

theorem updateStatusMessage_text:
  assumes "messages_ok s"
  shows "cs_statusmessage (updateStatusMessage s) =
    (cs_statusmessage s)
      [STATUS_MESSAGE_MODIFIER_LOCK := modifier_message STATUS_MESSAGE_MODIFIER_LOCK s,
       STATUS_MESSAGE_MODIFIER_CAPS_LOCK := modifier_message STATUS_MESSAGE_MODIFIER_CAPS_LOCK s,
       STATUS_MESSAGE_MODIFIER_STICKY := modifier_message STATUS_MESSAGE_MODIFIER_STICKY s]"
proof -
  let ?l = "updateStatusMessage_step STATUS_MESSAGE_MODIFIER_LOCK s"
  let ?c = "updateStatusMessage_step STATUS_MESSAGE_MODIFIER_CAPS_LOCK ?l"
  have l: "messages_ok ?l" by (rule updateStatusMessage_step_text(2)) (simp_all add: assms)
  have c: "messages_ok ?c" by (rule updateStatusMessage_step_text(2)) (simp_all add: l)
  show ?thesis
    using updateStatusMessage_step_text [OF assms, of STATUS_MESSAGE_MODIFIER_LOCK]
      updateStatusMessage_step_text [OF l, of STATUS_MESSAGE_MODIFIER_CAPS_LOCK]
      updateStatusMessage_step_text [OF c, of STATUS_MESSAGE_MODIFIER_STICKY]
    by (simp add: updateStatusMessage_def)
qed

lemma caps_locked_static:
  "cs_statusmessage caps_locked = replicate STATUS_MESSAGE_END []"
  "cs_names caps_locked = normal_names"
  "fs_item caps_locked = [(Item_initialize ModifierFlag_CAPSLOCK Item_new)\<lparr>fi_lock_count := 1\<rparr>,
     Item_initialize ModifierFlag_SHIFT_L Item_new]"
  by (simp_all add: caps_locked_def flags_static_def common_static_def CommonState.extend_def)

theorem updateStatusMessage_text_witness:
  "cs_statusmessage (updateStatusMessage caps_locked) = [[], [], [], ascii ''caps '', [], []]"
proof -
  have "messages_ok caps_locked"
    by (simp add: messages_ok_def caps_locked_static)
  from updateStatusMessage_text [OF this]
  have "cs_statusmessage (updateStatusMessage caps_locked) =
    (replicate STATUS_MESSAGE_END [])
      [STATUS_MESSAGE_MODIFIER_LOCK := modifier_message STATUS_MESSAGE_MODIFIER_LOCK caps_locked,
       STATUS_MESSAGE_MODIFIER_CAPS_LOCK := modifier_message STATUS_MESSAGE_MODIFIER_CAPS_LOCK caps_locked,
       STATUS_MESSAGE_MODIFIER_STICKY := modifier_message STATUS_MESSAGE_MODIFIER_STICKY caps_locked]"
    by (simp only: caps_locked_static)
  then show ?thesis
    by (simp add: modifier_message_def item_message_def caps_locked_static ModifierName_getName_def
        normal_names_value Item_defs ascii_def numeral_eq_Suc)
qed

definition shift_toggle :: "FlagState \<Rightarrow> FlagState" where
  "shift_toggle = FlagStatus_lock_toggle (FA_Flag ModifierFlag_SHIFT_L)"


end
