(* ===== verification/Pointing.thy ===== *)
theory Pointing
  imports KeyTypes
begin

text \<open>
  Pointing devices: the button sets of \<^verbatim>\<open>KeyCode.hpp\<close> (\<open>Buttons\<close>), the classification of
  scroll and cursor deltas into directions (\<open>ScrollWheel\<close>, \<open>PointingRelative\<close>) and the
  short-term movement average of \<^verbatim>\<open>DeltaBuffer.hpp\<close>. C++ \<open>int\<close> values that the code only adds,
  compares and negates are HOL integers here: overflowing them is undefined in C++.
\<close>

section \<open>Buttons\<close>

definition Buttons_add :: "Buttons \<Rightarrow> Buttons \<Rightarrow> Buttons" where
  "Buttons_add v buttons = v OR buttons"

definition Buttons_remove :: "Buttons \<Rightarrow> Buttons \<Rightarrow> Buttons" where
  "Buttons_remove v buttons = v AND NOT buttons"

definition Buttons_isNONE :: "Buttons \<Rightarrow> bool" where
  "Buttons_isNONE v = (v = 0)"

definition Buttons_isOn :: "Buttons \<Rightarrow> Buttons \<Rightarrow> bool" where
  "Buttons_isOn v buttons = (v AND buttons = buttons)"

definition Buttons_justPressed :: "Buttons \<Rightarrow> Buttons \<Rightarrow> Buttons" where
  "Buttons_justPressed v previous = v AND NOT previous"

definition Buttons_justReleased :: "Buttons \<Rightarrow> Buttons \<Rightarrow> Buttons" where
  "Buttons_justReleased v previous = NOT v AND previous"

definition Buttons_count :: "Buttons \<Rightarrow> u32" where
  "Buttons_count value =
     (let bits = value;
          bits = (bits AND 0x55555555) + (drop_bit 1 bits AND 0x55555555);
          bits = (bits AND 0x33333333) + (drop_bit 2 bits AND 0x33333333);
          bits = (bits AND 0x0f0f0f0f) + (drop_bit 4 bits AND 0x0f0f0f0f);
          bits = (bits AND 0x00ff00ff) + (drop_bit 8 bits AND 0x00ff00ff)
      in (bits AND 0x0000ffff) + (drop_bit 16 bits AND 0x0000ffff))"

text \<open>The pressed and released buttons of a transition rebuild the new state from the old one.\<close>

lemma bit_justPressed: "bit (Buttons_justPressed v p) i \<longleftrightarrow> bit v i \<and> \<not> bit p i"
  by (auto simp: Buttons_justPressed_def bit_and_iff bit_not_iff dest: bit_imp_le_length)

lemma bit_justReleased: "bit (Buttons_justReleased v p) i \<longleftrightarrow> \<not> bit v i \<and> bit p i"
  by (auto simp: Buttons_justReleased_def bit_and_iff bit_not_iff dest: bit_imp_le_length)

lemma bit_Buttons_remove: "bit (Buttons_remove v b) i \<longleftrightarrow> bit v i \<and> \<not> bit b i"
  by (auto simp: Buttons_remove_def bit_and_iff bit_not_iff dest: bit_imp_le_length)

lemma bit_Buttons_add: "bit (Buttons_add v b) i \<longleftrightarrow> bit v i \<or> bit b i"
  by (simp add: Buttons_add_def bit_or_iff)

lemma bit_button: "bit (2 ^ i :: Buttons) j \<longleftrightarrow> i = j \<and> i < 32"
  by (auto simp: bit_exp_iff possible_bit_word)

lemma Buttons_isOn_button: "i < 32 \<Longrightarrow> Buttons_isOn v (push_bit i 1) \<longleftrightarrow> bit v i"
  by (auto simp: Buttons_isOn_def word_subset_iff bit_button)

lemma Buttons_isNONE_iff: "Buttons_isNONE v \<longleftrightarrow> (\<forall>i. \<not> bit v i)"
  by (auto simp: Buttons_isNONE_def intro: bit_word_eqI)

text \<open>
  The transition algebra of \<open>Buttons\<close>: adding what was just pressed to the previous buttons and
  removing what was just released gives the current buttons, and no button is in both.
\<close>

theorem Buttons_transition:
  "Buttons_remove (Buttons_add previous (Buttons_justPressed v previous))
      (Buttons_justReleased v previous) = v \<and>
   Buttons_justPressed v previous AND Buttons_justReleased v previous = 0"
  by (auto simp: bit_eq_iff bit_Buttons_remove bit_Buttons_add bit_justPressed bit_justReleased
      bit_and_iff)

subsection \<open>The population count\<close>

text \<open>
  \<open>digit_sum k j n\<close> adds the lowest \<open>j\<close> digits of \<open>n\<close> to base \<open>2 ^ k\<close>; each of the five steps
  of the parallel count halves the number of digits and keeps their sum.
\<close>

primrec digit_sum :: "nat \<Rightarrow> nat \<Rightarrow> nat \<Rightarrow> nat" where
  "digit_sum k 0 n = 0"
| "digit_sum k (Suc j) n = n mod 2 ^ k + digit_sum k j (n div 2 ^ k)"

primrec field_mask :: "nat \<Rightarrow> nat \<Rightarrow> nat" where
  "field_mask k 0 = 0"
| "field_mask k (Suc j) = 2 ^ (2 * k) * field_mask k j + mask k"

definition add_fields :: "nat \<Rightarrow> nat \<Rightarrow> nat \<Rightarrow> nat" where
  "add_fields k m n = and n m + and (n div 2 ^ k) m"

lemma and_split:
  fixes n m r s :: nat
  assumes "r < 2 ^ d" and "s < 2 ^ d"
  shows "(2 ^ d * n + r) AND (2 ^ d * m + s) = 2 ^ d * (n AND m) + (r AND s)"
proof -
  let ?x = "(2 ^ d * n + r) AND (2 ^ d * m + s)"
  have "take_bit d ?x = r AND s"
    using assms by (simp only: take_bit_and) (simp add: take_bit_eq_mod)
  moreover have "drop_bit d ?x = n AND m"
    using assms by (simp only: drop_bit_and) (simp add: drop_bit_eq_div)
  ultimately have "push_bit d (n AND m) + (r AND s) = ?x"
    using bits_ident [of d ?x] by simp
  then show ?thesis by (simp add: push_bit_eq_mult mult.commute)
qed

lemma add_fields_step:
  assumes "0 < k" and r: "r < 2 ^ (2 * k)"
  shows "add_fields k (field_mask k (Suc j)) (2 ^ (2 * k) * q + r) =
         2 ^ (2 * k) * add_fields k (field_mask k j) q + (r mod 2 ^ k + r div 2 ^ k)"
proof -
  have s: "mask k < (2::nat) ^ (2 * k)"
    using power_increasing [of k "2 * k" "2::nat"] zero_less_power [of "2::nat" k]
    unfolding mask_eq_exp_minus_1 by linarith
  have sq: "(2::nat) ^ (2 * k) = 2 ^ k * 2 ^ k" by (simp add: mult_2 power_add)
  have dv: "(2 ^ (2 * k) * q + r) div 2 ^ k = 2 ^ (2 * k) * (q div 2 ^ k) +
      (2 ^ k * (q mod 2 ^ k) + r div 2 ^ k)"
  proof -
    have "(2 ^ (2 * k) * q + r) div 2 ^ k = 2 ^ k * q + r div 2 ^ k"
      by (simp add: sq mult.assoc)
    also have "2 ^ k * q = 2 ^ k * (2 ^ k * (q div 2 ^ k) + q mod 2 ^ k)" by simp
    also have "\<dots> = 2 ^ (2 * k) * (q div 2 ^ k) + 2 ^ k * (q mod 2 ^ k)"
      by (simp only: sq distrib_left mult.assoc)
    finally show ?thesis by simp
  qed
  have rk: "r div 2 ^ k < 2 ^ k" using r by (simp add: sq less_mult_imp_div_less)
  have low: "2 ^ k * (q mod 2 ^ k) + r div 2 ^ k < 2 ^ (2 * k)"
  proof -
    have "q mod 2 ^ k + 1 \<le> (2::nat) ^ k" by (simp add: Suc_leI)
    then have "2 ^ k * (q mod 2 ^ k + 1) \<le> (2::nat) ^ k * 2 ^ k" by (rule mult_le_mono2)
    then have "2 ^ k * (q mod 2 ^ k) + 2 ^ k \<le> (2::nat) ^ (2 * k)"
      by (simp only: sq distrib_left mult_1_right)
    with rk show ?thesis by linarith
  qed
  have m: "x AND mask k = x mod 2 ^ k" for x :: nat
    by (simp only: take_bit_eq_mask flip: take_bit_eq_mod)
  show ?thesis
    unfolding add_fields_def field_mask.simps dv and_split [OF r s] and_split [OF low s] m
    using rk by (simp add: algebra_simps)
qed

lemma digit_sum_add_fields:
  assumes "0 < k"
  shows "digit_sum (2 * k) j (add_fields k (field_mask k j) n) = digit_sum k (2 * j) n"
proof (induction j arbitrary: n)
  case 0
  then show ?case by simp
next
  case (Suc j)
  define q r where "q = n div 2 ^ (2 * k)" and "r = n mod 2 ^ (2 * k)"
  have n: "n = 2 ^ (2 * k) * q + r" and r: "r < 2 ^ (2 * k)"
    by (simp_all add: q_def r_def)
  have sq: "(2::nat) ^ (2 * k) = 2 ^ k * 2 ^ k" by (simp add: mult_2 power_add)
  let ?t = "r mod 2 ^ k + r div 2 ^ k"
  have "r div 2 ^ k < 2 ^ k" using r by (simp add: sq less_mult_imp_div_less)
  moreover have "r mod 2 ^ k < 2 ^ k" by simp
  moreover have "2 * (2::nat) ^ k \<le> 2 ^ (2 * k)"
    using assms self_le_power [of "2::nat" k] by (simp add: sq)
  ultimately have t: "?t < 2 ^ (2 * k)" by linarith
  have "digit_sum (2 * k) (Suc j) (add_fields k (field_mask k (Suc j)) n) =
      ?t + digit_sum (2 * k) j (add_fields k (field_mask k j) q)"
    unfolding n add_fields_step [OF assms r] using t by simp
  also have "\<dots> = ?t + digit_sum k (2 * j) q" by (simp only: Suc.IH)
  also have "\<dots> = digit_sum k (2 * Suc j) n"
  proof -
    have "n mod 2 ^ k = r mod 2 ^ k" unfolding n by (simp add: sq mult.assoc)
    moreover have "n div 2 ^ k = 2 ^ k * q + r div 2 ^ k" unfolding n by (simp add: sq mult.assoc)
    ultimately show ?thesis using \<open>r div 2 ^ k < 2 ^ k\<close> by simp
  qed
  finally show ?case .
qed

lemma unat_add_fields:
  fixes w m :: u32
  assumes "unat m \<le> 0x7fffffff"
  shows "unat ((w AND m) + (drop_bit k w AND m)) = add_fields k (unat m) (unat w)"
proof -
  have "unat (x AND m) \<le> unat m" for x :: u32
    using word_and_le1 [of x m] by (simp add: word_le_nat_alt)
  then have "unat (w AND m) + unat (drop_bit k w AND m) \<le> unat m + unat m"
    by (intro add_le_mono)
  with assms have "unat (w AND m) + unat (drop_bit k w AND m) < 2 ^ LENGTH(32)" by simp
  then have "unat ((w AND m) + (drop_bit k w AND m)) = unat (w AND m) + unat (drop_bit k w AND m)"
    by (simp only: unat_add_lem)
  also have "\<dots> = add_fields k (unat m) (unat w)"
    by (simp only: add_fields_def unsigned_and_eq unat_drop_bit_eq flip: drop_bit_eq_div)
  finally show ?thesis .
qed

lemma digit_sum_1: "digit_sum 1 j n = (\<Sum>i<j. of_bool (bit n i))"
proof (induction j arbitrary: n)
  case 0
  then show ?case by simp
next
  case (Suc j)
  have "(\<Sum>i<Suc j. of_bool (bit n i)) = of_bool (odd n) + (\<Sum>i<j. of_bool (bit (n div 2) i) :: nat)"
    by (simp only: sum.lessThan_Suc_shift bit_0 bit_Suc)
  then show ?case
    by (simp only: digit_sum.simps power_one_right Suc.IH mod_2_eq_odd)
qed

lemma field_mask_add: "field_mask k (i + j) = 2 ^ (2 * k * i) * field_mask k j + field_mask k i"
  by (induction i) (simp_all add: algebra_simps power_add)

lemma field_mask_double:
  "field_mask k (numeral (Num.Bit0 j)) =
     2 ^ (2 * k * numeral j) * field_mask k (numeral j) + field_mask k (numeral j)"
  by (simp only: numeral_Bit0 field_mask_add)

lemma field_mask_values:
  "field_mask 1 16 = 0x55555555" "field_mask 2 8 = 0x33333333" "field_mask 4 4 = 0xf0f0f0f"
  "field_mask 8 2 = 0xff00ff" "field_mask 16 1 = 0xffff"
  by (simp_all add: field_mask_double mask_eq_exp_minus_1)

text \<open>
  C34: \<open>Buttons::count\<close> returns the number of bits that are set.
\<close>

theorem Buttons_count_eq: "unat (Buttons_count w) = card {i. bit w i}"
proof -
  define s where "s k m x = (x AND m) + (drop_bit k x AND m)" for k and m x :: u32
  define n where "n = s 16 0xffff (s 8 0xff00ff (s 4 0xf0f0f0f (s 2 0x33333333 (s 1 0x55555555 w))))"
  have c: "Buttons_count w = n" by (simp add: Buttons_count_def n_def s_def Let_def)
  have st: "digit_sum (2 * k) j (unat (s k m x)) = digit_sum k (2 * j) (unat x)"
    if "0 < k" and "unat m = field_mask k j" and "unat m \<le> 0x7fffffff" for k j m x
    using digit_sum_add_fields [OF that(1), of j "unat x"] that(2,3)
    by (simp add: s_def unat_add_fields)
  have "unat n = digit_sum 32 1 (unat n)"
    using unsigned_less [of n, where ?'a = nat] by simp
  also have "\<dots> = digit_sum 1 32 (unat w)"
    unfolding n_def
    using st [of 16 "0xffff" 1] st [of 8 "0xff00ff" 2] st [of 4 "0xf0f0f0f" 4]
      st [of 2 "0x33333333" 8] st [of 1 "0x55555555" 16]
    by (simp add: field_mask_values del: digit_sum.simps One_nat_def)
  also have "\<dots> = (\<Sum>i<32. of_bool (bit w i))"
    by (simp only: digit_sum_1 bit_unsigned_iff) simp
  also have "\<dots> = card {i. bit w i}"
    by (auto intro!: arg_cong [where f = card] dest: bit_imp_le_length)
  finally show ?thesis by (simp add: c)
qed

section \<open>Directions of scroll and cursor deltas\<close>

definition getScrollWheelFromDelta :: "int \<Rightarrow> int \<Rightarrow> ScrollWheel" where
  "getScrollWheelFromDelta fixedDelta1 fixedDelta2 =
     (if fixedDelta1 = 0 \<and> fixedDelta2 = 0 then ScrollWheel_NONE
      else
        let abs_vertical = (if fixedDelta1 > 0 then fixedDelta1 else - fixedDelta1);
            abs_horizontal = (if fixedDelta2 > 0 then fixedDelta2 else - fixedDelta2)
        in if abs_horizontal > abs_vertical
           then (if fixedDelta2 > 0 then ScrollWheel_LEFT else ScrollWheel_RIGHT)
           else (if fixedDelta1 > 0 then ScrollWheel_UP else ScrollWheel_DOWN))"

definition getPointingRelativeFromDelta :: "int \<Rightarrow> int \<Rightarrow> PointingRelative" where
  "getPointingRelativeFromDelta dx dy =
     (if dx = 0 \<and> dy = 0 then PointingRelative_NONE
      else
        let abs_dx = (if dx > 0 then dx else - dx);
            abs_dy = (if dy > 0 then dy else - dy)
        in if abs_dx > abs_dy \<and> abs_dy * 3 > abs_dx then PointingRelative_NONE
           else if \<not> abs_dx > abs_dy \<and> abs_dx * 3 > abs_dy then PointingRelative_NONE
           else if abs_dx > abs_dy
           then (if dx < 0 then PointingRelative_LEFT else PointingRelative_RIGHT)
           else (if dy < 0 then PointingRelative_UP else PointingRelative_DOWN))"

text \<open>
  A cursor move has a direction exactly when it is not null and one component is at least three
  times the other (diagonal moves are ignored), and reversing the move reverses the direction.
\<close>

definition opposite :: "PointingRelative \<Rightarrow> PointingRelative" where
  "opposite d =
     (if d = PointingRelative_UP then PointingRelative_DOWN
      else if d = PointingRelative_DOWN then PointingRelative_UP
      else if d = PointingRelative_LEFT then PointingRelative_RIGHT
      else if d = PointingRelative_RIGHT then PointingRelative_LEFT
      else d)"

lemma getPointingRelative_NONE_iff:
  "getPointingRelativeFromDelta dx dy = PointingRelative_NONE \<longleftrightarrow>
     dx = 0 \<and> dy = 0 \<or> \<bar>dx\<bar> < 3 * \<bar>dy\<bar> \<and> \<bar>dy\<bar> < 3 * \<bar>dx\<bar>"
  by (auto simp: getPointingRelativeFromDelta_def Let_def abs_if)

lemma getPointingRelative_minus:
  "getPointingRelativeFromDelta (- dx) (- dy) = opposite (getPointingRelativeFromDelta dx dy)"
  by (simp add: getPointingRelativeFromDelta_def opposite_def Let_def)

theorem getPointingRelative_spec:
  "(getPointingRelativeFromDelta dx dy = PointingRelative_NONE \<longleftrightarrow>
      dx = 0 \<and> dy = 0 \<or> \<bar>dx\<bar> < 3 * \<bar>dy\<bar> \<and> \<bar>dy\<bar> < 3 * \<bar>dx\<bar>) \<and>
   getPointingRelativeFromDelta (- dx) (- dy) = opposite (getPointingRelativeFromDelta dx dy)"
  by (simp only: getPointingRelative_NONE_iff getPointingRelative_minus)

section \<open>DeltaBuffer\<close>

record DeltaBuffer =
  d_buffer :: "int list"
  d_count :: nat
  d_sign :: int

definition BUFFER_LENGTH :: nat where
  "BUFFER_LENGTH = 5"

definition DeltaBuffer_clear :: "DeltaBuffer \<Rightarrow> DeltaBuffer" where
  "DeltaBuffer_clear d = \<lparr>d_buffer = replicate BUFFER_LENGTH 0, d_count = 0, d_sign = 0\<rparr>"

text \<open>The shift loop copies each cell from its right neighbour; the last cell is then overwritten.\<close>

function DeltaBuffer_shift :: "nat \<Rightarrow> int list \<Rightarrow> int list" where
  "DeltaBuffer_shift i buf =
     (if i < BUFFER_LENGTH - 1 then DeltaBuffer_shift (Suc i) (buf[i := buf ! (i + 1)]) else buf)"
  by pat_completeness auto
termination
  by (relation "measure (\<lambda>(i, buf). BUFFER_LENGTH - i)") auto

definition DeltaBuffer_push :: "DeltaBuffer \<Rightarrow> int \<Rightarrow> DeltaBuffer" where
  "DeltaBuffer_push d newval =
     (let d = (if newval > 0 \<and> d_sign d < 0 \<or> newval < 0 \<and> d_sign d > 0
               then DeltaBuffer_clear d else d);
          d = d\<lparr>d_buffer := DeltaBuffer_shift 0 (d_buffer d)\<rparr>;
          d = d\<lparr>d_buffer := (d_buffer d)[BUFFER_LENGTH - 1 := newval]\<rparr>;
          d = (if d_count d < BUFFER_LENGTH then d\<lparr>d_count := d_count d + 1\<rparr> else d);
          d = (if newval > 0 then d\<lparr>d_sign := 1\<rparr> else d)
      in if newval < 0 then d\<lparr>d_sign := - 1\<rparr> else d)"

definition DeltaBuffer_isFull :: "DeltaBuffer \<Rightarrow> bool" where
  "DeltaBuffer_isFull d = (d_count d \<ge> BUFFER_LENGTH)"

definition DeltaBuffer_sum :: "DeltaBuffer \<Rightarrow> int" where
  "DeltaBuffer_sum d = foldl (\<lambda>s i. s + d_buffer d ! i) 0 [0..<BUFFER_LENGTH]"

declare DeltaBuffer_shift.simps [simp del]

text \<open>
  The specification: the movement in the current direction, a list of deltas that is restarted
  whenever a delta of the opposite sign arrives.
\<close>

definition push_movement :: "int list \<Rightarrow> int \<Rightarrow> int list" where
  "push_movement h v =
     (if v > 0 \<and> (\<exists>x \<in> set h. x < 0) \<or> v < 0 \<and> (\<exists>x \<in> set h. x > 0) then [v] else h @ [v])"

definition movement_sign :: "int list \<Rightarrow> int" where
  "movement_sign h =
     (if \<exists>x \<in> set h. x > 0 then 1 else if \<exists>x \<in> set h. x < 0 then - 1 else 0)"

definition one_direction :: "int list \<Rightarrow> bool" where
  "one_direction h = ((\<forall>x \<in> set h. x \<ge> 0) \<or> (\<forall>x \<in> set h. x \<le> 0))"

text \<open>A buffer represents a movement: it holds its last five deltas, padded with zeros.\<close>

definition DeltaBuffer_abs :: "int list \<Rightarrow> DeltaBuffer" where
  "DeltaBuffer_abs h =
     \<lparr>d_buffer = drop (length h) (replicate BUFFER_LENGTH 0 @ h),
      d_count = min BUFFER_LENGTH (length h), d_sign = movement_sign h\<rparr>"

lemma shift_eq:
  assumes "length buf = 5"
  shows "(DeltaBuffer_shift 0 buf)[4 := v] = tl buf @ [v]"
proof -
  obtain a b c d e where "buf = [a, b, c, d, e]"
    using assms by (auto simp: numeral_eq_Suc length_Suc_conv)
  then show ?thesis by (simp add: DeltaBuffer_shift.simps BUFFER_LENGTH_def)
qed

lemma one_direction_push: "one_direction h \<Longrightarrow> one_direction (push_movement h v)"
  by (fastforce simp: one_direction_def push_movement_def)

lemma length_abs_buffer [simp]: "length (d_buffer (DeltaBuffer_abs h)) = 5"
  by (simp add: DeltaBuffer_abs_def BUFFER_LENGTH_def)

lemma DeltaBuffer_abs_Nil: "DeltaBuffer_clear d = DeltaBuffer_abs []"
  by (simp add: DeltaBuffer_clear_def DeltaBuffer_abs_def movement_sign_def)

lemma tl_drop_snoc:
  assumes "n < length l"
  shows "tl (drop n l) @ [v] = drop (Suc n) (l @ [v])"
proof -
  have "tl (drop n l) = drop (Suc n) l" by (simp add: drop_Suc tl_drop)
  with assms show ?thesis by simp
qed

text \<open>Pushing a delta onto a buffer is pushing it onto the movement the buffer represents.\<close>

theorem DeltaBuffer_push_refines:
  assumes "one_direction h"
  shows "DeltaBuffer_push (DeltaBuffer_abs h) v = DeltaBuffer_abs (push_movement h v)"
proof -
  let ?flip = "v > 0 \<and> d_sign (DeltaBuffer_abs h) < 0 \<or> v < 0 \<and> d_sign (DeltaBuffer_abs h) > 0"
  have flip: "?flip \<longleftrightarrow> v > 0 \<and> (\<exists>x \<in> set h. x < 0) \<or> v < 0 \<and> (\<exists>x \<in> set h. x > 0)"
    using assms by (auto simp: DeltaBuffer_abs_def movement_sign_def one_direction_def)
  define g where "g = (if ?flip then [] else h)"
  have g: "push_movement h v = g @ [v]" by (simp only: push_movement_def flip [symmetric] g_def) simp
  have d0: "(if ?flip then DeltaBuffer_clear (DeltaBuffer_abs h) else DeltaBuffer_abs h) =
      DeltaBuffer_abs g"
    by (simp add: g_def DeltaBuffer_abs_Nil)
  have sign: "movement_sign (g @ [v]) =
      (if v < 0 then - 1 else if v > 0 then 1 else d_sign (DeltaBuffer_abs g))"
    using flip assms by (auto simp: movement_sign_def g_def DeltaBuffer_abs_def one_direction_def)
  have count: "d_count (DeltaBuffer_abs g) = min 5 (length g)"
    by (simp add: DeltaBuffer_abs_def BUFFER_LENGTH_def)
  have pushed: "DeltaBuffer_push (DeltaBuffer_abs h) v =
      \<lparr>d_buffer = tl (d_buffer (DeltaBuffer_abs g)) @ [v],
       d_count = min 5 (length (g @ [v])), d_sign = movement_sign (g @ [v])\<rparr>"
    unfolding DeltaBuffer_push_def Let_def d0
    by (rule DeltaBuffer.equality) (simp_all add: BUFFER_LENGTH_def shift_eq sign count)
  show ?thesis
    unfolding pushed g using tl_drop_snoc [of "length g" "replicate 5 0 @ g" v]
    by (simp add: DeltaBuffer_abs_def BUFFER_LENGTH_def)
qed

lemma DeltaBuffer_run_refines:
  "one_direction h \<Longrightarrow>
     foldl DeltaBuffer_push (DeltaBuffer_abs h) vs = DeltaBuffer_abs (foldl push_movement h vs) \<and>
     one_direction (foldl push_movement h vs)"
  by (induction vs arbitrary: h) (simp_all add: DeltaBuffer_push_refines one_direction_push)

lemma DeltaBuffer_sum_list:
  assumes "length (d_buffer d) = 5"
  shows "DeltaBuffer_sum d = sum_list (d_buffer d)"
proof -
  obtain a b c e f where "d_buffer d = [a, b, c, e, f]"
    using assms by (auto simp: numeral_eq_Suc length_Suc_conv)
  then show ?thesis by (simp add: DeltaBuffer_sum_def BUFFER_LENGTH_def upt_conv_Cons)
qed

lemma sum_abs_buffer: "sum_list (d_buffer (DeltaBuffer_abs h)) = sum_list (drop (length h - 5) h)"
  by (simp add: DeltaBuffer_abs_def BUFFER_LENGTH_def sum_list_replicate)

text \<open>
  From a cleared buffer, after any sequence of pushes: \<open>sum\<close> is the sum of the last five deltas
  of the current movement, \<open>isFull\<close> says that the movement has five deltas, and all deltas of
  the movement have one direction.
\<close>

theorem DeltaBuffer_run:
  "let d = foldl DeltaBuffer_push (DeltaBuffer_clear d0) vs;
       h = foldl push_movement [] vs
   in DeltaBuffer_sum d = sum_list (drop (length h - 5) h) \<and>
      (DeltaBuffer_isFull d \<longleftrightarrow> 5 \<le> length h) \<and>
      one_direction h"
proof -
  define h where "h = foldl push_movement [] vs"
  have "one_direction []" by (simp add: one_direction_def)
  then have d: "foldl DeltaBuffer_push (DeltaBuffer_clear d0) vs = DeltaBuffer_abs h"
    and one: "one_direction h"
    using DeltaBuffer_run_refines [of "[]" vs] by (simp_all add: DeltaBuffer_abs_Nil h_def)
  have full: "DeltaBuffer_isFull (DeltaBuffer_abs h) \<longleftrightarrow> 5 \<le> length h"
    by (auto simp: DeltaBuffer_isFull_def DeltaBuffer_abs_def BUFFER_LENGTH_def)
  show ?thesis
    unfolding Let_def d h_def [symmetric]
    using one full by (simp add: DeltaBuffer_sum_list sum_abs_buffer)
qed

end
