(* ===== verification/ButtonState.thy ===== *)
theory ButtonState
  imports FlagState Pointing
begin

text \<open>
  \<^verbatim>\<open>ButtonStatus\<close>: press counts and locks of the 32 pointing buttons. An abstract specification
  (a count per button and the set of locked buttons) is refined by the array of items.
\<close>

section \<open>Model\<close>

record ButtonItem =
  bi_button :: PointingButton
  bi_count :: int
  bi_lock_count :: int

record ButtonState = FlagState +
  bs_item :: "ButtonItem list"
  bs_statusMessageButtons :: "Buttons list"

abbreviation (input) MAXNUM :: nat where "MAXNUM \<equiv> 32"

definition BItem_new :: ButtonItem where
  "BItem_new = \<lparr>bi_button = 0, bi_count = 0, bi_lock_count = 0\<rparr>"

definition BItem_initialize :: "PointingButton \<Rightarrow> ButtonItem \<Rightarrow> ButtonItem" where
  "BItem_initialize b it = \<lparr>bi_button = b, bi_count = 0, bi_lock_count = 0\<rparr>"

definition BItem_set :: "PointingButton \<Rightarrow> bool \<Rightarrow> ButtonItem \<Rightarrow> ButtonItem" where
  "BItem_set b isbuttondown it =
     (if bi_button it \<noteq> b then it
      else if isbuttondown then it\<lparr>bi_count := bi_count it + 1\<rparr> else it\<lparr>bi_count := bi_count it - 1\<rparr>)"

definition BItem_reset :: "ButtonItem \<Rightarrow> ButtonItem" where
  "BItem_reset it = it\<lparr>bi_count := 0\<rparr>"

definition BItem_makeButtons :: "ButtonItem \<Rightarrow> PointingButton" where
  "BItem_makeButtons it = (if bi_count it + bi_lock_count it > 0 then bi_button it else 0)"

definition BItem_increase :: "ButtonItem \<Rightarrow> ButtonItem" where
  "BItem_increase it = it\<lparr>bi_count := bi_count it + 1\<rparr>"
definition BItem_decrease :: "ButtonItem \<Rightarrow> ButtonItem" where
  "BItem_decrease it = it\<lparr>bi_count := bi_count it - 1\<rparr>"
definition BItem_lock_increase :: "ButtonItem \<Rightarrow> ButtonItem" where
  "BItem_lock_increase it = it\<lparr>bi_lock_count := 1\<rparr>"
definition BItem_lock_decrease :: "ButtonItem \<Rightarrow> ButtonItem" where
  "BItem_lock_decrease it = it\<lparr>bi_lock_count := 0\<rparr>"
definition BItem_lock_toggle :: "ButtonItem \<Rightarrow> ButtonItem" where
  "BItem_lock_toggle it = it\<lparr>bi_lock_count := c_not (bi_lock_count it)\<rparr>"

definition ButtonStatus_initialize :: "'a ButtonState_scheme \<Rightarrow> 'a ButtonState_scheme" where
  "ButtonStatus_initialize s =
     s\<lparr>bs_item := map (\<lambda>i. BItem_initialize (push_bit i 1) (bs_item s ! i)) [0..<MAXNUM]\<rparr>"

definition ButtonStatus_set :: "PointingButton \<Rightarrow> bool \<Rightarrow> 'a ButtonState_scheme \<Rightarrow> 'a ButtonState_scheme" where
  "ButtonStatus_set button isbuttondown s = s\<lparr>bs_item := map (BItem_set button isbuttondown) (bs_item s)\<rparr>"

definition ButtonStatus_reset :: "'a ButtonState_scheme \<Rightarrow> 'a ButtonState_scheme" where
  "ButtonStatus_reset s = s\<lparr>bs_item := map BItem_reset (bs_item s)\<rparr>"

definition ButtonStatus_makeButtons :: "ButtonItem list \<Rightarrow> Buttons" where
  "ButtonStatus_makeButtons items = foldl (\<lambda>flags it. Buttons_add flags (BItem_makeButtons it)) 0 items"

definition getLockedButtons :: "ButtonItem list \<Rightarrow> Buttons" where
  "getLockedButtons items =
     foldl (\<lambda>buttons it. if bi_lock_count it \<noteq> 0 then Buttons_add buttons (bi_button it) else buttons) 0 items"

definition FOREACH_TO_BUTTONS ::
  "(ButtonItem \<Rightarrow> ButtonItem) \<Rightarrow> Buttons \<Rightarrow> 'a ButtonState_scheme \<Rightarrow> 'a ButtonState_scheme"
where
  "FOREACH_TO_BUTTONS f buttons s =
     s\<lparr>bs_item := map_if (\<lambda>it. Buttons_isOn buttons (bi_button it)) f (bs_item s)\<rparr>"

definition button_names :: "(PointingButton \<times> string) list" where
  "button_names =
     [(PointingButton_RIGHT, ''Right ''), (PointingButton_MIDDLE, ''Middle ''),
      (PointingButton_LEFT, ''Left ''), (PointingButton_BUTTON4, ''Button4 ''),
      (PointingButton_BUTTON5, ''Button5 ''), (PointingButton_BUTTON6, ''Button6 ''),
      (PointingButton_BUTTON7, ''Button7 ''), (PointingButton_BUTTON8, ''Button8 ''),
      (PointingButton_BUTTON9, ''Button9 ''), (PointingButton_BUTTON10, ''Button10 ''),
      (PointingButton_BUTTON11, ''Button11 ''), (PointingButton_BUTTON12, ''Button12 ''),
      (PointingButton_BUTTON13, ''Button13 ''), (PointingButton_BUTTON14, ''Button14 ''),
      (PointingButton_BUTTON15, ''Button15 ''), (PointingButton_BUTTON16, ''Button16 '')]"

definition ButtonStatus_updateStatusMessage :: "'a ButtonState_scheme \<Rightarrow> 'a ButtonState_scheme" where
  "ButtonStatus_updateStatusMessage s =
     (let idx = STATUS_MESSAGE_POINTING_BUTTON_LOCK;
          b = getLockedButtons (bs_item s);
          s = (if b \<noteq> bs_statusMessageButtons s ! idx then
                 send_notification_statusmessage idx
                   (fold (\<lambda>(button, name) s.
                        if Buttons_isOn b button then append_statusmessage idx (ascii name) s else s)
                      button_names (clear_statusmessage idx s))
               else s)
      in s\<lparr>bs_statusMessageButtons := (bs_statusMessageButtons s)[idx := b]\<rparr>)"

definition ButtonStatus_increase :: "Buttons \<Rightarrow> 'a ButtonState_scheme \<Rightarrow> 'a ButtonState_scheme" where
  "ButtonStatus_increase buttons s = FOREACH_TO_BUTTONS BItem_increase buttons s"
definition ButtonStatus_decrease :: "Buttons \<Rightarrow> 'a ButtonState_scheme \<Rightarrow> 'a ButtonState_scheme" where
  "ButtonStatus_decrease buttons s = FOREACH_TO_BUTTONS BItem_decrease buttons s"
definition ButtonStatus_lock_increase :: "Buttons \<Rightarrow> 'a ButtonState_scheme \<Rightarrow> 'a ButtonState_scheme" where
  "ButtonStatus_lock_increase buttons s =
     ButtonStatus_updateStatusMessage (FOREACH_TO_BUTTONS BItem_lock_increase buttons s)"
definition ButtonStatus_lock_decrease :: "Buttons \<Rightarrow> 'a ButtonState_scheme \<Rightarrow> 'a ButtonState_scheme" where
  "ButtonStatus_lock_decrease buttons s =
     ButtonStatus_updateStatusMessage (FOREACH_TO_BUTTONS BItem_lock_decrease buttons s)"
definition ButtonStatus_lock_toggle :: "Buttons \<Rightarrow> 'a ButtonState_scheme \<Rightarrow> 'a ButtonState_scheme" where
  "ButtonStatus_lock_toggle buttons s =
     ButtonStatus_updateStatusMessage (FOREACH_TO_BUTTONS BItem_lock_toggle buttons s)"
definition ButtonStatus_lock_clear :: "'a ButtonState_scheme \<Rightarrow> 'a ButtonState_scheme" where
  "ButtonStatus_lock_clear s = ButtonStatus_lock_decrease (getLockedButtons (bs_item s)) s"

lemmas BItem_defs =
  BItem_new_def BItem_initialize_def BItem_set_def BItem_reset_def BItem_increase_def
  BItem_decrease_def BItem_lock_increase_def BItem_lock_decrease_def BItem_lock_toggle_def c_not_def

section \<open>Specification and refinement\<close>

record ButtonSpec =
  spec_count :: "nat \<Rightarrow> int"
  spec_locked :: "nat set"

text \<open>The calls that change the state.\<close>

datatype ButtonOp =
    B_set nat bool
  | B_reset
  | B_increase Buttons
  | B_decrease Buttons
  | B_lock_increase Buttons
  | B_lock_decrease Buttons
  | B_lock_toggle Buttons
  | B_lock_clear

fun button_exec :: "ButtonOp \<Rightarrow> 'a ButtonState_scheme \<Rightarrow> 'a ButtonState_scheme" where
  "button_exec (B_set i down) = ButtonStatus_set (push_bit i 1) down"
| "button_exec B_reset = ButtonStatus_reset"
| "button_exec (B_increase b) = ButtonStatus_increase b"
| "button_exec (B_decrease b) = ButtonStatus_decrease b"
| "button_exec (B_lock_increase b) = ButtonStatus_lock_increase b"
| "button_exec (B_lock_decrease b) = ButtonStatus_lock_decrease b"
| "button_exec (B_lock_toggle b) = ButtonStatus_lock_toggle b"
| "button_exec B_lock_clear = ButtonStatus_lock_clear"

definition on_bits :: "Buttons \<Rightarrow> nat set" where
  "on_bits b = {i. bit b i}"

fun button_spec :: "ButtonOp \<Rightarrow> ButtonSpec \<Rightarrow> ButtonSpec" where
  "button_spec (B_set i down) a =
     a\<lparr>spec_count := (spec_count a)(i := spec_count a i + (if down then 1 else - 1))\<rparr>"
| "button_spec B_reset a = a\<lparr>spec_count := \<lambda>_. 0\<rparr>"
| "button_spec (B_increase b) a = a\<lparr>spec_count := \<lambda>i. spec_count a i + of_bool (bit b i)\<rparr>"
| "button_spec (B_decrease b) a = a\<lparr>spec_count := \<lambda>i. spec_count a i - of_bool (bit b i)\<rparr>"
| "button_spec (B_lock_increase b) a = a\<lparr>spec_locked := spec_locked a \<union> on_bits b\<rparr>"
| "button_spec (B_lock_decrease b) a = a\<lparr>spec_locked := spec_locked a - on_bits b\<rparr>"
| "button_spec (B_lock_toggle b) a =
     a\<lparr>spec_locked := (spec_locked a - on_bits b) \<union> (on_bits b - spec_locked a)\<rparr>"
| "button_spec B_lock_clear a = a\<lparr>spec_locked := {}\<rparr>"

text \<open>\<open>op_ok\<close>: a button number exists.\<close>

fun op_ok :: "ButtonOp \<Rightarrow> bool" where
  "op_ok (B_set i down) = (i < MAXNUM)"
| "op_ok _ = True"

definition buttons_refine :: "ButtonSpec \<Rightarrow> 'a ButtonState_scheme \<Rightarrow> bool" where
  "buttons_refine a s =
     (bs_item s = map (\<lambda>i. \<lparr>bi_button = push_bit i 1, bi_count = spec_count a i,
                           bi_lock_count = of_bool (i \<in> spec_locked a)\<rparr>) [0..<MAXNUM] \<and>
      spec_locked a \<subseteq> {..<MAXNUM} \<and>
      length (bs_statusMessageButtons s) = STATUS_MESSAGE_END \<and>
      bs_statusMessageButtons s ! STATUS_MESSAGE_POINTING_BUTTON_LOCK = getLockedButtons (bs_item s))"

lemma bit_foldl_add:
  "bit (foldl (\<lambda>v it. if P it then Buttons_add v (f it) else v) v0 items) j \<longleftrightarrow>
     bit v0 j \<or> (\<exists>it \<in> set items. P it \<and> bit (f it) j)"
  by (induction items arbitrary: v0) (auto simp: bit_Buttons_add)

lemma bit_getLockedButtons:
  "bit (getLockedButtons items) j \<longleftrightarrow> (\<exists>it \<in> set items. bi_lock_count it \<noteq> 0 \<and> bit (bi_button it) j)"
  by (simp add: getLockedButtons_def bit_foldl_add)

lemma bit_makeButtons:
  "bit (ButtonStatus_makeButtons items) j \<longleftrightarrow>
     (\<exists>it \<in> set items. bi_count it + bi_lock_count it > 0 \<and> bit (bi_button it) j)"
  using bit_foldl_add [of "\<lambda>_. True" BItem_makeButtons 0 items j]
  by (auto simp: ButtonStatus_makeButtons_def BItem_makeButtons_def split: if_splits)

lemma locked_refine:
  assumes "buttons_refine a s"
  shows "bit (getLockedButtons (bs_item s)) j \<longleftrightarrow> j \<in> spec_locked a"
  using assms by (auto simp: buttons_refine_def bit_getLockedButtons bit_button)

lemma updateStatusMessage_buttons [simp]:
  "bs_item (ButtonStatus_updateStatusMessage s) = bs_item s"
  "bs_statusMessageButtons (ButtonStatus_updateStatusMessage s) =
     (bs_statusMessageButtons s)[STATUS_MESSAGE_POINTING_BUTTON_LOCK := getLockedButtons (bs_item s)]"
proof -
  have f: "bs_item (fold (\<lambda>(button, name) s. if Buttons_isOn b button
              then append_statusmessage i (ascii name) s else s) names t) = bs_item t \<and>
        bs_statusMessageButtons (fold (\<lambda>(button, name) s. if Buttons_isOn b button
              then append_statusmessage i (ascii name) s else s) names t) = bs_statusMessageButtons t"
    for b i names and t :: "'a ButtonState_scheme"
    by (induction names arbitrary: t) (auto simp: append_statusmessage_def)
  show "bs_item (ButtonStatus_updateStatusMessage s) = bs_item s"
    using f by (simp add: ButtonStatus_updateStatusMessage_def Let_def
        send_notification_statusmessage_def clear_statusmessage_def)
  show "bs_statusMessageButtons (ButtonStatus_updateStatusMessage s) =
     (bs_statusMessageButtons s)[STATUS_MESSAGE_POINTING_BUTTON_LOCK := getLockedButtons (bs_item s)]"
    using f by (simp add: ButtonStatus_updateStatusMessage_def Let_def
        send_notification_statusmessage_def clear_statusmessage_def)
qed

lemma refine_items_cong:
  assumes "i < MAXNUM"
  shows "Buttons_isOn b (push_bit i 1) = bit b i"
  using assms by (rule Buttons_isOn_button)

lemma push_bit_inj: "i < MAXNUM \<Longrightarrow> j < MAXNUM \<Longrightarrow> (push_bit i 1 :: u32) = push_bit j 1 \<longleftrightarrow> i = j"
  using bit_button [of i i] bit_button [of j i] by auto

definition spec_items :: "ButtonSpec \<Rightarrow> ButtonItem list" where
  "spec_items a = map (\<lambda>i. \<lparr>bi_button = push_bit i 1, bi_count = spec_count a i,
                           bi_lock_count = of_bool (i \<in> spec_locked a)\<rparr>) [0..<MAXNUM]"

lemma foreach_items:
  assumes "\<And>i. i < MAXNUM \<Longrightarrow>
    (if bit b i
     then f \<lparr>bi_button = push_bit i 1, bi_count = spec_count a i, bi_lock_count = of_bool (i \<in> spec_locked a)\<rparr>
     else \<lparr>bi_button = push_bit i 1, bi_count = spec_count a i, bi_lock_count = of_bool (i \<in> spec_locked a)\<rparr>) =
    \<lparr>bi_button = push_bit i 1, bi_count = spec_count a' i, bi_lock_count = of_bool (i \<in> spec_locked a')\<rparr>"
  shows "map_if (\<lambda>it. Buttons_isOn b (bi_button it)) f (spec_items a) = spec_items a'"
  unfolding spec_items_def map_if_def map_map
proof (rule map_cong [OF refl])
  fix i
  assume "i \<in> set [0..<MAXNUM]"
  then have "i < MAXNUM" by simp
  then show "((\<lambda>it. if Buttons_isOn b (bi_button it) then f it else it) \<circ>
      (\<lambda>i. \<lparr>bi_button = push_bit i 1, bi_count = spec_count a i, bi_lock_count = of_bool (i \<in> spec_locked a)\<rparr>)) i =
    \<lparr>bi_button = push_bit i 1, bi_count = spec_count a' i, bi_lock_count = of_bool (i \<in> spec_locked a')\<rparr>"
    by (simp only: o_apply ButtonItem.select_convs refine_items_cong assms)
qed

lemma getLockedButtons_cong:
  assumes "\<And>i. i < MAXNUM \<Longrightarrow> i \<in> spec_locked a \<longleftrightarrow> i \<in> spec_locked a'"
  shows "getLockedButtons (spec_items a) = getLockedButtons (spec_items a')"
  using assms by (intro bit_word_eqI) (auto simp: bit_getLockedButtons spec_items_def bit_button)

lemma buttons_refine_alt:
  "buttons_refine a s \<longleftrightarrow>
     bs_item s = spec_items a \<and> spec_locked a \<subseteq> {..<MAXNUM} \<and>
     length (bs_statusMessageButtons s) = STATUS_MESSAGE_END \<and>
     bs_statusMessageButtons s ! STATUS_MESSAGE_POINTING_BUTTON_LOCK = getLockedButtons (spec_items a)"
  by (auto simp: buttons_refine_def spec_items_def)

lemma foreach_refine:
  assumes "buttons_refine a s"
    and "map_if (\<lambda>it. Buttons_isOn b (bi_button it)) f (spec_items a) = spec_items a'"
    and "spec_locked a' = spec_locked a"
  shows "buttons_refine a' (FOREACH_TO_BUTTONS f b s)"
  using assms getLockedButtons_cong [of a' a] by (simp add: buttons_refine_alt FOREACH_TO_BUTTONS_def)

lemma foreach_lock_refine:
  assumes "buttons_refine a s"
    and "map_if (\<lambda>it. Buttons_isOn b (bi_button it)) f (spec_items a) = spec_items a'"
    and "spec_locked a' \<subseteq> {..<MAXNUM}"
  shows "buttons_refine a' (ButtonStatus_updateStatusMessage (FOREACH_TO_BUTTONS f b s))"
  using assms by (simp add: buttons_refine_alt FOREACH_TO_BUTTONS_def)

lemma on_bits_bound: "on_bits b \<subseteq> {..<MAXNUM}"
  using bit_imp_le_length [of b] by (auto simp: on_bits_def)

lemma button_step_refines:
  assumes r: "buttons_refine a s" and ok: "op_ok opr"
  shows "buttons_refine (button_spec opr a) (button_exec opr s)"
proof (cases opr)
  case (B_set i down)
  have "map (BItem_set (push_bit i 1) down) (spec_items a) = spec_items (button_spec opr a)"
    unfolding spec_items_def map_map
    by (rule map_cong [OF refl])
       (use ok in \<open>auto simp: B_set BItem_set_def push_bit_inj simp del: push_bit_of_1\<close>)
  with r getLockedButtons_cong [of "button_spec opr a" a] show ?thesis
    by (simp add: B_set buttons_refine_alt ButtonStatus_set_def)
next
  case B_reset
  have "map BItem_reset (spec_items a) = spec_items (button_spec opr a)"
    by (simp add: B_reset spec_items_def BItem_reset_def)
  with r getLockedButtons_cong [of "button_spec opr a" a] show ?thesis
    by (simp add: B_reset buttons_refine_alt ButtonStatus_reset_def)
next
  case (B_increase b)
  show ?thesis
    unfolding B_increase button_exec.simps ButtonStatus_increase_def
    by (rule foreach_refine [OF r]) (auto intro!: foreach_items simp: BItem_defs)
next
  case (B_decrease b)
  show ?thesis
    unfolding B_decrease button_exec.simps ButtonStatus_decrease_def
    by (rule foreach_refine [OF r]) (auto intro!: foreach_items simp: BItem_defs)
next
  case (B_lock_increase b)
  show ?thesis
    unfolding B_lock_increase button_exec.simps ButtonStatus_lock_increase_def
    by (rule foreach_lock_refine [OF r])
       (use r on_bits_bound [of b] in \<open>auto intro!: foreach_items simp: BItem_defs on_bits_def buttons_refine_def\<close>)
next
  case (B_lock_decrease b)
  show ?thesis
    unfolding B_lock_decrease button_exec.simps ButtonStatus_lock_decrease_def
    by (rule foreach_lock_refine [OF r])
       (use r on_bits_bound [of b] in \<open>auto intro!: foreach_items simp: BItem_defs on_bits_def buttons_refine_def\<close>)
next
  case (B_lock_toggle b)
  show ?thesis
    unfolding B_lock_toggle button_exec.simps ButtonStatus_lock_toggle_def
    by (rule foreach_lock_refine [OF r])
       (use r on_bits_bound [of b] in \<open>auto intro!: foreach_items simp: BItem_defs on_bits_def buttons_refine_def\<close>)
next
  case B_lock_clear
  show ?thesis
    unfolding B_lock_clear button_exec.simps ButtonStatus_lock_clear_def ButtonStatus_lock_decrease_def
    by (rule foreach_lock_refine [OF r])
       (auto intro!: foreach_items simp: BItem_defs locked_refine [OF r])
qed

lemma buttons_refine_initialize:
  assumes "bs_statusMessageButtons s = replicate STATUS_MESSAGE_END 0"
  shows "buttons_refine \<lparr>spec_count = \<lambda>_. 0, spec_locked = {}\<rparr> (ButtonStatus_initialize s)"
proof -
  have "getLockedButtons (spec_items \<lparr>spec_count = \<lambda>_. 0, spec_locked = {}\<rparr>) = 0"
    by (rule bit_word_eqI) (auto simp: bit_getLockedButtons spec_items_def)
  with assms show ?thesis
    by (simp add: buttons_refine_alt ButtonStatus_initialize_def spec_items_def BItem_initialize_def)
qed

lemma button_run_refines:
  assumes "buttons_refine a s" and "list_all op_ok ops"
  shows "buttons_refine (fold button_spec ops a) (fold button_exec ops s)"
  using assms by (induction ops arbitrary: a s) (auto intro: button_step_refines)

text \<open>
  C26: After any sequence of calls since \<open>initialize\<close>, the buttons reported as pressed are those
  whose press count, plus one if it is locked, is positive, and the locked buttons are those the
  lock calls left locked; counts and locks are those of the abstract specification.
\<close>

theorem ButtonStatus_refines:
  assumes "list_all op_ok ops" and "bs_statusMessageButtons s = replicate STATUS_MESSAGE_END 0"
  shows "let a = fold button_spec ops \<lparr>spec_count = \<lambda>_. 0, spec_locked = {}\<rparr>;
             t = fold button_exec ops (ButtonStatus_initialize s)
         in on_bits (ButtonStatus_makeButtons (bs_item t)) =
              {i. i < MAXNUM \<and> spec_count a i + of_bool (i \<in> spec_locked a) > 0} \<and>
            on_bits (getLockedButtons (bs_item t)) = spec_locked a"
proof -
  define a where "a = fold button_spec ops \<lparr>spec_count = \<lambda>_. 0, spec_locked = {}\<rparr>"
  define t where "t = fold button_exec ops (ButtonStatus_initialize s)"
  have r: "buttons_refine a t"
    unfolding a_def t_def by (intro button_run_refines buttons_refine_initialize assms)
  then have "on_bits (ButtonStatus_makeButtons (bs_item t)) =
      {i. i < MAXNUM \<and> spec_count a i + of_bool (i \<in> spec_locked a) > 0}"
    by (auto simp: on_bits_def bit_makeButtons buttons_refine_alt spec_items_def bit_button)
  moreover have "on_bits (getLockedButtons (bs_item t)) = spec_locked a"
    using locked_refine [OF r] by (simp add: on_bits_def)
  ultimately show ?thesis by (simp add: Let_def flip: a_def t_def)
qed

definition buttons_static :: ButtonState where
  "buttons_static = FlagState.extend flags_static
     \<lparr>bs_item = replicate MAXNUM BItem_new, bs_statusMessageButtons = replicate STATUS_MESSAGE_END 0\<rparr>"

theorem ButtonStatus_refines_witness:
  "on_bits (getLockedButtons (bs_item (fold button_exec [B_increase PointingButton_LEFT, B_lock_toggle PointingButton_RIGHT]
      (ButtonStatus_initialize buttons_static)))) = {0}"
proof -
  have st: "bs_statusMessageButtons buttons_static = replicate STATUS_MESSAGE_END 0"
    by (simp add: buttons_static_def FlagState.extend_def)
  have "bit (1 :: u32) i \<longleftrightarrow> i = 0" for i using bit_1_iff by blast
  then show ?thesis
    using ButtonStatus_refines [of "[B_increase PointingButton_LEFT, B_lock_toggle PointingButton_RIGHT]"
        buttons_static, OF _ st]
    by (simp add: Let_def on_bits_def)
qed

text \<open>
  A call that changes locks notifies user space exactly when the set of locked buttons has
  changed.
\<close>

theorem button_lock_notifies:
  assumes "buttons_refine a s"
  shows "cs_notifications (ButtonStatus_lock_toggle b s) =
    cs_notifications s @
    (if getLockedButtons (bs_item (ButtonStatus_lock_toggle b s)) \<noteq> getLockedButtons (bs_item s)
     then [(NOTIFICATION_STATUS_MESSAGE_UPDATED, STATUS_MESSAGE_POINTING_BUTTON_LOCK)] else [])"
proof -
  have f: "cs_notifications (fold (\<lambda>(button, name) s. if Buttons_isOn v button
              then append_statusmessage i (ascii name) s else s) names t) = cs_notifications t"
    for v i names and t :: "'a ButtonState_scheme"
    by (induction names arbitrary: t) (auto simp: append_statusmessage_def)
  have n: "cs_notifications (ButtonStatus_updateStatusMessage t) =
    cs_notifications t @
    (if getLockedButtons (bs_item t) \<noteq> bs_statusMessageButtons t ! STATUS_MESSAGE_POINTING_BUTTON_LOCK
     then [(NOTIFICATION_STATUS_MESSAGE_UPDATED, STATUS_MESSAGE_POINTING_BUTTON_LOCK)] else [])"
    for t :: "'a ButtonState_scheme"
    by (simp add: ButtonStatus_updateStatusMessage_def Let_def send_notification_statusmessage_def
        clear_statusmessage_def index_ok_def f)
  show ?thesis
    using assms by (simp add: ButtonStatus_lock_toggle_def n FOREACH_TO_BUTTONS_def buttons_refine_def)
qed

theorem button_lock_notifies_witness:
  "cs_notifications (ButtonStatus_lock_toggle PointingButton_LEFT (ButtonStatus_initialize buttons_static)) =
    cs_notifications (ButtonStatus_initialize buttons_static) @
    (if getLockedButtons (bs_item (ButtonStatus_lock_toggle PointingButton_LEFT (ButtonStatus_initialize buttons_static))) \<noteq>
        getLockedButtons (bs_item (ButtonStatus_initialize buttons_static))
     then [(NOTIFICATION_STATUS_MESSAGE_UPDATED, STATUS_MESSAGE_POINTING_BUTTON_LOCK)] else [])"
  by (rule button_lock_notifies, rule buttons_refine_initialize)
     (simp add: buttons_static_def FlagState.extend_def)

end
