(* ===== verification/Timer.thy ===== *)
theory Timer
  imports Prelude
begin

text \<open>
  \<^verbatim>\<open>TimerWrapper\<close>: the one-shot timers behind every queue. The event source of IOKit that does the
  waiting is not part of the extension: \<open>tw_accepts\<close> says which \<open>setTimeout\<close> calls it accepts, and
  \<open>tw_pending\<close> is the timeout it was last given and has not cancelled or fired, with its unit
  (\<open>True\<close> for milliseconds, \<open>False\<close> for nanoseconds).
\<close>

record TimerWrapper =
  tw_object :: bool
  tw_timer :: bool
  tw_active :: bool
  tw_pending :: "(u32 \<times> bool) option"
  tw_accepts :: "u32 \<Rightarrow> bool \<Rightarrow> bool"

datatype IOReturn = kIOReturnSuccess | kIOReturnError | kIOReturnNoResources | kIOReturnOther

text \<open>\<open>initialize\<close> on a work loop: \<open>made\<close> and \<open>added\<close> say whether the object and the event source were created.\<close>

definition TimerWrapper_terminate :: "TimerWrapper \<Rightarrow> TimerWrapper" where
  "TimerWrapper_terminate t =
     (if tw_timer t then t\<lparr>tw_pending := None\<rparr> else t)\<lparr>tw_timer := False, tw_object := False\<rparr>"

definition TimerWrapper_initialize :: "bool \<Rightarrow> bool \<Rightarrow> TimerWrapper \<Rightarrow> TimerWrapper" where
  "TimerWrapper_initialize made added t =
     (let t = (if tw_timer t then TimerWrapper_terminate t else t) in
      if \<not> made then t\<lparr>tw_object := False\<rparr>
      else t\<lparr>tw_object := True, tw_active := False, tw_timer := added, tw_pending := None\<rparr>)"

definition setTimeoutMS :: "u32 \<Rightarrow> bool \<Rightarrow> TimerWrapper \<Rightarrow> IOReturn \<times> TimerWrapper" where
  "setTimeoutMS ms overwrite t =
     (if \<not> tw_object t then (kIOReturnError, t)
      else if \<not> tw_timer t then (kIOReturnNoResources, t)
      else if \<not> overwrite \<and> tw_active t then (kIOReturnSuccess, t)
      else
        let milli = (ms \<noteq> 0);
            ms = (if ms = 0 then 1 else ms)
        in if tw_accepts t ms milli
           then (kIOReturnSuccess, t\<lparr>tw_active := True, tw_pending := Some (ms, milli)\<rparr>)
           else (kIOReturnOther, t\<lparr>tw_active := False\<rparr>))"

definition cancelTimeout :: "TimerWrapper \<Rightarrow> TimerWrapper" where
  "cancelTimeout t =
     (if \<not> tw_object t then t
      else (if tw_timer t then t\<lparr>tw_pending := None\<rparr> else t)\<lparr>tw_active := False\<rparr>)"

definition TimerWrapper_isActive :: "TimerWrapper \<Rightarrow> bool" where
  "TimerWrapper_isActive t = (tw_object t \<and> tw_active t)"

text \<open>
  \<open>callback_\<close>, called by the event source when the timeout has passed: \<open>True\<close> when the action of the
  owner is to be run.
\<close>

definition timer_callback :: "TimerWrapper \<Rightarrow> bool \<times> TimerWrapper" where
  "timer_callback t =
     (let t = t\<lparr>tw_pending := None\<rparr> in
      if tw_active t then (True, t\<lparr>tw_active := False\<rparr>) else (False, t))"

section \<open>A pending timeout never gets lost\<close>

definition timer_inv :: "TimerWrapper \<Rightarrow> bool" where
  "timer_inv t = (tw_object t \<and> tw_timer t \<and> (tw_active t \<longrightarrow> tw_pending t \<noteq> None))"

inductive timer_step :: "TimerWrapper \<Rightarrow> TimerWrapper \<Rightarrow> bool" where
  timer_set: "timer_step t (snd (setTimeoutMS ms overwrite t))"
| timer_cancel: "timer_step t (cancelTimeout t)"
| timer_fire: "tw_pending t \<noteq> None \<Longrightarrow> timer_step t (snd (timer_callback t))"

lemma timer_step_inv: "timer_step t u \<Longrightarrow> timer_inv t \<Longrightarrow> timer_inv u"
  by (induction rule: timer_step.induct)
     (auto simp: timer_inv_def setTimeoutMS_def cancelTimeout_def timer_callback_def Let_def)

lemma timer_steps_inv: "timer_step\<^sup>*\<^sup>* t u \<Longrightarrow> timer_inv t \<Longrightarrow> timer_inv u"
  by (induction rule: rtranclp_induct) (auto intro: timer_step_inv)

text \<open>
  An initialised timer that is active always has a timeout pending at the event source, so its
  action will run; and a request without \<open>overwrite\<close> on an active timer leaves the pending timeout
  as it is.
\<close>

theorem TimerWrapper_active:
  assumes "timer_step\<^sup>*\<^sup>* (TimerWrapper_initialize True True t0) t" and "TimerWrapper_isActive t"
  shows "tw_pending t \<noteq> None \<and> fst (timer_callback t) \<and> setTimeoutMS ms False t = (kIOReturnSuccess, t)"
proof -
  have "timer_inv (TimerWrapper_initialize True True t0)"
    by (simp add: timer_inv_def TimerWrapper_initialize_def)
  with assms(1) have "timer_inv t" by (rule timer_steps_inv)
  with assms(2) show ?thesis
    by (simp add: timer_inv_def TimerWrapper_isActive_def timer_callback_def setTimeoutMS_def Let_def)
qed

definition timer_static :: TimerWrapper where
  "timer_static = \<lparr>tw_object = False, tw_timer = False, tw_active = False, tw_pending = None,
     tw_accepts = \<lambda>_ _. True\<rparr>"

theorem TimerWrapper_active_witness:
  "let t = snd (setTimeoutMS 5 False (TimerWrapper_initialize True True timer_static)) in
   setTimeoutMS 0 False t = (kIOReturnSuccess, t)"
proof -
  let ?i = "TimerWrapper_initialize True True timer_static"
  have "timer_step\<^sup>*\<^sup>* ?i (snd (setTimeoutMS 5 False ?i))" by (intro r_into_rtranclp timer_set)
  moreover have "TimerWrapper_isActive (snd (setTimeoutMS 5 False ?i))"
    by (simp add: TimerWrapper_isActive_def setTimeoutMS_def TimerWrapper_initialize_def timer_static_def)
  ultimately show ?thesis
    using TimerWrapper_active [of timer_static "snd (setTimeoutMS 5 False ?i)" 0] by (simp add: Let_def)
qed

end
