(* ===== verification/OutputQueue.thy ===== *)
theory OutputQueue
  imports ButtonState Timer
begin

text \<open>
  \<^verbatim>\<open>EventOutputQueue\<close> and \<^verbatim>\<open>PressDownKeys\<close>: the queue of events to be sent, what is put on it, and the
  delays between its events. The intrusive lists are HOL lists (theory \<open>LinkedList\<close>).
\<close>

section \<open>State\<close>

datatype PhysicalEventType = PE_DOWN | PE_UP

type_synonym AutogenId = u64

abbreviation (input) AutogenId_maxValue :: AutogenId where "AutogenId_maxValue \<equiv> 0xffffffffffffffff"

record OutItem =
  oi_params :: Params
  oi_autogenId :: AutogenId
  oi_serialNumber :: u64
  oi_canceled :: bool

record OutState = ButtonState +
  oq_queue :: "OutItem list"
  oq_timer :: TimerWrapper
  oq_previousButtons :: Buttons
  oq_serialNumber :: u64
  fm_lastFlags :: Flags
  fm_isIgnorePhysicalUpEvent :: bool
  fr_lastButtons :: Buttons
  pd_list :: "(KeyCode \<times> KeyboardType) list"

section \<open>push\<close>

definition PUSH_TO_OUTPUTQUEUE :: "Params \<Rightarrow> AutogenId \<Rightarrow> 'a OutState_scheme \<Rightarrow> 'a OutState_scheme" where
  "PUSH_TO_OUTPUTQUEUE p autogenId s =
     (let s = setcurrent_lastsentevent p s;
          s = s\<lparr>oq_queue := oq_queue s @
                 [\<lparr>oi_params = p, oi_autogenId = autogenId, oi_serialNumber = oq_serialNumber s,
                   oi_canceled = False\<rparr>]\<rparr>
      in s\<lparr>oq_timer := snd (setTimeoutMS 0 False (oq_timer s))\<rparr>)"

text \<open>The five overloads of \<open>push\<close>.\<close>

definition OutputQueue_push :: "Params \<Rightarrow> AutogenId \<Rightarrow> 'a OutState_scheme \<Rightarrow> 'a OutState_scheme" where
  "OutputQueue_push p autogenId s =
     (let s = PUSH_TO_OUTPUTQUEUE p autogenId s in
      case p of
        P_Keyboard k \<Rightarrow> if kp_eventType k = EventType_DOWN then FlagStatus_sticky_clear s else s
      | P_Special k \<Rightarrow> if sp_ex_iskeydown k then FlagStatus_sticky_clear s else s
      | P_RelativePointer k \<Rightarrow> if pp_buttons k \<noteq> 0 then FlagStatus_sticky_clear s else s
      | P_ScrollWheel k \<Rightarrow> FlagStatus_sticky_clear s
      | _ \<Rightarrow> s)"

section \<open>FireModifiers\<close>

text \<open>The bodies of the loops for releasing and for pressing modifiers.\<close>

definition modifier_up ::
  "AutogenId \<Rightarrow> Flags \<Rightarrow> KeyboardType \<Rightarrow> nat \<Rightarrow> 'a OutState_scheme \<Rightarrow> 'a OutState_scheme"
where
  "modifier_up autogenId toFlags keyboardType i s =
     (let flag = FlagStatus_getFlag (fs_item s) i;
          key = ModifierFlag_getKeyCode (cs_pairs s) flag
      in if key = KeyCode_VK_NONE then s
         else if getRawBits flag = 0 then s
         else if \<not> Flags_isOn (fm_lastFlags s) flag then s
         else if Flags_isOn toFlags flag then s
         else
           let s = s\<lparr>fm_lastFlags := Flags_remove (cs_pairs s) (fm_lastFlags s) flag\<rparr>
           in OutputQueue_push
                (P_Keyboard (KeyboardParams_new (cs_pairs s) EventType_MODIFY (fm_lastFlags s) key
                   keyboardType False)) autogenId s)"

definition modifier_down ::
  "AutogenId \<Rightarrow> Flags \<Rightarrow> KeyboardType \<Rightarrow> nat \<Rightarrow> 'a OutState_scheme \<Rightarrow> 'a OutState_scheme"
where
  "modifier_down autogenId toFlags keyboardType i s =
     (let flag = FlagStatus_getFlag (fs_item s) i;
          key = ModifierFlag_getKeyCode (cs_pairs s) flag
      in if key = KeyCode_VK_NONE then s
         else if getRawBits flag = 0 then s
         else if \<not> Flags_isOn toFlags flag then s
         else if Flags_isOn (fm_lastFlags s) flag then s
         else
           let s = s\<lparr>fm_lastFlags := Flags_addFlag (fm_lastFlags s) flag\<rparr>
           in OutputQueue_push
                (P_Keyboard (KeyboardParams_new (cs_pairs s) EventType_MODIFY (fm_lastFlags s) key
                   keyboardType False)) autogenId s)"

definition FireModifiers_send ::
  "AutogenId \<Rightarrow> Flags \<Rightarrow> KeyboardType \<Rightarrow> 'a OutState_scheme \<Rightarrow> 'a OutState_scheme"
where
  "FireModifiers_send autogenId toFlags keyboardType s =
     (let s = (if \<not> Flags_isOn toFlags ModifierFlag_NUMPAD
               then s\<lparr>fm_lastFlags := Flags_remove (cs_pairs s) (fm_lastFlags s) ModifierFlag_NUMPAD\<rparr>
               else s);
          s = fold (modifier_up autogenId toFlags keyboardType) [0..<length (fs_item s)] s;
          s = fold (modifier_down autogenId toFlags keyboardType) [0..<length (fs_item s)] s
      in if Flags_isOn toFlags ModifierFlag_NUMPAD
         then s\<lparr>fm_lastFlags := Flags_addFlag (fm_lastFlags s) ModifierFlag_NUMPAD\<rparr>
         else s)"

definition FireModifiers_fire ::
  "AutogenId \<Rightarrow> PhysicalEventType \<Rightarrow> Flags \<Rightarrow> KeyboardType \<Rightarrow> 'a OutState_scheme \<Rightarrow> 'a OutState_scheme"
where
  "FireModifiers_fire autogenId physicalEventType toFlags keyboardType s =
     (if fm_lastFlags s = toFlags then s
      else if physicalEventType = PE_DOWN
      then FireModifiers_send autogenId toFlags keyboardType (s\<lparr>fm_isIgnorePhysicalUpEvent := False\<rparr>)
      else if fm_isIgnorePhysicalUpEvent s then s
      else FireModifiers_send autogenId toFlags keyboardType s)"

text \<open>The call with the default arguments.\<close>

definition FireModifiers_fire_current ::
  "AutogenId \<Rightarrow> PhysicalEventType \<Rightarrow> 'a OutState_scheme \<Rightarrow> 'a OutState_scheme"
where
  "FireModifiers_fire_current autogenId physicalEventType s =
     FireModifiers_fire autogenId physicalEventType (FlagStatus_makeFlags (fs_item s)) (cs_keyboardType s) s"

definition setIgnorePhysicalUpEvent :: "bool \<Rightarrow> 'a OutState_scheme \<Rightarrow> 'a OutState_scheme" where
  "setIgnorePhysicalUpEvent newval s = s\<lparr>fm_isIgnorePhysicalUpEvent := newval\<rparr>"

section \<open>The other Fire classes\<close>

definition FireConsumer_fire ::
  "SpecialParams \<Rightarrow> AutogenId \<Rightarrow> PhysicalEventType \<Rightarrow> 'a OutState_scheme \<Rightarrow> 'a OutState_scheme"
where
  "FireConsumer_fire params autogenId physicalEventType s =
     (if sp_key params = ConsumerKeyCode_VK_NONE \<or> sp_key params = ConsumerKeyCode_VK_PSEUDO_KEY then s
      else
        let s = (if sp_ex_iskeydown params then setIgnorePhysicalUpEvent False s else s);
            s = FireModifiers_fire_current autogenId physicalEventType s
        in OutputQueue_push (P_Special params) autogenId s)"

definition FireRelativePointer_fire ::
  "AutogenId \<Rightarrow> PhysicalEventType \<Rightarrow> Buttons \<Rightarrow> int \<Rightarrow> int \<Rightarrow> 'a OutState_scheme \<Rightarrow> 'a OutState_scheme"
where
  "FireRelativePointer_fire autogenId physicalEventType toButtons dx dy s =
     (let releasedButtons = Buttons_remove (fr_lastButtons s) toButtons;
          isButtonReleased = (\<not> Buttons_isNONE releasedButtons);
          s = setIgnorePhysicalUpEvent False s;
          s = (if \<not> isButtonReleased then FireModifiers_fire_current autogenId physicalEventType s else s);
          s = (if fr_lastButtons s \<noteq> toButtons
               then OutputQueue_push (P_RelativePointer (PointerParams_new toButtons 0 0 PointingButton_NONE False))
                      autogenId (s\<lparr>fr_lastButtons := toButtons\<rparr>)
               else s);
          s = (if dx \<noteq> 0 \<or> dy \<noteq> 0
               then OutputQueue_push (P_RelativePointer (PointerParams_new toButtons dx dy PointingButton_NONE False))
                      autogenId s
               else s)
      in if isButtonReleased then FireModifiers_fire_current autogenId physicalEventType s else s)"

definition FireScrollWheel_fire ::
  "ScrollParams \<Rightarrow> AutogenId \<Rightarrow> PhysicalEventType \<Rightarrow> 'a OutState_scheme \<Rightarrow> 'a OutState_scheme"
where
  "FireScrollWheel_fire params autogenId physicalEventType s =
     (let s = setIgnorePhysicalUpEvent False s;
          s = FireModifiers_fire_current autogenId physicalEventType s
      in OutputQueue_push (P_ScrollWheel params) autogenId s)"

text \<open>
  Scrolling by a movement: 32-bit products whose overflow C++ leaves undefined are integers here,
  division rounds towards zero, and the axis deltas are converted to 16 bits.
\<close>

definition to_short :: "int \<Rightarrow> int" where
  "to_short x = sint (word_of_int x :: 16 word)"

definition scroll_params :: "int \<Rightarrow> int \<Rightarrow> int \<Rightarrow> ScrollParams" where
  "scroll_params rate delta1 delta2 =
     \<lparr>sw_deltaAxis1 = to_short (((delta1 * rate) sdiv 1024) sdiv 128),
      sw_deltaAxis2 = to_short (((delta2 * rate) sdiv 1024) sdiv 128),
      sw_deltaAxis3 = 0,
      sw_fixedDelta1 = ((delta1 * rate) * (65536 sdiv 1024)) sdiv 128,
      sw_fixedDelta2 = ((delta2 * rate) * (65536 sdiv 1024)) sdiv 128,
      sw_fixedDelta3 = 0,
      sw_pointDelta1 = ((delta1 * 10 * rate) sdiv 1024) sdiv 128,
      sw_pointDelta2 = ((delta2 * 10 * rate) sdiv 1024) sdiv 128,
      sw_pointDelta3 = 0,
      sw_options = 1\<rparr>"

definition FireScrollWheel_fire_delta ::
  "int \<Rightarrow> int \<Rightarrow> AutogenId \<Rightarrow> PhysicalEventType \<Rightarrow> 'a OutState_scheme \<Rightarrow> 'a OutState_scheme"
where
  "FireScrollWheel_fire_delta delta1 delta2 autogenId physicalEventType s =
     FireScrollWheel_fire (scroll_params (cs_config s pointing_relative2scroll_rate) delta1 delta2)
       autogenId physicalEventType s"

definition FireWait_fire :: "int \<Rightarrow> AutogenId \<Rightarrow> 'a OutState_scheme \<Rightarrow> 'a OutState_scheme" where
  "FireWait_fire ms autogenId s = OutputQueue_push (P_Wait ms) autogenId s"

section \<open>PressDownKeys\<close>

definition PressDownKeys_add :: "KeyCode \<Rightarrow> KeyboardType \<Rightarrow> 'a OutState_scheme \<Rightarrow> 'a OutState_scheme" where
  "PressDownKeys_add key keyboardType s =
     (if key = KeyCode_VK_NONE then s else s\<lparr>pd_list := pd_list s @ [(key, keyboardType)]\<rparr>)"

definition PressDownKeys_remove :: "KeyCode \<Rightarrow> KeyboardType \<Rightarrow> 'a OutState_scheme \<Rightarrow> 'a OutState_scheme" where
  "PressDownKeys_remove key keyboardType s =
     s\<lparr>pd_list := filter (\<lambda>p. \<not> (fst p = key \<and> snd p = keyboardType)) (pd_list s)\<rparr>"

text \<open>The loop pushes a release for the first item and erases it.\<close>

fun PressDownKeys_clear_loop ::
  "(KeyCode \<times> KeyboardType) list \<Rightarrow> 'a OutState_scheme \<Rightarrow> 'a OutState_scheme"
where
  "PressDownKeys_clear_loop [] s = s\<lparr>pd_list := []\<rparr>"
| "PressDownKeys_clear_loop ((key, keyboardType) # l) s =
     PressDownKeys_clear_loop l
       ((OutputQueue_push (P_Keyboard (KeyboardParams_new (cs_pairs s) EventType_UP 0 key keyboardType False))
           AutogenId_maxValue s)\<lparr>pd_list := l\<rparr>)"

definition PressDownKeys_clear :: "'a OutState_scheme \<Rightarrow> 'a OutState_scheme" where
  "PressDownKeys_clear s = PressDownKeys_clear_loop (pd_list s) s"

section \<open>Sending the queue\<close>

definition get_wait_before_and_after_a_modifier_key_event :: "'a OutState_scheme \<Rightarrow> u32" where
  "get_wait_before_and_after_a_modifier_key_event s =
     Config_getvalue (cs_config s parameter_wait_before_and_after_a_modifier_key_event) 0 1000"

definition get_wait_before_and_after_a_click_event :: "'a OutState_scheme \<Rightarrow> u32" where
  "get_wait_before_and_after_a_click_event s =
     Config_getvalue (cs_config s parameter_wait_before_and_after_a_click_event) 0 1000"

definition calcDelay :: "Params \<Rightarrow> 'a OutState_scheme \<Rightarrow> u32 \<times> 'a OutState_scheme" where
  "calcDelay p s =
     (if Params_isModifier (cs_pairs s) p then (get_wait_before_and_after_a_modifier_key_event s, s)
      else
        case p of
          P_RelativePointer k \<Rightarrow>
            if pp_buttons k \<noteq> oq_previousButtons s
            then (get_wait_before_and_after_a_click_event s, s\<lparr>oq_previousButtons := pp_buttons k\<rparr>)
            else (0, s)
        | _ \<Rightarrow> (0, s))"

definition maxDelay :: "u32 \<Rightarrow> u32 \<Rightarrow> u32" where
  "maxDelay v1 v2 = (if v1 > v2 then v1 else v2)"

text \<open>
  \<open>fire_timer_callback\<close>. Cancelling the items of the remap classes and giving an event to the virtual
  keys and the device lists are done by other components: \<open>cancelItems\<close> and \<open>deliver\<close>.
\<close>

definition delete_canceled :: "'a OutState_scheme \<Rightarrow> 'a OutState_scheme" where
  "delete_canceled s = s\<lparr>oq_queue := filter (\<lambda>i. \<not> oi_canceled i) (oq_queue s)\<rparr>"

definition delay_of_params :: "u32 \<Rightarrow> Params \<Rightarrow> u32" where
  "delay_of_params delay p =
     (case p of
        P_Keyboard _ \<Rightarrow> maxDelay delay 1
      | P_UpdateEventFlags _ \<Rightarrow> maxDelay delay 1
      | P_Special _ \<Rightarrow> maxDelay delay 1
      | P_Wait ms \<Rightarrow> maxDelay delay (word_of_int ms)
      | _ \<Rightarrow> delay)"

definition OutputQueue_fire_timer_callback ::
  "('a OutState_scheme \<Rightarrow> 'a OutState_scheme) \<Rightarrow> (Params \<Rightarrow> 'a OutState_scheme \<Rightarrow> 'a OutState_scheme) \<Rightarrow>
   'a OutState_scheme \<Rightarrow> 'a OutState_scheme"
where
  "OutputQueue_fire_timer_callback cancelItems deliver s =
     (let s = delete_canceled (cancelItems s) in
      case oq_queue s of
        [] \<Rightarrow> s
      | item # _ \<Rightarrow>
          let (delay, s) = calcDelay (oi_params item) s;
              s = deliver (oi_params item) s;
              delay = delay_of_params delay (oi_params item);
              s = s\<lparr>oq_queue := tl (oq_queue s)\<rparr>
          in (case oq_queue s of
                [] \<Rightarrow> s
              | nxt # _ \<Rightarrow>
                  let (delay2, s) = calcDelay (oi_params nxt) s
                  in s\<lparr>oq_timer := snd (setTimeoutMS (maxDelay delay delay2) True (oq_timer s))\<rparr>))"

section \<open>What FireModifiers sends\<close>

definition registered :: "'a OutState_scheme \<Rightarrow> ModifierFlag list" where
  "registered s = map fi_flag (fs_item s)"

text \<open>
  The flags of the last event are those of a set of registered modifiers and NUMPAD, and every
  registered modifier has a key code.
\<close>

definition modifiers_ok :: "'a OutState_scheme \<Rightarrow> bool" where
  "modifiers_ok s =
     (registered s = map pr_modifierFlag (cs_pairs s) \<and> pairs_wf (cs_pairs s) \<and>
      ModifierFlag_NUMPAD \<notin> set (registered s) \<and>
      (\<forall>f \<in> set (registered s). ModifierFlag_getKeyCode (cs_pairs s) f \<noteq> KeyCode_VK_NONE) \<and>
      (\<exists>v. fm_lastFlags s = Flags_vector v \<and> set v \<subseteq> insert ModifierFlag_NUMPAD (set (registered s))))"

text \<open>The modifier event of a queue item: its key, and whether it presses it.\<close>

definition modifier_event :: "OutItem \<Rightarrow> (KeyCode \<times> bool) option" where
  "modifier_event item =
     (case oi_params item of
        P_Keyboard k \<Rightarrow> if kp_eventType k = EventType_MODIFY then Some (kp_key k, kp_ex_iskeydown k) else None
      | _ \<Rightarrow> None)"

definition up_flag ::
  "AutogenId \<Rightarrow> Flags \<Rightarrow> KeyboardType \<Rightarrow> ModifierFlag \<Rightarrow> 'a OutState_scheme \<Rightarrow> 'a OutState_scheme"
where
  "up_flag autogenId toFlags keyboardType flag s =
     (if ModifierFlag_getKeyCode (cs_pairs s) flag = KeyCode_VK_NONE \<or> getRawBits flag = 0 \<or>
         \<not> Flags_isOn (fm_lastFlags s) flag \<or> Flags_isOn toFlags flag then s
      else let s = s\<lparr>fm_lastFlags := Flags_remove (cs_pairs s) (fm_lastFlags s) flag\<rparr>
           in OutputQueue_push
                (P_Keyboard (KeyboardParams_new (cs_pairs s) EventType_MODIFY (fm_lastFlags s)
                   (ModifierFlag_getKeyCode (cs_pairs s) flag) keyboardType False)) autogenId s)"

definition down_flag ::
  "AutogenId \<Rightarrow> Flags \<Rightarrow> KeyboardType \<Rightarrow> ModifierFlag \<Rightarrow> 'a OutState_scheme \<Rightarrow> 'a OutState_scheme"
where
  "down_flag autogenId toFlags keyboardType flag s =
     (if ModifierFlag_getKeyCode (cs_pairs s) flag = KeyCode_VK_NONE \<or> getRawBits flag = 0 \<or>
         \<not> Flags_isOn toFlags flag \<or> Flags_isOn (fm_lastFlags s) flag then s
      else let s = s\<lparr>fm_lastFlags := Flags_addFlag (fm_lastFlags s) flag\<rparr>
           in OutputQueue_push
                (P_Keyboard (KeyboardParams_new (cs_pairs s) EventType_MODIFY (fm_lastFlags s)
                   (ModifierFlag_getKeyCode (cs_pairs s) flag) keyboardType False)) autogenId s)"

lemma modifier_up_flag: "modifier_up a to kt i s = up_flag a to kt (FlagStatus_getFlag (fs_item s) i) s"
  by (simp add: modifier_up_def up_flag_def Let_def)

lemma modifier_down_flag: "modifier_down a to kt i s = down_flag a to kt (FlagStatus_getFlag (fs_item s) i) s"
  by (simp add: modifier_down_def down_flag_def Let_def)

lemma push_modify [simp]:
  fixes s :: "'a OutState_scheme"
  assumes "kp_eventType k = EventType_MODIFY"
  shows "fs_item (OutputQueue_push (P_Keyboard k) a s) = fs_item s"
    and "cs_pairs (OutputQueue_push (P_Keyboard k) a s) = cs_pairs s"
    and "fm_lastFlags (OutputQueue_push (P_Keyboard k) a s) = fm_lastFlags s"
    and "oq_queue (OutputQueue_push (P_Keyboard k) a s) = oq_queue s @
      [\<lparr>oi_params = P_Keyboard k, oi_autogenId = a, oi_serialNumber = oq_serialNumber s, oi_canceled = False\<rparr>]"
  using assms
  by (simp_all add: OutputQueue_push_def PUSH_TO_OUTPUTQUEUE_def setcurrent_lastsentevent_def Let_def)

lemma KeyboardParams_new_simps [simp]:
  "kp_eventType (KeyboardParams_new pairs et fl kc kt r) = et"
  "kp_key (KeyboardParams_new pairs et fl kc kt r) = kc"
  "kp_ex_iskeydown (KeyboardParams_new pairs et fl kc kt r) = isKeyDownOrModifierDown pairs et kc fl"
  by (simp_all add: KeyboardParams_new_def KeyboardParams_full_def)

lemma up_down_flag_frame [simp]:
  "fs_item (up_flag a to kt f s) = fs_item s" "cs_pairs (up_flag a to kt f s) = cs_pairs s"
  "fs_item (down_flag a to kt f s) = fs_item s" "cs_pairs (down_flag a to kt f s) = cs_pairs s"
  by (simp_all add: up_flag_def down_flag_def Let_def)

lemma fold_getFlag:
  assumes g: "\<And>f s. fs_item (g f s) = fs_item s"
  shows "fold (\<lambda>i s. g (FlagStatus_getFlag (fs_item s) i) s) [0..<length (fs_item s)] s =
         fold g (map fi_flag (fs_item s)) s"
proof -
  have items: "fs_item (fold g fs s) = fs_item s" for fs by (induction fs arbitrary: s) (simp_all add: g)
  have "fold (\<lambda>i s. g (FlagStatus_getFlag (fs_item s) i) s) [0..<n] s =
        fold g (map fi_flag (take n (fs_item s))) s" if "n \<le> length (fs_item s)" for n
    using that
    by (induction n) (simp_all add: take_Suc_conv_app_nth items FlagStatus_getFlag_def)
  from this [of "length (fs_item s)"] show ?thesis by simp
qed

definition pressing :: "Pair list \<Rightarrow> bool \<Rightarrow> ModifierFlag \<Rightarrow> (KeyCode \<times> bool) option" where
  "pressing pairs b f = Some (ModifierFlag_getKeyCode pairs f, b)"

lemma ups_spec:
  assumes "fm_lastFlags s = Flags_vector v" and "pairs_wf (cs_pairs s)"
    and "set v \<subseteq> insert ModifierFlag_NUMPAD (set (map pr_modifierFlag (cs_pairs s)))"
    and "set fs \<subseteq> set (map pr_modifierFlag (cs_pairs s))" and "distinct fs"
    and "\<forall>f \<in> set fs. ModifierFlag_getKeyCode (cs_pairs s) f \<noteq> KeyCode_VK_NONE"
  shows "\<exists>evs. oq_queue (fold (up_flag a to kt) fs s) = oq_queue s @ evs \<and>
    map modifier_event evs =
      map (pressing (cs_pairs s) False)
        (filter (\<lambda>f. f \<in> set real_modifiers \<and> f \<in> set v \<and> \<not> Flags_isOn to f) fs) \<and>
    fm_lastFlags (fold (up_flag a to kt) fs s) =
      Flags_vector (filter (\<lambda>f. \<not> (f \<in> set fs \<and> f \<in> set real_modifiers \<and> \<not> Flags_isOn to f)) v)"
  using assms
proof (induction fs arbitrary: s v)
  case Nil
  then show ?case by simp
next
  case (Cons f fs)
  let ?send = "f \<in> set real_modifiers \<and> f \<in> set v \<and> \<not> Flags_isOn to f"
  have on: "Flags_isOn (fm_lastFlags s) f = (f \<in> set v)" if "f \<in> set real_modifiers"
    using that Cons.prems(1) by (simp add: Flags_isOn_vector_iff)
  show ?case
  proof (cases ?send)
    case False
    have "up_flag a to kt f s = s"
      using False on real_modifier_iff [of f] by (auto simp: up_flag_def)
    moreover have "filter (\<lambda>g. \<not> (g \<in> set (f # fs) \<and> g \<in> set real_modifiers \<and> \<not> Flags_isOn to g)) v =
        filter (\<lambda>g. \<not> (g \<in> set fs \<and> g \<in> set real_modifiers \<and> \<not> Flags_isOn to g)) v"
      using False by (intro filter_cong) auto
    ultimately show ?thesis using Cons.IH [OF Cons.prems(1-3)] Cons.prems(4-6) False by auto
  next
    case True
    let ?v = "filter (\<lambda>g. g \<noteq> f) v"
    let ?t = "up_flag a to kt f s"
    let ?k = "KeyboardParams_new (cs_pairs s) EventType_MODIFY (Flags_vector ?v)
        (ModifierFlag_getKeyCode (cs_pairs s) f) kt False"
    have rem: "Flags_remove (cs_pairs s) (Flags_vector v) f = Flags_vector ?v"
      by (rule Flags_remove_vector [OF Cons.prems(3)])
    have t: "?t = OutputQueue_push (P_Keyboard ?k) a (s\<lparr>fm_lastFlags := Flags_vector ?v\<rparr>)"
      using True on Cons.prems(1,6) real_modifier_iff [of f] by (simp add: up_flag_def rem Let_def)
    have key: "KeyCode_getModifierFlag (cs_pairs s) (ModifierFlag_getKeyCode (cs_pairs s) f) = f"
      using getModifierFlag_getKeyCode [OF Cons.prems(2)] Cons.prems(4) by simp
    have ev: "modifier_event \<lparr>oi_params = P_Keyboard ?k, oi_autogenId = a,
        oi_serialNumber = oq_serialNumber (s\<lparr>fm_lastFlags := Flags_vector ?v\<rparr>), oi_canceled = False\<rparr> =
        pressing (cs_pairs s) False f"
      using True by (simp add: modifier_event_def pressing_def isKeyDownOrModifierDown_def key Flags_isOn_vector_iff)
    have "fm_lastFlags ?t = Flags_vector ?v" by (simp add: t)
    moreover have "set ?v \<subseteq> insert ModifierFlag_NUMPAD (set (map pr_modifierFlag (cs_pairs s)))"
      using Cons.prems(3) by auto
    ultimately obtain evs where evs:
      "oq_queue (fold (up_flag a to kt) fs ?t) = oq_queue ?t @ evs"
      "map modifier_event evs = map (pressing (cs_pairs s) False)
        (filter (\<lambda>g. g \<in> set real_modifiers \<and> g \<in> set ?v \<and> \<not> Flags_isOn to g) fs)"
      "fm_lastFlags (fold (up_flag a to kt) fs ?t) =
        Flags_vector (filter (\<lambda>g. \<not> (g \<in> set fs \<and> g \<in> set real_modifiers \<and> \<not> Flags_isOn to g)) ?v)"
      using Cons.IH [of ?t ?v] Cons.prems by auto
    have "filter (\<lambda>g. g \<in> set real_modifiers \<and> g \<in> set ?v \<and> \<not> Flags_isOn to g) fs =
        filter (\<lambda>g. g \<in> set real_modifiers \<and> g \<in> set v \<and> \<not> Flags_isOn to g) fs"
      using Cons.prems(5) by (intro filter_cong) auto
    moreover have "filter (\<lambda>g. \<not> (g \<in> set fs \<and> g \<in> set real_modifiers \<and> \<not> Flags_isOn to g)) ?v =
        filter (\<lambda>g. \<not> (g \<in> set (f # fs) \<and> g \<in> set real_modifiers \<and> \<not> Flags_isOn to g)) v"
      using True by (auto simp: intro!: filter_cong)
    ultimately show ?thesis
      using evs True ev by (intro exI [of _ "_ # evs"]) (auto simp: t)
  qed
qed

lemma downs_spec:
  assumes "fm_lastFlags s = Flags_vector v" and "pairs_wf (cs_pairs s)"
    and "set fs \<subseteq> set (map pr_modifierFlag (cs_pairs s))" and "distinct fs"
    and "\<forall>f \<in> set fs. ModifierFlag_getKeyCode (cs_pairs s) f \<noteq> KeyCode_VK_NONE"
  shows "\<exists>evs. oq_queue (fold (down_flag a to kt) fs s) = oq_queue s @ evs \<and>
    map modifier_event evs =
      map (pressing (cs_pairs s) True)
        (filter (\<lambda>f. f \<in> set real_modifiers \<and> Flags_isOn to f \<and> f \<notin> set v) fs) \<and>
    fm_lastFlags (fold (down_flag a to kt) fs s) =
      Flags_vector (v @ filter (\<lambda>f. f \<in> set real_modifiers \<and> Flags_isOn to f \<and> f \<notin> set v) fs)"
  using assms
proof (induction fs arbitrary: s v)
  case Nil
  then show ?case by simp
next
  case (Cons f fs)
  let ?send = "f \<in> set real_modifiers \<and> Flags_isOn to f \<and> f \<notin> set v"
  have on: "Flags_isOn (fm_lastFlags s) f = (f \<in> set v)" if "f \<in> set real_modifiers"
    using that Cons.prems(1) by (simp add: Flags_isOn_vector_iff)
  show ?case
  proof (cases ?send)
    case False
    then have "down_flag a to kt f s = s"
      using on real_modifier_iff [of f] by (auto simp: down_flag_def)
    then show ?thesis using Cons.IH [OF Cons.prems(1,2)] Cons.prems(3-5) False by auto
  next
    case True
    let ?v = "v @ [f]"
    let ?t = "down_flag a to kt f s"
    let ?k = "KeyboardParams_new (cs_pairs s) EventType_MODIFY (Flags_vector ?v)
        (ModifierFlag_getKeyCode (cs_pairs s) f) kt False"
    have t: "?t = OutputQueue_push (P_Keyboard ?k) a (s\<lparr>fm_lastFlags := Flags_vector ?v\<rparr>)"
      using True on Cons.prems(1,5) real_modifier_iff [of f]
      by (simp add: down_flag_def Flags_vector_snoc Let_def)
    have key: "KeyCode_getModifierFlag (cs_pairs s) (ModifierFlag_getKeyCode (cs_pairs s) f) = f"
      using getModifierFlag_getKeyCode [OF Cons.prems(2)] Cons.prems(3) by simp
    have ev: "modifier_event \<lparr>oi_params = P_Keyboard ?k, oi_autogenId = a,
        oi_serialNumber = oq_serialNumber (s\<lparr>fm_lastFlags := Flags_vector ?v\<rparr>), oi_canceled = False\<rparr> =
        pressing (cs_pairs s) True f"
      using True by (simp add: modifier_event_def pressing_def isKeyDownOrModifierDown_def key Flags_isOn_vector_iff)
    have last: "fm_lastFlags ?t = Flags_vector ?v" by (simp add: t)
    obtain evs where evs:
      "oq_queue (fold (down_flag a to kt) fs ?t) = oq_queue ?t @ evs"
      "map modifier_event evs = map (pressing (cs_pairs s) True)
        (filter (\<lambda>g. g \<in> set real_modifiers \<and> Flags_isOn to g \<and> g \<notin> set ?v) fs)"
      "fm_lastFlags (fold (down_flag a to kt) fs ?t) =
        Flags_vector (?v @ filter (\<lambda>g. g \<in> set real_modifiers \<and> Flags_isOn to g \<and> g \<notin> set ?v) fs)"
      using Cons.IH [OF last] Cons.prems by auto
    have "filter (\<lambda>g. g \<in> set real_modifiers \<and> Flags_isOn to g \<and> g \<notin> set ?v) fs =
        filter (\<lambda>g. g \<in> set real_modifiers \<and> Flags_isOn to g \<and> g \<notin> set v) fs"
      using Cons.prems(4) by (intro filter_cong) auto
    then show ?thesis
      using evs True ev by (intro exI [of _ "_ # evs"]) (auto simp: t)
  qed
qed

text \<open>The loops over the items are loops over the registered flags.\<close>

lemma fold_modifier_up:
  "fold (modifier_up a to kt) [0..<length (fs_item s)] s = fold (up_flag a to kt) (registered s) s"
  using fold_getFlag [of "up_flag a to kt" s] by (simp add: modifier_up_flag [abs_def] registered_def)

lemma fold_modifier_down:
  "fold (modifier_down a to kt) [0..<length (fs_item s)] s = fold (down_flag a to kt) (registered s) s"
  using fold_getFlag [of "down_flag a to kt" s] by (simp add: modifier_down_flag [abs_def] registered_def)

lemma fold_flag_frame [simp]:
  "fs_item (fold (up_flag a to kt) fs s) = fs_item s" "cs_pairs (fold (up_flag a to kt) fs s) = cs_pairs s"
  "fs_item (fold (down_flag a to kt) fs s) = fs_item s" "cs_pairs (fold (down_flag a to kt) fs s) = cs_pairs s"
  by (induction fs arbitrary: s; simp)+

lemma bit_real: "bit (getRawBits f) n \<Longrightarrow> f \<in> set real_modifiers"
  by (cases "getRawBits f = 0") (auto simp: real_modifier_iff)

lemma Flags_vector_real:
  "Flags_vector v = Flags_vector (filter (\<lambda>f. f \<in> set real_modifiers) v)"
  by (intro bit_word_eqI) (auto simp: bit_Flags_vector dest: bit_real)

lemma modifiers_ok_cong:
  assumes "fs_item t = fs_item s" and "cs_pairs t = cs_pairs s" and "fm_lastFlags t = fm_lastFlags s"
  shows "modifiers_ok t = modifiers_ok s"
  by (simp only: modifiers_ok_def registered_def assms)

lemma modifiers_ok_registered:
  assumes "registered t = registered s" and "cs_pairs t = cs_pairs s" and "fm_lastFlags t = fm_lastFlags s"
  shows "modifiers_ok t = modifiers_ok s"
  by (simp only: modifiers_ok_def assms)

lemma Flags_vector_eqI:
  assumes "\<And>f. f \<in> set real_modifiers \<Longrightarrow> f \<in> set v \<longleftrightarrow> f \<in> set w"
  shows "Flags_vector v = Flags_vector w"
proof -
  have "Flags_vector (filter (\<lambda>f. f \<in> set real_modifiers) v) =
        Flags_vector (filter (\<lambda>f. f \<in> set real_modifiers) w)"
    using assms by (intro Flags_vector_cong) auto
  then show ?thesis using Flags_vector_real by metis
qed

lemma isOn_real: "f \<noteq> ModifierFlag_ZERO \<Longrightarrow> Flags_isOn v f \<Longrightarrow> f \<in> set real_modifiers"
  using Flags_isOn_virtual by blast

definition released_modifiers :: "Flags \<Rightarrow> 'a OutState_scheme \<Rightarrow> ModifierFlag list" where
  "released_modifiers to s = filter (\<lambda>f. Flags_isOn (fm_lastFlags s) f \<and> \<not> Flags_isOn to f) (registered s)"

definition pressed_modifiers :: "Flags \<Rightarrow> 'a OutState_scheme \<Rightarrow> ModifierFlag list" where
  "pressed_modifiers to s = filter (\<lambda>f. Flags_isOn to f \<and> \<not> Flags_isOn (fm_lastFlags s) f) (registered s)"

definition settled_flags :: "Flags \<Rightarrow> 'a OutState_scheme \<Rightarrow> Flags" where
  "settled_flags to s = Flags_vector (filter (Flags_isOn to) (registered s @ [ModifierFlag_NUMPAD]))"

definition sends_modifiers :: "Flags \<Rightarrow> 'a OutState_scheme \<Rightarrow> 'a OutState_scheme \<Rightarrow> bool" where
  "sends_modifiers to s t =
     ((\<exists>evs. oq_queue t = oq_queue s @ evs \<and>
        map modifier_event evs = map (pressing (cs_pairs s) False) (released_modifiers to s) @
                                 map (pressing (cs_pairs s) True) (pressed_modifiers to s)) \<and>
      fm_lastFlags t = settled_flags to s)"

lemma NUMPAD_real: "ModifierFlag_NUMPAD \<in> set real_modifiers"
  by (simp add: real_modifiers_def)

lemma send_spec:
  assumes ok: "modifiers_ok s"
  shows "sends_modifiers to s (FireModifiers_send a to kt s)"
    and "fs_item (FireModifiers_send a to kt s) = fs_item s"
    and "cs_pairs (FireModifiers_send a to kt s) = cs_pairs s"
proof -
  obtain v where v: "fm_lastFlags s = Flags_vector v"
    "set v \<subseteq> insert ModifierFlag_NUMPAD (set (registered s))" using ok by (auto simp: modifiers_ok_def)
  have reg: "registered s = map pr_modifierFlag (cs_pairs s)" and wf: "pairs_wf (cs_pairs s)"
    and np: "ModifierFlag_NUMPAD \<notin> set (registered s)"
    and keys: "\<forall>f \<in> set (registered s). ModifierFlag_getKeyCode (cs_pairs s) f \<noteq> KeyCode_VK_NONE"
    using ok unfolding modifiers_ok_def by blast+
  have dist: "distinct (registered s)" and zero: "ModifierFlag_ZERO \<notin> set (registered s)"
    using wf by (simp_all add: reg pairs_wf_def)
  define npd where "npd = Flags_isOn to ModifierFlag_NUMPAD"
  define v0 where "v0 = (if npd then v else filter (\<lambda>f. f \<noteq> ModifierFlag_NUMPAD) v)"
  define s0 where "s0 = s\<lparr>fm_lastFlags := Flags_vector v0\<rparr>"
  have s0: "(if \<not> Flags_isOn to ModifierFlag_NUMPAD
      then s\<lparr>fm_lastFlags := Flags_remove (cs_pairs s) (fm_lastFlags s) ModifierFlag_NUMPAD\<rparr> else s) = s0"
    using v Flags_remove_vector [of v "cs_pairs s" ModifierFlag_NUMPAD]
    by (simp add: s0_def v0_def npd_def reg)
  have v0: "set v0 \<subseteq> insert ModifierFlag_NUMPAD (set (map pr_modifierFlag (cs_pairs s0)))"
    using v(2) by (auto simp: s0_def v0_def reg)
  define s1 where "s1 = fold (up_flag a to kt) (registered s) s0"
  define v1 where "v1 = filter (\<lambda>f. \<not> (f \<in> set (registered s) \<and> f \<in> set real_modifiers \<and> \<not> Flags_isOn to f)) v0"
  obtain ups where ups: "oq_queue s1 = oq_queue s @ ups"
    "map modifier_event ups = map (pressing (cs_pairs s) False)
      (filter (\<lambda>f. f \<in> set real_modifiers \<and> f \<in> set v0 \<and> \<not> Flags_isOn to f) (registered s))"
    "fm_lastFlags s1 = Flags_vector v1"
    using ups_spec [of s0 v0 "registered s" a to kt] wf v0 dist keys
    by (auto simp: s0_def s1_def v1_def reg)
  define s2 where "s2 = fold (down_flag a to kt) (registered s) s1"
  have pairs1: "cs_pairs s1 = cs_pairs s" by (simp add: s1_def s0_def)
  let ?down = "filter (\<lambda>f. f \<in> set real_modifiers \<and> Flags_isOn to f \<and> f \<notin> set v1) (registered s)"
  obtain downs where downs: "oq_queue s2 = oq_queue s1 @ downs"
    "map modifier_event downs = map (pressing (cs_pairs s) True) ?down"
    "fm_lastFlags s2 = Flags_vector (v1 @ ?down)"
    using downs_spec [of s1 v1 "registered s" a to kt] ups(3) wf dist keys
    by (auto simp: pairs1 s2_def reg)
  let ?t = "if npd then s2\<lparr>fm_lastFlags := Flags_addFlag (fm_lastFlags s2) ModifierFlag_NUMPAD\<rparr> else s2"
  have send: "FireModifiers_send a to kt s = ?t"
  proof -
    have "fold (modifier_up a to kt) [0..<length (fs_item s0)] s0 = s1"
      using fold_modifier_up [of a to kt s0] by (simp add: s1_def s0_def registered_def)
    moreover have "fold (modifier_down a to kt) [0..<length (fs_item s1)] s1 = s2"
      using fold_modifier_down [of a to kt s1] by (simp add: s2_def s1_def s0_def registered_def)
    ultimately show ?thesis unfolding FireModifiers_send_def s0 by (simp add: Let_def npd_def)
  qed
  have items: "fs_item s2 = fs_item s" "cs_pairs s2 = cs_pairs s" by (simp_all add: s2_def s1_def s0_def)
  have onl: "Flags_isOn (fm_lastFlags s) f \<longleftrightarrow> f \<in> set real_modifiers \<and> f \<in> set v" if "f \<in> set (registered s)" for f
    using that zero isOn_real [of f] v(1) Flags_isOn_vector_iff [of f v] by auto
  have ont: "Flags_isOn to f \<Longrightarrow> f \<in> set real_modifiers" if "f \<in> set (registered s)" for f
    using that zero isOn_real [of f to] by auto
  have "filter (\<lambda>f. f \<in> set real_modifiers \<and> f \<in> set v0 \<and> \<not> Flags_isOn to f) (registered s) = released_modifiers to s"
    unfolding released_modifiers_def using np onl by (intro filter_cong) (auto simp: v0_def)
  moreover have down: "?down = pressed_modifiers to s"
    unfolding pressed_modifiers_def using np onl ont by (intro filter_cong) (auto simp: v1_def v0_def)
  ultimately have queue: "\<exists>evs. oq_queue ?t = oq_queue s @ evs \<and>
      map modifier_event evs = map (pressing (cs_pairs s) False) (released_modifiers to s) @
                               map (pressing (cs_pairs s) True) (pressed_modifiers to s)"
    using ups downs by (intro exI [of _ "ups @ downs"]) simp
  have "fm_lastFlags ?t = Flags_vector (v1 @ ?down @ (if npd then [ModifierFlag_NUMPAD] else []))"
    using downs(3) Flags_vector_snoc [of "v1 @ ?down" ModifierFlag_NUMPAD] by simp
  also have "\<dots> = settled_flags to s"
    unfolding settled_flags_def
  proof (rule Flags_vector_eqI)
    fix f
    assume "f \<in> set real_modifiers"
    then show "f \<in> set (v1 @ ?down @ (if npd then [ModifierFlag_NUMPAD] else [])) \<longleftrightarrow>
        f \<in> set (filter (Flags_isOn to) (registered s @ [ModifierFlag_NUMPAD]))"
      using v(2) np by (auto simp: v1_def v0_def npd_def)
  qed
  finally show "sends_modifiers to s (FireModifiers_send a to kt s)"
    unfolding send sends_modifiers_def using queue by blast
  show "fs_item (FireModifiers_send a to kt s) = fs_item s" unfolding send using items by simp
  show "cs_pairs (FireModifiers_send a to kt s) = cs_pairs s" unfolding send using items by simp
qed

lemma settled_equal:
  assumes "modifiers_ok s" and "fm_lastFlags s = to"
  shows "sends_modifiers to s s"
proof -
  obtain v where v: "to = Flags_vector v" "set v \<subseteq> insert ModifierFlag_NUMPAD (set (registered s))"
    using assms by (auto simp: modifiers_ok_def)
  have "settled_flags to s = Flags_vector v"
    unfolding settled_flags_def
    by (rule Flags_vector_eqI) (use v in \<open>auto simp: Flags_isOn_vector_iff\<close>)
  with assms v show ?thesis
    by (auto simp: sends_modifiers_def released_modifiers_def pressed_modifiers_def)
qed

lemma fire_sends:
  assumes "modifiers_ok s" and "pe = PE_DOWN \<or> fm_isIgnorePhysicalUpEvent s = False"
  shows "sends_modifiers to s (FireModifiers_fire a pe to kt s)"
proof (cases "fm_lastFlags s = to")
  case True
  then show ?thesis using settled_equal [OF assms(1)] by (simp add: FireModifiers_fire_def)
next
  case False
  let ?s = "s\<lparr>fm_isIgnorePhysicalUpEvent := False\<rparr>"
  have ok: "modifiers_ok ?s" using assms(1) modifiers_ok_cong [of ?s s] by simp
  have "sends_modifiers to s (FireModifiers_send a to kt ?s)"
    using send_spec(1) [OF ok, of to a kt]
    by (simp add: sends_modifiers_def released_modifiers_def pressed_modifiers_def settled_flags_def registered_def)
  then show ?thesis
    using False assms send_spec(1) [OF assms(1), of to a kt] by (auto simp: FireModifiers_fire_def)
qed


lemma fire_preserves:
  assumes "modifiers_ok s"
  shows "modifiers_ok (FireModifiers_fire a pe to kt s)"
    and "fs_item (FireModifiers_fire a pe to kt s) = fs_item s"
    and "cs_pairs (FireModifiers_fire a pe to kt s) = cs_pairs s"
proof -
  let ?s = "s\<lparr>fm_isIgnorePhysicalUpEvent := False\<rparr>"
  have ok: "modifiers_ok ?s" using assms(1) modifiers_ok_cong [of ?s s] by simp
  note s1 = send_spec [OF ok] and s2 = send_spec [OF assms]
  show i: "fs_item (FireModifiers_fire a pe to kt s) = fs_item s"
    and p: "cs_pairs (FireModifiers_fire a pe to kt s) = cs_pairs s"
    using s1 s2 by (simp_all add: FireModifiers_fire_def)
  have "fm_lastFlags (FireModifiers_fire a pe to kt s) = fm_lastFlags s \<or>
        fm_lastFlags (FireModifiers_fire a pe to kt s) = settled_flags to s"
    using s1(1) [of to a kt] s2(1) [of to a kt] by (auto simp: FireModifiers_fire_def sends_modifiers_def settled_flags_def registered_def)
  then have "\<exists>v. fm_lastFlags (FireModifiers_fire a pe to kt s) = Flags_vector v \<and>
      set v \<subseteq> insert ModifierFlag_NUMPAD (set (registered s))"
  proof
    assume "fm_lastFlags (FireModifiers_fire a pe to kt s) = settled_flags to s"
    then show ?thesis
      by (intro exI [of _ "filter (Flags_isOn to) (registered s @ [ModifierFlag_NUMPAD])"])
         (auto simp: settled_flags_def)
  qed (use assms in \<open>auto simp: modifiers_ok_def\<close>)
  moreover have r: "registered (FireModifiers_fire a pe to kt s) = registered s"
    by (simp add: registered_def i)
  ultimately show "modifiers_ok (FireModifiers_fire a pe to kt s)"
    using assms unfolding modifiers_ok_def r p by blast
qed

text \<open>
  Firing the flags of the current modifier status makes them the flags of the last event, so
  that firing again sends nothing.
\<close>

theorem FireModifiers_settles:
  assumes "modifiers_ok s" and "pe = PE_DOWN \<or> fm_isIgnorePhysicalUpEvent s = False"
  shows "let t = FireModifiers_fire_current a pe s in
    fm_lastFlags t = FlagStatus_makeFlags (fs_item t) \<and> FireModifiers_fire_current b pe' t = t"
proof -
  define to where "to = FlagStatus_makeFlags (fs_item s)"
  define t where "t = FireModifiers_fire_current a pe s"
  let ?on = "map fi_flag (filter (\<lambda>it. Item_sum False it > 0) (fs_item s))"
  have to: "to = Flags_vector ?on" by (simp add: to_def makeFlags_vector)
  have t: "t = FireModifiers_fire a pe to (cs_keyboardType s) s"
    by (simp add: t_def to_def FireModifiers_fire_current_def)
  have items: "fs_item t = fs_item s" unfolding t by (rule fire_preserves(2) [OF assms(1)])
  have np: "ModifierFlag_NUMPAD \<notin> set (registered s)" using assms(1) unfolding modifiers_ok_def by blast
  have "settled_flags to s = to"
    unfolding settled_flags_def
  proof (subst (2) to, rule Flags_vector_eqI)
    fix f
    assume "f \<in> set real_modifiers"
    then show "f \<in> set (filter (Flags_isOn to) (registered s @ [ModifierFlag_NUMPAD])) \<longleftrightarrow> f \<in> set ?on"
      using np by (auto simp: to Flags_isOn_vector_iff NUMPAD_real registered_def)
  qed
  moreover have "fm_lastFlags t = settled_flags to s"
    using fire_sends [OF assms, of to a "cs_keyboardType s"] by (simp add: t sends_modifiers_def)
  ultimately have last: "fm_lastFlags t = FlagStatus_makeFlags (fs_item t)"
    by (simp add: items to_def)
  then have "FireModifiers_fire_current b pe' t = t"
    by (simp add: FireModifiers_fire_current_def FireModifiers_fire_def)
  with last show ?thesis by (simp add: Let_def t_def)
qed

text \<open>The state after start-up.\<close>

definition out_static :: OutState where
  "out_static = ButtonState.ButtonState.extend buttons_static
     \<lparr>oq_queue = [], oq_timer = TimerWrapper_initialize True True timer_static, oq_previousButtons = 0,
      oq_serialNumber = 1, fm_lastFlags = 0, fm_isIgnorePhysicalUpEvent = False, fr_lastButtons = 0,
      pd_list = []\<rparr>"

definition out_boot :: OutState where
  "out_boot = clearVirtualModifiers (CommonData_initialize out_static)"

lemma out_boot_simps [simp]:
  "cs_pairs out_boot = normal_pairs" "fs_item out_boot = items_of_pairs normal_pairs"
  "fm_lastFlags out_boot = 0" "fm_isIgnorePhysicalUpEvent out_boot = False" "oq_queue out_boot = []"
  "fr_lastButtons out_boot = 0" "pd_list out_boot = []"
  "oq_timer out_boot = TimerWrapper_initialize True True timer_static"
  by (simp_all add: out_boot_def out_static_def clearVirtualModifiers_def FlagStatus_initialize_def
      CommonData_initialize_def ButtonState.ButtonState.extend_def)

lemma registered_boot: "registered out_boot = map pr_modifierFlag normal_pairs"
  by (simp add: registered_def items_of_pairs_def Item_initialize_def)

lemma normal_keys:
  "\<forall>f \<in> set (map pr_modifierFlag normal_pairs). ModifierFlag_getKeyCode normal_pairs f \<noteq> KeyCode_VK_NONE"
  "ModifierFlag_NUMPAD \<notin> set (map pr_modifierFlag normal_pairs)"
  by (simp_all add: normal_pairs_def Pair_new_def ModifierFlag_getKeyCode_def Pairs_getKeyCode_def
      Pair_getKeyCode_def)

lemma modifiers_ok_boot: "modifiers_ok out_boot"
proof -
  have "\<exists>v. fm_lastFlags out_boot = Flags_vector v \<and>
      set v \<subseteq> insert ModifierFlag_NUMPAD (set (registered out_boot))"
    by (rule exI [of _ "[]"]) (simp add: Flags_vector_def)
  then show ?thesis
    unfolding modifiers_ok_def using normal_keys pairs_wf_normal by (simp add: registered_boot)
qed


theorem FireModifiers_settles_witness:
  "let t = FireModifiers_fire_current 0 PE_UP out_boot in
   fm_lastFlags t = FlagStatus_makeFlags (fs_item t) \<and> FireModifiers_fire_current 0 PE_DOWN t = t"
  by (rule FireModifiers_settles [OF modifiers_ok_boot]) simp

section \<open>The queue never stalls\<close>

lemma FlagState_more_eqD:
  fixes s t :: "'a OutState_scheme"
  assumes "FlagState.more s = FlagState.more t"
  shows "oq_queue s = oq_queue t" and "oq_timer s = oq_timer t" and "fm_lastFlags s = fm_lastFlags t"
    and "fr_lastButtons s = fr_lastButtons t" and "pd_list s = pd_list t"
    and "fm_isIgnorePhysicalUpEvent s = fm_isIgnorePhysicalUpEvent t"
  using assms by (cases s; cases t; simp)+

lemma sticky_clear_more: "FlagState.more (FlagStatus_sticky_clear s) = FlagState.more s"
  by (simp add: FlagStatus_sticky_clear_def)

lemma push_fields:
  fixes s :: "'a OutState_scheme"
  shows "oq_queue (OutputQueue_push p a s) = oq_queue s @
      [\<lparr>oi_params = p, oi_autogenId = a, oi_serialNumber = oq_serialNumber s, oi_canceled = False\<rparr>]"
    and "oq_timer (OutputQueue_push p a s) = snd (setTimeoutMS 0 False (oq_timer s))"
    and "fm_lastFlags (OutputQueue_push p a s) = fm_lastFlags s"
    and "fr_lastButtons (OutputQueue_push p a s) = fr_lastButtons s"
    and "pd_list (OutputQueue_push p a s) = pd_list s"
    and "cs_pairs (OutputQueue_push p a s) = cs_pairs s"
    and "map fi_flag (fs_item (OutputQueue_push p a s)) = map fi_flag (fs_item s)"
proof -
  let ?s = "PUSH_TO_OUTPUTQUEUE p a s"
  have c: "OutputQueue_push p a s = ?s \<or> OutputQueue_push p a s = FlagStatus_sticky_clear ?s"
    by (auto simp: OutputQueue_push_def Let_def split: Params.split)
  note m = FlagState_more_eqD [OF sticky_clear_more [of ?s]]
  have p: "oq_queue ?s = oq_queue s @
      [\<lparr>oi_params = p, oi_autogenId = a, oi_serialNumber = oq_serialNumber s, oi_canceled = False\<rparr>]"
    "oq_timer ?s = snd (setTimeoutMS 0 False (oq_timer s))" "fm_lastFlags ?s = fm_lastFlags s"
    "fr_lastButtons ?s = fr_lastButtons s" "pd_list ?s = pd_list s" "cs_pairs ?s = cs_pairs s"
    "fs_item ?s = fs_item s"
    by (simp_all add: PUSH_TO_OUTPUTQUEUE_def setcurrent_lastsentevent_def Let_def)
  show "oq_queue (OutputQueue_push p a s) = oq_queue s @
      [\<lparr>oi_params = p, oi_autogenId = a, oi_serialNumber = oq_serialNumber s, oi_canceled = False\<rparr>]"
    using c m(1) p(1) by metis
  show "oq_timer (OutputQueue_push p a s) = snd (setTimeoutMS 0 False (oq_timer s))"
    using c m(2) p(2) by metis
  show "fm_lastFlags (OutputQueue_push p a s) = fm_lastFlags s" using c m(3) p(3) by metis
  show "fr_lastButtons (OutputQueue_push p a s) = fr_lastButtons s" using c m(4) p(4) by metis
  show "pd_list (OutputQueue_push p a s) = pd_list s" using c m(5) p(5) by metis
  show "cs_pairs (OutputQueue_push p a s) = cs_pairs s"
    using c p(6) by (auto simp: FlagStatus_sticky_clear_def)
  show "map fi_flag (fs_item (OutputQueue_push p a s)) = map fi_flag (fs_item s)"
    using c p(7) by (auto simp: FlagStatus_sticky_clear_def map_if_proj op_sticky_decrease.keeps_flag)
qed

text \<open>
  What the queue relies on: the timer works, the items that are cancelled are only marked, and
  delivering an event changes neither queue nor timer.
\<close>

definition timer_reliable :: "TimerWrapper \<Rightarrow> bool" where
  "timer_reliable t = (timer_inv t \<and> (\<forall>ms milli. tw_accepts t ms milli))"

definition marks_only :: "('a OutState_scheme \<Rightarrow> 'a OutState_scheme) \<Rightarrow> bool" where
  "marks_only cancelItems = (\<forall>s. map (\<lambda>i. i\<lparr>oi_canceled := False\<rparr>) (oq_queue (cancelItems s)) =
     map (\<lambda>i. i\<lparr>oi_canceled := False\<rparr>) (oq_queue s) \<and> oq_timer (cancelItems s) = oq_timer s)"

definition delivers_only :: "(Params \<Rightarrow> 'a OutState_scheme \<Rightarrow> 'a OutState_scheme) \<Rightarrow> bool" where
  "delivers_only deliver = (\<forall>p s. oq_queue (deliver p s) = oq_queue s \<and> oq_timer (deliver p s) = oq_timer s)"

text \<open>The event source calls back when the timeout has passed.\<close>

definition OutputQueue_tick ::
  "('a OutState_scheme \<Rightarrow> 'a OutState_scheme) \<Rightarrow> (Params \<Rightarrow> 'a OutState_scheme \<Rightarrow> 'a OutState_scheme) \<Rightarrow>
   'a OutState_scheme \<Rightarrow> 'a OutState_scheme"
where
  "OutputQueue_tick cancelItems deliver s =
     (let (run, t) = timer_callback (oq_timer s);
          s = s\<lparr>oq_timer := t\<rparr>
      in if run then OutputQueue_fire_timer_callback cancelItems deliver s else s)"

definition out_live :: "'a OutState_scheme \<Rightarrow> bool" where
  "out_live s = (timer_reliable (oq_timer s) \<and> (oq_queue s \<noteq> [] \<longrightarrow> TimerWrapper_isActive (oq_timer s)))"

lemma setTimeout_reliable:
  assumes "timer_reliable t"
  shows "timer_reliable (snd (setTimeoutMS ms b t))" and "TimerWrapper_isActive (snd (setTimeoutMS ms b t))"
  using assms
  by (auto simp: timer_reliable_def timer_inv_def setTimeoutMS_def TimerWrapper_isActive_def Let_def)

lemma push_live: "out_live s \<Longrightarrow> out_live (OutputQueue_push p a s)"
  by (simp add: out_live_def push_fields setTimeout_reliable)

lemma callback_reliable:
  assumes "timer_reliable t"
  shows "timer_reliable (snd (timer_callback t))"
  using assms by (auto simp: timer_reliable_def timer_inv_def timer_callback_def Let_def)

lemma calcDelay_frame [simp]:
  "oq_queue (snd (calcDelay p s)) = oq_queue s" "oq_timer (snd (calcDelay p s)) = oq_timer s"
  by (auto simp: calcDelay_def split: Params.split)

lemma fire_timer_result:
  assumes "delivers_only deliver"
  shows "oq_queue (OutputQueue_fire_timer_callback cancelItems deliver s) =
           tl (filter (\<lambda>i. \<not> oi_canceled i) (oq_queue (cancelItems s)))"
    and "\<exists>ms. oq_timer (OutputQueue_fire_timer_callback cancelItems deliver s) =
           (if tl (filter (\<lambda>i. \<not> oi_canceled i) (oq_queue (cancelItems s))) = [] then oq_timer (cancelItems s)
            else snd (setTimeoutMS ms True (oq_timer (cancelItems s))))"
  using assms
  by (auto simp: OutputQueue_fire_timer_callback_def Let_def delete_canceled_def delivers_only_def
      case_prod_unfold split: list.split)

lemma tick_live:
  assumes "marks_only cancelItems" and "delivers_only deliver" and "out_live s"
  shows "out_live (OutputQueue_tick cancelItems deliver s)"
proof -
  obtain run t where cb: "timer_callback (oq_timer s) = (run, t)" by fastforce
  have rel: "timer_reliable t"
    using callback_reliable [of "oq_timer s"] assms(3) by (simp add: cb out_live_def)
  show ?thesis
  proof (cases run)
    case True
    let ?s = "s\<lparr>oq_timer := t\<rparr>"
    have t: "oq_timer (cancelItems ?s) = t" using assms(1) by (simp add: marks_only_def)
    from fire_timer_result(2) [OF assms(2), of cancelItems ?s] obtain ms where
      ms: "oq_timer (OutputQueue_fire_timer_callback cancelItems deliver ?s) =
        (if tl (filter (\<lambda>i. \<not> oi_canceled i) (oq_queue (cancelItems ?s))) = [] then oq_timer (cancelItems ?s)
         else snd (setTimeoutMS ms True (oq_timer (cancelItems ?s))))" by blast
    have "out_live (OutputQueue_fire_timer_callback cancelItems deliver ?s)"
      unfolding out_live_def fire_timer_result(1) [OF assms(2)] ms t
      using setTimeout_reliable [OF rel, of ms True] rel by simp
    with True show ?thesis by (simp add: OutputQueue_tick_def cb)
  next
    case False
    then have "\<not> TimerWrapper_isActive (oq_timer s)"
      using cb by (auto simp: timer_callback_def TimerWrapper_isActive_def Let_def split: if_splits)
    with assms(3) False rel show ?thesis by (simp add: OutputQueue_tick_def cb out_live_def)
  qed
qed

inductive out_step :: "'a OutState_scheme \<Rightarrow> 'a OutState_scheme \<Rightarrow> bool" where
  out_push: "out_step s (OutputQueue_push p a s)"
| out_tick: "marks_only cancelItems \<Longrightarrow> delivers_only deliver \<Longrightarrow>
    out_step s (OutputQueue_tick cancelItems deliver s)"

lemma out_steps_live: "out_step\<^sup>*\<^sup>* s t \<Longrightarrow> out_live s \<Longrightarrow> out_live t"
  by (induction rule: rtranclp_induct) (auto elim!: out_step.cases intro: push_live tick_live)



section \<open>Pressed keys are released\<close>

text \<open>
  C19: \<open>PressDownKeys::clear\<close> sends one key-up event without modifiers for every key that is down,
  in the order in which the keys went down, and forgets them.
\<close>

theorem PressDownKeys_clear_releases:
  "pd_list (PressDownKeys_clear s) = [] \<and>
   (\<exists>evs. oq_queue (PressDownKeys_clear s) = oq_queue s @ evs \<and>
      map oi_params evs =
        map (\<lambda>(key, kt). P_Keyboard (KeyboardParams_new (cs_pairs s) EventType_UP 0 key kt False)) (pd_list s))"
proof -
  have "pd_list (PressDownKeys_clear_loop l s) = [] \<and>
    (\<exists>evs. oq_queue (PressDownKeys_clear_loop l s) = oq_queue s @ evs \<and>
      map oi_params evs =
        map (\<lambda>(key, kt). P_Keyboard (KeyboardParams_new (cs_pairs s) EventType_UP 0 key kt False)) l)" for l
  proof (induction l arbitrary: s)
    case (Cons x l)
    obtain key kt where x: "x = (key, kt)" by (cases x)
    let ?t = "(OutputQueue_push (P_Keyboard (KeyboardParams_new (cs_pairs s) EventType_UP 0 key kt False))
           AutogenId_maxValue s)\<lparr>pd_list := l\<rparr>"
    from Cons.IH [of ?t] show ?case by (auto simp: x push_fields)
  qed simp
  then show ?thesis by (simp add: PressDownKeys_clear_def)
qed

section \<open>What sending events leaves alone\<close>

text \<open>
  \<open>emits P s t\<close>: from \<open>s\<close> to \<open>t\<close> events that satisfy \<open>P\<close> were appended to the queue, a live queue
  stayed live, and the configuration, the registered modifiers and the state of the components
  above the output queue did not change.
\<close>

definition emits :: "(Params \<Rightarrow> bool) \<Rightarrow> 'a OutState_scheme \<Rightarrow> 'a OutState_scheme \<Rightarrow> bool" where
  "emits P s t =
     (OutState.more t = OutState.more s \<and> cs_config t = cs_config s \<and> cs_pairs t = cs_pairs s \<and>
      registered t = registered s \<and> bs_item t = bs_item s \<and>
      (\<exists>evs. oq_queue t = oq_queue s @ evs \<and> (\<forall>e \<in> set evs. P (oi_params e))) \<and>
      (out_live s \<longrightarrow> out_live t))"

lemma emits_refl [simp]: "emits P s s"
  by (simp add: emits_def)

lemma emits_trans: "emits P s t \<Longrightarrow> emits P t u \<Longrightarrow> emits P s u"
  unfolding emits_def by (metis append_assoc set_append Un_iff)

lemma emits_mono: "emits P s t \<Longrightarrow> (\<And>p. P p \<Longrightarrow> Q p) \<Longrightarrow> emits Q s t"
  unfolding emits_def by blast

lemma emits_fold: "(\<And>x s. emits P s (f x s)) \<Longrightarrow> emits P s (fold f xs s)"
  by (induction xs arbitrary: s) (auto intro: emits_trans)

lemma emits_update [simp]:
  "emits P s (t\<lparr>fm_lastFlags := x\<rparr>) = emits P s t"
  "emits P s (t\<lparr>fm_isIgnorePhysicalUpEvent := b\<rparr>) = emits P s t"
  "emits P s (t\<lparr>fr_lastButtons := bt\<rparr>) = emits P s t"
  "emits P s (t\<lparr>pd_list := l\<rparr>) = emits P s t"
  "emits P (s\<lparr>fm_lastFlags := x\<rparr>) t = emits P s t"
  "emits P (s\<lparr>fm_isIgnorePhysicalUpEvent := b\<rparr>) t = emits P s t"
  "emits P (s\<lparr>fr_lastButtons := bt\<rparr>) t = emits P s t"
  by (simp_all add: emits_def out_live_def registered_def)

lemma push_more:
  fixes s :: "'a OutState_scheme"
  shows "OutState.more (OutputQueue_push p a s) = OutState.more s"
    and "bs_item (OutputQueue_push p a s) = bs_item s"
    and "cs_config (OutputQueue_push p a s) = cs_config s"
proof -
  let ?s = "PUSH_TO_OUTPUTQUEUE p a s"
  have c: "OutputQueue_push p a s = ?s \<or> OutputQueue_push p a s = FlagStatus_sticky_clear ?s"
    by (auto simp: OutputQueue_push_def Let_def split: Params.split)
  have p: "OutState.more ?s = OutState.more s" "bs_item ?s = bs_item s" "cs_config ?s = cs_config s"
    by (simp_all add: PUSH_TO_OUTPUTQUEUE_def setcurrent_lastsentevent_def Let_def)
  have m: "OutState.more (FlagStatus_sticky_clear u) = OutState.more u \<and>
      bs_item (FlagStatus_sticky_clear u) = bs_item u" for u :: "'a OutState_scheme"
    using sticky_clear_more [of u] by (cases u; cases "FlagStatus_sticky_clear u") simp
  show "OutState.more (OutputQueue_push p a s) = OutState.more s"
    and "bs_item (OutputQueue_push p a s) = bs_item s" using c m p by metis+
  show "cs_config (OutputQueue_push p a s) = cs_config s"
    using c p(3) by (auto simp: FlagStatus_sticky_clear_def FlagStatus_all_def)
qed

lemma push_emits: "P p \<Longrightarrow> emits P s (OutputQueue_push p a s)"
  using push_live [of s p a]
  by (simp add: emits_def push_more push_fields registered_def)

definition is_modifier_change :: "Params \<Rightarrow> bool" where
  "is_modifier_change p = (case p of P_Keyboard k \<Rightarrow> kp_eventType k = EventType_MODIFY | _ \<Rightarrow> False)"

lemma modifier_up_down_emits:
  "emits is_modifier_change s (modifier_up a to kt i s)"
  "emits is_modifier_change s (modifier_down a to kt i s)"
  unfolding modifier_up_def modifier_down_def Let_def
  by (auto intro!: push_emits [THEN emits_trans [rotated]] simp: is_modifier_change_def)

lemma FireModifiers_send_emits: "emits is_modifier_change s (FireModifiers_send a to kt s)"
  unfolding FireModifiers_send_def Let_def
  by (auto intro!: emits_trans [OF _ emits_fold] emits_fold modifier_up_down_emits)

lemma FireModifiers_emits:
  "emits is_modifier_change s (FireModifiers_fire a pe to kt s)"
  "emits is_modifier_change s (FireModifiers_fire_current a pe s)"
proof -
  show *: "emits is_modifier_change s (FireModifiers_fire a pe to kt s)" for to kt
    using FireModifiers_send_emits [of "s\<lparr>fm_isIgnorePhysicalUpEvent := False\<rparr>" a to kt]
      FireModifiers_send_emits [of s a to kt]
    by (simp add: FireModifiers_fire_def)
  show "emits is_modifier_change s (FireModifiers_fire_current a pe s)"
    unfolding FireModifiers_fire_current_def by (rule *)
qed

definition is_pointer_or_modifier :: "Params \<Rightarrow> bool" where
  "is_pointer_or_modifier p =
     (case p of P_RelativePointer _ \<Rightarrow> True | _ \<Rightarrow> is_modifier_change p)"

lemma FireRelativePointer_emits:
  "emits is_pointer_or_modifier s (FireRelativePointer_fire a pe b dx dy s)"
proof -
  have m: "emits is_pointer_or_modifier u (FireModifiers_fire_current a pe u)" for u :: "'a OutState_scheme"
    by (rule emits_mono [OF FireModifiers_emits(2)])
       (auto simp: is_pointer_or_modifier_def split: Params.split)
  have p: "emits is_pointer_or_modifier u (OutputQueue_push (P_RelativePointer k) a u)"
    for k and u :: "'a OutState_scheme"
    by (rule push_emits) (simp add: is_pointer_or_modifier_def)
  show ?thesis
    unfolding FireRelativePointer_fire_def Let_def setIgnorePhysicalUpEvent_def
    by (auto intro!: emits_trans [OF _ m] emits_trans [OF _ p] simp del: emits_update(5-7))
qed

end
