(* ===== verification/MouseKey.thy ===== *)
theory MouseKey
  imports OutputQueue
begin

text \<open>
  \<^verbatim>\<open>VirtualKey::VK_MOUSEKEY\<close>: virtual keys that move the pointer, scroll, and press or lock mouse
  buttons. Movement keys set direction flags; a timer sends a movement for the flags and
  accelerates. A fixed distance scroll is split into small steps sent by a second timer.
  C++ converts between \<open>int\<close> and \<open>unsigned int\<close> where a configuration value is multiplied; these
  products are 32-bit words read back as signed integers. The other products are integers.
\<close>

section \<open>State\<close>

record MouseState = OutState +
  mk_down :: bool
  mk_left :: bool
  mk_right :: bool
  mk_up :: bool
  mk_scale :: int
  mk_scrollmode :: bool
  mk_highspeed :: bool
  mk_autogenId :: AutogenId
  mk_lastPhysicalEventType :: PhysicalEventType
  mk_timer :: TimerWrapper
  fd_delta1 :: int
  fd_delta2 :: int
  fd_counter :: int
  fd_autogenId :: AutogenId
  fd_physicalEventType :: PhysicalEventType
  fd_timer :: TimerWrapper

abbreviation (input) FixedDistanceScroll_MAX_COUNT :: int where "FixedDistanceScroll_MAX_COUNT \<equiv> 100"
abbreviation (input) FixedDistanceScroll_TIMER_INTERVAL :: u32 where "FixedDistanceScroll_TIMER_INTERVAL \<equiv> 1"
abbreviation (input) FireScrollWheel_DELTA_SCALE :: int where "FireScrollWheel_DELTA_SCALE \<equiv> 128"

section \<open>Configuration\<close>

definition get_mousekey_high_speed_of_pointer :: "'a MouseState_scheme \<Rightarrow> u32" where
  "get_mousekey_high_speed_of_pointer s =
     Config_getvalue_min (cs_config s parameter_mousekey_high_speed_of_pointer) 0"

definition get_mousekey_initial_wait_of_pointer :: "'a MouseState_scheme \<Rightarrow> u32" where
  "get_mousekey_initial_wait_of_pointer s =
     Config_getvalue_min (cs_config s parameter_mousekey_initial_wait_of_pointer) 0"

definition get_mousekey_repeat_wait_of_pointer :: "'a MouseState_scheme \<Rightarrow> u32" where
  "get_mousekey_repeat_wait_of_pointer s =
     Config_getvalue_min (cs_config s parameter_mousekey_repeat_wait_of_pointer) 0"

definition get_mousekey_high_speed_of_scroll :: "'a MouseState_scheme \<Rightarrow> u32" where
  "get_mousekey_high_speed_of_scroll s =
     Config_getvalue_min (cs_config s parameter_mousekey_high_speed_of_scroll) 0"

definition get_mousekey_initial_wait_of_scroll :: "'a MouseState_scheme \<Rightarrow> u32" where
  "get_mousekey_initial_wait_of_scroll s =
     Config_getvalue_min (cs_config s parameter_mousekey_initial_wait_of_scroll) 0"

definition get_mousekey_repeat_wait_of_scroll :: "'a MouseState_scheme \<Rightarrow> u32" where
  "get_mousekey_repeat_wait_of_scroll s =
     Config_getvalue_min (cs_config s parameter_mousekey_repeat_wait_of_scroll) 0"

definition get_fixed_distance_magnification :: "'a MouseState_scheme \<Rightarrow> u32" where
  "get_fixed_distance_magnification s =
     Config_getvalue_min (cs_config s parameter_fixed_distance_magnification) 0"

definition get_fixed_distance_scroll_magnification :: "'a MouseState_scheme \<Rightarrow> u32" where
  "get_fixed_distance_scroll_magnification s =
     Config_getvalue_min (cs_config s parameter_fixed_distance_scroll_magnification) 0"

text \<open>The product of an \<open>int\<close> and an \<open>unsigned int\<close>, converted back to \<open>int\<close>.\<close>

definition int_times_unsigned :: "int \<Rightarrow> u32 \<Rightarrow> u32" where
  "int_times_unsigned i w = word_of_int i * w"

section \<open>Initialization\<close>

definition FixedDistanceScroll_initialize :: "'a MouseState_scheme \<Rightarrow> 'a MouseState_scheme" where
  "FixedDistanceScroll_initialize s =
     s\<lparr>fd_delta1 := 0, fd_delta2 := 0, fd_counter := 0, fd_autogenId := 0,
       fd_physicalEventType := PE_DOWN, fd_timer := TimerWrapper_initialize True True (fd_timer s)\<rparr>"

definition MouseKey_initialize :: "'a MouseState_scheme \<Rightarrow> 'a MouseState_scheme" where
  "MouseKey_initialize s =
     FixedDistanceScroll_initialize
       (s\<lparr>mk_down := False, mk_left := False, mk_right := False, mk_up := False, mk_scale := 1,
          mk_scrollmode := False, mk_highspeed := False, mk_autogenId := 0,
          mk_lastPhysicalEventType := PE_DOWN, mk_timer := TimerWrapper_initialize True True (mk_timer s)\<rparr>)"

definition FixedDistanceScroll_terminate :: "'a MouseState_scheme \<Rightarrow> 'a MouseState_scheme" where
  "FixedDistanceScroll_terminate s = s\<lparr>fd_timer := TimerWrapper_terminate (fd_timer s)\<rparr>"

definition MouseKey_terminate :: "'a MouseState_scheme \<Rightarrow> 'a MouseState_scheme" where
  "MouseKey_terminate s =
     FixedDistanceScroll_terminate (s\<lparr>mk_timer := TimerWrapper_terminate (mk_timer s)\<rparr>)"

definition FixedDistanceScroll_reset :: "'a MouseState_scheme \<Rightarrow> 'a MouseState_scheme" where
  "FixedDistanceScroll_reset s = s"

definition MouseKey_reset :: "'a MouseState_scheme \<Rightarrow> 'a MouseState_scheme" where
  "MouseKey_reset s =
     FixedDistanceScroll_reset
       (s\<lparr>mk_down := False, mk_left := False, mk_right := False, mk_up := False, mk_scale := 1,
          mk_scrollmode := False, mk_highspeed := False, mk_autogenId := 0,
          mk_lastPhysicalEventType := PE_DOWN, mk_timer := cancelTimeout (mk_timer s)\<rparr>)"

section \<open>Keys and buttons\<close>

definition getPointingButton :: "KeyCode \<Rightarrow> PointingButton" where
  "getPointingButton keycode =
     (if keycode = KeyCode_VK_MOUSEKEY_BUTTON_LEFT then PointingButton_LEFT
      else if keycode = KeyCode_VK_MOUSEKEY_BUTTON_MIDDLE then PointingButton_MIDDLE
      else if keycode = KeyCode_VK_MOUSEKEY_BUTTON_RIGHT then PointingButton_RIGHT
      else if keycode = KeyCode_VK_MOUSEKEY_BUTTON_BUTTON4 then PointingButton_BUTTON4
      else if keycode = KeyCode_VK_MOUSEKEY_BUTTON_BUTTON5 then PointingButton_BUTTON5
      else if keycode = KeyCode_VK_MOUSEKEY_BUTTON_BUTTON6 then PointingButton_BUTTON6
      else if keycode = KeyCode_VK_MOUSEKEY_BUTTON_BUTTON7 then PointingButton_BUTTON7
      else if keycode = KeyCode_VK_MOUSEKEY_BUTTON_BUTTON8 then PointingButton_BUTTON8
      else if keycode = KeyCode_VK_MOUSEKEY_BUTTON_BUTTON9 then PointingButton_BUTTON9
      else if keycode = KeyCode_VK_MOUSEKEY_BUTTON_BUTTON10 then PointingButton_BUTTON10
      else if keycode = KeyCode_VK_MOUSEKEY_BUTTON_BUTTON11 then PointingButton_BUTTON11
      else if keycode = KeyCode_VK_MOUSEKEY_BUTTON_BUTTON12 then PointingButton_BUTTON12
      else if keycode = KeyCode_VK_MOUSEKEY_BUTTON_BUTTON13 then PointingButton_BUTTON13
      else if keycode = KeyCode_VK_MOUSEKEY_BUTTON_BUTTON14 then PointingButton_BUTTON14
      else if keycode = KeyCode_VK_MOUSEKEY_BUTTON_BUTTON15 then PointingButton_BUTTON15
      else if keycode = KeyCode_VK_MOUSEKEY_BUTTON_BUTTON16 then PointingButton_BUTTON16
      else PointingButton_NONE)"

definition getPointingButtonFromLockKey :: "KeyCode \<Rightarrow> PointingButton" where
  "getPointingButtonFromLockKey keycode =
     (if keycode = KeyCode_VK_MOUSEKEY_LOCK_BUTTON_LEFT then PointingButton_LEFT
      else if keycode = KeyCode_VK_MOUSEKEY_LOCK_BUTTON_MIDDLE then PointingButton_MIDDLE
      else if keycode = KeyCode_VK_MOUSEKEY_LOCK_BUTTON_RIGHT then PointingButton_RIGHT
      else if keycode = KeyCode_VK_MOUSEKEY_LOCK_BUTTON_BUTTON4 then PointingButton_BUTTON4
      else if keycode = KeyCode_VK_MOUSEKEY_LOCK_BUTTON_BUTTON5 then PointingButton_BUTTON5
      else if keycode = KeyCode_VK_MOUSEKEY_LOCK_BUTTON_BUTTON6 then PointingButton_BUTTON6
      else if keycode = KeyCode_VK_MOUSEKEY_LOCK_BUTTON_BUTTON7 then PointingButton_BUTTON7
      else if keycode = KeyCode_VK_MOUSEKEY_LOCK_BUTTON_BUTTON8 then PointingButton_BUTTON8
      else if keycode = KeyCode_VK_MOUSEKEY_LOCK_BUTTON_BUTTON9 then PointingButton_BUTTON9
      else if keycode = KeyCode_VK_MOUSEKEY_LOCK_BUTTON_BUTTON10 then PointingButton_BUTTON10
      else if keycode = KeyCode_VK_MOUSEKEY_LOCK_BUTTON_BUTTON11 then PointingButton_BUTTON11
      else if keycode = KeyCode_VK_MOUSEKEY_LOCK_BUTTON_BUTTON12 then PointingButton_BUTTON12
      else if keycode = KeyCode_VK_MOUSEKEY_LOCK_BUTTON_BUTTON13 then PointingButton_BUTTON13
      else if keycode = KeyCode_VK_MOUSEKEY_LOCK_BUTTON_BUTTON14 then PointingButton_BUTTON14
      else if keycode = KeyCode_VK_MOUSEKEY_LOCK_BUTTON_BUTTON15 then PointingButton_BUTTON15
      else if keycode = KeyCode_VK_MOUSEKEY_LOCK_BUTTON_BUTTON16 then PointingButton_BUTTON16
      else PointingButton_NONE)"

definition MouseKey_isKeyLikeModifier :: "KeyCode \<Rightarrow> bool" where
  "MouseKey_isKeyLikeModifier keycode =
     (if getPointingButton keycode \<noteq> PointingButton_NONE then True
      else keycode \<in> {KeyCode_VK_MOUSEKEY_UP, KeyCode_VK_MOUSEKEY_DOWN, KeyCode_VK_MOUSEKEY_LEFT,
        KeyCode_VK_MOUSEKEY_RIGHT, KeyCode_VK_MOUSEKEY_DIAGONAL_NE, KeyCode_VK_MOUSEKEY_DIAGONAL_NW,
        KeyCode_VK_MOUSEKEY_DIAGONAL_SE, KeyCode_VK_MOUSEKEY_DIAGONAL_SW, KeyCode_VK_MOUSEKEY_SCROLL_UP,
        KeyCode_VK_MOUSEKEY_SCROLL_DOWN, KeyCode_VK_MOUSEKEY_SCROLL_LEFT,
        KeyCode_VK_MOUSEKEY_SCROLL_RIGHT, KeyCode_VK_MOUSEKEY_HIGHSPEED})"

section \<open>Handlers\<close>

text \<open>Each handler returns whether it has consumed the event, and the new state.\<close>

definition fire_buttons ::
  "AutogenId \<Rightarrow> PhysicalEventType \<Rightarrow> 'a MouseState_scheme \<Rightarrow> 'a MouseState_scheme"
where
  "fire_buttons autogenId physicalEventType s =
     FireRelativePointer_fire autogenId physicalEventType (ButtonStatus_makeButtons (bs_item s)) 0 0 s"

definition handle_button ::
  "KeyboardParams \<Rightarrow> AutogenId \<Rightarrow> PhysicalEventType \<Rightarrow> 'a MouseState_scheme \<Rightarrow> bool \<times> 'a MouseState_scheme"
where
  "handle_button params autogenId physicalEventType s =
     (let button = getPointingButton (kp_key params) in
      if button = PointingButton_NONE then (False, s)
      else if kp_repeat params then (True, s)
      else if kp_ex_iskeydown params
      then (True, fire_buttons autogenId physicalEventType (ButtonStatus_increase button s))
      else (True, fire_buttons autogenId physicalEventType (ButtonStatus_decrease button s)))"

definition calculate_dx :: "'a MouseState_scheme \<Rightarrow> int" where
  "calculate_dx s = (if mk_right s then 1 else 0) + (if mk_left s then - 1 else 0)"

definition calculate_dy :: "'a MouseState_scheme \<Rightarrow> int" where
  "calculate_dy s = (if mk_down s then 1 else 0) + (if mk_up s then - 1 else 0)"

text \<open>The chain of \<open>if\<close>s in \<open>handle_move\<close>: \<open>None\<close> for a key that is not handled.\<close>

definition move_flags :: "KeyCode \<Rightarrow> bool \<Rightarrow> 'a MouseState_scheme \<Rightarrow> 'a MouseState_scheme option" where
  "move_flags key d s =
     (let pointer = (\<lambda>s. if d then s\<lparr>mk_scrollmode := False\<rparr> else s);
          scroll = (\<lambda>s. if d then s\<lparr>mk_scrollmode := True\<rparr> else s)
      in if key = KeyCode_VK_MOUSEKEY_UP then Some (pointer (s\<lparr>mk_up := d\<rparr>))
         else if key = KeyCode_VK_MOUSEKEY_DOWN then Some (pointer (s\<lparr>mk_down := d\<rparr>))
         else if key = KeyCode_VK_MOUSEKEY_LEFT then Some (pointer (s\<lparr>mk_left := d\<rparr>))
         else if key = KeyCode_VK_MOUSEKEY_RIGHT then Some (pointer (s\<lparr>mk_right := d\<rparr>))
         else if key = KeyCode_VK_MOUSEKEY_DIAGONAL_NE then Some (pointer (s\<lparr>mk_up := d, mk_right := d\<rparr>))
         else if key = KeyCode_VK_MOUSEKEY_DIAGONAL_NW then Some (pointer (s\<lparr>mk_up := d, mk_left := d\<rparr>))
         else if key = KeyCode_VK_MOUSEKEY_DIAGONAL_SE then Some (pointer (s\<lparr>mk_down := d, mk_right := d\<rparr>))
         else if key = KeyCode_VK_MOUSEKEY_DIAGONAL_SW then Some (pointer (s\<lparr>mk_down := d, mk_left := d\<rparr>))
         else if key = KeyCode_VK_MOUSEKEY_SCROLL_UP then Some (scroll (s\<lparr>mk_up := d\<rparr>))
         else if key = KeyCode_VK_MOUSEKEY_SCROLL_DOWN then Some (scroll (s\<lparr>mk_down := d\<rparr>))
         else if key = KeyCode_VK_MOUSEKEY_SCROLL_LEFT then Some (scroll (s\<lparr>mk_left := d\<rparr>))
         else if key = KeyCode_VK_MOUSEKEY_SCROLL_RIGHT then Some (scroll (s\<lparr>mk_right := d\<rparr>))
         else if key = KeyCode_VK_MOUSEKEY_HIGHSPEED then Some (s\<lparr>mk_highspeed := d\<rparr>)
         else None)"

definition handle_move ::
  "KeyboardParams \<Rightarrow> AutogenId \<Rightarrow> PhysicalEventType \<Rightarrow> 'a MouseState_scheme \<Rightarrow> bool \<times> 'a MouseState_scheme"
where
  "handle_move params autogenId physicalEventType s =
     (case move_flags (kp_key params) (kp_ex_iskeydown params) s of
        None \<Rightarrow> (False, s)
      | Some s1 \<Rightarrow>
          if kp_repeat params then (True, s)
          else
            let s = s1\<lparr>mk_autogenId := autogenId\<rparr> in
            if calculate_dx s \<noteq> 0 \<or> calculate_dy s \<noteq> 0
            then (True, s\<lparr>mk_timer := snd (setTimeoutMS
                    (if mk_scrollmode s then get_mousekey_initial_wait_of_scroll s
                     else get_mousekey_initial_wait_of_pointer s) True (mk_timer s))\<rparr>)
            else (True, s\<lparr>mk_scale := 1, mk_timer := cancelTimeout (mk_timer s)\<rparr>))"

definition fixed_distance ::
  "KeyCode \<Rightarrow> KeyCode \<Rightarrow> KeyCode \<Rightarrow> KeyCode \<Rightarrow> KeyCode \<Rightarrow> (int \<times> int) option"
where
  "fixed_distance up down left right key =
     (if key = up then Some (0, - 1) else if key = down then Some (0, 1)
      else if key = left then Some (- 1, 0) else if key = right then Some (1, 0) else None)"

definition handle_fixeddistancemove ::
  "KeyboardParams \<Rightarrow> AutogenId \<Rightarrow> PhysicalEventType \<Rightarrow> 'a MouseState_scheme \<Rightarrow> bool \<times> 'a MouseState_scheme"
where
  "handle_fixeddistancemove params autogenId physicalEventType s =
     (case fixed_distance KeyCode_VK_MOUSEKEY_FIXED_DISTANCE_UP KeyCode_VK_MOUSEKEY_FIXED_DISTANCE_DOWN
             KeyCode_VK_MOUSEKEY_FIXED_DISTANCE_LEFT KeyCode_VK_MOUSEKEY_FIXED_DISTANCE_RIGHT (kp_key params) of
        None \<Rightarrow> (False, s)
      | Some (fdx, fdy) \<Rightarrow>
          (True,
           if kp_ex_iskeydown params
           then FireRelativePointer_fire autogenId physicalEventType (ButtonStatus_makeButtons (bs_item s))
                  (sint (int_times_unsigned fdx (get_fixed_distance_magnification s)))
                  (sint (int_times_unsigned fdy (get_fixed_distance_magnification s))) s
           else s))"

definition FixedDistanceScroll_set ::
  "int \<Rightarrow> int \<Rightarrow> AutogenId \<Rightarrow> PhysicalEventType \<Rightarrow> 'a MouseState_scheme \<Rightarrow> 'a MouseState_scheme"
where
  "FixedDistanceScroll_set d1 d2 a p s =
     s\<lparr>fd_delta1 := d1 sdiv FixedDistanceScroll_MAX_COUNT, fd_delta2 := d2 sdiv FixedDistanceScroll_MAX_COUNT,
       fd_counter := FixedDistanceScroll_MAX_COUNT, fd_autogenId := a, fd_physicalEventType := p,
       fd_timer := snd (setTimeoutMS FixedDistanceScroll_TIMER_INTERVAL True (fd_timer s))\<rparr>"

definition handle_fixeddistancescroll ::
  "KeyboardParams \<Rightarrow> AutogenId \<Rightarrow> PhysicalEventType \<Rightarrow> 'a MouseState_scheme \<Rightarrow> bool \<times> 'a MouseState_scheme"
where
  "handle_fixeddistancescroll params autogenId physicalEventType s =
     (case fixed_distance KeyCode_VK_MOUSEKEY_FIXED_DISTANCE_SCROLL_UP
             KeyCode_VK_MOUSEKEY_FIXED_DISTANCE_SCROLL_DOWN KeyCode_VK_MOUSEKEY_FIXED_DISTANCE_SCROLL_LEFT
             KeyCode_VK_MOUSEKEY_FIXED_DISTANCE_SCROLL_RIGHT (kp_key params) of
        None \<Rightarrow> (False, s)
      | Some (fdx, fdy) \<Rightarrow>
          (True,
           if kp_ex_iskeydown params
           then
             let m = get_fixed_distance_scroll_magnification s;
                 delta1 = sint (int_times_unsigned fdy m * word_of_int FireScrollWheel_DELTA_SCALE);
                 delta2 = sint (int_times_unsigned fdx m * word_of_int FireScrollWheel_DELTA_SCALE);
                 reversed = (cs_config s parameter_mouse_key_scroll_not_natural_direction \<noteq> 0)
             in FixedDistanceScroll_set (if reversed then - delta1 else delta1)
                  (if reversed then - delta2 else delta2) autogenId physicalEventType s
           else s))"

definition handle_lock_button ::
  "KeyboardParams \<Rightarrow> AutogenId \<Rightarrow> PhysicalEventType \<Rightarrow> 'a MouseState_scheme \<Rightarrow> bool \<times> 'a MouseState_scheme"
where
  "handle_lock_button params autogenId physicalEventType s =
     (if kp_key params = KeyCode_VK_MOUSEKEY_LOCK_BUTTON_ALL_FORCE_OFF
      then (True, fire_buttons autogenId physicalEventType (ButtonStatus_lock_clear s))
      else
        let button = getPointingButtonFromLockKey (kp_key params) in
        if button = PointingButton_NONE then (False, s)
        else if kp_repeat params then (True, s)
        else if kp_ex_iskeydown params
        then (True, fire_buttons autogenId physicalEventType (ButtonStatus_lock_toggle button s))
        else (True, s))"

text \<open>The chain \<open>if (handle_...) return true;\<close>\<close>

fun first_handler :: "('s \<Rightarrow> bool \<times> 's) list \<Rightarrow> 's \<Rightarrow> bool \<times> 's" where
  "first_handler [] s = (False, s)"
| "first_handler (h # hs) s = (case h s of (True, s) \<Rightarrow> (True, s) | (False, s) \<Rightarrow> first_handler hs s)"

definition MouseKey_handle ::
  "KeyboardParams \<Rightarrow> AutogenId \<Rightarrow> PhysicalEventType \<Rightarrow> 'a MouseState_scheme \<Rightarrow> bool \<times> 'a MouseState_scheme"
where
  "MouseKey_handle params autogenId physicalEventType s =
     first_handler
       [handle_button params autogenId physicalEventType,
        handle_move params autogenId physicalEventType,
        handle_fixeddistancemove params autogenId physicalEventType,
        handle_fixeddistancescroll params autogenId physicalEventType,
        handle_lock_button params autogenId physicalEventType]
       (s\<lparr>mk_lastPhysicalEventType := physicalEventType\<rparr>)"

section \<open>Timers\<close>

definition FixedDistanceScroll_fire_timer_callback :: "'a MouseState_scheme \<Rightarrow> 'a MouseState_scheme" where
  "FixedDistanceScroll_fire_timer_callback s =
     (if fd_counter s \<le> 0 then s
      else
        let s = s\<lparr>fd_counter := fd_counter s - 1\<rparr>;
            s = FireScrollWheel_fire_delta (fd_delta1 s) (fd_delta2 s) (fd_autogenId s) (fd_physicalEventType s) s
        in s\<lparr>fd_timer := snd (setTimeoutMS FixedDistanceScroll_TIMER_INTERVAL True (fd_timer s))\<rparr>)"

definition accelerate :: "'a MouseState_scheme \<Rightarrow> 'a MouseState_scheme" where
  "accelerate s =
     (let max = (if mk_scrollmode s then cs_config s parameter_maximum_speed_of_scroll
                 else cs_config s parameter_maximum_speed_of_pointer);
          acceleration = (if mk_scrollmode s then cs_config s parameter_acceleration_of_scroll
                          else cs_config s parameter_acceleration_of_pointer);
          acceleration = (if acceleration < 0 then 0 else acceleration)
      in if mk_scale s < max then s\<lparr>mk_scale := mk_scale s + acceleration\<rparr> else s)"

definition MouseKey_send :: "'a MouseState_scheme \<Rightarrow> 'a MouseState_scheme" where
  "MouseKey_send s =
     (if \<not> mk_scrollmode s
      then
        let sc = (if mk_highspeed s then sint (get_mousekey_high_speed_of_pointer s) else mk_scale s)
        in FireRelativePointer_fire (mk_autogenId s) (mk_lastPhysicalEventType s)
             (ButtonStatus_makeButtons (bs_item s)) (calculate_dx s * sc) (calculate_dy s * sc) s
      else
        let sc = (if mk_highspeed s then sint (get_mousekey_high_speed_of_scroll s) else mk_scale s);
            delta1 = calculate_dy s * sc * FireScrollWheel_DELTA_SCALE;
            delta2 = calculate_dx s * sc * FireScrollWheel_DELTA_SCALE;
            reversed = (cs_config s parameter_mouse_key_scroll_not_natural_direction \<noteq> 0)
        in FireScrollWheel_fire_delta (if reversed then - delta1 else delta1)
             (if reversed then - delta2 else delta2) (mk_autogenId s) (mk_lastPhysicalEventType s) s)"

definition MouseKey_fire_timer_callback :: "'a MouseState_scheme \<Rightarrow> 'a MouseState_scheme" where
  "MouseKey_fire_timer_callback s =
     (let s = accelerate (MouseKey_send s)
      in s\<lparr>mk_timer := snd (setTimeoutMS
           (if mk_scrollmode s then get_mousekey_repeat_wait_of_scroll s
            else get_mousekey_repeat_wait_of_pointer s) True (mk_timer s))\<rparr>)"

text \<open>The event sources call back when their timeouts have passed.\<close>

definition MouseKey_tick :: "'a MouseState_scheme \<Rightarrow> 'a MouseState_scheme" where
  "MouseKey_tick s =
     (let (run, t) = timer_callback (mk_timer s);
          s = s\<lparr>mk_timer := t\<rparr>
      in if run then MouseKey_fire_timer_callback s else s)"

definition FixedDistanceScroll_tick :: "'a MouseState_scheme \<Rightarrow> 'a MouseState_scheme" where
  "FixedDistanceScroll_tick s =
     (let (run, t) = timer_callback (fd_timer s);
          s = s\<lparr>fd_timer := t\<rparr>
      in if run then FixedDistanceScroll_fire_timer_callback s else s)"

section \<open>What the output queue leaves alone\<close>

lemma mouse_more_eqD:
  fixes s t :: "'a MouseState_scheme"
  assumes "OutState.more t = OutState.more s"
  shows "mk_down t = mk_down s" and "mk_left t = mk_left s" and "mk_right t = mk_right s"
    and "mk_up t = mk_up s" and "mk_scale t = mk_scale s" and "mk_timer t = mk_timer s"
    and "fd_delta1 t = fd_delta1 s" and "fd_delta2 t = fd_delta2 s" and "fd_counter t = fd_counter s"
    and "fd_autogenId t = fd_autogenId s" and "fd_physicalEventType t = fd_physicalEventType s"
    and "fd_timer t = fd_timer s" and "mk_scrollmode t = mk_scrollmode s"
  using assms by (cases s; cases t; simp)+

lemma emits_mouse:
  fixes s t :: "'a MouseState_scheme"
  assumes "emits P s t"
  shows "mk_down t = mk_down s" and "mk_left t = mk_left s" and "mk_right t = mk_right s"
    and "mk_up t = mk_up s" and "mk_scale t = mk_scale s" and "mk_timer t = mk_timer s"
    and "fd_delta1 t = fd_delta1 s" and "fd_delta2 t = fd_delta2 s" and "fd_counter t = fd_counter s"
    and "fd_autogenId t = fd_autogenId s" and "fd_physicalEventType t = fd_physicalEventType s"
    and "fd_timer t = fd_timer s" and "mk_scrollmode t = mk_scrollmode s"
  using mouse_more_eqD [of t s] assms by (simp_all add: emits_def)

lemma updateStatusMessage_more:
  "OutState.more (ButtonStatus_updateStatusMessage s) = OutState.more s"
proof -
  have f: "OutState.more (fold (\<lambda>(button, name) s. if Buttons_isOn b button
              then append_statusmessage i (ascii name) s else s) names t) = OutState.more t"
    for b i names and t :: "'a OutState_scheme"
    by (induction names arbitrary: t) (auto simp: append_statusmessage_def)
  show ?thesis
    using f by (simp add: ButtonStatus_updateStatusMessage_def Let_def
        send_notification_statusmessage_def clear_statusmessage_def)
qed

lemma button_methods_more:
  fixes s :: "'a OutState_scheme"
  shows "OutState.more (ButtonStatus_increase b s) = OutState.more s"
    and "OutState.more (ButtonStatus_decrease b s) = OutState.more s"
    and "OutState.more (ButtonStatus_lock_toggle b s) = OutState.more s"
    and "OutState.more (ButtonStatus_lock_clear s) = OutState.more s"
  by (simp_all add: ButtonStatus_increase_def ButtonStatus_decrease_def ButtonStatus_lock_toggle_def
      ButtonStatus_lock_clear_def ButtonStatus_lock_decrease_def FOREACH_TO_BUTTONS_def
      updateStatusMessage_more)

lemmas fire_mouse [simp] =
  emits_mouse [OF FireRelativePointer_emits]

lemmas button_mouse [simp] =
  mouse_more_eqD [OF button_methods_more(1)] mouse_more_eqD [OF button_methods_more(2)]
  mouse_more_eqD [OF button_methods_more(3)] mouse_more_eqD [OF button_methods_more(4)]

definition is_scroll_or_modifier :: "Params \<Rightarrow> bool" where
  "is_scroll_or_modifier p = (case p of P_ScrollWheel _ \<Rightarrow> True | _ \<Rightarrow> is_modifier_change p)"

lemma FireScrollWheel_emits: "emits is_scroll_or_modifier s (FireScrollWheel_fire_delta d1 d2 a pe s)"
proof -
  have "emits is_scroll_or_modifier u (FireModifiers_fire_current a pe u)" for u :: "'a OutState_scheme"
    by (rule emits_mono [OF FireModifiers_emits(2)])
       (auto simp: is_scroll_or_modifier_def split: Params.split)
  from this [of "s\<lparr>fm_isIgnorePhysicalUpEvent := False\<rparr>"] show ?thesis
    unfolding FireScrollWheel_fire_delta_def FireScrollWheel_fire_def Let_def setIgnorePhysicalUpEvent_def
    by (auto elim!: emits_trans intro!: push_emits simp: is_scroll_or_modifier_def)
qed

lemmas scroll_mouse [simp] = emits_mouse [OF FireScrollWheel_emits]

section \<open>The pointer moves while movement keys are held\<close>

definition mouse_moving :: "'a MouseState_scheme \<Rightarrow> bool" where
  "mouse_moving s = (calculate_dx s \<noteq> 0 \<or> calculate_dy s \<noteq> 0)"

definition mouse_inv :: "'a MouseState_scheme \<Rightarrow> bool" where
  "mouse_inv s =
     (timer_reliable (mk_timer s) \<and> TimerWrapper_isActive (mk_timer s) = mouse_moving s \<and>
      1 \<le> mk_scale s \<and> (\<not> mouse_moving s \<longrightarrow> mk_scale s = 1))"

lemma mouse_moving_iff: "mouse_moving s \<longleftrightarrow> mk_left s \<noteq> mk_right s \<or> mk_up s \<noteq> mk_down s"
  by (auto simp: mouse_moving_def calculate_dx_def calculate_dy_def)

lemma mouse_inv_cong:
  assumes "mk_down t = mk_down s" and "mk_left t = mk_left s" and "mk_right t = mk_right s"
    and "mk_up t = mk_up s" and "mk_scale t = mk_scale s" and "mk_timer t = mk_timer s"
  shows "mouse_inv t = mouse_inv s"
  using assms by (simp add: mouse_inv_def mouse_moving_iff)

lemma cancel_reliable:
  assumes "timer_reliable t"
  shows "timer_reliable (cancelTimeout t)" and "\<not> TimerWrapper_isActive (cancelTimeout t)"
  using assms by (auto simp: timer_reliable_def timer_inv_def cancelTimeout_def TimerWrapper_isActive_def)

lemma initialize_inv:
  assumes "\<forall>ms milli. tw_accepts (mk_timer s) ms milli"
  shows "mouse_inv (MouseKey_initialize s)"
  using assms
  by (simp add: mouse_inv_def mouse_moving_iff MouseKey_initialize_def FixedDistanceScroll_initialize_def
      TimerWrapper_initialize_def TimerWrapper_terminate_def timer_reliable_def timer_inv_def
      TimerWrapper_isActive_def Let_def)

lemma reset_inv: "mouse_inv s \<Longrightarrow> mouse_inv (MouseKey_reset s)"
  by (simp add: mouse_inv_def mouse_moving_iff MouseKey_reset_def FixedDistanceScroll_reset_def cancel_reliable)

lemma move_flags_timer:
  assumes "move_flags key d s = Some t"
  shows "mk_timer t = mk_timer s" and "mk_scale t = mk_scale s"
  using assms by (auto simp: move_flags_def Let_def split: if_splits)

lemma handle_move_inv:
  assumes "mouse_inv s"
  shows "mouse_inv (snd (handle_move params a pe s))"
proof (cases "move_flags (kp_key params) (kp_ex_iskeydown params) s")
  case (Some t)
  note t = move_flags_timer [OF Some]
  have rel: "timer_reliable (mk_timer t)" using assms t by (simp add: mouse_inv_def)
  show ?thesis
    using assms Some setTimeout_reliable [OF rel] cancel_reliable [OF rel] t
    by (auto simp: handle_move_def Let_def mouse_inv_def mouse_moving_def calculate_dx_def calculate_dy_def)
qed (use assms in \<open>simp add: handle_move_def\<close>)

lemma button_handlers_inv:
  assumes "mouse_inv s"
  shows "mouse_inv (snd (handle_button params a pe s))"
    and "mouse_inv (snd (handle_lock_button params a pe s))"
    and "mouse_inv (snd (handle_fixeddistancemove params a pe s))"
    and "mouse_inv (snd (handle_fixeddistancescroll params a pe s))"
  using assms
  by (auto simp: handle_button_def handle_lock_button_def handle_fixeddistancemove_def
      handle_fixeddistancescroll_def fire_buttons_def FixedDistanceScroll_set_def Let_def
      split: option.split elim!: mouse_inv_cong [THEN iffD2, rotated -1])

lemma first_handler_inv:
  assumes "P s" and "\<And>h s. h \<in> set hs \<Longrightarrow> P s \<Longrightarrow> P (snd (h s))"
  shows "P (snd (first_handler hs s))"
  using assms by (induction hs arbitrary: s) (force split: prod.split bool.split)+

lemma handle_inv: "mouse_inv s \<Longrightarrow> mouse_inv (snd (MouseKey_handle params a pe s))"
  unfolding MouseKey_handle_def
  by (rule first_handler_inv)
     (auto simp: button_handlers_inv handle_move_inv mouse_inv_cong [of "s\<lparr>mk_lastPhysicalEventType := pe\<rparr>" s])

lemma accelerate_fields [simp]:
  "mk_timer (accelerate s) = mk_timer s" "mk_left (accelerate s) = mk_left s"
  "mk_right (accelerate s) = mk_right s" "mk_up (accelerate s) = mk_up s" "mk_down (accelerate s) = mk_down s"
  "mk_scale s \<le> mk_scale (accelerate s)"
  by (simp_all add: accelerate_def Let_def)

lemma send_fields [simp]:
  "mk_timer (MouseKey_send s) = mk_timer s" "mk_scale (MouseKey_send s) = mk_scale s"
  "mk_left (MouseKey_send s) = mk_left s" "mk_right (MouseKey_send s) = mk_right s"
  "mk_up (MouseKey_send s) = mk_up s" "mk_down (MouseKey_send s) = mk_down s"
  by (simp_all add: MouseKey_send_def Let_def)

lemma tick_inv:
  assumes "mouse_inv s"
  shows "mouse_inv (MouseKey_tick s)"
proof (cases "mouse_moving s")
  case False
  then have "\<not> TimerWrapper_isActive (mk_timer s)" using assms by (simp add: mouse_inv_def)
  moreover have "timer_reliable (mk_timer s)" using assms by (simp add: mouse_inv_def)
  ultimately have "fst (timer_callback (mk_timer s)) = False"
    "timer_reliable (snd (timer_callback (mk_timer s)))"
    "\<not> TimerWrapper_isActive (snd (timer_callback (mk_timer s)))"
    by (auto simp: timer_callback_def TimerWrapper_isActive_def timer_reliable_def timer_inv_def)
  with False assms show ?thesis
    by (simp add: MouseKey_tick_def case_prod_unfold Let_def mouse_inv_def mouse_moving_iff)
next
  case True
  define u where "u = s\<lparr>mk_timer := snd (timer_callback (mk_timer s))\<rparr>"
  have run: "fst (timer_callback (mk_timer s))"
    using True assms by (simp add: mouse_inv_def timer_callback_def TimerWrapper_isActive_def Let_def)
  have rel: "timer_reliable (mk_timer u)"
    using callback_reliable [of "mk_timer s"] assms by (simp add: u_def mouse_inv_def)
  have "1 \<le> mk_scale (accelerate (MouseKey_send u))"
    using order_trans [OF _ accelerate_fields(6) [of "MouseKey_send u"]] assms
    by (simp add: u_def mouse_inv_def)
  then have "mouse_inv (MouseKey_fire_timer_callback u)"
    using True setTimeout_reliable [OF rel]
    by (simp add: MouseKey_fire_timer_callback_def Let_def mouse_inv_def mouse_moving_iff u_def)
  with run show ?thesis by (simp add: MouseKey_tick_def case_prod_unfold Let_def u_def)
qed

lemma scroll_tick_fields:
  "mk_timer (FixedDistanceScroll_tick s) = mk_timer s" "mk_scale (FixedDistanceScroll_tick s) = mk_scale s"
  "mk_left (FixedDistanceScroll_tick s) = mk_left s" "mk_right (FixedDistanceScroll_tick s) = mk_right s"
  "mk_up (FixedDistanceScroll_tick s) = mk_up s" "mk_down (FixedDistanceScroll_tick s) = mk_down s"
  by (simp_all add: FixedDistanceScroll_tick_def FixedDistanceScroll_fire_timer_callback_def
      case_prod_unfold Let_def)

lemma scroll_tick_inv: "mouse_inv s \<Longrightarrow> mouse_inv (FixedDistanceScroll_tick s)"
  using mouse_inv_cong [of "FixedDistanceScroll_tick s" s] by (simp add: scroll_tick_fields)

lemma other_inv:
  assumes "OutState.more t = OutState.more s" and "mouse_inv s"
  shows "mouse_inv t"
  using mouse_inv_cong [of t s] mouse_more_eqD [OF assms(1)] assms(2) by simp

inductive mouse_step :: "'a MouseState_scheme \<Rightarrow> 'a MouseState_scheme \<Rightarrow> bool" where
  mouse_handle: "mouse_step s (snd (MouseKey_handle params a pe s))"
| mouse_tick: "mouse_step s (MouseKey_tick s)"
| mouse_scroll_tick: "mouse_step s (FixedDistanceScroll_tick s)"
| mouse_reset: "mouse_step s (MouseKey_reset s)"
| mouse_other: "OutState.more t = OutState.more s \<Longrightarrow> mouse_step s t"

lemma mouse_step_inv: "mouse_step s t \<Longrightarrow> mouse_inv s \<Longrightarrow> mouse_inv t"
  by (induction rule: mouse_step.induct) (blast intro: handle_inv tick_inv scroll_tick_inv reset_inv other_inv)+

lemma mouse_steps_inv: "mouse_step\<^sup>*\<^sup>* s t \<Longrightarrow> mouse_inv s \<Longrightarrow> mouse_inv t"
  by (induction rule: rtranclp_induct) (auto intro: mouse_step_inv)

text \<open>
  C37: Whatever mouse keys were pressed and released and however often the timers fired since
  initialization, with any change of the other components in between, the movement timer is
  active exactly while the held keys give a direction, and then the next callback keeps it active;
  the speed is at least 1, and 1 when nothing moves.
\<close>

theorem MouseKey_moves_while_held:
  assumes "\<forall>ms milli. tw_accepts (mk_timer s0) ms milli"
    and "mouse_step\<^sup>*\<^sup>* (MouseKey_initialize s0) s"
  shows "TimerWrapper_isActive (mk_timer s) = (mk_left s \<noteq> mk_right s \<or> mk_up s \<noteq> mk_down s) \<and>
    TimerWrapper_isActive (mk_timer (MouseKey_tick s)) = TimerWrapper_isActive (mk_timer s) \<and>
    1 \<le> mk_scale s \<and> (TimerWrapper_isActive (mk_timer s) \<or> mk_scale s = 1)"
proof -
  have inv: "mouse_inv s" using mouse_steps_inv [OF assms(2) initialize_inv [OF assms(1)]] .
  have "mouse_inv (MouseKey_tick s)" using tick_inv [OF inv] .
  moreover have "mouse_moving (MouseKey_tick s) = mouse_moving s"
    by (simp add: MouseKey_tick_def case_prod_unfold Let_def MouseKey_fire_timer_callback_def mouse_moving_iff)
  ultimately show ?thesis using inv by (auto simp: mouse_inv_def mouse_moving_iff)
qed

text \<open>The state after start-up.\<close>

definition mouse_static :: MouseState where
  "mouse_static = OutState.extend out_boot
     \<lparr>mk_down = False, mk_left = False, mk_right = False, mk_up = False, mk_scale = 0, mk_scrollmode = False,
      mk_highspeed = False, mk_autogenId = 0, mk_lastPhysicalEventType = PE_DOWN, mk_timer = timer_static,
      fd_delta1 = 0, fd_delta2 = 0, fd_counter = 0, fd_autogenId = 0, fd_physicalEventType = PE_DOWN,
      fd_timer = timer_static\<rparr>"

lemma mouse_static_simps [simp]:
  "mk_timer mouse_static = timer_static" "fd_timer mouse_static = timer_static"
  by (simp_all add: mouse_static_def OutState.extend_def)

theorem MouseKey_moves_while_held_witness:
  "let s = snd (MouseKey_handle (KeyboardParams_new [] EventType_DOWN 0 KeyCode_VK_MOUSEKEY_UP 0 False) 0 PE_DOWN
             (MouseKey_initialize mouse_static))
   in mk_up s \<and> TimerWrapper_isActive (mk_timer s)"
proof -
  let ?p = "KeyboardParams_new [] EventType_DOWN 0 KeyCode_VK_MOUSEKEY_UP 0 False"
  let ?s = "snd (MouseKey_handle ?p 0 PE_DOWN (MouseKey_initialize mouse_static))"
  have "mouse_step\<^sup>*\<^sup>* (MouseKey_initialize mouse_static) ?s" by (intro r_into_rtranclp mouse_handle)
  moreover have "mk_up ?s" "\<not> mk_down ?s"
    by (simp_all add: MouseKey_handle_def handle_button_def handle_move_def move_flags_def getPointingButton_def
        isKeyDownOrModifierDown_def MouseKey_initialize_def FixedDistanceScroll_initialize_def Let_def
        KeyboardParams_new_def KeyboardParams_full_def)
  ultimately show ?thesis
    using MouseKey_moves_while_held [of mouse_static ?s] by (simp add: timer_static_def Let_def)
qed

section \<open>A fixed distance scroll sends its steps and stops\<close>

definition scroll_events :: "OutItem list \<Rightarrow> Params list" where
  "scroll_events items = filter (\<lambda>p. case p of P_ScrollWheel _ \<Rightarrow> True | _ \<Rightarrow> False) (map oi_params items)"

lemma scroll_events_append: "scroll_events (xs @ ys) = scroll_events xs @ scroll_events ys"
  by (simp add: scroll_events_def)

lemma scroll_events_modifiers:
  assumes "\<forall>e \<in> set evs. is_modifier_change (oi_params e)"
  shows "scroll_events evs = []"
  using assms by (auto simp: scroll_events_def filter_empty_conv is_modifier_change_def split: Params.splits)

lemma FireScrollWheel_scroll_events:
  "scroll_events (oq_queue (FireScrollWheel_fire_delta d1 d2 a pe s)) =
     scroll_events (oq_queue s) @ [P_ScrollWheel (scroll_params (cs_config s pointing_relative2scroll_rate) d1 d2)]"
proof -
  have "emits is_modifier_change s (FireModifiers_fire_current a pe (setIgnorePhysicalUpEvent False s))"
    using FireModifiers_emits(2) [of "setIgnorePhysicalUpEvent False s" a pe]
    by (simp add: setIgnorePhysicalUpEvent_def)
  then obtain evs where "oq_queue (FireModifiers_fire_current a pe (setIgnorePhysicalUpEvent False s)) = oq_queue s @ evs"
    and "\<forall>e \<in> set evs. is_modifier_change (oi_params e)"
    unfolding emits_def by blast
  then show ?thesis
    using scroll_events_modifiers
    by (simp add: FireScrollWheel_fire_delta_def FireScrollWheel_fire_def Let_def push_fields scroll_events_append)
       (simp add: scroll_events_def)
qed

lemma FireScrollWheel_config: "cs_config (FireScrollWheel_fire_delta d1 d2 a pe s) = cs_config s"
  using FireScrollWheel_emits [of s d1 d2 a pe] by (simp add: emits_def)

definition scroll_step :: "'a MouseState_scheme \<Rightarrow> Params" where
  "scroll_step s = P_ScrollWheel
     (scroll_params (cs_config s pointing_relative2scroll_rate) (fd_delta1 s) (fd_delta2 s))"

lemma scroll_tick_idle:
  assumes "\<not> TimerWrapper_isActive (fd_timer s)" and "timer_reliable (fd_timer s)"
  shows "\<not> TimerWrapper_isActive (fd_timer (FixedDistanceScroll_tick s))"
    and "timer_reliable (fd_timer (FixedDistanceScroll_tick s))"
    and "oq_queue (FixedDistanceScroll_tick s) = oq_queue s"
  using assms
  by (auto simp: FixedDistanceScroll_tick_def timer_callback_def TimerWrapper_isActive_def timer_reliable_def
      timer_inv_def Let_def)

lemma scroll_ticks_idle:
  assumes "\<not> TimerWrapper_isActive (fd_timer s)" and "timer_reliable (fd_timer s)"
  shows "\<not> TimerWrapper_isActive (fd_timer ((FixedDistanceScroll_tick ^^ m) s)) \<and>
         oq_queue ((FixedDistanceScroll_tick ^^ m) s) = oq_queue s"
  using assms
proof (induction m arbitrary: s)
  case (Suc m)
  then show ?case
    using scroll_tick_idle [OF Suc.prems] by (simp add: funpow_Suc_right del: funpow.simps)
qed simp

lemma scroll_tick_active:
  assumes "TimerWrapper_isActive (fd_timer s)" and "timer_reliable (fd_timer s)"
  shows "timer_reliable (fd_timer (FixedDistanceScroll_tick s))"
    and "TimerWrapper_isActive (fd_timer (FixedDistanceScroll_tick s)) = (fd_counter s > 0)"
    and "fd_counter (FixedDistanceScroll_tick s) = (if fd_counter s > 0 then fd_counter s - 1 else fd_counter s)"
    and "scroll_step (FixedDistanceScroll_tick s) = scroll_step s"
    and "scroll_events (oq_queue (FixedDistanceScroll_tick s)) =
           scroll_events (oq_queue s) @ (if fd_counter s > 0 then [scroll_step s] else [])"
proof -
  have cb: "fst (timer_callback (fd_timer s))" "timer_reliable (snd (timer_callback (fd_timer s)))"
    "\<not> TimerWrapper_isActive (snd (timer_callback (fd_timer s)))"
    using assms callback_reliable [OF assms(2)]
    by (simp_all add: timer_callback_def TimerWrapper_isActive_def Let_def)
  note simps = FixedDistanceScroll_tick_def FixedDistanceScroll_fire_timer_callback_def case_prod_unfold Let_def
  show "timer_reliable (fd_timer (FixedDistanceScroll_tick s))"
    and "TimerWrapper_isActive (fd_timer (FixedDistanceScroll_tick s)) = (fd_counter s > 0)"
    using cb setTimeout_reliable [OF cb(2)] by (simp_all add: simps)
  show "fd_counter (FixedDistanceScroll_tick s) = (if fd_counter s > 0 then fd_counter s - 1 else fd_counter s)"
    using cb(1) by (simp add: simps)
  show "scroll_step (FixedDistanceScroll_tick s) = scroll_step s"
    using cb(1) by (simp add: simps scroll_step_def FireScrollWheel_config)
  show "scroll_events (oq_queue (FixedDistanceScroll_tick s)) =
           scroll_events (oq_queue s) @ (if fd_counter s > 0 then [scroll_step s] else [])"
    using cb(1) by (simp add: simps FireScrollWheel_scroll_events scroll_step_def)
qed

lemma scroll_ticks:
  assumes "TimerWrapper_isActive (fd_timer s)" and "timer_reliable (fd_timer s)" and "fd_counter s = int n"
  shows "scroll_events (oq_queue ((FixedDistanceScroll_tick ^^ m) s)) =
           scroll_events (oq_queue s) @ replicate (min m n) (scroll_step s) \<and>
         TimerWrapper_isActive (fd_timer ((FixedDistanceScroll_tick ^^ m) s)) = (m \<le> n)"
  using assms
proof (induction m arbitrary: s n)
  case (Suc m)
  note t = scroll_tick_active [OF Suc.prems(1,2)]
  show ?case
  proof (cases n)
    case 0
    then have "\<not> TimerWrapper_isActive (fd_timer (FixedDistanceScroll_tick s))" using t(2) Suc.prems(3) by simp
    from scroll_ticks_idle [OF this t(1), of m] 0 t(5) Suc.prems(3) show ?thesis
      by (simp add: funpow_Suc_right del: funpow.simps)
  next
    case (Suc k)
    have "TimerWrapper_isActive (fd_timer (FixedDistanceScroll_tick s))"
      "fd_counter (FixedDistanceScroll_tick s) = int k"
      using t(2,3) Suc.prems(3) Suc by simp_all
    from Suc.IH [OF this(1) t(1) this(2)] t(4,5) Suc.prems(3) Suc show ?thesis
      by (simp add: funpow_Suc_right del: funpow.simps)
  qed
qed simp

text \<open>
  After a fixed distance scroll by \<open>d1\<close> and \<open>d2\<close>, the first hundred callbacks of its timer send one scroll event
  each, for a hundredth of the distance rounded towards zero; the callback after that sends
  nothing, and the timer stops.
\<close>

theorem FixedDistanceScroll_steps:
  assumes "timer_reliable (fd_timer s)"
  shows "let t = (FixedDistanceScroll_tick ^^ m) (FixedDistanceScroll_set d1 d2 a pe s) in
    scroll_events (oq_queue t) = scroll_events (oq_queue s) @
      replicate (min m 100) (P_ScrollWheel
        (scroll_params (cs_config s pointing_relative2scroll_rate) (d1 sdiv 100) (d2 sdiv 100))) \<and>
    TimerWrapper_isActive (fd_timer t) = (m \<le> 100)"
proof -
  let ?s = "FixedDistanceScroll_set d1 d2 a pe s"
  have "TimerWrapper_isActive (fd_timer ?s)" "timer_reliable (fd_timer ?s)"
    using setTimeout_reliable [OF assms] by (simp_all add: FixedDistanceScroll_set_def)
  from scroll_ticks [OF this, of 100 m] show ?thesis
    by (simp add: FixedDistanceScroll_set_def scroll_step_def Let_def)
qed

theorem FixedDistanceScroll_steps_witness:
  "let s = MouseKey_initialize mouse_static;
       t = (FixedDistanceScroll_tick ^^ 101) (FixedDistanceScroll_set 640 0 0 PE_DOWN s)
   in length (scroll_events (oq_queue t)) = length (scroll_events (oq_queue s)) + 100 \<and>
      \<not> TimerWrapper_isActive (fd_timer t)"
proof -
  have "timer_reliable (fd_timer (MouseKey_initialize mouse_static))"
    by (simp add: MouseKey_initialize_def FixedDistanceScroll_initialize_def timer_reliable_def timer_inv_def
        TimerWrapper_initialize_def timer_static_def)
  from FixedDistanceScroll_steps [OF this, of 101 640 0 0 PE_DOWN] show ?thesis
    by (simp add: Let_def)
qed

end
