(* ===== verification/VirtualKeys.thy ===== *)
theory VirtualKeys
  imports MouseKey KeyNormalize
begin

text \<open>
  The virtual keys (\<^verbatim>\<open>VirtualKey.cpp\<close> and \<^verbatim>\<open>VirtualKey/VK_*.cpp\<close>) and \<^verbatim>\<open>EventOutputQueue::FireKey\<close>, which
  offers every key event to them before it sends it. A handler returns whether it has consumed the
  event. Some handlers call \<open>FireKey::fire\<close> again with another key; that recursion has fuel here, and
  \<open>FireKey_terminates\<close> shows how much is enough.
\<close>

section \<open>State\<close>

text \<open>
  What the virtual keys use of a remap class. A pointer to one is an address or null; the
  constants \<open>NX_...\<close> of the IOKit headers are symbolic.
\<close>

record RemapClassObj =
  rc_enabled :: bool
  rc_configindex :: u32

record ConfigItem =
  ci_remapclass :: "nat option"
  ci_keycode_toggle :: u32
  ci_keycode_force_on :: u32
  ci_keycode_force_off :: u32
  ci_keycode_sync_keydownup :: u32

record UserspaceItem =
  ui_remapclass :: "nat option"
  ui_keycode :: u32
  ui_notification_type :: u32

datatype NX_KEYTYPE
  = NX_KEYTYPE_SOUND_UP
  | NX_KEYTYPE_SOUND_DOWN
  | NX_KEYTYPE_BRIGHTNESS_UP
  | NX_KEYTYPE_BRIGHTNESS_DOWN
  | NX_KEYTYPE_MUTE
  | NX_KEYTYPE_PLAY
  | NX_KEYTYPE_NEXT
  | NX_KEYTYPE_PREVIOUS
  | NX_KEYTYPE_ILLUMINATION_UP
  | NX_KEYTYPE_ILLUMINATION_DOWN
  | NX_KEYTYPE_ILLUMINATION_TOGGLE
  | NX_POWER_KEY

text \<open>
  \<open>vk_numLock\<close> is the num lock state of the hooked keyboard, if there is one; \<open>vk_nx\<close> gives the
  numbers of the IOKit constants.
\<close>

record VKState = MouseState +
  vk_remapclass :: "nat \<Rightarrow> RemapClassObj"
  vk_refresh_timer :: TimerWrapper
  vc_items :: "ConfigItem list"
  vu_items :: "UserspaceItem list"
  vk_needToDrop :: bool
  vp_changedKeyCodes :: "KeyCode list"
  vp_active :: bool
  vp_eventType :: EventType
  vj_newkeycode :: KeyCode
  vk_fnkeyhack :: "FNKeyHack list"
  vk_numLock :: "bool option"
  vk_nx :: "NX_KEYTYPE \<Rightarrow> nat"

abbreviation (input) NOTIFICATION_CONFIG_ENABLED_UPDATED :: nat where "NOTIFICATION_CONFIG_ENABLED_UPDATED \<equiv> 1"
abbreviation (input) NOTIFICATION_IOHIDPOSTEVENT :: nat where "NOTIFICATION_IOHIDPOSTEVENT \<equiv> 5"

definition send_notification_to_userspace :: "nat \<Rightarrow> nat \<Rightarrow> 'a VKState_scheme \<Rightarrow> 'a VKState_scheme" where
  "send_notification_to_userspace type option s =
     s\<lparr>cs_notifications := cs_notifications s @ [(type, option)]\<rparr>"

section \<open>VK_CONFIG\<close>

definition setEnabled :: "nat \<Rightarrow> bool \<Rightarrow> 'a VKState_scheme \<Rightarrow> 'a VKState_scheme" where
  "setEnabled r newval s =
     s\<lparr>vk_remapclass := (vk_remapclass s)(r := (vk_remapclass s r)\<lparr>rc_enabled := newval\<rparr>)\<rparr>"

definition toggleEnabled :: "nat \<Rightarrow> 'a VKState_scheme \<Rightarrow> 'a VKState_scheme" where
  "toggleEnabled r s = setEnabled r (\<not> rc_enabled (vk_remapclass s r)) s"

definition RemapClassManager_refresh :: "'a VKState_scheme \<Rightarrow> 'a VKState_scheme" where
  "RemapClassManager_refresh s = s\<lparr>vk_refresh_timer := snd (setTimeoutMS 0 True (vk_refresh_timer s))\<rparr>"

definition VK_CONFIG_add_item ::
  "nat option \<Rightarrow> u32 \<Rightarrow> u32 \<Rightarrow> u32 \<Rightarrow> u32 \<Rightarrow> 'a VKState_scheme \<Rightarrow> 'a VKState_scheme"
where
  "VK_CONFIG_add_item r toggle force_on force_off sync s =
     s\<lparr>vc_items := vc_items s @ [\<lparr>ci_remapclass = r, ci_keycode_toggle = toggle, ci_keycode_force_on = force_on,
        ci_keycode_force_off = force_off, ci_keycode_sync_keydownup = sync\<rparr>]\<rparr>"

definition VK_CONFIG_clear_items :: "'a VKState_scheme \<Rightarrow> 'a VKState_scheme" where
  "VK_CONFIG_clear_items s = s\<lparr>vc_items := []\<rparr>"

text \<open>The code after the label \<open>refresh\<close>.\<close>

definition VK_CONFIG_refresh :: "nat \<Rightarrow> bool \<Rightarrow> 'a VKState_scheme \<Rightarrow> bool \<times> 'a VKState_scheme" where
  "VK_CONFIG_refresh r value_old s =
     (True,
      if value_old \<noteq> rc_enabled (vk_remapclass s r)
      then send_notification_to_userspace NOTIFICATION_CONFIG_ENABLED_UPDATED
             (unat (rc_configindex (vk_remapclass s r))) (RemapClassManager_refresh s)
      else s)"

fun VK_CONFIG_loop ::
  "ConfigItem list \<Rightarrow> KeyboardParams \<Rightarrow> AutogenId \<Rightarrow> PhysicalEventType \<Rightarrow> 'a VKState_scheme \<Rightarrow>
   bool \<times> 'a VKState_scheme"
where
  "VK_CONFIG_loop [] params autogenId physicalEventType s = (False, s)"
| "VK_CONFIG_loop (item # items) params autogenId physicalEventType s =
     (case ci_remapclass item of
        None \<Rightarrow> (False, s)
      | Some r \<Rightarrow>
          let value_old = rc_enabled (vk_remapclass s r) in
          if kp_key params = ci_keycode_toggle item
          then (if kp_repeat params then (True, s)
                else if kp_ex_iskeydown params then VK_CONFIG_refresh r value_old (toggleEnabled r s)
                else (True, s))
          else if kp_key params = ci_keycode_force_on item
          then (if kp_repeat params then (True, s)
                else if kp_ex_iskeydown params then VK_CONFIG_refresh r value_old (setEnabled r True s)
                else (True, s))
          else if kp_key params = ci_keycode_force_off item
          then (if kp_repeat params then (True, s)
                else if kp_ex_iskeydown params then VK_CONFIG_refresh r value_old (setEnabled r False s)
                else (True, s))
          else if kp_key params = ci_keycode_sync_keydownup item
          then (if kp_repeat params then (True, s)
                else VK_CONFIG_refresh r value_old
                       (FireModifiers_fire_current autogenId physicalEventType
                          (setEnabled r (kp_ex_iskeydown params) s)))
          else VK_CONFIG_loop items params autogenId physicalEventType s)"

definition VK_CONFIG_handle ::
  "KeyboardParams \<Rightarrow> AutogenId \<Rightarrow> PhysicalEventType \<Rightarrow> 'a VKState_scheme \<Rightarrow> bool \<times> 'a VKState_scheme"
where
  "VK_CONFIG_handle params autogenId physicalEventType s =
     VK_CONFIG_loop (vc_items s) params autogenId physicalEventType s"

definition is_VK_CONFIG_SYNC_KEYDOWNUP :: "KeyCode \<Rightarrow> 'a VKState_scheme \<Rightarrow> bool" where
  "is_VK_CONFIG_SYNC_KEYDOWNUP keycode s = (\<exists>i \<in> set (vc_items s). keycode = ci_keycode_sync_keydownup i)"

section \<open>VK_CONSUMERKEY\<close>

definition consumer_of_key :: "KeyCode \<Rightarrow> ConsumerKeyCode" where
  "consumer_of_key key =
     (if key = KeyCode_VK_CONSUMERKEY_BRIGHTNESS_DOWN then ConsumerKeyCode_BRIGHTNESS_DOWN
      else if key = KeyCode_VK_CONSUMERKEY_BRIGHTNESS_UP then ConsumerKeyCode_BRIGHTNESS_UP
      else if key = KeyCode_VK_CONSUMERKEY_KEYBOARDLIGHT_LOW then ConsumerKeyCode_KEYBOARDLIGHT_LOW
      else if key = KeyCode_VK_CONSUMERKEY_KEYBOARDLIGHT_HIGH then ConsumerKeyCode_KEYBOARDLIGHT_HIGH
      else if key = KeyCode_VK_CONSUMERKEY_MUSIC_PREV then ConsumerKeyCode_MUSIC_PREV
      else if key = KeyCode_VK_CONSUMERKEY_MUSIC_PLAY then ConsumerKeyCode_MUSIC_PLAY
      else if key = KeyCode_VK_CONSUMERKEY_MUSIC_NEXT then ConsumerKeyCode_MUSIC_NEXT
      else if key = KeyCode_VK_CONSUMERKEY_VOLUME_MUTE then ConsumerKeyCode_VOLUME_MUTE
      else if key = KeyCode_VK_CONSUMERKEY_VOLUME_DOWN then ConsumerKeyCode_VOLUME_DOWN
      else if key = KeyCode_VK_CONSUMERKEY_VOLUME_UP then ConsumerKeyCode_VOLUME_UP
      else if key = KeyCode_VK_CONSUMERKEY_EJECT then ConsumerKeyCode_EJECT
      else if key = KeyCode_VK_CONSUMERKEY_POWER then ConsumerKeyCode_POWER
      else ConsumerKeyCode_VK_NONE)"

definition VK_CONSUMERKEY_handle ::
  "KeyboardParams \<Rightarrow> AutogenId \<Rightarrow> PhysicalEventType \<Rightarrow> 'a VKState_scheme \<Rightarrow> bool \<times> 'a VKState_scheme"
where
  "VK_CONSUMERKEY_handle params autogenId physicalEventType s =
     (let key = consumer_of_key (kp_key params) in
      if key = ConsumerKeyCode_VK_NONE then (False, s)
      else if \<not> ConsumerKeyCode_isRepeatable key \<and> kp_repeat params then (True, s)
      else (True, FireConsumer_fire
              (SpecialParams_new (kp_eventType params) (kp_flags params) key (kp_repeat params))
              autogenId physicalEventType s))"

section \<open>Keys for user space\<close>

definition VK_DEFINED_IN_USERSPACE_add_item ::
  "nat option \<Rightarrow> u32 \<Rightarrow> u32 \<Rightarrow> 'a VKState_scheme \<Rightarrow> 'a VKState_scheme"
where
  "VK_DEFINED_IN_USERSPACE_add_item r keycode notification_type s =
     s\<lparr>vu_items := vu_items s @ [\<lparr>ui_remapclass = r, ui_keycode = keycode, ui_notification_type = notification_type\<rparr>]\<rparr>"

definition VK_DEFINED_IN_USERSPACE_clear_items :: "'a VKState_scheme \<Rightarrow> 'a VKState_scheme" where
  "VK_DEFINED_IN_USERSPACE_clear_items s = s\<lparr>vu_items := []\<rparr>"

definition VK_DEFINED_IN_USERSPACE_handle ::
  "KeyboardParams \<Rightarrow> AutogenId \<Rightarrow> PhysicalEventType \<Rightarrow> 'a VKState_scheme \<Rightarrow> bool \<times> 'a VKState_scheme"
where
  "VK_DEFINED_IN_USERSPACE_handle params autogenId physicalEventType s = (False, s)"

fun VK_DEFINED_IN_USERSPACE_loop ::
  "UserspaceItem list \<Rightarrow> KeyboardParams \<Rightarrow> 'a VKState_scheme \<Rightarrow> bool \<times> 'a VKState_scheme"
where
  "VK_DEFINED_IN_USERSPACE_loop [] params s = (False, s)"
| "VK_DEFINED_IN_USERSPACE_loop (item # items) params s =
     (if ui_remapclass item = None then (False, s)
      else if kp_key params = ui_keycode item
      then (True,
            if kp_ex_iskeydown params \<and> \<not> kp_repeat params
            then send_notification_to_userspace (unat (ui_notification_type item)) (unat (kp_key params)) s
            else s)
      else VK_DEFINED_IN_USERSPACE_loop items params s)"

definition VK_DEFINED_IN_USERSPACE_handleAfterEnqueued ::
  "KeyboardParams \<Rightarrow> 'a VKState_scheme \<Rightarrow> bool \<times> 'a VKState_scheme"
where
  "VK_DEFINED_IN_USERSPACE_handleAfterEnqueued params s = VK_DEFINED_IN_USERSPACE_loop (vu_items s) params s"

definition VK_IOHIDPOSTEVENT_handle ::
  "KeyboardParams \<Rightarrow> AutogenId \<Rightarrow> PhysicalEventType \<Rightarrow> 'a VKState_scheme \<Rightarrow> bool \<times> 'a VKState_scheme"
where
  "VK_IOHIDPOSTEVENT_handle params autogenId physicalEventType s = (False, s)"

definition keytype_of_key :: "KeyCode \<Rightarrow> NX_KEYTYPE option" where
  "keytype_of_key key =
     (if key = KeyCode_VK_IOHIDPOSTEVENT_NX_KEYTYPE_SOUND_UP then Some NX_KEYTYPE_SOUND_UP
      else if key = KeyCode_VK_IOHIDPOSTEVENT_NX_KEYTYPE_SOUND_DOWN then Some NX_KEYTYPE_SOUND_DOWN
      else if key = KeyCode_VK_IOHIDPOSTEVENT_NX_KEYTYPE_BRIGHTNESS_UP then Some NX_KEYTYPE_BRIGHTNESS_UP
      else if key = KeyCode_VK_IOHIDPOSTEVENT_NX_KEYTYPE_BRIGHTNESS_DOWN then Some NX_KEYTYPE_BRIGHTNESS_DOWN
      else if key = KeyCode_VK_IOHIDPOSTEVENT_NX_KEYTYPE_MUTE then Some NX_KEYTYPE_MUTE
      else if key = KeyCode_VK_IOHIDPOSTEVENT_NX_KEYTYPE_PLAY then Some NX_KEYTYPE_PLAY
      else if key = KeyCode_VK_IOHIDPOSTEVENT_NX_KEYTYPE_NEXT then Some NX_KEYTYPE_NEXT
      else if key = KeyCode_VK_IOHIDPOSTEVENT_NX_KEYTYPE_PREVIOUS then Some NX_KEYTYPE_PREVIOUS
      else if key = KeyCode_VK_IOHIDPOSTEVENT_NX_KEYTYPE_ILLUMINATION_UP then Some NX_KEYTYPE_ILLUMINATION_UP
      else if key = KeyCode_VK_IOHIDPOSTEVENT_NX_KEYTYPE_ILLUMINATION_DOWN then Some NX_KEYTYPE_ILLUMINATION_DOWN
      else if key = KeyCode_VK_IOHIDPOSTEVENT_NX_KEYTYPE_ILLUMINATION_TOGGLE then Some NX_KEYTYPE_ILLUMINATION_TOGGLE
      else if key = KeyCode_VK_IOHIDPOSTEVENT_NX_POWER_KEY then Some NX_POWER_KEY
      else None)"

definition VK_IOHIDPOSTEVENT_handleAfterEnqueued ::
  "KeyboardParams \<Rightarrow> 'a VKState_scheme \<Rightarrow> bool \<times> 'a VKState_scheme"
where
  "VK_IOHIDPOSTEVENT_handleAfterEnqueued params s =
     (case keytype_of_key (kp_key params) of
        None \<Rightarrow> (False, s)
      | Some keytype \<Rightarrow>
          (True,
           if kp_ex_iskeydown params
           then send_notification_to_userspace NOTIFICATION_IOHIDPOSTEVENT (vk_nx s keytype) s else s))"

definition keytype_of_consumer :: "ConsumerKeyCode \<Rightarrow> NX_KEYTYPE option" where
  "keytype_of_consumer key =
     (if key = ConsumerKeyCode_BRIGHTNESS_DOWN then Some NX_KEYTYPE_BRIGHTNESS_DOWN
      else if key = ConsumerKeyCode_BRIGHTNESS_UP then Some NX_KEYTYPE_BRIGHTNESS_UP
      else if key = ConsumerKeyCode_KEYBOARDLIGHT_OFF then Some NX_KEYTYPE_ILLUMINATION_TOGGLE
      else if key = ConsumerKeyCode_KEYBOARDLIGHT_LOW then Some NX_KEYTYPE_ILLUMINATION_DOWN
      else if key = ConsumerKeyCode_KEYBOARDLIGHT_HIGH then Some NX_KEYTYPE_ILLUMINATION_UP
      else if key = ConsumerKeyCode_MUSIC_PREV then Some NX_KEYTYPE_PREVIOUS
      else if key = ConsumerKeyCode_MUSIC_PLAY then Some NX_KEYTYPE_PLAY
      else if key = ConsumerKeyCode_MUSIC_NEXT then Some NX_KEYTYPE_NEXT
      else if key = ConsumerKeyCode_VOLUME_MUTE then Some NX_KEYTYPE_MUTE
      else if key = ConsumerKeyCode_VOLUME_DOWN then Some NX_KEYTYPE_SOUND_DOWN
      else if key = ConsumerKeyCode_VOLUME_UP then Some NX_KEYTYPE_SOUND_UP
      else if key = ConsumerKeyCode_POWER then Some NX_POWER_KEY
      else None)"

definition VK_IOHIDPOSTEVENT_post :: "SpecialParams \<Rightarrow> 'a VKState_scheme \<Rightarrow> 'a VKState_scheme" where
  "VK_IOHIDPOSTEVENT_post params s =
     (case keytype_of_consumer (sp_key params) of
        None \<Rightarrow> s
      | Some keytype \<Rightarrow>
          if sp_ex_iskeydown params
          then send_notification_to_userspace NOTIFICATION_IOHIDPOSTEVENT (vk_nx s keytype) s else s)"

section \<open>Num lock, delayed actions, lazy modifiers\<close>

definition VK_IOHIKEYBOARD_TOGGLE_NUMLOCK_handle ::
  "KeyboardParams \<Rightarrow> AutogenId \<Rightarrow> PhysicalEventType \<Rightarrow> 'a VKState_scheme \<Rightarrow> bool \<times> 'a VKState_scheme"
where
  "VK_IOHIKEYBOARD_TOGGLE_NUMLOCK_handle params autogenId physicalEventType s =
     (if kp_key params \<noteq> KeyCode_VK_IOHIKEYBOARD_TOGGLE_NUMLOCK then (False, s)
      else (True,
            if kp_ex_iskeydown params \<and> \<not> kp_repeat params
            then s\<lparr>vk_numLock := map_option Not (vk_numLock s)\<rparr> else s))"

definition VK_KEYTOKEY_DELAYED_ACTION_DROP_EVENT_reset :: "'a VKState_scheme \<Rightarrow> 'a VKState_scheme" where
  "VK_KEYTOKEY_DELAYED_ACTION_DROP_EVENT_reset s = s\<lparr>vk_needToDrop := False\<rparr>"

definition VK_KEYTOKEY_DELAYED_ACTION_DROP_EVENT_handle ::
  "KeyboardParams \<Rightarrow> AutogenId \<Rightarrow> PhysicalEventType \<Rightarrow> 'a VKState_scheme \<Rightarrow> bool \<times> 'a VKState_scheme"
where
  "VK_KEYTOKEY_DELAYED_ACTION_DROP_EVENT_handle params autogenId physicalEventType s =
     (kp_key params = KeyCode_VK_KEYTOKEY_DELAYED_ACTION_DROP_EVENT, s)"

definition VK_LAZY_getModifierFlag :: "KeyCode \<Rightarrow> ModifierFlag" where
  "VK_LAZY_getModifierFlag keycode =
     (if keycode = KeyCode_VK_LAZY_COMMAND_L then ModifierFlag_COMMAND_L
      else if keycode = KeyCode_VK_LAZY_COMMAND_R then ModifierFlag_COMMAND_R
      else if keycode = KeyCode_VK_LAZY_CONTROL_L then ModifierFlag_CONTROL_L
      else if keycode = KeyCode_VK_LAZY_CONTROL_R then ModifierFlag_CONTROL_R
      else if keycode = KeyCode_VK_LAZY_FN then ModifierFlag_FN
      else if keycode = KeyCode_VK_LAZY_OPTION_L then ModifierFlag_OPTION_L
      else if keycode = KeyCode_VK_LAZY_OPTION_R then ModifierFlag_OPTION_R
      else if keycode = KeyCode_VK_LAZY_SHIFT_L then ModifierFlag_SHIFT_L
      else if keycode = KeyCode_VK_LAZY_SHIFT_R then ModifierFlag_SHIFT_R
      else ModifierFlag_ZERO)"

definition VK_LAZY_handle ::
  "KeyboardParams \<Rightarrow> AutogenId \<Rightarrow> PhysicalEventType \<Rightarrow> 'a VKState_scheme \<Rightarrow> bool \<times> 'a VKState_scheme"
where
  "VK_LAZY_handle params autogenId physicalEventType s =
     (let f = VK_LAZY_getModifierFlag (kp_key params) in
      if f = ModifierFlag_ZERO then (False, s)
      else if kp_repeat params then (True, s)
      else if kp_eventType params = EventType_DOWN then (True, FlagStatus_lazy_increase (FA_Flag f) s)
      else if kp_eventType params = EventType_UP then (True, FlagStatus_lazy_decrease (FA_Flag f) s)
      else (True, s))"

section \<open>VK_LOCK and VK_STICKY\<close>

text \<open>
  The macros \<open>MODIFY_FLAGSTATUS\<close> and \<open>HANDLE_KEYCODE\<close>: the state at the label \<open>remapped\<close>, or \<open>None\<close> to
  go on with the next line.
\<close>

definition MODIFY_FLAGSTATUS ::
  "KeyCodeType \<Rightarrow> (FlagArg \<Rightarrow> 'a VKState_scheme \<Rightarrow> 'a VKState_scheme) \<Rightarrow> KeyboardParams \<Rightarrow>
   'a VKState_scheme \<Rightarrow> 'a VKState_scheme option"
where
  "MODIFY_FLAGSTATUS type method params s =
     (let modifierFlag = Pairs_getModifierFlag (cs_pairs s) (kp_key params) type in
      if modifierFlag \<noteq> ModifierFlag_ZERO
      then Some (if kp_ex_iskeydown params \<and> \<not> kp_repeat params then method (FA_Flag modifierFlag) s else s)
      else None)"

definition HANDLE_KEYCODE ::
  "KeyCode \<Rightarrow> ('a VKState_scheme \<Rightarrow> 'a VKState_scheme) \<Rightarrow> KeyboardParams \<Rightarrow> 'a VKState_scheme \<Rightarrow>
   'a VKState_scheme option"
where
  "HANDLE_KEYCODE keycode method params s =
     (if kp_key params = keycode
      then Some (if kp_ex_iskeydown params \<and> \<not> kp_repeat params then method s else s)
      else None)"

fun first_remapped :: "('s \<Rightarrow> 's option) list \<Rightarrow> 's \<Rightarrow> 's option" where
  "first_remapped [] s = None"
| "first_remapped (h # hs) s = (case h s of Some t \<Rightarrow> Some t | None \<Rightarrow> first_remapped hs s)"

definition VK_LOCK_handle ::
  "KeyboardParams \<Rightarrow> AutogenId \<Rightarrow> PhysicalEventType \<Rightarrow> 'a VKState_scheme \<Rightarrow> bool \<times> 'a VKState_scheme"
where
  "VK_LOCK_handle params autogenId physicalEventType s =
     (case first_remapped
        [MODIFY_FLAGSTATUS KCT_VK_LOCK FlagStatus_lock_toggle params,
         MODIFY_FLAGSTATUS KCT_VK_LOCK_FORCE_ON FlagStatus_lock_increase params,
         MODIFY_FLAGSTATUS KCT_VK_LOCK_FORCE_OFF FlagStatus_lock_decrease params,
         MODIFY_FLAGSTATUS KCT_VK_NEGATIVE_LOCK FlagStatus_negative_lock_toggle params,
         MODIFY_FLAGSTATUS KCT_VK_NEGATIVE_LOCK_FORCE_ON FlagStatus_negative_lock_increase params,
         MODIFY_FLAGSTATUS KCT_VK_NEGATIVE_LOCK_FORCE_OFF FlagStatus_negative_lock_decrease params,
         HANDLE_KEYCODE KeyCode_VK_LOCK_ALL_FORCE_OFF FlagStatus_lock_clear params,
         HANDLE_KEYCODE KeyCode_VK_NEGATIVE_LOCK_ALL_FORCE_OFF FlagStatus_negative_lock_clear params] s of
        None \<Rightarrow> (False, s)
      | Some s \<Rightarrow> (True, FireModifiers_fire_current autogenId physicalEventType s))"

definition VK_STICKY_handle ::
  "KeyboardParams \<Rightarrow> AutogenId \<Rightarrow> PhysicalEventType \<Rightarrow> 'a VKState_scheme \<Rightarrow> bool \<times> 'a VKState_scheme"
where
  "VK_STICKY_handle params autogenId physicalEventType s =
     (case first_remapped
        [MODIFY_FLAGSTATUS KCT_VK_STICKY FlagStatus_sticky_toggle params,
         MODIFY_FLAGSTATUS KCT_VK_STICKY_FORCE_ON FlagStatus_sticky_increase params,
         MODIFY_FLAGSTATUS KCT_VK_STICKY_FORCE_OFF FlagStatus_sticky_decrease params,
         HANDLE_KEYCODE KeyCode_VK_STICKY_ACTIVE_MODIFIERS_TOGGLE sticky_active_modifiers_toggle params,
         HANDLE_KEYCODE KeyCode_VK_STICKY_ACTIVE_MODIFIERS_FORCE_ON sticky_active_modifiers_increase params,
         HANDLE_KEYCODE KeyCode_VK_STICKY_ACTIVE_MODIFIERS_FORCE_OFF sticky_active_modifiers_decrease params,
         HANDLE_KEYCODE KeyCode_VK_STICKY_ALL_FORCE_OFF FlagStatus_sticky_clear params] s of
        None \<Rightarrow> (False, s)
      | Some s \<Rightarrow> (True, FireModifiers_fire_current autogenId physicalEventType s))"

section \<open>VK_WAIT\<close>

definition VK_WAIT_handle ::
  "KeyboardParams \<Rightarrow> AutogenId \<Rightarrow> PhysicalEventType \<Rightarrow> 'a VKState_scheme \<Rightarrow> bool \<times> 'a VKState_scheme"
where
  "VK_WAIT_handle params autogenId physicalEventType s =
     (let milliseconds =
        (if kp_key params = KeyCode_VK_WAIT_10MS then 10
         else if kp_key params = KeyCode_VK_WAIT_50MS then 50
         else if kp_key params = KeyCode_VK_WAIT_100MS then 100
         else 0)
      in if milliseconds = 0 then (False, s) else (True, FireWait_fire milliseconds autogenId s))"

section \<open>Handlers that fire another key\<close>

text \<open>\<open>fireKey\<close> is \<open>FireKey::fire\<close> with the ids of the event; \<open>None\<close> means that its fuel is used up.\<close>

definition VK_PARTIAL_handle ::
  "(KeyboardParams \<Rightarrow> 'a VKState_scheme \<Rightarrow> 'a VKState_scheme option) \<Rightarrow> KeyboardParams \<Rightarrow>
   'a VKState_scheme \<Rightarrow> (bool \<times> 'a VKState_scheme) option"
where
  "VK_PARTIAL_handle fireKey params s =
     (if kp_key params = KeyCode_VK_PARTIAL_KEYDOWN \<or> kp_key params = KeyCode_VK_PARTIAL_KEYUP
      then Some (True,
        if kp_ex_iskeydown params
        then s\<lparr>vp_active := True,
               vp_eventType := (if kp_key params = KeyCode_VK_PARTIAL_KEYDOWN then EventType_DOWN
                                else EventType_UP)\<rparr>
        else s)
      else if vp_active s \<and> kp_ex_iskeydown params
      then map_option (\<lambda>s. (True, s\<lparr>vp_changedKeyCodes := vp_changedKeyCodes s @ [kp_key params]\<rparr>))
             (fireKey (KeyboardParams_full (cs_pairs s) (vp_eventType s) (kp_flags params) (kp_key params)
                (kp_charCode params) (kp_charSet params) (kp_origCharCode params) (kp_origCharSet params)
                (kp_keyboardType params) (kp_repeat params))
                (s\<lparr>vp_active := False\<rparr>))
      else if kp_key params \<in> set (vp_changedKeyCodes s)
      then Some (True,
        if \<not> kp_ex_iskeydown params
        then s\<lparr>vp_changedKeyCodes := remove1 (kp_key params) (vp_changedKeyCodes s)\<rparr> else s)
      else Some (False, s))"

definition VK_JIS_BACKSLASH_handle ::
  "(KeyboardParams \<Rightarrow> 'a VKState_scheme \<Rightarrow> 'a VKState_scheme option) \<Rightarrow> KeyboardParams \<Rightarrow>
   'a VKState_scheme \<Rightarrow> (bool \<times> 'a VKState_scheme) option"
where
  "VK_JIS_BACKSLASH_handle fireKey params s =
     (if kp_key params \<noteq> KeyCode_VK_JIS_BACKSLASH then Some (False, s)
      else map_option (Pair True)
             (fireKey (KeyboardParams_new (cs_pairs s) (kp_eventType params) (kp_flags params)
                KeyCode_BACKSLASH KeyboardType_MACBOOK (kp_repeat params)) s))"

definition VK_JIS_TOGGLE_EISUU_KANA_handle ::
  "(KeyboardParams \<Rightarrow> 'a VKState_scheme \<Rightarrow> 'a VKState_scheme option) \<Rightarrow> KeyboardParams \<Rightarrow>
   'a VKState_scheme \<Rightarrow> (bool \<times> 'a VKState_scheme) option"
where
  "VK_JIS_TOGGLE_EISUU_KANA_handle fireKey params s =
     (if kp_key params \<noteq> KeyCode_VK_JIS_TOGGLE_EISUU_KANA then Some (False, s)
      else
        let s = (if kp_ex_iskeydown params
                 then s\<lparr>vj_newkeycode := (if InputSource_JAPANESE \<in> set (cs_inputSourceIds s)
                                          then KeyCode_JIS_EISUU else KeyCode_JIS_KANA)\<rparr>
                 else s)
        in map_option (Pair True)
             (fireKey (KeyboardParams_new (cs_pairs s) (kp_eventType params) (kp_flags params)
                (vj_newkeycode s) (kp_keyboardType params) (kp_repeat params)) s))"

definition VK_JIS_YEN_handle ::
  "(KeyboardParams \<Rightarrow> 'a VKState_scheme \<Rightarrow> 'a VKState_scheme option) \<Rightarrow> KeyboardParams \<Rightarrow>
   'a VKState_scheme \<Rightarrow> (bool \<times> 'a VKState_scheme) option"
where
  "VK_JIS_YEN_handle fireKey params s =
     (if kp_key params \<noteq> KeyCode_VK_JIS_YEN then Some (False, s)
      else map_option (Pair True)
             (fireKey (KeyboardParams_new (cs_pairs s) (kp_eventType params) (kp_flags params)
                KeyCode_JIS_YEN KeyboardType_JIS_MACBOOK_2008 (kp_repeat params)) s))"

section \<open>VirtualKey and FireKey\<close>

fun first_of_handlers :: "('s \<Rightarrow> (bool \<times> 's) option) list \<Rightarrow> 's \<Rightarrow> (bool \<times> 's) option" where
  "first_of_handlers [] s = Some (False, s)"
| "first_of_handlers (h # hs) s =
     (case h s of
        None \<Rightarrow> None
      | Some (handled, s) \<Rightarrow> if handled then Some (True, s) else first_of_handlers hs s)"

definition VirtualKey_handle ::
  "(KeyboardParams \<Rightarrow> 'a VKState_scheme \<Rightarrow> 'a VKState_scheme option) \<Rightarrow> KeyboardParams \<Rightarrow> AutogenId \<Rightarrow>
   PhysicalEventType \<Rightarrow> 'a VKState_scheme \<Rightarrow> (bool \<times> 'a VKState_scheme) option"
where
  "VirtualKey_handle fireKey params autogenId physicalEventType s =
     first_of_handlers
       [\<lambda>s. Some (VK_CONFIG_handle params autogenId physicalEventType s),
        \<lambda>s. Some (VK_CONSUMERKEY_handle params autogenId physicalEventType s),
        \<lambda>s. Some (VK_DEFINED_IN_USERSPACE_handle params autogenId physicalEventType s),
        \<lambda>s. Some (VK_IOHIDPOSTEVENT_handle params autogenId physicalEventType s),
        \<lambda>s. Some (VK_IOHIKEYBOARD_TOGGLE_NUMLOCK_handle params autogenId physicalEventType s),
        \<lambda>s. Some (VK_KEYTOKEY_DELAYED_ACTION_DROP_EVENT_handle params autogenId physicalEventType s),
        \<lambda>s. Some (VK_LAZY_handle params autogenId physicalEventType s),
        \<lambda>s. Some (VK_LOCK_handle params autogenId physicalEventType s),
        \<lambda>s. Some (MouseKey_handle params autogenId physicalEventType s),
        VK_PARTIAL_handle fireKey params,
        \<lambda>s. Some (VK_STICKY_handle params autogenId physicalEventType s),
        \<lambda>s. Some (VK_WAIT_handle params autogenId physicalEventType s),
        VK_JIS_BACKSLASH_handle fireKey params,
        VK_JIS_TOGGLE_EISUU_KANA_handle fireKey params,
        VK_JIS_YEN_handle fireKey params] s"

definition VirtualKey_reset :: "'a VKState_scheme \<Rightarrow> 'a VKState_scheme" where
  "VirtualKey_reset s = MouseKey_reset (VK_KEYTOKEY_DELAYED_ACTION_DROP_EVENT_reset s)"

definition VirtualKey_handleAfterEnqueued :: "KeyboardParams \<Rightarrow> 'a VKState_scheme \<Rightarrow> bool \<times> 'a VKState_scheme" where
  "VirtualKey_handleAfterEnqueued params s =
     first_handler
       [VK_DEFINED_IN_USERSPACE_handleAfterEnqueued params, VK_IOHIDPOSTEVENT_handleAfterEnqueued params] s"

definition VirtualKey_isKeyLikeModifier :: "KeyCode \<Rightarrow> 'a VKState_scheme \<Rightarrow> bool" where
  "VirtualKey_isKeyLikeModifier keycode s =
     (if is_VK_CONFIG_SYNC_KEYDOWNUP keycode s then True
      else if VK_LAZY_getModifierFlag keycode \<noteq> ModifierFlag_ZERO then True
      else if MouseKey_isKeyLikeModifier keycode then True
      else False)"

text \<open>
  The part of \<open>FireKey::fire\<close> after the virtual keys: the reverse normalization, the modifiers for a
  press, the event itself, and the list of pressed keys.
\<close>

definition FireKey_send ::
  "KeyboardParams \<Rightarrow> AutogenId \<Rightarrow> PhysicalEventType \<Rightarrow> 'a VKState_scheme \<Rightarrow> 'a VKState_scheme"
where
  "FireKey_send params autogenId physicalEventType s =
     (let (newkeycode, newflags, hs) = reverseNormalizeKey (cs_pairs s) (vk_fnkeyhack s) (kp_key params)
            (kp_flags params) (kp_eventType params);
          s = s\<lparr>vk_fnkeyhack := hs\<rparr>
      in
      if newkeycode = KeyCode_VK_NONE \<or> newkeycode = KeyCode_VK_PSEUDO_KEY then s
      else if KeyCode_isModifier (cs_pairs s) newkeycode \<and>
              getRawBits (KeyCode_getModifierFlag (cs_pairs s) newkeycode) = 0
      then setcurrent_lastsentevent (P_Keyboard params) s
      else
        let (newflags, s) =
              (if kp_eventType params = EventType_UP then (fm_lastFlags s, s)
               else
                 (newflags,
                  FireModifiers_fire autogenId physicalEventType newflags (kp_keyboardType params)
                    (if kp_ex_iskeydown params then setIgnorePhysicalUpEvent False s else s)))
        in
        if kp_eventType params = EventType_DOWN \<or> kp_eventType params = EventType_UP
        then
          let s = OutputQueue_push
                    (P_Keyboard (KeyboardParams_full (cs_pairs s) (kp_eventType params) newflags newkeycode
                       (kp_charCode params) (kp_charSet params) (kp_origCharCode params)
                       (kp_origCharSet params) (kp_keyboardType params) (kp_repeat params)))
                    autogenId s
          in if kp_repeat params then s
             else if kp_eventType params = EventType_DOWN
             then PressDownKeys_add newkeycode (kp_keyboardType params) s
             else PressDownKeys_remove newkeycode (kp_keyboardType params) s
        else s)"

primrec FireKey_fire ::
  "nat \<Rightarrow> KeyboardParams \<Rightarrow> AutogenId \<Rightarrow> PhysicalEventType \<Rightarrow> 'a VKState_scheme \<Rightarrow> 'a VKState_scheme option"
where
  "FireKey_fire 0 params autogenId physicalEventType s = None"
| "FireKey_fire (Suc n) params autogenId physicalEventType s =
     (case VirtualKey_handle (\<lambda>p. FireKey_fire n p autogenId physicalEventType) params autogenId
             physicalEventType s of
        None \<Rightarrow> None
      | Some (True, s) \<Rightarrow> Some (setcurrent_lastsentevent (P_Keyboard params) s)
      | Some (False, s) \<Rightarrow> Some (FireKey_send params autogenId physicalEventType s))"

text \<open>
  What the timer callback of the output queue does with an event that is due. The hooked devices
  are not modelled: \<open>apply_consumer\<close> says whether a consumer device took the event.
\<close>

definition deliver ::
  "(SpecialParams \<Rightarrow> bool) \<Rightarrow> Params \<Rightarrow> 'a VKState_scheme \<Rightarrow> 'a VKState_scheme"
where
  "deliver apply_consumer p s =
     (case p of
        P_Keyboard params \<Rightarrow> snd (VirtualKey_handleAfterEnqueued params s)
      | P_Special params \<Rightarrow> if apply_consumer params then s else VK_IOHIDPOSTEVENT_post params s
      | _ \<Rightarrow> s)"

section \<open>FireKey terminates\<close>

text \<open>A handler that does not consume the event changes nothing but the last physical event type of the mouse keys.\<close>

lemma VK_CONFIG_unhandled:
  "\<not> fst (VK_CONFIG_handle params a pe s) \<Longrightarrow> snd (VK_CONFIG_handle params a pe s) = s"
proof -
  have "\<not> fst (VK_CONFIG_loop items params a pe s) \<Longrightarrow> snd (VK_CONFIG_loop items params a pe s) = s" for items
    by (induction items) (auto simp: VK_CONFIG_refresh_def Let_def split: option.splits if_splits)
  then show "\<not> fst (VK_CONFIG_handle params a pe s) \<Longrightarrow> snd (VK_CONFIG_handle params a pe s) = s"
    by (simp add: VK_CONFIG_handle_def)
qed

lemma unhandled:
  "\<not> fst (VK_CONSUMERKEY_handle params a pe s) \<Longrightarrow> snd (VK_CONSUMERKEY_handle params a pe s) = s"
  "\<not> fst (VK_IOHIKEYBOARD_TOGGLE_NUMLOCK_handle params a pe s) \<Longrightarrow>
     snd (VK_IOHIKEYBOARD_TOGGLE_NUMLOCK_handle params a pe s) = s"
  "\<not> fst (VK_LAZY_handle params a pe s) \<Longrightarrow> snd (VK_LAZY_handle params a pe s) = s"
  "\<not> fst (VK_WAIT_handle params a pe s) \<Longrightarrow> snd (VK_WAIT_handle params a pe s) = s"
  subgoal by (auto simp: VK_CONSUMERKEY_handle_def Let_def)
  subgoal by (auto simp: VK_IOHIKEYBOARD_TOGGLE_NUMLOCK_handle_def)
  subgoal by (auto simp: VK_LAZY_handle_def Let_def)
  subgoal by (auto simp: VK_WAIT_handle_def Let_def)
  done

lemma lock_sticky_unhandled:
  "\<not> fst (VK_LOCK_handle params a pe s) \<Longrightarrow> snd (VK_LOCK_handle params a pe s) = s"
  "\<not> fst (VK_STICKY_handle params a pe s) \<Longrightarrow> snd (VK_STICKY_handle params a pe s) = s"
  unfolding VK_LOCK_handle_def VK_STICKY_handle_def
  by (simp_all only: fst_conv snd_conv simp_thms option.distinct split: option.splits)

lemma first_handler_unhandled:
  assumes "\<And>h s. h \<in> set hs \<Longrightarrow> \<not> fst (h s) \<Longrightarrow> snd (h s) = s" and "\<not> fst (first_handler hs s)"
  shows "snd (first_handler hs s) = s"
  using assms
proof (induction hs arbitrary: s)
  case (Cons h hs)
  show ?case
  proof (cases "h s")
    case (Pair b t)
    with Cons.prems Cons.prems(1) [of h s] show ?thesis
      by (cases b) (auto intro!: Cons.IH)
  qed
qed simp

lemma mouse_unhandled:
  "\<not> fst (handle_button params a pe s) \<Longrightarrow> snd (handle_button params a pe s) = s"
  "\<not> fst (handle_move params a pe s) \<Longrightarrow> snd (handle_move params a pe s) = s"
  "\<not> fst (handle_fixeddistancemove params a pe s) \<Longrightarrow> snd (handle_fixeddistancemove params a pe s) = s"
  "\<not> fst (handle_fixeddistancescroll params a pe s) \<Longrightarrow> snd (handle_fixeddistancescroll params a pe s) = s"
  "\<not> fst (handle_lock_button params a pe s) \<Longrightarrow> snd (handle_lock_button params a pe s) = s"
  by (simp_all add: handle_button_def handle_move_def handle_fixeddistancemove_def
      handle_fixeddistancescroll_def handle_lock_button_def Let_def split: option.splits if_splits prod.splits)

lemma MouseKey_unhandled:
  "\<not> fst (MouseKey_handle params a pe s) \<Longrightarrow>
     snd (MouseKey_handle params a pe s) = s\<lparr>mk_lastPhysicalEventType := pe\<rparr>"
  unfolding MouseKey_handle_def
  by (rule first_handler_unhandled) (auto dest: mouse_unhandled)

definition jis_keys :: "KeyCode set" where
  "jis_keys = {KeyCode_VK_JIS_BACKSLASH, KeyCode_VK_JIS_TOGGLE_EISUU_KANA, KeyCode_VK_JIS_YEN}"

text \<open>How often a key can be fired again: once for \<open>VK_PARTIAL\<close> and once for a JIS key.\<close>

definition refires :: "KeyboardParams \<Rightarrow> 'a VKState_scheme \<Rightarrow> nat" where
  "refires params s = (if vp_active s then 1 else 0) + (if kp_key params \<in> jis_keys then 1 else 0)"

lemma first_of_handlers_Some:
  "first_of_handlers ((\<lambda>s. Some (f s)) # hs) s =
     (if fst (f s) then Some (f s) else first_of_handlers hs (snd (f s)))"
  by (cases "f s") simp

lemma KeyboardParams_key [simp]:
  "kp_key (KeyboardParams_full pairs et fl kc cc cs occ ocs kt r) = kc"
  by (simp add: KeyboardParams_full_def)

lemma handle_returns:
  assumes fire: "\<And>p t. vj_newkeycode t \<notin> jis_keys \<Longrightarrow> refires p t < refires params s \<Longrightarrow> fireKey p t \<noteq> None"
    and new: "vj_newkeycode s \<notin> jis_keys"
  shows "VirtualKey_handle fireKey params a pe s \<noteq> None"
proof -
  let ?s = "s\<lparr>mk_lastPhysicalEventType := pe\<rparr>"
  have jis: "KeyCode_BACKSLASH \<notin> jis_keys" "KeyCode_JIS_YEN \<notin> jis_keys" "KeyCode_JIS_EISUU \<notin> jis_keys"
    "KeyCode_JIS_KANA \<notin> jis_keys" by (simp_all add: jis_keys_def)
  have jis_fire: "fireKey p t \<noteq> None"
    if "kp_key params \<in> jis_keys" "kp_key p \<notin> jis_keys" "vp_active t = vp_active s" "vj_newkeycode t \<notin> jis_keys"
    for p and t :: "'a VKState_scheme"
    using that by (intro fire) (simp_all add: refires_def)
  have partial: "VK_PARTIAL_handle fireKey params ?s \<noteq> None"
    using fire [of "?s\<lparr>vp_active := False\<rparr>"] new by (auto simp: VK_PARTIAL_handle_def refires_def)
  have partial_state: "u = ?s" if "VK_PARTIAL_handle fireKey params ?s = Some (False, u)" for u
    using that by (auto simp: VK_PARTIAL_handle_def split: if_splits)
  have jis_ret: "VK_JIS_BACKSLASH_handle fireKey params ?s \<noteq> None"
    "VK_JIS_BACKSLASH_handle fireKey params ?s = Some (False, u) \<Longrightarrow> u = ?s"
    "VK_JIS_TOGGLE_EISUU_KANA_handle fireKey params ?s \<noteq> None"
    "VK_JIS_TOGGLE_EISUU_KANA_handle fireKey params ?s = Some (False, u) \<Longrightarrow> u = ?s"
    "VK_JIS_YEN_handle fireKey params ?s \<noteq> None" for u
    using jis jis_fire new
    by (auto simp: VK_JIS_BACKSLASH_handle_def VK_JIS_TOGGLE_EISUU_KANA_handle_def VK_JIS_YEN_handle_def
        Let_def jis_keys_def split: if_splits)
  have tail: "first_of_handlers
       [VK_JIS_BACKSLASH_handle fireKey params, VK_JIS_TOGGLE_EISUU_KANA_handle fireKey params,
        VK_JIS_YEN_handle fireKey params] ?s \<noteq> None"
    using jis_ret by (auto split: option.split prod.split)
  define rest where "rest =
       [\<lambda>s. Some (VK_STICKY_handle params a pe s), \<lambda>s. Some (VK_WAIT_handle params a pe s),
        VK_JIS_BACKSLASH_handle fireKey params, VK_JIS_TOGGLE_EISUU_KANA_handle fireKey params,
        VK_JIS_YEN_handle fireKey params]"
  have "first_of_handlers rest ?s \<noteq> None"
    using tail unhandled(4) [of params a pe ?s] lock_sticky_unhandled(2) [of params a pe ?s]
    by (simp add: rest_def first_of_handlers_Some del: first_of_handlers.simps(2))
  then have "first_of_handlers (VK_PARTIAL_handle fireKey params # rest) ?s \<noteq> None"
    using partial partial_state by (auto split: option.split)
  then show ?thesis
    unfolding VirtualKey_handle_def
    using VK_CONFIG_unhandled [of params a pe s] unhandled [of params a pe s] lock_sticky_unhandled [of params a pe s]
      MouseKey_unhandled [of params a pe s]
    by (simp add: first_of_handlers_Some VK_DEFINED_IN_USERSPACE_handle_def VK_IOHIDPOSTEVENT_handle_def
        VK_KEYTOKEY_DELAYED_ACTION_DROP_EVENT_handle_def rest_def del: first_of_handlers.simps(2) not_None_eq)
qed

lemma FireKey_returns:
  assumes "refires params s \<le> n" and "vj_newkeycode s \<notin> jis_keys"
  shows "FireKey_fire (Suc n) params a pe s \<noteq> None"
  using assms
proof (induction n arbitrary: params s)
  case 0
  then show ?case
    using handle_returns [of params s "\<lambda>p. FireKey_fire 0 p a pe" a pe] by (auto split: prod.split bool.split)
next
  case (Suc n)
  have "VirtualKey_handle (\<lambda>p. FireKey_fire (Suc n) p a pe) params a pe s \<noteq> None"
    using Suc.IH Suc.prems by (intro handle_returns) auto
  then show ?case by (subst FireKey_fire.simps(2)) (auto split: prod.split bool.split)
qed

text \<open>More fuel gives the same result.\<close>

lemma first_of_handlers_mono:
  assumes "list_all2 (\<lambda>h h'. \<forall>s x. h s = Some x \<longrightarrow> h' s = Some x) hs hs'"
    and "first_of_handlers hs s = Some x"
  shows "first_of_handlers hs' s = Some x"
  using assms
proof (induction hs hs' arbitrary: s rule: list_all2_induct)
  case (Cons h hs h' hs')
  then obtain r where r: "h s = Some r" by (cases "h s") auto
  with Cons show ?case by (cases r) (auto split: if_splits)
qed simp

lemma VirtualKey_handle_mono:
  assumes "\<And>p s t. f p s = Some t \<Longrightarrow> g p s = Some t" and "VirtualKey_handle f params a pe s = Some x"
  shows "VirtualKey_handle g params a pe s = Some x"
  using assms(2) unfolding VirtualKey_handle_def
  by (rule first_of_handlers_mono [rotated])
     (auto simp: VK_PARTIAL_handle_def VK_JIS_BACKSLASH_handle_def VK_JIS_TOGGLE_EISUU_KANA_handle_def
       VK_JIS_YEN_handle_def Let_def dest: assms(1) split: if_splits)

lemma FireKey_mono: "FireKey_fire n params a pe s = Some t \<Longrightarrow> FireKey_fire (Suc n) params a pe s = Some t"
proof (induction n arbitrary: params s t)
  case (Suc n)
  from Suc.prems obtain h u where
    h: "VirtualKey_handle (\<lambda>p. FireKey_fire n p a pe) params a pe s = Some (h, u)"
    by (cases "VirtualKey_handle (\<lambda>p. FireKey_fire n p a pe) params a pe s") auto
  have "VirtualKey_handle (\<lambda>p. FireKey_fire (Suc n) p a pe) params a pe s = Some (h, u)"
    using h by (rule VirtualKey_handle_mono [rotated]) (rule Suc.IH)
  with h Suc.prems show ?case
    unfolding FireKey_fire.simps(2) [of "Suc n"] by simp
qed simp

lemma FireKey_fuel:
  assumes "FireKey_fire m params a pe s = Some t" and "m \<le> n"
  shows "FireKey_fire n params a pe s = Some t"
  using assms(2,1) by (induction rule: dec_induct) (auto simp: FireKey_mono simp del: FireKey_fire.simps)

text \<open>
  C10: \<open>FireKey::fire\<close> returns: three nested calls are enough from every state in which the key
  remembered by the EISUU/KANA toggle is not itself a JIS virtual key, and a greater depth gives
  the same state.
\<close>

theorem FireKey_terminates:
  assumes "vj_newkeycode s \<notin> jis_keys"
  shows "\<exists>t. \<forall>n \<ge> 3. FireKey_fire n params a pe s = Some t"
proof -
  have "refires params s \<le> 2" by (simp add: refires_def)
  from FireKey_returns [OF this assms, of a pe] obtain t where "FireKey_fire (Suc 2) params a pe s = Some t"
    by blast
  then have "FireKey_fire 3 params a pe s = Some t" by (simp del: FireKey_fire.simps add: numeral_3_eq_3)
  then show ?thesis using FireKey_fuel by blast
qed

text \<open>The state after start-up.\<close>

definition vk_static :: VKState where
  "vk_static = MouseState.extend (MouseKey_initialize mouse_static)
     \<lparr>vk_remapclass = (\<lambda>_. \<lparr>rc_enabled = False, rc_configindex = 0\<rparr>), vk_refresh_timer = timer_static,
      vc_items = [], vu_items = [], vk_needToDrop = False, vp_changedKeyCodes = [], vp_active = False,
      vp_eventType = 0, vj_newkeycode = 0, vk_fnkeyhack = fnkeyhack_init, vk_numLock = None, vk_nx = (\<lambda>_. 0)\<rparr>"

lemma vk_static_simps [simp]:
  "vj_newkeycode vk_static = 0" "vp_active vk_static = False" "vp_changedKeyCodes vk_static = []"
  "vk_fnkeyhack vk_static = fnkeyhack_init" "vc_items vk_static = []"
  "cs_pairs vk_static = normal_pairs" "fm_lastFlags vk_static = 0" "oq_queue vk_static = []" "pd_list vk_static = []"
  "fs_item vk_static = items_of_pairs normal_pairs" "registered vk_static = map pr_modifierFlag normal_pairs"
  by (simp_all add: vk_static_def MouseState.extend_def MouseKey_initialize_def FixedDistanceScroll_initialize_def
      mouse_static_def OutState.extend_def registered_def items_of_pairs_def Item_initialize_def)

theorem FireKey_terminates_witness:
  "\<exists>t. \<forall>n \<ge> 3. FireKey_fire n (KeyboardParams_new [] EventType_DOWN 0 KeyCode_VK_JIS_BACKSLASH 0 False) 0 PE_DOWN
     (vk_static\<lparr>vp_active := True\<rparr>) = Some t"
  by (rule FireKey_terminates) (simp add: jis_keys_def)

section \<open>What the handlers leave alone\<close>

lemma vk_more_eqD:
  fixes s t :: "'a VKState_scheme"
  assumes "OutState.more t = OutState.more s"
  shows "MouseState.more t = MouseState.more s"
  using assms by (cases s; cases t; simp)

lemma vk_mouse_eqD:
  fixes s t :: "'a VKState_scheme"
  assumes "MouseState.more t = MouseState.more s"
  shows "vj_newkeycode t = vj_newkeycode s" and "vp_active t = vp_active s"
    and "vp_changedKeyCodes t = vp_changedKeyCodes s" and "vk_fnkeyhack t = vk_fnkeyhack s"
    and "vk_remapclass t = vk_remapclass s" and "vk_refresh_timer t = vk_refresh_timer s"
    and "vc_items t = vc_items s"
  using assms by (cases s; cases t; simp)+

lemma flag_more_eqD:
  fixes s t :: "'a VKState_scheme"
  assumes "FlagState.more t = FlagState.more s"
  shows "MouseState.more t = MouseState.more s"
  using assms by (cases s; cases t; simp)

lemma FireConsumer_more: "OutState.more (FireConsumer_fire p a pe s) = OutState.more s"
  using FireModifiers_emits(2) [of s a pe] FireModifiers_emits(2) [of "s\<lparr>fm_isIgnorePhysicalUpEvent := False\<rparr>" a pe]
  by (simp add: FireConsumer_fire_def Let_def push_more setIgnorePhysicalUpEvent_def emits_def)

lemma FireModifiers_more: "OutState.more (FireModifiers_fire_current a pe s) = OutState.more s"
  using FireModifiers_emits(2) [of s a pe] by (simp add: emits_def)

lemma flag_methods_more:
  "FlagState.more (FlagStatus_lazy_increase x s) = FlagState.more s"
  "FlagState.more (FlagStatus_lazy_decrease x s) = FlagState.more s"
  "FlagState.more (FlagStatus_lock_toggle x s) = FlagState.more s"
  "FlagState.more (FlagStatus_lock_increase x s) = FlagState.more s"
  "FlagState.more (FlagStatus_lock_decrease x s) = FlagState.more s"
  "FlagState.more (FlagStatus_negative_lock_toggle x s) = FlagState.more s"
  "FlagState.more (FlagStatus_negative_lock_increase x s) = FlagState.more s"
  "FlagState.more (FlagStatus_negative_lock_decrease x s) = FlagState.more s"
  "FlagState.more (FlagStatus_sticky_toggle x s) = FlagState.more s"
  "FlagState.more (FlagStatus_sticky_increase x s) = FlagState.more s"
  "FlagState.more (FlagStatus_sticky_decrease x s) = FlagState.more s"
  "FlagState.more (FlagStatus_lock_clear s) = FlagState.more s"
  "FlagState.more (FlagStatus_negative_lock_clear s) = FlagState.more s"
  "FlagState.more (FlagStatus_sticky_clear s) = FlagState.more s"
  "FlagState.more (sticky_active_modifiers_toggle s) = FlagState.more s"
  "FlagState.more (sticky_active_modifiers_increase s) = FlagState.more s"
  "FlagState.more (sticky_active_modifiers_decrease s) = FlagState.more s"
  by (simp_all add: FlagStatus_lazy_increase_def FlagStatus_lazy_decrease_def FlagStatus_lock_toggle_def
      FlagStatus_lock_increase_def FlagStatus_lock_decrease_def FlagStatus_negative_lock_toggle_def
      FlagStatus_negative_lock_increase_def FlagStatus_negative_lock_decrease_def FlagStatus_sticky_toggle_def
      FlagStatus_sticky_increase_def FlagStatus_sticky_decrease_def FlagStatus_lock_clear_def
      FlagStatus_negative_lock_clear_def FlagStatus_sticky_clear_def sticky_active_modifiers_toggle_def
      sticky_active_modifiers_increase_def sticky_active_modifiers_decrease_def sticky_active_modifiers_def)

section \<open>Keys of the hardware\<close>

text \<open>Key codes from \<open>VK__BEGIN__\<close> on are virtual.\<close>

abbreviation (input) VK_BEGIN :: KeyCode where "VK_BEGIN \<equiv> 0x10000000"

definition virtual_key_types :: "KeyCodeType list" where
  "virtual_key_types =
     [KCT_VK_LOCK, KCT_VK_LOCK_FORCE_ON, KCT_VK_LOCK_FORCE_OFF, KCT_VK_NEGATIVE_LOCK,
      KCT_VK_NEGATIVE_LOCK_FORCE_ON, KCT_VK_NEGATIVE_LOCK_FORCE_OFF, KCT_VK_STICKY, KCT_VK_STICKY_FORCE_ON,
      KCT_VK_STICKY_FORCE_OFF]"

text \<open>The registered virtual key codes are virtual, and no partial key is being waited for.\<close>

definition virtual_codes :: "'a VKState_scheme \<Rightarrow> bool" where
  "virtual_codes s =
     ((\<forall>p \<in> set (cs_pairs s). \<forall>type \<in> set virtual_key_types. VK_BEGIN \<le> Pair_getKeyCode p type) \<and>
      (\<forall>i \<in> set (vc_items s). VK_BEGIN \<le> ci_keycode_toggle i \<and> VK_BEGIN \<le> ci_keycode_force_on i \<and>
         VK_BEGIN \<le> ci_keycode_force_off i \<and> VK_BEGIN \<le> ci_keycode_sync_keydownup i))"

definition virtual_ok :: "'a VKState_scheme \<Rightarrow> bool" where
  "virtual_ok s = (virtual_codes s \<and> \<not> vp_active s)"

lemma hardware_neq: "key < VK_BEGIN \<Longrightarrow> VK_BEGIN \<le> c \<Longrightarrow> (key = c) = False"
  by auto

lemma hardware_no_flag:
  assumes "virtual_codes s" and "key < VK_BEGIN" and "type \<in> set virtual_key_types"
  shows "Pairs_getModifierFlag (cs_pairs s) key type = ModifierFlag_ZERO"
proof -
  have "find (\<lambda>p. Pair_getKeyCode p type = key) (cs_pairs s) = None"
    using assms unfolding virtual_codes_def find_None_iff by fastforce
  then show ?thesis by (simp add: Pairs_getModifierFlag_def)
qed

lemma hardware_config:
  assumes "virtual_codes s" and key: "kp_key params < VK_BEGIN"
  shows "VK_CONFIG_handle params a pe s = (False, s)"
proof -
  have "VK_CONFIG_loop items params a pe s = (False, s)" if "set items \<subseteq> set (vc_items s)" for items
    using that assms(1)
  proof (induction items)
    case (Cons i items)
    then have "i \<in> set (vc_items s)" by simp
    then have "VK_BEGIN \<le> ci_keycode_toggle i" "VK_BEGIN \<le> ci_keycode_force_on i"
      "VK_BEGIN \<le> ci_keycode_force_off i" "VK_BEGIN \<le> ci_keycode_sync_keydownup i"
      using assms(1) by (auto simp: virtual_codes_def)
    with Cons hardware_neq [OF key] show ?case by (simp add: Let_def split: option.split)
  qed simp
  then show ?thesis by (simp add: VK_CONFIG_handle_def)
qed

text \<open>Only \<open>VK_PARTIAL\<close> can consume a key of the hardware.\<close>

lemma hardware_dispatch:
  assumes "virtual_codes s" and key: "kp_key params < VK_BEGIN"
  shows "VirtualKey_handle f params a pe s = VK_PARTIAL_handle f params (s\<lparr>mk_lastPhysicalEventType := pe\<rparr>)"
proof -
  let ?s = "s\<lparr>mk_lastPhysicalEventType := pe\<rparr>"
  note no = hardware_no_flag [OF assms(1) key]
  have flags: "MODIFY_FLAGSTATUS type m params u = None"
    if "type \<in> set virtual_key_types" "u = s \<or> u = ?s" for type m u
    using no [OF that(1)] that(2) by (auto simp: MODIFY_FLAGSTATUS_def)
  have lock: "VK_LOCK_handle params a pe s = (False, s)"
    by (simp add: VK_LOCK_handle_def flags virtual_key_types_def HANDLE_KEYCODE_def hardware_neq [OF key])
  have sticky: "VK_STICKY_handle params a pe ?s = (False, ?s)"
    by (simp add: VK_STICKY_handle_def flags virtual_key_types_def HANDLE_KEYCODE_def hardware_neq [OF key])
  have mouse: "MouseKey_handle params a pe s = (False, ?s)"
    by (simp add: MouseKey_handle_def handle_button_def getPointingButton_def handle_move_def move_flags_def
        handle_fixeddistancemove_def handle_fixeddistancescroll_def fixed_distance_def handle_lock_button_def
        getPointingButtonFromLockKey_def hardware_neq [OF key])
  define rest where "rest =
       [\<lambda>s. Some (VK_STICKY_handle params a pe s), \<lambda>s. Some (VK_WAIT_handle params a pe s),
        VK_JIS_BACKSLASH_handle f params, VK_JIS_TOGGLE_EISUU_KANA_handle f params, VK_JIS_YEN_handle f params]"
  have rest: "first_of_handlers rest ?s = Some (False, ?s)"
    by (simp add: rest_def sticky VK_WAIT_handle_def VK_JIS_BACKSLASH_handle_def
        VK_JIS_TOGGLE_EISUU_KANA_handle_def VK_JIS_YEN_handle_def hardware_neq [OF key])
  have "VirtualKey_handle f params a pe s = first_of_handlers (VK_PARTIAL_handle f params # rest) ?s"
    using hardware_config [OF assms, of a pe]
    by (simp add: VirtualKey_handle_def VK_CONSUMERKEY_handle_def consumer_of_key_def
        VK_DEFINED_IN_USERSPACE_handle_def VK_IOHIDPOSTEVENT_handle_def
        VK_IOHIKEYBOARD_TOGGLE_NUMLOCK_handle_def VK_KEYTOKEY_DELAYED_ACTION_DROP_EVENT_handle_def
        VK_LAZY_handle_def VK_LAZY_getModifierFlag_def lock mouse rest_def hardware_neq [OF key])
  also have "\<dots> = VK_PARTIAL_handle f params ?s"
    using rest by (auto simp: VK_PARTIAL_handle_def split: option.split)
  finally show ?thesis .
qed

lemma hardware_unhandled:
  assumes "virtual_ok s" and "kp_key params < VK_BEGIN" and "kp_key params \<notin> set (vp_changedKeyCodes s)"
  shows "VirtualKey_handle f params a pe s = Some (False, s\<lparr>mk_lastPhysicalEventType := pe\<rparr>)"
  using hardware_dispatch [OF _ assms(2), of s f a pe] assms hardware_neq [OF assms(2)]
  by (simp add: virtual_ok_def VK_PARTIAL_handle_def)

section \<open>What FireKey sends\<close>

lemma FireKey_hardware:
  assumes "virtual_ok s" and "kp_key params < VK_BEGIN" and "kp_key params \<notin> set (vp_changedKeyCodes s)"
  shows "FireKey_fire (Suc n) params a pe s = Some (FireKey_send params a pe (s\<lparr>mk_lastPhysicalEventType := pe\<rparr>))"
  by (simp add: hardware_unhandled [OF assms])

lemma PressDownKeys_queue [simp]:
  "oq_queue (PressDownKeys_add key kt s) = oq_queue s" "oq_queue (PressDownKeys_remove key kt s) = oq_queue s"
  "fm_lastFlags (PressDownKeys_add key kt s) = fm_lastFlags s"
  "fm_lastFlags (PressDownKeys_remove key kt s) = fm_lastFlags s"
  by (simp_all add: PressDownKeys_add_def PressDownKeys_remove_def)

lemma FireModifiers_pd_list:
  fixes s :: "'a OutState_scheme"
  shows "pd_list (FireModifiers_fire a pe to kt s) = pd_list s"
proof -
  have up: "pd_list (modifier_up a to kt i u) = pd_list u" "pd_list (modifier_down a to kt i u) = pd_list u"
    for i and u :: "'a OutState_scheme"
    by (simp_all add: modifier_up_def modifier_down_def Let_def push_fields)
  have "pd_list (fold (modifier_up a to kt) is u) = pd_list u"
    "pd_list (fold (modifier_down a to kt) is u) = pd_list u" for "is" and u :: "'a OutState_scheme"
    by (induction "is" arbitrary: u) (simp_all add: up)
  then show ?thesis by (simp add: FireModifiers_fire_def FireModifiers_send_def Let_def)
qed

text \<open>
  C11: Pressing a key of the hardware sends, in this order, the releases and the presses of the
  modifiers whose state differs from the flags of the event, and then the key with these flags;
  the key is remembered as pressed unless the event is a repeat. The key and flags are those after
  the reverse normalization.
\<close>

theorem FireKey_press:
  assumes "modifiers_ok s" and "virtual_ok s" and "kp_key params < VK_BEGIN"
    and "kp_key params \<notin> set (vp_changedKeyCodes s)"
    and "kp_eventType params = EventType_DOWN" and "kp_ex_iskeydown params"
    and "reverseNormalizeKey (cs_pairs s) (vk_fnkeyhack s) (kp_key params) (kp_flags params) EventType_DOWN =
      (key, flags, hs)"
    and "key < VK_BEGIN" and "getRawBits (KeyCode_getModifierFlag (cs_pairs s) key) \<noteq> 0 \<or> \<not> KeyCode_isModifier (cs_pairs s) key"
  shows "\<exists>t mods item. FireKey_fire (Suc n) params a pe s = Some t \<and> oq_queue t = oq_queue s @ mods @ [item] \<and>
    map modifier_event mods =
      map (\<lambda>f. Some (ModifierFlag_getKeyCode (cs_pairs s) f, False))
        (filter (\<lambda>f. Flags_isOn (fm_lastFlags s) f \<and> \<not> Flags_isOn flags f) (registered s)) @
      map (\<lambda>f. Some (ModifierFlag_getKeyCode (cs_pairs s) f, True))
        (filter (\<lambda>f. Flags_isOn flags f \<and> \<not> Flags_isOn (fm_lastFlags s) f) (registered s)) \<and>
    oi_params item = P_Keyboard (KeyboardParams_full (cs_pairs s) EventType_DOWN flags key (kp_charCode params)
      (kp_charSet params) (kp_origCharCode params) (kp_origCharSet params) (kp_keyboardType params) (kp_repeat params)) \<and>
    fm_lastFlags t = Flags_vector (filter (Flags_isOn flags) (registered s @ [ModifierFlag_NUMPAD])) \<and>
    pd_list t = (if kp_repeat params then pd_list s else pd_list s @ [(key, kp_keyboardType params)])"
proof -
  define u where "u = setIgnorePhysicalUpEvent False (s\<lparr>mk_lastPhysicalEventType := pe, vk_fnkeyhack := hs\<rparr>)"
  define w where "w = FireModifiers_fire a pe flags (kp_keyboardType params) u"
  have u: "cs_pairs u = cs_pairs s" "registered u = registered s" "fm_lastFlags u = fm_lastFlags s"
    "oq_queue u = oq_queue s" "pd_list u = pd_list s" "fm_isIgnorePhysicalUpEvent u = False"
    by (simp_all add: u_def setIgnorePhysicalUpEvent_def registered_def)
  have ok: "modifiers_ok u"
    using assms(1) unfolding modifiers_ok_def u by assumption
  have "pe = PE_DOWN \<or> fm_isIgnorePhysicalUpEvent u = False" by (simp add: u)
  from fire_sends [OF ok this, of flags a "kp_keyboardType params"] obtain mods where
    mods: "oq_queue w = oq_queue s @ mods"
      "map modifier_event mods = map (pressing (cs_pairs s) False) (released_modifiers flags u) @
         map (pressing (cs_pairs s) True) (pressed_modifiers flags u)"
      "fm_lastFlags w = settled_flags flags u"
    unfolding sends_modifiers_def w_def u by blast
  have w: "cs_pairs w = cs_pairs s" "pd_list w = pd_list s"
    using fire_preserves(3) [OF ok, of a pe flags "kp_keyboardType params"] by (simp_all add: w_def u FireModifiers_pd_list)
  have key: "key \<noteq> KeyCode_VK_NONE" "key \<noteq> KeyCode_VK_PSEUDO_KEY"
    using hardware_neq [OF assms(8)] by simp_all
  have "FireKey_send params a pe (s\<lparr>mk_lastPhysicalEventType := pe\<rparr>) =
    (let t = OutputQueue_push (P_Keyboard (KeyboardParams_full (cs_pairs s) EventType_DOWN flags key
       (kp_charCode params) (kp_charSet params) (kp_origCharCode params) (kp_origCharSet params)
       (kp_keyboardType params) (kp_repeat params))) a w
     in if kp_repeat params then t else PressDownKeys_add key (kp_keyboardType params) t)"
    using assms(5-9) key w(1) by (auto simp: FireKey_send_def Let_def u_def [symmetric] w_def [symmetric])
  then show ?thesis
    unfolding FireKey_hardware [OF assms(2-4)]
    using mods key w
    by (simp add: Let_def push_fields PressDownKeys_add_def released_modifiers_def pressed_modifiers_def
        settled_flags_def pressing_def [abs_def] u)
qed

text \<open>
  C12: Releasing a key of the hardware sends the release alone, with the flags of the event before
  it: no modifier event is sent for it, and the key is no longer remembered as pressed.
\<close>

theorem FireKey_release:
  assumes "virtual_ok s" and "kp_key params < VK_BEGIN" and "kp_key params \<notin> set (vp_changedKeyCodes s)"
    and "kp_eventType params = EventType_UP"
    and "reverseNormalizeKey (cs_pairs s) (vk_fnkeyhack s) (kp_key params) (kp_flags params) EventType_UP =
      (key, flags, hs)"
    and "key < VK_BEGIN" and "getRawBits (KeyCode_getModifierFlag (cs_pairs s) key) \<noteq> 0 \<or> \<not> KeyCode_isModifier (cs_pairs s) key"
  shows "\<exists>t item. FireKey_fire (Suc n) params a pe s = Some t \<and> oq_queue t = oq_queue s @ [item] \<and>
    oi_params item = P_Keyboard (KeyboardParams_full (cs_pairs s) EventType_UP (fm_lastFlags s) key (kp_charCode params)
      (kp_charSet params) (kp_origCharCode params) (kp_origCharSet params) (kp_keyboardType params) (kp_repeat params)) \<and>
    fm_lastFlags t = fm_lastFlags s \<and>
    pd_list t = (if kp_repeat params then pd_list s
                 else filter (\<lambda>p. \<not> (fst p = key \<and> snd p = kp_keyboardType params)) (pd_list s))"
proof -
  define u where "u = s\<lparr>mk_lastPhysicalEventType := pe, vk_fnkeyhack := hs\<rparr>"
  have u: "cs_pairs u = cs_pairs s" "fm_lastFlags u = fm_lastFlags s" "oq_queue u = oq_queue s" "pd_list u = pd_list s"
    by (simp_all add: u_def)
  have key: "key \<noteq> KeyCode_VK_NONE" "key \<noteq> KeyCode_VK_PSEUDO_KEY"
    using hardware_neq [OF assms(6)] by simp_all
  have "FireKey_send params a pe (s\<lparr>mk_lastPhysicalEventType := pe\<rparr>) =
    (let t = OutputQueue_push (P_Keyboard (KeyboardParams_full (cs_pairs s) EventType_UP (fm_lastFlags s) key
       (kp_charCode params) (kp_charSet params) (kp_origCharCode params) (kp_origCharSet params)
       (kp_keyboardType params) (kp_repeat params))) a u
     in if kp_repeat params then t else PressDownKeys_remove key (kp_keyboardType params) t)"
    using assms(4-7) key by (auto simp: FireKey_send_def Let_def u_def [symmetric] u)
  then show ?thesis
    unfolding FireKey_hardware [OF assms(1-3)]
    by (simp add: Let_def push_fields PressDownKeys_remove_def u)
qed

lemma modifiers_ok_static: "modifiers_ok vk_static"
  using modifiers_ok_boot
  unfolding modifiers_ok_def registered_boot out_boot_simps vk_static_simps by assumption

lemma virtual_ok_static: "virtual_ok vk_static"
proof -
  have "\<forall>p \<in> set normal_pairs. \<forall>type \<in> set virtual_key_types. VK_BEGIN \<le> Pair_getKeyCode p type"
    by code_simp
  then show ?thesis by (simp add: virtual_ok_def virtual_codes_def)
qed

lemma reverse_A:
  "reverseNormalizeKey normal_pairs fnkeyhack_init KeyCode_A fl EventType_DOWN =
     (KeyCode_A, Flags_stripNUMPAD normal_pairs fl, fnkeyhack_init)"
  "reverseNormalizeKey normal_pairs fnkeyhack_init KeyCode_A fl EventType_UP =
     (KeyCode_A, Flags_stripNUMPAD normal_pairs fl, fnkeyhack_init)"
  "\<not> KeyCode_isModifier normal_pairs KeyCode_A"
  subgoal by (simp add: reverseNormalizeKey_def fnkeyhack_init_def FNKeyHack_new_def FNKeyHack_reverse_def
      FNKeyHack_remap_def isNumpadKey_def isCursorKey_def Let_def)
  subgoal by (simp add: reverseNormalizeKey_def fnkeyhack_init_def FNKeyHack_new_def FNKeyHack_reverse_def
      FNKeyHack_remap_def isNumpadKey_def isCursorKey_def Let_def)
  subgoal by code_simp
  done

theorem FireKey_press_witness:
  "\<exists>t mods item. FireKey_fire 3 (KeyboardParams_new normal_pairs EventType_DOWN (Flags_vector [ModifierFlag_SHIFT_L])
       KeyCode_A 0 False) 0 PE_DOWN vk_static = Some t \<and>
     oq_queue t = mods @ [item] \<and> map modifier_event mods = [Some (KeyCode_SHIFT_L, True)] \<and>
     pd_list t = [(KeyCode_A, 0)]"
proof -
  let ?fl = "Flags_stripNUMPAD normal_pairs (Flags_vector [ModifierFlag_SHIFT_L])"
  let ?p = "KeyboardParams_new normal_pairs EventType_DOWN (Flags_vector [ModifierFlag_SHIFT_L]) KeyCode_A 0 False"
  have down: "kp_ex_iskeydown ?p" by (simp add: isKeyDownOrModifierDown_def)
  have rel: "filter (\<lambda>f. Flags_isOn 0 f \<and> \<not> Flags_isOn ?fl f) (map pr_modifierFlag normal_pairs) = []"
    by code_simp
  have press: "filter (\<lambda>f. Flags_isOn ?fl f \<and> \<not> Flags_isOn 0 f) (map pr_modifierFlag normal_pairs) = [ModifierFlag_SHIFT_L]"
    by code_simp
  have key: "ModifierFlag_getKeyCode normal_pairs ModifierFlag_SHIFT_L = KeyCode_SHIFT_L" by code_simp
  have "3 = Suc 2" by simp
  then show ?thesis
    using FireKey_press [OF modifiers_ok_static virtual_ok_static, of ?p KeyCode_A ?fl fnkeyhack_init 2 0 PE_DOWN]
      down rel press key
    by (auto simp: reverse_A KeyboardParams_new_def KeyboardParams_full_def simp del: FireKey_fire.simps)
qed

theorem FireKey_release_witness:
  "\<exists>t item. FireKey_fire 3 (KeyboardParams_new normal_pairs EventType_UP 0 KeyCode_A 0 False) 0 PE_UP vk_static = Some t \<and>
     oq_queue t = [item] \<and> fm_lastFlags t = 0"
proof -
  let ?p = "KeyboardParams_new normal_pairs EventType_UP 0 KeyCode_A 0 False"
  have "3 = Suc 2" by simp
  then show ?thesis
    using FireKey_release [OF virtual_ok_static, of ?p KeyCode_A "Flags_stripNUMPAD normal_pairs 0" fnkeyhack_init 2 0 PE_UP]
    by (auto simp: reverse_A KeyboardParams_new_def KeyboardParams_full_def simp del: FireKey_fire.simps)
qed

section \<open>VK_PARTIAL sends half of a key press\<close>

lemma FireModifiers_vk:
  fixes s :: "'a VKState_scheme"
  shows "MouseState.more (FireModifiers_fire a pe to kt s) = MouseState.more s"
    and "cs_pairs (FireModifiers_fire a pe to kt s) = cs_pairs s"
  using vk_more_eqD [of "FireModifiers_fire a pe to kt s" s] FireModifiers_emits(1) [of s a pe to kt]
  by (simp_all add: emits_def)

lemma push_vk:
  fixes s :: "'a VKState_scheme"
  shows "MouseState.more (OutputQueue_push p a s) = MouseState.more s"
  by (rule vk_more_eqD) (simp add: push_more)

lemma FireKey_send_frame [simp]:
  "vp_active (FireKey_send params a pe s) = vp_active s"
  "vp_changedKeyCodes (FireKey_send params a pe s) = vp_changedKeyCodes s"
  "vj_newkeycode (FireKey_send params a pe s) = vj_newkeycode s"
  "vc_items (FireKey_send params a pe s) = vc_items s"
  "cs_pairs (FireKey_send params a pe s) = cs_pairs s"
  by (simp_all add: FireKey_send_def Let_def case_prod_unfold setIgnorePhysicalUpEvent_def PressDownKeys_add_def
      PressDownKeys_remove_def setcurrent_lastsentevent_def push_fields FireModifiers_vk
      vk_mouse_eqD [OF push_vk] vk_mouse_eqD [OF FireModifiers_vk(1)])

text \<open>
  C36: When a partial key is being waited for, the next press of a hardware key sends only the
  half chosen by \<open>VK_PARTIAL_KEYDOWN\<close> or \<open>VK_PARTIAL_KEYUP\<close>, and the release of that key sends nothing
  and ends its blocking.
\<close>

theorem VK_PARTIAL_once:
  assumes "virtual_codes s" and "vp_active s" and "kp_key d < VK_BEGIN" and "kp_key d \<notin> set (vp_changedKeyCodes s)"
    and "kp_ex_iskeydown d" and "kp_key r = kp_key d" and "\<not> kp_ex_iskeydown r"
  shows "\<exists>t u. FireKey_fire 3 d a pe s = Some t \<and> FireKey_fire 3 r b pe' t = Some u \<and> \<not> vp_active t \<and>
    oq_queue t = oq_queue (FireKey_send
      (KeyboardParams_full (cs_pairs s) (vp_eventType s) (kp_flags d) (kp_key d) (kp_charCode d) (kp_charSet d)
         (kp_origCharCode d) (kp_origCharSet d) (kp_keyboardType d) (kp_repeat d))
      a pe (s\<lparr>mk_lastPhysicalEventType := pe, vp_active := False\<rparr>)) \<and>
    oq_queue u = oq_queue t \<and> vp_changedKeyCodes u = vp_changedKeyCodes s"
proof -
  let ?i = "KeyboardParams_full (cs_pairs s) (vp_eventType s) (kp_flags d) (kp_key d) (kp_charCode d) (kp_charSet d)
         (kp_origCharCode d) (kp_origCharSet d) (kp_keyboardType d) (kp_repeat d)"
  let ?s = "s\<lparr>mk_lastPhysicalEventType := pe, vp_active := False\<rparr>"
  have ok: "virtual_ok ?s" using assms(1) by (simp add: virtual_ok_def virtual_codes_def)
  have inner: "FireKey_fire 2 ?i a pe ?s = Some (FireKey_send ?i a pe ?s)"
  proof -
    have "?s\<lparr>mk_lastPhysicalEventType := pe\<rparr> = ?s" by (cases s) simp
    moreover have "FireKey_fire (Suc 1) ?i a pe ?s = Some (FireKey_send ?i a pe (?s\<lparr>mk_lastPhysicalEventType := pe\<rparr>))"
      using assms(3,4) by (intro FireKey_hardware [OF ok]) simp_all
    ultimately show ?thesis by (simp only: Suc_1)
  qed
  define t where "t = setcurrent_lastsentevent (P_Keyboard d)
      ((FireKey_send ?i a pe ?s)\<lparr>vp_changedKeyCodes := vp_changedKeyCodes s @ [kp_key d]\<rparr>)"
  have three: "(3::nat) = Suc 2" by simp
  have handle: "VirtualKey_handle (\<lambda>p. FireKey_fire 2 p a pe) d a pe s =
      Some (True, (FireKey_send ?i a pe ?s)\<lparr>vp_changedKeyCodes := vp_changedKeyCodes s @ [kp_key d]\<rparr>)"
    using inner assms(2,5) hardware_neq [OF assms(3)]
    by (simp add: hardware_dispatch [OF assms(1,3)] VK_PARTIAL_handle_def)
  have t: "FireKey_fire 3 d a pe s = Some t"
    unfolding three FireKey_fire.simps(2) handle by (simp add: t_def)
  have codes: "virtual_codes t" using assms(1) by (simp add: virtual_codes_def t_def setcurrent_lastsentevent_def)
  have ft: "vp_active t = False" "vp_changedKeyCodes t = vp_changedKeyCodes s @ [kp_key r]"
    by (simp_all add: t_def setcurrent_lastsentevent_def assms(6))
  have rk: "kp_key r < VK_BEGIN" using assms(3,6) by simp
  have "VirtualKey_handle f r b pe' t =
      Some (True, t\<lparr>mk_lastPhysicalEventType := pe', vp_changedKeyCodes := vp_changedKeyCodes s\<rparr>)" for f
    using hardware_dispatch [OF codes rk, of f b pe'] hardware_neq [OF rk] assms(4,6,7)
    by (simp add: VK_PARTIAL_handle_def ft remove1_append)
  then have "FireKey_fire 3 r b pe' t = Some (setcurrent_lastsentevent (P_Keyboard r)
      (t\<lparr>mk_lastPhysicalEventType := pe', vp_changedKeyCodes := vp_changedKeyCodes s\<rparr>))"
    unfolding three FireKey_fire.simps(2) by simp
  with t show ?thesis by (simp add: ft setcurrent_lastsentevent_def) (simp add: t_def setcurrent_lastsentevent_def)
qed

theorem VK_PARTIAL_once_witness:
  "\<exists>t u. FireKey_fire 3 (KeyboardParams_new [] EventType_DOWN 0 KeyCode_A 0 False) 0 PE_DOWN (vk_static\<lparr>vp_active := True\<rparr>) = Some t \<and>
     FireKey_fire 3 (KeyboardParams_new [] EventType_UP 0 KeyCode_A 0 False) 0 PE_UP t = Some u \<and> oq_queue u = oq_queue t"
proof -
  have "virtual_codes (vk_static\<lparr>vp_active := True\<rparr>)"
    using virtual_ok_static by (simp add: virtual_ok_def virtual_codes_def)
  from VK_PARTIAL_once [OF this, of "KeyboardParams_new [] EventType_DOWN 0 KeyCode_A 0 False"
      "KeyboardParams_new [] EventType_UP 0 KeyCode_A 0 False" 0 PE_DOWN 0 PE_UP]
  show ?thesis by (auto simp: isKeyDownOrModifierDown_def simp del: FireKey_fire.simps)
qed

section \<open>VK_CONFIG tells user space what changed\<close>

definition config_notes :: "'a CommonState_scheme \<Rightarrow> (nat \<times> nat) list" where
  "config_notes s = filter (\<lambda>n. fst n = NOTIFICATION_CONFIG_ENABLED_UPDATED) (cs_notifications s)"

lemma FireModifiers_notifications:
  fixes s :: "'a OutState_scheme"
  shows "cs_notifications (FireModifiers_fire_current a pe s) = cs_notifications s"
proof -
  have up: "cs_notifications (modifier_up a to kt i u) = cs_notifications u"
    "cs_notifications (modifier_down a to kt i u) = cs_notifications u" for to kt i and u :: "'a OutState_scheme"
    by (simp_all add: modifier_up_def modifier_down_def Let_def OutputQueue_push_def PUSH_TO_OUTPUTQUEUE_def
        setcurrent_lastsentevent_def)
  have "cs_notifications (fold (modifier_up a to kt) is u) = cs_notifications u"
    "cs_notifications (fold (modifier_down a to kt) is u) = cs_notifications u"
    for to kt "is" and u :: "'a OutState_scheme"
    by (induction "is" arbitrary: u) (simp_all add: up)
  then show ?thesis
    by (simp add: FireModifiers_fire_current_def FireModifiers_fire_def FireModifiers_send_def Let_def)
qed

definition config_effect :: "'a VKState_scheme \<Rightarrow> 'a VKState_scheme \<Rightarrow> bool" where
  "config_effect s t =
     (vk_remapclass t = vk_remapclass s \<and> config_notes t = config_notes s \<or>
      (\<exists>r. vk_remapclass t =
              (vk_remapclass s)(r := (vk_remapclass s r)\<lparr>rc_enabled := \<not> rc_enabled (vk_remapclass s r)\<rparr>) \<and>
           config_notes t = config_notes s @
             [(NOTIFICATION_CONFIG_ENABLED_UPDATED, unat (rc_configindex (vk_remapclass s r)))]))"

lemma refresh_effect:
  assumes "vk_remapclass u = (vk_remapclass s)(r := (vk_remapclass s r)\<lparr>rc_enabled := b\<rparr>)"
    and "config_notes u = config_notes s"
  shows "config_effect s (snd (VK_CONFIG_refresh r (rc_enabled (vk_remapclass s r)) u))"
proof (cases "rc_enabled (vk_remapclass s r) = b")
  case True
  have "(vk_remapclass s r)\<lparr>rc_enabled := b\<rparr> = vk_remapclass s r" using True by simp
  with True assms show ?thesis by (simp add: config_effect_def VK_CONFIG_refresh_def fun_upd_idem)
next
  case False
  then have "b = (\<not> rc_enabled (vk_remapclass s r))" by simp
  with assms show ?thesis
    by (auto simp: config_effect_def VK_CONFIG_refresh_def send_notification_to_userspace_def
        RemapClassManager_refresh_def config_notes_def)
qed

lemma setEnabled_effect [simp]:
  "vk_remapclass (setEnabled r b s) = (vk_remapclass s)(r := (vk_remapclass s r)\<lparr>rc_enabled := b\<rparr>)"
  "config_notes (setEnabled r b s) = config_notes s"
  by (simp_all add: setEnabled_def config_notes_def)

lemma fire_config [simp]:
  fixes s :: "'a VKState_scheme"
  shows "vk_remapclass (FireModifiers_fire_current a pe s) = vk_remapclass s"
    and "config_notes (FireModifiers_fire_current a pe s) = config_notes s"
  using vk_mouse_eqD(5) [OF vk_more_eqD [OF FireModifiers_more [of a pe s]]]
  by (simp_all add: config_notes_def FireModifiers_notifications)

text \<open>
  An event for a configuration key switches at most one remap class, and user space is told
  about it, with the index of that class, exactly when its state has changed.
\<close>

theorem VK_CONFIG_notifies:
  "let t = snd (VK_CONFIG_handle params a pe s) in
   vk_remapclass t = vk_remapclass s \<and> config_notes t = config_notes s \<or>
   (\<exists>r. vk_remapclass t =
          (vk_remapclass s)(r := (vk_remapclass s r)\<lparr>rc_enabled := \<not> rc_enabled (vk_remapclass s r)\<rparr>) \<and>
        config_notes t = config_notes s @
          [(NOTIFICATION_CONFIG_ENABLED_UPDATED, unat (rc_configindex (vk_remapclass s r)))])"
proof -
  have refl: "config_effect s s" by (simp add: config_effect_def)
  have "config_effect s (snd (VK_CONFIG_loop items params a pe s))" for items
    by (induction items)
       (auto simp: refl toggleEnabled_def Let_def intro!: refresh_effect split: option.split)
  then show ?thesis unfolding VK_CONFIG_handle_def Let_def config_effect_def by blast
qed

section \<open>VK_LOCK is a toggle\<close>

lemma map_if_twice:
  assumes "\<And>x. P (f x) = P x" and "\<And>x. x \<in> set xs \<Longrightarrow> f (f x) = x"
  shows "map_if P f (map_if P f xs) = xs"
  using assms by (induction xs) (simp_all add: map_if_def)

text \<open>
  The first press of a lock key toggles the lock of its modifier and of no other, and a
  second press restores every modifier.
\<close>

theorem VK_LOCK_toggles:
  assumes "modifiers_ok s" and "list_all item_ok (fs_item s)" and "kp_ex_iskeydown params" and "\<not> kp_repeat params"
    and "Pairs_getModifierFlag (cs_pairs s) (kp_key params) KCT_VK_LOCK = m" and "m \<noteq> ModifierFlag_ZERO"
  shows "let t = snd (VK_LOCK_handle params a pe s) in
    fs_item t = map (\<lambda>it. if fi_flag it = m then Item_lock_toggle it else it) (fs_item s) \<and>
    fs_item (snd (VK_LOCK_handle params b pe' t)) = fs_item s"
proof -
  have step: "fs_item (snd (VK_LOCK_handle params c q u)) = map_if (\<lambda>it. fi_flag it = m) Item_lock_toggle (fs_item u) \<and>
      modifiers_ok (snd (VK_LOCK_handle params c q u)) \<and> cs_pairs (snd (VK_LOCK_handle params c q u)) = cs_pairs u"
    if "modifiers_ok u" "cs_pairs u = cs_pairs s" for c q and u :: "'a VKState_scheme"
  proof -
    let ?u = "FlagStatus_lock_toggle (FA_Flag m) u"
    have h: "snd (VK_LOCK_handle params c q u) = FireModifiers_fire_current c q ?u"
      using assms that(2) by (simp add: VK_LOCK_handle_def MODIFY_FLAGSTATUS_def)
    have items: "fs_item ?u = map_if (\<lambda>it. fi_flag it = m) Item_lock_toggle (fs_item u)"
      by (simp add: FlagStatus_lock_toggle_def eq_commute)
    have "registered ?u = registered u" by (simp add: registered_def items map_if_def Item_lock_toggle_def)
    moreover have "cs_pairs ?u = cs_pairs u" by (simp add: FlagStatus_lock_toggle_def)
    moreover have "fm_lastFlags ?u = fm_lastFlags u"
      using FlagState_more_eqD(3) [OF flag_methods_more(3) [of "FA_Flag m" u]] .
    ultimately have ok: "modifiers_ok ?u"
      using that(1) modifiers_ok_registered [of ?u u] by blast
    show ?thesis
      unfolding h FireModifiers_fire_current_def
      using fire_preserves [OF ok] items that(2) by (simp add: FlagStatus_lock_toggle_def)
  qed
  define t where "t = snd (VK_LOCK_handle params a pe s)"
  have t: "fs_item t = map_if (\<lambda>it. fi_flag it = m) Item_lock_toggle (fs_item s)" "modifiers_ok t" "cs_pairs t = cs_pairs s"
    using step [of s] assms(1) by (simp_all add: t_def)
  have "map_if (\<lambda>it. fi_flag it = m) Item_lock_toggle (map_if (\<lambda>it. fi_flag it = m) Item_lock_toggle (fs_item s)) = fs_item s"
  proof (rule map_if_twice)
    fix x
    assume "x \<in> set (fs_item s)"
    then show "Item_lock_toggle (Item_lock_toggle x) = x"
      using assms(2) by (auto simp: list_all_iff item_ok_def Item_lock_toggle_def c_not_def)
  qed (simp add: Item_lock_toggle_def)
  then have "fs_item (snd (VK_LOCK_handle params b pe' t)) = fs_item s" using step [OF t(2,3)] t(1) by simp
  with t(1) show ?thesis by (simp add: t_def Let_def map_if_def)
qed

theorem VK_LOCK_toggles_witness:
  "let p = KeyboardParams_new normal_pairs EventType_DOWN 0 KeyCode_VK_LOCK_SHIFT_L 0 False;
       t = snd (VK_LOCK_handle p 0 PE_DOWN vk_static)
   in fs_item (snd (VK_LOCK_handle p 0 PE_DOWN t)) = fs_item vk_static"
proof -
  have "list_all item_ok (fs_item vk_static)"
    by (simp add: items_of_pairs_def list_all_iff item_ok_def Item_initialize_def)
  moreover have "Pairs_getModifierFlag normal_pairs KeyCode_VK_LOCK_SHIFT_L KCT_VK_LOCK = ModifierFlag_SHIFT_L"
    by code_simp
  ultimately show ?thesis
    using VK_LOCK_toggles [OF modifiers_ok_static, of
        "KeyboardParams_new normal_pairs EventType_DOWN 0 KeyCode_VK_LOCK_SHIFT_L 0 False"
        ModifierFlag_SHIFT_L 0 PE_DOWN 0 PE_DOWN]
    by (simp add: isKeyDownOrModifierDown_def Let_def) (simp add: KeyboardParams_new_def KeyboardParams_full_def)
qed

end
