(* ===== verification/KeyFrame.thy ===== *)
theory KeyFrame
  imports VirtualKeys
begin

text \<open>
  What firing a key leaves alone, for the components above the output queue: the state they add
  to the record, the registered pairs and the configuration. The handlers of the virtual keys
  also keep the condition under which \<open>FireKey::fire\<close> returns, so any number of calls returns.
\<close>

section \<open>How often each modifier is pressed\<close>

definition press_counts :: "'a FlagState_scheme \<Rightarrow> (ModifierFlag \<times> int) list" where
  "press_counts s = map (\<lambda>it. (fi_flag it, fi_count it)) (fs_item s)"

lemma held_update [simp]:
  "press_counts (t\<lparr>fm_lastFlags := x1\<rparr>) = press_counts t" "press_counts (u\<lparr>fm_isIgnorePhysicalUpEvent := x2\<rparr>) = press_counts u"
  "press_counts (v\<lparr>fr_lastButtons := x3\<rparr>) = press_counts v" "press_counts (w\<lparr>pd_list := x4\<rparr>) = press_counts w"
  "press_counts (m\<lparr>mk_lastPhysicalEventType := x5\<rparr>) = press_counts m" "press_counts (k\<lparr>vp_active := x6\<rparr>) = press_counts k"
  "press_counts (k\<lparr>vj_newkeycode := x7\<rparr>) = press_counts k"
  by (simp_all add: press_counts_def)

lemma push_held [simp]:
  fixes s :: "'a OutState_scheme"
  shows "press_counts (OutputQueue_push p a s) = press_counts s"
proof -
  let ?s = "PUSH_TO_OUTPUTQUEUE p a s"
  have "OutputQueue_push p a s = ?s \<or> OutputQueue_push p a s = FlagStatus_sticky_clear ?s"
    by (auto simp: OutputQueue_push_def Let_def split: Params.split)
  moreover have "press_counts ?s = press_counts s"
    by (simp add: press_counts_def PUSH_TO_OUTPUTQUEUE_def setcurrent_lastsentevent_def Let_def)
  moreover have "press_counts (FlagStatus_sticky_clear ?s) = press_counts ?s"
    by (simp add: press_counts_def FlagStatus_sticky_clear_def map_if_proj Item_sticky_decrease_def)
  ultimately show ?thesis by auto
qed

lemma fold_held: "(\<And>x s. press_counts (f x s) = press_counts s) \<Longrightarrow> press_counts (fold f xs s) = press_counts s"
  by (induction xs arbitrary: s) simp_all

lemma FireModifiers_held [simp]:
  fixes s :: "'a OutState_scheme"
  shows "press_counts (FireModifiers_fire a pe to kt s) = press_counts s" and "press_counts (FireModifiers_fire_current a pe s) = press_counts s"
proof -
  have "press_counts (modifier_up a to kt i u) = press_counts u" "press_counts (modifier_down a to kt i u) = press_counts u"
    for i to kt and u :: "'a OutState_scheme"
    by (simp_all add: modifier_up_def modifier_down_def Let_def)
  then have "press_counts (FireModifiers_send a to kt u) = press_counts u" for to kt and u :: "'a OutState_scheme"
    by (simp add: FireModifiers_send_def Let_def fold_held)
  then show "press_counts (FireModifiers_fire a pe to kt s) = press_counts s" "press_counts (FireModifiers_fire_current a pe s) = press_counts s"
    by (simp_all add: FireModifiers_fire_def FireModifiers_fire_current_def)
qed

lemma FireConsumer_held [simp]:
  fixes s :: "'a OutState_scheme"
  shows "press_counts (FireConsumer_fire p a pe s) = press_counts s"
  by (simp add: FireConsumer_fire_def Let_def setIgnorePhysicalUpEvent_def)

lemma FireRelativePointer_held [simp]:
  fixes s :: "'a OutState_scheme"
  shows "press_counts (FireRelativePointer_fire a pe b dx dy s) = press_counts s"
  by (simp add: FireRelativePointer_fire_def Let_def setIgnorePhysicalUpEvent_def)

text \<open>Only \<open>increase\<close> and \<open>decrease\<close> count presses; the other methods change other counters.\<close>

lemma item_methods_held [simp]:
  "fi_flag (Item_temporary_increase it) = fi_flag it" "fi_count (Item_temporary_increase it) = fi_count it"
  "fi_flag (Item_temporary_decrease it) = fi_flag it" "fi_count (Item_temporary_decrease it) = fi_count it"
  "fi_flag (Item_lazy_increase it) = fi_flag it" "fi_count (Item_lazy_increase it) = fi_count it"
  "fi_flag (Item_lazy_decrease it) = fi_flag it" "fi_count (Item_lazy_decrease it) = fi_count it"
  "fi_flag (Item_lazy_enable it) = fi_flag it" "fi_count (Item_lazy_enable it) = fi_count it"
  "fi_flag (Item_lazy_disable_if_off it) = fi_flag it" "fi_count (Item_lazy_disable_if_off it) = fi_count it"
  "fi_flag (Item_lock_increase it) = fi_flag it" "fi_count (Item_lock_increase it) = fi_count it"
  "fi_flag (Item_lock_decrease it) = fi_flag it" "fi_count (Item_lock_decrease it) = fi_count it"
  "fi_flag (Item_lock_toggle it) = fi_flag it" "fi_count (Item_lock_toggle it) = fi_count it"
  "fi_flag (Item_negative_lock_increase it) = fi_flag it" "fi_count (Item_negative_lock_increase it) = fi_count it"
  "fi_flag (Item_negative_lock_decrease it) = fi_flag it" "fi_count (Item_negative_lock_decrease it) = fi_count it"
  "fi_flag (Item_negative_lock_toggle it) = fi_flag it" "fi_count (Item_negative_lock_toggle it) = fi_count it"
  "fi_flag (Item_sticky_increase it) = fi_flag it" "fi_count (Item_sticky_increase it) = fi_count it"
  "fi_flag (Item_sticky_decrease it) = fi_flag it" "fi_count (Item_sticky_decrease it) = fi_count it"
  "fi_flag (Item_sticky_toggle it) = fi_flag it" "fi_count (Item_sticky_toggle it) = fi_count it"
  "fi_flag (Item_set it) = fi_flag it" "fi_count (Item_set it) = fi_count it"
  by (simp_all add: Item_temporary_increase_def Item_temporary_decrease_def Item_lazy_increase_def
      Item_lazy_decrease_def Item_lazy_enable_def Item_lazy_disable_if_off_def Item_lock_increase_def
      Item_lock_decrease_def Item_lock_toggle_def Item_negative_lock_increase_def
      Item_negative_lock_decrease_def Item_negative_lock_toggle_def Item_sticky_increase_def
      Item_sticky_decrease_def Item_sticky_toggle_def Item_set_def)

lemma methods_held:
  assumes "\<And>it. fi_flag (f it) = fi_flag it \<and> fi_count (f it) = fi_count it"
  shows "press_counts (DEFINE_METHODS_count f a s) = press_counts s"
    and "press_counts (DEFINE_METHODS_lock f a s) = press_counts s"
    and "press_counts (FlagStatus_all P f s) = press_counts s"
  using assms by (simp_all add: press_counts_def map_if_proj)

lemma updateStatusMessage_held [simp]: "press_counts (updateStatusMessage s) = press_counts s"
  by (simp add: press_counts_def)

lemma FlagStatus_all_config [simp]: "cs_config (FlagStatus_all P f s) = cs_config s"
  by (simp add: FlagStatus_all_def)

section \<open>What firing a key keeps\<close>

definition vk_keeps :: "'a VKState_scheme \<Rightarrow> 'a VKState_scheme \<Rightarrow> bool" where
  "vk_keeps s t =
     (VKState.more t = VKState.more s \<and> cs_pairs t = cs_pairs s \<and> cs_config t = cs_config s \<and>
      press_counts t = press_counts s \<and> vc_items t = vc_items s \<and> (vj_newkeycode s \<notin> jis_keys \<longrightarrow> vj_newkeycode t \<notin> jis_keys))"

lemma keeps_refl [simp, intro]: "vk_keeps s s"
  by (simp add: vk_keeps_def)

lemma keeps_trans: "vk_keeps s t \<Longrightarrow> vk_keeps t u \<Longrightarrow> vk_keeps s u"
  by (simp add: vk_keeps_def)

lemma vk_mouse_more:
  fixes s t :: "'a VKState_scheme"
  assumes "MouseState.more t = MouseState.more s"
  shows "VKState.more t = VKState.more s"
  using assms by (cases s; cases t; simp)

lemma keeps_mouse:
  fixes s t :: "'a VKState_scheme"
  assumes "MouseState.more t = MouseState.more s" and "cs_pairs t = cs_pairs s" and "cs_config t = cs_config s"
    and "press_counts t = press_counts s"
  shows "vk_keeps s t"
  using assms vk_mouse_more [OF assms(1)] vk_mouse_eqD [OF assms(1)] by (simp add: vk_keeps_def)

lemma keeps_emits:
  fixes s t :: "'a VKState_scheme"
  shows "emits P s t \<Longrightarrow> press_counts t = press_counts s \<Longrightarrow> vk_keeps s t"
  by (rule keeps_mouse) (auto simp: emits_def dest: vk_more_eqD)

lemma keeps_flag:
  fixes s t :: "'a VKState_scheme"
  shows "FlagState.more t = FlagState.more s \<Longrightarrow> cs_pairs t = cs_pairs s \<Longrightarrow> cs_config t = cs_config s \<Longrightarrow>
    press_counts t = press_counts s \<Longrightarrow> vk_keeps s t"
  by (rule keeps_mouse) (auto dest: flag_more_eqD)

lemma keeps_update [simp]:
  "vk_keeps s (t\<lparr>vk_remapclass := x1\<rparr>) = vk_keeps s t"
  "vk_keeps s (t\<lparr>vk_refresh_timer := x2\<rparr>) = vk_keeps s t"
  "vk_keeps s (t\<lparr>vp_changedKeyCodes := x3\<rparr>) = vk_keeps s t"
  "vk_keeps s (t\<lparr>vp_active := x4\<rparr>) = vk_keeps s t"
  "vk_keeps s (t\<lparr>vp_eventType := x5\<rparr>) = vk_keeps s t"
  "vk_keeps s (t\<lparr>vk_fnkeyhack := x6\<rparr>) = vk_keeps s t"
  "vk_keeps s (t\<lparr>vk_numLock := x7\<rparr>) = vk_keeps s t"
  "vk_keeps s (t\<lparr>cs_notifications := x8\<rparr>) = vk_keeps s t"
  "vk_keeps s (t\<lparr>mk_lastPhysicalEventType := x9\<rparr>) = vk_keeps s t"
  "vk_keeps s (t\<lparr>cs_lastsent := x10\<rparr>) = vk_keeps s t"
  "vk_keeps s (t\<lparr>pd_list := x11\<rparr>) = vk_keeps s t"
  "vk_keeps s (t\<lparr>fm_isIgnorePhysicalUpEvent := x12\<rparr>) = vk_keeps s t"
  by (simp_all add: vk_keeps_def press_counts_def)

section \<open>Events of the output queue\<close>

lemma FireModifiers_keeps [simp, intro]:
  "vk_keeps s (FireModifiers_fire a pe to kt s)" "vk_keeps s (FireModifiers_fire_current a pe s)"
  by (rule keeps_emits [OF FireModifiers_emits(1)], simp) (rule keeps_emits [OF FireModifiers_emits(2)], simp)

lemma push_keeps [simp, intro]: "vk_keeps s (OutputQueue_push p a s)"
  by (rule keeps_emits [OF push_emits [of "\<lambda>_. True"]]) simp_all

lemma FireConsumer_keeps [simp, intro]: "vk_keeps s (FireConsumer_fire p a pe s)"
proof -
  have "vk_keeps u (OutputQueue_push q a (FireModifiers_fire_current a pe u))" for u :: "'a VKState_scheme" and q
    by (rule keeps_trans [OF FireModifiers_keeps(2) push_keeps])
  from this [of s] this [of "s\<lparr>fm_isIgnorePhysicalUpEvent := False\<rparr>"] show ?thesis
    by (auto simp: FireConsumer_fire_def Let_def setIgnorePhysicalUpEvent_def vk_keeps_def)
qed

lemma FireRelativePointer_keeps [simp, intro]: "vk_keeps s (FireRelativePointer_fire a pe b dx dy s)"
  by (rule keeps_emits [OF FireRelativePointer_emits]) simp

lemma FireKey_send_keeps [simp, intro]: "vk_keeps s (FireKey_send params a pe s)"
proof -
  have f: "vk_keeps u (FireModifiers_fire a pe to kt v)" if "vk_keeps u v" for u v :: "'a VKState_scheme" and to kt
    using keeps_trans [OF that FireModifiers_keeps(1)] .
  have p: "vk_keeps u (OutputQueue_push q a v)" if "vk_keeps u v" for u v :: "'a VKState_scheme" and q
    using keeps_trans [OF that push_keeps] .
  show ?thesis
    by (auto simp: FireKey_send_def Let_def case_prod_unfold setIgnorePhysicalUpEvent_def PressDownKeys_add_def
        PressDownKeys_remove_def setcurrent_lastsentevent_def intro!: p f)
qed

section \<open>Handlers\<close>

lemma VK_CONFIG_keeps [intro]: "vk_keeps s (snd (VK_CONFIG_handle params a pe s))"
proof -
  have f: "vk_keeps s (FireModifiers_fire_current a pe t)" if "vk_keeps s t" for t
    using keeps_trans [OF that FireModifiers_keeps(2)] .
  have "vk_keeps s (snd (VK_CONFIG_loop items params a pe s))" for items
    by (induction items)
       (auto simp: Let_def VK_CONFIG_refresh_def toggleEnabled_def setEnabled_def
         send_notification_to_userspace_def RemapClassManager_refresh_def f split: option.splits)
  then show ?thesis by (simp add: VK_CONFIG_handle_def)
qed

lemma flag_methods_keep:
  "vk_keeps s (FlagStatus_lazy_increase x s)" "vk_keeps s (FlagStatus_lazy_decrease x s)"
  "vk_keeps s (FlagStatus_lock_toggle x s)" "vk_keeps s (FlagStatus_lock_increase x s)"
  "vk_keeps s (FlagStatus_lock_decrease x s)" "vk_keeps s (FlagStatus_negative_lock_toggle x s)"
  "vk_keeps s (FlagStatus_negative_lock_increase x s)" "vk_keeps s (FlagStatus_negative_lock_decrease x s)"
  "vk_keeps s (FlagStatus_sticky_toggle x s)" "vk_keeps s (FlagStatus_sticky_increase x s)"
  "vk_keeps s (FlagStatus_sticky_decrease x s)" "vk_keeps s (FlagStatus_lock_clear s)"
  "vk_keeps s (FlagStatus_negative_lock_clear s)" "vk_keeps s (FlagStatus_sticky_clear s)"
  "vk_keeps s (sticky_active_modifiers_toggle s)" "vk_keeps s (sticky_active_modifiers_increase s)"
  "vk_keeps s (sticky_active_modifiers_decrease s)"
  by (intro keeps_flag; simp add: flag_methods_more FlagStatus_lazy_increase_def
      FlagStatus_lazy_decrease_def FlagStatus_lock_toggle_def FlagStatus_lock_increase_def
      FlagStatus_lock_decrease_def FlagStatus_negative_lock_toggle_def FlagStatus_negative_lock_increase_def
      FlagStatus_negative_lock_decrease_def FlagStatus_sticky_toggle_def FlagStatus_sticky_increase_def
      FlagStatus_sticky_decrease_def FlagStatus_lock_clear_def FlagStatus_negative_lock_clear_def
      FlagStatus_sticky_clear_def sticky_active_modifiers_toggle_def sticky_active_modifiers_increase_def
      sticky_active_modifiers_decrease_def sticky_active_modifiers_def methods_held)+

lemma first_remapped_keeps:
  assumes "first_remapped hs s = Some t" and "\<And>h u. h \<in> set hs \<Longrightarrow> h s = Some u \<Longrightarrow> vk_keeps s u"
  shows "vk_keeps s t"
  using assms by (induction hs) (auto split: option.splits)

lemma remapped_keeps:
  assumes "\<And>f. vk_keeps s (method f s)" and "MODIFY_FLAGSTATUS type method params s = Some t"
  shows "vk_keeps s t"
  using assms by (auto simp: MODIFY_FLAGSTATUS_def Let_def split: if_splits)

lemma handled_keeps:
  assumes "vk_keeps s (method s)" and "HANDLE_KEYCODE k method params s = Some t"
  shows "vk_keeps s t"
  using assms by (auto simp: HANDLE_KEYCODE_def split: if_splits)

lemma VK_LOCK_keeps [intro]: "vk_keeps s (snd (VK_LOCK_handle params a pe s))"
proof -
  have "vk_keeps s t" if "first_remapped
        [MODIFY_FLAGSTATUS KCT_VK_LOCK FlagStatus_lock_toggle params,
         MODIFY_FLAGSTATUS KCT_VK_LOCK_FORCE_ON FlagStatus_lock_increase params,
         MODIFY_FLAGSTATUS KCT_VK_LOCK_FORCE_OFF FlagStatus_lock_decrease params,
         MODIFY_FLAGSTATUS KCT_VK_NEGATIVE_LOCK FlagStatus_negative_lock_toggle params,
         MODIFY_FLAGSTATUS KCT_VK_NEGATIVE_LOCK_FORCE_ON FlagStatus_negative_lock_increase params,
         MODIFY_FLAGSTATUS KCT_VK_NEGATIVE_LOCK_FORCE_OFF FlagStatus_negative_lock_decrease params,
         HANDLE_KEYCODE KeyCode_VK_LOCK_ALL_FORCE_OFF FlagStatus_lock_clear params,
         HANDLE_KEYCODE KeyCode_VK_NEGATIVE_LOCK_ALL_FORCE_OFF FlagStatus_negative_lock_clear params] s = Some t" for t
    using that by (rule first_remapped_keeps)
      (auto intro: remapped_keeps [OF flag_methods_keep(3)] remapped_keeps [OF flag_methods_keep(4)]
        remapped_keeps [OF flag_methods_keep(5)] remapped_keeps [OF flag_methods_keep(6)]
        remapped_keeps [OF flag_methods_keep(7)] remapped_keeps [OF flag_methods_keep(8)]
        handled_keeps [OF flag_methods_keep(12)] handled_keeps [OF flag_methods_keep(13)])
  then show ?thesis
    by (auto simp: VK_LOCK_handle_def simp del: first_remapped.simps split: option.split
        intro: keeps_trans [OF _ FireModifiers_keeps(2)])
qed

lemma VK_STICKY_keeps [intro]: "vk_keeps s (snd (VK_STICKY_handle params a pe s))"
proof -
  have "vk_keeps s t" if "first_remapped
        [MODIFY_FLAGSTATUS KCT_VK_STICKY FlagStatus_sticky_toggle params,
         MODIFY_FLAGSTATUS KCT_VK_STICKY_FORCE_ON FlagStatus_sticky_increase params,
         MODIFY_FLAGSTATUS KCT_VK_STICKY_FORCE_OFF FlagStatus_sticky_decrease params,
         HANDLE_KEYCODE KeyCode_VK_STICKY_ACTIVE_MODIFIERS_TOGGLE sticky_active_modifiers_toggle params,
         HANDLE_KEYCODE KeyCode_VK_STICKY_ACTIVE_MODIFIERS_FORCE_ON sticky_active_modifiers_increase params,
         HANDLE_KEYCODE KeyCode_VK_STICKY_ACTIVE_MODIFIERS_FORCE_OFF sticky_active_modifiers_decrease params,
         HANDLE_KEYCODE KeyCode_VK_STICKY_ALL_FORCE_OFF FlagStatus_sticky_clear params] s = Some t" for t
    using that by (rule first_remapped_keeps)
      (auto intro: remapped_keeps [OF flag_methods_keep(9)] remapped_keeps [OF flag_methods_keep(10)]
        remapped_keeps [OF flag_methods_keep(11)] handled_keeps [OF flag_methods_keep(14)]
        handled_keeps [OF flag_methods_keep(15)] handled_keeps [OF flag_methods_keep(16)]
        handled_keeps [OF flag_methods_keep(17)])
  then show ?thesis
    by (auto simp: VK_STICKY_handle_def simp del: first_remapped.simps split: option.split
        intro: keeps_trans [OF _ FireModifiers_keeps(2)])
qed

lemma VK_LAZY_keeps [intro]: "vk_keeps s (snd (VK_LAZY_handle params a pe s))"
  by (simp add: VK_LAZY_handle_def Let_def flag_methods_keep)

lemma button_methods_keep [simp]:
  "vk_keeps s (ButtonStatus_increase b s)" "vk_keeps s (ButtonStatus_decrease b s)"
  "vk_keeps s (ButtonStatus_lock_toggle b s)" "vk_keeps s (ButtonStatus_lock_clear s)"
proof -
  have f: "cs_pairs (fold (\<lambda>(button, name) s. if Buttons_isOn b button
              then append_statusmessage i (ascii name) s else s) names t) = cs_pairs t \<and>
      cs_config (fold (\<lambda>(button, name) s. if Buttons_isOn b button
              then append_statusmessage i (ascii name) s else s) names t) = cs_config t \<and>
      fs_item (fold (\<lambda>(button, name) s. if Buttons_isOn b button
              then append_statusmessage i (ascii name) s else s) names t) = fs_item t"
    for b i names and t :: "'a VKState_scheme"
    by (induction names arbitrary: t) (auto simp: append_statusmessage_def)
  have u: "cs_pairs (ButtonStatus_updateStatusMessage t) = cs_pairs t"
    "cs_config (ButtonStatus_updateStatusMessage t) = cs_config t"
    "fs_item (ButtonStatus_updateStatusMessage t) = fs_item t" for t :: "'a VKState_scheme"
    using f by (simp_all add: ButtonStatus_updateStatusMessage_def Let_def
        send_notification_statusmessage_def clear_statusmessage_def)
  show "vk_keeps s (ButtonStatus_increase b s)" "vk_keeps s (ButtonStatus_decrease b s)"
    "vk_keeps s (ButtonStatus_lock_toggle b s)" "vk_keeps s (ButtonStatus_lock_clear s)"
    by (intro keeps_mouse vk_more_eqD; (simp add: button_methods_more)?; simp add: ButtonStatus_increase_def
        ButtonStatus_decrease_def ButtonStatus_lock_toggle_def ButtonStatus_lock_clear_def
        ButtonStatus_lock_decrease_def FOREACH_TO_BUTTONS_def u press_counts_def)+
qed

lemma mouse_update [simp]:
  "vk_keeps s (t\<lparr>mk_up := b1\<rparr>) = vk_keeps s t" "vk_keeps s (t\<lparr>mk_down := b2\<rparr>) = vk_keeps s t"
  "vk_keeps s (t\<lparr>mk_left := b3\<rparr>) = vk_keeps s t" "vk_keeps s (t\<lparr>mk_right := b4\<rparr>) = vk_keeps s t"
  "vk_keeps s (t\<lparr>mk_scrollmode := b5\<rparr>) = vk_keeps s t" "vk_keeps s (t\<lparr>mk_highspeed := b6\<rparr>) = vk_keeps s t"
  "vk_keeps s (t\<lparr>mk_autogenId := b7\<rparr>) = vk_keeps s t" "vk_keeps s (t\<lparr>mk_scale := b8\<rparr>) = vk_keeps s t"
  "vk_keeps s (t\<lparr>mk_timer := b9\<rparr>) = vk_keeps s t" "vk_keeps s (FixedDistanceScroll_set d1 d2 a pe t) = vk_keeps s t"
  by (simp_all add: vk_keeps_def FixedDistanceScroll_set_def press_counts_def)

lemma fire_buttons_keeps [intro]: "vk_keeps s t \<Longrightarrow> vk_keeps s (fire_buttons a pe t)"
  unfolding fire_buttons_def by (rule keeps_trans [OF _ FireRelativePointer_keeps])

lemma mouse_handlers_keep:
  "vk_keeps s (snd (handle_button params a pe s))" "vk_keeps s (snd (handle_lock_button params a pe s))"
  "vk_keeps s (snd (handle_move params a pe s))" "vk_keeps s (snd (handle_fixeddistancemove params a pe s))"
  "vk_keeps s (snd (handle_fixeddistancescroll params a pe s))"
proof -
  have m: "vk_keeps s t" if "move_flags key d s = Some t" for key d t
    using that by (auto simp: move_flags_def Let_def split: if_splits)
  show "vk_keeps s (snd (handle_move params a pe s))"
    by (auto simp: handle_move_def Let_def split: option.split intro: m)
qed (auto simp: handle_button_def handle_lock_button_def handle_fixeddistancemove_def
      handle_fixeddistancescroll_def Let_def split: option.split)

lemma first_handler_keeps:
  assumes "\<And>h s. h \<in> set hs \<Longrightarrow> vk_keeps s (snd (h s))"
  shows "vk_keeps s (snd (first_handler hs s))"
  using assms
proof (induction hs arbitrary: s)
  case (Cons h hs)
  have "vk_keeps s (snd (h s))" using Cons.prems by simp
  moreover have "vk_keeps t (snd (first_handler hs t))" for t by (rule Cons.IH) (simp add: Cons.prems)
  ultimately show ?case by (auto split: prod.split bool.split intro: keeps_trans)
qed simp

lemma MouseKey_keeps [intro]: "vk_keeps s (snd (MouseKey_handle params a pe s))"
proof -
  let ?s = "s\<lparr>mk_lastPhysicalEventType := pe\<rparr>"
  have "vk_keeps ?s (snd (MouseKey_handle params a pe s))"
    unfolding MouseKey_handle_def by (rule first_handler_keeps) (auto intro: mouse_handlers_keep)
  then show ?thesis by (simp add: vk_keeps_def)
qed

section \<open>FireKey\<close>

lemma first_of_handlers_keeps:
  assumes "\<And>h u b v. h \<in> set hs \<Longrightarrow> h u = Some (b, v) \<Longrightarrow> vk_keeps u v" and "first_of_handlers hs s = Some (b, t)"
  shows "vk_keeps s t"
  using assms
proof (induction hs arbitrary: s)
  case (Cons h hs)
  from Cons.prems(2) obtain c u where h: "h s = Some (c, u)" by (cases "h s") auto
  then have "vk_keeps s u" by (rule Cons.prems(1) [rotated]) simp
  moreover have "first_of_handlers hs u = Some (b, t) \<Longrightarrow> vk_keeps u t"
    by (rule Cons.IH) (use Cons.prems(1) in auto)
  ultimately show ?case using Cons.prems(2) h by (auto split: if_splits intro: keeps_trans)
qed simp

lemma fire_handlers_keep:
  assumes f: "\<And>p s t. f p s = Some t \<Longrightarrow> vk_keeps s t"
  shows "VK_PARTIAL_handle f params s = Some (b, t) \<Longrightarrow> vk_keeps s t"
    and "VK_JIS_BACKSLASH_handle f params s = Some (b, t) \<Longrightarrow> vk_keeps s t"
    and "VK_JIS_TOGGLE_EISUU_KANA_handle f params s = Some (b, t) \<Longrightarrow> vk_keeps s t"
    and "VK_JIS_YEN_handle f params s = Some (b, t) \<Longrightarrow> vk_keeps s t"
proof -
  have n: "vk_keeps s u" if "vk_keeps (s\<lparr>vp_active := False\<rparr>) u" for u
    using that by (simp add: vk_keeps_def)
  show "VK_PARTIAL_handle f params s = Some (b, t) \<Longrightarrow> vk_keeps s t"
    by (auto simp: VK_PARTIAL_handle_def split: if_splits dest!: f intro: n)
  have k: "vk_keeps s u" if "vk_keeps (s\<lparr>vj_newkeycode := x\<rparr>) u" "x \<notin> jis_keys" for u x
    using that by (simp add: vk_keeps_def)
  have "KeyCode_JIS_EISUU \<notin> jis_keys" "KeyCode_JIS_KANA \<notin> jis_keys" by (simp_all add: jis_keys_def)
  then show "VK_JIS_TOGGLE_EISUU_KANA_handle f params s = Some (b, t) \<Longrightarrow> vk_keeps s t"
    by (auto simp: VK_JIS_TOGGLE_EISUU_KANA_handle_def Let_def split: if_splits dest!: f intro: k)
qed (auto simp: VK_JIS_BACKSLASH_handle_def VK_JIS_YEN_handle_def split: if_splits dest!: f)

lemma VirtualKey_handle_keeps:
  assumes "\<And>p s t. f p s = Some t \<Longrightarrow> vk_keeps s t" and "VirtualKey_handle f params a pe s = Some (b, t)"
  shows "vk_keeps s t"
proof -
  have fire: "VK_PARTIAL_handle f params u = Some (c, v) \<Longrightarrow> vk_keeps u v"
    "VK_JIS_BACKSLASH_handle f params u = Some (c, v) \<Longrightarrow> vk_keeps u v"
    "VK_JIS_TOGGLE_EISUU_KANA_handle f params u = Some (c, v) \<Longrightarrow> vk_keeps u v"
    "VK_JIS_YEN_handle f params u = Some (c, v) \<Longrightarrow> vk_keeps u v" for c u v
    using fire_handlers_keep [of f] assms(1) by blast+
  have pure: "vk_keeps u v" if "Some (g u) = Some (c, v)" "vk_keeps u (snd (g u))"
    for g and u v :: "'a VKState_scheme" and c using that by auto
  have "vk_keeps u (snd (VK_CONSUMERKEY_handle params a pe u))"
    "vk_keeps u (snd (VK_DEFINED_IN_USERSPACE_handle params a pe u))"
    "vk_keeps u (snd (VK_IOHIDPOSTEVENT_handle params a pe u))"
    "vk_keeps u (snd (VK_IOHIKEYBOARD_TOGGLE_NUMLOCK_handle params a pe u))"
    "vk_keeps u (snd (VK_KEYTOKEY_DELAYED_ACTION_DROP_EVENT_handle params a pe u))"
    "vk_keeps u (snd (VK_WAIT_handle params a pe u))" for u :: "'a VKState_scheme"
    by (simp_all add: VK_CONSUMERKEY_handle_def VK_DEFINED_IN_USERSPACE_handle_def VK_IOHIDPOSTEVENT_handle_def
         VK_IOHIKEYBOARD_TOGGLE_NUMLOCK_handle_def VK_KEYTOKEY_DELAYED_ACTION_DROP_EVENT_handle_def
         VK_WAIT_handle_def FireWait_fire_def Let_def)
  note pures = this VK_CONFIG_keeps VK_LAZY_keeps VK_LOCK_keeps VK_STICKY_keeps MouseKey_keeps
  show ?thesis
    using assms(2) unfolding VirtualKey_handle_def
  proof (rule first_of_handlers_keeps [rotated], unfold list.set insert_iff empty_iff, elim disjE FalseE)
  qed (hypsubst, ((erule pure, rule pures) | erule fire))+
qed

lemma FireKey_keeps: "FireKey_fire n params a pe s = Some t \<Longrightarrow> vk_keeps s t"
proof (induction n arbitrary: params s t)
  case (Suc n)
  from Suc.prems obtain h u where
    h: "VirtualKey_handle (\<lambda>p. FireKey_fire n p a pe) params a pe s = Some (h, u)"
    by (cases "VirtualKey_handle (\<lambda>p. FireKey_fire n p a pe) params a pe s") auto
  have u: "vk_keeps s u" using VirtualKey_handle_keeps [OF Suc.IH h] .
  show ?case
    using Suc.prems u by (cases h) (auto simp: h setcurrent_lastsentevent_def intro: keeps_trans [OF u])
qed simp

text \<open>\<open>FireKey::fire\<close> as the other components call it, with the fuel that suffices.\<close>

definition FireKey ::
  "KeyboardParams \<Rightarrow> AutogenId \<Rightarrow> PhysicalEventType \<Rightarrow> 'a VKState_scheme \<Rightarrow> 'a VKState_scheme option"
where
  "FireKey params autogenId physicalEventType s = FireKey_fire 3 params autogenId physicalEventType s"

definition fire_ok :: "'a VKState_scheme \<Rightarrow> bool" where
  "fire_ok s = (vj_newkeycode s \<notin> jis_keys)"

lemma FireKey_total:
  assumes "fire_ok s"
  obtains t where "FireKey params a pe s = Some t" and "vk_keeps s t" and "fire_ok t"
proof -
  have "refires params s \<le> 2" by (simp add: refires_def)
  from FireKey_returns [OF this, of a pe] assms
  obtain t where "FireKey_fire (Suc 2) params a pe s = Some t" by (auto simp: fire_ok_def)
  then have t: "FireKey params a pe s = Some t" by (simp add: FireKey_def numeral_3_eq_3 del: FireKey_fire.simps)
  moreover have "vk_keeps s t" using t FireKey_keeps unfolding FireKey_def by blast
  ultimately show thesis using assms that by (simp add: fire_ok_def vk_keeps_def)
qed

lemma FireKey_call_keeps: "FireKey params a pe s = Some t \<Longrightarrow> vk_keeps s t"
  unfolding FireKey_def by (rule FireKey_keeps)

lemma keeps_fire_ok: "vk_keeps s t \<Longrightarrow> fire_ok s \<Longrightarrow> fire_ok t"
  by (simp add: vk_keeps_def fire_ok_def)

end
