(* ===== verification/KeyRepeat.thy ===== *)
theory KeyRepeat
  imports KeyFrame "HOL-Library.Monad_Syntax"
begin

text \<open>
  \<^verbatim>\<open>KeyboardRepeat\<close>: the events that are sent again and again while a key is held, their timer, and
  the id by which a client finds out that its repetition has been cancelled. The result is an
  option where \<open>FireKey::fire\<close> is called.
\<close>

section \<open>State\<close>

record RepeatState = VKState +
  kr_queue :: "Params list"
  kr_timer :: TimerWrapper
  kr_id :: int
  kr_keyRepeat :: int
  kr_autogenId :: AutogenId

abbreviation (input) MAX_KEYBOARDREPEATID :: int where "MAX_KEYBOARDREPEATID \<equiv> 10000"

definition get_repeat_initial_wait :: "'a RepeatState_scheme \<Rightarrow> u32" where
  "get_repeat_initial_wait s = Config_getvalue_min (cs_config s repeat_initial_wait) 1"

definition get_repeat_wait :: "'a RepeatState_scheme \<Rightarrow> u32" where
  "get_repeat_wait s = Config_getvalue_min (cs_config s repeat_wait) 1"

definition get_repeat_consumer_initial_wait :: "'a RepeatState_scheme \<Rightarrow> u32" where
  "get_repeat_consumer_initial_wait s = Config_getvalue_min (cs_config s repeat_initial_wait) 250"

definition get_repeat_consumer_wait :: "'a RepeatState_scheme \<Rightarrow> u32" where
  "get_repeat_consumer_wait s = Config_getvalue_min (cs_config s repeat_wait) 33"

section \<open>Primitive operations\<close>

definition KeyboardRepeat_initialize :: "'a RepeatState_scheme \<Rightarrow> 'a RepeatState_scheme" where
  "KeyboardRepeat_initialize s = s\<lparr>kr_timer := TimerWrapper_initialize True True (kr_timer s)\<rparr>"

definition KeyboardRepeat_terminate :: "'a RepeatState_scheme \<Rightarrow> 'a RepeatState_scheme" where
  "KeyboardRepeat_terminate s = s\<lparr>kr_timer := TimerWrapper_terminate (kr_timer s), kr_queue := []\<rparr>"

definition succID :: "'a RepeatState_scheme \<Rightarrow> 'a RepeatState_scheme" where
  "succID s =
     (let s = s\<lparr>kr_id := kr_id s + 1\<rparr> in if kr_id s > MAX_KEYBOARDREPEATID then s\<lparr>kr_id := 0\<rparr> else s)"

definition KeyboardRepeat_cancel :: "'a RepeatState_scheme \<Rightarrow> 'a RepeatState_scheme" where
  "KeyboardRepeat_cancel s = succID (s\<lparr>kr_timer := cancelTimeout (kr_timer s), kr_queue := []\<rparr>)"

definition primitive_add_key ::
  "EventType \<Rightarrow> Flags \<Rightarrow> KeyCode \<Rightarrow> KeyboardType \<Rightarrow> 'a RepeatState_scheme \<Rightarrow> 'a RepeatState_scheme"
where
  "primitive_add_key eventType flags key keyboardType s =
     (if key = KeyCode_VK_NONE then s
      else s\<lparr>kr_queue := kr_queue s @
              [P_Keyboard (KeyboardParams_new (cs_pairs s) eventType flags key keyboardType True)]\<rparr>)"

definition primitive_add_consumer ::
  "EventType \<Rightarrow> Flags \<Rightarrow> ConsumerKeyCode \<Rightarrow> 'a RepeatState_scheme \<Rightarrow> 'a RepeatState_scheme"
where
  "primitive_add_consumer eventType flags key s =
     (if key = ConsumerKeyCode_VK_NONE then s
      else s\<lparr>kr_queue := kr_queue s @ [P_Special (SpecialParams_new eventType flags key True)]\<rparr>)"

definition primitive_add_button :: "Buttons \<Rightarrow> 'a RepeatState_scheme \<Rightarrow> 'a RepeatState_scheme" where
  "primitive_add_button button s =
     s\<lparr>kr_queue := kr_queue s @ [P_RelativePointer (PointerParams_new button 0 0 PointingButton_NONE False)]\<rparr>"

text \<open>Returns the new id.\<close>

definition primitive_start ::
  "AutogenId \<Rightarrow> int \<Rightarrow> int \<Rightarrow> 'a RepeatState_scheme \<Rightarrow> int \<times> 'a RepeatState_scheme"
where
  "primitive_start autogenId delayUntilRepeat keyRepeat s =
     (let s = s\<lparr>kr_keyRepeat := keyRepeat, kr_autogenId := autogenId,
                kr_timer := snd (setTimeoutMS (word_of_int delayUntilRepeat) True (kr_timer s))\<rparr>;
          s = succID s
      in (kr_id s, s))"

section \<open>set\<close>

definition set_key ::
  "EventType \<Rightarrow> Flags \<Rightarrow> KeyCode \<Rightarrow> KeyboardType \<Rightarrow> AutogenId \<Rightarrow> int \<Rightarrow> int \<Rightarrow> 'a RepeatState_scheme \<Rightarrow>
   'a RepeatState_scheme"
where
  "set_key eventType flags key keyboardType autogenId delayUntilRepeat keyRepeat s =
     (if key = KeyCode_VK_NONE then s
      else if eventType = EventType_MODIFY then KeyboardRepeat_cancel s
      else if eventType = EventType_UP
      then (if length (kr_queue s) \<noteq> 1 then s
            else case hd (kr_queue s) of
                P_Keyboard p \<Rightarrow> if key = kp_key p then KeyboardRepeat_cancel s else s
              | _ \<Rightarrow> s)
      else if eventType = EventType_DOWN
      then snd (primitive_start autogenId delayUntilRepeat keyRepeat
                  (primitive_add_key eventType flags key keyboardType (KeyboardRepeat_cancel s)))
      else KeyboardRepeat_cancel s)"

definition set_keyboard ::
  "KeyboardParams \<Rightarrow> AutogenId \<Rightarrow> int \<Rightarrow> int \<Rightarrow> 'a RepeatState_scheme \<Rightarrow> 'a RepeatState_scheme"
where
  "set_keyboard p autogenId delayUntilRepeat keyRepeat s =
     set_key (kp_eventType p) (kp_flags p) (kp_key p) (kp_keyboardType p) autogenId delayUntilRepeat keyRepeat s"

definition set_consumer ::
  "EventType \<Rightarrow> Flags \<Rightarrow> ConsumerKeyCode \<Rightarrow> AutogenId \<Rightarrow> int \<Rightarrow> int \<Rightarrow> 'a RepeatState_scheme \<Rightarrow>
   'a RepeatState_scheme"
where
  "set_consumer eventType flags key autogenId delayUntilRepeat keyRepeat s =
     (if key = ConsumerKeyCode_VK_NONE then s
      else if eventType = EventType_UP then KeyboardRepeat_cancel s
      else if eventType = EventType_DOWN
      then (if \<not> ConsumerKeyCode_isRepeatable key then KeyboardRepeat_cancel s
            else snd (primitive_start autogenId delayUntilRepeat keyRepeat
                        (primitive_add_consumer eventType flags key (KeyboardRepeat_cancel s))))
      else KeyboardRepeat_cancel s)"

definition set_special ::
  "SpecialParams \<Rightarrow> AutogenId \<Rightarrow> int \<Rightarrow> int \<Rightarrow> 'a RepeatState_scheme \<Rightarrow> 'a RepeatState_scheme"
where
  "set_special p autogenId delayUntilRepeat keyRepeat s =
     set_consumer (sp_eventType p) (sp_flags p) (sp_key p) autogenId delayUntilRepeat keyRepeat s"

section \<open>The timer\<close>

text \<open>One item of the queue: \<open>single\<close> is \<open>queue_.size() == 1\<close>.\<close>

definition repeat_item :: "bool \<Rightarrow> Params \<Rightarrow> 'a RepeatState_scheme \<Rightarrow> 'a RepeatState_scheme option" where
  "repeat_item single p s =
     (case p of
        P_Keyboard k \<Rightarrow>
          FireKey (KeyboardParams_new (cs_pairs s) (kp_eventType k) (kp_flags k) (kp_key k) (kp_keyboardType k) single)
            (kr_autogenId s) PE_DOWN s
      | P_Special k \<Rightarrow>
          Some (FireConsumer_fire (SpecialParams_new (sp_eventType k) (sp_flags k) (sp_key k) single)
                  (kr_autogenId s) PE_DOWN s)
      | P_RelativePointer k \<Rightarrow>
          Some (FireRelativePointer_fire (kr_autogenId s) PE_DOWN (pp_buttons k) (pp_dx k) (pp_dy k) s)
      | _ \<Rightarrow> Some s)"

fun repeat_items :: "bool \<Rightarrow> Params list \<Rightarrow> 'a RepeatState_scheme \<Rightarrow> 'a RepeatState_scheme option" where
  "repeat_items single [] s = Some s"
| "repeat_items single (p # ps) s = repeat_item single p s \<bind> repeat_items single ps"

definition KeyboardRepeat_fire_timer_callback :: "'a RepeatState_scheme \<Rightarrow> 'a RepeatState_scheme option" where
  "KeyboardRepeat_fire_timer_callback s =
     do {
       s \<leftarrow> repeat_items (length (kr_queue s) = 1) (kr_queue s) s;
       Some (s\<lparr>kr_timer := snd (setTimeoutMS (word_of_int (kr_keyRepeat s)) True (kr_timer s))\<rparr>)
     }"

text \<open>A timeout of the event source.\<close>

definition KeyboardRepeat_tick :: "'a RepeatState_scheme \<Rightarrow> 'a RepeatState_scheme option" where
  "KeyboardRepeat_tick s =
     (let (run, t) = timer_callback (kr_timer s);
          s = s\<lparr>kr_timer := t\<rparr>
      in if run then KeyboardRepeat_fire_timer_callback s else Some s)"

section \<open>What is repeated\<close>

text \<open>The calls that other components make, and the timeouts.\<close>

datatype RepeatCall =
    RC_Key EventType Flags KeyCode KeyboardType AutogenId int int
  | RC_Consumer EventType Flags ConsumerKeyCode AutogenId int int
  | RC_Cancel
  | RC_Tick

fun repeat_call :: "RepeatCall \<Rightarrow> 'a RepeatState_scheme \<Rightarrow> 'a RepeatState_scheme option" where
  "repeat_call (RC_Key et fl k kt a d r) s = Some (set_key et fl k kt a d r s)"
| "repeat_call (RC_Consumer et fl k a d r) s = Some (set_consumer et fl k a d r s)"
| "repeat_call RC_Cancel s = Some (KeyboardRepeat_cancel s)"
| "repeat_call RC_Tick s = KeyboardRepeat_tick s"

fun repeat_calls :: "RepeatCall list \<Rightarrow> 'a RepeatState_scheme \<Rightarrow> 'a RepeatState_scheme option" where
  "repeat_calls [] s = Some s"
| "repeat_calls (c # cs) s = repeat_call c s \<bind> repeat_calls cs"

text \<open>The specification: at most one key is repeated, the last one pressed.\<close>

fun repeat_spec :: "RepeatCall \<Rightarrow> FromEvent option \<Rightarrow> FromEvent option" where
  "repeat_spec (RC_Key et fl k kt a d r) x =
     (if k = KeyCode_VK_NONE then x
      else if et = EventType_DOWN then Some (FE_KEY k)
      else if et = EventType_UP \<and> x \<noteq> Some (FE_KEY k) then x
      else None)"
| "repeat_spec (RC_Consumer et fl k a d r) x =
     (if k = ConsumerKeyCode_VK_NONE then x
      else if et = EventType_DOWN \<and> ConsumerKeyCode_isRepeatable k then Some (FE_CONSUMER_KEY k)
      else None)"
| "repeat_spec RC_Cancel x = None"
| "repeat_spec RC_Tick x = x"

definition repeat_inv :: "FromEvent option \<Rightarrow> 'a RepeatState_scheme \<Rightarrow> bool" where
  "repeat_inv x s =
     (timer_reliable (kr_timer s) \<and> fire_ok s \<and> 0 \<le> kr_id s \<and> kr_id s \<le> MAX_KEYBOARDREPEATID \<and>
      map FromEvent_of_params (kr_queue s) = (case x of None \<Rightarrow> [] | Some e \<Rightarrow> [e]) \<and>
      TimerWrapper_isActive (kr_timer s) = (x \<noteq> None))"

lemma fire_ok_update [simp]:
  "fire_ok (s\<lparr>kr_queue := q\<rparr>) = fire_ok s" "fire_ok (s\<lparr>kr_timer := t\<rparr>) = fire_ok s"
  "fire_ok (s\<lparr>kr_id := i\<rparr>) = fire_ok s" "fire_ok (s\<lparr>kr_keyRepeat := n\<rparr>) = fire_ok s"
  "fire_ok (s\<lparr>kr_autogenId := a\<rparr>) = fire_ok s"
  by (simp_all add: fire_ok_def)

lemma repeat_cancel_inv:
  assumes "repeat_inv x s"
  shows "repeat_inv None (KeyboardRepeat_cancel s)"
  using assms cancel_reliable [of "kr_timer s"]
  by (auto simp: repeat_inv_def KeyboardRepeat_cancel_def succID_def Let_def)

lemma repeat_start_inv:
  assumes "repeat_inv None s" and "FromEvent_of_params p = e"
  shows "repeat_inv (Some e) (snd (primitive_start a d r (s\<lparr>kr_queue := kr_queue s @ [p]\<rparr>)))"
  using assms setTimeout_reliable [of "kr_timer s"]
  by (auto simp: repeat_inv_def primitive_start_def succID_def Let_def)

lemma set_key_inv:
  assumes "repeat_inv x s"
  shows "repeat_inv (repeat_spec (RC_Key et fl k kt a d r) x) (set_key et fl k kt a d r s)"
proof -
  have "repeat_inv (Some (FE_KEY k)) (snd (primitive_start a d r (primitive_add_key et fl k kt (KeyboardRepeat_cancel s))))"
    if "k \<noteq> KeyCode_VK_NONE"
    using repeat_start_inv [OF repeat_cancel_inv [OF assms]] that
    by (simp add: primitive_add_key_def KeyboardParams_new_def KeyboardParams_full_def)
  moreover have "set_key EventType_UP fl k kt a d r s =
      (if x = Some (FE_KEY k) then KeyboardRepeat_cancel s else s)" if "k \<noteq> KeyCode_VK_NONE"
    using that assms by (auto simp: set_key_def repeat_inv_def split: option.splits Params.splits)
  ultimately show ?thesis
    using repeat_cancel_inv [OF assms] assms by (auto simp: set_key_def)
qed

lemma set_consumer_inv:
  assumes "repeat_inv x s"
  shows "repeat_inv (repeat_spec (RC_Consumer et fl k a d r) x) (set_consumer et fl k a d r s)"
proof -
  have "repeat_inv (Some (FE_CONSUMER_KEY k))
      (snd (primitive_start a d r (primitive_add_consumer et fl k (KeyboardRepeat_cancel s))))"
    if "k \<noteq> ConsumerKeyCode_VK_NONE"
    using repeat_start_inv [OF repeat_cancel_inv [OF assms]] that
    by (simp add: primitive_add_consumer_def SpecialParams_new_def SpecialParams_full_def)
  then show ?thesis using repeat_cancel_inv [OF assms] assms by (auto simp: set_consumer_def)
qed

text \<open>Sending the events of the queue does not change what is repeated.\<close>

lemma repeat_more_eqD:
  fixes s t :: "'a RepeatState_scheme"
  assumes "vk_keeps s t"
  shows "kr_queue t = kr_queue s" and "kr_timer t = kr_timer s" and "kr_id t = kr_id s"
    and "kr_keyRepeat t = kr_keyRepeat s" and "kr_autogenId t = kr_autogenId s"
    and "RepeatState.more t = RepeatState.more s"
  using assms by (cases s; cases t; simp add: vk_keeps_def)+

lemma repeat_item_total:
  assumes "fire_ok s"
  obtains t where "repeat_item single p s = Some t" and "vk_keeps s t"
proof (cases p)
  case (P_Keyboard k)
  with assms that show thesis by (auto simp: repeat_item_def elim: FireKey_total)
qed (use that in \<open>auto simp: repeat_item_def\<close>)

lemma repeat_items_total:
  assumes "fire_ok s"
  shows "\<exists>t. repeat_items single ps s = Some t \<and> vk_keeps s t"
  using assms
proof (induction ps arbitrary: s)
  case (Cons p ps)
  from repeat_item_total [OF Cons.prems, of single p]
  obtain t where t: "repeat_item single p s = Some t" "vk_keeps s t" .
  with Cons.IH [OF keeps_fire_ok [OF t(2) Cons.prems]] show ?case by (auto intro: keeps_trans)
qed auto

lemma repeat_tick_inv:
  assumes "repeat_inv x s"
  shows "\<exists>t. KeyboardRepeat_tick s = Some t \<and> repeat_inv x t"
proof (cases x)
  case None
  let ?t = "snd (timer_callback (kr_timer s))"
  have "fst (timer_callback (kr_timer s)) = False" "timer_reliable ?t" "\<not> TimerWrapper_isActive ?t"
    using assms None by (auto simp: repeat_inv_def timer_callback_def TimerWrapper_isActive_def timer_reliable_def
        timer_inv_def)
  then show ?thesis
    using assms None by (simp add: KeyboardRepeat_tick_def case_prod_unfold Let_def repeat_inv_def)
next
  case (Some e)
  define u where "u = s\<lparr>kr_timer := snd (timer_callback (kr_timer s))\<rparr>"
  have run: "fst (timer_callback (kr_timer s))"
    using Some assms by (simp add: repeat_inv_def timer_callback_def TimerWrapper_isActive_def Let_def)
  have rel: "timer_reliable (kr_timer u)"
    using callback_reliable [of "kr_timer s"] assms by (simp add: u_def repeat_inv_def)
  have "fire_ok u" using assms by (simp add: u_def repeat_inv_def)
  from repeat_items_total [OF this]
  obtain t where t: "repeat_items (length (kr_queue u) = 1) (kr_queue u) u = Some t" "vk_keeps u t" by blast
  note f = repeat_more_eqD [OF t(2)]
  have "KeyboardRepeat_tick s =
      Some (t\<lparr>kr_timer := snd (setTimeoutMS (word_of_int (kr_keyRepeat t)) True (kr_timer t))\<rparr>)"
    using run t(1) by (simp add: KeyboardRepeat_tick_def case_prod_unfold Let_def
        KeyboardRepeat_fire_timer_callback_def u_def [symmetric])
  then show ?thesis
    using assms Some f setTimeout_reliable [OF rel] keeps_fire_ok [OF t(2) \<open>fire_ok u\<close>]
    by (simp add: repeat_inv_def u_def)
qed

lemma repeat_call_inv:
  assumes "repeat_inv x s"
  shows "\<exists>t. repeat_call c s = Some t \<and> repeat_inv (repeat_spec c x) t"
  using assms set_key_inv [OF assms] set_consumer_inv [OF assms] repeat_cancel_inv [OF assms] repeat_tick_inv [OF assms]
  by (cases c) (simp_all del: repeat_spec.simps(1,2))

lemma repeat_calls_inv:
  assumes "repeat_inv x s"
  shows "\<exists>t. repeat_calls cs s = Some t \<and> repeat_inv (fold repeat_spec cs x) t"
  using assms
proof (induction cs arbitrary: x s)
  case (Cons c cs)
  from repeat_call_inv [OF Cons.prems] obtain t where
    "repeat_call c s = Some t" "repeat_inv (repeat_spec c x) t" by blast
  with Cons.IH [of "repeat_spec c x" t] show ?case by simp
qed auto

text \<open>
  C17: After any sequence of calls of \<open>set\<close> and \<open>cancel\<close> and of timeouts, the queue holds exactly what
  the specification repeats: the key pressed last, until it is released or something cancels it,
  while the release of another key changes nothing. The timer runs exactly while there is a key to
  repeat, the id stays in its range, and cancelling changes it.
\<close>

theorem KeyboardRepeat_refines:
  assumes "fire_ok s" and "\<forall>ms milli. tw_accepts (kr_timer s) ms milli" and "kr_queue s = []"
    and "0 \<le> kr_id s" and "kr_id s \<le> MAX_KEYBOARDREPEATID"
  shows "\<exists>t. repeat_calls cs (KeyboardRepeat_initialize s) = Some t \<and>
    map FromEvent_of_params (kr_queue t) = (case fold repeat_spec cs None of None \<Rightarrow> [] | Some e \<Rightarrow> [e]) \<and>
    TimerWrapper_isActive (kr_timer t) = (fold repeat_spec cs None \<noteq> None) \<and>
    0 \<le> kr_id t \<and> kr_id t \<le> MAX_KEYBOARDREPEATID \<and> kr_id (KeyboardRepeat_cancel t) \<noteq> kr_id t"
proof -
  have "repeat_inv None (KeyboardRepeat_initialize s)"
    using assms by (simp add: repeat_inv_def KeyboardRepeat_initialize_def TimerWrapper_initialize_def
        TimerWrapper_terminate_def timer_reliable_def timer_inv_def TimerWrapper_isActive_def Let_def)
  from repeat_calls_inv [OF this, of cs] show ?thesis
    by (auto simp: repeat_inv_def KeyboardRepeat_cancel_def succID_def Let_def)
qed

text \<open>The state after start-up.\<close>

definition repeat_static :: RepeatState where
  "repeat_static = VKState.extend vk_static
     \<lparr>kr_queue = [], kr_timer = timer_static, kr_id = 0, kr_keyRepeat = 0, kr_autogenId = 0\<rparr>"

lemma repeat_static_simps [simp]:
  "fire_ok repeat_static" "kr_queue repeat_static = []" "kr_id repeat_static = 0"
  "kr_timer repeat_static = timer_static" "vj_newkeycode repeat_static = 0"
  by (simp_all add: repeat_static_def VKState.extend_def fire_ok_def jis_keys_def vk_static_def
      MouseState.extend_def)

theorem KeyboardRepeat_refines_witness:
  "\<exists>t. repeat_calls [RC_Key EventType_DOWN 0 KeyCode_JIS_KANA 0 0 100 30, RC_Tick,
        RC_Key EventType_DOWN 0 KeyCode_BACKSLASH 0 0 100 30, RC_Key EventType_UP 0 KeyCode_JIS_KANA 0 0 100 30]
      (KeyboardRepeat_initialize repeat_static) = Some t \<and>
    map FromEvent_of_params (kr_queue t) = [FE_KEY KeyCode_BACKSLASH] \<and> TimerWrapper_isActive (kr_timer t)"
proof -
  let ?c = "[RC_Key EventType_DOWN 0 KeyCode_JIS_KANA 0 0 100 30, RC_Tick,
        RC_Key EventType_DOWN 0 KeyCode_BACKSLASH 0 0 100 30, RC_Key EventType_UP 0 KeyCode_JIS_KANA 0 0 100 30]"
  have "\<forall>ms milli. tw_accepts (kr_timer repeat_static) ms milli" by (simp add: timer_static_def)
  moreover have "fold repeat_spec ?c None = Some (FE_KEY KeyCode_BACKSLASH)" by simp
  ultimately show ?thesis using KeyboardRepeat_refines [of repeat_static ?c] by (auto simp del: repeat_calls.simps)
qed

end
