(* ===== verification/ToEvents.thy ===== *)
theory ToEvents
  imports KeyRepeat
begin

text \<open>
  \<^verbatim>\<open>ToEvent\<close>: an event that a remapping sends, with its modifiers. \<open>fire\<close> sends one half of it,
  \<open>fire_downup\<close> its press and its release.
\<close>

datatype ToEventTarget =
    TE_NONE
  | TE_KEY KeyCode
  | TE_CONSUMER_KEY ConsumerKeyCode
  | TE_POINTING_BUTTON PointingButton

record ToEvent =
  te_target :: ToEventTarget
  te_modifierFlags :: "ModifierFlag list"

definition ToEvent_new :: "ToEventTarget \<Rightarrow> ToEvent" where
  "ToEvent_new x = \<lparr>te_target = x, te_modifierFlags = []\<rparr>"

definition ToEvent_of_data :: "u32 \<Rightarrow> u32 \<Rightarrow> ToEvent" where
  "ToEvent_of_data datatype v =
     ToEvent_new
       (if datatype = BRIDGE_DATATYPE_KEYCODE then TE_KEY v
        else if datatype = BRIDGE_DATATYPE_CONSUMERKEYCODE then TE_CONSUMER_KEY v
        else if datatype = BRIDGE_DATATYPE_POINTINGBUTTON then TE_POINTING_BUTTON v
        else TE_NONE)"

definition ToEvent_addModifierFlag :: "ModifierFlag \<Rightarrow> ToEvent \<Rightarrow> ToEvent" where
  "ToEvent_addModifierFlag f te = te\<lparr>te_modifierFlags := te_modifierFlags te @ [f]\<rparr>"

definition ToEvent_getModifierFlag :: "Pair list \<Rightarrow> ToEvent \<Rightarrow> ModifierFlag" where
  "ToEvent_getModifierFlag pairs te =
     (case te_target te of TE_KEY k \<Rightarrow> KeyCode_getModifierFlag pairs k | _ \<Rightarrow> ModifierFlag_ZERO)"

definition isEventLikeModifier :: "ToEvent \<Rightarrow> 'a RepeatState_scheme \<Rightarrow> bool" where
  "isEventLikeModifier te s =
     (case te_target te of
        TE_NONE \<Rightarrow> False
      | TE_KEY k \<Rightarrow> VirtualKey_isKeyLikeModifier k s
      | TE_CONSUMER_KEY _ \<Rightarrow> False
      | TE_POINTING_BUTTON _ \<Rightarrow> True)"

text \<open>The two overloads of \<open>operator==\<close>.\<close>

fun ToEvent_is_params :: "ToEventTarget \<Rightarrow> Params \<Rightarrow> bool" where
  "ToEvent_is_params (TE_KEY k) (P_Keyboard p) = (k = kp_key p)"
| "ToEvent_is_params (TE_CONSUMER_KEY k) (P_Special p) = (k = sp_key p)"
| "ToEvent_is_params (TE_POINTING_BUTTON b) (P_RelativePointer p) = (b = pp_ex_button p)"
| "ToEvent_is_params _ _ = False"

definition ToEvent_is_key :: "ToEvent \<Rightarrow> KeyCode \<Rightarrow> bool" where
  "ToEvent_is_key te other = (te_target te = TE_KEY other)"

section \<open>fire\<close>

definition fire_current_buttons ::
  "AutogenId \<Rightarrow> PhysicalEventType \<Rightarrow> 'a RepeatState_scheme \<Rightarrow> 'a RepeatState_scheme"
where
  "fire_current_buttons autogenId physicalEventType s =
     FireRelativePointer_fire autogenId physicalEventType (ButtonStatus_makeButtons (bs_item s)) 0 0 s"

definition ToEvent_fire ::
  "EventType \<Rightarrow> Flags \<Rightarrow> AutogenId \<Rightarrow> PhysicalEventType \<Rightarrow> bool \<Rightarrow> int \<Rightarrow> int \<Rightarrow> ToEvent \<Rightarrow>
   'a RepeatState_scheme \<Rightarrow> 'a RepeatState_scheme option"
where
  "ToEvent_fire eventType flags autogenId physicalEventType add_to_keyrepeat delayUntilRepeat keyRepeat te s =
     (case te_target te of
        TE_NONE \<Rightarrow> Some s
      | TE_KEY key \<Rightarrow>
          let params = KeyboardParams_new (cs_pairs s) eventType flags key (cs_keyboardType s) False
          in do {
            s \<leftarrow> FireKey params autogenId physicalEventType s;
            Some (if add_to_keyrepeat then set_keyboard params autogenId delayUntilRepeat keyRepeat s else s)
          }
      | TE_CONSUMER_KEY key \<Rightarrow>
          let params = SpecialParams_new eventType flags key False;
              s = FireConsumer_fire params autogenId physicalEventType s
          in Some (if add_to_keyrepeat then set_special params autogenId delayUntilRepeat keyRepeat s else s)
      | TE_POINTING_BUTTON button \<Rightarrow>
          let s = (if eventType = EventType_DOWN then ButtonStatus_increase button s
                   else ButtonStatus_decrease button s)
          in Some (fire_current_buttons autogenId physicalEventType s))"

section \<open>fire_downup\<close>

definition add_keyboard :: "bool \<Rightarrow> KeyboardParams \<Rightarrow> 'a RepeatState_scheme \<Rightarrow> 'a RepeatState_scheme" where
  "add_keyboard add_to_keyrepeat p s =
     (if add_to_keyrepeat then primitive_add_key (kp_eventType p) (kp_flags p) (kp_key p) (kp_keyboardType p) s else s)"

text \<open>The macros \<open>CALL_FIREKEY_FIRE\<close> and \<open>CALL_FIRECONSUMER_FIRE\<close>.\<close>

definition CALL_FIREKEY_FIRE ::
  "AutogenId \<Rightarrow> PhysicalEventType \<Rightarrow> bool \<Rightarrow> KeyboardParams \<Rightarrow> 'a RepeatState_scheme \<Rightarrow> 'a RepeatState_scheme option"
where
  "CALL_FIREKEY_FIRE autogenId physicalEventType add_to_keyrepeat params s =
     do {
       s \<leftarrow> FireKey params autogenId physicalEventType s;
       Some (add_keyboard add_to_keyrepeat params s)
     }"

definition CALL_FIRECONSUMER_FIRE ::
  "AutogenId \<Rightarrow> PhysicalEventType \<Rightarrow> bool \<Rightarrow> SpecialParams \<Rightarrow> 'a RepeatState_scheme \<Rightarrow> 'a RepeatState_scheme"
where
  "CALL_FIRECONSUMER_FIRE autogenId physicalEventType add_to_keyrepeat params s =
     (let s = FireConsumer_fire params autogenId physicalEventType s
      in if add_to_keyrepeat then primitive_add_consumer (sp_eventType params) (sp_flags params) (sp_key params) s
         else s)"

text \<open>The loop over the press and the release of a button.\<close>

definition fire_button ::
  "AutogenId \<Rightarrow> PhysicalEventType \<Rightarrow> bool \<Rightarrow> 'a RepeatState_scheme \<Rightarrow> 'a RepeatState_scheme"
where
  "fire_button autogenId physicalEventType add_to_keyrepeat s =
     (let buttons = ButtonStatus_makeButtons (bs_item s);
          s = FireRelativePointer_fire autogenId physicalEventType buttons 0 0 s
      in if add_to_keyrepeat then primitive_add_button buttons s else s)"

definition fire_downup ::
  "AutogenId \<Rightarrow> PhysicalEventType \<Rightarrow> bool \<Rightarrow> ToEvent \<Rightarrow> 'a RepeatState_scheme \<Rightarrow> 'a RepeatState_scheme option"
where
  "fire_downup autogenId physicalEventType add_to_keyrepeat te s =
     (case te_target te of
        TE_NONE \<Rightarrow> Some s
      | TE_KEY key \<Rightarrow>
          let keyboardType = cs_keyboardType s;
              f = KeyCode_getModifierFlag (cs_pairs s) key;
              call = CALL_FIREKEY_FIRE autogenId physicalEventType add_to_keyrepeat
          in if f \<noteq> ModifierFlag_ZERO
             then do {
               let s = FlagStatus_increase (FA_Flag f) s;
               let flags = FlagStatus_makeFlags (fs_item s);
               s \<leftarrow> call (KeyboardParams_new (cs_pairs s) EventType_MODIFY flags key keyboardType False) s;
               let s = FlagStatus_decrease (FA_Flag f) s;
               let flags = FlagStatus_makeFlags (fs_item s);
               call (KeyboardParams_new (cs_pairs s) EventType_MODIFY flags key keyboardType False) s
             }
             else do {
               let flags = FlagStatus_makeFlags (fs_item s);
               s \<leftarrow> call (KeyboardParams_new (cs_pairs s) EventType_DOWN flags key keyboardType False) s;
               call (KeyboardParams_new (cs_pairs s) EventType_UP flags key keyboardType False) s
             }
      | TE_CONSUMER_KEY key \<Rightarrow>
          let flags = FlagStatus_makeFlags (fs_item s);
              call = CALL_FIRECONSUMER_FIRE autogenId physicalEventType add_to_keyrepeat;
              s = call (SpecialParams_new EventType_DOWN flags key False) s
          in Some (call (SpecialParams_new EventType_UP flags key False) s)
      | TE_POINTING_BUTTON button \<Rightarrow>
          let s = fire_button autogenId physicalEventType add_to_keyrepeat (ButtonStatus_increase button s)
          in Some (fire_button autogenId physicalEventType add_to_keyrepeat (ButtonStatus_decrease button s)))"

section \<open>A press and its release leave no trace\<close>

lemma FireKey_send_held [simp]:
  "press_counts (FireKey_send params a pe s) = press_counts s" "bs_item (FireKey_send params a pe s) = bs_item s"
proof -
  have "press_counts (u\<lparr>vk_fnkeyhack := x\<rparr>) = press_counts u" "press_counts (u\<lparr>cs_lastsent := y\<rparr>) = press_counts u"
    for u :: "'a VKState_scheme" and x y by (simp_all add: press_counts_def)
  then show "press_counts (FireKey_send params a pe s) = press_counts s"
    by (simp add: FireKey_send_def Let_def case_prod_unfold setIgnorePhysicalUpEvent_def PressDownKeys_add_def
        PressDownKeys_remove_def setcurrent_lastsentevent_def)
  have f: "bs_item (FireModifiers_fire a pe to kt u) = bs_item u" for to kt and u :: "'a VKState_scheme"
    using FireModifiers_emits(1) [of u a pe to kt] by (simp add: emits_def)
  show "bs_item (FireKey_send params a pe s) = bs_item s"
    by (simp add: FireKey_send_def Let_def case_prod_unfold setIgnorePhysicalUpEvent_def PressDownKeys_add_def
        PressDownKeys_remove_def setcurrent_lastsentevent_def f push_more)
qed

text \<open>Counting a modifier up and down again.\<close>

lemma increase_decrease_held:
  assumes "press_counts t = press_counts (FlagStatus_increase (FA_Flag f) s)"
  shows "press_counts (FlagStatus_decrease (FA_Flag f) t) = press_counts s"
proof -
  let ?sel = "\<lambda>fl. selects (FA_Flag f) fl \<and> fl \<noteq> ModifierFlag_CAPSLOCK"
  have inc: "press_counts (FlagStatus_increase (FA_Flag f) u) =
      map (\<lambda>(fl, c). if ?sel fl then (fl, c + 1) else (fl, c)) (press_counts u)" for u :: "'c FlagState_scheme"
    by (simp add: press_counts_def FlagStatus_increase_def map_if_def Item_increase_def)
  have dec: "press_counts (FlagStatus_decrease (FA_Flag f) u) =
      map (\<lambda>(fl, c). if ?sel fl then (fl, c - 1) else (fl, c)) (press_counts u)" for u :: "'c FlagState_scheme"
    by (simp add: press_counts_def FlagStatus_decrease_def map_if_def Item_decrease_def)
  show ?thesis
    unfolding dec assms inc map_map by (rule map_idI) (auto split: prod.split)
qed

lemma button_increase_decrease:
  assumes "bs_item t = bs_item (ButtonStatus_increase b s)"
  shows "bs_item (ButtonStatus_decrease b t) = bs_item s"
  using assms
  by (simp add: ButtonStatus_decrease_def ButtonStatus_increase_def FOREACH_TO_BUTTONS_def map_if_map_if
      BItem_increase_def) (auto simp: map_if_def BItem_increase_def BItem_decrease_def intro!: map_idI)

lemma add_frame [simp]:
  "press_counts (add_keyboard r p s) = press_counts s" "bs_item (add_keyboard r p s) = bs_item s"
  "virtual_ok (add_keyboard r p s) = virtual_ok s" "vp_changedKeyCodes (add_keyboard r p s) = vp_changedKeyCodes s"
  by (simp_all add: add_keyboard_def primitive_add_key_def press_counts_def virtual_ok_def virtual_codes_def)

lemma call_hardware:
  assumes "virtual_ok s" and "kp_key p < VK_BEGIN" and "kp_key p \<notin> set (vp_changedKeyCodes s)"
  obtains t where "CALL_FIREKEY_FIRE a pe r p s = Some t" and "press_counts t = press_counts s" and "bs_item t = bs_item s"
    and "virtual_ok t" and "vp_changedKeyCodes t = vp_changedKeyCodes s"
proof -
  let ?s = "s\<lparr>mk_lastPhysicalEventType := pe\<rparr>"
  have "CALL_FIREKEY_FIRE a pe r p s = Some (add_keyboard r p (FireKey_send p a pe ?s))"
    using FireKey_hardware [OF assms, of 2 a pe]
    by (simp add: CALL_FIREKEY_FIRE_def FireKey_def numeral_3_eq_3 del: FireKey_fire.simps)
  moreover have "press_counts ?s = press_counts s" by (simp add: press_counts_def)
  moreover have "virtual_ok (FireKey_send p a pe ?s)"
    using assms(1) by (simp add: virtual_ok_def virtual_codes_def FireKey_send_frame)
  ultimately show thesis
    by (intro that [of "add_keyboard r p (FireKey_send p a pe ?s)"]) (simp_all add: FireKey_send_frame)
qed

lemma fire_button_frame [simp]:
  "press_counts (fire_button a pe r s) = press_counts s" "bs_item (fire_button a pe r s) = bs_item s"
proof -
  have "bs_item (FireRelativePointer_fire a pe b dx dy u) = bs_item u" for b dx dy and u :: "'a RepeatState_scheme"
    using FireRelativePointer_emits [of u a pe b dx dy] by (simp add: emits_def)
  moreover have "press_counts (primitive_add_button b u) = press_counts u" for b and u :: "'a RepeatState_scheme"
    by (simp add: press_counts_def primitive_add_button_def)
  ultimately show "press_counts (fire_button a pe r s) = press_counts s" "bs_item (fire_button a pe r s) = bs_item s"
    by (simp_all add: fire_button_def Let_def primitive_add_button_def)
qed

lemma call_consumer_frame [simp]:
  "press_counts (CALL_FIRECONSUMER_FIRE a pe r p s) = press_counts s" "bs_item (CALL_FIRECONSUMER_FIRE a pe r p s) = bs_item s"
proof -
  have m: "bs_item (FireModifiers_fire_current a pe u) = bs_item u" for u :: "'a RepeatState_scheme"
    using FireModifiers_emits(2) [of u a pe] by (simp add: emits_def)
  have "bs_item (FireConsumer_fire p a pe u) = bs_item u" for u :: "'a RepeatState_scheme"
    by (simp add: FireConsumer_fire_def Let_def setIgnorePhysicalUpEvent_def push_more m)
  moreover have "press_counts (u\<lparr>kr_queue := q\<rparr>) = press_counts u" for q and u :: "'a RepeatState_scheme"
    by (simp add: press_counts_def)
  ultimately show "press_counts (CALL_FIRECONSUMER_FIRE a pe r p s) = press_counts s"
    "bs_item (CALL_FIRECONSUMER_FIRE a pe r p s) = bs_item s"
    by (simp_all add: CALL_FIRECONSUMER_FIRE_def Let_def primitive_add_consumer_def)
qed

lemma flag_count_frame:
  "bs_item (FlagStatus_increase x s) = bs_item s" "bs_item (FlagStatus_decrease x s) = bs_item s"
  "virtual_ok (FlagStatus_increase x u) = virtual_ok u" "virtual_ok (FlagStatus_decrease x u) = virtual_ok u"
  "vp_changedKeyCodes (FlagStatus_increase x u) = vp_changedKeyCodes u"
  "vp_changedKeyCodes (FlagStatus_decrease x u) = vp_changedKeyCodes u"
proof -
  have m: "FlagState.more (FlagStatus_increase x v) = FlagState.more v"
    "FlagState.more (FlagStatus_decrease x v) = FlagState.more v" for v :: "'c FlagState_scheme"
    by (simp_all add: FlagStatus_increase_def FlagStatus_decrease_def)
  have c: "cs_pairs (FlagStatus_increase x v) = cs_pairs v" "cs_pairs (FlagStatus_decrease x v) = cs_pairs v"
    for v :: "'c FlagState_scheme" by (simp_all add: FlagStatus_increase_def FlagStatus_decrease_def)
  have b: "FlagState.more t = FlagState.more v \<Longrightarrow> bs_item t = bs_item v" for t v :: "'c ButtonState_scheme"
    by (cases t; cases v; simp)
  show "bs_item (FlagStatus_increase x s) = bs_item s" "bs_item (FlagStatus_decrease x s) = bs_item s"
    using b [OF m(1)] b [OF m(2)] by auto
  note e = vk_mouse_eqD [OF flag_more_eqD [OF m(1)]] vk_mouse_eqD [OF flag_more_eqD [OF m(2)]]
  show "virtual_ok (FlagStatus_increase x u) = virtual_ok u" "virtual_ok (FlagStatus_decrease x u) = virtual_ok u"
    "vp_changedKeyCodes (FlagStatus_increase x u) = vp_changedKeyCodes u"
    "vp_changedKeyCodes (FlagStatus_decrease x u) = vp_changedKeyCodes u"
    by (simp_all add: virtual_ok_def virtual_codes_def e c)
qed

lemma downup_modifier:
  assumes "virtual_ok s" and "key < VK_BEGIN" and "key \<notin> set (vp_changedKeyCodes s)"
  shows "\<exists>t. fire_downup a pe r \<lparr>te_target = TE_KEY key, te_modifierFlags = fl\<rparr> s = Some t \<and>
    press_counts t = press_counts s \<and> bs_item t = bs_item s"
proof -
  let ?f = "KeyCode_getModifierFlag (cs_pairs s) key"
  have k [simp]: "kp_key (KeyboardParams_new ps et f key kt rep) = key" for ps et f kt rep
    by (simp add: KeyboardParams_new_def KeyboardParams_full_def)
  show ?thesis
  proof (cases "?f = ModifierFlag_ZERO")
    case True
    let ?p = "\<lambda>et u. KeyboardParams_new (cs_pairs u) et (FlagStatus_makeFlags (fs_item s)) key (cs_keyboardType s) False"
    obtain t where t: "CALL_FIREKEY_FIRE a pe r (?p EventType_DOWN s) s = Some t"
      "press_counts t = press_counts s" "bs_item t = bs_item s" "virtual_ok t"
      "vp_changedKeyCodes t = vp_changedKeyCodes s"
      by (rule call_hardware [of s "?p EventType_DOWN s" a pe r]) (use assms in simp_all)
    obtain u where u: "CALL_FIREKEY_FIRE a pe r (?p EventType_UP t) t = Some u"
      "press_counts u = press_counts t" "bs_item u = bs_item t"
      by (rule call_hardware [of t "?p EventType_UP t" a pe r]) (use assms t in simp_all)
    show ?thesis using True t u by (simp add: fire_downup_def Let_def)
  next
    case False
    let ?i = "FlagStatus_increase (FA_Flag ?f) s"
    let ?p = "\<lambda>u. KeyboardParams_new (cs_pairs u) EventType_MODIFY (FlagStatus_makeFlags (fs_item u)) key
      (cs_keyboardType s) False"
    obtain t where t: "CALL_FIREKEY_FIRE a pe r (?p ?i) ?i = Some t"
      "press_counts t = press_counts ?i" "bs_item t = bs_item ?i" "virtual_ok t"
      "vp_changedKeyCodes t = vp_changedKeyCodes ?i"
      by (rule call_hardware [of ?i "?p ?i" a pe r]) (use assms in \<open>simp_all add: flag_count_frame\<close>)
    let ?d = "FlagStatus_decrease (FA_Flag ?f) t"
    obtain u where u: "CALL_FIREKEY_FIRE a pe r (?p ?d) ?d = Some u"
      "press_counts u = press_counts ?d" "bs_item u = bs_item ?d"
      by (rule call_hardware [of ?d "?p ?d" a pe r]) (use assms t in \<open>simp_all add: flag_count_frame\<close>)
    show ?thesis
      using False t(1,3) u increase_decrease_held [OF t(2)]
      by (simp add: fire_downup_def Let_def flag_count_frame)
  qed
qed



end
