(* ===== verification/PressState.thy ===== *)
theory PressState
  imports ToEvents
begin

text \<open>
  Three registers of what is being pressed: \<^verbatim>\<open>PressingPhysicalKeys\<close>, the keys held down on one
  device; \<^verbatim>\<open>PressingFromEvents\<close>, the pressed \<open>FromEvent\<close> objects of remappings with
  \<open>FromEvent::changePressingState\<close>; and \<^verbatim>\<open>EventWatcher\<close>, which tells a remapping that waits for its own
  key whether another event came in between. Objects are identified by their address.
\<close>

section \<open>PressingPhysicalKeys\<close>

text \<open>The loop over the list for a release: \<open>once\<close> is the configuration value that ends it at the first match.\<close>

fun erase_pressing :: "bool \<Rightarrow> Params \<Rightarrow> FromEvent list \<Rightarrow> FromEvent list" where
  "erase_pressing once paramsBase [] = []"
| "erase_pressing once paramsBase (e # es) =
     (if isTargetEvent e paramsBase
      then (if once then es else erase_pressing once paramsBase es)
      else e # erase_pressing once paramsBase es)"

definition PressingPhysicalKeys_update :: "bool \<Rightarrow> Params \<Rightarrow> FromEvent list \<Rightarrow> FromEvent list" where
  "PressingPhysicalKeys_update once paramsBase l =
     (case iskeydown paramsBase of
        None \<Rightarrow> l
      | Some down \<Rightarrow>
          if (case paramsBase of P_Keyboard p \<Rightarrow> kp_key p = KeyCode_CAPSLOCK | _ \<Rightarrow> False) then l
          else if down then l @ [FromEvent_of_params paramsBase]
          else erase_pressing once paramsBase l)"

text \<open>The keys the events of a device leave pressed, by the configuration value.\<close>

fun pressed_count :: "bool \<Rightarrow> FromEvent \<Rightarrow> Params list \<Rightarrow> nat" where
  "pressed_count once e [] = 0"
| "pressed_count once e (p # earlier) =
     (case isTargetEventDown e p of
        None \<Rightarrow> pressed_count once e earlier
      | Some True \<Rightarrow> pressed_count once e earlier + 1
      | Some False \<Rightarrow> if once then pressed_count once e earlier - 1 else 0)"

lemma isTargetEvent_params:
  assumes "iskeydown p = Some d"
  shows "isTargetEvent e p = (e = FromEvent_of_params p)"
  using isTargetEventDown_iff [OF assms, of e] by (auto simp: isTargetEvent_def split: if_splits)

lemma count_erase_pressing:
  assumes "iskeydown p = Some d"
  shows "count_list (erase_pressing once p es) e =
    (if e = FromEvent_of_params p then (if once then count_list es e - 1 else 0) else count_list es e)"
  by (induction es) (auto simp: isTargetEvent_params [OF assms])

lemma count_update:
  assumes "e \<noteq> FE_KEY KeyCode_CAPSLOCK" and "e \<noteq> FE_NONE" and "e \<noteq> FE_POINTING_BUTTON PointingButton_NONE"
  shows "count_list (PressingPhysicalKeys_update once p l) e =
    (case isTargetEventDown e p of
       None \<Rightarrow> count_list l e
     | Some True \<Rightarrow> count_list l e + 1
     | Some False \<Rightarrow> if once then count_list l e - 1 else 0)"
proof (cases "iskeydown p")
  case None
  then have "isTargetEventDown e p = None" using assms by (cases p; cases e) (auto split: if_splits)
  with None show ?thesis by (simp add: PressingPhysicalKeys_update_def)
next
  case (Some d)
  have caps: "isTargetEventDown e p = None"
    if "case p of P_Keyboard k \<Rightarrow> kp_key k = KeyCode_CAPSLOCK | _ \<Rightarrow> False"
    using that assms(1) by (cases p; cases e) auto
  show ?thesis
    using Some caps isTargetEventDown_iff [OF Some, of e]
    by (auto simp: PressingPhysicalKeys_update_def count_erase_pressing [OF Some] split: bool.split)
qed

text \<open>
  C20: After any sequence of events of a device (the latest first), every key, consumer key and
  button other than caps lock is in the list as often as it was pressed without being released:
  one release takes one press away when several devices may hold the same key, and all of them
  otherwise. So the list is empty of a key exactly when the key is up.
\<close>

theorem PressingPhysicalKeys_tracks:
  assumes "e \<noteq> FE_KEY KeyCode_CAPSLOCK" and "e \<noteq> FE_NONE" and "e \<noteq> FE_POINTING_BUTTON PointingButton_NONE"
  shows "count_list (foldr (PressingPhysicalKeys_update once) events []) e = pressed_count once e events"
  by (induction events) (auto simp: count_update [OF assms] split: option.split bool.split)

theorem PressingPhysicalKeys_tracks_witness:
  "let down = P_Special (SpecialParams_new EventType_DOWN 0 ConsumerKeyCode_EJECT False);
       up = P_Special (SpecialParams_new EventType_UP 0 ConsumerKeyCode_EJECT False)
   in count_list (foldr (PressingPhysicalKeys_update True) [up, down, down] []) (FE_CONSUMER_KEY ConsumerKeyCode_EJECT) = 1"
  unfolding Let_def
  by (subst PressingPhysicalKeys_tracks) (simp_all add: SpecialParams_new_def SpecialParams_full_def)

section \<open>PressingFromEvents\<close>

record WatchItem =
  wi_observed :: bool
  wi_isAnyEventHappen :: bool

record PressState = RepeatState +
  pf_list :: "nat list"
  ew_list :: "(nat \<times> WatchItem) list"

definition PressingFromEvents_clear :: "'a PressState_scheme \<Rightarrow> 'a PressState_scheme" where
  "PressingFromEvents_clear s = s\<lparr>pf_list := []\<rparr>"

definition PressingFromEvents_push_back :: "nat \<Rightarrow> 'a PressState_scheme \<Rightarrow> 'a PressState_scheme" where
  "PressingFromEvents_push_back p s = s\<lparr>pf_list := pf_list s @ [p]\<rparr>"

definition PressingFromEvents_erase :: "nat \<Rightarrow> 'a PressState_scheme \<Rightarrow> bool \<times> 'a PressState_scheme" where
  "PressingFromEvents_erase p s =
     (if p \<in> set (pf_list s) then (True, s\<lparr>pf_list := remove1 p (pf_list s)\<rparr>) else (False, s))"

text \<open>The loop ends because every erasure shortens the list.\<close>

function erase_all_loop :: "nat \<Rightarrow> nat list \<Rightarrow> nat list" where
  "erase_all_loop p l = (if p \<in> set l then erase_all_loop p (remove1 p l) else l)"
  by auto
termination
  by (relation "measure (\<lambda>(p, l). length l)") (auto simp: length_remove1 intro!: diff_less length_pos_if_in_set)

definition PressingFromEvents_erase_all :: "nat \<Rightarrow> 'a PressState_scheme \<Rightarrow> 'a PressState_scheme" where
  "PressingFromEvents_erase_all p s = s\<lparr>pf_list := erase_all_loop p (pf_list s)\<rparr>"

definition isPressing :: "nat \<Rightarrow> 'a PressState_scheme \<Rightarrow> bool" where
  "isPressing p s = (p \<in> set (pf_list s))"

text \<open>\<open>this\<close> is the address of the object and \<open>e\<close> its value.\<close>

definition changePressingState ::
  "nat \<Rightarrow> FromEvent \<Rightarrow> Params \<Rightarrow> FlagItem list \<Rightarrow> ModifierFlag list \<Rightarrow> 'a PressState_scheme \<Rightarrow>
   bool \<times> 'a PressState_scheme"
where
  "changePressingState this e paramsBase currentFlags fromFlags s =
     (case isTargetEventDown e paramsBase of
        None \<Rightarrow> (False, s)
      | Some True \<Rightarrow>
          if FlagStatus_isOn currentFlags fromFlags then (True, PressingFromEvents_push_back this s) else (False, s)
      | Some False \<Rightarrow> PressingFromEvents_erase this s)"

lemma erase_all_filter: "erase_all_loop p l = filter (\<lambda>q. q \<noteq> p) l"
proof (induction p l rule: erase_all_loop.induct)
  case (1 p l)
  have "filter (\<lambda>q. q \<noteq> p) (remove1 p l) = filter (\<lambda>q. q \<noteq> p) l" by (induction l) auto
  with 1 show ?case by (auto intro!: filter_True [symmetric])
qed

text \<open>A call of \<open>changePressingState\<close>: the object, the event and the modifiers at that time.\<close>

record PressCall =
  pc_this :: nat
  pc_event :: FromEvent
  pc_params :: Params
  pc_flags :: "FlagItem list"
  pc_fromFlags :: "ModifierFlag list"

definition press_call :: "PressCall \<Rightarrow> 'a PressState_scheme \<Rightarrow> bool \<times> 'a PressState_scheme" where
  "press_call c s = changePressingState (pc_this c) (pc_event c) (pc_params c) (pc_flags c) (pc_fromFlags c) s"

text \<open>The presses of an object that were accepted and not released, for calls given latest first.\<close>

fun pending_presses :: "nat \<Rightarrow> PressCall list \<Rightarrow> nat" where
  "pending_presses p [] = 0"
| "pending_presses p (c # earlier) =
     (if pc_this c \<noteq> p then pending_presses p earlier
      else case isTargetEventDown (pc_event c) (pc_params c) of
          None \<Rightarrow> pending_presses p earlier
        | Some True \<Rightarrow>
            pending_presses p earlier + (if FlagStatus_isOn (pc_flags c) (pc_fromFlags c) then 1 else 0)
        | Some False \<Rightarrow> pending_presses p earlier - 1)"

lemma count_remove1: "count_list (remove1 x l) y = (if x = y then count_list l y - 1 else count_list l y)"
  by (induction l) auto

lemma press_calls_count:
  assumes "pf_list s = []"
  shows "count_list (pf_list (foldr (\<lambda>c s. snd (press_call c s)) calls s)) p = pending_presses p calls"
proof (induction calls)
  case (Cons c calls)
  let ?t = "foldr (\<lambda>c s. snd (press_call c s)) calls s"
  have "count_list (pf_list ?t) q = 0" if "q \<notin> set (pf_list ?t)" for q
    using that by (simp add: count_list_0_iff)
  with Cons show ?case
    by (auto simp: press_call_def changePressingState_def PressingFromEvents_push_back_def
        PressingFromEvents_erase_def count_remove1 split: option.split bool.split)
qed (simp add: assms)

text \<open>
  C19: A release is accepted exactly when a press of the same object was accepted before and is
  still waiting for its release, whatever the modifiers are by then and whatever other objects did
  in between; a press is accepted exactly when the modifiers match.
\<close>

theorem changePressingState_paired:
  assumes "pf_list s = []"
  shows "let t = foldr (\<lambda>c s. snd (press_call c s)) calls s in
    fst (press_call c t) =
      (case isTargetEventDown (pc_event c) (pc_params c) of
         None \<Rightarrow> False
       | Some True \<Rightarrow> FlagStatus_isOn (pc_flags c) (pc_fromFlags c)
       | Some False \<Rightarrow> 0 < pending_presses (pc_this c) calls)"
proof -
  let ?t = "foldr (\<lambda>c s. snd (press_call c s)) calls s"
  have "pc_this c \<in> set (pf_list ?t) \<longleftrightarrow> 0 < pending_presses (pc_this c) calls"
    using press_calls_count [OF assms, of calls "pc_this c"] count_list_0_iff [of "pf_list ?t" "pc_this c"] by auto
  then show ?thesis
    by (auto simp: Let_def press_call_def changePressingState_def PressingFromEvents_erase_def
        split: option.split bool.split)
qed

text \<open>The state after start-up.\<close>

definition press_static :: PressState where
  "press_static = RepeatState.extend repeat_static \<lparr>pf_list = [], ew_list = []\<rparr>"

theorem changePressingState_paired_witness:
  "let call = (\<lambda>et items. \<lparr>pc_this = 1, pc_event = FE_CONSUMER_KEY ConsumerKeyCode_EJECT,
         pc_params = P_Special (SpecialParams_new et 0 ConsumerKeyCode_EJECT False), pc_flags = items,
         pc_fromFlags = []\<rparr>);
       t = foldr (\<lambda>c s. snd (press_call c s)) [call EventType_DOWN []] press_static
   in fst (press_call (call EventType_UP (items_of_pairs normal_pairs)) t)"
proof -
  let ?call = "\<lambda>et items. \<lparr>pc_this = 1, pc_event = FE_CONSUMER_KEY ConsumerKeyCode_EJECT,
         pc_params = P_Special (SpecialParams_new et 0 ConsumerKeyCode_EJECT False), pc_flags = items,
         pc_fromFlags = []\<rparr>"
  have "pf_list press_static = []" by (simp add: press_static_def RepeatState.extend_def)
  from changePressingState_paired [OF this, of "[?call EventType_DOWN []]" "?call EventType_UP (items_of_pairs normal_pairs)"]
  show ?thesis
    by (simp add: Let_def SpecialParams_new_def SpecialParams_full_def FlagStatus_isOn_def)
qed

section \<open>EventWatcher\<close>

text \<open>The methods of a \<open>Target\<close> act on the item at its address, those of the class on all items.\<close>

definition on_item :: "nat \<Rightarrow> (WatchItem \<Rightarrow> WatchItem) \<Rightarrow> 'a PressState_scheme \<Rightarrow> 'a PressState_scheme" where
  "on_item p f s = s\<lparr>ew_list := map (\<lambda>(q, it). if q = p then (q, f it) else (q, it)) (ew_list s)\<rparr>"

definition Target_new :: "nat \<Rightarrow> 'a PressState_scheme \<Rightarrow> 'a PressState_scheme" where
  "Target_new p s = s\<lparr>ew_list := ew_list s @ [(p, \<lparr>wi_observed = False, wi_isAnyEventHappen = False\<rparr>)]\<rparr>"

definition Target_delete :: "nat \<Rightarrow> 'a PressState_scheme \<Rightarrow> 'a PressState_scheme" where
  "Target_delete p s = s\<lparr>ew_list := filter (\<lambda>(q, it). q \<noteq> p) (ew_list s)\<rparr>"

definition Target_observe :: "nat \<Rightarrow> 'a PressState_scheme \<Rightarrow> 'a PressState_scheme" where
  "Target_observe p s = on_item p (\<lambda>it. it\<lparr>wi_observed := True, wi_isAnyEventHappen := False\<rparr>) s"

definition Target_unobserve :: "nat \<Rightarrow> 'a PressState_scheme \<Rightarrow> 'a PressState_scheme" where
  "Target_unobserve p s = on_item p (\<lambda>it. it\<lparr>wi_observed := False\<rparr>) s"

definition isAnyEventHappen :: "nat \<Rightarrow> 'a PressState_scheme \<Rightarrow> bool" where
  "isAnyEventHappen p s = (case map_of (ew_list s) p of None \<Rightarrow> False | Some it \<Rightarrow> wi_isAnyEventHappen it)"

definition EventWatcher_terminate :: "'a PressState_scheme \<Rightarrow> 'a PressState_scheme" where
  "EventWatcher_terminate s = s\<lparr>ew_list := []\<rparr>"

definition EventWatcher_reset :: "'a PressState_scheme \<Rightarrow> 'a PressState_scheme" where
  "EventWatcher_reset s = s\<lparr>ew_list := map (\<lambda>(q, it). (q, it\<lparr>wi_observed := False\<rparr>)) (ew_list s)\<rparr>"

definition EventWatcher_on :: "'a PressState_scheme \<Rightarrow> 'a PressState_scheme" where
  "EventWatcher_on s =
     s\<lparr>ew_list := map (\<lambda>(q, it). if wi_observed it then (q, it\<lparr>wi_isAnyEventHappen := True\<rparr>) else (q, it)) (ew_list s)\<rparr>"

text \<open>What other components do with the watcher after a target has begun to observe.\<close>

inductive watch_step :: "nat \<Rightarrow> bool \<Rightarrow> 'a PressState_scheme \<Rightarrow> 'a PressState_scheme \<Rightarrow> bool" for p where
  watch_on: "watch_step p True s (EventWatcher_on s)"
| watch_other: "q \<noteq> p \<Longrightarrow> t = Target_observe q s \<or> t = Target_unobserve q s \<or> t = Target_new q s \<or> t = Target_delete q s \<Longrightarrow>
    watch_step p False s t"

inductive watched :: "nat \<Rightarrow> bool \<Rightarrow> 'a PressState_scheme \<Rightarrow> 'a PressState_scheme \<Rightarrow> bool" for p where
  watched_refl: "watched p False s s"
| watched_step: "watched p b s t \<Longrightarrow> watch_step p c t u \<Longrightarrow> watched p (b \<or> c) s u"

lemma map_of_on_item:
  "map_of (ew_list (on_item q f s)) p =
    (if q = p then map_option f (map_of (ew_list s) p) else map_of (ew_list s) p)"
proof -
  have "map_of (map (\<lambda>(r, it). if r = q then (r, f it) else (r, it)) l) p =
      (if q = p then map_option f (map_of l p) else map_of l p)" for l
    by (induction l) auto
  then show ?thesis by (simp add: on_item_def)
qed

lemma map_of_on:
  "map_of (ew_list (EventWatcher_on s)) p =
    map_option (\<lambda>it. if wi_observed it then it\<lparr>wi_isAnyEventHappen := True\<rparr> else it) (map_of (ew_list s) p)"
proof -
  have "map_of (map (\<lambda>(q, it). if wi_observed it then (q, it\<lparr>wi_isAnyEventHappen := True\<rparr>) else (q, it)) l) p =
      map_option (\<lambda>it. if wi_observed it then it\<lparr>wi_isAnyEventHappen := True\<rparr> else it) (map_of l p)" for l
    by (induction l) auto
  then show ?thesis by (simp add: EventWatcher_on_def)
qed

lemma map_of_other:
  assumes "q \<noteq> p"
  shows "map_of (ew_list (Target_new q s)) p = map_of (ew_list s) p"
    and "map_of (ew_list (Target_delete q s)) p = map_of (ew_list s) p"
proof -
  show "map_of (ew_list (Target_new q s)) p = map_of (ew_list s) p"
    using assms by (simp add: Target_new_def map_add_def split: option.split)
  have "map_of (filter (\<lambda>(r, it). r \<noteq> q) l) p = map_of l p" for l using assms by (induction l) auto
  then show "map_of (ew_list (Target_delete q s)) p = map_of (ew_list s) p" by (simp add: Target_delete_def)
qed

text \<open>The item of an observing target records whether an event happened since.\<close>

lemma watched_item:
  assumes "watched p b s t" and "map_of (ew_list s) p = Some \<lparr>wi_observed = True, wi_isAnyEventHappen = False\<rparr>"
  shows "map_of (ew_list t) p = Some \<lparr>wi_observed = True, wi_isAnyEventHappen = b\<rparr>"
  using assms
proof (induction rule: watched.induct)
  case (watched_step b s t c u)
  then have t: "map_of (ew_list t) p = Some \<lparr>wi_observed = True, wi_isAnyEventHappen = b\<rparr>" by simp
  show ?case using watched_step(2) t
    by (cases rule: watch_step.cases)
       (auto simp: map_of_on Target_observe_def Target_unobserve_def map_of_on_item map_of_other)
qed simp

text \<open>
  A target that observes reports an event exactly when one happened after it began to
  observe, whatever other targets do meanwhile.
\<close>

theorem EventWatcher_reports:
  assumes "p \<in> fst ` set (ew_list s)" and "watched p b (Target_observe p s) t"
  shows "isAnyEventHappen p t = b"
proof -
  obtain it where "map_of (ew_list s) p = Some it" using assms(1) by (auto dest: weak_map_of_SomeI)
  then have "map_of (ew_list (Target_observe p s)) p = Some \<lparr>wi_observed = True, wi_isAnyEventHappen = False\<rparr>"
    by (cases it) (simp add: Target_observe_def map_of_on_item)
  from watched_item [OF assms(2) this] show ?thesis by (simp add: isAnyEventHappen_def)
qed

theorem EventWatcher_reports_witness:
  "isAnyEventHappen 1 (EventWatcher_on (Target_observe 2 (Target_observe 1 (Target_new 2 (Target_new 1 press_static)))))"
proof -
  let ?s = "Target_new 2 (Target_new 1 press_static)"
  let ?t = "Target_observe 1 ?s"
  have "watch_step 1 False ?t (Target_observe 2 ?t)" by (rule watch_other [of 2]) simp_all
  from watched_step [OF watched_step [OF watched_refl this] watch_on]
  have "watched 1 True ?t (EventWatcher_on (Target_observe 2 ?t))" by simp
  then show ?thesis using EventWatcher_reports [of 1 ?s] by (auto simp: Target_new_def)
qed

end
