(* ===== verification/Devices.thy ===== *)
theory Devices
  imports PressState
begin

text \<open>
  The hooked devices (\<^verbatim>\<open>ListHookedDevice\<close> and its subclasses for keyboards, consumer keys and
  pointing devices). An IOKit device calls an action for each kind of event; hooking replaces the
  action by a function of the input queue and keeps the original, to which the output queue later
  sends. The devices themselves belong to IOKit: their registry entries and the class of each are
  given by \<open>dv_devices\<close>, the actions they hold, which other drivers may change, are \<open>dv_slots\<close>, and the
  calls of original actions are collected in \<open>dv_log\<close>. The pointer \<open>device_\<close> of an item is never null,
  as the callers of the constructor check it.
\<close>

section \<open>State\<close>

datatype DeviceType = DT_UNKNOWN | DT_APPLE_MIKEY_HID_DRIVER | DT_APPLE_INTERNAL | DT_APPLE_EXTERNAL | DT_USB_OVERDRIVE

record RegistryEntry =
  re_vendor :: "u32 option"
  re_product :: "u32 option"
  re_location :: "u32 option"
  re_name :: "string option"
  re_manufacturer :: "string option"
  re_productname :: "string option"

text \<open>The entries of a device and of its parents, and which dynamic casts succeed.\<close>

record IOHIDevice =
  io_entry :: RegistryEntry
  io_parents :: "RegistryEntry list"
  io_keyboard :: bool
  io_pointing :: bool

text \<open>The kinds of events, the three lists, and the kinds of events each list hooks.\<close>

datatype Slot = S_keyboard | S_flags | S_special | S_pointer | S_scroll

datatype ListKind = LK_keyboard | LK_consumer | LK_pointing

fun slots_of :: "ListKind \<Rightarrow> Slot list" where
  "slots_of LK_keyboard = [S_keyboard, S_flags]"
| "slots_of LK_consumer = [S_special]"
| "slots_of LK_pointing = [S_pointer, S_scroll]"

text \<open>\<open>CB_push\<close> is the function of the input queue for the slot, \<open>None\<close> a null pointer.\<close>

datatype Callback = CB_push | CB_other nat

type_synonym Action = "Callback option \<times> nat option"

record HookedItem =
  hi_id :: nat
  hi_device :: nat
  hi_identifier :: DeviceIdentifier
  hi_type :: DeviceType
  hi_inProgress :: bool
  hi_pressing :: "FromEvent list"
  hi_orig :: "Slot \<Rightarrow> Action"
  hi_previousbuttons :: Buttons

record DeviceList =
  dl_last :: "nat option"
  dl_list :: "HookedItem list"

record DeviceState = PressState +
  dv_devices :: "nat \<Rightarrow> IOHIDevice"
  dv_slots :: "nat \<Rightarrow> Slot \<Rightarrow> Action"
  dv_alphaLock :: "nat \<Rightarrow> bool"
  dv_lists :: "ListKind \<Rightarrow> DeviceList"
  dv_nextid :: nat
  dv_initialized :: bool
  dv_refresh_timer :: TimerWrapper
  dv_capslock_timer :: TimerWrapper
  dv_log :: "(nat \<times> Slot \<times> Callback \<times> nat \<times> Params) list"
  dv_ts :: u64

section \<open>Identifying a device\<close>

fun find_identifier :: "RegistryEntry list \<Rightarrow> (DeviceVendor \<times> DeviceProduct \<times> RegistryEntry) option" where
  "find_identifier [] = None"
| "find_identifier (dev # parents) =
     (case (re_vendor dev, re_product dev) of
        (Some vid, Some pid) \<Rightarrow> Some (vid, pid, dev)
      | _ \<Rightarrow>
          if re_name dev = Some ''ApplePS2Keyboard'' \<and> re_manufacturer dev = Some ''Apple'' \<and>
             re_productname dev = Some ''Keyboard''
          then Some (DeviceVendor_APPLE_COMPUTER, DeviceProduct_APPLE_INTERNAL_KEYBOARD_TRACKPAD_0x0218, dev)
          else find_identifier parents)"

definition setDeviceIdentifier :: "IOHIDevice \<Rightarrow> DeviceIdentifier" where
  "setDeviceIdentifier d =
     (case find_identifier (io_entry d # io_parents d) of
        None \<Rightarrow> \<lparr>di_vendor = 0, di_product = 0, di_location = 0\<rparr>
      | Some (vid, pid, dev) \<Rightarrow>
          \<lparr>di_vendor = vid, di_product = pid,
           di_location = (case re_location dev of Some l \<Rightarrow> l | None \<Rightarrow> 0)\<rparr>)"

definition apple_names :: "string list" where
  "apple_names = [''IOHIDKeyboard'', ''AppleADBKeyboard'', ''IOHIDConsumer'', ''IOHIDPointing'', ''ApplePS2Mouse'',
     ''ApplePS2Trackpad'', ''AppleUSBGrIIITrackpad'', ''AppleADBMouseType4'']"

definition setDeviceType :: "IOHIDevice \<Rightarrow> DeviceType" where
  "setDeviceType d =
     (case re_name (io_entry d) of
        None \<Rightarrow> DT_UNKNOWN
      | Some name \<Rightarrow>
          if name \<in> set apple_names
          then (case re_productname (io_entry d) of
                  None \<Rightarrow> DT_APPLE_EXTERNAL
                | Some pname \<Rightarrow>
                    if pname = ''Apple Mikey HID Driver'' then DT_APPLE_MIKEY_HID_DRIVER
                    else if take (length ''Apple Internal '') pname = ''Apple Internal '' then DT_APPLE_INTERNAL
                    else DT_APPLE_EXTERNAL)
          else if name = ''ApplePS2Keyboard'' then DT_APPLE_INTERNAL
          else if name = ''OverdriveHIDKeyboard'' \<or> name = ''OverdriveHIDPointer'' then DT_USB_OVERDRIVE
          else DT_UNKNOWN)"

definition isConsumer :: "string \<Rightarrow> bool" where
  "isConsumer name = (name = ''IOHIDConsumer'' \<or> name = ''com_Logitech_HISpecialKeys'')"

definition isInternalDevice :: "HookedItem \<Rightarrow> bool" where
  "isInternalDevice item = (hi_type item = DT_APPLE_INTERNAL)"

definition no_actions :: "Slot \<Rightarrow> Action" where
  "no_actions = (\<lambda>_. (None, None))"

definition HookedItem_new :: "nat \<Rightarrow> nat \<Rightarrow> IOHIDevice \<Rightarrow> HookedItem" where
  "HookedItem_new i dev d =
     \<lparr>hi_id = i, hi_device = dev, hi_identifier = setDeviceIdentifier d, hi_type = setDeviceType d,
      hi_inProgress = False, hi_pressing = [], hi_orig = no_actions, hi_previousbuttons = 0\<rparr>"

definition isReplaced :: "ListKind \<Rightarrow> HookedItem \<Rightarrow> bool" where
  "isReplaced k item = (fst (hi_orig item (hd (slots_of k))) \<noteq> None)"

section \<open>Which devices are hooked\<close>

definition on :: "ConfigIndex \<Rightarrow> 'a DeviceState_scheme \<Rightarrow> bool" where
  "on i s = (cs_config s i \<noteq> 0)"

text \<open>The conditions common to keyboards and consumer keys that make \<open>refresh\<close> restore the device.\<close>

definition keyboard_excluded :: "HookedItem \<Rightarrow> 'a DeviceState_scheme \<Rightarrow> bool" where
  "keyboard_excluded item s =
     (\<not> dv_initialized s \<or>
      \<not> on notsave_automatically_enable_keyboard_device s \<or>
      on general_dont_remap_thirdvendor_keyboard s \<and> hi_type item \<noteq> DT_APPLE_INTERNAL \<and>
        hi_type item \<noteq> DT_APPLE_EXTERNAL \<or>
      on general_dont_remap_internal s \<and> hi_type item = DT_APPLE_INTERNAL \<or>
      on general_dont_remap_external s \<and> hi_type item \<noteq> DT_APPLE_INTERNAL \<or>
      on general_dont_remap_apple_keyboard s \<and> DeviceVendor_isApple (di_vendor (hi_identifier item)) \<or>
      on general_dont_remap_non_apple_keyboard s \<and> \<not> DeviceVendor_isApple (di_vendor (hi_identifier item)) \<or>
      DeviceIdentifier_isEqualVendorProduct (hi_identifier item) DeviceVendor_LOGITECH DeviceProduct_LOGITECH_USB_HEADSET)"

definition pseudo_device :: "HookedItem \<Rightarrow> bool" where
  "pseudo_device item =
     DeviceIdentifier_isEqualVendorProduct (hi_identifier item) DeviceVendor_PSEUDO DeviceProduct_PSEUDO"

definition keyboard_wanted :: "HookedItem \<Rightarrow> 'a DeviceState_scheme \<Rightarrow> bool" where
  "keyboard_wanted item s =
     (case re_name (io_entry (dv_devices s (hi_device item))) of
        None \<Rightarrow> False
      | Some name \<Rightarrow>
          \<not> isConsumer name \<and> \<not> keyboard_excluded item s \<and>
          \<not> (pseudo_device item \<and> \<not> on general_allow_devices_vendor_id_product_id_are_zero s \<and>
             hi_type item \<noteq> DT_USB_OVERDRIVE))"

definition consumer_wanted :: "HookedItem \<Rightarrow> 'a DeviceState_scheme \<Rightarrow> bool" where
  "consumer_wanted item s =
     (case re_name (io_entry (dv_devices s (hi_device item))) of
        None \<Rightarrow> False
      | Some name \<Rightarrow>
          isConsumer name \<and> \<not> keyboard_excluded item s \<and>
          \<not> (pseudo_device item \<and> hi_type item \<noteq> DT_USB_OVERDRIVE))"

definition pointing_wanted :: "HookedItem \<Rightarrow> 'a DeviceState_scheme \<Rightarrow> bool" where
  "pointing_wanted item s =
     (dv_initialized s \<and>
      on notsave_automatically_enable_pointing_device s \<and>
      \<not> on general_dont_remap_any_pointing s \<and>
      \<not> (on general_dont_remap_thirdvendor_pointing s \<and> hi_type item \<noteq> DT_APPLE_INTERNAL \<and>
         hi_type item \<noteq> DT_APPLE_EXTERNAL) \<and>
      \<not> (on general_dont_remap_apple_pointing s \<and> DeviceVendor_isApple (di_vendor (hi_identifier item))) \<and>
      \<not> (on general_dont_remap_non_apple_pointing s \<and>
         \<not> DeviceVendor_isApple (di_vendor (hi_identifier item))))"

fun hook_wanted :: "ListKind \<Rightarrow> HookedItem \<Rightarrow> 'a DeviceState_scheme \<Rightarrow> bool" where
  "hook_wanted LK_keyboard item s = keyboard_wanted item s"
| "hook_wanted LK_consumer item s = consumer_wanted item s"
| "hook_wanted LK_pointing item s = pointing_wanted item s"

section \<open>Replacing and restoring actions\<close>

definition cast_ok :: "ListKind \<Rightarrow> IOHIDevice \<Rightarrow> bool" where
  "cast_ok k d = (case k of LK_pointing \<Rightarrow> io_pointing d | _ \<Rightarrow> io_keyboard d)"

definition set_slot :: "nat \<Rightarrow> Slot \<Rightarrow> Callback option \<Rightarrow> 'a DeviceState_scheme \<Rightarrow> 'a DeviceState_scheme" where
  "set_slot dev slot cb s =
     s\<lparr>dv_slots := (dv_slots s)(dev := (dv_slots s dev)(slot := (cb, snd (dv_slots s dev slot))))\<rparr>"

text \<open>The block for one slot: whether it has replaced the action, the item, the state.\<close>

definition replace_slot ::
  "Slot \<Rightarrow> HookedItem \<Rightarrow> 'a DeviceState_scheme \<Rightarrow> bool \<times> HookedItem \<times> 'a DeviceState_scheme"
where
  "replace_slot slot item s =
     (case dv_slots s (hi_device item) slot of
        (None, _) \<Rightarrow> (False, item\<lparr>hi_inProgress := True\<rparr>, s)
      | (Some callback, target) \<Rightarrow>
          if callback \<noteq> CB_push
          then (True,
                item\<lparr>hi_inProgress := False, hi_orig := (hi_orig item)(slot := (Some callback, target))\<rparr>,
                set_slot (hi_device item) slot (Some CB_push) s)
          else (False, item, s))"

fun replace_slots ::
  "Slot list \<Rightarrow> HookedItem \<Rightarrow> 'a DeviceState_scheme \<Rightarrow> bool \<times> HookedItem \<times> 'a DeviceState_scheme"
where
  "replace_slots [] item s = (False, item, s)"
| "replace_slots (slot # slots) item s =
     (let (r, item, s) = replace_slot slot item s;
          (r', item, s) = replace_slots slots item s
      in (r \<or> r', item, s))"

definition replaceEventAction ::
  "ListKind \<Rightarrow> HookedItem \<Rightarrow> 'a DeviceState_scheme \<Rightarrow> bool \<times> HookedItem \<times> 'a DeviceState_scheme"
where
  "replaceEventAction k item s =
     (if \<not> cast_ok k (dv_devices s (hi_device item)) then (False, item, s)
      else replace_slots (slots_of k) item s)"

definition restore_slot :: "HookedItem \<Rightarrow> Slot \<Rightarrow> 'a DeviceState_scheme \<Rightarrow> 'a DeviceState_scheme" where
  "restore_slot item slot s =
     (if fst (dv_slots s (hi_device item) slot) = Some CB_push
      then set_slot (hi_device item) slot (fst (hi_orig item slot)) s else s)"

definition restoreEventAction ::
  "ListKind \<Rightarrow> HookedItem \<Rightarrow> 'a DeviceState_scheme \<Rightarrow> bool \<times> HookedItem \<times> 'a DeviceState_scheme"
where
  "restoreEventAction k item s =
     (if \<not> cast_ok k (dv_devices s (hi_device item)) then (False, item, s)
      else (\<exists>slot \<in> set (slots_of k). fst (dv_slots s (hi_device item) slot) = Some CB_push,
            item\<lparr>hi_orig := no_actions\<rparr>,
            fold (restore_slot item) (slots_of k) s))"

definition Item_refresh ::
  "ListKind \<Rightarrow> HookedItem \<Rightarrow> 'a DeviceState_scheme \<Rightarrow> bool \<times> HookedItem \<times> 'a DeviceState_scheme"
where
  "Item_refresh k item s =
     (if hook_wanted k item s then replaceEventAction k item s else restoreEventAction k item s)"

section \<open>The lists\<close>

definition set_list :: "ListKind \<Rightarrow> DeviceList \<Rightarrow> 'a DeviceState_scheme \<Rightarrow> 'a DeviceState_scheme" where
  "set_list k l s = s\<lparr>dv_lists := (dv_lists s)(k := l)\<rparr>"

fun refresh_items ::
  "ListKind \<Rightarrow> HookedItem list \<Rightarrow> 'a DeviceState_scheme \<Rightarrow> HookedItem list \<times> 'a DeviceState_scheme"
where
  "refresh_items k [] s = ([], s)"
| "refresh_items k (item # items) s =
     (let (_, item, s) = Item_refresh k item s;
          (items, s) = refresh_items k items s
      in (item # items, s))"

definition DeviceList_refresh :: "ListKind \<Rightarrow> 'a DeviceState_scheme \<Rightarrow> 'a DeviceState_scheme" where
  "DeviceList_refresh k s =
     (let (items, s) = refresh_items k (dl_list (dv_lists s k)) s
      in set_list k ((dv_lists s k)\<lparr>dl_list := items\<rparr>) s)"

definition start_refreshInProgressDevices_timer :: "'a DeviceState_scheme \<Rightarrow> 'a DeviceState_scheme" where
  "start_refreshInProgressDevices_timer s =
     s\<lparr>dv_refresh_timer := snd (setTimeoutMS 1000 True (dv_refresh_timer s))\<rparr>"

text \<open>\<open>push_back(new Item(device))\<close>: the new item gets a fresh identity.\<close>

definition DeviceList_push_back :: "ListKind \<Rightarrow> nat \<Rightarrow> 'a DeviceState_scheme \<Rightarrow> 'a DeviceState_scheme" where
  "DeviceList_push_back k dev s =
     (let item = HookedItem_new (dv_nextid s) dev (dv_devices s dev);
          s = s\<lparr>dv_nextid := dv_nextid s + 1\<rparr>;
          s = set_list k \<lparr>dl_last = Some dev, dl_list = dl_list (dv_lists s k) @ [item]\<rparr> s
      in start_refreshInProgressDevices_timer (DeviceList_refresh k s))"

definition DeviceList_get ::
  "ListKind \<Rightarrow> nat option \<Rightarrow> 'a DeviceState_scheme \<Rightarrow> HookedItem option \<times> 'a DeviceState_scheme"
where
  "DeviceList_get k device s =
     (find (\<lambda>item. Some (hi_device item) = device) (dl_list (dv_lists s k)),
      set_list k ((dv_lists s k)\<lparr>dl_last := device\<rparr>) s)"

text \<open>Deleting an item runs its destructor, which restores the device.\<close>

definition DeviceList_erase :: "ListKind \<Rightarrow> nat \<Rightarrow> 'a DeviceState_scheme \<Rightarrow> 'a DeviceState_scheme" where
  "DeviceList_erase k dev s =
     (case DeviceList_get k (Some dev) s of
        (None, s) \<Rightarrow> s
      | (Some item, s) \<Rightarrow>
          let s = set_list k ((dv_lists s k)\<lparr>dl_list := remove1 item (dl_list (dv_lists s k))\<rparr>) s;
              (_, _, s) = restoreEventAction k item s
          in DeviceList_refresh k s)"

definition DeviceList_get_replaced ::
  "ListKind \<Rightarrow> 'a DeviceState_scheme \<Rightarrow> HookedItem option \<times> 'a DeviceState_scheme"
where
  "DeviceList_get_replaced k s =
     (case DeviceList_get k (dl_last (dv_lists s k)) s of
        (Some item, s) \<Rightarrow> if isReplaced k item then (Some item, s) else (find (isReplaced k) (dl_list (dv_lists s k)), s)
      | (None, s) \<Rightarrow> (find (isReplaced k) (dl_list (dv_lists s k)), s))"

definition isInProgress :: "ListKind \<Rightarrow> 'a DeviceState_scheme \<Rightarrow> bool" where
  "isInProgress k s = (\<exists>item \<in> set (dl_list (dv_lists s k)). hi_inProgress item)"

definition pressingPhysicalKeysCount :: "ListKind \<Rightarrow> 'a DeviceState_scheme \<Rightarrow> nat" where
  "pressingPhysicalKeysCount k s = sum_list (map (\<lambda>item. length (hi_pressing item)) (dl_list (dv_lists s k)))"

definition clearPressingPhysicalKeysCount :: "ListKind \<Rightarrow> 'a DeviceState_scheme \<Rightarrow> 'a DeviceState_scheme" where
  "clearPressingPhysicalKeysCount k s =
     set_list k ((dv_lists s k)\<lparr>dl_list :=
       map (\<lambda>item. if isInternalDevice item then item\<lparr>hi_pressing := []\<rparr> else item) (dl_list (dv_lists s k))\<rparr>) s"

definition pressingPhysicalKeysCountAll :: "'a DeviceState_scheme \<Rightarrow> nat" where
  "pressingPhysicalKeysCountAll s =
     pressingPhysicalKeysCount LK_keyboard s + pressingPhysicalKeysCount LK_consumer s +
     pressingPhysicalKeysCount LK_pointing s"

definition clearInternalKeyboardPressingPhysicalKeysCountAll :: "'a DeviceState_scheme \<Rightarrow> 'a DeviceState_scheme" where
  "clearInternalKeyboardPressingPhysicalKeysCountAll s =
     clearPressingPhysicalKeysCount LK_consumer (clearPressingPhysicalKeysCount LK_keyboard s)"

definition refreshAll :: "'a DeviceState_scheme \<Rightarrow> 'a DeviceState_scheme" where
  "refreshAll s =
     DeviceList_refresh LK_pointing (DeviceList_refresh LK_consumer (DeviceList_refresh LK_keyboard s))"

definition refresh_if_in_progress :: "ListKind \<Rightarrow> 'a DeviceState_scheme \<Rightarrow> 'a DeviceState_scheme" where
  "refresh_if_in_progress k s = (if isInProgress k s then DeviceList_refresh k s else s)"

definition refreshInProgressDevices_timer_callback :: "'a DeviceState_scheme \<Rightarrow> 'a DeviceState_scheme" where
  "refreshInProgressDevices_timer_callback s =
     (let s = refresh_if_in_progress LK_keyboard s;
          s = refresh_if_in_progress LK_consumer s;
          s = refresh_if_in_progress LK_pointing s
      in if isInProgress LK_keyboard s \<or> isInProgress LK_consumer s \<or> isInProgress LK_pointing s
         then start_refreshInProgressDevices_timer s else s)"

definition initializeAll :: "'a DeviceState_scheme \<Rightarrow> 'a DeviceState_scheme" where
  "initializeAll s = s\<lparr>dv_refresh_timer := TimerWrapper_initialize True True (dv_refresh_timer s)\<rparr>"

text \<open>Clearing a list deletes its items from the front.\<close>

definition DeviceList_terminate :: "ListKind \<Rightarrow> 'a DeviceState_scheme \<Rightarrow> 'a DeviceState_scheme" where
  "DeviceList_terminate k s =
     set_list k ((dv_lists s k)\<lparr>dl_list := []\<rparr>)
       (fold (\<lambda>item s. snd (snd (restoreEventAction k item s))) (dl_list (dv_lists s k)) s)"

definition terminateAll :: "'a DeviceState_scheme \<Rightarrow> 'a DeviceState_scheme" where
  "terminateAll s =
     DeviceList_terminate LK_pointing (DeviceList_terminate LK_consumer (DeviceList_terminate LK_keyboard
       (s\<lparr>dv_refresh_timer := TimerWrapper_terminate (dv_refresh_timer s)\<rparr>)))"

text \<open>What user space is told about the hooked device with an index; the strings are those before the terminating zero.\<close>

record BridgeDeviceInformation =
  bd_isFound :: bool
  bd_manufacturer :: "byte list"
  bd_product :: "byte list"
  bd_vendorID :: DeviceVendor
  bd_productID :: DeviceProduct
  bd_locationID :: DeviceLocation

definition device_string :: "string option \<Rightarrow> byte list" where
  "device_string str =
     (case str of None \<Rightarrow> []
      | Some x \<Rightarrow> (case strlcpy_utf8 (ascii x) 128 of Some (dst, _) \<Rightarrow> dst | None \<Rightarrow> []))"

definition getDeviceInformation :: "ListKind \<Rightarrow> nat \<Rightarrow> 'a DeviceState_scheme \<Rightarrow> BridgeDeviceInformation" where
  "getDeviceInformation k index s =
     (let replaced = filter (isReplaced k) (dl_list (dv_lists s k)) in
      if length replaced \<le> index
      then \<lparr>bd_isFound = False, bd_manufacturer = [], bd_product = [], bd_vendorID = 0, bd_productID = 0, bd_locationID = 0\<rparr>
      else
        let p = replaced ! index;
            e = io_entry (dv_devices s (hi_device p))
        in \<lparr>bd_isFound = True, bd_manufacturer = device_string (re_manufacturer e),
            bd_product = device_string (re_productname e), bd_vendorID = di_vendor (hi_identifier p),
            bd_productID = di_product (hi_identifier p), bd_locationID = di_location (hi_identifier p)\<rparr>)"

text \<open>The notifications of IOKit about devices that appear and disappear.\<close>

definition IOHIKeyboard_matched :: "nat \<Rightarrow> 'a DeviceState_scheme \<Rightarrow> bool \<times> 'a DeviceState_scheme" where
  "IOHIKeyboard_matched newService s =
     (if \<not> io_keyboard (dv_devices s newService) then (False, s)
      else (True, DeviceList_push_back LK_consumer newService (DeviceList_push_back LK_keyboard newService s)))"

definition IOHIKeyboard_terminated :: "nat \<Rightarrow> 'a DeviceState_scheme \<Rightarrow> bool \<times> 'a DeviceState_scheme" where
  "IOHIKeyboard_terminated newService s =
     (if \<not> io_keyboard (dv_devices s newService) then (False, s)
      else (True, DeviceList_erase LK_consumer newService (DeviceList_erase LK_keyboard newService s)))"

definition IOHIPointing_matched :: "nat \<Rightarrow> 'a DeviceState_scheme \<Rightarrow> bool \<times> 'a DeviceState_scheme" where
  "IOHIPointing_matched newService s =
     (if \<not> io_pointing (dv_devices s newService) then (False, s)
      else (True, DeviceList_push_back LK_pointing newService s))"

definition IOHIPointing_terminated :: "nat \<Rightarrow> 'a DeviceState_scheme \<Rightarrow> bool \<times> 'a DeviceState_scheme" where
  "IOHIPointing_terminated newService s =
     (if \<not> io_pointing (dv_devices s newService) then (False, s)
      else (True, DeviceList_erase LK_pointing newService s))"

text \<open>Items as the input queue sees them: weak pointers are identities.\<close>

definition find_item :: "nat \<Rightarrow> 'a DeviceState_scheme \<Rightarrow> HookedItem option" where
  "find_item i s =
     find (\<lambda>item. hi_id item = i)
       (dl_list (dv_lists s LK_keyboard) @ dl_list (dv_lists s LK_consumer) @ dl_list (dv_lists s LK_pointing))"

definition update_item :: "nat \<Rightarrow> (HookedItem \<Rightarrow> HookedItem) \<Rightarrow> 'a DeviceState_scheme \<Rightarrow> 'a DeviceState_scheme" where
  "update_item i f s =
     s\<lparr>dv_lists := (\<lambda>k. (dv_lists s k)\<lparr>dl_list :=
         map (\<lambda>item. if hi_id item = i then f item else item) (dl_list (dv_lists s k))\<rparr>)\<rparr>"

definition updatePressingPhysicalKeys :: "nat \<Rightarrow> Params \<Rightarrow> 'a DeviceState_scheme \<Rightarrow> 'a DeviceState_scheme" where
  "updatePressingPhysicalKeys i paramsBase s =
     update_item i (\<lambda>item. item\<lparr>hi_pressing :=
       PressingPhysicalKeys_update (on general_allow_devices_multiple_same_key s) paramsBase (hi_pressing item)\<rparr>) s"

section \<open>External keyboards\<close>

definition ignored_keyboard :: "HookedItem \<Rightarrow> 'a DeviceState_scheme \<Rightarrow> bool" where
  "ignored_keyboard item s =
     (let eq = DeviceIdentifier_isEqualVendorProduct (hi_identifier item) in
      on general_treat_unifying_as_pointing_device s \<and> eq 0x046d 0xc52b \<or>
      on general_treat_bluetooth_usb_host_controller_broadcom_as_pointing_device s \<and> eq 0x05ac 0x8290 \<or>
      on general_ignore_invalid_devices_from_external_keyboard s \<and> eq 0 0 \<or>
      eq DeviceVendor_Razer DeviceProduct_Razer_DeathAdder_Chroma \<or>
      eq DeviceVendor_Mionix DeviceProduct_Mionix_Naos_7000 \<or>
      eq DeviceVendor_LOGITECH DeviceProduct_Logitech_Bluetooth_Mouse_M555b)"

definition isExternalDevicesConnected :: "'a DeviceState_scheme \<Rightarrow> bool" where
  "isExternalDevicesConnected s =
     (\<exists>item \<in> set (dl_list (dv_lists s LK_keyboard)).
        \<not> ignored_keyboard item s \<and> hi_type item \<noteq> DT_APPLE_MIKEY_HID_DRIVER \<and> hi_type item \<noteq> DT_APPLE_INTERNAL)"

section \<open>Sending events\<close>

abbreviation (input) ConsumerKeyCode_VK_BEGIN :: ConsumerKeyCode where "ConsumerKeyCode_VK_BEGIN \<equiv> 0x10000000"

text \<open>A call of an original action, if there is one with a target.\<close>

definition call_original :: "Slot \<Rightarrow> Params \<Rightarrow> HookedItem \<Rightarrow> 'a DeviceState_scheme \<Rightarrow> 'a DeviceState_scheme" where
  "call_original slot p item s =
     (case hi_orig item slot of
        (Some callback, Some target) \<Rightarrow> s\<lparr>dv_log := dv_log s @ [(hi_device item, slot, callback, target, p)]\<rparr>
      | _ \<Rightarrow> s)"

definition Keyboard_Item_apply ::
  "KeyboardParams \<Rightarrow> HookedItem \<Rightarrow> 'a DeviceState_scheme \<Rightarrow> 'a DeviceState_scheme"
where
  "Keyboard_Item_apply params item s =
     (if kp_key params \<ge> VK_BEGIN then s
      else if kp_eventType params = EventType_MODIFY \<and> \<not> KeyCode_isModifier (cs_pairs s) (kp_key params) then s
      else case hi_orig item S_keyboard of
        (Some _, Some _) \<Rightarrow>
          let needUpdateEventFlagsEvent = Flags_isOn (kp_flags params) ModifierFlag_NUMPAD;
              s = (if needUpdateEventFlagsEvent \<and> kp_eventType params = EventType_DOWN
                   then call_original S_flags (P_UpdateEventFlags (kp_flags params)) item s else s);
              s = call_original S_keyboard (P_Keyboard params) item s;
              s = (if needUpdateEventFlagsEvent \<and> kp_eventType params = EventType_UP
                   then call_original S_flags
                          (P_UpdateEventFlags (Flags_stripNUMPAD (cs_pairs s) (kp_flags params))) item s
                   else s)
          in s\<lparr>dv_capslock_timer := snd (setTimeoutMS 5 False (dv_capslock_timer s))\<rparr>
      | _ \<Rightarrow> s)"

definition with_replaced ::
  "ListKind \<Rightarrow> (HookedItem \<Rightarrow> 'a DeviceState_scheme \<Rightarrow> 'a DeviceState_scheme) \<Rightarrow> 'a DeviceState_scheme \<Rightarrow>
   bool \<times> 'a DeviceState_scheme"
where
  "with_replaced k f s =
     (case DeviceList_get_replaced k s of (Some item, s) \<Rightarrow> (True, f item s) | (None, s) \<Rightarrow> (False, s))"

definition ListHookedKeyboard_apply :: "KeyboardParams \<Rightarrow> 'a DeviceState_scheme \<Rightarrow> 'a DeviceState_scheme" where
  "ListHookedKeyboard_apply params s = snd (with_replaced LK_keyboard (Keyboard_Item_apply params) s)"

definition ListHookedKeyboard_apply_flags :: "Flags \<Rightarrow> 'a DeviceState_scheme \<Rightarrow> 'a DeviceState_scheme" where
  "ListHookedKeyboard_apply_flags flags s =
     snd (with_replaced LK_keyboard (call_original S_flags (P_UpdateEventFlags flags)) s)"

definition ListHookedConsumer_apply :: "SpecialParams \<Rightarrow> 'a DeviceState_scheme \<Rightarrow> bool \<times> 'a DeviceState_scheme" where
  "ListHookedConsumer_apply params s =
     with_replaced LK_consumer
       (\<lambda>item s. if sp_key params \<ge> ConsumerKeyCode_VK_BEGIN then s else call_original S_special (P_Special params) item s) s"

text \<open>The release of all buttons without movement goes to every hooked device.\<close>

definition ListHookedPointing_apply :: "PointerParams \<Rightarrow> 'a DeviceState_scheme \<Rightarrow> 'a DeviceState_scheme" where
  "ListHookedPointing_apply params s =
     (if pp_buttons params = 0 \<and> pp_dx params = 0 \<and> pp_dy params = 0
      then fold (\<lambda>item s. if isReplaced LK_pointing item then call_original S_pointer (P_RelativePointer params) item s else s)
             (dl_list (dv_lists s LK_pointing)) s
      else snd (with_replaced LK_pointing (call_original S_pointer (P_RelativePointer params)) s))"

definition ListHookedPointing_apply_scroll :: "ScrollParams \<Rightarrow> 'a DeviceState_scheme \<Rightarrow> 'a DeviceState_scheme" where
  "ListHookedPointing_apply_scroll params s =
     snd (with_replaced LK_pointing (call_original S_scroll (P_ScrollWheel params)) s)"

definition setcapslock_timer_callback :: "'a DeviceState_scheme \<Rightarrow> 'a DeviceState_scheme" where
  "setcapslock_timer_callback s =
     (if on general_passthrough_capslock_led_status s then s
      else
        let caps = Flags_isOn (FlagStatus_makeFlags (fs_item s)) ModifierFlag_CAPSLOCK
        in fold (\<lambda>item s.
             if isReplaced LK_keyboard item \<and> (hi_type item = DT_APPLE_INTERNAL \<or> hi_type item = DT_APPLE_EXTERNAL) \<and>
                io_keyboard (dv_devices s (hi_device item))
             then s\<lparr>dv_alphaLock := (dv_alphaLock s)(hi_device item := caps)\<rparr> else s)
             (dl_list (dv_lists s LK_keyboard)) s)"

section \<open>Unhooking gives the device back\<close>

text \<open>
  Every slot of the item holds its first action, or ours while the item keeps the first one;
  the target never changes.
\<close>

definition hook_inv :: "(Slot \<Rightarrow> Action) \<Rightarrow> ListKind \<Rightarrow> HookedItem \<Rightarrow> 'a DeviceState_scheme \<Rightarrow> bool" where
  "hook_inv first k item s =
     (\<forall>slot \<in> set (slots_of k).
        snd (dv_slots s (hi_device item) slot) = snd (first slot) \<and> fst (first slot) \<noteq> Some CB_push \<and>
        (fst (dv_slots s (hi_device item) slot) = fst (first slot) \<or>
         fst (dv_slots s (hi_device item) slot) = Some CB_push \<and> hi_orig item slot = first slot))"

lemma set_slot_slots [simp]:
  "dv_slots (set_slot dev slot cb s) dev' slot' =
    (if dev' = dev \<and> slot' = slot then (cb, snd (dv_slots s dev slot)) else dv_slots s dev' slot')"
  "dv_devices (set_slot dev slot cb s) = dv_devices s" "cs_config (set_slot dev slot cb s) = cs_config s"
  "dv_initialized (set_slot dev slot cb s) = dv_initialized s"
  by (simp_all add: set_slot_def)

lemma replace_slot_inv:
  assumes "hook_inv first k item s" and "slot \<in> set (slots_of k)" and "replace_slot slot item s = (r, item', s')"
  shows "hook_inv first k item' s'" and "hi_device item' = hi_device item"
proof -
  obtain cb tg where sl: "dv_slots s (hi_device item) slot = (cb, tg)" by (cases "dv_slots s (hi_device item) slot")
  have own: "tg = snd (first slot)" "cb = fst (first slot) \<or> cb = Some CB_push \<and> hi_orig item slot = first slot"
    using assms(1,2) sl by (auto simp: hook_inv_def)
  show "hi_device item' = hi_device item"
    using assms(3) sl by (auto simp: replace_slot_def split: option.splits if_splits)
  show "hook_inv first k item' s'"
  proof (cases "cb = None \<or> cb = Some CB_push")
    case True
    then have "s' = s" "hi_orig item' = hi_orig item"
      using assms(3) sl by (auto simp: replace_slot_def)
    then show ?thesis
      using assms(1) \<open>hi_device item' = hi_device item\<close> by (simp add: hook_inv_def)
  next
    case False
    then have "first slot = (cb, tg)" using own by (cases "first slot") auto
    moreover have "s' = set_slot (hi_device item) slot (Some CB_push) s"
      "hi_orig item' = (hi_orig item)(slot := (cb, tg))"
      using assms(3) sl False by (auto simp: replace_slot_def split: option.splits)
    ultimately show ?thesis
      using assms(1) \<open>hi_device item' = hi_device item\<close> by (auto simp: hook_inv_def)
  qed
qed

lemma replace_slots_inv:
  assumes "hook_inv first k item s" and "set slots \<subseteq> set (slots_of k)" and "replace_slots slots item s = (r, item', s')"
  shows "hook_inv first k item' s'" and "hi_device item' = hi_device item"
proof -
  have "hook_inv first k item' s' \<and> hi_device item' = hi_device item"
    using assms
  proof (induction slots arbitrary: item s r)
    case (Cons slot slots)
    obtain r1 item1 s1 where 1: "replace_slot slot item s = (r1, item1, s1)" by (cases "replace_slot slot item s")
    obtain r2 where 2: "replace_slots slots item1 s1 = (r2, item', s')"
      using Cons.prems(3) 1 by (auto simp: Let_def split: prod.splits)
    note i1 = replace_slot_inv [OF Cons.prems(1) _ 1]
    have "slot \<in> set (slots_of k)" "set slots \<subseteq> set (slots_of k)" using Cons.prems(2) by auto
    with Cons.IH [OF i1(1) _ 2] i1(2) show ?case by simp
  qed auto
  then show "hook_inv first k item' s'" and "hi_device item' = hi_device item" by simp_all
qed

lemma restore_slots_result:
  assumes "distinct slots"
  shows "dv_slots (fold (restore_slot item) slots s) (hi_device item) slot =
    (if slot \<in> set slots \<and> fst (dv_slots s (hi_device item) slot) = Some CB_push
     then (fst (hi_orig item slot), snd (dv_slots s (hi_device item) slot)) else dv_slots s (hi_device item) slot)"
  using assms by (induction slots arbitrary: s) (auto simp: restore_slot_def)

lemma slots_of_distinct: "distinct (slots_of k)"
  by (cases k) simp_all

lemma restore_first:
  assumes "hook_inv first k item s" and "cast_ok k (dv_devices s (hi_device item))"
    and "restoreEventAction k item s = (r, item', s')" and "slot \<in> set (slots_of k)"
  shows "dv_slots s' (hi_device item) slot = first slot" and "hi_device item' = hi_device item"
proof -
  have s': "s' = fold (restore_slot item) (slots_of k) s" and "item' = item\<lparr>hi_orig := no_actions\<rparr>"
    using assms(2,3) by (simp_all add: restoreEventAction_def)
  then show "hi_device item' = hi_device item" by simp
  show "dv_slots s' (hi_device item) slot = first slot"
    using assms(1,4) by (auto simp: s' restore_slots_result [OF slots_of_distinct] hook_inv_def prod_eq_iff)
qed

text \<open>Refreshing an item, with any change of the configuration or of other devices in between.\<close>

inductive hook_steps ::
  "ListKind \<Rightarrow> HookedItem \<Rightarrow> 'a DeviceState_scheme \<Rightarrow> HookedItem \<Rightarrow> 'a DeviceState_scheme \<Rightarrow> bool" for k
where
  hook_none: "hook_steps k item s item s"
| hook_refresh: "hook_steps k item s item' s' \<Longrightarrow> Item_refresh k item' s' = (r, item'', s'') \<Longrightarrow>
    hook_steps k item s item'' s''"
| hook_other: "hook_steps k item s item' s' \<Longrightarrow> dv_slots s'' (hi_device item) = dv_slots s' (hi_device item) \<Longrightarrow>
    dv_devices s'' = dv_devices s' \<Longrightarrow> hook_steps k item s item' s''"

lemma frame_devices:
  "replace_slots slots item s = (r, item', s') \<Longrightarrow> dv_devices s' = dv_devices s"
  "dv_devices (fold (restore_slot item) slots s) = dv_devices s"
proof -
  show "replace_slots slots item s = (r, item', s') \<Longrightarrow> dv_devices s' = dv_devices s"
  proof (induction slots arbitrary: item s r)
    case (Cons slot slots)
    obtain r1 item1 s1 where 1: "replace_slot slot item s = (r1, item1, s1)" by (cases "replace_slot slot item s")
    then have "dv_devices s1 = dv_devices s"
      by (auto simp: replace_slot_def split: prod.splits option.splits if_splits)
    moreover obtain r2 where "replace_slots slots item1 s1 = (r2, item', s')"
      using Cons.prems 1 by (auto simp: Let_def split: prod.splits)
    ultimately show ?case using Cons.IH by metis
  qed auto
  show "dv_devices (fold (restore_slot item) slots s) = dv_devices s"
    by (induction slots arbitrary: s) (auto simp: restore_slot_def)
qed

lemma Item_refresh_inv:
  assumes "hook_inv first k item s" and "Item_refresh k item s = (r, item', s')"
  shows "hook_inv first k item' s' \<and> hi_device item' = hi_device item \<and> dv_devices s' = dv_devices s"
proof (cases "cast_ok k (dv_devices s (hi_device item))")
  case True
  show ?thesis
  proof (cases "hook_wanted k item s")
    case True
    then have "replace_slots (slots_of k) item s = (r, item', s')"
      using assms(2) \<open>cast_ok _ _\<close> by (simp add: Item_refresh_def replaceEventAction_def)
    with replace_slots_inv [OF assms(1) subset_refl] frame_devices(1) show ?thesis by blast
  next
    case False
    then have r: "restoreEventAction k item s = (r, item', s')" using assms(2) by (simp add: Item_refresh_def)
    then have "dv_devices s' = dv_devices s" "hi_device item' = hi_device item"
      using \<open>cast_ok _ _\<close> by (auto simp: restoreEventAction_def frame_devices(2))
    with restore_first [OF assms(1) \<open>cast_ok _ _\<close> r] assms(1) show ?thesis by (simp add: hook_inv_def)
  qed
next
  case False
  with assms show ?thesis by (simp add: Item_refresh_def replaceEventAction_def restoreEventAction_def split: if_splits)
qed

lemma hook_steps_inv:
  assumes "hook_steps k item s item' s'" and "hook_inv first k item s"
  shows "hook_inv first k item' s' \<and> hi_device item' = hi_device item \<and> dv_devices s' = dv_devices s"
  using assms
proof (induction rule: hook_steps.induct)
  case (hook_refresh item s item' s' r item'' s'')
  then show ?case using Item_refresh_inv [of first k item' s' r item'' s''] by simp
next
  case (hook_other item s item' s' s'')
  then have "hook_inv first k item' s'" "hi_device item' = hi_device item" "dv_devices s' = dv_devices s" by auto
  with hook_other.hyps show ?case by (simp add: hook_inv_def)
qed simp

text \<open>
  C16: However often a device was hooked and unhooked as the configuration changed, restoring it
  gives every event action and target the value it had when the item was created.
\<close>

theorem unhook_restores:
  assumes "hook_steps k (HookedItem_new i dev d) s item' s'" and "cast_ok k (dv_devices s dev)"
    and "\<forall>slot \<in> set (slots_of k). fst (dv_slots s dev slot) \<noteq> Some CB_push"
  shows "\<forall>slot \<in> set (slots_of k). dv_slots (snd (snd (restoreEventAction k item' s'))) dev slot = dv_slots s dev slot"
proof -
  let ?item = "HookedItem_new i dev d"
  have dev: "hi_device ?item = dev" by (simp add: HookedItem_new_def)
  have "hook_inv (dv_slots s dev) k ?item s" using assms(3) by (simp add: hook_inv_def dev)
  from hook_steps_inv [OF assms(1) this] dev have inv: "hook_inv (dv_slots s dev) k item' s'" "hi_device item' = dev"
    "dv_devices s' = dv_devices s" by simp_all
  obtain r item'' s'' where "restoreEventAction k item' s' = (r, item'', s'')" by (cases "restoreEventAction k item' s'")
  with restore_first(1) [OF inv(1), of r item'' s''] inv assms(2) show ?thesis by simp
qed

text \<open>The state after start-up, with one external keyboard.\<close>

definition keyboard_device :: IOHIDevice where
  "keyboard_device =
     \<lparr>io_entry = \<lparr>re_vendor = Some 1, re_product = Some 2, re_location = None, re_name = Some ''IOHIDKeyboard'',
        re_manufacturer = None, re_productname = None\<rparr>,
      io_parents = [], io_keyboard = True, io_pointing = False\<rparr>"

definition device_static :: DeviceState where
  "device_static = PressState.PressState.extend press_static
     \<lparr>dv_devices = (\<lambda>_. keyboard_device), dv_slots = (\<lambda>_ _. (Some (CB_other 7), Some 9)), dv_alphaLock = (\<lambda>_. False),
      dv_lists = (\<lambda>_. \<lparr>dl_last = None, dl_list = []\<rparr>), dv_nextid = 0, dv_initialized = True,
      dv_refresh_timer = timer_static, dv_capslock_timer = timer_static, dv_log = [], dv_ts = 0\<rparr>"

lemma device_static_simps [simp]:
  "dv_devices device_static = (\<lambda>_. keyboard_device)" "dv_slots device_static = (\<lambda>_ _. (Some (CB_other 7), Some 9))"
  "dv_initialized device_static" "dv_lists device_static = (\<lambda>_. \<lparr>dl_last = None, dl_list = []\<rparr>)"
  "kr_timer device_static = timer_static"
  by (simp_all add: device_static_def PressState.PressState.extend_def press_static_def RepeatState.extend_def)

theorem unhook_restores_witness:
  "\<exists>r item s. Item_refresh LK_keyboard (HookedItem_new 0 5 keyboard_device) device_static = (r, item, s) \<and>
     dv_slots (snd (snd (restoreEventAction LK_keyboard item s))) 5 S_keyboard = (Some (CB_other 7), Some 9)"
proof -
  obtain r item s where
    r: "Item_refresh LK_keyboard (HookedItem_new 0 5 keyboard_device) device_static = (r, item, s)"
    by (cases "Item_refresh LK_keyboard (HookedItem_new 0 5 keyboard_device) device_static")
  have "\<forall>slot \<in> set (slots_of LK_keyboard).
      dv_slots (snd (snd (restoreEventAction LK_keyboard item s))) 5 slot = dv_slots device_static 5 slot"
    by (rule unhook_restores [OF hook_refresh [OF hook_none r]]) (simp_all add: cast_ok_def keyboard_device_def)
  with r show ?thesis by simp
qed

section \<open>Devices whose actions come late\<close>



end
