(* ===== verification/InputQueue.thy ===== *)
theory InputQueue
  imports Devices "HOL-Library.Sublist" "HOL-Library.Multiset"
begin

text \<open>
  \<^verbatim>\<open>EventInputQueue\<close>: the events of the hooked devices wait here, long enough to recognise bouncing
  keys and keys pressed together, and are then remapped and sent (\<^verbatim>\<open>Core.cpp\<close>). While a key that
  blocks until its release is held, the events go to a second queue (\<open>BlockUntilKeyUpHandler\<close>). The
  serial number of the queue is the field \<open>oq_serialNumber\<close>, which the output queue reads. The
  functions of the remap classes are the components of a record \<open>Remapper\<close>, an argument of the
  operations that call them. The callbacks run under the global lock, and the clock stands still
  during a callback.
\<close>

section \<open>State\<close>

text \<open>\<open>ii_device\<close> is the weak pointer to the item of the device, \<open>ii_from_blocked\<close> whether \<open>enqueuedFrom\<close> is the blocked queue.\<close>

record InItem =
  ii_params :: Params
  ii_retain :: bool
  ii_identifier :: DeviceIdentifier
  ii_device :: nat
  ii_ic :: microtime
  ii_simultaneous :: bool
  ii_from_blocked :: bool

record PressingEvent =
  pe_params :: Params
  pe_ignore :: bool

record InState = DeviceState +
  in_queue :: "InItem list"
  in_timer :: TimerWrapper
  in_blocked :: "InItem list"
  in_pressing :: "PressingEvent list"
  in_blocking_timer :: TimerWrapper

record RemapParams =
  rp_params :: Params
  rp_physicalEventType :: PhysicalEventType
  rp_isremapped :: bool

text \<open>
  What the input queue and \<open>Core\<close> call of \<open>RemapClassManager\<close>, \<open>PointingRelativeToScroll::cancelScroll\<close>
  and the resets of \<open>RemapClass::ActiveItems\<close> and \<open>SimultaneousKeyPresses\<close>.
\<close>

record 's Remapper =
  rm_isSimultaneousKeyPressesEnabled :: "'s \<Rightarrow> bool"
  rm_simultaneouskeypresses :: "bool \<Rightarrow> 's \<Rightarrow> bool \<times> 's"
  rm_isTargetEventForBlockUntilKeyUp :: "Params \<Rightarrow> 's \<Rightarrow> bool"
  rm_setkeyboardtype :: "KeyboardType \<Rightarrow> 's \<Rightarrow> KeyboardType"
  rm_forcenumlockon :: "nat \<Rightarrow> 's \<Rightarrow> 's"
  rm_prepare :: "RemapParams \<Rightarrow> 's \<Rightarrow> (RemapParams \<times> 's) option"
  rm_remap :: "RemapParams \<Rightarrow> 's \<Rightarrow> (RemapParams \<times> 's) option"
  rm_cancelScroll :: "'s \<Rightarrow> 's"
  rm_clear :: "'s \<Rightarrow> 's"

section \<open>Configuration\<close>

definition get_ignore_bouncing_threshold_for_keyboard :: "'a InState_scheme \<Rightarrow> u32" where
  "get_ignore_bouncing_threshold_for_keyboard s =
     Config_getvalue (cs_config s parameter_ignore_bouncing_threshold_for_keyboard) 0 1000"

definition get_ignore_bouncing_threshold_for_mice :: "'a InState_scheme \<Rightarrow> u32" where
  "get_ignore_bouncing_threshold_for_mice s =
     Config_getvalue (cs_config s parameter_ignore_bouncing_threshold_for_mice) 0 1000"

definition get_simultaneouskeypresses_delay :: "'a InState_scheme \<Rightarrow> u32" where
  "get_simultaneouskeypresses_delay s = Config_getvalue (cs_config s parameter_simultaneouskeypresses_delay) 5 1000"

definition get_simultaneouskeypresses_pointingbutton_delay :: "'a InState_scheme \<Rightarrow> u32" where
  "get_simultaneouskeypresses_pointingbutton_delay s =
     Config_getvalue (cs_config s parameter_simultaneouskeypresses_pointingbutton_delay) 5 1000"

section \<open>Enqueueing\<close>

definition enqueue ::
  "Params \<Rightarrow> bool \<Rightarrow> DeviceIdentifier \<Rightarrow> nat \<Rightarrow> bool \<Rightarrow> bool \<Rightarrow> 'a InState_scheme \<Rightarrow> 'a InState_scheme"
where
  "enqueue paramsBase retain di device push_back isSimultaneousKeyPressesTarget s =
     (if isRepeat paramsBase then s
      else
        let item = \<lparr>ii_params = paramsBase, ii_retain = retain, ii_identifier = di, ii_device = device,
                    ii_ic = cs_clock s, ii_simultaneous = isSimultaneousKeyPressesTarget, ii_from_blocked = False\<rparr>
        in s\<lparr>in_queue := (if push_back then in_queue s @ [item] else item # in_queue s)\<rparr>)"

definition maxThreshold :: "u32 \<Rightarrow> u32 \<Rightarrow> u32" where
  "maxThreshold v1 v2 = (if v1 > v2 then v1 else v2)"

definition is_key :: "Params \<Rightarrow> bool" where
  "is_key p = (case p of P_Keyboard _ \<Rightarrow> True | P_Special _ \<Rightarrow> True | _ \<Rightarrow> False)"

definition is_pointingbutton :: "Params \<Rightarrow> bool" where
  "is_pointingbutton p = (case p of P_RelativePointer k \<Rightarrow> pp_ex_button k \<noteq> PointingButton_NONE | _ \<Rightarrow> False)"

definition timer_threshold :: "('a InState_scheme) Remapper \<Rightarrow> Params \<Rightarrow> 'a InState_scheme \<Rightarrow> u32" where
  "timer_threshold rm p s =
     (let threshold = 0;
          threshold =
            (if rm_isSimultaneousKeyPressesEnabled rm s
             then
               let threshold = (if is_key p then maxThreshold threshold (get_simultaneouskeypresses_delay s) else threshold)
               in (if is_pointingbutton p
                   then maxThreshold threshold (get_simultaneouskeypresses_pointingbutton_delay s) else threshold)
             else threshold)
      in if on general_ignore_bouncing_events s
         then
           let threshold = (if is_key p then maxThreshold threshold (get_ignore_bouncing_threshold_for_keyboard s) else threshold)
           in (if is_pointingbutton p
               then maxThreshold threshold (get_ignore_bouncing_threshold_for_mice s) else threshold)
         else threshold)"

definition setTimer :: "('a InState_scheme) Remapper \<Rightarrow> 'a InState_scheme \<Rightarrow> 'a InState_scheme" where
  "setTimer rm s =
     (case in_queue s of
        [] \<Rightarrow> s
      | front # _ \<Rightarrow>
          let timeoutMS =
                (if rm_isSimultaneousKeyPressesEnabled rm s \<or> on general_ignore_bouncing_events s
                 then
                   let threshold = timer_threshold rm (ii_params front) s;
                       ms = getmillisec (cs_clock s) (ii_ic front);
                       timeoutMS = (if ms < threshold then threshold - ms else 0)
                   in if timeoutMS > 0 then timeoutMS - 1 else timeoutMS
                 else 0)
          in s\<lparr>in_timer := snd (setTimeoutMS timeoutMS False (in_timer s))\<rparr>)"

definition EventInputQueue_initialize :: "'a InState_scheme \<Rightarrow> 'a InState_scheme" where
  "EventInputQueue_initialize s =
     s\<lparr>in_timer := TimerWrapper_initialize True True (in_timer s), oq_serialNumber := 1,
       in_blocking_timer := TimerWrapper_initialize True True (in_blocking_timer s)\<rparr>"

definition EventInputQueue_terminate :: "'a InState_scheme \<Rightarrow> 'a InState_scheme" where
  "EventInputQueue_terminate s =
     s\<lparr>in_timer := TimerWrapper_terminate (in_timer s), in_queue := [],
       in_blocking_timer := TimerWrapper_terminate (in_blocking_timer s), in_blocked := [], in_pressing := []\<rparr>"

section \<open>The callbacks of the devices\<close>

text \<open>
  \<open>sender\<close> is the device, or \<open>None\<close> where the dynamic cast fails. \<open>disable_internal\<close> says whether the
  event is dropped because it comes from an internal keyboard while an external one is connected.
\<close>

definition disable_internal :: "HookedItem \<Rightarrow> 'a InState_scheme \<Rightarrow> bool \<times> 'a InState_scheme" where
  "disable_internal item s =
     (if on general_disable_internal_keyboard_if_external_keyboard_exsits s \<and> isExternalDevicesConnected s
      then (isInternalDevice item, clearInternalKeyboardPressingPhysicalKeysCountAll s)
      else (False, s))"

definition push_KeyboardEventCallback ::
  "('a InState_scheme) Remapper \<Rightarrow> u32 \<Rightarrow> u32 \<Rightarrow> u32 \<Rightarrow> u32 \<Rightarrow> u32 \<Rightarrow> u32 \<Rightarrow> u32 \<Rightarrow> u32 \<Rightarrow> bool \<Rightarrow> u64 \<Rightarrow> nat option \<Rightarrow>
   'a InState_scheme \<Rightarrow> 'a InState_scheme"
where
  "push_KeyboardEventCallback rm eventType flags key charCode charSet origCharCode origCharSet keyboardType repeat ts
     sender s =
     (if eventType = EventType_MODIFY \<and> KeyCode_getModifierFlag (cs_pairs s) key = ModifierFlag_ZERO then s
      else
        let newkeyboardtype = rm_setkeyboardtype rm keyboardType s;
            (newkey, newflags, hs) = normalizeKey (cs_pairs s) (vk_fnkeyhack s) key flags eventType;
            s = s\<lparr>vk_fnkeyhack := hs\<rparr>;
            params = KeyboardParams_full (cs_pairs s) eventType newflags newkey charCode charSet origCharCode origCharSet
                       newkeyboardtype False
        in case sender of
          None \<Rightarrow> s
        | Some device \<Rightarrow>
            (case DeviceList_get LK_keyboard (Some device) s of
               (None, s) \<Rightarrow> s
             | (Some item, s) \<Rightarrow>
                 let (drop, s) = disable_internal item s in
                 if drop then s
                 else if DeviceIdentifier_isEqualVendorProduct (hi_identifier item) DeviceVendor_LOGITECH
                           DeviceProduct_LOGITECH_CORDLESS_PRESENTER \<and>
                         (kp_key params = KeyCode_CONTROL_L \<or> kp_key params = KeyCode_SHIFT_L)
                 then s
                 else
                   let s = rm_forcenumlockon rm (hi_id item) s;
                       s = s\<lparr>dv_ts := ts\<rparr>
                   in if repeat \<and> eventType = 10 then s
                      else setTimer rm (enqueue (P_Keyboard params) False (hi_identifier item) (hi_id item) True True s)))"

definition push_UpdateEventFlagsCallback :: "u32 \<Rightarrow> nat option \<Rightarrow> 'a InState_scheme \<Rightarrow> 'a InState_scheme" where
  "push_UpdateEventFlagsCallback flags sender s =
     (case sender of None \<Rightarrow> s | Some device \<Rightarrow> snd (DeviceList_get LK_keyboard (Some device) s))"

definition push_KeyboardSpecialEventCallback ::
  "('a InState_scheme) Remapper \<Rightarrow> u32 \<Rightarrow> u32 \<Rightarrow> u32 \<Rightarrow> u32 \<Rightarrow> u64 \<Rightarrow> bool \<Rightarrow> u64 \<Rightarrow> nat option \<Rightarrow>
   'a InState_scheme \<Rightarrow> 'a InState_scheme"
where
  "push_KeyboardSpecialEventCallback rm eventType flags key flavor guid repeat ts sender s =
     (let params = SpecialParams_full eventType flags key flavor guid False in
      case sender of
        None \<Rightarrow> s
      | Some device \<Rightarrow>
          (case DeviceList_get LK_consumer (Some device) s of
             (None, s) \<Rightarrow> s
           | (Some item, s) \<Rightarrow>
               let (drop, s) = disable_internal item s in
               if drop then s
               else
                 let s = s\<lparr>dv_ts := ts\<rparr> in
                 if repeat \<and> eventType = 10 then s
                 else setTimer rm (enqueue (P_Special params) False (hi_identifier item) (hi_id item) True True s)))"

text \<open>The loop over the buttons of one event: a press and a release each become an event of their own.\<close>

definition enqueue_button ::
  "Buttons \<Rightarrow> Buttons \<Rightarrow> Buttons \<Rightarrow> HookedItem \<Rightarrow> nat \<Rightarrow> 'a InState_scheme \<Rightarrow> 'a InState_scheme"
where
  "enqueue_button buttons justPressed justReleased item i s =
     (let btn = push_bit i 1;
          retain = on general_lazy_modifiers_with_mouse_event s;
          s = (if Buttons_isOn justPressed btn
               then enqueue (P_RelativePointer (PointerParams_new buttons 0 0 btn True)) retain (hi_identifier item)
                      (hi_id item) True True s
               else s)
      in if Buttons_isOn justReleased btn
         then enqueue (P_RelativePointer (PointerParams_new buttons 0 0 btn False)) retain (hi_identifier item)
                (hi_id item) True True s
         else s)"

definition push_RelativePointerEventCallback ::
  "('a InState_scheme) Remapper \<Rightarrow> u32 \<Rightarrow> int \<Rightarrow> int \<Rightarrow> u64 \<Rightarrow> nat option \<Rightarrow> 'a InState_scheme \<Rightarrow> 'a InState_scheme"
where
  "push_RelativePointerEventCallback rm buttons dx dy ts sender s =
     (case sender of
        None \<Rightarrow> s
      | Some device \<Rightarrow>
          (case DeviceList_get LK_pointing (Some device) s of
             (None, s) \<Rightarrow> s
           | (Some item, s) \<Rightarrow>
               let s = s\<lparr>dv_ts := ts\<rparr>;
                   justPressed = Buttons_justPressed buttons (hi_previousbuttons item);
                   justReleased = Buttons_justReleased buttons (hi_previousbuttons item);
                   s = update_item (hi_id item) (\<lambda>it. it\<lparr>hi_previousbuttons := buttons\<rparr>) s;
                   s = fold (enqueue_button buttons justPressed justReleased item) [0..<MAXNUM] s;
                   s = (if dx \<noteq> 0 \<or> dy \<noteq> 0
                        then enqueue (P_RelativePointer (PointerParams_new buttons dx dy PointingButton_NONE False)) True
                               (hi_identifier item) (hi_id item) True True s
                        else s)
               in setTimer rm s))"

definition push_ScrollWheelEventCallback ::
  "('a InState_scheme) Remapper \<Rightarrow> ScrollParams \<Rightarrow> u64 \<Rightarrow> nat option \<Rightarrow> 'a InState_scheme \<Rightarrow> 'a InState_scheme"
where
  "push_ScrollWheelEventCallback rm params ts sender s =
     (case sender of
        None \<Rightarrow> s
      | Some device \<Rightarrow>
          (case DeviceList_get LK_pointing (Some device) s of
             (None, s) \<Rightarrow> s
           | (Some item, s) \<Rightarrow>
               let s = s\<lparr>dv_ts := ts\<rparr>;
                   s = enqueue (P_ScrollWheel params) (on general_lazy_modifiers_with_mouse_event s) (hi_identifier item)
                         (hi_id item) True True s
               in setTimer rm s))"

section \<open>Bouncing keys\<close>

definition bouncing_threshold :: "FromEvent \<Rightarrow> 'a InState_scheme \<Rightarrow> u32" where
  "bouncing_threshold e s =
     (case e of
        FE_KEY _ \<Rightarrow> get_ignore_bouncing_threshold_for_keyboard s
      | FE_CONSUMER_KEY _ \<Rightarrow> get_ignore_bouncing_threshold_for_keyboard s
      | FE_POINTING_BUTTON _ \<Rightarrow> get_ignore_bouncing_threshold_for_mice s
      | FE_NONE \<Rightarrow> 0)"

definition bounces :: "InItem \<Rightarrow> InItem \<Rightarrow> 'a InState_scheme \<Rightarrow> bool" where
  "bounces keyUpEvent keyDownEvent s =
     (getmillisec (cs_clock s) (ii_ic keyUpEvent) - getmillisec (cs_clock s) (ii_ic keyDownEvent)
      < bouncing_threshold (FromEvent_of_params (ii_params keyUpEvent)) s)"

text \<open>
  The inner loop, over the items behind a release: the items without the press that bounces, or
  \<open>None\<close> when there is none. The outer loop: the queue after the first pair is deleted.
\<close>

fun bounce_scan :: "InItem \<Rightarrow> 'a InState_scheme \<Rightarrow> InItem list \<Rightarrow> InItem list option" where
  "bounce_scan p s [] = None"
| "bounce_scan p s (q # qs) =
     (let fromEvent = FromEvent_of_params (ii_params p) in
      if isTargetUpEvent fromEvent (ii_params q) then None
      else if isTargetDownEvent fromEvent (ii_params q) \<and> bounces p q s then Some qs
      else map_option (Cons q) (bounce_scan p s qs))"

fun bounce_pass :: "'a InState_scheme \<Rightarrow> InItem list \<Rightarrow> InItem list option" where
  "bounce_pass s [] = None"
| "bounce_pass s (p # ps) =
     (if iskeydown (ii_params p) = Some False
      then (case bounce_scan p s ps of
              Some ps' \<Rightarrow> Some ps'
            | None \<Rightarrow> map_option (Cons p) (bounce_pass s ps))
      else map_option (Cons p) (bounce_pass s ps))"

lemma bounce_scan_length: "bounce_scan p s qs = Some qs' \<Longrightarrow> length qs = Suc (length qs')"
  by (induction qs arbitrary: qs') (auto simp: Let_def split: if_splits)

lemma bounce_pass_length: "bounce_pass s ps = Some ps' \<Longrightarrow> length ps = Suc (Suc (length ps'))"
  by (induction ps arbitrary: ps') (auto dest: bounce_scan_length split: if_splits option.splits)

text \<open>The jump back to \<open>retry\<close>.\<close>

function remove_bouncing :: "'a InState_scheme \<Rightarrow> InItem list \<Rightarrow> InItem list" where
  "remove_bouncing s ps = (case bounce_pass s ps of None \<Rightarrow> ps | Some ps' \<Rightarrow> remove_bouncing s ps')"
  by auto
termination
  by (relation "measure (\<lambda>(s, ps). length ps)") (auto dest: bounce_pass_length)

declare remove_bouncing.simps [simp del]

section \<open>BlockUntilKeyUpHandler\<close>

definition isTargetDownEventInBlockedQueue :: "InItem \<Rightarrow> 'a InState_scheme \<Rightarrow> bool" where
  "isTargetDownEventInBlockedQueue front s =
     (\<exists>p \<in> set (in_blocked s). isTargetDownEvent (FromEvent_of_params (ii_params front)) (ii_params p))"

text \<open>A release in the blocked queue whose press is neither it nor one of the \<open>earlier\<close> items.\<close>

fun orphan_key_up :: "InItem list \<Rightarrow> InItem list \<Rightarrow> bool" where
  "orphan_key_up earlier [] = False"
| "orphan_key_up earlier (p # ps) =
     (iskeydown (ii_params p) = Some False \<and>
        \<not> (\<exists>q \<in> set (p # earlier). isTargetDownEvent (FromEvent_of_params (ii_params p)) (ii_params q)) \<or>
      orphan_key_up (p # earlier) ps)"

definition isOrphanKeyUpEventExistsInBlockedQueue :: "'a InState_scheme \<Rightarrow> bool" where
  "isOrphanKeyUpEventExistsInBlockedQueue s = orphan_key_up [] (in_blocked s)"

definition endBlocking :: "'a InState_scheme \<Rightarrow> 'a InState_scheme" where
  "endBlocking s =
     s\<lparr>in_queue := foldl (\<lambda>q p. p\<lparr>ii_from_blocked := True\<rparr> # q) (in_queue s) (rev (in_blocked s)),
       in_blocked := [], in_blocking_timer := cancelTimeout (in_blocking_timer s)\<rparr>"

definition setIgnoreToAllPressingEvents :: "'a InState_scheme \<Rightarrow> 'a InState_scheme" where
  "setIgnoreToAllPressingEvents s = s\<lparr>in_pressing := map (\<lambda>p. p\<lparr>pe_ignore := True\<rparr>) (in_pressing s)\<rparr>"

definition blockingTimeOut_timer_callback ::
  "('a InState_scheme) Remapper \<Rightarrow> 'a InState_scheme \<Rightarrow> 'a InState_scheme"
where
  "blockingTimeOut_timer_callback rm s = setTimer rm (setIgnoreToAllPressingEvents (endBlocking s))"

text \<open>The search from the back for the press of a release, here on the reversed list.\<close>

fun insert_behind_down :: "InItem \<Rightarrow> InItem list \<Rightarrow> InItem list option" where
  "insert_behind_down front [] = None"
| "insert_behind_down front (p # ps) =
     (if isTargetDownEvent (FromEvent_of_params (ii_params front)) (ii_params p) then Some (front # p # ps)
      else map_option (Cons p) (insert_behind_down front ps))"

definition move_up_behind_down :: "InItem \<Rightarrow> InItem list \<Rightarrow> InItem list" where
  "move_up_behind_down front blocked =
     (case insert_behind_down front (rev blocked) of Some r \<Rightarrow> rev r | None \<Rightarrow> front # blocked)"

definition update_pressing :: "Params \<Rightarrow> bool \<Rightarrow> PressingEvent list \<Rightarrow> PressingEvent list" where
  "update_pressing params down l =
     filter (\<lambda>p. \<not> (isTargetDownEvent (FromEvent_of_params (pe_params p)) params \<or>
                    isTargetUpEvent (FromEvent_of_params (pe_params p)) params)) l @
     (if down then [\<lparr>pe_params = params, pe_ignore = False\<rparr>] else [])"

definition needToBlock :: "('a InState_scheme) Remapper \<Rightarrow> Params \<Rightarrow> 'a InState_scheme \<Rightarrow> bool" where
  "needToBlock rm params s =
     ((\<exists>p \<in> set (in_pressing s). \<not> pe_ignore p \<and> rm_isTargetEventForBlockUntilKeyUp rm (pe_params p) s) \<or>
      rm_isTargetEventForBlockUntilKeyUp rm params s)"

definition doBlockUntilKeyUp ::
  "('a InState_scheme) Remapper \<Rightarrow> 'a InState_scheme \<Rightarrow> bool \<times> 'a InState_scheme"
where
  "doBlockUntilKeyUp rm s =
     (case in_queue s of
        [] \<Rightarrow> (True, s)
      | front # rest \<Rightarrow>
          if ii_from_blocked front then (True, s)
          else case iskeydown (ii_params front) of
              None \<Rightarrow> (True, s)
            | Some down \<Rightarrow>
                let s = s\<lparr>in_pressing := update_pressing (ii_params front) down (in_pressing s)\<rparr> in
                if \<not> needToBlock rm (ii_params front) s then (True, endBlocking s)
                else
                  let s = s\<lparr>in_blocking_timer :=
                            snd (setTimeoutMS (word_of_int (cs_config s parameter_blockuntilkeyup_timeout)) True
                                   (in_blocking_timer s))\<rparr>
                  in if \<not> down \<and> rm_isTargetEventForBlockUntilKeyUp rm (ii_params front) s
                     then (True, endBlocking (s\<lparr>in_blocked := move_up_behind_down front (in_blocked s), in_queue := rest\<rparr>))
                     else if \<not> down \<and> \<not> isOrphanKeyUpEventExistsInBlockedQueue s \<and> isTargetDownEventInBlockedQueue front s
                     then (True, endBlocking ((setIgnoreToAllPressingEvents s)
                                   \<lparr>in_blocked := in_blocked s @ [front], in_queue := rest\<rparr>))
                     else (False, s\<lparr>in_blocked := in_blocked s @ [front], in_queue := rest\<rparr>))"

section \<open>Removing bouncing keys\<close>

text \<open>How far the presses of a key outnumber its releases in a queue.\<close>

fun balance :: "FromEvent \<Rightarrow> InItem list \<Rightarrow> int" where
  "balance e [] = 0"
| "balance e (p # ps) =
     (if isTargetDownEvent e (ii_params p) then 1 else 0) - (if isTargetUpEvent e (ii_params p) then 1 else 0) + balance e ps"

lemma balance_append [simp]: "balance e (ps @ qs) = balance e ps + balance e qs"
  by (induction ps) simp_all

lemma target_events:
  assumes "iskeydown p = Some d"
  shows "isTargetDownEvent e p = (d \<and> e = FromEvent_of_params p)"
    and "isTargetUpEvent e p = (\<not> d \<and> e = FromEvent_of_params p)"
  using isTargetEventDown_iff [OF assms, of e] by (auto simp: isTargetDownEvent_def isTargetUpEvent_def)

lemma down_event_is_keydown:
  assumes "isTargetDownEvent (FromEvent_of_params p) q" and "iskeydown p = Some b"
  shows "iskeydown q = Some True" and "FromEvent_of_params q = FromEvent_of_params p"
  using assms by (cases p; cases q; auto simp: isTargetDownEvent_def split: if_splits option.splits)+

lemma bounce_scan_split:
  assumes "bounce_scan p s qs = Some qs'"
  obtains xs q ys where "qs = xs @ q # ys" and "qs' = xs @ ys"
    and "isTargetDownEvent (FromEvent_of_params (ii_params p)) (ii_params q)" and "bounces p q s"
    and "\<forall>x \<in> set xs. \<not> isTargetUpEvent (FromEvent_of_params (ii_params p)) (ii_params x)"
  using assms
proof (induction qs arbitrary: qs' thesis)
  case (Cons x qs)
  let ?e = "FromEvent_of_params (ii_params p)"
  have up: "\<not> isTargetUpEvent ?e (ii_params x)" using Cons.prems(2) by (auto simp: Let_def split: if_splits)
  show ?case
  proof (cases "isTargetDownEvent ?e (ii_params x) \<and> bounces p x s")
    case True
    then show ?thesis using Cons.prems up by (intro Cons.prems(1) [of "[]" x qs]) (auto simp: Let_def split: if_splits)
  next
    case False
    then obtain zs where "bounce_scan p s qs = Some zs" "qs' = x # zs"
      using Cons.prems(2) up by (auto simp: Let_def split: if_splits)
    with Cons.IH [of zs] obtain xs q ys where "qs = xs @ q # ys" "zs = xs @ ys"
      "isTargetDownEvent ?e (ii_params q)" "bounces p q s" "\<forall>y \<in> set xs. \<not> isTargetUpEvent ?e (ii_params y)"
      by blast
    then show ?thesis using up \<open>qs' = x # zs\<close> by (intro Cons.prems(1) [of "x # xs" q ys]) auto
  qed
qed simp

text \<open>One round deletes a release and a press of the same key that follows it too soon.\<close>

lemma bounce_pass_split:
  assumes "bounce_pass s ps = Some ps'"
  obtains xs p ys q zs where "ps = xs @ p # ys @ q # zs" and "ps' = xs @ ys @ zs"
    and "iskeydown (ii_params p) = Some False" and "iskeydown (ii_params q) = Some True"
    and "FromEvent_of_params (ii_params q) = FromEvent_of_params (ii_params p)" and "bounces p q s"
  using assms
proof (induction ps arbitrary: ps' thesis)
  case (Cons p ps)
  show ?case
  proof (cases "iskeydown (ii_params p) = Some False \<and> bounce_scan p s ps \<noteq> None")
    case True
    then have "bounce_scan p s ps = Some ps'" using Cons.prems(2) by auto
    from bounce_scan_split [OF this] obtain xs q ys where q: "ps = xs @ q # ys" "ps' = xs @ ys"
      "isTargetDownEvent (FromEvent_of_params (ii_params p)) (ii_params q)" "bounces p q s" by blast
    moreover note down_event_is_keydown [OF q(3), of False]
    ultimately show ?thesis using True Cons.prems(1) [of "[]" p xs q ys] by auto
  next
    case False
    then obtain zs where zs: "bounce_pass s ps = Some zs" "ps' = p # zs"
      using Cons.prems(2) by (auto split: if_splits option.splits)
    from Cons.IH [OF _ zs(1)] obtain xs r ys q us where "ps = xs @ r # ys @ q # us" "zs = xs @ ys @ us"
      "iskeydown (ii_params r) = Some False" "iskeydown (ii_params q) = Some True"
      "FromEvent_of_params (ii_params q) = FromEvent_of_params (ii_params r)" "bounces r q s" by blast
    then show ?thesis using zs(2) Cons.prems(1) [of "p # xs" r ys q us] by simp
  qed
qed simp

lemma bounce_pass_balance:
  assumes "bounce_pass s ps = Some ps'"
  shows "balance e ps' = balance e ps" and "subseq ps' ps"
proof -
  obtain xs p ys q zs where s: "ps = xs @ p # ys @ q # zs" "ps' = xs @ ys @ zs"
    "iskeydown (ii_params p) = Some False" "iskeydown (ii_params q) = Some True"
    "FromEvent_of_params (ii_params q) = FromEvent_of_params (ii_params p)"
    using bounce_pass_split [OF assms] by metis
  show "balance e ps' = balance e ps"
    using s(5) by (simp add: s(1,2) target_events [OF s(3)] target_events [OF s(4)])
  show "subseq ps' ps" unfolding s(1,2)
    by (intro list_emb_append_mono subseq_order.refl)
       (auto intro!: list_emb.intros(2) list_emb_append_mono subseq_order.refl)
qed

lemma remove_bouncing_subseq: "subseq (remove_bouncing s ps) ps"
proof (induction s ps rule: remove_bouncing.induct)
  case (1 s ps)
  show ?case
  proof (cases "bounce_pass s ps")
    case (Some ps')
    with 1 [OF Some] bounce_pass_balance(2) [OF Some] show ?thesis
      by (auto simp: remove_bouncing.simps [of s ps] intro: subseq_order.trans)
  qed (simp add: remove_bouncing.simps [of s ps])
qed

text \<open>
  C9: Removing bouncing events ends, keeps the remaining events in order, takes away as many
  releases as presses of every key, and leaves no release that is followed too soon by a press of
  the same key with no release of it between them.
\<close>

theorem bouncing_removed:
  "subseq (remove_bouncing s ps) ps \<and> balance e (remove_bouncing s ps) = balance e ps \<and>
   bounce_pass s (remove_bouncing s ps) = None"
proof (intro conjI remove_bouncing_subseq)
  show "balance e (remove_bouncing s ps) = balance e ps"
  proof (induction s ps rule: remove_bouncing.induct)
    case (1 s ps)
    then show ?case
      by (cases "bounce_pass s ps") (simp_all add: remove_bouncing.simps [of s ps] bounce_pass_balance(1))
  qed
  show "bounce_pass s (remove_bouncing s ps) = None"
  proof (induction s ps rule: remove_bouncing.induct)
    case (1 s ps)
    then show ?case by (cases "bounce_pass s ps") (simp_all add: remove_bouncing.simps [of s ps])
  qed
qed

end
