(* ===== verification/DeviceHooks.thy ===== *)
theory DeviceHooks
  imports Devices
begin

text \<open>
  All hooked devices together. \<open>first\<close> gives the actions the devices have of their own; the invariant says
  that an action is the device's own unless the device is in the list for it, and then the item knows
  the own action. So a refresh hooks exactly the devices that the configuration wants, and the
  devices are as before when none is wanted.
\<close>

section \<open>The invariant\<close>

definition holds_action :: "Action \<Rightarrow> bool \<Rightarrow> Action \<Rightarrow> Action \<Rightarrow> bool" where
  "holds_action own castable orig now =
     (now = own \<and> orig = (None, None) \<or>
      castable \<and> fst own \<noteq> None \<and> orig = own \<and> now = (Some CB_push, snd own))"

definition item_inv :: "(nat \<Rightarrow> Slot \<Rightarrow> Action) \<Rightarrow> ListKind \<Rightarrow> HookedItem \<Rightarrow> 'a DeviceState_scheme \<Rightarrow> bool" where
  "item_inv first k item s =
     (\<forall>slot \<in> set (slots_of k).
        holds_action (first (hi_device item) slot) (cast_ok k (dv_devices s (hi_device item)))
          (hi_orig item slot) (dv_slots s (hi_device item) slot))"

definition own_actions :: "(nat \<Rightarrow> Slot \<Rightarrow> Action) \<Rightarrow> bool" where
  "own_actions first = (\<forall>dev slot. fst (first dev slot) \<noteq> Some CB_push)"

definition listed :: "ListKind \<Rightarrow> 'a DeviceState_scheme \<Rightarrow> nat set" where
  "listed k s = hi_device ` set (dl_list (dv_lists s k))"

definition hooks_inv :: "(nat \<Rightarrow> Slot \<Rightarrow> Action) \<Rightarrow> 'a DeviceState_scheme \<Rightarrow> bool" where
  "hooks_inv first s =
     (\<forall>k. distinct (map hi_device (dl_list (dv_lists s k))) \<and>
        (\<forall>item \<in> set (dl_list (dv_lists s k)). item_inv first k item s) \<and>
        (\<forall>dev slot. dev \<notin> listed k s \<longrightarrow> slot \<in> set (slots_of k) \<longrightarrow> dv_slots s dev slot = first dev slot))"

text \<open>The action that a device has after a refresh.\<close>

definition wanted_action :: "(nat \<Rightarrow> Slot \<Rightarrow> Action) \<Rightarrow> ListKind \<Rightarrow> HookedItem \<Rightarrow> 'a DeviceState_scheme \<Rightarrow> Slot \<Rightarrow> Action" where
  "wanted_action first k item s slot =
     (let own = first (hi_device item) slot in
      if hook_wanted k item s \<and> cast_ok k (dv_devices s (hi_device item)) \<and> fst own \<noteq> None
      then (Some CB_push, snd own) else own)"

section \<open>Refreshing an item\<close>

lemma wanted_frame:
  assumes "hi_device item' = hi_device item" and "hi_identifier item' = hi_identifier item" and "hi_type item' = hi_type item"
    and "dv_devices t = dv_devices s" and "dv_initialized t = dv_initialized s" and "cs_config t = cs_config s"
  shows "hook_wanted k item' t = hook_wanted k item s"
  using assms
  by (cases k) (auto simp: keyboard_wanted_def consumer_wanted_def pointing_wanted_def keyboard_excluded_def
      pseudo_device_def on_def split: option.splits)

text \<open>What the item and the state have in common before and after.\<close>

definition same_item :: "HookedItem \<Rightarrow> HookedItem \<Rightarrow> bool" where
  "same_item item item' =
     (hi_device item' = hi_device item \<and> hi_identifier item' = hi_identifier item \<and> hi_type item' = hi_type item \<and>
      hi_id item' = hi_id item \<and> hi_pressing item' = hi_pressing item)"

definition slots_only :: "nat \<Rightarrow> Slot set \<Rightarrow> 'a DeviceState_scheme \<Rightarrow> 'a DeviceState_scheme \<Rightarrow> bool" where
  "slots_only dev slots s t =
     (t = s\<lparr>dv_slots := dv_slots t\<rparr> \<and>
      (\<forall>dev' slot. dev' \<noteq> dev \<or> slot \<notin> slots \<longrightarrow> dv_slots t dev' slot = dv_slots s dev' slot))"

lemma slots_only_fields:
  assumes "slots_only dev slots s t"
  shows "dv_devices t = dv_devices s" and "dv_lists t = dv_lists s" and "dv_initialized t = dv_initialized s"
    and "cs_config t = cs_config s" and "dv_nextid t = dv_nextid s"
proof -
  obtain f where "t = s\<lparr>dv_slots := f\<rparr>" using assms by (metis slots_only_def)
  then show "dv_devices t = dv_devices s" "dv_lists t = dv_lists s" "dv_initialized t = dv_initialized s"
    "cs_config t = cs_config s" "dv_nextid t = dv_nextid s" by simp_all
qed

lemma slots_only_other:
  "slots_only dev slots s t \<Longrightarrow> dev' \<noteq> dev \<or> slot \<notin> slots \<Longrightarrow> dv_slots t dev' slot = dv_slots s dev' slot"
  unfolding slots_only_def by blast

lemma slots_only_refl [simp]: "slots_only dev slots s s"
  by (simp add: slots_only_def)

lemma slots_only_set: "slot \<in> slots \<Longrightarrow> slots_only dev slots s (set_slot dev slot cb s)"
  by (simp add: slots_only_def set_slot_def)

lemma slots_only_trans: "slots_only dev slots s t \<Longrightarrow> slots_only dev slots t u \<Longrightarrow> slots_only dev slots s u"
  unfolding slots_only_def by (metis (no_types, lifting) DeviceState.surjective DeviceState.update_convs(2))

text \<open>One slot: replacing and restoring it.\<close>

lemma replace_slot_action:
  assumes "replace_slot slot item s = (r, item', s')" and "fst (own slot) \<noteq> Some CB_push"
    and "holds_action (own slot) True (hi_orig item slot) (dv_slots s (hi_device item) slot)"
  shows "same_item item item'" and "slots_only (hi_device item) {slot} s s'"
    and "hi_orig item' = (hi_orig item)(slot := if fst (own slot) = None then (None, None) else own slot)"
    and "dv_slots s' (hi_device item) slot = (if fst (own slot) = None then own slot else (Some CB_push, snd (own slot)))"
proof -
  obtain cb tg where sl: "dv_slots s (hi_device item) slot = (cb, tg)" by (cases "dv_slots s (hi_device item) slot")
  obtain oc ot where ow: "own slot = (oc, ot)" by (cases "own slot")
  have o: "slots_only (hi_device item) {slot} s (set_slot (hi_device item) slot x s)" for x
    by (rule slots_only_set) simp
  show "same_item item item'" "slots_only (hi_device item) {slot} s s'"
    "hi_orig item' = (hi_orig item)(slot := if fst (own slot) = None then (None, None) else own slot)"
    "dv_slots s' (hi_device item) slot = (if fst (own slot) = None then own slot else (Some CB_push, snd (own slot)))"
    using assms sl ow o
    by (auto simp: replace_slot_def same_item_def holds_action_def fun_upd_idem split: option.splits if_splits)
qed

lemma slots_only_mono: "slots_only dev A s t \<Longrightarrow> A \<subseteq> B \<Longrightarrow> slots_only dev B s t"
  by (auto simp: slots_only_def)

lemma replace_slots_action:
  assumes "replace_slots slots item s = (r, item', s')" and "distinct slots" and "\<And>slot. fst (own slot) \<noteq> Some CB_push"
    and "\<And>slot. slot \<in> set slots \<Longrightarrow> holds_action (own slot) True (hi_orig item slot) (dv_slots s (hi_device item) slot)"
  shows "same_item item item' \<and> slots_only (hi_device item) (set slots) s s' \<and>
    (\<forall>slot. hi_orig item' slot =
       (if slot \<in> set slots then if fst (own slot) = None then (None, None) else own slot else hi_orig item slot)) \<and>
    (\<forall>slot \<in> set slots. dv_slots s' (hi_device item) slot =
       (if fst (own slot) = None then own slot else (Some CB_push, snd (own slot))))"
  using assms
proof (induction slots arbitrary: item s r)
  case (Cons slot slots)
  obtain r1 item1 s1 where 1: "replace_slot slot item s = (r1, item1, s1)" by (cases "replace_slot slot item s")
  obtain r2 where 2: "replace_slots slots item1 s1 = (r2, item', s')"
    using Cons.prems(1) 1 by (auto simp: Let_def split: prod.splits)
  note a = replace_slot_action [OF 1, of own, OF Cons.prems(3) Cons.prems(4) [OF list.set_intros(1)]]
  have d: "hi_device item1 = hi_device item" using a(1) by (simp add: same_item_def)
  have "holds_action (own slot') True (hi_orig item1 slot') (dv_slots s1 (hi_device item1) slot')"
    if "slot' \<in> set slots" for slot'
  proof -
    have "slot' \<noteq> slot" using that Cons.prems(2) by auto
    then show ?thesis using Cons.prems(4) [of slot'] that a(2,3) d by (simp add: slots_only_def)
  qed
  with Cons.IH [OF 2 _ Cons.prems(3)] Cons.prems(2)
  have IH: "same_item item1 item'" "slots_only (hi_device item) (set slots) s1 s'"
    "\<And>slot. hi_orig item' slot =
       (if slot \<in> set slots then if fst (own slot) = None then (None, None) else own slot else hi_orig item1 slot)"
    "\<And>slot. slot \<in> set slots \<Longrightarrow> dv_slots s' (hi_device item) slot =
       (if fst (own slot) = None then own slot else (Some CB_push, snd (own slot)))"
    by (auto simp: d)
  have "slots_only (hi_device item) (set (slot # slots)) s s'"
    using slots_only_trans [OF slots_only_mono [OF a(2)] slots_only_mono [OF IH(2)]] by auto
  moreover have "dv_slots s' (hi_device item) slot = dv_slots s1 (hi_device item) slot"
    using IH(2) Cons.prems(2) by (simp add: slots_only_def)
  ultimately show ?case
    using a IH(1,3,4) Cons.prems(2) by (auto simp: same_item_def)
qed (simp add: same_item_def)

lemma restore_slots_only: "slots_only (hi_device item) (set slots) s (fold (restore_slot item) slots s)"
proof -
  have "slots_only (hi_device item) (set slots) s (fold (restore_slot item) xs t)"
    if "set xs \<subseteq> set slots" "slots_only (hi_device item) (set slots) s t" for xs t
    using that
  proof (induction xs arbitrary: t)
    case (Cons x xs)
    have "slots_only (hi_device item) (set slots) t (restore_slot item x t)"
      using Cons.prems(1) by (simp add: restore_slot_def slots_only_set)
    with Cons show ?case using slots_only_trans by fastforce
  qed simp
  then show ?thesis by simp
qed

lemma restore_action:
  assumes "own_actions first" and "item_inv first k item s" and "restoreEventAction k item s = (r, item', s')"
  shows "same_item item item'" and "slots_only (hi_device item) (set (slots_of k)) s s'" and "item_inv first k item' s'"
    and "\<forall>slot \<in> set (slots_of k). dv_slots s' (hi_device item) slot = first (hi_device item) slot"
proof -
  let ?d = "hi_device item"
  have "same_item item item' \<and> slots_only ?d (set (slots_of k)) s s' \<and>
    (\<forall>slot \<in> set (slots_of k). hi_orig item' slot = (None, None) \<and> dv_slots s' ?d slot = first ?d slot)"
  proof (cases "cast_ok k (dv_devices s ?d)")
    case True
    then have s': "s' = fold (restore_slot item) (slots_of k) s" "item' = item\<lparr>hi_orig := no_actions\<rparr>"
      using assms(3) by (simp_all add: restoreEventAction_def)
    have "dv_slots s' ?d slot = first ?d slot" if "slot \<in> set (slots_of k)" for slot
      using assms(1,2) that
      by (auto simp: s'(1) restore_slots_result [OF slots_of_distinct] item_inv_def holds_action_def own_actions_def prod_eq_iff)
    then show ?thesis
      using restore_slots_only [of item "slots_of k" s] by (simp add: s' same_item_def no_actions_def)
  next
    case False
    then show ?thesis using assms(2,3) by (auto simp: restoreEventAction_def item_inv_def holds_action_def same_item_def)
  qed
  then show "same_item item item'" "slots_only ?d (set (slots_of k)) s s'" "item_inv first k item' s'"
    "\<forall>slot \<in> set (slots_of k). dv_slots s' ?d slot = first ?d slot"
    by (auto simp: item_inv_def holds_action_def same_item_def)
qed

lemma Item_refresh_action:
  assumes "own_actions first" and "item_inv first k item s" and "Item_refresh k item s = (r, item', s')"
  shows "same_item item item'" and "slots_only (hi_device item) (set (slots_of k)) s s'" and "item_inv first k item' s'"
    and "\<forall>slot \<in> set (slots_of k). dv_slots s' (hi_device item) slot = wanted_action first k item s slot"
proof -
  let ?d = "hi_device item"
  have "same_item item item' \<and> slots_only ?d (set (slots_of k)) s s' \<and> item_inv first k item' s' \<and>
    (\<forall>slot \<in> set (slots_of k). dv_slots s' ?d slot = wanted_action first k item s slot)"
  proof (cases "hook_wanted k item s")
    case False
    then show ?thesis
      using restore_action [OF assms(1,2), of r item' s'] assms(3) by (simp add: Item_refresh_def wanted_action_def Let_def)
  next
    case wanted: True
    show ?thesis
    proof (cases "cast_ok k (dv_devices s ?d)")
      case True
      then have r: "replace_slots (slots_of k) item s = (r, item', s')"
        using assms(3) wanted by (simp add: Item_refresh_def replaceEventAction_def)
      have "fst (first ?d slot) \<noteq> Some CB_push" for slot using assms(1) by (simp add: own_actions_def)
      moreover have "holds_action (first ?d slot) True (hi_orig item slot) (dv_slots s ?d slot)" if "slot \<in> set (slots_of k)" for slot
        using assms(2) that True by (simp add: item_inv_def)
      ultimately have a: "same_item item item'" "slots_only ?d (set (slots_of k)) s s'"
        "\<And>slot. slot \<in> set (slots_of k) \<Longrightarrow> hi_orig item' slot = (if fst (first ?d slot) = None then (None, None) else first ?d slot)"
        "\<And>slot. slot \<in> set (slots_of k) \<Longrightarrow>
          dv_slots s' ?d slot = (if fst (first ?d slot) = None then first ?d slot else (Some CB_push, snd (first ?d slot)))"
        using replace_slots_action [OF r slots_of_distinct, of "first ?d"] by auto
      have "item_inv first k item' s'"
        using a(1,3,4) True slots_only_fields(1) [OF a(2)] by (auto simp: item_inv_def holds_action_def same_item_def)
      then show ?thesis using a wanted True by (auto simp: wanted_action_def Let_def)
    next
      case False
      then have "item' = item" "s' = s"
        using assms(3) wanted by (simp_all add: Item_refresh_def replaceEventAction_def)
      then show ?thesis
        using assms(2) False by (auto simp: same_item_def wanted_action_def Let_def item_inv_def holds_action_def)
    qed
  qed
  then show "same_item item item'" "slots_only ?d (set (slots_of k)) s s'" "item_inv first k item' s'"
    "\<forall>slot \<in> set (slots_of k). dv_slots s' ?d slot = wanted_action first k item s slot" by blast+
qed

section \<open>Refreshing a list\<close>

lemma item_inv_frame:
  assumes "item_inv first k item s" and "dv_devices t = dv_devices s"
    and "\<And>slot. slot \<in> set (slots_of k) \<Longrightarrow> dv_slots t (hi_device item) slot = dv_slots s (hi_device item) slot"
  shows "item_inv first k item t"
  using assms by (simp add: item_inv_def)

lemma refresh_items_action:
  assumes "own_actions first" and "\<forall>item \<in> set items. item_inv first k item s" and "distinct (map hi_device items)"
    and "refresh_items k items s = (items', t)"
  shows "t = s\<lparr>dv_slots := dv_slots t\<rparr> \<and> list_all2 same_item items items' \<and>
    (\<forall>item \<in> set items'. item_inv first k item t) \<and>
    (\<forall>item \<in> set items. \<forall>slot \<in> set (slots_of k). dv_slots t (hi_device item) slot = wanted_action first k item s slot) \<and>
    (\<forall>dev slot. dev \<notin> hi_device ` set items \<or> slot \<notin> set (slots_of k) \<longrightarrow> dv_slots t dev slot = dv_slots s dev slot)"
  using assms(2-4)
proof (induction items arbitrary: s items')
  case (Cons item items)
  obtain r item1 s1 where 1: "Item_refresh k item s = (r, item1, s1)" by (cases "Item_refresh k item s")
  obtain items1 where 2: "refresh_items k items s1 = (items1, t)" and items': "items' = item1 # items1"
    using Cons.prems(3) 1 by (auto simp: Let_def split: prod.splits)
  have inv: "item_inv first k item s" using Cons.prems(1) by simp
  note a = Item_refresh_action [OF assms(1) inv 1]
  note f = slots_only_fields [OF a(2)]
  have other: "dv_slots s1 (hi_device i) slot = dv_slots s (hi_device i) slot" if "i \<in> set items" for i slot
    by (rule slots_only_other [OF a(2)]) (use that Cons.prems(2) in \<open>auto simp: image_iff\<close>)
  then have "\<forall>i \<in> set items. item_inv first k i s1"
    using Cons.prems(1) item_inv_frame [OF _ f(1)] by (metis list.set_intros(2))
  from Cons.IH [OF this _ 2] Cons.prems(2) have IH:
    "t = s1\<lparr>dv_slots := dv_slots t\<rparr>" "list_all2 same_item items items1" "\<forall>i \<in> set items1. item_inv first k i t"
    "\<forall>i \<in> set items. \<forall>slot \<in> set (slots_of k). dv_slots t (hi_device i) slot = wanted_action first k i s1 slot"
    "\<forall>dev slot. dev \<notin> hi_device ` set items \<or> slot \<notin> set (slots_of k) \<longrightarrow> dv_slots t dev slot = dv_slots s1 dev slot"
    by auto
  have dev: "dv_devices t = dv_devices s1"
    using arg_cong [OF IH(1), of dv_devices] by simp
  have first_item: "dv_slots t (hi_device item) slot = dv_slots s1 (hi_device item) slot" for slot
    using IH(5) Cons.prems(2) by simp
  have d: "hi_device item1 = hi_device item" using a(1) by (simp add: same_item_def)
  have "item_inv first k item1 t"
    by (rule item_inv_frame [OF a(3) dev]) (simp add: d first_item)
  moreover have "wanted_action first k i s1 slot = wanted_action first k i s slot" for i slot
    using wanted_frame [of i i s1 s k] f by (simp add: wanted_action_def)
  moreover have "t = s\<lparr>dv_slots := dv_slots t\<rparr>"
    using IH(1) a(2) unfolding slots_only_def by (metis (no_types, lifting) DeviceState.surjective DeviceState.update_convs(2))
  moreover have "\<forall>dev slot. dev \<notin> hi_device ` set (item # items) \<or> slot \<notin> set (slots_of k) \<longrightarrow>
      dv_slots t dev slot = dv_slots s dev slot"
    using IH(5) a(2) by (auto simp: slots_only_def)
  ultimately show ?case
    using IH(2-4) a(1,4) first_item by (auto simp: items')
qed simp

lemma slots_disjoint: "slot \<in> set (slots_of k) \<Longrightarrow> slot \<in> set (slots_of k') \<Longrightarrow> k' = k"
  by (cases k; cases k') auto

lemma same_devices: "list_all2 same_item items items' \<Longrightarrow> map hi_device items' = map hi_device items"
  by (induction rule: list_all2_induct) (simp_all add: same_item_def)

lemma refresh_action:
  assumes "own_actions first" and "hooks_inv first s"
  shows "hooks_inv first (DeviceList_refresh k s)"
    and "\<forall>item \<in> set (dl_list (dv_lists (DeviceList_refresh k s) k)). \<forall>slot \<in> set (slots_of k).
      dv_slots (DeviceList_refresh k s) (hi_device item) slot = wanted_action first k item s slot"
    and "\<forall>dev slot. dev \<notin> listed k s \<or> slot \<notin> set (slots_of k) \<longrightarrow>
      dv_slots (DeviceList_refresh k s) dev slot = dv_slots s dev slot"
    and "\<exists>x y. DeviceList_refresh k s = s\<lparr>dv_slots := x, dv_lists := y\<rparr>"
    and "listed k' (DeviceList_refresh k s) = listed k' s"
    and "k' \<noteq> k \<Longrightarrow> dv_lists (DeviceList_refresh k s) k' = dv_lists s k'"
proof -
  let ?items = "dl_list (dv_lists s k)"
  obtain items t where r: "refresh_items k ?items s = (items, t)" by fastforce
  have inv: "\<forall>item \<in> set ?items. item_inv first k item s" "distinct (map hi_device ?items)"
    using assms(2) by (simp_all add: hooks_inv_def)
  from refresh_items_action [OF assms(1) inv r] have a: "t = s\<lparr>dv_slots := dv_slots t\<rparr>" "list_all2 same_item ?items items"
    "\<forall>item \<in> set items. item_inv first k item t"
    "\<forall>item \<in> set ?items. \<forall>slot \<in> set (slots_of k). dv_slots t (hi_device item) slot = wanted_action first k item s slot"
    "\<forall>dev slot. dev \<notin> hi_device ` set ?items \<or> slot \<notin> set (slots_of k) \<longrightarrow> dv_slots t dev slot = dv_slots s dev slot"
    by blast+
  have u: "DeviceList_refresh k s = s\<lparr>dv_slots := dv_slots t, dv_lists := (dv_lists s)(k := (dv_lists s k)\<lparr>dl_list := items\<rparr>)\<rparr>"
  proof -
    obtain f where "t = s\<lparr>dv_slots := f\<rparr>" using a(1) by blast
    then show ?thesis by (simp add: DeviceList_refresh_def r set_list_def)
  qed
  have devs: "map hi_device items = map hi_device ?items" using same_devices [OF a(2)] .
  then have "hi_device ` set items = hi_device ` set ?items" by (metis list.set_map)
  then show l: "listed k' (DeviceList_refresh k s) = listed k' s" for k' by (simp add: u listed_def)
  have slots: "dv_slots (DeviceList_refresh k s) = dv_slots t" "dv_devices (DeviceList_refresh k s) = dv_devices s"
    by (simp_all add: u)
  show "k' \<noteq> k \<Longrightarrow> dv_lists (DeviceList_refresh k s) k' = dv_lists s k'" by (simp add: u)
  show "\<exists>x y. DeviceList_refresh k s = s\<lparr>dv_slots := x, dv_lists := y\<rparr>" using u by blast
  show "\<forall>dev slot. dev \<notin> listed k s \<or> slot \<notin> set (slots_of k) \<longrightarrow>
      dv_slots (DeviceList_refresh k s) dev slot = dv_slots s dev slot"
    using a(5) by (simp add: slots listed_def)
  show "\<forall>item \<in> set (dl_list (dv_lists (DeviceList_refresh k s) k)). \<forall>slot \<in> set (slots_of k).
      dv_slots (DeviceList_refresh k s) (hi_device item) slot = wanted_action first k item s slot"
  proof (intro ballI)
    fix item slot
    assume "item \<in> set (dl_list (dv_lists (DeviceList_refresh k s) k))" and slot: "slot \<in> set (slots_of k)"
    then have "item \<in> set items" by (simp add: u)
    then obtain old where old: "old \<in> set ?items" "same_item old item"
      using a(2) by (metis in_set_conv_nth list_all2_conv_all_nth)
    with a(4) slot have "dv_slots t (hi_device old) slot = wanted_action first k old s slot" by blast
    moreover have "wanted_action first k item s slot = wanted_action first k old s slot"
      using old(2) wanted_frame [of item old s s k] by (simp add: same_item_def wanted_action_def)
    ultimately show "dv_slots (DeviceList_refresh k s) (hi_device item) slot = wanted_action first k item s slot"
      using old(2) by (simp add: slots same_item_def)
  qed
  have "item_inv first k' item (DeviceList_refresh k s)" if "item \<in> set (dl_list (dv_lists (DeviceList_refresh k s) k'))" for k' item
  proof (cases "k' = k")
    case True
    with that have "item_inv first k item t" using a(3) by (simp add: u)
    then show ?thesis using True arg_cong [OF a(1), of dv_devices] by (simp add: item_inv_def slots)
  next
    case False
    with that assms(2) have "item_inv first k' item s" by (simp add: u hooks_inv_def)
    then show ?thesis
    proof (rule item_inv_frame)
      fix slot assume "slot \<in> set (slots_of k')"
      then have "slot \<notin> set (slots_of k)" using slots_disjoint [of slot k' k] False by blast
      then show "dv_slots (DeviceList_refresh k s) (hi_device item) slot = dv_slots s (hi_device item) slot"
        using a(5) by (simp add: slots)
    qed (simp add: slots)
  qed
  moreover have "dv_slots t dev slot = first dev slot" if "dev \<notin> listed k' s" "slot \<in> set (slots_of k')" for k' dev slot
  proof -
    have "dv_slots s dev slot = first dev slot" using assms(2) that by (simp add: hooks_inv_def)
    moreover have "dev \<notin> hi_device ` set ?items \<or> slot \<notin> set (slots_of k)"
      using that slots_disjoint [of slot k' k] by (auto simp: listed_def)
    ultimately show ?thesis using a(5) by simp
  qed
  moreover have "distinct (map hi_device (dl_list (dv_lists (DeviceList_refresh k s) k')))" for k'
    using assms(2) devs by (simp add: u hooks_inv_def)
  ultimately show "hooks_inv first (DeviceList_refresh k s)"
    unfolding hooks_inv_def l by (simp add: slots)
qed

section \<open>All calls about devices\<close>

text \<open>Of the state, they change the actions, the lists and the timer only.\<close>

definition strip :: "'a DeviceState_scheme \<Rightarrow> 'a DeviceState_scheme" where
  "strip s = s\<lparr>dv_slots := \<lambda>_ _. (None, None), dv_lists := \<lambda>_. \<lparr>dl_last = None, dl_list = []\<rparr>, dv_nextid := 0,
     dv_refresh_timer := timer_static\<rparr>"

definition devices_only :: "'a DeviceState_scheme \<Rightarrow> 'a DeviceState_scheme \<Rightarrow> bool" where
  "devices_only s t = (strip t = strip s)"

lemma devices_only_refl [simp]: "devices_only s s"
  by (simp add: devices_only_def)

lemma devices_only_trans: "devices_only s t \<Longrightarrow> devices_only t u \<Longrightarrow> devices_only s u"
  by (simp add: devices_only_def)

lemma devices_only_updates [simp]:
  "devices_only s (t\<lparr>dv_slots := x\<rparr>) = devices_only s t" "devices_only s (t\<lparr>dv_lists := y\<rparr>) = devices_only s t"
  "devices_only s (t\<lparr>dv_nextid := n\<rparr>) = devices_only s t" "devices_only s (t\<lparr>dv_refresh_timer := tm\<rparr>) = devices_only s t"
  by (simp_all add: devices_only_def strip_def)

lemma devices_only_fields:
  assumes "devices_only s t"
  shows "DeviceState.more t = DeviceState.more s" and "vj_newkeycode t = vj_newkeycode s"
    and "cs_config t = cs_config s" and "dv_initialized t = dv_initialized s" and "dv_devices t = dv_devices s"
proof -
  have e: "strip t = strip s" using assms by (simp add: devices_only_def)
  have f: "DeviceState.more (strip u) = DeviceState.more u" "vj_newkeycode (strip u) = vj_newkeycode u"
    "cs_config (strip u) = cs_config u" "dv_initialized (strip u) = dv_initialized u" "dv_devices (strip u) = dv_devices u"
    for u :: "'a DeviceState_scheme" by (simp_all add: strip_def)
  show "DeviceState.more t = DeviceState.more s" using f(1) [of t] f(1) [of s] e by simp
  show "vj_newkeycode t = vj_newkeycode s" using f(2) [of t] f(2) [of s] e by simp
  show "cs_config t = cs_config s" using f(3) [of t] f(3) [of s] e by simp
  show "dv_initialized t = dv_initialized s" using f(4) [of t] f(4) [of s] e by simp
  show "dv_devices t = dv_devices s" using f(5) [of t] f(5) [of s] e by simp
qed

lemma refresh_devices_only: "devices_only s (DeviceList_refresh k s)" "devices_only s (snd (snd (restoreEventAction k item s)))"
proof -
  have slot: "devices_only t (set_slot dev slot cb t)" for dev slot cb and t :: "'a DeviceState_scheme"
    by (simp add: set_slot_def)
  have replace: "devices_only t (snd (snd (replace_slots slots item t)))" for slots item and t :: "'a DeviceState_scheme"
  proof (induction slots arbitrary: item t)
    case (Cons x slots)
    obtain r item' u where u: "replace_slot x item t = (r, item', u)" by (cases "replace_slot x item t")
    have "devices_only t u"
      using u slot [of t] by (auto simp: replace_slot_def split: prod.splits option.splits if_splits)
    from devices_only_trans [OF this Cons [of u item']] show ?case by (simp add: u case_prod_unfold Let_def)
  qed simp
  have "devices_only t (fold (restore_slot item) slots t)" for slots item and t :: "'a DeviceState_scheme"
  proof (induction slots arbitrary: t)
    case (Cons x slots)
    have "devices_only t (restore_slot item x t)" by (simp add: restore_slot_def slot)
    from devices_only_trans [OF this Cons [of "restore_slot item x t"]] show ?case by simp
  qed simp
  then have restore: "devices_only t (snd (snd (restoreEventAction k item t)))" for k item and t :: "'a DeviceState_scheme"
    by (simp add: restoreEventAction_def)
  then have one: "devices_only t (snd (snd (Item_refresh k item t)))" for item and t :: "'a DeviceState_scheme"
    using replace by (simp add: Item_refresh_def replaceEventAction_def)
  have "devices_only t (snd (refresh_items k items t))" for items and t :: "'a DeviceState_scheme"
  proof (induction items arbitrary: t)
    case (Cons item items)
    from devices_only_trans [OF one [of t item] Cons [of "snd (snd (Item_refresh k item t))"]] show ?case
      by (simp add: case_prod_unfold Let_def)
  qed simp
  then show "devices_only s (DeviceList_refresh k s)"
    by (simp add: DeviceList_refresh_def case_prod_unfold Let_def set_list_def)
  show "devices_only s (snd (snd (restoreEventAction k item s)))" by (rule restore)
qed

lemma notifications_only:
  "devices_only s (snd (IOHIKeyboard_matched dev s))" "devices_only s (snd (IOHIKeyboard_terminated dev s))"
  "devices_only s (snd (IOHIPointing_matched dev s))" "devices_only s (snd (IOHIPointing_terminated dev s))"
  "devices_only s (refreshInProgressDevices_timer_callback s)" "devices_only s (refreshAll s)"
proof -
  note r = devices_only_trans [OF _ refresh_devices_only(1)]
  have start [simp]: "devices_only t (start_refreshInProgressDevices_timer u) = devices_only t u"
    for t u :: "'a DeviceState_scheme" by (simp add: start_refreshInProgressDevices_timer_def)
  have push: "devices_only t (DeviceList_push_back k dev u)" if "devices_only t u" for k and t u :: "'a DeviceState_scheme"
    using that by (simp add: DeviceList_push_back_def Let_def set_list_def r)
  note restore = devices_only_trans [OF _ refresh_devices_only(2)]
  show "devices_only s (snd (IOHIKeyboard_matched dev s))" "devices_only s (snd (IOHIPointing_matched dev s))"
    by (simp_all add: IOHIKeyboard_matched_def IOHIPointing_matched_def push)
  show "devices_only s (refreshAll s)" by (simp add: refreshAll_def r)
  show "devices_only s (refreshInProgressDevices_timer_callback s)"
    by (simp add: refreshInProgressDevices_timer_callback_def Let_def refresh_if_in_progress_def r)
  have erase: "devices_only t (DeviceList_erase k dev u)" if "devices_only t u" for k and t u :: "'a DeviceState_scheme"
    using that
    by (simp add: DeviceList_erase_def DeviceList_get_def set_list_def case_prod_unfold Let_def r restore split: option.split)
  show "devices_only s (snd (IOHIKeyboard_terminated dev s))" "devices_only s (snd (IOHIPointing_terminated dev s))"
    by (simp_all add: IOHIKeyboard_terminated_def IOHIPointing_terminated_def erase)
qed

text \<open>
  The notifications of IOKit, the timer of the devices in progress, and the refresh after the configuration or
  the state of the client in user space has changed.
\<close>

datatype DeviceCall =
    DC_Keyboard_matched nat
  | DC_Keyboard_terminated nat
  | DC_Pointing_matched nat
  | DC_Pointing_terminated nat
  | DC_refreshInProgress
  | DC_refreshAll
  | DC_settings bool "ConfigIndex \<Rightarrow> int"

fun device_call :: "DeviceCall \<Rightarrow> 'a DeviceState_scheme \<Rightarrow> 'a DeviceState_scheme" where
  "device_call (DC_Keyboard_matched dev) s = snd (IOHIKeyboard_matched dev s)"
| "device_call (DC_Keyboard_terminated dev) s = snd (IOHIKeyboard_terminated dev s)"
| "device_call (DC_Pointing_matched dev) s = snd (IOHIPointing_matched dev s)"
| "device_call (DC_Pointing_terminated dev) s = snd (IOHIPointing_terminated dev s)"
| "device_call DC_refreshInProgress s = refreshInProgressDevices_timer_callback s"
| "device_call DC_refreshAll s = refreshAll s"
| "device_call (DC_settings initialized config) s = s\<lparr>dv_initialized := initialized, cs_config := config\<rparr>"

text \<open>IOKit announces a device once; the device is in no list then.\<close>

fun call_allowed :: "DeviceCall \<Rightarrow> 'a DeviceState_scheme \<Rightarrow> bool" where
  "call_allowed (DC_Keyboard_matched dev) s = (dev \<notin> listed LK_keyboard s \<and> dev \<notin> listed LK_consumer s)"
| "call_allowed (DC_Pointing_matched dev) s = (dev \<notin> listed LK_pointing s)"
| "call_allowed _ s = True"

fun device_calls :: "DeviceCall list \<Rightarrow> 'a DeviceState_scheme \<Rightarrow> 'a DeviceState_scheme" where
  "device_calls [] s = s"
| "device_calls (c # cs) s = device_calls cs (device_call c s)"

fun calls_allowed :: "DeviceCall list \<Rightarrow> 'a DeviceState_scheme \<Rightarrow> bool" where
  "calls_allowed [] s = True"
| "calls_allowed (c # cs) s = (call_allowed c s \<and> calls_allowed cs (device_call c s))"

text \<open>What the other components leave alone, so the invariant stays.\<close>

definition item_hook :: "HookedItem \<Rightarrow> nat \<times> (Slot \<Rightarrow> Action)" where
  "item_hook item = (hi_device item, hi_orig item)"

definition hooks_kept :: "'a DeviceState_scheme \<Rightarrow> 'a DeviceState_scheme \<Rightarrow> bool" where
  "hooks_kept s t =
     (dv_slots t = dv_slots s \<and> dv_devices t = dv_devices s \<and> dv_initialized t = dv_initialized s \<and>
      (\<forall>k. map item_hook (dl_list (dv_lists t k)) = map item_hook (dl_list (dv_lists s k))))"

definition hook_ok :: "(nat \<Rightarrow> Slot \<Rightarrow> Action) \<Rightarrow> ListKind \<Rightarrow> 'a DeviceState_scheme \<Rightarrow> nat \<times> (Slot \<Rightarrow> Action) \<Rightarrow> bool" where
  "hook_ok first k s = (\<lambda>(dev, orig). \<forall>slot \<in> set (slots_of k).
     holds_action (first dev slot) (cast_ok k (dv_devices s dev)) (orig slot) (dv_slots s dev slot))"

lemma hooks_inv_iff:
  "hooks_inv first s =
     (\<forall>k. let hooks = map item_hook (dl_list (dv_lists s k)) in
        distinct (map fst hooks) \<and> (\<forall>h \<in> set hooks. hook_ok first k s h) \<and>
        (\<forall>dev slot. dev \<notin> set (map fst hooks) \<longrightarrow> slot \<in> set (slots_of k) \<longrightarrow> dv_slots s dev slot = first dev slot))"
proof -
  have "item_inv first k item s = hook_ok first k s (item_hook item)" for k item
    by (simp add: item_inv_def hook_ok_def item_hook_def)
  moreover have "fst (item_hook item) = hi_device item" for item
    by (simp add: item_hook_def)
  ultimately show ?thesis by (simp add: hooks_inv_def listed_def Let_def comp_def image_image)
qed

lemma hooks_kept_inv: "hooks_kept s t \<Longrightarrow> hooks_inv first s \<Longrightarrow> hooks_inv first t"
  by (simp add: hooks_inv_iff hooks_kept_def hook_ok_def)

lemma hooks_kept_refl [simp]: "hooks_kept s s"
  by (simp add: hooks_kept_def)

lemma hooks_kept_trans: "hooks_kept s t \<Longrightarrow> hooks_kept t u \<Longrightarrow> hooks_kept s u"
  by (simp add: hooks_kept_def)

lemma hooks_kept_updates [simp]:
  "hooks_kept s (t\<lparr>dv_refresh_timer := x\<rparr>) = hooks_kept s t" "hooks_kept s (t\<lparr>dv_nextid := n\<rparr>) = hooks_kept s t"
  "hooks_kept s (set_list k ((dv_lists t k)\<lparr>dl_last := d\<rparr>) t) = hooks_kept s t"
  by (auto simp: hooks_kept_def set_list_def)

lemma push_back_inv:
  assumes "own_actions first" and "hooks_inv first s" and "dev \<notin> listed k s"
  shows "hooks_inv first (DeviceList_push_back k dev s)" and "listed k' (DeviceList_push_back k dev s) =
    (if k' = k then insert dev (listed k s) else listed k' s)"
proof -
  let ?item = "HookedItem_new (dv_nextid s) dev (dv_devices s dev)"
  define t where
    "t = set_list k \<lparr>dl_last = Some dev, dl_list = dl_list (dv_lists s k) @ [?item]\<rparr> (s\<lparr>dv_nextid := dv_nextid s + 1\<rparr>)"
  have new: "hi_device ?item = dev" "hi_orig ?item = no_actions" by (simp_all add: HookedItem_new_def)
  have l: "listed k' t = (if k' = k then insert dev (listed k s) else listed k' s)" for k'
    by (auto simp: t_def listed_def set_list_def new)
  have f: "dv_slots t = dv_slots s" "dv_devices t = dv_devices s" by (simp_all add: t_def set_list_def)
  have lists: "dl_list (dv_lists t k') = (if k' = k then dl_list (dv_lists s k) @ [?item] else dl_list (dv_lists s k'))" for k'
    by (simp add: t_def set_list_def)
  have "item_inv first k ?item t"
    using assms(2,3) by (simp add: item_inv_def f new holds_action_def no_actions_def hooks_inv_def)
  moreover have "item_inv first k' item t" if "item \<in> set (dl_list (dv_lists s k'))" for k' item
    using assms(2) that item_inv_frame [of first k' item s t] by (simp add: hooks_inv_def f)
  ultimately have "hooks_inv first t"
    using assms(2,3) unfolding hooks_inv_def l lists by (auto simp: f new listed_def)
  note r = refresh_action [OF assms(1) this]
  have u: "DeviceList_push_back k dev s = start_refreshInProgressDevices_timer (DeviceList_refresh k t)"
    by (simp add: DeviceList_push_back_def Let_def t_def)
  show "hooks_inv first (DeviceList_push_back k dev s)"
    unfolding u by (rule hooks_kept_inv [OF _ r(1) [of k]]) (simp add: start_refreshInProgressDevices_timer_def)
  have "listed k' (DeviceList_push_back k dev s) = listed k' (DeviceList_refresh k t)"
    by (simp add: u start_refreshInProgressDevices_timer_def listed_def)
  then show "listed k' (DeviceList_push_back k dev s) = (if k' = k then insert dev (listed k s) else listed k' s)"
    using r(5) [of k' k] l [of k'] by simp
qed

lemma erase_inv:
  assumes "own_actions first" and "hooks_inv first s"
  shows "hooks_inv first (DeviceList_erase k dev s)"
proof -
  let ?s = "set_list k ((dv_lists s k)\<lparr>dl_last := Some dev\<rparr>) s"
  have s: "hooks_inv first ?s" by (rule hooks_kept_inv [OF _ assms(2)]) simp
  show ?thesis
  proof (cases "find (\<lambda>item. Some (hi_device item) = Some dev) (dl_list (dv_lists s k))")
    case None
    then show ?thesis using s by (simp add: DeviceList_erase_def DeviceList_get_def)
  next
    case (Some item)
    then have item: "item \<in> set (dl_list (dv_lists s k))" "hi_device item = dev"
      by (auto simp: find_Some_iff)
    define t where "t = set_list k ((dv_lists ?s k)\<lparr>dl_list := remove1 item (dl_list (dv_lists ?s k))\<rparr>) ?s"
    obtain r item' u where u: "restoreEventAction k item t = (r, item', u)" by (cases "restoreEventAction k item t")
    have f: "dv_slots t = dv_slots s" "dv_devices t = dv_devices s" by (simp_all add: t_def set_list_def)
    have "item_inv first k item t"
      using assms(2) item(1) item_inv_frame [of first k item s t] by (simp add: hooks_inv_def f)
    note a = restore_action [OF assms(1) this u]
    note f' = slots_only_fields [OF a(2)]
    have lists: "dl_list (dv_lists u k') =
        (if k' = k then remove1 item (dl_list (dv_lists s k)) else dl_list (dv_lists s k'))" for k'
      by (simp add: f'(2) t_def set_list_def)
    have d: "distinct (map hi_device (dl_list (dv_lists s k')))" for k' using assms(2) by (simp add: hooks_inv_def)
    have other: "hi_device i \<noteq> dev" if "i \<in> set (remove1 item (dl_list (dv_lists s k)))" for i
      using that d [of k] item by (auto simp: distinct_map distinct_remove1 dest: inj_onD)
    have listed: "listed k' u = (if k' = k then listed k s - {dev} else listed k' s)" for k'
      using d [of k] item by (auto simp: listed_def lists distinct_map inj_on_def)
    have slots: "dv_slots u dev' slot = dv_slots s dev' slot" if "dev' \<noteq> dev \<or> slot \<notin> set (slots_of k)" for dev' slot
      using slots_only_other [OF a(2)] that item(2) f(1) by metis
    have "item_inv first k' i u" if "i \<in> set (dl_list (dv_lists u k'))" for k' i
    proof (rule item_inv_frame)
      show "item_inv first k' i s"
        using assms(2) that by (auto simp: hooks_inv_def lists dest: notin_set_remove1 split: if_splits)
      show "dv_devices u = dv_devices s" using f'(1) f(2) by simp
      fix slot assume "slot \<in> set (slots_of k')"
      then show "dv_slots u (hi_device i) slot = dv_slots s (hi_device i) slot"
        using that other slots slots_disjoint [of slot k' k] by (cases "k' = k") (auto simp: lists)
    qed
    moreover have "dv_slots u dev' slot = first dev' slot" if "dev' \<notin> listed k' u" "slot \<in> set (slots_of k')" for k' dev' slot
    proof (cases "k' = k \<and> dev' = dev")
      case True
      then show ?thesis using a(4) that(2) item(2) by simp
    next
      case False
      then have "dev' \<notin> listed k' s" using that(1) by (auto simp: listed split: if_splits)
      moreover have "dev' \<noteq> dev \<or> slot \<notin> set (slots_of k)" using False that(2) slots_disjoint [of slot k' k] by blast
      ultimately show ?thesis using slots assms(2) that(2) by (simp add: hooks_inv_def)
    qed
    moreover have "distinct (map hi_device (dl_list (dv_lists u k')))" for k'
      using d [of k'] d [of k] by (auto simp: lists distinct_map distinct_remove1 intro: inj_on_subset dest: notin_set_remove1)
    ultimately have "hooks_inv first u" by (simp add: hooks_inv_def)
    from refresh_action(1) [OF assms(1) this, of k] show ?thesis
      using Some u by (simp add: t_def DeviceList_erase_def DeviceList_get_def Let_def)
  qed
qed

lemma in_progress_inv:
  assumes "own_actions first" and "hooks_inv first s"
  shows "hooks_inv first (refreshInProgressDevices_timer_callback s)"
proof -
  have r: "hooks_inv first (refresh_if_in_progress k t)" if "hooks_inv first t" for k and t :: "'a DeviceState_scheme"
    using refresh_action(1) [OF assms(1) that] that by (simp add: refresh_if_in_progress_def)
  have t: "hooks_inv first (start_refreshInProgressDevices_timer t)" if "hooks_inv first t" for t :: "'a DeviceState_scheme"
    by (rule hooks_kept_inv [OF _ that]) (simp add: start_refreshInProgressDevices_timer_def)
  show ?thesis
    using r [OF r [OF r [OF assms(2)]]] t by (simp add: refreshInProgressDevices_timer_callback_def Let_def)
qed

lemma refreshAll_inv:
  assumes "own_actions first" and "hooks_inv first s"
  shows "hooks_inv first (refreshAll s)"
  using assms by (simp add: refreshAll_def refresh_action(1))

lemma hooks_inv_settings [simp]: "hooks_inv first (s\<lparr>dv_initialized := b, cs_config := config\<rparr>) = hooks_inv first s"
  by (simp add: hooks_inv_iff hook_ok_def)

lemma device_call_inv:
  assumes "own_actions first" and "hooks_inv first s" and "call_allowed c s"
  shows "hooks_inv first (device_call c s)"
proof (cases c)
  case (DC_Keyboard_matched dev)
  then have d: "dev \<notin> listed LK_keyboard s" "dev \<notin> listed LK_consumer s" using assms(3) by simp_all
  note p = push_back_inv [OF assms(1,2) d(1)]
  have "dev \<notin> listed LK_consumer (DeviceList_push_back LK_keyboard dev s)" using d(2) p(2) by simp
  from push_back_inv(1) [OF assms(1) p(1) this] assms(2) show ?thesis
    by (simp add: DC_Keyboard_matched IOHIKeyboard_matched_def)
qed (use assms in \<open>simp_all add: IOHIKeyboard_terminated_def IOHIPointing_matched_def IOHIPointing_terminated_def
  push_back_inv(1) erase_inv in_progress_inv refreshAll_inv\<close>)

text \<open>
  C99: Whatever devices appear and disappear, and however the settings change in between, an action of a
  device is replaced only while the device is in the list for it, and the item in the list then knows
  the action that the device had of its own.
\<close>

theorem hooks_reversible:
  assumes "own_actions first" and "hooks_inv first s" and "calls_allowed cs s"
  shows "hooks_inv first (device_calls cs s)"
  using assms(2,3) by (induction cs arbitrary: s) (simp_all add: device_call_inv [OF assms(1)])

text \<open>The actions of the devices in a list are those the settings want.\<close>

definition settled :: "(nat \<Rightarrow> Slot \<Rightarrow> Action) \<Rightarrow> ListKind \<Rightarrow> 'a DeviceState_scheme \<Rightarrow> bool" where
  "settled first k s =
     (\<forall>item \<in> set (dl_list (dv_lists s k)). \<forall>slot \<in> set (slots_of k).
        dv_slots s (hi_device item) slot = wanted_action first k item s slot)"

lemma refresh_settled:
  assumes "own_actions first" and "hooks_inv first s"
  shows "settled first k (DeviceList_refresh k s)"
    and "settled first k' s \<Longrightarrow> settled first k' (DeviceList_refresh k s)"
proof -
  note r = refresh_action [OF assms, where k = k]
  obtain x y where u: "DeviceList_refresh k s = s\<lparr>dv_slots := x, dv_lists := y\<rparr>" using r(4) by blast
  then have f: "dv_devices (DeviceList_refresh k s) = dv_devices s" "dv_initialized (DeviceList_refresh k s) = dv_initialized s"
    "cs_config (DeviceList_refresh k s) = cs_config s" by simp_all
  have w: "wanted_action first k' item (DeviceList_refresh k s) slot = wanted_action first k' item s slot" for k' item slot
    using wanted_frame [of item item "DeviceList_refresh k s" s k'] f by (simp add: wanted_action_def)
  show k: "settled first k (DeviceList_refresh k s)"
    using r(2) by (simp add: settled_def w)
  assume "settled first k' s"
  show "settled first k' (DeviceList_refresh k s)"
  proof (cases "k' = k")
    case False
    then have "slot \<notin> set (slots_of k)" if "slot \<in> set (slots_of k')" for slot
      using slots_disjoint [OF that] that slots_disjoint by blast
    then show ?thesis
      using \<open>settled first k' s\<close> r(3) r(6) [OF False] by (simp add: settled_def w)
  qed (use k in simp)
qed

lemma refreshAll_settled:
  assumes "own_actions first" and "hooks_inv first s"
  shows "settled first k (refreshAll s)"
proof -
  note a = refresh_action(1) [OF assms(1)] and b = refresh_settled [OF assms(1)]
  let ?s1 = "DeviceList_refresh LK_keyboard s"
  let ?s2 = "DeviceList_refresh LK_consumer ?s1"
  have 1: "hooks_inv first ?s1" by (rule a [OF assms(2)])
  then have 2: "hooks_inv first ?s2" by (rule a)
  show ?thesis
    using b(1) [OF 2, of LK_pointing] b(2) [OF 2, of LK_consumer LK_pointing] b(1) [OF 1, of LK_consumer]
      b(2) [OF 1, of LK_keyboard LK_consumer] b(1) [OF assms(2), of LK_keyboard] b(2) [OF 2, of LK_keyboard LK_pointing]
    by (cases k) (simp_all add: refreshAll_def)
qed

text \<open>
  C99: After the settings have changed and all lists are refreshed, a device that is in a list has its
  action replaced exactly when the settings want it, the device is of the right class and has an action of
  its own; every other action is the own one of the device.
\<close>

theorem refreshAll_hooks:
  assumes "own_actions first" and "hooks_inv first s" and "slot \<in> set (slots_of k)"
  shows "\<forall>dev. dv_slots (refreshAll s) dev slot =
    (case find (\<lambda>item. hi_device item = dev) (dl_list (dv_lists (refreshAll s) k)) of
       None \<Rightarrow> first dev slot
     | Some item \<Rightarrow> wanted_action first k item (refreshAll s) slot)"
proof
  fix dev
  let ?items = "dl_list (dv_lists (refreshAll s) k)"
  have inv: "hooks_inv first (refreshAll s)" by (rule refreshAll_inv [OF assms(1,2)])
  show "dv_slots (refreshAll s) dev slot =
    (case find (\<lambda>item. hi_device item = dev) ?items of
       None \<Rightarrow> first dev slot | Some item \<Rightarrow> wanted_action first k item (refreshAll s) slot)"
  proof (cases "find (\<lambda>item. hi_device item = dev) ?items")
    case None
    then have "dev \<notin> listed k (refreshAll s)" by (auto simp: find_None_iff listed_def)
    then show ?thesis using inv assms(3) None by (simp add: hooks_inv_def)
  next
    case (Some item)
    then have "item \<in> set ?items" "hi_device item = dev" by (auto simp: find_Some_iff)
    then show ?thesis
      using refreshAll_settled [OF assms(1,2), of k] assms(3) Some by (auto simp: settled_def)
  qed
qed

text \<open>A keyboard appears, is hooked when the client in user space is ready, and is let go when the client is gone.\<close>

definition keyboard_first :: "nat \<Rightarrow> Slot \<Rightarrow> Action" where
  "keyboard_first = (\<lambda>_ _. (Some (CB_other 7), Some 9))"

lemma device_static_inv: "own_actions keyboard_first" "hooks_inv keyboard_first device_static"
  by (simp_all add: own_actions_def keyboard_first_def hooks_inv_def)

theorem hooks_reversible_witness:
  "hooks_inv keyboard_first
     (device_calls [DC_Keyboard_matched 5, DC_settings False (\<lambda>_. 1), DC_refreshAll, DC_Keyboard_terminated 5] device_static)"
  by (rule hooks_reversible [OF device_static_inv]) (simp add: listed_def)

theorem refreshAll_hooks_witness:
  "dv_slots (refreshAll device_static) 5 S_keyboard = (Some (CB_other 7), Some 9)"
proof -
  have "dl_list (dv_lists (refreshAll device_static) LK_keyboard) = []"
    by (simp add: refreshAll_def DeviceList_refresh_def set_list_def)
  then show ?thesis
    using refreshAll_hooks [OF device_static_inv, of S_keyboard LK_keyboard] by (simp add: keyboard_first_def)
qed

end
