(* ===== verification/InputLive.thy ===== *)
theory InputLive
  imports EventCore DeviceHooks
begin

text \<open>
  The input queue loses nothing and never stalls: blocking until a release keeps the events and
  their order, every waiting event has a timer pending, and the timers drain both queues.
\<close>

section \<open>The order of blocked events\<close>

lemma endBlocking_simps [simp]:
  "in_queue (endBlocking s) = map (\<lambda>p. p\<lparr>ii_from_blocked := True\<rparr>) (in_blocked s) @ in_queue s"
  "in_blocked (endBlocking s) = []"
  "in_blocking_timer (endBlocking s) = cancelTimeout (in_blocking_timer s)"
  "in_timer (endBlocking s) = in_timer s" "in_pressing (endBlocking s) = in_pressing s"
  "vj_newkeycode (endBlocking s) = vj_newkeycode s"
proof -
  have "foldl (\<lambda>q p. p\<lparr>ii_from_blocked := True\<rparr> # q) q (rev ps) = map (\<lambda>p. p\<lparr>ii_from_blocked := True\<rparr>) ps @ q"
    for ps q by (induction ps arbitrary: q) simp_all
  then show "in_queue (endBlocking s) = map (\<lambda>p. p\<lparr>ii_from_blocked := True\<rparr>) (in_blocked s) @ in_queue s"
    by (simp add: endBlocking_def)
qed (simp_all add: endBlocking_def)

lemma insert_behind_down_split:
  "insert_behind_down front ps = Some r \<Longrightarrow>
   \<exists>xs p ys. ps = xs @ p # ys \<and> r = xs @ front # p # ys \<and>
     isTargetDownEvent (FromEvent_of_params (ii_params front)) (ii_params p) \<and>
     (\<forall>x \<in> set xs. \<not> isTargetDownEvent (FromEvent_of_params (ii_params front)) (ii_params x))"
proof (induction ps arbitrary: r)
  case (Cons x ps)
  show ?case
  proof (cases "isTargetDownEvent (FromEvent_of_params (ii_params front)) (ii_params x)")
    case True
    with Cons.prems show ?thesis by (intro exI [of _ "[]"]) auto
  next
    case False
    with Cons obtain zs xs p ys where "r = x # zs" "ps = xs @ p # ys" "zs = xs @ front # p # ys"
      "isTargetDownEvent (FromEvent_of_params (ii_params front)) (ii_params p)"
      "\<forall>x \<in> set xs. \<not> isTargetDownEvent (FromEvent_of_params (ii_params front)) (ii_params x)" by auto
    with False show ?thesis by (intro exI [of _ "x # xs"]) auto
  qed
qed simp

lemma insert_behind_down_None:
  "insert_behind_down front ps = None \<Longrightarrow>
   \<forall>x \<in> set ps. \<not> isTargetDownEvent (FromEvent_of_params (ii_params front)) (ii_params x)"
  by (induction ps) (auto split: if_splits)

lemma move_up_split:
  obtains xs ys where "ps = xs @ ys" and "move_up_behind_down front ps = xs @ front # ys"
    and "\<forall>y \<in> set ys. \<not> isTargetDownEvent (FromEvent_of_params (ii_params front)) (ii_params y)"
    and "xs \<noteq> [] \<Longrightarrow> isTargetDownEvent (FromEvent_of_params (ii_params front)) (ii_params (last xs))"
proof (cases "insert_behind_down front (rev ps)")
  case None
  with insert_behind_down_None [OF None] show thesis
    by (intro that [of "[]" ps]) (simp_all add: move_up_behind_down_def)
next
  case (Some r)
  from insert_behind_down_split [OF Some] obtain xs p ys where
    "rev ps = xs @ p # ys" "r = xs @ front # p # ys"
    "isTargetDownEvent (FromEvent_of_params (ii_params front)) (ii_params p)"
    "\<forall>x \<in> set xs. \<not> isTargetDownEvent (FromEvent_of_params (ii_params front)) (ii_params x)" by blast
  moreover from this(1) have "ps = rev ys @ p # rev xs" by (simp add: rev_eq_append_conv)
  ultimately show thesis
    using Some by (intro that [of "rev ys @ [p]" "rev xs"]) (simp_all add: move_up_behind_down_def)
qed

text \<open>The ways in which \<open>doBlockUntilKeyUp\<close> ends.\<close>

lemma doBlock_cases:
  assumes "in_queue s = front # rest" and "doBlockUntilKeyUp rm s = (needToFire, t)"
  obtains
    (pass) "needToFire" "t = s" "ii_from_blocked front \<or> iskeydown (ii_params front) = None"
  | (unblock) u where "needToFire" "t = endBlocking u" "\<not> ii_from_blocked front" "iskeydown (ii_params front) \<noteq> None"
      "in_queue u = front # rest" "in_blocked u = in_blocked s" "in_timer u = in_timer s"
      "in_blocking_timer u = in_blocking_timer s" "VKState.truncate u = VKState.truncate s"
  | (release) u where "needToFire" "t = endBlocking u" "\<not> ii_from_blocked front" "iskeydown (ii_params front) = Some False"
      "in_queue u = rest" "in_blocked u = move_up_behind_down front (in_blocked s) \<or> in_blocked u = in_blocked s @ [front]"
      "in_timer u = in_timer s" "\<exists>ms. in_blocking_timer u = snd (setTimeoutMS ms True (in_blocking_timer s))"
      "VKState.truncate u = VKState.truncate s"
  | (block) "\<not> needToFire" "\<not> ii_from_blocked front" "in_queue t = rest" "in_blocked t = in_blocked s @ [front]"
      "in_timer t = in_timer s" "\<exists>ms. in_blocking_timer t = snd (setTimeoutMS ms True (in_blocking_timer s))"
      "VKState.truncate t = VKState.truncate s"
proof (cases "ii_from_blocked front \<or> iskeydown (ii_params front) = None")
  case True
  with assms show thesis by (intro pass) (auto simp: doBlockUntilKeyUp_def split: if_splits)
next
  case False
  then obtain down where down: "\<not> ii_from_blocked front" "iskeydown (ii_params front) = Some down" by auto
  define u where "u = s\<lparr>in_pressing := update_pressing (ii_params front) down (in_pressing s)\<rparr>"
  define w where "w = u\<lparr>in_blocking_timer := snd (setTimeoutMS
    (word_of_int (cs_config s parameter_blockuntilkeyup_timeout)) True (in_blocking_timer s))\<rparr>"
  have e: "(needToFire, t) =
    (if \<not> needToBlock rm (ii_params front) u then (True, endBlocking u)
     else if \<not> down \<and> rm_isTargetEventForBlockUntilKeyUp rm (ii_params front) w
     then (True, endBlocking (w\<lparr>in_blocked := move_up_behind_down front (in_blocked s), in_queue := rest\<rparr>))
     else if \<not> down \<and> \<not> isOrphanKeyUpEventExistsInBlockedQueue w \<and> isTargetDownEventInBlockedQueue front w
     then (True, endBlocking ((setIgnoreToAllPressingEvents w)\<lparr>in_blocked := in_blocked s @ [front], in_queue := rest\<rparr>))
     else (False, w\<lparr>in_blocked := in_blocked s @ [front], in_queue := rest\<rparr>))"
    using assms down by (simp add: doBlockUntilKeyUp_def u_def w_def Let_def cong: if_cong)
  show thesis
    using e down assms(1) unblock [of u]
      release [of "w\<lparr>in_blocked := move_up_behind_down front (in_blocked s), in_queue := rest\<rparr>"]
      release [of "(setIgnoreToAllPressingEvents w)\<lparr>in_blocked := in_blocked s @ [front], in_queue := rest\<rparr>"] block
    by (auto simp: u_def w_def setIgnoreToAllPressingEvents_def VKState.truncate_def split: if_splits)
qed

text \<open>
  C7: \<open>doBlockUntilKeyUp\<close> neither loses, duplicates nor reorders events, with one exception. Either it
  moves the front event to the end of the blocked queue, or it puts the blocked events back in front
  of the queue, followed by the front event and the rest; only a release may overtake blocked events,
  and then it comes right behind the last press of its key, or first when no press of it is blocked.
\<close>

theorem doBlockUntilKeyUp_order:
  assumes "in_queue s = front # rest" and "doBlockUntilKeyUp rm s = (needToFire, t)"
  shows "if needToFire
    then (ii_from_blocked front \<or> iskeydown (ii_params front) = None) \<and> t = s \<or>
      in_blocked t = [] \<and>
      (\<exists>xs ys. in_blocked s = xs @ ys \<and> map ii_params (in_queue t) = map ii_params (xs @ front # ys @ rest) \<and>
        (ys = [] \<or> iskeydown (ii_params front) = Some False \<and>
          (\<forall>y \<in> set ys. \<not> isTargetDownEvent (FromEvent_of_params (ii_params front)) (ii_params y)) \<and>
          (xs = [] \<or> isTargetDownEvent (FromEvent_of_params (ii_params front)) (ii_params (last xs)))))
    else in_blocked t = in_blocked s @ [front] \<and> in_queue t = rest"
proof -
  obtain xs ys where m: "in_blocked s = xs @ ys" "move_up_behind_down front (in_blocked s) = xs @ front # ys"
    "\<forall>y \<in> set ys. \<not> isTargetDownEvent (FromEvent_of_params (ii_params front)) (ii_params y)"
    "xs \<noteq> [] \<Longrightarrow> isTargetDownEvent (FromEvent_of_params (ii_params front)) (ii_params (last xs))"
    using move_up_split [of "in_blocked s" front] by metis
  have whole: "\<exists>xs ys. in_blocked s = xs @ ys \<and> map ii_params zs = map ii_params (xs @ front # ys @ rest) \<and>
        (ys = [] \<or> iskeydown (ii_params front) = Some False \<and>
          (\<forall>y \<in> set ys. \<not> isTargetDownEvent (FromEvent_of_params (ii_params front)) (ii_params y)) \<and>
          (xs = [] \<or> isTargetDownEvent (FromEvent_of_params (ii_params front)) (ii_params (last xs))))"
    if "map ii_params zs = map ii_params (in_blocked s @ front # rest)" for zs
    using that by (intro exI [of _ "in_blocked s"] exI [of _ "[]"]) simp
  show ?thesis
    using assms
  proof (cases rule: doBlock_cases)
    case (release u)
    then show ?thesis
    proof (cases "in_blocked u = in_blocked s @ [front]")
      case True
      with release whole [of "in_queue t"] show ?thesis by (simp add: comp_def)
    next
      case False
      with release m(2) have "map ii_params (in_queue t) = map ii_params (xs @ front # ys @ rest)" by (simp add: comp_def)
      with release m(1,3,4) have "in_blocked t = [] \<and> in_blocked s = xs @ ys \<and>
        map ii_params (in_queue t) = map ii_params (xs @ front # ys @ rest) \<and>
        (\<forall>y \<in> set ys. \<not> isTargetDownEvent (FromEvent_of_params (ii_params front)) (ii_params y)) \<and>
        (xs = [] \<or> isTargetDownEvent (FromEvent_of_params (ii_params front)) (ii_params (last xs)))" by auto
      with release show ?thesis by (simp del: map_append list.map) blast
    qed
  qed (use whole [of "in_queue t"] in \<open>simp_all add: comp_def\<close>)
qed

section \<open>What the queue relies on\<close>

text \<open>
  \<open>in_frame\<close>: the state of the input queue is left alone, and firing keys still returns; the actions of the
  devices are not changed either. \<open>targets\<close> counts
  the events that may still become part of keys pressed together.
\<close>

definition in_frame :: "'a InState_scheme \<Rightarrow> 'a InState_scheme \<Rightarrow> bool" where
  "in_frame s t =
     (in_queue t = in_queue s \<and> in_timer t = in_timer s \<and> in_blocked t = in_blocked s \<and>
      in_blocking_timer t = in_blocking_timer s \<and> dv_slots t = dv_slots s \<and> dv_devices t = dv_devices s \<and>
      dv_initialized t = dv_initialized s \<and>
      (\<forall>k. map item_hook (dl_list (dv_lists t k)) = map item_hook (dl_list (dv_lists s k))) \<and> (fire_ok s \<longrightarrow> fire_ok t))"

definition targets :: "'a InState_scheme \<Rightarrow> nat" where
  "targets s = length (filter ii_simultaneous (in_queue s))"

lemma in_frame_refl [simp, intro]: "in_frame s s"
  by (simp add: in_frame_def)

lemma in_frame_hooks: "in_frame s t \<Longrightarrow> hooks_kept s t"
  by (simp add: in_frame_def hooks_kept_def)

lemma in_frame_ok: "in_frame s t \<Longrightarrow> fire_ok s \<Longrightarrow> fire_ok t"
  by (simp add: in_frame_def)

lemma in_frame_trans: "in_frame s t \<Longrightarrow> in_frame t u \<Longrightarrow> in_frame s u"
  by (simp add: in_frame_def)

lemma keeps_in_frame:
  fixes s t :: "'a InState_scheme"
  assumes "vk_keeps s t"
  shows "in_frame s t"
  using assms keeps_fire_ok [OF assms] by (cases s; cases t; simp add: vk_keeps_def in_frame_def)

lemma repeat_in_frame:
  fixes s t :: "'a InState_scheme"
  assumes "RepeatState.more t = RepeatState.more s" and "VKState.truncate t = VKState.truncate s"
  shows "in_frame s t"
  using assms by (cases s; cases t; simp add: in_frame_def fire_ok_def VKState.truncate_def)

text \<open>
  The contract of the remap classes: they return, leave the queue, the blocked events and the timers
  alone, except that recognising keys pressed together may change the queue, and then leaves fewer
  events that can be part of such a combination.
\<close>

locale remapper =
  fixes rm :: "('a InState_scheme) Remapper"
  assumes prepare_total: "\<And>p s. fire_ok s \<Longrightarrow> \<exists>q t. rm_prepare rm p s = Some (q, t) \<and> in_frame s t"
    and remap_total: "\<And>p s. fire_ok s \<Longrightarrow> \<exists>q t. rm_remap rm p s = Some (q, t) \<and> in_frame s t"
    and cancelScroll_frame: "\<And>s. in_frame s (rm_cancelScroll rm s)"
    and clear_frame: "\<And>s. in_frame s (rm_clear rm s)"
    and forcenumlockon_frame: "\<And>i s. in_frame s (rm_forcenumlockon rm i s)"
    and simultaneous_frame: "\<And>d s. in_frame (s\<lparr>in_queue := in_queue (snd (rm_simultaneouskeypresses rm d s))\<rparr>)
      (snd (rm_simultaneouskeypresses rm d s))"
    and simultaneous_fewer: "\<And>d s. fst (rm_simultaneouskeypresses rm d s) \<Longrightarrow>
      targets (snd (rm_simultaneouskeypresses rm d s)) < targets s"

lemma in_frame_updates [simp]:
  "in_frame s (t\<lparr>in_pressing := x1\<rparr>) = in_frame s t"
  "in_frame s (t\<lparr>oq_serialNumber := x2\<rparr>) = in_frame s t"
  "in_frame s (t\<lparr>cs_deviceIdentifier := x3\<rparr>) = in_frame s t"
  "in_frame s (t\<lparr>cs_keyboardType := x4\<rparr>) = in_frame s t"
  "in_frame s (t\<lparr>dv_ts := x5\<rparr>) = in_frame s t"
  "in_frame s (t\<lparr>vk_fnkeyhack := x6\<rparr>) = in_frame s t"
  "in_frame s (t\<lparr>cs_lastpressed := x8\<rparr>) = in_frame s t"
  "in_frame s (t\<lparr>cs_lastreleased := x9\<rparr>) = in_frame s t"
  "in_frame s (t\<lparr>pf_list := x10\<rparr>) = in_frame s t"
  "in_frame s (t\<lparr>ew_list := x11\<rparr>) = in_frame s t"
  "in_frame s (t\<lparr>fm_isIgnorePhysicalUpEvent := x12\<rparr>) = in_frame s t"
  "in_frame s (t\<lparr>vk_needToDrop := x13\<rparr>) = in_frame s t"
  by (simp_all add: in_frame_def fire_ok_def)

lemma repeat_set_frame [simp]:
  "in_frame s (KeyboardRepeat_cancel s)"
  "in_frame s (set_keyboard p a d r s)"
  "in_frame s (set_special q a d r s)"
proof -
  have c: "in_frame s (KeyboardRepeat_cancel t)" if "in_frame s t" for t :: "'a InState_scheme"
    using that by (simp add: in_frame_def fire_ok_def KeyboardRepeat_cancel_def succID_def Let_def)
  have p: "in_frame s (snd (primitive_start a d r t))" if "in_frame s t" for t :: "'a InState_scheme"
    using that by (simp add: in_frame_def fire_ok_def primitive_start_def succID_def Let_def)
  have k: "in_frame s (primitive_add_key et fl k kt t)" "in_frame s (primitive_add_consumer et fl k t)"
    if "in_frame s t" for t :: "'a InState_scheme" and et fl k kt
    using that by (simp_all add: in_frame_def fire_ok_def primitive_add_key_def primitive_add_consumer_def)
  show "in_frame s (KeyboardRepeat_cancel s)" by (rule c) simp
  show "in_frame s (set_keyboard p a d r s)"
    unfolding set_keyboard_def set_key_def by (auto split: Params.splits intro: c p k)
  show "in_frame s (set_special q a d r s)"
    unfolding set_special_def set_consumer_def by (auto intro: c p k)
qed

lemma flag_in_frame:
  fixes s t :: "'a InState_scheme"
  shows "FlagState.more t = FlagState.more s \<Longrightarrow> in_frame s t"
  by (cases s; cases t; simp add: in_frame_def fire_ok_def)

lemma PressDownKeys_clear_keeps: "vk_keeps s (PressDownKeys_clear s)"
proof -
  have "vk_keeps s (PressDownKeys_clear_loop l t)" if "vk_keeps s t" for l t
    using that
  proof (induction l t rule: PressDownKeys_clear_loop.induct)
    case (2 key kt l t)
    then show ?case by (auto intro: keeps_trans [OF _ push_keeps])
  qed simp
  then show ?thesis by (simp add: PressDownKeys_clear_def)
qed

lemma FireScrollWheel_keeps: "vk_keeps s (FireScrollWheel_fire w a pe s)"
  unfolding FireScrollWheel_fire_def Let_def setIgnorePhysicalUpEvent_def
  by (rule keeps_trans [OF keeps_trans [OF _ FireModifiers_keeps(2)] push_keeps]) simp

lemma keeps_frame_trans:
  fixes s t u :: "'a InState_scheme"
  shows "in_frame s t \<Longrightarrow> vk_keeps t u \<Longrightarrow> in_frame s u"
  by (rule in_frame_trans [OF _ keeps_in_frame])

lemma flag_calls_frame:
  fixes s t :: "'a InState_scheme"
  assumes "in_frame s t"
  shows "in_frame s (FlagStatus_lazy_enable t)" and "in_frame s (FlagStatus_lazy_disable_if_off t)"
    and "in_frame s (FlagStatus_set t)" and "in_frame s (FlagStatus_setKey k f t)" and "in_frame s (FlagStatus_reset t)"
    and "in_frame s (ButtonStatus_set b d t)" and "in_frame s (ButtonStatus_reset t)"
    and "in_frame s (EventWatcher_on t)" and "in_frame s (EventWatcher_reset t)"
  by (rule in_frame_trans [OF assms flag_in_frame], simp add: FlagStatus_lazy_enable_def FlagStatus_lazy_disable_if_off_def
        FlagStatus_set_def FlagStatus_setKey_def FlagStatus_reset_def)+
    (use assms in \<open>simp_all add: ButtonStatus_set_def ButtonStatus_reset_def EventWatcher_on_def EventWatcher_reset_def
        in_frame_def fire_ok_def\<close>)

lemma fire_calls_frame:
  fixes s t :: "'a InState_scheme"
  assumes "in_frame s t"
  shows "in_frame s (FireModifiers_fire_current a pe t)" and "in_frame s (FireRelativePointer_fire a pe b dx dy t)"
    and "in_frame s (FireConsumer_fire q a pe t)" and "in_frame s (FireScrollWheel_fire w a pe t)"
    and "in_frame s (PressDownKeys_clear t)" and "in_frame s (VirtualKey_reset t)"
    and "in_frame s (setIgnorePhysicalUpEvent x t)"
    and "in_frame s (KeyboardRepeat_cancel t)" and "in_frame s (set_keyboard p a d r t)" and "in_frame s (set_special q a d r t)"
proof -
  show "in_frame s (FireModifiers_fire_current a pe t)" by (rule keeps_frame_trans [OF assms FireModifiers_keeps(2)])
  show "in_frame s (FireRelativePointer_fire a pe b dx dy t)" by (rule keeps_frame_trans [OF assms FireRelativePointer_keeps])
  show "in_frame s (FireConsumer_fire q a pe t)" by (rule keeps_frame_trans [OF assms FireConsumer_keeps])
  show "in_frame s (FireScrollWheel_fire w a pe t)" by (rule keeps_frame_trans [OF assms FireScrollWheel_keeps])
  show "in_frame s (PressDownKeys_clear t)" by (rule keeps_frame_trans [OF assms PressDownKeys_clear_keeps])
  show "in_frame s (VirtualKey_reset t)" "in_frame s (setIgnorePhysicalUpEvent x t)"
    using assms by (simp_all add: VirtualKey_reset_def MouseKey_reset_def VK_KEYTOKEY_DELAYED_ACTION_DROP_EVENT_reset_def
      FixedDistanceScroll_reset_def setIgnorePhysicalUpEvent_def in_frame_def fire_ok_def)
  show "in_frame s (KeyboardRepeat_cancel t)" by (rule in_frame_trans [OF assms repeat_set_frame(1)])
  show "in_frame s (set_keyboard p a d r t)" by (rule in_frame_trans [OF assms repeat_set_frame(2)])
  show "in_frame s (set_special q a d r t)" by (rule in_frame_trans [OF assms repeat_set_frame(3)])
qed

lemma in_frame_lists:
  "(\<And>k. map item_hook (dl_list (l k)) = map item_hook (dl_list (dv_lists t k))) \<Longrightarrow>
    in_frame s (t\<lparr>dv_lists := l\<rparr>) = in_frame s t"
  by (simp add: in_frame_def fire_ok_def)

lemma item_hook_updates [simp]:
  "item_hook (item\<lparr>hi_pressing := x1\<rparr>) = item_hook item" "item_hook (item\<lparr>hi_previousbuttons := x2\<rparr>) = item_hook item"
  by (simp_all add: item_hook_def)

lemma update_item_frame [simp]:
  "(\<And>item. item_hook (f item) = item_hook item) \<Longrightarrow> in_frame s (update_item i f t) = in_frame s t"
  unfolding update_item_def by (rule in_frame_lists) (simp add: comp_def)

context remapper
begin

lemma FireKey_frame:
  assumes "in_frame s t" and "fire_ok s"
  obtains u where "FireKey p a pe t = Some u" and "in_frame s u"
  using FireKey_total [OF in_frame_ok [OF assms], of p a pe] in_frame_trans [OF assms(1) keeps_in_frame] by blast

lemma prepare_frame:
  assumes "in_frame s t" and "fire_ok s"
  obtains q u where "rm_prepare rm p t = Some (q, u)" and "in_frame s u"
  using prepare_total [OF in_frame_ok [OF assms], of p] in_frame_trans [OF assms(1)] by blast

lemma remap_frame:
  assumes "in_frame s t" and "fire_ok s"
  obtains q u where "rm_remap rm p t = Some (q, u)" and "in_frame s u"
  using remap_total [OF in_frame_ok [OF assms], of p] in_frame_trans [OF assms(1)] by blast

lemma hooks_frame:
  assumes "in_frame s t"
  shows "in_frame s (rm_cancelScroll rm t)" and "in_frame s (rm_clear rm t)" and "in_frame s (rm_forcenumlockon rm i t)"
  using in_frame_trans [OF assms] cancelScroll_frame clear_frame forcenumlockon_frame by blast+

lemma keyboard_total:
  assumes "in_frame s t" and "fire_ok s"
  shows "\<exists>u. remap_KeyboardEventCallback rm k t = Some u \<and> in_frame s u"
proof -
  let ?pe = "if kp_ex_iskeydown k then PE_DOWN else PE_UP"
  from prepare_frame [OF assms] obtain q u where
    u: "rm_prepare rm (RemapParams_new (P_Keyboard k) ?pe) t = Some (q, u)" "in_frame s u" .
  from remap_frame [OF flag_calls_frame(4) [OF u(2)] assms(2)] obtain q' v where
    v: "rm_remap rm q (FlagStatus_setKey (kp_key k) (kp_flags k) u) = Some (q', v)" "in_frame s v" .
  define p where "p = KeyboardParams_full (cs_pairs v) (kp_eventType k) (FlagStatus_makeFlags (fs_item v)) (kp_key k)
    (kp_charCode k) (kp_charSet k) (kp_origCharCode k) (kp_origCharSet k) (kp_keyboardType k) False"
  define w where "w = set_keyboard p AutogenId_maxValue (sint (get_repeat_initial_wait v)) (sint (get_repeat_wait v)) v"
  have "in_frame s w" unfolding w_def by (rule fire_calls_frame(9) [OF v(2)])
  from FireKey_frame [OF this assms(2)] obtain x where x: "FireKey p AutogenId_maxValue ?pe w = Some x" "in_frame s x" .
  have "remap_KeyboardEventCallback rm k t = Some (rm_cancelScroll rm (if rp_isremapped q' then v else x))"
    using x(1) by (simp add: remap_KeyboardEventCallback_def u v Let_def p_def [symmetric] w_def [symmetric])
  then show ?thesis using v(2) x(2) by (auto intro: hooks_frame)
qed

lemma special_total:
  assumes "in_frame s t" and "fire_ok s"
  shows "\<exists>u. remap_KeyboardSpecialEventCallback rm k t = Some u \<and> in_frame s u"
proof -
  let ?pe = "if sp_ex_iskeydown k then PE_DOWN else PE_UP"
  from prepare_frame [OF assms] obtain q u where
    u: "rm_prepare rm (RemapParams_new (P_Special k) ?pe) t = Some (q, u)" "in_frame s u" .
  from remap_frame [OF u(2) assms(2)] obtain q' v where v: "rm_remap rm q u = Some (q', v)" "in_frame s v" .
  show ?thesis
    using v(2) by (auto simp: remap_KeyboardSpecialEventCallback_def u v Let_def intro!: hooks_frame fire_calls_frame)
qed

lemma pointer_total:
  assumes "in_frame s t" and "fire_ok s"
  shows "\<exists>u. remap_RelativePointerEventCallback rm k t = Some u \<and> in_frame s u"
proof -
  let ?pe = "if pp_ex_button k \<noteq> PointingButton_NONE \<and> pp_ex_isbuttondown k then PE_DOWN else PE_UP"
  from prepare_frame [OF flag_calls_frame(6) [OF assms(1)] assms(2)] obtain q u where
    u: "rm_prepare rm (RemapParams_new (P_RelativePointer k) ?pe) (ButtonStatus_set (pp_ex_button k) (pp_ex_isbuttondown k) t)
      = Some (q, u)" "in_frame s u" .
  from remap_frame [OF u(2) assms(2)] obtain q' v where v: "rm_remap rm q u = Some (q', v)" "in_frame s v" .
  show ?thesis
    using v(2) by (auto simp: remap_RelativePointerEventCallback_def u v Let_def intro!: fire_calls_frame)
qed

lemma scroll_total:
  assumes "in_frame s t" and "fire_ok s"
  shows "\<exists>u. remap_ScrollWheelEventCallback rm k t = Some u \<and> in_frame s u"
proof -
  from prepare_frame [OF assms] obtain q u where
    u: "rm_prepare rm (RemapParams_new (P_ScrollWheel k) PE_DOWN) t = Some (q, u)" "in_frame s u" .
  from remap_frame [OF u(2) assms(2)] obtain q' v where v: "rm_remap rm q u = Some (q', v)" "in_frame s v" .
  show ?thesis
    using v(2) by (auto simp: remap_ScrollWheelEventCallback_def u v Let_def intro!: hooks_frame fire_calls_frame)
qed

lemma fire_params_total:
  assumes "fire_ok s"
  shows "\<exists>u. fire_params rm p s = Some u \<and> in_frame s u"
proof -
  note frames = flag_calls_frame in_frame_refl
  show ?thesis
    by (cases p) (auto simp: fire_params_def note_down_def Let_def
        intro!: keyboard_total special_total pointer_total scroll_total assms frames)
qed

lemma reset_frame: "in_frame s t \<Longrightarrow> in_frame s (resetInternalStateIfNeeded rm t)"
  by (auto simp: resetInternalStateIfNeeded_def Let_def PressingFromEvents_clear_def
      intro!: hooks_frame fire_calls_frame flag_calls_frame)

lemma doFire_total:
  assumes "fire_ok s" and "in_queue s = p # ps"
  shows "\<exists>t. doFire rm s = Some t \<and> in_frame (s\<lparr>in_queue := ps\<rparr>) t"
proof -
  from fire_params_total [OF assms(1)] obtain u where u: "fire_params rm (ii_params p) s = Some u" "in_frame s u" by blast
  let ?v = "(setcurrent_lastreleasedphysicalkey (ii_params p) (setcurrent_lastpressedphysicalkey (ii_params p) u))
    \<lparr>in_queue := tl (in_queue u)\<rparr>"
  have "in_frame (s\<lparr>in_queue := ps\<rparr>) ?v"
    using u(2) assms(2) by (simp add: in_frame_def fire_ok_def setcurrent_lastreleasedphysicalkey_def
        setcurrent_lastpressedphysicalkey_def)
  then show ?thesis
    using reset_frame [of "s\<lparr>in_queue := ps\<rparr>" ?v]
    by (auto simp: doFire_def assms(2) u Let_def setcurrent_lastreleasedphysicalkey_def
        setcurrent_lastpressedphysicalkey_def)
qed

lemma simultaneous_total:
  assumes "fire_ok s"
  shows "\<exists>t. (simultaneous_loop rm s = Some (Inl t) \<and> in_queue t = [] \<or> simultaneous_loop rm s = Some (Inr t)) \<and>
    in_frame (s\<lparr>in_queue := in_queue t\<rparr>) t"
  using assms
proof (induction "targets s" arbitrary: s rule: less_induct)
  case less
  show ?case
  proof (cases "in_queue s")
    case Nil
    then have "in_frame (s\<lparr>in_queue := []\<rparr>) s" by (simp add: in_frame_def fire_ok_def)
    with Nil show ?thesis by (simp add: simultaneous_loop.simps [of rm s])
  next
    case (Cons front rest)
    let ?d = "case iskeydown (ii_params front) of None \<Rightarrow> True | Some d \<Rightarrow> d"
    define u where "u = simultaneous_front front s"
    have u: "in_frame s u"
      by (auto simp: u_def simultaneous_front_def Let_def split: Params.splits intro: flag_calls_frame)
    obtain changed v where v: "rm_simultaneouskeypresses rm ?d u = (changed, v)" by (cases "rm_simultaneouskeypresses rm ?d u")
    have f: "in_frame (s\<lparr>in_queue := in_queue v\<rparr>) v"
      using simultaneous_frame [of ?d u] u by (simp add: v in_frame_def fire_ok_def)
    have step: "simultaneous_loop rm s = (if changed then simultaneous_loop rm v else Some (Inr v))"
      by (simp add: simultaneous_loop.simps [of rm s] Cons Let_def u_def [symmetric] v)
    show ?thesis
    proof (cases changed)
      case True
      have "targets v < targets s"
        using simultaneous_fewer [of ?d u] True u by (simp add: v targets_def in_frame_def)
      from less.hyps [OF this] f less.prems
      obtain t where t: "simultaneous_loop rm v = Some (Inl t) \<and> in_queue t = [] \<or> simultaneous_loop rm v = Some (Inr t)"
        "in_frame (v\<lparr>in_queue := in_queue t\<rparr>) t"
        by (auto simp: in_frame_def fire_ok_def)
      have "in_frame (s\<lparr>in_queue := in_queue t\<rparr>) t"
        using t(2) f by (simp add: in_frame_def fire_ok_def)
      then show ?thesis using t step True by auto
    next
      case False
      then show ?thesis using f step by auto
    qed
  qed
qed

end

section \<open>The timers are pending\<close>

text \<open>
  A waiting event has a timer pending. \<open>weight\<close> bounds how often the timers can run before both queues
  are empty: an event that is blocked and put back counts less than one that has not been looked at.
\<close>

definition quiet_live :: "'a InState_scheme \<Rightarrow> bool" where
  "quiet_live s =
     (timer_reliable (in_timer s) \<and> timer_reliable (in_blocking_timer s) \<and>
      (in_blocked s \<noteq> [] \<longrightarrow> TimerWrapper_isActive (in_blocking_timer s)) \<and> fire_ok s)"

definition in_live :: "'a InState_scheme \<Rightarrow> bool" where
  "in_live s = (quiet_live s \<and> (in_queue s \<noteq> [] \<longrightarrow> TimerWrapper_isActive (in_timer s)))"

definition weight :: "'a InState_scheme \<Rightarrow> nat" where
  "weight s = sum_list (map (\<lambda>i. if ii_from_blocked i then 1 else 3) (in_queue s)) + 2 * length (in_blocked s)"

lemma setTimer_fields [simp]:
  "in_queue (setTimer rm s) = in_queue s" "in_blocked (setTimer rm s) = in_blocked s"
  "in_blocking_timer (setTimer rm s) = in_blocking_timer s" "weight (setTimer rm s) = weight s"
  "fire_ok (setTimer rm s) = fire_ok s"
  by (simp_all add: setTimer_def Let_def weight_def fire_ok_def split: list.split)

lemma setTimer_live: "quiet_live s \<Longrightarrow> in_live (setTimer rm s)"
  by (auto simp: in_live_def quiet_live_def setTimeout_reliable)
    (auto simp: setTimer_def Let_def setTimeout_reliable split: list.split)

lemma frame_quiet:
  assumes "quiet_live s" and "in_frame (s\<lparr>in_queue := q\<rparr>) t"
  shows "quiet_live t"
  using assms by (auto simp: quiet_live_def in_frame_def fire_ok_def)

lemma frame_weight: "in_frame s t \<Longrightarrow> weight t = weight s"
  by (simp add: weight_def in_frame_def)

lemma endBlocking_quiet: "quiet_live s \<Longrightarrow> quiet_live (endBlocking s)"
  by (simp add: quiet_live_def cancel_reliable) (simp add: endBlocking_def fire_ok_def)

lemma weight_endBlocking: "weight (endBlocking s) + length (in_blocked s) = weight s"
  by (simp add: weight_def comp_def sum_list_triv)

lemma truncate_fire_ok:
  fixes s t :: "'a InState_scheme"
  shows "VKState.truncate t = VKState.truncate s \<Longrightarrow> fire_ok t = fire_ok s"
  by (simp add: VKState.truncate_def fire_ok_def)

lemma doBlock_quiet:
  assumes "quiet_live s" and "in_queue s = front # rest" and "doBlockUntilKeyUp rm s = (needToFire, t)"
  shows "quiet_live t" and "needToFire \<Longrightarrow> in_queue t \<noteq> [] \<and> weight t \<le> weight s"
    and "\<not> needToFire \<Longrightarrow> weight t < weight s"
proof -
  have "quiet_live t \<and> (needToFire \<longrightarrow> in_queue t \<noteq> [] \<and> weight t \<le> weight s) \<and> (\<not> needToFire \<longrightarrow> weight t < weight s)"
    using assms(2,3)
  proof (cases rule: doBlock_cases)
    case pass
    with assms show ?thesis by simp
  next
    case (unblock u)
    have "quiet_live u" using assms(1) unblock truncate_fire_ok [of u s] by (simp add: quiet_live_def)
    then show ?thesis
      using unblock assms(2) weight_endBlocking [of u] endBlocking_quiet [of u] by (simp add: weight_def)
  next
    case (release u)
    have len: "length (in_blocked u) = Suc (length (in_blocked s))"
      using release(6) move_up_split [of "in_blocked s" front] by (metis length_append length_append_singleton list.size(4) add_Suc_right add.right_neutral One_nat_def add.assoc plus_1_eq_Suc)
    have "quiet_live u"
      using assms(1) release truncate_fire_ok [of u s] by (auto simp: quiet_live_def setTimeout_reliable)
    then show ?thesis
      using release assms(2) len weight_endBlocking [of u] endBlocking_quiet [of u] by (auto simp: weight_def)
  next
    case block
    then show ?thesis
      using assms(1,2) truncate_fire_ok [of t s] by (auto simp: quiet_live_def weight_def setTimeout_reliable)
  qed
  then show "quiet_live t" "needToFire \<Longrightarrow> in_queue t \<noteq> [] \<and> weight t \<le> weight s" "\<not> needToFire \<Longrightarrow> weight t < weight s"
    by blast+
qed

text \<open>The queues and their timers have nothing to do with the actions of the devices.\<close>

lemma hooks_kept_queues [simp]:
  "hooks_kept s (t\<lparr>in_queue := x1\<rparr>) = hooks_kept s t" "hooks_kept s (t\<lparr>in_timer := x2\<rparr>) = hooks_kept s t"
  "hooks_kept s (t\<lparr>in_blocked := x3\<rparr>) = hooks_kept s t" "hooks_kept s (t\<lparr>in_blocking_timer := x4\<rparr>) = hooks_kept s t"
  "hooks_kept s (t\<lparr>in_pressing := x5\<rparr>) = hooks_kept s t" "hooks_kept (s\<lparr>in_queue := x1\<rparr>) t = hooks_kept s t"
  "hooks_kept s (endBlocking t) = hooks_kept s t" "hooks_kept s (setIgnoreToAllPressingEvents t) = hooks_kept s t"
  "hooks_kept s (setTimer rm t) = hooks_kept s t"
  by (simp_all add: hooks_kept_def endBlocking_def setIgnoreToAllPressingEvents_def setTimer_def Let_def split: list.split)

lemma doBlock_hooks: "hooks_kept s (snd (doBlockUntilKeyUp rm s))"
  by (auto simp: doBlockUntilKeyUp_def Let_def split: list.split option.split)

context remapper
begin

lemma fire_front_total:
  assumes "quiet_live s"
  shows "\<exists>t. fire_front rm s = Some t \<and> quiet_live t \<and> hooks_kept s t \<and> (in_queue s \<noteq> [] \<longrightarrow> weight t < weight s)"
proof (cases "in_queue s")
  case Nil
  with assms show ?thesis by (simp add: fire_front_def)
next
  case (Cons front rest)
  define u where "u = updatePressingPhysicalKeys (ii_device front) (ii_params front) (s\<lparr>oq_serialNumber := oq_serialNumber s + 1\<rparr>)"
  have u: "in_frame s u" by (simp add: u_def updatePressingPhysicalKeys_def)
  then have qu: "quiet_live u" "in_queue u = front # rest" "weight u = weight s"
    using assms Cons frame_weight [OF u] by (simp_all add: quiet_live_def in_frame_def)
  obtain b v where v: "doBlockUntilKeyUp rm u = (b, v)" by (cases "doBlockUntilKeyUp rm u")
  have e: "fire_front rm s = (if b then doFire rm v else Some v)"
    by (simp add: fire_front_def Cons u_def [symmetric] v)
  note d = doBlock_quiet [OF qu(1,2) v]
  have h: "hooks_kept s v"
    using hooks_kept_trans [OF in_frame_hooks [OF u]] doBlock_hooks [of u rm] v by simp
  show ?thesis
  proof (cases b)
    case True
    with d obtain p ps where p: "in_queue v = p # ps" by (cases "in_queue v") auto
    from d(1) have "fire_ok v" by (simp add: quiet_live_def)
    from doFire_total [OF this p] obtain t where t: "doFire rm v = Some t" "in_frame (v\<lparr>in_queue := ps\<rparr>) t" by blast
    have "weight t < weight v" using frame_weight [OF t(2)] p by (simp add: weight_def)
    moreover have "hooks_kept s t" using hooks_kept_trans [OF h] in_frame_hooks [OF t(2)] by simp
    ultimately show ?thesis using frame_quiet [OF d(1) t(2)] d(2) e t(1) True qu(3) by simp
  next
    case False
    then show ?thesis using d e qu(3) h by simp
  qed
qed

lemma tick_total:
  assumes "in_live s"
  shows "\<exists>t. EventInputQueue_tick rm s = Some t \<and> in_live t \<and> hooks_kept s t"
proof -
  define u where "u = s\<lparr>in_timer := snd (timer_callback (in_timer s))\<rparr>"
  have k: "hooks_kept s u" by (simp add: u_def)
  have u: "quiet_live u"
    using assms callback_reliable [of "in_timer s"] by (auto simp: u_def in_live_def quiet_live_def fire_ok_def)
  show ?thesis
  proof (cases "fst (timer_callback (in_timer s))")
    case False
    then have "in_queue s = []"
      using assms by (auto simp: in_live_def timer_callback_def TimerWrapper_isActive_def Let_def split: if_splits)
    then have "in_live u" using u by (simp add: in_live_def) (simp add: u_def)
    then show ?thesis using False k by (simp add: EventInputQueue_tick_def case_prod_unfold Let_def u_def)
  next
    case True
    let ?b = "if on general_ignore_bouncing_events u then u\<lparr>in_queue := remove_bouncing u (in_queue u)\<rparr> else u"
    have b: "quiet_live ?b" using u by (simp add: quiet_live_def fire_ok_def)
    then have "fire_ok ?b" by (simp add: quiet_live_def)
    from simultaneous_total [OF this] obtain t where
      t: "simultaneous_loop rm ?b = Some (Inl t) \<and> in_queue t = [] \<or> simultaneous_loop rm ?b = Some (Inr t)"
        "in_frame (?b\<lparr>in_queue := in_queue t\<rparr>) t" by blast
    have q: "quiet_live t" using frame_quiet [OF b t(2)] .
    have h: "hooks_kept s t"
      using hooks_kept_trans [OF k] in_frame_hooks [OF t(2)] by (simp add: hooks_kept_def split: if_splits)
    from fire_front_total [OF q] obtain v where v: "fire_front rm t = Some v" "quiet_live v" "hooks_kept t v" by blast
    have "EventInputQueue_tick rm s = EventInputQueue_fire_timer_callback rm u"
      using True by (simp add: EventInputQueue_tick_def case_prod_unfold Let_def u_def)
    then show ?thesis
      using t(1) q v h hooks_kept_trans [OF h v(3)] setTimer_live [OF v(2)] by (auto simp: EventInputQueue_fire_timer_callback_def in_live_def)
  qed
qed

lemma blocking_tick_hooks: "hooks_kept s (blocking_tick rm s)"
  by (simp add: blocking_tick_def case_prod_unfold Let_def blockingTimeOut_timer_callback_def)

lemma blocking_tick_live:
  assumes "in_live s"
  shows "in_live (blocking_tick rm s)"
proof -
  define u where "u = s\<lparr>in_blocking_timer := snd (timer_callback (in_blocking_timer s))\<rparr>"
  note rel = callback_reliable [of "in_blocking_timer s"]
  show ?thesis
  proof (cases "fst (timer_callback (in_blocking_timer s))")
    case False
    then have "in_blocked s = []"
      using assms by (auto simp: in_live_def quiet_live_def timer_callback_def TimerWrapper_isActive_def Let_def split: if_splits)
    then have "in_live u" using assms rel by (simp add: in_live_def quiet_live_def u_def fire_ok_def)
    then show ?thesis using False by (simp add: blocking_tick_def case_prod_unfold Let_def u_def)
  next
    case True
    have "quiet_live (setIgnoreToAllPressingEvents (endBlocking u))"
      using assms rel
      by (auto simp: quiet_live_def in_live_def u_def fire_ok_def setIgnoreToAllPressingEvents_def cancel_reliable)
    then show ?thesis
      using True by (simp add: blocking_tick_def case_prod_unfold Let_def u_def blockingTimeOut_timer_callback_def setTimer_live)
  qed
qed

end

lemma get_frame [simp]: "in_frame s (snd (DeviceList_get k d t)) = in_frame s t"
  by (simp add: DeviceList_get_def set_list_def in_frame_lists)

lemma disable_internal_frame [simp]: "in_frame s (snd (disable_internal item t)) = in_frame s t"
  by (auto simp: disable_internal_def clearInternalKeyboardPressingPhysicalKeysCountAll_def
      clearPressingPhysicalKeysCount_def set_list_def comp_def intro!: in_frame_lists)

lemma frame_live: "in_live s \<Longrightarrow> in_frame s t \<Longrightarrow> in_live t"
  by (simp add: in_live_def quiet_live_def in_frame_def)

lemma live_updates [simp]:
  "in_live (s\<lparr>dv_ts := x1\<rparr>) = in_live s" "in_live (s\<lparr>vk_fnkeyhack := x2\<rparr>) = in_live s"
  "in_live (s\<lparr>dv_lists := x3\<rparr>) = in_live s"
  by (simp_all add: in_live_def quiet_live_def fire_ok_def)

lemma live_calls [simp]:
  "in_live s \<Longrightarrow> in_live (snd (DeviceList_get k d s))" "in_live s \<Longrightarrow> in_live (snd (disable_internal item s))"
  "in_live s \<Longrightarrow> in_live (update_item n f s)"
  by (auto simp: update_item_def elim: frame_live)

lemma enqueue_quiet:
  "quiet_live (enqueue p retain di dev front' target s) = quiet_live s"
  by (simp add: quiet_live_def enqueue_def fire_ok_def Let_def)

lemma enqueue_live [simp]: "in_live s \<Longrightarrow> in_live (setTimer rm (enqueue p retain di dev front' target s))"
  by (rule setTimer_live) (simp add: enqueue_quiet in_live_def)

lemma buttons_quiet: "quiet_live (fold (enqueue_button b jp jr item) is s) = quiet_live s"
  by (induction "is" arbitrary: s) (simp_all add: enqueue_button_def Let_def enqueue_quiet)

lemma hooks_kept_lists:
  "(\<And>k. map item_hook (dl_list (l k)) = map item_hook (dl_list (dv_lists t k))) \<Longrightarrow>
    hooks_kept s (t\<lparr>dv_lists := l\<rparr>) = hooks_kept s t"
  by (simp add: hooks_kept_def)

lemma hooks_kept_calls [simp]:
  "hooks_kept s (t\<lparr>dv_ts := x1\<rparr>) = hooks_kept s t" "hooks_kept s (t\<lparr>vk_fnkeyhack := x2\<rparr>) = hooks_kept s t"
  "hooks_kept s (enqueue p retain di dev front' target t) = hooks_kept s t"
  "hooks_kept s (snd (DeviceList_get k d t)) = hooks_kept s t"
  "hooks_kept s (snd (disable_internal item t)) = hooks_kept s t"
  "hooks_kept s (update_item n (\<lambda>it. it\<lparr>hi_previousbuttons := b\<rparr>) t) = hooks_kept s t"
proof -
  show "hooks_kept s (t\<lparr>dv_ts := x1\<rparr>) = hooks_kept s t" "hooks_kept s (t\<lparr>vk_fnkeyhack := x2\<rparr>) = hooks_kept s t"
    by (simp_all add: hooks_kept_def)
  show "hooks_kept s (enqueue p retain di dev front' target t) = hooks_kept s t"
    by (simp add: enqueue_def Let_def)
  show "hooks_kept s (snd (DeviceList_get k d t)) = hooks_kept s t"
    by (simp add: DeviceList_get_def set_list_def hooks_kept_lists)
  show "hooks_kept s (snd (disable_internal item t)) = hooks_kept s t"
    by (auto simp: disable_internal_def clearInternalKeyboardPressingPhysicalKeysCountAll_def
        clearPressingPhysicalKeysCount_def set_list_def comp_def intro!: hooks_kept_lists)
  show "hooks_kept s (update_item n (\<lambda>it. it\<lparr>hi_previousbuttons := b\<rparr>) t) = hooks_kept s t"
    unfolding update_item_def by (rule hooks_kept_lists) (simp add: comp_def)
qed

lemma hooks_kept_buttons [simp]: "hooks_kept s (fold (enqueue_button b jp jr item) is t) = hooks_kept s t"
  by (induction "is" arbitrary: t) (simp_all add: enqueue_button_def Let_def)

text \<open>The callbacks of the devices and of the two timers.\<close>

datatype InCall =
    IC_Keyboard u32 u32 u32 u32 u32 u32 u32 u32 bool u64 "nat option"
  | IC_Flags u32 "nat option"
  | IC_Special u32 u32 u32 u32 u64 bool u64 "nat option"
  | IC_Pointer u32 int int u64 "nat option"
  | IC_Scroll ScrollParams u64 "nat option"
  | IC_Timer
  | IC_BlockingTimer

fun input_call :: "('a InState_scheme) Remapper \<Rightarrow> InCall \<Rightarrow> 'a InState_scheme \<Rightarrow> 'a InState_scheme option" where
  "input_call rm (IC_Keyboard et fl k cc cs oc os kt r ts sender) s =
     Some (push_KeyboardEventCallback rm et fl k cc cs oc os kt r ts sender s)"
| "input_call rm (IC_Flags fl sender) s = Some (push_UpdateEventFlagsCallback fl sender s)"
| "input_call rm (IC_Special et fl k fv g r ts sender) s = Some (push_KeyboardSpecialEventCallback rm et fl k fv g r ts sender s)"
| "input_call rm (IC_Pointer b dx dy ts sender) s = Some (push_RelativePointerEventCallback rm b dx dy ts sender s)"
| "input_call rm (IC_Scroll p ts sender) s = Some (push_ScrollWheelEventCallback rm p ts sender s)"
| "input_call rm IC_Timer s = EventInputQueue_tick rm s"
| "input_call rm IC_BlockingTimer s = Some (blocking_tick rm s)"

fun input_calls :: "('a InState_scheme) Remapper \<Rightarrow> InCall list \<Rightarrow> 'a InState_scheme \<Rightarrow> 'a InState_scheme option" where
  "input_calls rm [] s = Some s"
| "input_calls rm (c # cs) s = Option.bind (input_call rm c s) (input_calls rm cs)"

context remapper
begin

lemma forcenumlockon_live [simp]: "in_live s \<Longrightarrow> in_live (rm_forcenumlockon rm i s)"
  by (rule frame_live [OF _ forcenumlockon_frame])

lemma push_live_calls:
  assumes "in_live s"
  shows "in_live (push_KeyboardEventCallback rm et fl k cc cs oc os kt r ts sender s)"
    and "in_live (push_UpdateEventFlagsCallback fl sender s)"
    and "in_live (push_KeyboardSpecialEventCallback rm et fl k fv g r ts sender s)"
    and "in_live (push_RelativePointerEventCallback rm b dx dy ts sender s)"
    and "in_live (push_ScrollWheelEventCallback rm p ts sender s)"
proof -
  show "in_live (push_KeyboardEventCallback rm et fl k cc cs oc os kt r ts sender s)"
    using assms by (auto simp: push_KeyboardEventCallback_def Let_def case_prod_unfold split: option.split)
  show "in_live (push_UpdateEventFlagsCallback fl sender s)"
    using assms by (simp add: push_UpdateEventFlagsCallback_def split: option.split)
  show "in_live (push_KeyboardSpecialEventCallback rm et fl k fv g r ts sender s)"
    using assms by (auto simp: push_KeyboardSpecialEventCallback_def Let_def case_prod_unfold split: option.split)
  show "in_live (push_ScrollWheelEventCallback rm p ts sender s)"
    using assms by (auto simp: push_ScrollWheelEventCallback_def Let_def case_prod_unfold split: option.split)
  have q: "quiet_live (update_item n f (u\<lparr>dv_ts := x\<rparr>))" if "in_live u" for n f u x
    using that by (simp add: in_live_def quiet_live_def update_item_def fire_ok_def)
  show "in_live (push_RelativePointerEventCallback rm b dx dy ts sender s)"
    using assms by (auto simp: push_RelativePointerEventCallback_def Let_def enqueue_quiet buttons_quiet case_prod_unfold
        split: option.split intro!: setTimer_live q)
qed

lemma push_hooks:
  "hooks_kept s (push_KeyboardEventCallback rm et fl k cc cs oc os kt r ts sender s)"
  "hooks_kept s (push_UpdateEventFlagsCallback fl sender s)"
  "hooks_kept s (push_KeyboardSpecialEventCallback rm et fl k fv g r ts sender s)"
  "hooks_kept s (push_RelativePointerEventCallback rm b dx dy ts sender s)"
  "hooks_kept s (push_ScrollWheelEventCallback rm p ts sender s)"
proof -
  have [simp]: "hooks_kept s (rm_forcenumlockon rm i t)" if "hooks_kept s t" for i t
    using hooks_kept_trans [OF that] in_frame_hooks [OF forcenumlockon_frame] by blast
  show "hooks_kept s (push_KeyboardEventCallback rm et fl k cc cs oc os kt r ts sender s)"
    by (auto simp: push_KeyboardEventCallback_def Let_def case_prod_unfold split: option.split)
  show "hooks_kept s (push_UpdateEventFlagsCallback fl sender s)"
    by (simp add: push_UpdateEventFlagsCallback_def split: option.split)
  show "hooks_kept s (push_KeyboardSpecialEventCallback rm et fl k fv g r ts sender s)"
    by (auto simp: push_KeyboardSpecialEventCallback_def Let_def case_prod_unfold split: option.split)
  show "hooks_kept s (push_ScrollWheelEventCallback rm p ts sender s)"
    by (auto simp: push_ScrollWheelEventCallback_def Let_def case_prod_unfold split: option.split)
  show "hooks_kept s (push_RelativePointerEventCallback rm b dx dy ts sender s)"
    by (auto simp: push_RelativePointerEventCallback_def Let_def case_prod_unfold split: option.split)
qed

lemma input_call_live: "in_live s \<Longrightarrow> \<exists>t. input_call rm c s = Some t \<and> in_live t \<and> hooks_kept s t"
  by (cases c) (simp_all add: push_live_calls tick_total blocking_tick_live push_hooks blocking_tick_hooks)

lemma input_calls_live: "in_live s \<Longrightarrow> \<exists>t. input_calls rm cs s = Some t \<and> in_live t"
proof (induction cs arbitrary: s)
  case (Cons c cs)
  from input_call_live [OF Cons.prems, of c] obtain t where "input_call rm c s = Some t" "in_live t" by blast
  with Cons.IH show ?case by simp
qed simp

lemma blocking_tick_weight: "weight (blocking_tick rm s) \<le> weight s"
proof -
  let ?u = "s\<lparr>in_blocking_timer := snd (timer_callback (in_blocking_timer s))\<rparr>"
  have "weight ?u = weight s" "weight (setIgnoreToAllPressingEvents (endBlocking ?u)) = weight (endBlocking ?u)"
    by (simp_all add: weight_def setIgnoreToAllPressingEvents_def)
  then show ?thesis
    using weight_endBlocking [of ?u] by (simp add: blocking_tick_def case_prod_unfold Let_def blockingTimeOut_timer_callback_def)
qed

lemma blocking_tick_unblocks:
  assumes "in_live s"
  shows "in_blocked (blocking_tick rm s) = []"
proof (cases "fst (timer_callback (in_blocking_timer s))")
  case True
  then show ?thesis
    by (simp add: blocking_tick_def case_prod_unfold Let_def blockingTimeOut_timer_callback_def setIgnoreToAllPressingEvents_def)
next
  case False
  then have "in_blocked s = []"
    using assms by (auto simp: in_live_def quiet_live_def timer_callback_def TimerWrapper_isActive_def Let_def split: if_splits)
  then show ?thesis using False by (simp add: blocking_tick_def case_prod_unfold Let_def)
qed

end

lemma weight_subseq:
  assumes "subseq ps qs"
  shows "weight (s\<lparr>in_queue := ps\<rparr>) \<le> weight (s\<lparr>in_queue := qs\<rparr>)"
  using assms by (induction rule: list_emb.induct) (simp_all add: weight_def)

context remapper
begin

text \<open>One round of the timer without keys pressed together: an event leaves the queue.\<close>

lemma tick_weight:
  assumes "in_live s" and quiet: "\<And>d s. \<not> fst (rm_simultaneouskeypresses rm d s)"
    and same: "\<And>d s. in_queue (snd (rm_simultaneouskeypresses rm d s)) = in_queue s"
  shows "\<exists>t. EventInputQueue_tick rm s = Some t \<and> (if in_queue s = [] then weight t = weight s else weight t < weight s)"
proof -
  define u where "u = s\<lparr>in_timer := snd (timer_callback (in_timer s))\<rparr>"
  have u: "quiet_live u" "in_queue u = in_queue s" "weight u = weight s"
    using assms(1) callback_reliable [of "in_timer s"] by (auto simp: u_def in_live_def quiet_live_def fire_ok_def weight_def)
  define b where "b = (if on general_ignore_bouncing_events u then u\<lparr>in_queue := remove_bouncing u (in_queue u)\<rparr> else u)"
  have b: "quiet_live b" "weight b \<le> weight s" "in_queue s = [] \<Longrightarrow> in_queue b = []" "in_blocked b = in_blocked u"
    using u weight_subseq [OF remove_bouncing_subseq [of u "in_queue u"], of u] remove_bouncing_subseq [of u "[]"]
    by (auto simp: b_def quiet_live_def fire_ok_def) (simp_all add: weight_def)
  have loop: "\<exists>t. simultaneous_loop rm b = Some (if in_queue b = [] then Inl t else Inr t) \<and> in_frame b t"
  proof (cases "in_queue b")
    case (Cons front rest)
    let ?d = "case iskeydown (ii_params front) of None \<Rightarrow> True | Some d \<Rightarrow> d"
    let ?v = "snd (rm_simultaneouskeypresses rm ?d (simultaneous_front front b))"
    have "in_frame b (simultaneous_front front b)"
      by (auto simp: simultaneous_front_def Let_def split: Params.splits intro: flag_calls_frame)
    then have "in_frame b ?v"
      using simultaneous_frame [of ?d "simultaneous_front front b"] same [of ?d "simultaneous_front front b"]
      by (simp add: in_frame_def fire_ok_def)
    moreover have "simultaneous_loop rm b = Some (Inr ?v)"
      using quiet [of ?d "simultaneous_front front b"]
      by (simp add: simultaneous_loop.simps [of rm b] Cons Let_def case_prod_unfold)
    ultimately show ?thesis using Cons by auto
  qed (auto simp: simultaneous_loop.simps [of rm b])
  then obtain t where t: "simultaneous_loop rm b = Some (if in_queue b = [] then Inl t else Inr t)" "in_frame b t" by blast
  have q: "quiet_live t" "weight t = weight b" "in_queue t = in_queue b"
    using b(1) t(2) frame_weight [OF t(2)] by (simp_all add: quiet_live_def in_frame_def)
  from fire_front_total [OF q(1)] obtain v where
    v: "fire_front rm t = Some v" "in_queue t \<noteq> [] \<Longrightarrow> weight v < weight t" by blast
  have fire: "EventInputQueue_fire_timer_callback rm u = Some (if in_queue b = [] then t else setTimer rm v)"
    using t(1) v(1) by (simp add: EventInputQueue_fire_timer_callback_def b_def [symmetric])
  have "fst (timer_callback (in_timer s))" if "in_queue s \<noteq> []"
    using assms(1) that by (auto simp: in_live_def timer_callback_def TimerWrapper_isActive_def Let_def)
  moreover have "weight t < weight s" if "in_queue s \<noteq> []" "in_queue b = []"
    using that u b(4) q by (cases "in_queue s") (auto simp: weight_def u_def)
  moreover have "weight t = weight s" if "in_queue s = []"
    using that u b(3,4) q by (simp add: weight_def u_def)
  ultimately show ?thesis
    using fire v(2) q b(2,3) by (auto simp: EventInputQueue_tick_def case_prod_unfold Let_def u_def [symmetric] u(3))
qed

lemma rounds_weight:
  assumes "in_live s" and "\<And>d s. \<not> fst (rm_simultaneouskeypresses rm d s)"
    and "\<And>d s. in_queue (snd (rm_simultaneouskeypresses rm d s)) = in_queue s"
  shows "\<exists>t. input_calls rm (concat (replicate n [IC_BlockingTimer, IC_Timer])) s = Some t \<and> in_live t \<and> weight t \<le> weight s - n"
  using assms(1)
proof (induction n arbitrary: s)
  case (Suc n)
  define u where "u = blocking_tick rm s"
  have u: "in_live u" "weight u \<le> weight s" "in_blocked u = []"
    using blocking_tick_live [OF Suc.prems] blocking_tick_weight [of s] blocking_tick_unblocks [OF Suc.prems]
    by (simp_all add: u_def)
  from tick_weight [OF u(1) assms(2,3)] tick_total [OF u(1)] obtain v where
    v: "EventInputQueue_tick rm u = Some v" "in_live v" "if in_queue u = [] then weight v = weight u else weight v < weight u"
    by auto
  have "weight v \<le> weight s - 1"
    using v(3) u(2,3) by (cases "in_queue u") (simp_all add: weight_def [of u])
  moreover from Suc.IH [OF v(2)] obtain t where
    "input_calls rm (concat (replicate n [IC_BlockingTimer, IC_Timer])) v = Some t" "in_live t" "weight t \<le> weight v - n" by blast
  ultimately show ?case using v(1) by (auto simp: u_def [symmetric])
qed simp

end

text \<open>
  While an event waits in the input queue its timer is pending, and while one waits in the blocked
  queue the blocking timer is pending: the callbacks of the devices and of the timers, in any order,
  return and keep this.
\<close>

theorem input_never_stalls:
  assumes "remapper rm" and "in_live s"
  shows "\<exists>t. input_calls rm cs s = Some t \<and> in_live t"
  by (rule remapper.input_calls_live [OF assms])


section \<open>Without remap classes\<close>

text \<open>The remap classes when none is enabled: nothing is changed.\<close>

definition no_remap :: "('a InState_scheme) Remapper" where
  "no_remap =
     \<lparr>rm_isSimultaneousKeyPressesEnabled = (\<lambda>_. False), rm_simultaneouskeypresses = (\<lambda>_ s. (False, s)),
      rm_isTargetEventForBlockUntilKeyUp = (\<lambda>_ _. False), rm_setkeyboardtype = (\<lambda>k _. k), rm_forcenumlockon = (\<lambda>_ s. s),
      rm_prepare = (\<lambda>p s. Some (p, s)), rm_remap = (\<lambda>p s. Some (p, s)), rm_cancelScroll = (\<lambda>s. s), rm_clear = (\<lambda>s. s)\<rparr>"

interpretation plain: remapper "no_remap :: ('a InState_scheme) Remapper"
  by unfold_locales (simp_all add: no_remap_def in_frame_def fire_ok_def)

definition input_static :: InState where
  "input_static = DeviceState.extend device_static
     \<lparr>in_queue = [], in_timer = timer_static, in_blocked = [], in_pressing = [], in_blocking_timer = timer_static\<rparr>"

definition waiting_key :: "EventType \<Rightarrow> KeyCode \<Rightarrow> InItem" where
  "waiting_key et k =
     \<lparr>ii_params = P_Keyboard (KeyboardParams_new normal_pairs et 0 k 0 False), ii_retain = False,
      ii_identifier = \<lparr>di_vendor = 0, di_product = 0, di_location = 0\<rparr>, ii_device = 0, ii_ic = (0, 0), ii_simultaneous = True, ii_from_blocked = False\<rparr>"

definition space_blocks :: "('a InState_scheme) Remapper" where
  "space_blocks = no_remap\<lparr>rm_isTargetEventForBlockUntilKeyUp := (\<lambda>p _. FromEvent_of_params p = FE_KEY KeyCode_SPACE)\<rparr>"

definition input_boot :: InState where
  "input_boot = EventInputQueue_initialize input_static"

lemma input_boot_simps [simp]:
  "in_queue input_boot = []" "in_blocked input_boot = []" "in_pressing input_boot = []"
  "in_timer input_boot = TimerWrapper_initialize True True timer_static"
  "in_blocking_timer input_boot = TimerWrapper_initialize True True timer_static"
  "vj_newkeycode input_boot = 0"
  by (simp_all add: input_boot_def EventInputQueue_initialize_def input_static_def DeviceState.extend_def device_static_def
      PressState.PressState.extend_def press_static_def RepeatState.extend_def)

definition with_queue :: "InItem list \<Rightarrow> InState" where
  "with_queue q = input_boot\<lparr>in_queue := q, in_timer := snd (setTimeoutMS 0 False (in_timer input_boot))\<rparr>"

lemma in_live_boot: "in_live input_boot" "in_live (with_queue q)"
proof -
  have t: "timer_reliable (TimerWrapper_initialize True True timer_static)"
    by (simp add: timer_reliable_def timer_inv_def timer_static_def TimerWrapper_initialize_def)
  then show "in_live input_boot" "in_live (with_queue q)"
    using setTimeout_reliable [OF t] by (simp_all add: in_live_def quiet_live_def fire_ok_def jis_keys_def with_queue_def)
qed

theorem doBlockUntilKeyUp_order_witness:
  "\<exists>t. doBlockUntilKeyUp space_blocks (input_boot\<lparr>in_blocked := [waiting_key EventType_DOWN KeyCode_SPACE,
        waiting_key EventType_DOWN KeyCode_A], in_queue := [waiting_key EventType_UP KeyCode_SPACE]\<rparr>) = (True, t) \<and>
     in_blocked t = [] \<and> length (in_queue t) = 3"
proof -
  let ?s = "input_boot\<lparr>in_blocked := [waiting_key EventType_DOWN KeyCode_SPACE,
        waiting_key EventType_DOWN KeyCode_A], in_queue := [waiting_key EventType_UP KeyCode_SPACE]\<rparr>"
  obtain b t where bt: "doBlockUntilKeyUp space_blocks ?s = (b, t)" by (cases "doBlockUntilKeyUp space_blocks ?s")
  have b: b "in_blocked t = []"
    using bt by (auto simp: doBlockUntilKeyUp_def waiting_key_def Let_def needToBlock_def space_blocks_def KeyboardParams_new_def
        KeyboardParams_full_def isKeyDownOrModifierDown_def)
  obtain xs ys where q: "in_blocked ?s = xs @ ys" "map ii_params (in_queue t) = map ii_params (xs @ waiting_key EventType_UP KeyCode_SPACE # ys @ [])"
    using doBlockUntilKeyUp_order [OF _ bt, of "waiting_key EventType_UP KeyCode_SPACE" "[]"] b
    by (auto simp del: map_append)
  have "length (in_queue t) = 3"
    using arg_cong [OF q(1), of length] arg_cong [OF q(2), of length] by simp
  then show ?thesis using bt b by simp
qed

theorem input_never_stalls_witness:
  "\<exists>t. input_calls no_remap [IC_Keyboard EventType_DOWN 0 KeyCode_A 0 0 0 0 0 False 0 (Some 0), IC_Timer, IC_BlockingTimer]
     input_boot = Some t \<and> in_live t"
  using input_never_stalls [OF plain.remapper_axioms in_live_boot(1)] by blast


end
