(* ===== verification/Bridge.thy ===== *)
theory Bridge
  imports EventParams
begin

text \<open>
  The type codes of \<^verbatim>\<open>bridge.h\<close> in the vector that describes the remap classes: data types, kinds of
  remappings, kinds of filters and the other entries. They are consecutive values of one enumeration;
  the codes that other theories name are declared there.
\<close>

abbreviation (input) BRIDGE_DATATYPE_MODIFIERFLAG :: u32 where "BRIDGE_DATATYPE_MODIFIERFLAG \<equiv> 2"
abbreviation (input) BRIDGE_DATATYPE_MODIFIERFLAGS_END :: u32 where "BRIDGE_DATATYPE_MODIFIERFLAGS_END \<equiv> 3"
abbreviation (input) BRIDGE_DATATYPE_POINTINGRELATIVE :: u32 where "BRIDGE_DATATYPE_POINTINGRELATIVE \<equiv> 7"
abbreviation (input) BRIDGE_DATATYPE_KEYBOARDTYPE :: u32 where "BRIDGE_DATATYPE_KEYBOARDTYPE \<equiv> 8"
abbreviation (input) BRIDGE_DATATYPE_DEVICEVENDOR :: u32 where "BRIDGE_DATATYPE_DEVICEVENDOR \<equiv> 9"
abbreviation (input) BRIDGE_DATATYPE_DEVICEPRODUCT :: u32 where "BRIDGE_DATATYPE_DEVICEPRODUCT \<equiv> 10"
abbreviation (input) BRIDGE_DATATYPE_DEVICELOCATION :: u32 where "BRIDGE_DATATYPE_DEVICELOCATION \<equiv> 11"
abbreviation (input) BRIDGE_DATATYPE_OPTION :: u32 where "BRIDGE_DATATYPE_OPTION \<equiv> 12"
abbreviation (input) BRIDGE_DATATYPE_MILLISECOND :: u32 where "BRIDGE_DATATYPE_MILLISECOND \<equiv> 13"
abbreviation (input) BRIDGE_DATATYPE_DELAYUNTILREPEAT :: u32 where "BRIDGE_DATATYPE_DELAYUNTILREPEAT \<equiv> 14"
abbreviation (input) BRIDGE_DATATYPE_KEYREPEAT :: u32 where "BRIDGE_DATATYPE_KEYREPEAT \<equiv> 15"
abbreviation (input) BRIDGE_DATATYPE_THRESHOLDMILLISECOND :: u32 where "BRIDGE_DATATYPE_THRESHOLDMILLISECOND \<equiv> 16"
abbreviation (input) BRIDGE_DATATYPE_COUNT :: u32 where "BRIDGE_DATATYPE_COUNT \<equiv> 17"
abbreviation (input) BRIDGE_DATATYPE_EVENTTYPE :: u32 where "BRIDGE_DATATYPE_EVENTTYPE \<equiv> 18"
abbreviation (input) BRIDGE_REMAPTYPE_NONE :: u32 where "BRIDGE_REMAPTYPE_NONE \<equiv> 19"
abbreviation (input) BRIDGE_REMAPTYPE_PASSTHROUGH :: u32 where "BRIDGE_REMAPTYPE_PASSTHROUGH \<equiv> 20"
abbreviation (input) BRIDGE_REMAPTYPE_KEYTOKEY :: u32 where "BRIDGE_REMAPTYPE_KEYTOKEY \<equiv> 21"
abbreviation (input) BRIDGE_REMAPTYPE_DOUBLEPRESSMODIFIER :: u32 where "BRIDGE_REMAPTYPE_DOUBLEPRESSMODIFIER \<equiv> 22"
abbreviation (input) BRIDGE_REMAPTYPE_DROPKEYAFTERREMAP :: u32 where "BRIDGE_REMAPTYPE_DROPKEYAFTERREMAP \<equiv> 23"
abbreviation (input) BRIDGE_REMAPTYPE_DROPALLKEYS :: u32 where "BRIDGE_REMAPTYPE_DROPALLKEYS \<equiv> 24"
abbreviation (input) BRIDGE_REMAPTYPE_DROPPOINTINGRELATIVECURSORMOVE :: u32 where "BRIDGE_REMAPTYPE_DROPPOINTINGRELATIVECURSORMOVE \<equiv> 25"
abbreviation (input) BRIDGE_REMAPTYPE_DROPSCROLLWHEEL :: u32 where "BRIDGE_REMAPTYPE_DROPSCROLLWHEEL \<equiv> 26"
abbreviation (input) BRIDGE_REMAPTYPE_FLIPPOINTINGRELATIVE :: u32 where "BRIDGE_REMAPTYPE_FLIPPOINTINGRELATIVE \<equiv> 27"
abbreviation (input) BRIDGE_REMAPTYPE_FLIPSCROLLWHEEL :: u32 where "BRIDGE_REMAPTYPE_FLIPSCROLLWHEEL \<equiv> 28"
abbreviation (input) BRIDGE_REMAPTYPE_FORCENUMLOCKON :: u32 where "BRIDGE_REMAPTYPE_FORCENUMLOCKON \<equiv> 29"
abbreviation (input) BRIDGE_REMAPTYPE_HOLDINGKEYTOKEY :: u32 where "BRIDGE_REMAPTYPE_HOLDINGKEYTOKEY \<equiv> 30"
abbreviation (input) BRIDGE_REMAPTYPE_IGNOREMULTIPLESAMEKEYPRESS :: u32 where "BRIDGE_REMAPTYPE_IGNOREMULTIPLESAMEKEYPRESS \<equiv> 31"
abbreviation (input) BRIDGE_REMAPTYPE_KEYOVERLAIDMODIFIER :: u32 where "BRIDGE_REMAPTYPE_KEYOVERLAIDMODIFIER \<equiv> 32"
abbreviation (input) BRIDGE_REMAPTYPE_KEYDOWNUPTOKEY :: u32 where "BRIDGE_REMAPTYPE_KEYDOWNUPTOKEY \<equiv> 33"
abbreviation (input) BRIDGE_REMAPTYPE_POINTINGRELATIVETOKEY :: u32 where "BRIDGE_REMAPTYPE_POINTINGRELATIVETOKEY \<equiv> 34"
abbreviation (input) BRIDGE_REMAPTYPE_POINTINGRELATIVETOSCROLL :: u32 where "BRIDGE_REMAPTYPE_POINTINGRELATIVETOSCROLL \<equiv> 35"
abbreviation (input) BRIDGE_REMAPTYPE_SIMULTANEOUSKEYPRESSES :: u32 where "BRIDGE_REMAPTYPE_SIMULTANEOUSKEYPRESSES \<equiv> 36"
abbreviation (input) BRIDGE_REMAPTYPE_SETKEYBOARDTYPE :: u32 where "BRIDGE_REMAPTYPE_SETKEYBOARDTYPE \<equiv> 37"
abbreviation (input) BRIDGE_REMAPTYPE_SCROLLWHEELTOSCROLLWHEEL :: u32 where "BRIDGE_REMAPTYPE_SCROLLWHEELTOSCROLLWHEEL \<equiv> 38"
abbreviation (input) BRIDGE_REMAPTYPE_SCROLLWHEELTOKEY :: u32 where "BRIDGE_REMAPTYPE_SCROLLWHEELTOKEY \<equiv> 39"
abbreviation (input) BRIDGE_REMAPTYPE_BLOCKUNTILKEYUP :: u32 where "BRIDGE_REMAPTYPE_BLOCKUNTILKEYUP \<equiv> 40"
abbreviation (input) BRIDGE_REMAPTYPE_END :: u32 where "BRIDGE_REMAPTYPE_END \<equiv> 41"
abbreviation (input) BRIDGE_FILTERTYPE_NONE :: u32 where "BRIDGE_FILTERTYPE_NONE \<equiv> 42"
abbreviation (input) BRIDGE_FILTERTYPE_APPLICATION_NOT :: u32 where "BRIDGE_FILTERTYPE_APPLICATION_NOT \<equiv> 43"
abbreviation (input) BRIDGE_FILTERTYPE_APPLICATION_ONLY :: u32 where "BRIDGE_FILTERTYPE_APPLICATION_ONLY \<equiv> 44"
abbreviation (input) BRIDGE_FILTERTYPE_WINDOWNAME_NOT :: u32 where "BRIDGE_FILTERTYPE_WINDOWNAME_NOT \<equiv> 45"
abbreviation (input) BRIDGE_FILTERTYPE_WINDOWNAME_ONLY :: u32 where "BRIDGE_FILTERTYPE_WINDOWNAME_ONLY \<equiv> 46"
abbreviation (input) BRIDGE_FILTERTYPE_UIELEMENTROLE_NOT :: u32 where "BRIDGE_FILTERTYPE_UIELEMENTROLE_NOT \<equiv> 47"
abbreviation (input) BRIDGE_FILTERTYPE_UIELEMENTROLE_ONLY :: u32 where "BRIDGE_FILTERTYPE_UIELEMENTROLE_ONLY \<equiv> 48"
abbreviation (input) BRIDGE_FILTERTYPE_CONFIG_NOT :: u32 where "BRIDGE_FILTERTYPE_CONFIG_NOT \<equiv> 49"
abbreviation (input) BRIDGE_FILTERTYPE_CONFIG_ONLY :: u32 where "BRIDGE_FILTERTYPE_CONFIG_ONLY \<equiv> 50"
abbreviation (input) BRIDGE_FILTERTYPE_DEVICE_NOT :: u32 where "BRIDGE_FILTERTYPE_DEVICE_NOT \<equiv> 51"
abbreviation (input) BRIDGE_FILTERTYPE_DEVICE_ONLY :: u32 where "BRIDGE_FILTERTYPE_DEVICE_ONLY \<equiv> 52"
abbreviation (input) BRIDGE_FILTERTYPE_ELAPSEDTIMESINCELASTPRESSED_GREATERTHAN :: u32 where "BRIDGE_FILTERTYPE_ELAPSEDTIMESINCELASTPRESSED_GREATERTHAN \<equiv> 53"
abbreviation (input) BRIDGE_FILTERTYPE_ELAPSEDTIMESINCELASTPRESSED_LESSTHAN :: u32 where "BRIDGE_FILTERTYPE_ELAPSEDTIMESINCELASTPRESSED_LESSTHAN \<equiv> 54"
abbreviation (input) BRIDGE_FILTERTYPE_ELAPSEDTIMESINCELASTRELEASED_GREATERTHAN :: u32 where "BRIDGE_FILTERTYPE_ELAPSEDTIMESINCELASTRELEASED_GREATERTHAN \<equiv> 55"
abbreviation (input) BRIDGE_FILTERTYPE_ELAPSEDTIMESINCELASTRELEASED_LESSTHAN :: u32 where "BRIDGE_FILTERTYPE_ELAPSEDTIMESINCELASTRELEASED_LESSTHAN \<equiv> 56"
abbreviation (input) BRIDGE_FILTERTYPE_INPUTSOURCE_NOT :: u32 where "BRIDGE_FILTERTYPE_INPUTSOURCE_NOT \<equiv> 57"
abbreviation (input) BRIDGE_FILTERTYPE_INPUTSOURCE_ONLY :: u32 where "BRIDGE_FILTERTYPE_INPUTSOURCE_ONLY \<equiv> 58"
abbreviation (input) BRIDGE_FILTERTYPE_LASTPRESSEDPHYSICALKEY_NOT :: u32 where "BRIDGE_FILTERTYPE_LASTPRESSEDPHYSICALKEY_NOT \<equiv> 59"
abbreviation (input) BRIDGE_FILTERTYPE_LASTPRESSEDPHYSICALKEY_ONLY :: u32 where "BRIDGE_FILTERTYPE_LASTPRESSEDPHYSICALKEY_ONLY \<equiv> 60"
abbreviation (input) BRIDGE_FILTERTYPE_LASTRELEASEDPHYSICALKEY_NOT :: u32 where "BRIDGE_FILTERTYPE_LASTRELEASEDPHYSICALKEY_NOT \<equiv> 61"
abbreviation (input) BRIDGE_FILTERTYPE_LASTRELEASEDPHYSICALKEY_ONLY :: u32 where "BRIDGE_FILTERTYPE_LASTRELEASEDPHYSICALKEY_ONLY \<equiv> 62"
abbreviation (input) BRIDGE_FILTERTYPE_LASTSENTEVENT_NOT :: u32 where "BRIDGE_FILTERTYPE_LASTSENTEVENT_NOT \<equiv> 63"
abbreviation (input) BRIDGE_FILTERTYPE_LASTSENTEVENT_ONLY :: u32 where "BRIDGE_FILTERTYPE_LASTSENTEVENT_ONLY \<equiv> 64"
abbreviation (input) BRIDGE_FILTERTYPE_MODIFIER_NOT :: u32 where "BRIDGE_FILTERTYPE_MODIFIER_NOT \<equiv> 65"
abbreviation (input) BRIDGE_FILTERTYPE_MODIFIER_ONLY :: u32 where "BRIDGE_FILTERTYPE_MODIFIER_ONLY \<equiv> 66"
abbreviation (input) BRIDGE_FILTERTYPE_MODIFIER_LOCKED_NOT :: u32 where "BRIDGE_FILTERTYPE_MODIFIER_LOCKED_NOT \<equiv> 67"
abbreviation (input) BRIDGE_FILTERTYPE_MODIFIER_LOCKED_ONLY :: u32 where "BRIDGE_FILTERTYPE_MODIFIER_LOCKED_ONLY \<equiv> 68"
abbreviation (input) BRIDGE_FILTERTYPE_MODIFIER_STUCK_NOT :: u32 where "BRIDGE_FILTERTYPE_MODIFIER_STUCK_NOT \<equiv> 69"
abbreviation (input) BRIDGE_FILTERTYPE_MODIFIER_STUCK_ONLY :: u32 where "BRIDGE_FILTERTYPE_MODIFIER_STUCK_ONLY \<equiv> 70"
abbreviation (input) BRIDGE_FILTERTYPE_PRESSINGPHYSICALKEYS_GREATERTHAN :: u32 where "BRIDGE_FILTERTYPE_PRESSINGPHYSICALKEYS_GREATERTHAN \<equiv> 71"
abbreviation (input) BRIDGE_FILTERTYPE_PRESSINGPHYSICALKEYS_LESSTHAN :: u32 where "BRIDGE_FILTERTYPE_PRESSINGPHYSICALKEYS_LESSTHAN \<equiv> 72"
abbreviation (input) BRIDGE_FILTERTYPE_END :: u32 where "BRIDGE_FILTERTYPE_END \<equiv> 73"
abbreviation (input) BRIDGE_WORKSPACETYPE_END :: u32 where "BRIDGE_WORKSPACETYPE_END \<equiv> 79"
abbreviation (input) BRIDGE_STATUSMESSAGE :: u32 where "BRIDGE_STATUSMESSAGE \<equiv> 80"
abbreviation (input) BRIDGE_MODIFIERNAME :: u32 where "BRIDGE_MODIFIERNAME \<equiv> 81"
abbreviation (input) BRIDGE_VK_MODIFIER :: u32 where "BRIDGE_VK_MODIFIER \<equiv> 82"
abbreviation (input) BRIDGE_VK_CONFIG :: u32 where "BRIDGE_VK_CONFIG \<equiv> 83"
abbreviation (input) BRIDGE_VK_CHANGE_INPUTSOURCE :: u32 where "BRIDGE_VK_CHANGE_INPUTSOURCE \<equiv> 84"
abbreviation (input) BRIDGE_VK_OPEN_URL :: u32 where "BRIDGE_VK_OPEN_URL \<equiv> 85"

end
