(* ===== verification/KeyToKeys.thy ===== *)
theory KeyToKeys
  imports InputLive Bridge
begin

text \<open>
  \<^verbatim>\<open>RemapFunc::KeyToKey\<close>, the remapping that most of the others are made of: a key, consumer key or
  button with modifiers becomes a sequence of events. Objects live at addresses, which the register
  of pressed \<open>FromEvent\<close> objects, the target of the static timer and the list of
  \<open>RemapClassManager::prepare\<close> refer to; the only \<open>FromEvent\<close> of an object has its address. The
  result of a call is an option, \<open>None\<close> for a call that does not return.
\<close>

section \<open>State\<close>

datatype CurrentToEvent =
    TO_KEYS
  | BEFORE_KEYS
  | AFTER_KEYS
  | DELAYED_ACTION_KEYS
  | DELAYED_ACTION_CANCELED_DEFAULT_KEYS
  | DELAYED_ACTION_CANCELED_BY_KEYS
  | INCREASE_MODIFIER_FLAGS

record KeyToKey =
  kk_autogenId :: AutogenId
  kk_index :: nat
  kk_fromEvent :: FromEvent
  kk_fromModifierFlags :: "ModifierFlag list"
  kk_pureFromModifierFlags :: "ModifierFlag list"
  kk_toKeys :: "ToEvent list"
  kk_beforeKeys :: "ToEvent list"
  kk_afterKeys :: "ToEvent list list"
  kk_delayedActionKeys :: "ToEvent list"
  kk_delayedActionCanceledDefaultKeys :: "ToEvent list"
  kk_delayedActionCanceledByKeys :: "ToEvent list list"
  kk_increaseModifierFlags :: "ToEvent list"
  kk_currentToEvent :: CurrentToEvent
  kk_keyboardRepeatID :: int
  kk_isRepeatEnabled :: bool
  kk_lastPhysicalEventType :: PhysicalEventType
  kk_delayUntilRepeat :: int
  kk_keyRepeat :: int

text \<open>
  \<open>rf_live\<close> lists the objects derived from \<open>RemapFuncBase\<close> that exist (\<open>WeakPointerManager\<close>),
  \<open>pt_list\<close> the weak pointers in \<open>prepareTargetItems_\<close>. \<open>kt_timer\<close>, \<open>kt_target\<close> and \<open>kt_flagStatus\<close> are the
  static members of the class.
\<close>

record KeyState = InState +
  rf_live :: "nat list"
  pt_list :: "nat list"
  kt_objects :: "nat \<Rightarrow> KeyToKey"
  kt_timer :: TimerWrapper
  kt_target :: "nat option"
  kt_flagStatus :: "FlagItem list"

definition KeyToKey_new :: "AutogenId \<Rightarrow> KeyToKey" where
  "KeyToKey_new autogenId =
     \<lparr>kk_autogenId = autogenId, kk_index = 0, kk_fromEvent = FE_NONE, kk_fromModifierFlags = [],
      kk_pureFromModifierFlags = [], kk_toKeys = [], kk_beforeKeys = [], kk_afterKeys = [],
      kk_delayedActionKeys = [], kk_delayedActionCanceledDefaultKeys = [], kk_delayedActionCanceledByKeys = [],
      kk_increaseModifierFlags = [], kk_currentToEvent = TO_KEYS, kk_keyboardRepeatID = -1,
      kk_isRepeatEnabled = True, kk_lastPhysicalEventType = PE_DOWN, kk_delayUntilRepeat = -1, kk_keyRepeat = -1\<rparr>"

definition RemapFuncBase_new :: "nat \<Rightarrow> 'a KeyState_scheme \<Rightarrow> 'a KeyState_scheme" where
  "RemapFuncBase_new this s = s\<lparr>rf_live := this # rf_live s\<rparr>"

definition RemapFuncBase_delete :: "nat \<Rightarrow> 'a KeyState_scheme \<Rightarrow> 'a KeyState_scheme" where
  "RemapFuncBase_delete this s = s\<lparr>rf_live := filter (\<lambda>p. p \<noteq> this) (rf_live s)\<rparr>"

text \<open>The destructor, with those of the \<open>FromEvent\<close> and of the base class.\<close>

definition KeyToKey_delete :: "nat \<Rightarrow> 'a KeyState_scheme \<Rightarrow> 'a KeyState_scheme" where
  "KeyToKey_delete this s =
     (let s = (if kt_target s = Some this
               then s\<lparr>kt_timer := cancelTimeout (kt_timer s), kt_target := None\<rparr> else s)
      in RemapFuncBase_delete this (PressingFromEvents_erase_all this s))"

definition KeyToKey_static_initialize :: "'a KeyState_scheme \<Rightarrow> 'a KeyState_scheme" where
  "KeyToKey_static_initialize s = s\<lparr>kt_timer := TimerWrapper_initialize True True (kt_timer s)\<rparr>"

definition KeyToKey_static_terminate :: "'a KeyState_scheme \<Rightarrow> 'a KeyState_scheme" where
  "KeyToKey_static_terminate s = s\<lparr>kt_timer := TimerWrapper_terminate (kt_timer s)\<rparr>"

section \<open>The list of objects to prepare\<close>

text \<open>The loop also drops the weak pointers that have expired.\<close>

definition unregisterPrepareTargetItem :: "nat \<Rightarrow> 'a KeyState_scheme \<Rightarrow> 'a KeyState_scheme" where
  "unregisterPrepareTargetItem processor s =
     s\<lparr>pt_list := filter (\<lambda>p. \<not> (p \<notin> set (rf_live s) \<or> p = processor)) (pt_list s)\<rparr>"

definition registerPrepareTargetItem :: "nat \<Rightarrow> 'a KeyState_scheme \<Rightarrow> 'a KeyState_scheme" where
  "registerPrepareTargetItem processor s =
     (let s = unregisterPrepareTargetItem processor s in s\<lparr>pt_list := pt_list s @ [processor]\<rparr>)"

section \<open>Reading a setting\<close>

definition ModifierFlag_of_data :: "u32 \<Rightarrow> u32 \<Rightarrow> ModifierFlag" where
  "ModifierFlag_of_data datatype newval = (if datatype = BRIDGE_DATATYPE_MODIFIERFLAG then newval else 0)"

definition is_event_data :: "u32 \<Rightarrow> bool" where
  "is_event_data datatype =
     (datatype = BRIDGE_DATATYPE_KEYCODE \<or> datatype = BRIDGE_DATATYPE_CONSUMERKEYCODE \<or>
      datatype = BRIDGE_DATATYPE_POINTINGBUTTON)"

definition is_modifier_data :: "u32 \<Rightarrow> bool" where
  "is_modifier_data datatype =
     (datatype = BRIDGE_DATATYPE_MODIFIERFLAG \<or> datatype = BRIDGE_DATATYPE_MODIFIERFLAGS_END)"

text \<open>Change the last element, as through \<open>back()\<close>.\<close>

fun map_last :: "('a \<Rightarrow> 'a) \<Rightarrow> 'a list \<Rightarrow> 'a list" where
  "map_last f [] = []"
| "map_last f [x] = [f x]"
| "map_last f (x # y # xs) = x # map_last f (y # xs)"

text \<open>\<open>getCurrentToEvent\<close> returns a reference: the vector is changed with \<open>f\<close>.\<close>

definition getCurrentToEvent :: "(ToEvent list \<Rightarrow> ToEvent list) \<Rightarrow> KeyToKey \<Rightarrow> KeyToKey" where
  "getCurrentToEvent f k =
     (case kk_currentToEvent k of
        TO_KEYS \<Rightarrow> k\<lparr>kk_toKeys := f (kk_toKeys k)\<rparr>
      | BEFORE_KEYS \<Rightarrow> k\<lparr>kk_beforeKeys := f (kk_beforeKeys k)\<rparr>
      | AFTER_KEYS \<Rightarrow> k\<lparr>kk_afterKeys := map_last f (kk_afterKeys k)\<rparr>
      | DELAYED_ACTION_KEYS \<Rightarrow> k\<lparr>kk_delayedActionKeys := f (kk_delayedActionKeys k)\<rparr>
      | DELAYED_ACTION_CANCELED_DEFAULT_KEYS \<Rightarrow>
          k\<lparr>kk_delayedActionCanceledDefaultKeys := f (kk_delayedActionCanceledDefaultKeys k)\<rparr>
      | DELAYED_ACTION_CANCELED_BY_KEYS \<Rightarrow>
          k\<lparr>kk_delayedActionCanceledByKeys := map_last f (kk_delayedActionCanceledByKeys k)\<rparr>
      | INCREASE_MODIFIER_FLAGS \<Rightarrow> k\<lparr>kk_increaseModifierFlags := f (kk_increaseModifierFlags k)\<rparr>)"

definition KeyToKey_add_option :: "Option \<Rightarrow> KeyToKey \<Rightarrow> KeyToKey" where
  "KeyToKey_add_option option k =
     (if Option_NOREPEAT = option then k\<lparr>kk_isRepeatEnabled := False\<rparr>
      else if Option_KEYTOKEY_BEFORE_KEYDOWN = option then k\<lparr>kk_currentToEvent := BEFORE_KEYS\<rparr>
      else if Option_KEYTOKEY_AFTER_KEYUP = option
      then k\<lparr>kk_afterKeys := kk_afterKeys k @ [[ToEvent_new (TE_KEY KeyCode_VK_NONE)]], kk_currentToEvent := AFTER_KEYS\<rparr>
      else if Option_KEYTOKEY_DELAYED_ACTION = option then k\<lparr>kk_currentToEvent := DELAYED_ACTION_KEYS\<rparr>
      else if Option_KEYTOKEY_DELAYED_ACTION_CANCELED_DEFAULT = option
      then k\<lparr>kk_currentToEvent := DELAYED_ACTION_CANCELED_DEFAULT_KEYS\<rparr>
      else if Option_KEYTOKEY_DELAYED_ACTION_CANCELED_BY = option
      then k\<lparr>kk_delayedActionCanceledByKeys := kk_delayedActionCanceledByKeys k @ [[]],
             kk_currentToEvent := DELAYED_ACTION_CANCELED_BY_KEYS\<rparr>
      else if Option_KEYTOKEY_INCREASE_MODIFIER_FLAGS = option
      then k\<lparr>kk_increaseModifierFlags := kk_increaseModifierFlags k @ [ToEvent_new (TE_KEY KeyCode_VK_NONE)],
             kk_currentToEvent := INCREASE_MODIFIER_FLAGS\<rparr>
      else k)"

text \<open>\<open>max\<close> is the kernel's function on \<open>unsigned int\<close>; its result is stored in an \<open>int\<close>.\<close>

definition KeyToKey_add :: "Pair list \<Rightarrow> u32 \<Rightarrow> u32 \<Rightarrow> KeyToKey \<Rightarrow> KeyToKey" where
  "KeyToKey_add pairs datatype newval k =
     (if is_event_data datatype
      then
        (if kk_index k = 0 then k\<lparr>kk_fromEvent := FromEvent_of_data datatype newval\<rparr>
         else getCurrentToEvent (\<lambda>keys. keys @ [ToEvent_of_data datatype newval]) k)
        \<lparr>kk_index := kk_index k + 1\<rparr>
      else if is_modifier_data datatype
      then
        (if kk_index k = 0 then k
         else if kk_index k = 1
         then
           let modifierFlag = ModifierFlag_of_data datatype newval;
               k = k\<lparr>kk_fromModifierFlags := kk_fromModifierFlags k @ [modifierFlag]\<rparr>
           in if FromEvent_getModifierFlag pairs (kk_fromEvent k) \<noteq> modifierFlag
              then k\<lparr>kk_pureFromModifierFlags := kk_pureFromModifierFlags k @ [modifierFlag]\<rparr> else k
         else getCurrentToEvent (map_last (ToEvent_addModifierFlag (ModifierFlag_of_data datatype newval))) k)
      else if datatype = BRIDGE_DATATYPE_OPTION then KeyToKey_add_option newval k
      else if datatype = BRIDGE_DATATYPE_DELAYUNTILREPEAT then k\<lparr>kk_delayUntilRepeat := sint (max newval 1)\<rparr>
      else if datatype = BRIDGE_DATATYPE_KEYREPEAT then k\<lparr>kk_keyRepeat := sint (max newval 1)\<rparr>
      else k)"

definition KeyToKey_clearToKeys :: "KeyToKey \<Rightarrow> KeyToKey" where
  "KeyToKey_clearToKeys k =
     k\<lparr>kk_index := (if kk_index k > 1 then 1 else kk_index k), kk_toKeys := [], kk_beforeKeys := [],
       kk_afterKeys := [], kk_delayedActionKeys := [], kk_delayedActionCanceledDefaultKeys := [],
       kk_delayedActionCanceledByKeys := [], kk_increaseModifierFlags := [], kk_currentToEvent := TO_KEYS\<rparr>"

definition isLastToEventModifierKeyOrLikeModifier :: "KeyToKey \<Rightarrow> 'a RepeatState_scheme \<Rightarrow> bool" where
  "isLastToEventModifierKeyOrLikeModifier k s =
     (if kk_toKeys k = [] then False
      else
        let lastToEvent = last (kk_toKeys k)
        in ToEvent_getModifierFlag (cs_pairs s) lastToEvent \<noteq> ModifierFlag_ZERO \<or> isEventLikeModifier lastToEvent s)"

section \<open>Delayed actions\<close>

text \<open>The loop that several places share: each key with its modifiers.\<close>

fun fire_downup_keys ::
  "AutogenId \<Rightarrow> PhysicalEventType \<Rightarrow> bool \<Rightarrow> ToEvent list \<Rightarrow> 'a RepeatState_scheme \<Rightarrow> 'a RepeatState_scheme option"
where
  "fire_downup_keys autogenId physicalEventType add_to_keyrepeat [] s = Some s"
| "fire_downup_keys autogenId physicalEventType add_to_keyrepeat (key # keys) s =
     do {
       s \<leftarrow> fire_downup autogenId physicalEventType add_to_keyrepeat key
              (FlagStatus_temporary_increase (FA_Flags (te_modifierFlags key)) s);
       fire_downup_keys autogenId physicalEventType add_to_keyrepeat keys
         (FlagStatus_temporary_decrease (FA_Flags (te_modifierFlags key)) s)
     }"

fun fire_delayed_keys ::
  "AutogenId \<Rightarrow> PhysicalEventType \<Rightarrow> ToEvent list \<Rightarrow> 'a RepeatState_scheme \<Rightarrow> 'a RepeatState_scheme option"
where
  "fire_delayed_keys autogenId physicalEventType [] s = Some s"
| "fire_delayed_keys autogenId physicalEventType (key # keys) s =
     do {
       let s = (if ToEvent_is_key key KeyCode_VK_KEYTOKEY_DELAYED_ACTION_DROP_EVENT
                then s\<lparr>vk_needToDrop := True\<rparr> else s);
       s \<leftarrow> fire_downup autogenId physicalEventType False key
              (FlagStatus_temporary_increase (FA_Flags (te_modifierFlags key)) s);
       fire_delayed_keys autogenId physicalEventType keys
         (FlagStatus_temporary_decrease (FA_Flags (te_modifierFlags key)) s)
     }"

definition doDelayedAction :: "nat \<Rightarrow> ToEvent list \<Rightarrow> bool \<Rightarrow> 'a KeyState_scheme \<Rightarrow> 'a KeyState_scheme option" where
  "doDelayedAction this keys delayedActionCanceledBy s =
     (if keys = [] then Some s
      else
        let k = kt_objects s this;
            (setter, s) = ScopedSetter_new (kt_flagStatus s) s;
            flags = FA_Flags (te_modifierFlags (hd keys));
            s = (if delayedActionCanceledBy then FlagStatus_temporary_decrease flags s else s)
        in do {
          s \<leftarrow> fire_delayed_keys (kk_autogenId k) (kk_lastPhysicalEventType k)
                 (if delayedActionCanceledBy then tl keys else keys) s;
          let s = (if delayedActionCanceledBy then FlagStatus_temporary_increase flags s else s);
          Some (ScopedSetter_delete setter s)
        })"

definition KeyToKey_fire_timer_callback :: "'a KeyState_scheme \<Rightarrow> 'a KeyState_scheme option" where
  "KeyToKey_fire_timer_callback s =
     (case kt_target s of
        None \<Rightarrow> Some s
      | Some target \<Rightarrow> doDelayedAction target (kk_delayedActionKeys (kt_objects s target)) False s)"

definition KeyToKey_tick :: "'a KeyState_scheme \<Rightarrow> 'a KeyState_scheme option" where
  "KeyToKey_tick s =
     (let (run, t) = timer_callback (kt_timer s);
          s = s\<lparr>kt_timer := t\<rparr>
      in if run then KeyToKey_fire_timer_callback s else Some s)"

definition KeyToKey_prepare :: "nat \<Rightarrow> RemapParams \<Rightarrow> 'a KeyState_scheme \<Rightarrow> 'a KeyState_scheme option" where
  "KeyToKey_prepare this remapParams s =
     (if iskeydown (rp_params remapParams) = Some True
      then
        let s = unregisterPrepareTargetItem this s in
        if TimerWrapper_isActive (kt_timer s)
        then
          let s = s\<lparr>kt_timer := cancelTimeout (kt_timer s)\<rparr>;
              s = FlagStatus_set s;
              k = kt_objects s this
          in case find (\<lambda>keys. keys \<noteq> [] \<and> ToEvent_is_params (te_target (hd keys)) (rp_params remapParams) \<and>
                       FlagStatus_isOn (fs_item s) (te_modifierFlags (hd keys))) (kk_delayedActionCanceledByKeys k) of
               Some keys \<Rightarrow> doDelayedAction this keys True s
             | None \<Rightarrow>
                 if kk_delayedActionCanceledDefaultKeys k \<noteq> []
                 then doDelayedAction this (kk_delayedActionCanceledDefaultKeys k) False s
                 else doDelayedAction this (kk_delayedActionKeys k) False s
        else Some s
      else Some s)"

section \<open>remap\<close>

text \<open>The wait before and between repetitions: the setting's own or that of the configuration.\<close>

definition only_consumer_keys :: "KeyToKey \<Rightarrow> bool" where
  "only_consumer_keys k = list_all (\<lambda>te. case te_target te of TE_CONSUMER_KEY _ \<Rightarrow> True | _ \<Rightarrow> False) (kk_toKeys k)"

definition getDelayUntilRepeat :: "KeyToKey \<Rightarrow> 'a RepeatState_scheme \<Rightarrow> int" where
  "getDelayUntilRepeat k s =
     (if kk_delayUntilRepeat k \<ge> 0 then kk_delayUntilRepeat k
      else if \<not> only_consumer_keys k then sint (get_repeat_initial_wait s)
      else sint (get_repeat_consumer_initial_wait s))"

definition getKeyRepeat :: "KeyToKey \<Rightarrow> 'a RepeatState_scheme \<Rightarrow> int" where
  "getKeyRepeat k s =
     (if kk_keyRepeat k \<ge> 0 then kk_keyRepeat k
      else if \<not> only_consumer_keys k then sint (get_repeat_wait s)
      else sint (get_repeat_wait s))"

text \<open>The key itself no longer counts as pressed, and the modifiers of the setting do.\<close>

definition remap_from :: "KeyToKey \<Rightarrow> bool \<Rightarrow> 'a ButtonState_scheme \<Rightarrow> 'a ButtonState_scheme" where
  "remap_from k down s =
     (let flag = FromEvent_getModifierFlag (cs_pairs s) (kk_fromEvent k);
          button = FromEvent_getPointingButton (kk_fromEvent k)
      in if down
         then
           let s = ButtonStatus_decrease button (FlagStatus_decrease (FA_Flag flag) s)
           in if kk_increaseModifierFlags k \<noteq> []
              then FlagStatus_increase (FA_Flags (te_modifierFlags (last (kk_increaseModifierFlags k)))) s else s
         else
           let s = ButtonStatus_increase button (FlagStatus_increase (FA_Flag flag) s)
           in if kk_increaseModifierFlags k \<noteq> []
              then FlagStatus_decrease (FA_Flags (te_modifierFlags (last (kk_increaseModifierFlags k)))) s else s)"

text \<open>\<open>flagStatusForDelayedActionKeys_\<close> is a copy of the global status, on which \<open>decrease\<close> is called.\<close>

definition decrease_delayed_flags :: "ModifierFlag list \<Rightarrow> 'a KeyState_scheme \<Rightarrow> 'a KeyState_scheme" where
  "decrease_delayed_flags flags s =
     (let t = FlagStatus_decrease (FA_Flags flags) s
      in t\<lparr>kt_flagStatus := fs_item t, fs_item := fs_item s\<rparr>)"

definition start_delayed_action :: "nat \<Rightarrow> 'a KeyState_scheme \<Rightarrow> 'a KeyState_scheme" where
  "start_delayed_action this s =
     (let k = kt_objects s this in
      if kk_delayedActionKeys k \<noteq> [] \<or> kk_delayedActionCanceledDefaultKeys k \<noteq> [] \<or>
         kk_delayedActionCanceledByKeys k \<noteq> []
      then
        let timeout = word_of_int (cs_config s parameter_keytokey_delayed_action_timeout);
            s = s\<lparr>kt_target := Some this\<rparr>;
            s = s\<lparr>kt_timer := snd (setTimeoutMS timeout True (kt_timer s))\<rparr>;
            s = decrease_delayed_flags (kk_pureFromModifierFlags k) s
        in registerPrepareTargetItem this s
      else s)"

definition fire_before_keys ::
  "KeyToKey \<Rightarrow> PhysicalEventType \<Rightarrow> 'a RepeatState_scheme \<Rightarrow> 'a RepeatState_scheme option"
where
  "fire_before_keys k physicalEventType s =
     do {
       let s = FlagStatus_temporary_decrease (FA_Flags (kk_pureFromModifierFlags k)) s;
       s \<leftarrow> fire_downup_keys (kk_autogenId k) physicalEventType False (kk_beforeKeys k) s;
       Some (FlagStatus_temporary_increase (FA_Flags (kk_pureFromModifierFlags k)) s)
     }"

text \<open>One target event: the case \<open>toKeys_.size() == 1\<close>.\<close>

definition remap_one ::
  "KeyToKey \<Rightarrow> bool \<Rightarrow> PhysicalEventType \<Rightarrow> bool \<Rightarrow> 'a RepeatState_scheme \<Rightarrow> 'a RepeatState_scheme option"
where
  "remap_one k down physicalEventType add_to_keyrepeat s =
     (let to = hd (kk_toKeys k);
          pure = FA_Flags (kk_pureFromModifierFlags k);
          flags = te_modifierFlags to;
          newEventType = (if down then EventType_DOWN else EventType_UP);
          toModifierFlag = ToEvent_getModifierFlag (cs_pairs s) to;
          (newEventType, s) =
            (if toModifierFlag = ModifierFlag_ZERO \<and> \<not> isEventLikeModifier to s
             then (newEventType, FlagStatus_temporary_increase (FA_Flags flags) (FlagStatus_temporary_decrease pure s))
             else
               (if toModifierFlag \<noteq> ModifierFlag_ZERO then EventType_MODIFY else newEventType,
                if down
                then FlagStatus_decrease pure (FlagStatus_increase (FA_FlagAnd toModifierFlag flags) s)
                else
                  let s = FlagStatus_increase pure (FlagStatus_decrease (FA_FlagAnd toModifierFlag flags) s)
                  in FlagStatus_temporary_increase (FA_Flags flags) (FlagStatus_temporary_decrease pure s)))
      in do {
        s \<leftarrow> ToEvent_fire newEventType (FlagStatus_makeFlags (fs_item s)) (kk_autogenId k) physicalEventType
               add_to_keyrepeat (getDelayUntilRepeat k s) (getKeyRepeat k s) to s;
        Some (if add_to_keyrepeat then s else KeyboardRepeat_cancel s)
      })"

text \<open>Several target events; if the last is a modifier it is held as long as the key. \<open>None\<close>, or the new \<open>keyboardRepeatID_\<close>.\<close>

definition remap_many_down ::
  "KeyToKey \<Rightarrow> PhysicalEventType \<Rightarrow> 'a RepeatState_scheme \<Rightarrow> (int option \<times> 'a RepeatState_scheme) option"
where
  "remap_many_down k physicalEventType s =
     (let lastToEvent = last (kk_toKeys k);
          flag = ToEvent_getModifierFlag (cs_pairs s) lastToEvent;
          isModifier = (flag \<noteq> ModifierFlag_ZERO);
          isLike = isEventLikeModifier lastToEvent s;
          pure = FA_Flags (kk_pureFromModifierFlags k);
          s = FlagStatus_temporary_decrease pure (KeyboardRepeat_cancel s);
          keys = (if isModifier \<or> isLike then butlast (kk_toKeys k) else kk_toKeys k)
      in do {
        s \<leftarrow> fire_downup_keys (kk_autogenId k) physicalEventType True keys s;
        if isModifier \<or> isLike
        then do {
          let s = FlagStatus_temporary_increase pure s;
          let s = FlagStatus_increase (FA_FlagAnd flag (te_modifierFlags lastToEvent)) s;
          let s = FlagStatus_decrease pure s;
          s \<leftarrow> (if isLike
                then ToEvent_fire EventType_DOWN (FlagStatus_makeFlags (fs_item s)) (kk_autogenId k) physicalEventType
                       False 0 0 lastToEvent s
                else Some (FireModifiers_fire_current (kk_autogenId k) physicalEventType s));
          Some (None, KeyboardRepeat_cancel s)
        }
        else if kk_isRepeatEnabled k
        then
          let (n, s) = primitive_start (kk_autogenId k) (getDelayUntilRepeat k s) (getKeyRepeat k s) s
          in Some (Some n, s)
        else Some (Some (-1), s)
      })"

definition remap_many_up ::
  "KeyToKey \<Rightarrow> PhysicalEventType \<Rightarrow> 'a RepeatState_scheme \<Rightarrow> 'a RepeatState_scheme option"
where
  "remap_many_up k physicalEventType s =
     (let lastToEvent = last (kk_toKeys k);
          flag = ToEvent_getModifierFlag (cs_pairs s) lastToEvent;
          isModifier = (flag \<noteq> ModifierFlag_ZERO);
          isLike = isEventLikeModifier lastToEvent s;
          pure = FA_Flags (kk_pureFromModifierFlags k)
      in if isModifier \<or> isLike
         then
           let s = FlagStatus_decrease (FA_FlagAnd flag (te_modifierFlags lastToEvent)) s;
               s = FlagStatus_increase pure s;
               s = FlagStatus_temporary_decrease pure s
           in if isLike
              then ToEvent_fire EventType_UP (FlagStatus_makeFlags (fs_item s)) (kk_autogenId k) physicalEventType
                     False 0 0 lastToEvent s
              else Some (FireModifiers_fire_current (kk_autogenId k) physicalEventType s)
         else Some (if kr_id s = kk_keyboardRepeatID k then KeyboardRepeat_cancel s else s))"

text \<open>The first of \<open>afterKeys_\<close> whose condition holds; its head carries the condition.\<close>

fun fire_after_keys ::
  "KeyToKey \<Rightarrow> PhysicalEventType \<Rightarrow> ToEvent list list \<Rightarrow> 'a RepeatState_scheme \<Rightarrow> 'a RepeatState_scheme option"
where
  "fire_after_keys k physicalEventType [] s = Some s"
| "fire_after_keys k physicalEventType (toEvents # rest) s =
     (let s = FlagStatus_set s in
      if toEvents = [] then fire_after_keys k physicalEventType rest s
      else
        let condition = te_modifierFlags (hd toEvents) in
        if \<not> FlagStatus_isOn (fs_item s) condition then fire_after_keys k physicalEventType rest s
        else do {
          let s = FlagStatus_temporary_decrease (FA_Flags condition) s;
          let s = FlagStatus_temporary_decrease (FA_Flags (kk_pureFromModifierFlags k)) s;
          s \<leftarrow> fire_downup_keys (kk_autogenId k) physicalEventType False (tl toEvents) s;
          let s = FlagStatus_temporary_increase (FA_Flags (kk_pureFromModifierFlags k)) s;
          Some (FlagStatus_temporary_increase (FA_Flags condition) s)
        })"

definition update_object :: "nat \<Rightarrow> (KeyToKey \<Rightarrow> KeyToKey) \<Rightarrow> 'a KeyState_scheme \<Rightarrow> 'a KeyState_scheme" where
  "update_object this f s = s\<lparr>kt_objects := (kt_objects s)(this := f (kt_objects s this))\<rparr>"

definition remap_to_keys ::
  "nat \<Rightarrow> bool \<Rightarrow> PhysicalEventType \<Rightarrow> 'a KeyState_scheme \<Rightarrow> 'a KeyState_scheme option"
where
  "remap_to_keys this down physicalEventType s =
     (let k = kt_objects s this;
          add_to_keyrepeat = (if down \<and> \<not> kk_isRepeatEnabled k then False else True)
      in if length (kk_toKeys k) = 0 then Some s
         else if length (kk_toKeys k) = 1 then remap_one k down physicalEventType add_to_keyrepeat s
         else if down
         then do {
           (n, s) \<leftarrow> remap_many_down k physicalEventType s;
           Some (case n of None \<Rightarrow> s | Some n \<Rightarrow> update_object this (\<lambda>k. k\<lparr>kk_keyboardRepeatID := n\<rparr>) s)
         }
         else remap_many_up k physicalEventType s)"

text \<open>\<open>KeyToKey::remap\<close>: whether the event was remapped, the parameters and the state afterwards.\<close>

definition KeyToKey_remap ::
  "nat \<Rightarrow> RemapParams \<Rightarrow> 'a KeyState_scheme \<Rightarrow> (bool \<times> RemapParams \<times> 'a KeyState_scheme) option"
where
  "KeyToKey_remap this remapParams s =
     (let k = kt_objects s this in
      if rp_isremapped remapParams then Some (False, remapParams, s)
      else case iskeydown (rp_params remapParams) of
        None \<Rightarrow> Some (False, remapParams, s)
      | Some down \<Rightarrow>
          let (changed, s) = changePressingState this (kk_fromEvent k) (rp_params remapParams) (fs_item s)
                               (kk_fromModifierFlags k) s
          in if \<not> changed then Some (False, remapParams, s)
             else do {
               let physicalEventType = rp_physicalEventType remapParams;
               let s = update_object this (\<lambda>k. k\<lparr>kk_lastPhysicalEventType := physicalEventType\<rparr>) s;
               let s = remap_from k down s;
               let s = (if down then start_delayed_action this s else s);
               s \<leftarrow> (if down then fire_before_keys k physicalEventType s else Some s);
               s \<leftarrow> remap_to_keys this down physicalEventType s;
               s \<leftarrow> (if \<not> down then fire_after_keys k physicalEventType (kk_afterKeys k) s else Some s);
               Some (True, remapParams\<lparr>rp_isremapped := True\<rparr>, s)
             })"

definition call_remap_with_VK_PSEUDO_KEY ::
  "nat \<Rightarrow> EventType \<Rightarrow> PhysicalEventType \<Rightarrow> 'a KeyState_scheme \<Rightarrow> (bool \<times> 'a KeyState_scheme) option"
where
  "call_remap_with_VK_PSEUDO_KEY this eventType physicalEventType s =
     (let s = (if eventType = EventType_DOWN then FlagStatus_lazy_enable s else FlagStatus_lazy_disable_if_off s);
          params = KeyboardParams_new (cs_pairs s) eventType (FlagStatus_makeFlags (fs_item s)) KeyCode_VK_PSEUDO_KEY
                     (cs_keyboardType s) False
      in do {
        (result, _, s) \<leftarrow> KeyToKey_remap this (RemapParams_new (P_Keyboard params) physicalEventType) s;
        Some (result, s)
      })"

definition KeyToKey_isPressing :: "nat \<Rightarrow> 'a KeyState_scheme \<Rightarrow> bool" where
  "KeyToKey_isPressing this s = isPressing this s"

text \<open>The state after the extension has started.\<close>

definition key_static :: KeyState where
  "key_static = InState.extend input_boot
     \<lparr>rf_live = [], pt_list = [], kt_objects = (\<lambda>_. KeyToKey_new 0), kt_timer = timer_static, kt_target = None, kt_flagStatus = []\<rparr>"

end
