(* ===== verification/KeyToKeyHeld.thy ===== *)
theory KeyToKeyHeld
  imports KeyToKeys
begin

text \<open>
  \<open>KeyToKey\<close> returns, leaves the queues alone, and never leaves a modifier pressed: what the press of
  its key adds to the counters of the modifiers, the release takes away again.
\<close>

section \<open>Calls that return\<close>

text \<open>\<open>returns m Q\<close>: the call returns, and its result satisfies \<open>Q\<close>. The rules follow the structure of a call.\<close>

definition returns :: "'b option \<Rightarrow> ('b \<Rightarrow> bool) \<Rightarrow> bool" where
  "returns m Q = (case m of None \<Rightarrow> False | Some x \<Rightarrow> Q x)"

lemma returns_Some [simp]: "returns (Some x) Q = Q x"
  by (simp add: returns_def)

lemma returns_bind [simp]: "returns (m \<bind> f) Q = returns m (\<lambda>x. returns (f x) Q)"
  by (cases m) (simp_all add: returns_def)

lemma returns_map [simp]: "returns (map_option f m) Q = returns m (\<lambda>x. Q (f x))"
  by (cases m) (simp_all add: returns_def)

lemma returns_mono: "returns m P \<Longrightarrow> (\<And>x. P x \<Longrightarrow> Q x) \<Longrightarrow> returns m Q"
  by (cases m) (simp_all add: returns_def)

lemma returns_if [intro]: "(b \<Longrightarrow> returns m Q) \<Longrightarrow> (\<not> b \<Longrightarrow> returns n Q) \<Longrightarrow> returns (if b then m else n) Q"
  by simp

lemma returnsE: "returns m Q \<Longrightarrow> \<exists>x. m = Some x \<and> Q x"
  by (cases m) (simp_all add: returns_def)

section \<open>Adding to the counters\<close>

definition shift :: "(ModifierFlag \<Rightarrow> int) \<Rightarrow> (ModifierFlag \<times> int) list \<Rightarrow> (ModifierFlag \<times> int) list" where
  "shift d = map (\<lambda>(f, n). (f, n + d f))"

text \<open>One for each modifier that \<open>increase\<close> counts.\<close>

definition counted :: "FlagArg \<Rightarrow> ModifierFlag \<Rightarrow> int" where
  "counted a f = (if selects a f \<and> f \<noteq> ModifierFlag_CAPSLOCK then 1 else 0)"

lemma shift_shift [simp]: "shift d (shift e c) = shift (\<lambda>f. e f + d f) c"
  by (simp add: shift_def case_prod_unfold comp_def add.assoc)

lemma shift_zero [simp]: "shift (\<lambda>f. 0) c = c"
  by (simp add: shift_def)

lemma press_counts_increase: "press_counts (FlagStatus_increase a s) = shift (counted a) (press_counts s)"
  by (simp add: press_counts_def FlagStatus_increase_def map_if_def Item_increase_def shift_def counted_def)

lemma press_counts_decrease: "press_counts (FlagStatus_decrease a s) = shift (\<lambda>f. - counted a f) (press_counts s)"
  by (simp add: press_counts_def FlagStatus_decrease_def map_if_def Item_decrease_def shift_def counted_def)

section \<open>Frames of the operations used\<close>

text \<open>\<open>ev s c t\<close>: from \<open>s\<close> to \<open>t\<close> events were sent and counters changed, and the counters are now \<open>c\<close>.\<close>

definition ev :: "'a RepeatState_scheme \<Rightarrow> (ModifierFlag \<times> int) list \<Rightarrow> 'a RepeatState_scheme \<Rightarrow> bool" where
  "ev s c t =
     (RepeatState.more t = RepeatState.more s \<and> cs_pairs t = cs_pairs s \<and> cs_config t = cs_config s \<and>
      vc_items t = vc_items s \<and> fire_ok t \<and> press_counts t = c)"

lemma ev_start: "fire_ok s \<Longrightarrow> ev s (press_counts s) s"
  by (simp add: ev_def)

lemma ev_keeps:
  fixes s t u :: "'a RepeatState_scheme"
  assumes "ev s c t" and "vk_keeps t u"
  shows "ev s c u"
  using assms repeat_more_eqD(6) [OF assms(2)] keeps_fire_ok [OF assms(2)] by (simp add: ev_def vk_keeps_def)

lemma ev_flag_more:
  fixes s t u :: "'a RepeatState_scheme"
  assumes "ev s c t" and "FlagState.more u = FlagState.more t" and "cs_pairs u = cs_pairs t" and "cs_config u = cs_config t"
  shows "ev s (press_counts u) u"
proof -
  have m: "RepeatState.more u = RepeatState.more t" using assms(2) by (cases t; cases u; simp)
  have "vc_items u = vc_items t" "vj_newkeycode u = vj_newkeycode t"
    using vk_mouse_eqD [OF flag_more_eqD [OF assms(2)]] by simp_all
  with m show ?thesis using assms by (simp add: ev_def fire_ok_def)
qed

lemma ev_flags [intro]:
  assumes "ev s c t"
  shows "ev s c (FlagStatus_temporary_increase a t)" and "ev s c (FlagStatus_temporary_decrease a t)"
    and "ev s c (FlagStatus_set t)" and "ev s c (FlagStatus_lazy_enable t)" and "ev s c (FlagStatus_lazy_disable_if_off t)"
    and "ev s (shift (counted a) c) (FlagStatus_increase a t)"
    and "ev s (shift (\<lambda>f. - counted a f) c) (FlagStatus_decrease a t)"
proof -
  have c: "press_counts t = c" using assms by (simp add: ev_def)
  note m = ev_flag_more [OF assms]
  show "ev s c (FlagStatus_temporary_increase a t)" "ev s c (FlagStatus_temporary_decrease a t)"
    using m [of "FlagStatus_temporary_increase a t"] m [of "FlagStatus_temporary_decrease a t"]
    by (simp_all add: FlagStatus_temporary_increase_def FlagStatus_temporary_decrease_def methods_held c)
  show "ev s c (FlagStatus_set t)" "ev s c (FlagStatus_lazy_enable t)" "ev s c (FlagStatus_lazy_disable_if_off t)"
    using m [of "FlagStatus_set t"] m [of "FlagStatus_lazy_enable t"] m [of "FlagStatus_lazy_disable_if_off t"]
    by (simp_all add: FlagStatus_set_def FlagStatus_lazy_enable_def FlagStatus_lazy_disable_if_off_def methods_held c)
  have i: "FlagState.more (FlagStatus_increase a t) = FlagState.more t" "FlagState.more (FlagStatus_decrease a t) = FlagState.more t"
    "cs_pairs (FlagStatus_increase a t) = cs_pairs t" "cs_pairs (FlagStatus_decrease a t) = cs_pairs t"
    "cs_config (FlagStatus_increase a t) = cs_config t" "cs_config (FlagStatus_decrease a t) = cs_config t"
    by (simp_all add: FlagStatus_increase_def FlagStatus_decrease_def)
  show "ev s (shift (counted a) c) (FlagStatus_increase a t)" "ev s (shift (\<lambda>f. - counted a f) c) (FlagStatus_decrease a t)"
    using m [OF i(1,3,5)] m [OF i(2,4,6)] by (simp_all add: press_counts_increase press_counts_decrease c)
qed

lemma ev_frames [intro]:
  assumes "ev s c t"
  shows "ev s c (FireModifiers_fire_current a pe t)" and "ev s c (FireRelativePointer_fire a pe b dx dy t)"
    and "ev s c (FireConsumer_fire q a pe t)" and "ev s c (ButtonStatus_increase b t)" and "ev s c (ButtonStatus_decrease b t)"
    and "ev s c (KeyboardRepeat_cancel t)" and "ev s c (snd (primitive_start a d r t))"
    and "ev s c (primitive_add_key et fl k kt t)" and "ev s c (primitive_add_consumer et fl ck t)"
    and "ev s c (primitive_add_button b t)" and "ev s c (setIgnorePhysicalUpEvent x t)"
    and "ev s c (t\<lparr>vk_needToDrop := y\<rparr>)"
proof -
  note k = ev_keeps [OF assms]
  show "ev s c (FireModifiers_fire_current a pe t)" "ev s c (FireRelativePointer_fire a pe b dx dy t)"
    "ev s c (FireConsumer_fire q a pe t)" "ev s c (ButtonStatus_increase b t)" "ev s c (ButtonStatus_decrease b t)"
    by (rule k; simp)+
  show "ev s c (KeyboardRepeat_cancel t)" "ev s c (snd (primitive_start a d r t))"
    "ev s c (primitive_add_key et fl k kt t)" "ev s c (primitive_add_consumer et fl ck t)"
    "ev s c (primitive_add_button b t)" "ev s c (setIgnorePhysicalUpEvent x t)" "ev s c (t\<lparr>vk_needToDrop := y\<rparr>)"
    using assms by (simp_all add: ev_def fire_ok_def press_counts_def KeyboardRepeat_cancel_def primitive_start_def succID_def
      primitive_add_key_def primitive_add_consumer_def primitive_add_button_def setIgnorePhysicalUpEvent_def Let_def)
qed

lemma ev_repeat_set [intro]:
  assumes "ev s c t"
  shows "ev s c (set_keyboard p a d r t)" and "ev s c (set_special q a d r t)"
  using assms unfolding set_keyboard_def set_key_def set_special_def set_consumer_def
  by (auto split: Params.splits intro: ev_frames)

lemma ev_FireKey: "ev s c t \<Longrightarrow> returns (FireKey p a pe t) (ev s c)"
  using FireKey_total [of t p a pe] ev_keeps by (metis ev_def returns_Some)

lemma ev_ToEvent_fire:
  assumes "ev s c t"
  shows "returns (ToEvent_fire et fl a pe r d kr te t) (ev s c)"
proof (cases "te_target te")
  case (TE_KEY k)
  then show ?thesis
    by (auto simp: ToEvent_fire_def Let_def intro!: returns_mono [OF ev_FireKey [OF assms]])
qed (use assms in \<open>auto simp: ToEvent_fire_def Let_def fire_current_buttons_def\<close>)

lemma ev_add_keyboard [intro]: "ev s c t \<Longrightarrow> ev s c (add_keyboard r p t)"
  by (auto simp: add_keyboard_def)

lemma ev_CALL_FIREKEY: "ev s c t \<Longrightarrow> returns (CALL_FIREKEY_FIRE a pe r p t) (ev s c)"
  by (auto simp: CALL_FIREKEY_FIRE_def intro!: returns_mono [OF ev_FireKey])

lemma ev_fire_button [intro]: "ev s c t \<Longrightarrow> ev s c (fire_button a pe r t)"
  by (auto simp: fire_button_def Let_def)

lemma ev_fire_downup:
  assumes "ev s c t"
  shows "returns (fire_downup a pe r te t) (ev s c)"
proof (cases "te_target te")
  case (TE_KEY k)
  have i: "ev s c (FlagStatus_decrease (FA_Flag f) u)" if "ev s (shift (counted (FA_Flag f)) c) u" for f u
    using ev_flags(7) [OF that, of "FA_Flag f"] by simp
  from TE_KEY show ?thesis
    by (auto simp: fire_downup_def Let_def intro!: returns_mono [OF ev_CALL_FIREKEY [OF assms]]
        returns_mono [OF ev_CALL_FIREKEY [OF ev_flags(6) [OF assms]]] ev_CALL_FIREKEY i)
qed (use assms in \<open>auto simp: fire_downup_def CALL_FIRECONSUMER_FIRE_def Let_def\<close>)

lemma ev_fire_downup_keys: "ev s c t \<Longrightarrow> returns (fire_downup_keys a pe r keys t) (ev s c)"
proof (induction keys arbitrary: t)
  case (Cons k keys)
  then show ?case by (auto intro!: returns_mono [OF ev_fire_downup [OF ev_flags(1) [OF Cons.prems]]])
qed simp

lemma ev_fire_delayed_keys: "ev s c t \<Longrightarrow> returns (fire_delayed_keys a pe keys t) (ev s c)"
proof (induction keys arbitrary: t)
  case (Cons k keys)
  have d: "ev s c (t\<lparr>vk_needToDrop := True\<rparr>)" by (rule ev_frames [OF Cons.prems])
  show ?case
    by (auto simp: Let_def intro!: returns_mono [OF ev_fire_downup [OF ev_flags(1) [OF d]]]
        returns_mono [OF ev_fire_downup [OF ev_flags(1) [OF Cons.prems]]] Cons.IH)
qed simp

lemma ev_fold_increase: "ev s c t \<Longrightarrow>
    ev s (fold (\<lambda>f. shift (counted (FA_Flag f))) fs c) (fold (\<lambda>f. FlagStatus_increase (FA_Flag f)) fs t)"
proof (induction fs arbitrary: c t)
  case (Cons f fs)
  from Cons.IH [OF ev_flags(6) [OF Cons.prems]] show ?case by simp
qed simp

lemma ev_fold_decrease: "ev s c t \<Longrightarrow>
    ev s (fold (\<lambda>f. shift (\<lambda>g. - counted (FA_Flag f) g)) fs c) (fold (\<lambda>f. FlagStatus_decrease (FA_Flag f)) fs t)"
proof (induction fs arbitrary: c t)
  case (Cons f fs)
  from Cons.IH [OF ev_flags(7) [OF Cons.prems]] show ?case by simp
qed simp

lemma fold_shift: "fold (\<lambda>f. shift (d f)) fs c = shift (\<lambda>g. sum_list (map (\<lambda>f. d f g) fs)) c"
  by (induction fs arbitrary: c) (simp_all add: algebra_simps)

text \<open>The scope of a \<open>ScopedSetter\<close> leaves the counters as they were.\<close>

lemma ev_ScopedSetter:
  assumes "ev s c t" and "ScopedSetter_new items t = (setter, u)"
  obtains d where "ev s d u" and "\<And>v. ev s d v \<Longrightarrow> ev s c (ScopedSetter_delete setter v)"
proof -
  define added removed where "added = FlagStatus_subtract (fs_item t) items" and "removed = FlagStatus_subtract items (fs_item t)"
  have e: "setter = (added, removed)"
    "u = fold (\<lambda>f. FlagStatus_increase (FA_Flag f)) removed (fold (\<lambda>f. FlagStatus_decrease (FA_Flag f)) added t)"
    using assms(2) by (simp_all add: ScopedSetter_new_def added_def removed_def Let_def)
  let ?d = "fold (\<lambda>f. shift (counted (FA_Flag f))) removed (fold (\<lambda>f. shift (\<lambda>g. - counted (FA_Flag f) g)) added c)"
  have n: "sum_list (map (\<lambda>f. - counted (FA_Flag f) g) fs) = - sum_list (map (\<lambda>f. counted (FA_Flag f) g) fs)" for g fs
    by (induction fs) simp_all
  have "ev s c (ScopedSetter_delete setter v)" if "ev s ?d v" for v
    using ev_fold_decrease [OF ev_fold_increase [OF that, of added], of removed]
    by (simp add: ScopedSetter_delete_def e fold_shift n)
  moreover have "ev s ?d u" unfolding e by (intro ev_fold_increase ev_fold_decrease assms(1))
  ultimately show thesis by (rule that [rotated])
qed

section \<open>Delayed actions\<close>

lemma ev_doDelayedAction:
  fixes s t :: "'a KeyState_scheme"
  assumes "ev s c t"
  shows "returns (doDelayedAction this keys b t) (ev s c)"
proof (cases "keys = []")
  case False
  obtain setter u where n: "ScopedSetter_new (kt_flagStatus t) t = (setter, u)" by fastforce
  from ev_ScopedSetter [OF assms n] obtain d where d: "ev s d u"
    "\<And>v. ev s d v \<Longrightarrow> ev s c (ScopedSetter_delete setter v)" by blast
  show ?thesis
    using False
    by (auto simp: doDelayedAction_def Let_def n intro!: returns_mono [OF ev_fire_delayed_keys] d ev_flags)
qed (simp add: doDelayedAction_def assms)

section \<open>Frames of the objects\<close>

text \<open>The part of an object that \<open>add\<close> has set.\<close>

definition setting :: "KeyToKey \<Rightarrow> KeyToKey" where
  "setting k = k\<lparr>kk_keyboardRepeatID := 0, kk_lastPhysicalEventType := PE_DOWN\<rparr>"

text \<open>
  \<open>kev s c t\<close>: from \<open>s\<close> to \<open>t\<close> the queues and timers of the input and the settings of the objects are
  the same, firing keys still returns, and the counters are \<open>c\<close>.
\<close>

definition kev :: "'a KeyState_scheme \<Rightarrow> (ModifierFlag \<times> int) list \<Rightarrow> 'a KeyState_scheme \<Rightarrow> bool" where
  "kev s c t =
     (in_frame s t \<and> fire_ok t \<and> cs_pairs t = cs_pairs s \<and> cs_config t = cs_config s \<and> vc_items t = vc_items s \<and>
      rf_live t = rf_live s \<and> (\<forall>p. setting (kt_objects t p) = setting (kt_objects s p)) \<and>
      KeyState.more t = KeyState.more s \<and> press_counts t = c)"

lemma kev_start: "fire_ok s \<Longrightarrow> kev s (press_counts s) s"
  by (simp add: kev_def)

lemma kev_trans: "kev s c t \<Longrightarrow> kev t d u \<Longrightarrow> kev s d u"
  by (auto simp: kev_def intro: in_frame_trans)

lemma kev_ev:
  fixes s t u :: "'a KeyState_scheme"
  assumes "kev s c t" and "ev t d u"
  shows "kev s d u"
proof -
  have "in_frame t u" using assms by (cases t; cases u; simp add: ev_def in_frame_def)
  moreover have "rf_live u = rf_live t" "kt_objects u = kt_objects t" "KeyState.more u = KeyState.more t"
    using assms(2) by (cases t; cases u; simp add: ev_def)+
  ultimately show ?thesis using assms by (auto simp: kev_def ev_def intro: in_frame_trans)
qed

lemma ev_here: "kev s c t \<Longrightarrow> ev t c t"
  by (simp add: kev_def ev_def)

lemma kev_returns:
  assumes "kev s c t" and "ev t c t \<Longrightarrow> returns m (ev t d)"
  shows "returns m (kev s d)"
  using returns_mono [OF assms(2) [OF ev_here [OF assms(1)]]] kev_ev [OF assms(1)] by blast

lemma kev_updates [simp]:
  "kev s c (t\<lparr>pt_list := x1\<rparr>) = kev s c t" "kev s c (t\<lparr>kt_timer := x2\<rparr>) = kev s c t"
  "kev s c (t\<lparr>kt_target := x3\<rparr>) = kev s c t" "kev s c (t\<lparr>kt_flagStatus := x4\<rparr>) = kev s c t"
  "kev s c (t\<lparr>pf_list := x5\<rparr>) = kev s c t" "kev s c (t\<lparr>ew_list := x6\<rparr>) = kev s c t"
  by (simp_all add: kev_def in_frame_def fire_ok_def press_counts_def)

lemma kev_register [simp]:
  "kev s c (unregisterPrepareTargetItem p t) = kev s c t" "kev s c (registerPrepareTargetItem p t) = kev s c t"
  by (simp_all add: unregisterPrepareTargetItem_def registerPrepareTargetItem_def Let_def)

lemma kev_object:
  assumes "kev s c t" and "\<And>k. setting (f k) = setting k"
  shows "kev s c (update_object this f t)"
  using assms by (simp add: update_object_def kev_def in_frame_def fire_ok_def press_counts_def)

lemma kev_KeyToKey_prepare:
  assumes "kev s c t"
  shows "returns (KeyToKey_prepare this p t) (kev s c)"
proof -
  let ?u = "FlagStatus_set ((unregisterPrepareTargetItem this t)\<lparr>kt_timer := cancelTimeout (kt_timer (unregisterPrepareTargetItem this t))\<rparr>)"
  have "kev s c ((unregisterPrepareTargetItem this t)\<lparr>kt_timer := x\<rparr>)" for x using assms by simp
  from kev_ev [OF this ev_flags(3) [OF ev_here [OF this]]] have u: "kev s c ?u" .
  have "returns (doDelayedAction this keys b ?u) (kev s c)" for keys b
    by (rule kev_returns [OF u]) (rule ev_doDelayedAction)
  with assms show ?thesis
    by (auto simp: KeyToKey_prepare_def Let_def split: option.split)
qed

lemma kev_KeyToKey_tick:
  assumes "kev s c t"
  shows "returns (KeyToKey_tick t) (kev s c)"
proof -
  have u: "kev s c (t\<lparr>kt_timer := x\<rparr>)" for x using assms by simp
  have "returns (doDelayedAction this keys b (t\<lparr>kt_timer := x\<rparr>)) (kev s c)" for this keys b x
    by (rule kev_returns [OF u]) (rule ev_doDelayedAction)
  with u show ?thesis
    by (auto simp: KeyToKey_tick_def Let_def case_prod_unfold KeyToKey_fire_timer_callback_def split: option.split)
qed

section \<open>What remap adds to the counters\<close>

lemma like_modifier_frame:
  "vc_items t = vc_items s \<Longrightarrow> isEventLikeModifier te t = isEventLikeModifier te s"
  by (simp add: isEventLikeModifier_def VirtualKey_isKeyLikeModifier_def is_VK_CONFIG_SYNC_KEYDOWNUP_def
      split: ToEventTarget.split)

text \<open>What a press adds: the key no longer counts, but the modifiers it stands for do.\<close>

definition from_delta :: "KeyToKey \<Rightarrow> Pair list \<Rightarrow> ModifierFlag \<Rightarrow> int" where
  "from_delta k pairs f =
     (if kk_increaseModifierFlags k \<noteq> [] then counted (FA_Flags (te_modifierFlags (last (kk_increaseModifierFlags k)))) f else 0) -
     counted (FA_Flag (FromEvent_getModifierFlag pairs (kk_fromEvent k))) f"

definition to_delta :: "KeyToKey \<Rightarrow> 'a RepeatState_scheme \<Rightarrow> ModifierFlag \<Rightarrow> int" where
  "to_delta k s f =
     (if isLastToEventModifierKeyOrLikeModifier k s
      then counted (FA_FlagAnd (ToEvent_getModifierFlag (cs_pairs s) (last (kk_toKeys k))) (te_modifierFlags (last (kk_toKeys k)))) f -
           counted (FA_Flags (kk_pureFromModifierFlags k)) f
      else 0)"

text \<open>The sign of a change: plus for a press, minus for a release.\<close>

definition directed :: "bool \<Rightarrow> (ModifierFlag \<Rightarrow> int) \<Rightarrow> ModifierFlag \<Rightarrow> int" where
  "directed down d f = (if down then d f else - d f)"

lemma ev_shift_eq: "ev s (shift d c) t \<Longrightarrow> (\<And>f. d f = e f) \<Longrightarrow> ev s (shift e c) t"
  by (metis ext)

lemma ev_remap_from:
  fixes s t :: "'a RepeatState_scheme"
  assumes "ev s c t"
  shows "ev s (shift (directed down (from_delta k (cs_pairs t))) c) (remap_from k down t)"
proof -
  let ?f = "FA_Flag (FromEvent_getModifierFlag (cs_pairs t) (kk_fromEvent k))"
  let ?i = "FA_Flags (te_modifierFlags (last (kk_increaseModifierFlags k)))"
  let ?b = "FromEvent_getPointingButton (kk_fromEvent k)"
  note d = ev_frames(5) [OF ev_flags(7) [OF assms, of ?f], of ?b]
  note u = ev_frames(4) [OF ev_flags(6) [OF assms, of ?f], of ?b]
  show ?thesis
    using d u ev_flags(6) [OF d, of ?i] ev_flags(7) [OF u, of ?i]
    by (auto simp: remap_from_def Let_def directed_def [abs_def] from_delta_def algebra_simps)
qed

lemma ev_remap_one:
  assumes "ev s c t" and "length (kk_toKeys k) = 1"
  shows "returns (remap_one k down pe add t) (ev s (shift (directed down (to_delta k t)) c))"
proof -
  obtain to where k: "kk_toKeys k = [to]" using assms(2) by (auto simp: length_Suc_conv)
  let ?m = "ToEvent_getModifierFlag (cs_pairs t) to"
  let ?p = "FA_Flags (kk_pureFromModifierFlags k)" and ?a = "FA_FlagAnd ?m (te_modifierFlags to)"
  have fire: "returns (ToEvent_fire et fl a pe r d kr to u \<bind> (\<lambda>v. Some (if add then v else KeyboardRepeat_cancel v)))
      (ev s e)" if "ev s e u" for et fl a r d kr u e
    using returns_mono [OF ev_ToEvent_fire [OF that]] by (auto simp: ev_frames)
  show ?thesis
  proof (cases "?m = ModifierFlag_ZERO \<and> \<not> isEventLikeModifier to t")
    case True
    then have "directed down (to_delta k t) = (\<lambda>f. 0)"
      by (simp add: fun_eq_iff directed_def to_delta_def isLastToEventModifierKeyOrLikeModifier_def k)
    then show ?thesis
      using True fire [OF ev_flags(1) [OF ev_flags(2) [OF assms(1)]]] by (simp add: remap_one_def Let_def k)
  next
    case False
    then have d: "to_delta k t = (\<lambda>f. counted ?a f - counted ?p f)"
      by (auto simp: fun_eq_iff to_delta_def isLastToEventModifierKeyOrLikeModifier_def Let_def k)
    have down: "ev s (shift (directed True (to_delta k t)) c) (FlagStatus_decrease ?p (FlagStatus_increase ?a t))"
      using ev_flags(7) [OF ev_flags(6) [OF assms(1), of ?a], of ?p] by (simp add: directed_def [abs_def] d)
    have up: "ev s (shift (directed False (to_delta k t)) c) (FlagStatus_increase ?p (FlagStatus_decrease ?a t))"
      using ev_flags(6) [OF ev_flags(7) [OF assms(1), of ?a], of ?p] by (simp add: directed_def [abs_def] d)
    show ?thesis
      using False fire [OF down] fire [OF ev_flags(1) [OF ev_flags(2) [OF up]]]
      by (auto simp: remap_one_def Let_def k)
  qed
qed

lemma last_like:
  assumes "kk_toKeys k \<noteq> []"
  shows "isLastToEventModifierKeyOrLikeModifier k s =
    (ToEvent_getModifierFlag (cs_pairs s) (last (kk_toKeys k)) \<noteq> ModifierFlag_ZERO \<or> isEventLikeModifier (last (kk_toKeys k)) s)"
  using assms by (simp add: isLastToEventModifierKeyOrLikeModifier_def Let_def)

lemma ev_remap_many_down:
  assumes "ev s c t" and "kk_toKeys k \<noteq> []"
  shows "returns (remap_many_down k pe t) (\<lambda>(n, u). ev s (shift (directed True (to_delta k t)) c) u)"
proof -
  let ?m = "ToEvent_getModifierFlag (cs_pairs t) (last (kk_toKeys k))"
  let ?p = "FA_Flags (kk_pureFromModifierFlags k)" and ?a = "FA_FlagAnd ?m (te_modifierFlags (last (kk_toKeys k)))"
  have keys: "returns (fire_downup_keys a pe r keys (FlagStatus_temporary_decrease ?p (KeyboardRepeat_cancel t))) (ev s c)"
    for a r keys by (rule ev_fire_downup_keys) (intro ev_flags ev_frames assms)
  have hold: "ev s (shift (\<lambda>f. counted ?a f - counted ?p f) c)
      (FlagStatus_decrease ?p (FlagStatus_increase ?a (FlagStatus_temporary_increase ?p u)))" if "ev s c u" for u
    using ev_flags(7) [OF ev_flags(6) [OF ev_flags(1) [OF that, of ?p], of ?a], of ?p] by simp
  show ?thesis
  proof (cases "isLastToEventModifierKeyOrLikeModifier k t")
    case True
    then have d: "directed True (to_delta k t) = (\<lambda>f. counted ?a f - counted ?p f)"
      by (simp add: fun_eq_iff directed_def to_delta_def)
    show ?thesis
      using True unfolding last_like [OF assms(2)] d
      by (auto simp: remap_many_down_def Let_def intro!: returns_mono [OF keys] returns_mono [OF ev_ToEvent_fire] hold ev_frames)
  next
    case False
    then have d: "directed True (to_delta k t) = (\<lambda>f. 0)" by (simp add: fun_eq_iff directed_def to_delta_def)
    show ?thesis
      using False unfolding last_like [OF assms(2)] d
      by (auto simp: remap_many_down_def Let_def case_prod_unfold intro!: returns_mono [OF keys] ev_frames)
  qed
qed

lemma ev_remap_many_up:
  assumes "ev s c t" and "kk_toKeys k \<noteq> []"
  shows "returns (remap_many_up k pe t) (ev s (shift (directed False (to_delta k t)) c))"
proof -
  let ?m = "ToEvent_getModifierFlag (cs_pairs t) (last (kk_toKeys k))"
  let ?p = "FA_Flags (kk_pureFromModifierFlags k)" and ?a = "FA_FlagAnd ?m (te_modifierFlags (last (kk_toKeys k)))"
  have release: "ev s (shift (\<lambda>f. counted ?p f - counted ?a f) c)
      (FlagStatus_temporary_decrease ?p (FlagStatus_increase ?p (FlagStatus_decrease ?a t)))"
    using ev_flags(2) [OF ev_flags(6) [OF ev_flags(7) [OF assms(1), of ?a], of ?p], of ?p] by simp
  show ?thesis
  proof (cases "isLastToEventModifierKeyOrLikeModifier k t")
    case True
    then have d: "directed False (to_delta k t) = (\<lambda>f. counted ?p f - counted ?a f)"
      by (simp add: fun_eq_iff directed_def to_delta_def)
    show ?thesis
      using True unfolding last_like [OF assms(2)] d
      by (auto simp: remap_many_up_def Let_def intro!: ev_ToEvent_fire release ev_frames(1))
  next
    case False
    then have d: "directed False (to_delta k t) = (\<lambda>f. 0)" by (simp add: fun_eq_iff directed_def to_delta_def)
    show ?thesis
      using False assms(1) unfolding last_like [OF assms(2)] d
      by (auto simp: remap_many_up_def Let_def ev_frames)
  qed
qed

lemma ev_fire_before_keys:
  assumes "ev s c t"
  shows "returns (fire_before_keys k pe t) (ev s c)"
  by (auto simp: fire_before_keys_def Let_def ev_flags
      intro!: returns_mono [OF ev_fire_downup_keys [OF ev_flags(2) [OF assms]]])

lemma ev_fire_after_keys: "ev s c t \<Longrightarrow> returns (fire_after_keys k pe keys t) (ev s c)"
proof (induction keys arbitrary: t)
  case (Cons key keys)
  have s: "ev s c (FlagStatus_set t)" by (rule ev_flags(3) [OF Cons.prems])
  have "returns (fire_downup_keys a pe r (tl key) (FlagStatus_temporary_decrease f (FlagStatus_temporary_decrease g (FlagStatus_set t))))
      (ev s c)" for a r f g
    by (rule ev_fire_downup_keys [OF ev_flags(2) [OF ev_flags(2) [OF s]]])
  from returns_mono [OF this] have f: "returns (fire_downup_keys a pe r (tl key)
        (FlagStatus_temporary_decrease f (FlagStatus_temporary_decrease g (FlagStatus_set t))))
      (\<lambda>u. ev s c (FlagStatus_temporary_increase h (FlagStatus_temporary_increase i u)))" for a r f g h i
    by (simp add: ev_flags(1))
  show ?case by (simp add: Let_def f Cons.IH [OF s])
qed simp

lemma kev_delayed_flags:
  assumes "kev s c t"
  shows "kev s c (decrease_delayed_flags fl t)"
proof -
  let ?u = "FlagStatus_decrease (FA_Flags fl) t"
  have "kev s (shift (\<lambda>f. - counted (FA_Flags fl) f) c) ?u"
    by (rule kev_ev [OF assms ev_flags(7) [OF ev_here [OF assms]]])
  moreover have "press_counts t = c" using assms by (simp add: kev_def)
  ultimately show ?thesis by (simp add: decrease_delayed_flags_def Let_def kev_def in_frame_def fire_ok_def press_counts_def)
qed

lemma kev_start_delayed:
  assumes "kev s c t"
  shows "kev s c (start_delayed_action this t)"
proof -
  have "kev s c (decrease_delayed_flags fl (t\<lparr>kt_target := x, kt_timer := y\<rparr>))" for fl x y
    by (rule kev_delayed_flags) (simp add: assms)
  then show ?thesis using assms by (simp add: start_delayed_action_def Let_def)
qed

lemma kev_remap_to_keys:
  assumes "kev s c t"
  shows "returns (remap_to_keys this down pe t) (kev s (shift (directed down (to_delta (kt_objects t this) t)) c))"
proof -
  let ?k = "kt_objects t this"
  note here = ev_here [OF assms]
  consider "kk_toKeys ?k = []" | "length (kk_toKeys ?k) = 1" | "length (kk_toKeys ?k) > 1"
    by (cases "length (kk_toKeys ?k)") auto
  then show ?thesis
  proof cases
    case 1
    then have "directed down (to_delta ?k t) = (\<lambda>f. 0)"
      by (simp add: fun_eq_iff directed_def to_delta_def isLastToEventModifierKeyOrLikeModifier_def)
    with 1 assms show ?thesis by (simp add: remap_to_keys_def Let_def)
  next
    case 2
    then show ?thesis
      by (auto simp: remap_to_keys_def Let_def intro!: kev_returns [OF assms] ev_remap_one)
  next
    case 3
    then have "kk_toKeys ?k \<noteq> []" by auto
    note many = ev_remap_many_down [OF here this] ev_remap_many_up [OF here this]
    let ?c = "shift (directed True (to_delta ?k t)) c"
    have "kev s ?c (case n of None \<Rightarrow> u | Some n \<Rightarrow> update_object this (\<lambda>k. k\<lparr>kk_keyboardRepeatID := n\<rparr>) u)"
      if "ev t ?c u" for n u
      using kev_ev [OF assms that] kev_object [OF kev_ev [OF assms that], of "\<lambda>k. k\<lparr>kk_keyboardRepeatID := the n\<rparr>" this]
      by (auto simp: setting_def split: option.split)
    then have "returns (remap_many_down ?k pe t)
        (\<lambda>(n, u). kev s ?c (case n of None \<Rightarrow> u | Some n \<Rightarrow> update_object this (\<lambda>k. k\<lparr>kk_keyboardRepeatID := n\<rparr>) u))"
      by (auto intro: returns_mono [OF many(1)])
    moreover have "returns (remap_many_up ?k pe t) (kev s (shift (directed False (to_delta ?k t)) c))"
      by (rule returns_mono [OF many(2)]) (rule kev_ev [OF assms])
    ultimately show ?thesis
      using 3 by (auto simp: remap_to_keys_def Let_def case_prod_unfold)
  qed
qed

text \<open>The change of the counters by one call of \<open>remap\<close>.\<close>

definition remap_delta :: "KeyToKey \<Rightarrow> 'a RepeatState_scheme \<Rightarrow> ModifierFlag \<Rightarrow> int" where
  "remap_delta k s f = from_delta k (cs_pairs s) f + to_delta k s f"

lemma setting_delta:
  assumes "setting k = setting l" and "cs_pairs t = cs_pairs s" and "vc_items t = vc_items s"
  shows "from_delta k p = from_delta l p" and "to_delta k t = to_delta l s"
proof -
  have e: "kk_increaseModifierFlags k = kk_increaseModifierFlags l" "kk_fromEvent k = kk_fromEvent l"
    "kk_toKeys k = kk_toKeys l" "kk_pureFromModifierFlags k = kk_pureFromModifierFlags l"
    using assms(1) by (cases k; cases l; simp add: setting_def)+
  show "from_delta k p = from_delta l p" by (simp add: fun_eq_iff from_delta_def e)
  show "to_delta k t = to_delta l s"
    by (simp add: fun_eq_iff to_delta_def isLastToEventModifierKeyOrLikeModifier_def e assms(2) like_modifier_frame [OF assms(3)])
qed

lemma kev_KeyToKey_remap:
  fixes s t :: "'a KeyState_scheme"
  assumes "kev s c t"
  shows "returns (KeyToKey_remap this p t) (\<lambda>(b, q, u).
    kev s (if b then shift (directed (iskeydown (rp_params p) = Some True) (remap_delta (kt_objects t this) t)) c else c) u \<and>
    q = (if b then p\<lparr>rp_isremapped := True\<rparr> else p))"
proof -
  let ?k = "kt_objects t this"
  have step: "returns
      (do {
         let s1 = update_object this (\<lambda>k. k\<lparr>kk_lastPhysicalEventType := pe\<rparr>) v;
         let s2 = remap_from ?k down s1;
         let s3 = (if down then start_delayed_action this s2 else s2);
         s4 \<leftarrow> (if down then fire_before_keys ?k pe s3 else Some s3);
         s5 \<leftarrow> remap_to_keys this down pe s4;
         (if \<not> down then fire_after_keys ?k pe (kk_afterKeys ?k) s5 else Some s5)
       }) (kev s (shift (directed down (remap_delta ?k t)) c))"
    if v: "kev s c v" "cs_pairs v = cs_pairs t" "vc_items v = vc_items t" "kt_objects v this = ?k" for v down pe
  proof -
    define s1 where "s1 = update_object this (\<lambda>k. k\<lparr>kk_lastPhysicalEventType := pe\<rparr>) v"
    define s2 where "s2 = remap_from ?k down s1"
    define s3 where "s3 = (if down then start_delayed_action this s2 else s2)"
    let ?c2 = "shift (directed down (from_delta ?k (cs_pairs t))) c"
    have s1: "kev s c s1" unfolding s1_def by (rule kev_object [OF v(1)]) (simp add: setting_def)
    have "cs_pairs s1 = cs_pairs t" by (simp add: s1_def update_object_def v)
    with kev_ev [OF s1 ev_remap_from [OF ev_here [OF s1], where k = ?k and down = down]] have s2: "kev s ?c2 s2" by (simp add: s2_def)
    then have s3: "kev s ?c2 s3" using kev_start_delayed [OF s2, of this] by (cases down) (simp_all add: s3_def)
    have s4: "returns (if down then fire_before_keys ?k pe s3 else Some s3) (kev s ?c2)"
      by (rule returns_if, rule kev_returns [OF s3], erule ev_fire_before_keys, unfold returns_Some, rule s3)
    have s5: "returns (remap_to_keys this down pe u) (kev s (shift (directed down (remap_delta ?k t)) c))" if u: "kev s ?c2 u" for u
    proof -
      have "setting (kt_objects u this) = setting ?k" "cs_pairs u = cs_pairs t" "vc_items u = vc_items t"
        using u v unfolding kev_def by metis+
      from setting_delta(2) [OF this] have "to_delta (kt_objects u this) u = to_delta ?k t" .
      then have "shift (directed down (to_delta (kt_objects u this) u)) ?c2 = shift (directed down (remap_delta ?k t)) c"
        by (auto simp: shift_def directed_def remap_delta_def)
      with kev_remap_to_keys [OF u, of this down pe] show ?thesis by simp
    qed
    have s6: "returns (if \<not> down then fire_after_keys ?k pe (kk_afterKeys ?k) u else Some u) (kev s d)" if "kev s d u" for u d
      by (rule returns_if, rule kev_returns [OF that], erule ev_fire_after_keys, unfold returns_Some, rule that)
    show ?thesis
      unfolding Let_def s1_def [symmetric] s2_def [symmetric] s3_def [symmetric] returns_bind
      by (rule returns_mono [OF s4], rule returns_mono [OF s5], assumption, rule s6)
  qed
  show ?thesis
  proof (cases "iskeydown (rp_params p)")
    case (Some down)
    obtain b v where ch: "changePressingState this (kk_fromEvent ?k) (rp_params p) (fs_item t) (kk_fromModifierFlags ?k) t = (b, v)"
      by fastforce
    then obtain l where l: "v = t \<or> v = t\<lparr>pf_list := l\<rparr>"
      by (auto simp: changePressingState_def PressingFromEvents_push_back_def PressingFromEvents_erase_def
          split: option.splits bool.splits if_splits)
    then have v: "kev s c v" "cs_pairs v = cs_pairs t" "vc_items v = vc_items t" "kt_objects v this = ?k"
      using assms by auto
    note go = step [OF v, of "rp_physicalEventType p" down]
    show ?thesis
      using go assms v(1) Some by (auto simp: KeyToKey_remap_def Let_def ch)
  qed (simp add: KeyToKey_remap_def assms Let_def)
qed

section \<open>No modifier stays pressed\<close>

text \<open>
  C38: \<open>KeyToKey::remap\<close> returns, and pressing and releasing its key leaves no modifier pressed: whatever
  events the setting sends, and whatever change \<open>d\<close> of the counters happens between the press and the
  release, afterwards every counter is what it was before the press, changed by \<open>d\<close>. The release undoes
  the press even when the modifiers that the setting requires are no longer held.
\<close>

theorem KeyToKey_balanced:
  fixes s :: "'a KeyState_scheme"
  assumes "fire_ok s" and "iskeydown (rp_params p) = Some True" and "iskeydown (rp_params q) = Some False"
  shows "\<exists>b p' t. KeyToKey_remap this p s = Some (b, p', t) \<and>
    (\<forall>u d. b \<and> fire_ok (u :: 'a KeyState_scheme) \<and> setting (kt_objects u this) = setting (kt_objects t this) \<and> cs_pairs u = cs_pairs t \<and>
       vc_items u = vc_items t \<and> press_counts u = shift d (press_counts t) \<longrightarrow>
       (\<exists>b' q' v. KeyToKey_remap this q u = Some (b', q', v) \<and>
          (b' \<longrightarrow> press_counts v = shift d (press_counts s))))"
proof -
  from kev_KeyToKey_remap [OF kev_start [OF assms(1)], of this p]
  have "returns (KeyToKey_remap this p s) (\<lambda>(b, _, u).
      kev s (if b then shift (directed True (remap_delta (kt_objects s this) s)) (press_counts s) else press_counts s) u)"
    unfolding assms(2) by (rule returns_mono) auto
  then obtain b p' t where t: "KeyToKey_remap this p s = Some (b, p', t)"
    "kev s (if b then shift (directed True (remap_delta (kt_objects s this) s)) (press_counts s) else press_counts s) t"
    by (auto dest!: returnsE)
  have "\<exists>b' q' v. KeyToKey_remap this q u = Some (b', q', v) \<and> (b' \<longrightarrow> press_counts v = shift d (press_counts s))"
    if u: b "fire_ok u" "setting (kt_objects u this) = setting (kt_objects t this)" "cs_pairs u = cs_pairs t"
      "vc_items u = vc_items t" "press_counts u = shift d (press_counts t)" for u :: "'a KeyState_scheme" and d
  proof -
    from kev_KeyToKey_remap [OF kev_start [OF u(2)], of this q]
    have "returns (KeyToKey_remap this q u) (\<lambda>(b, _, v). b \<longrightarrow>
        press_counts v = shift (directed False (remap_delta (kt_objects u this) u)) (press_counts u))"
      unfolding assms(3) by (rule returns_mono) (auto simp: kev_def)
    then obtain b' q' v where v: "KeyToKey_remap this q u = Some (b', q', v)"
      "b' \<Longrightarrow> press_counts v = shift (directed False (remap_delta (kt_objects u this) u)) (press_counts u)"
      by (auto dest!: returnsE)
    have e: "setting (kt_objects u this) = setting (kt_objects s this)" "cs_pairs u = cs_pairs s" "vc_items u = vc_items s"
      using t(2) u by (simp_all add: kev_def)
    then have "remap_delta (kt_objects u this) u = remap_delta (kt_objects s this) s"
      using setting_delta [OF e] by (simp add: fun_eq_iff remap_delta_def)
    moreover have "press_counts t = shift (directed True (remap_delta (kt_objects s this) s)) (press_counts s)"
      using t(2) u(1) by (simp add: kev_def)
    ultimately show ?thesis using v u(6) by (auto simp: shift_def directed_def)
  qed
  then have "\<forall>u d. b \<and> fire_ok (u :: 'a KeyState_scheme) \<and> setting (kt_objects u this) = setting (kt_objects t this) \<and>
      cs_pairs u = cs_pairs t \<and> vc_items u = vc_items t \<and> press_counts u = shift d (press_counts t) \<longrightarrow>
      (\<exists>b' q' v. KeyToKey_remap this q u = Some (b', q', v) \<and> (b' \<longrightarrow> press_counts v = shift d (press_counts s)))"
    by blast
  with t(1) show ?thesis by blast
qed

text \<open>An object that turns the key A into the left shift key.\<close>

definition a_to_shift :: "'a KeyState_scheme \<Rightarrow> 'a KeyState_scheme" where
  "a_to_shift s = update_object 1 (KeyToKey_add normal_pairs BRIDGE_DATATYPE_KEYCODE KeyCode_SHIFT_L \<circ>
     KeyToKey_add normal_pairs BRIDGE_DATATYPE_KEYCODE KeyCode_A) (RemapFuncBase_new 1 s)"

definition key_params :: "EventType \<Rightarrow> KeyCode \<Rightarrow> RemapParams" where
  "key_params et k = RemapParams_new (P_Keyboard (KeyboardParams_new normal_pairs et 0 k 0 False))
     (if et = EventType_DOWN then PE_DOWN else PE_UP)"

lemma key_static_ok [simp]: "fire_ok key_static" "fire_ok (a_to_shift key_static)"
  by (simp_all add: key_static_def a_to_shift_def InState.extend_def fire_ok_def update_object_def RemapFuncBase_new_def jis_keys_def)

lemma KeyToKey_accepts:
  assumes "KeyToKey_remap this p s = Some (b, q, t)" and "\<not> rp_isremapped p" and "iskeydown (rp_params p) = Some d"
    and "fst (changePressingState this (kk_fromEvent (kt_objects s this)) (rp_params p) (fs_item s)
            (kk_fromModifierFlags (kt_objects s this)) s)"
  shows b
  using assms by (auto simp: KeyToKey_remap_def Let_def split: prod.splits option.splits bind_split_asm)

theorem KeyToKey_balanced_witness:
  "\<exists>p' t. KeyToKey_remap 1 (key_params EventType_DOWN KeyCode_A) (a_to_shift key_static) = Some (True, p', t) \<and>
     (\<exists>b' q' v. KeyToKey_remap 1 (key_params EventType_UP KeyCode_A) t = Some (b', q', v) \<and>
       (b' \<longrightarrow> press_counts v = press_counts (a_to_shift key_static)))"
proof -
  let ?s = "a_to_shift key_static"
  have down: "iskeydown (rp_params (key_params EventType_DOWN KeyCode_A)) = Some True"
    and up: "iskeydown (rp_params (key_params EventType_UP KeyCode_A)) = Some False"
    by code_simp+
  note balanced = KeyToKey_balanced [OF key_static_ok(2) down up, of 1]
  then obtain b p' t where t: "KeyToKey_remap 1 (key_params EventType_DOWN KeyCode_A) ?s = Some (b, p', t)"
    and rel: "\<forall>u d. b \<and> fire_ok (u :: KeyState) \<and> setting (kt_objects u 1) = setting (kt_objects t 1) \<and> cs_pairs u = cs_pairs t \<and>
       vc_items u = vc_items t \<and> press_counts u = shift d (press_counts t) \<longrightarrow>
       (\<exists>b' q' v. KeyToKey_remap 1 (key_params EventType_UP KeyCode_A) u = Some (b', q', v) \<and>
          (b' \<longrightarrow> press_counts v = shift d (press_counts ?s)))"
    by (elim exE conjE)
  have "isTargetEventDown (kk_fromEvent (kt_objects ?s 1)) (rp_params (key_params EventType_DOWN KeyCode_A)) = Some True"
    "kk_fromModifierFlags (kt_objects ?s 1) = []" "\<not> rp_isremapped (key_params EventType_DOWN KeyCode_A)"
    by code_simp+
  then have b
    by (intro KeyToKey_accepts [OF t _ down]) (auto simp: changePressingState_def FlagStatus_isOn_def)
  have "kev ?s (press_counts t) t"
    using returnsE [OF kev_KeyToKey_remap [OF kev_start [OF key_static_ok(2)], of 1 "key_params EventType_DOWN KeyCode_A"]] t
    by (auto simp: kev_def)
  then have "fire_ok t" by (simp add: kev_def)
  with spec [OF spec [OF rel, of t], of "\<lambda>_. 0"] \<open>b\<close> t show ?thesis by (simp add: shift_def)
qed

end
