(* ===== verification/RemapFilters.thy ===== *)
theory RemapFilters
  imports KeyToKeys
begin

text \<open>
  The filters of a remapping (\<^verbatim>\<open>RemapFilter/*.hpp\<close>): conditions on the application, the device, the
  modifiers, the last events and so on, under which the remapping applies. A filter is read from the
  part of the initialization vector behind its length; \<open>isblocked\<close> evaluates it in the current state.
\<close>

section \<open>State\<close>

text \<open>\<open>mg_remapclasses\<close> is \<open>remapclasses_\<close> of \<open>RemapClassManager\<close>, pointers that may be null.\<close>

record FilterState = KeyState +
  mg_remapclasses :: "nat option list"

definition RemapClassManager_isEnabled :: "nat \<Rightarrow> 'a FilterState_scheme \<Rightarrow> bool" where
  "RemapClassManager_isEnabled configindex s =
     (if configindex \<ge> length (mg_remapclasses s) then False
      else case mg_remapclasses s ! configindex of
        None \<Rightarrow> False
      | Some p \<Rightarrow> rc_enabled (vk_remapclass s p))"

section \<open>Filters and their construction\<close>

text \<open>The constructor arguments of every class: the type code and the targets.\<close>

datatype RemapFilter =
    ApplicationFilter u32 "u32 list"
  | ConfigFilter u32 "u32 list"
  | DeviceFilter u32 "DeviceIdentifier list"
  | ElapsedTimeSinceLastPressedFilter u32 "(u32 \<times> u32) list"
  | ElapsedTimeSinceLastReleasedFilter u32 "(u32 \<times> u32) list"
  | InputSourceFilter u32 "u32 list"
  | LastPressedPhysicalKeyFilter u32 "(u32 \<times> u32) list"
  | LastReleasedPhysicalKeyFilter u32 "(u32 \<times> u32) list"
  | LastSentEventFilter u32 "(u32 \<times> u32 \<times> EventType) list"
  | ModifierFilter u32 "ModifierFlag list list"
  | PressingPhysicalKeysFilter u32 nat
  | UIElementRoleFilter u32 "u32 list"
  | WindowNameFilter u32 "u32 list"

text \<open>The loops over pairs and triples, which ignore what is left over at the end.\<close>

fun read_pairs :: "u32 list \<Rightarrow> (u32 \<times> u32) list" where
  "read_pairs (datatype # value # vec) = (datatype, value) # read_pairs vec"
| "read_pairs vec = []"

fun read_devices :: "u32 list \<Rightarrow> DeviceIdentifier list" where
  "read_devices (v # p # l # vec) = \<lparr>di_vendor = v, di_product = p, di_location = l\<rparr> # read_devices vec"
| "read_devices vec = []"

fun read_sent_events :: "u32 list \<Rightarrow> (u32 \<times> u32 \<times> EventType) list" where
  "read_sent_events (d # v # e # t # vec) =
     (if e = BRIDGE_DATATYPE_EVENTTYPE then (d, v, t) # read_sent_events vec
      else (d, v, EventType_NONE) # read_sent_events (e # t # vec))"
| "read_sent_events (d # v # vec) = (d, v, EventType_NONE) # read_sent_events vec"
| "read_sent_events vec = []"

definition read_modifier :: "ModifierFlag list list \<Rightarrow> u32 \<times> u32 \<Rightarrow> ModifierFlag list list" where
  "read_modifier ts dv =
     (if fst dv = BRIDGE_DATATYPE_MODIFIERFLAG
      then (if ts \<noteq> [] then map_last (\<lambda>t. t @ [ModifierFlag_of_data (fst dv) (snd dv)]) ts else ts)
      else if fst dv = BRIDGE_DATATYPE_MODIFIERFLAGS_END then ts @ [[]]
      else ts)"

definition read_modifiers :: "u32 list \<Rightarrow> ModifierFlag list list" where
  "read_modifiers vec = foldl read_modifier [[]] (read_pairs vec)"

definition RemapFilterFactory_create :: "u32 list \<Rightarrow> RemapFilter option" where
  "RemapFilterFactory_create vec =
     (case vec of
        [] \<Rightarrow> None
      | type # vec \<Rightarrow>
          if type = BRIDGE_FILTERTYPE_APPLICATION_NOT \<or> type = BRIDGE_FILTERTYPE_APPLICATION_ONLY
          then Some (ApplicationFilter type vec)
          else if type = BRIDGE_FILTERTYPE_CONFIG_NOT \<or> type = BRIDGE_FILTERTYPE_CONFIG_ONLY
          then Some (ConfigFilter type vec)
          else if type = BRIDGE_FILTERTYPE_DEVICE_NOT \<or> type = BRIDGE_FILTERTYPE_DEVICE_ONLY
          then Some (DeviceFilter type (read_devices vec))
          else if type = BRIDGE_FILTERTYPE_ELAPSEDTIMESINCELASTPRESSED_GREATERTHAN \<or>
                  type = BRIDGE_FILTERTYPE_ELAPSEDTIMESINCELASTPRESSED_LESSTHAN
          then Some (ElapsedTimeSinceLastPressedFilter type (read_pairs vec))
          else if type = BRIDGE_FILTERTYPE_ELAPSEDTIMESINCELASTRELEASED_GREATERTHAN \<or>
                  type = BRIDGE_FILTERTYPE_ELAPSEDTIMESINCELASTRELEASED_LESSTHAN
          then Some (ElapsedTimeSinceLastReleasedFilter type (read_pairs vec))
          else if type = BRIDGE_FILTERTYPE_INPUTSOURCE_NOT \<or> type = BRIDGE_FILTERTYPE_INPUTSOURCE_ONLY
          then Some (InputSourceFilter type vec)
          else if type = BRIDGE_FILTERTYPE_LASTPRESSEDPHYSICALKEY_NOT \<or>
                  type = BRIDGE_FILTERTYPE_LASTPRESSEDPHYSICALKEY_ONLY
          then Some (LastPressedPhysicalKeyFilter type (read_pairs vec))
          else if type = BRIDGE_FILTERTYPE_LASTRELEASEDPHYSICALKEY_NOT \<or>
                  type = BRIDGE_FILTERTYPE_LASTRELEASEDPHYSICALKEY_ONLY
          then Some (LastReleasedPhysicalKeyFilter type (read_pairs vec))
          else if type = BRIDGE_FILTERTYPE_LASTSENTEVENT_NOT \<or> type = BRIDGE_FILTERTYPE_LASTSENTEVENT_ONLY
          then Some (LastSentEventFilter type (read_sent_events vec))
          else if type = BRIDGE_FILTERTYPE_MODIFIER_NOT \<or> type = BRIDGE_FILTERTYPE_MODIFIER_ONLY \<or>
                  type = BRIDGE_FILTERTYPE_MODIFIER_LOCKED_NOT \<or> type = BRIDGE_FILTERTYPE_MODIFIER_LOCKED_ONLY \<or>
                  type = BRIDGE_FILTERTYPE_MODIFIER_STUCK_NOT \<or> type = BRIDGE_FILTERTYPE_MODIFIER_STUCK_ONLY
          then Some (ModifierFilter type (read_modifiers vec))
          else if type = BRIDGE_FILTERTYPE_PRESSINGPHYSICALKEYS_GREATERTHAN \<or>
                  type = BRIDGE_FILTERTYPE_PRESSINGPHYSICALKEYS_LESSTHAN
          then Some (PressingPhysicalKeysFilter type (foldl (\<lambda>_ v. unat v) 0 vec))
          else if type = BRIDGE_FILTERTYPE_WINDOWNAME_NOT \<or> type = BRIDGE_FILTERTYPE_WINDOWNAME_ONLY
          then Some (WindowNameFilter type vec)
          else if type = BRIDGE_FILTERTYPE_UIELEMENTROLE_NOT \<or> type = BRIDGE_FILTERTYPE_UIELEMENTROLE_ONLY
          then Some (UIElementRoleFilter type vec)
          else None)"

section \<open>Evaluation\<close>

text \<open>
  The loop that the filters with a \<open>NOT\<close> and an \<open>ONLY\<close> form share: \<open>NOT\<close> blocks when a target is
  found, \<open>ONLY\<close> when none is.
\<close>

definition blocked_by :: "u32 \<Rightarrow> u32 \<Rightarrow> u32 \<Rightarrow> ('t \<Rightarrow> bool) \<Rightarrow> 't list \<Rightarrow> bool" where
  "blocked_by not_type only_type type found ts =
     (if type = not_type \<or> type = only_type
      then
        let isnot = (type = not_type)
        in case find found ts of
             Some _ \<Rightarrow> if isnot then True else False
           | None \<Rightarrow> if isnot then False else True
      else False)"

definition elapsed_blocked :: "u32 \<Rightarrow> u32 \<Rightarrow> u32 \<Rightarrow> u32 \<Rightarrow> (u32 \<times> u32) list \<Rightarrow> bool" where
  "elapsed_blocked greaterthan lessthan type current_ms ts =
     (if type = greaterthan \<or> type = lessthan
      then
        list_ex (\<lambda>(datatype, value).
          if datatype = BRIDGE_DATATYPE_MILLISECOND
          then type = greaterthan \<and> value \<ge> current_ms \<or> type = lessthan \<and> value \<le> current_ms
          else False) ts
      else False)"

definition ModifierFilter_isblocked :: "u32 \<Rightarrow> ModifierFlag list list \<Rightarrow> 'a FilterState_scheme \<Rightarrow> bool" where
  "ModifierFilter_isblocked type ts s =
     (if type = BRIDGE_FILTERTYPE_MODIFIER_NOT \<or> type = BRIDGE_FILTERTYPE_MODIFIER_ONLY \<or>
         type = BRIDGE_FILTERTYPE_MODIFIER_LOCKED_NOT \<or> type = BRIDGE_FILTERTYPE_MODIFIER_LOCKED_ONLY \<or>
         type = BRIDGE_FILTERTYPE_MODIFIER_STUCK_NOT \<or> type = BRIDGE_FILTERTYPE_MODIFIER_STUCK_ONLY
      then
        let isnot = (type = BRIDGE_FILTERTYPE_MODIFIER_NOT \<or> type = BRIDGE_FILTERTYPE_MODIFIER_LOCKED_NOT \<or>
                     type = BRIDGE_FILTERTYPE_MODIFIER_STUCK_NOT);
            found = (\<lambda>target.
              if target = [] then False
              else
                (type = BRIDGE_FILTERTYPE_MODIFIER_NOT \<or> type = BRIDGE_FILTERTYPE_MODIFIER_ONLY) \<and>
                  FlagStatus_isOn (fs_item s) target \<or>
                (type = BRIDGE_FILTERTYPE_MODIFIER_LOCKED_NOT \<or> type = BRIDGE_FILTERTYPE_MODIFIER_LOCKED_ONLY) \<and>
                  FlagStatus_isLocked (fs_item s) target \<or>
                (type = BRIDGE_FILTERTYPE_MODIFIER_STUCK_NOT \<or> type = BRIDGE_FILTERTYPE_MODIFIER_STUCK_ONLY) \<and>
                  FlagStatus_isStuck (fs_item s) target)
        in if list_ex found ts then isnot else \<not> isnot
      else False)"

definition ApplicationFilter_isblocked :: "u32 \<Rightarrow> u32 list \<Rightarrow> 'a FilterState_scheme \<Rightarrow> bool" where
  "ApplicationFilter_isblocked type ts s =
     blocked_by BRIDGE_FILTERTYPE_APPLICATION_NOT BRIDGE_FILTERTYPE_APPLICATION_ONLY type
       (\<lambda>t. t \<in> set (cs_appIds s)) ts"

definition ConfigFilter_isblocked :: "u32 \<Rightarrow> u32 list \<Rightarrow> 'a FilterState_scheme \<Rightarrow> bool" where
  "ConfigFilter_isblocked type ts s =
     blocked_by BRIDGE_FILTERTYPE_CONFIG_NOT BRIDGE_FILTERTYPE_CONFIG_ONLY type
       (\<lambda>t. RemapClassManager_isEnabled (unat t) s) ts"

definition DeviceFilter_isblocked :: "u32 \<Rightarrow> DeviceIdentifier list \<Rightarrow> 'a FilterState_scheme \<Rightarrow> bool" where
  "DeviceFilter_isblocked type ts s =
     blocked_by BRIDGE_FILTERTYPE_DEVICE_NOT BRIDGE_FILTERTYPE_DEVICE_ONLY type
       (\<lambda>t. DeviceIdentifier_isEqual (cs_deviceIdentifier s) (di_vendor t) (di_product t) (di_location t)) ts"

definition ElapsedTimeSinceLastPressedFilter_isblocked :: "u32 \<Rightarrow> (u32 \<times> u32) list \<Rightarrow> 'a FilterState_scheme \<Rightarrow> bool" where
  "ElapsedTimeSinceLastPressedFilter_isblocked type ts s =
     (if lp_datatype (cs_lastpressed s) = BRIDGE_DATATYPE_NONE then False
      else elapsed_blocked BRIDGE_FILTERTYPE_ELAPSEDTIMESINCELASTPRESSED_GREATERTHAN
             BRIDGE_FILTERTYPE_ELAPSEDTIMESINCELASTPRESSED_LESSTHAN type
             (getmillisec (cs_clock s) (lp_ic (cs_lastpressed s))) ts)"

definition ElapsedTimeSinceLastReleasedFilter_isblocked :: "u32 \<Rightarrow> (u32 \<times> u32) list \<Rightarrow> 'a FilterState_scheme \<Rightarrow> bool" where
  "ElapsedTimeSinceLastReleasedFilter_isblocked type ts s =
     (if lp_datatype (cs_lastreleased s) = BRIDGE_DATATYPE_NONE then False
      else elapsed_blocked BRIDGE_FILTERTYPE_ELAPSEDTIMESINCELASTRELEASED_GREATERTHAN
             BRIDGE_FILTERTYPE_ELAPSEDTIMESINCELASTRELEASED_LESSTHAN type
             (getmillisec (cs_clock s) (lp_ic (cs_lastreleased s))) ts)"

definition InputSourceFilter_isblocked :: "u32 \<Rightarrow> u32 list \<Rightarrow> 'a FilterState_scheme \<Rightarrow> bool" where
  "InputSourceFilter_isblocked type ts s =
     blocked_by BRIDGE_FILTERTYPE_INPUTSOURCE_NOT BRIDGE_FILTERTYPE_INPUTSOURCE_ONLY type
       (\<lambda>t. t \<in> set (cs_inputSourceIds s)) ts"

definition LastPressedPhysicalKeyFilter_isblocked :: "u32 \<Rightarrow> (u32 \<times> u32) list \<Rightarrow> 'a FilterState_scheme \<Rightarrow> bool" where
  "LastPressedPhysicalKeyFilter_isblocked type ts s =
     (if lp_datatype (cs_lastpressed s) = BRIDGE_DATATYPE_NONE then False
      else blocked_by BRIDGE_FILTERTYPE_LASTPRESSEDPHYSICALKEY_NOT BRIDGE_FILTERTYPE_LASTPRESSEDPHYSICALKEY_ONLY type
             (\<lambda>(d, v). d = lp_datatype (cs_lastpressed s) \<and> v = lp_value (cs_lastpressed s)) ts)"

definition LastReleasedPhysicalKeyFilter_isblocked :: "u32 \<Rightarrow> (u32 \<times> u32) list \<Rightarrow> 'a FilterState_scheme \<Rightarrow> bool" where
  "LastReleasedPhysicalKeyFilter_isblocked type ts s =
     (if lp_datatype (cs_lastreleased s) = BRIDGE_DATATYPE_NONE then False
      else blocked_by BRIDGE_FILTERTYPE_LASTRELEASEDPHYSICALKEY_NOT BRIDGE_FILTERTYPE_LASTRELEASEDPHYSICALKEY_ONLY type
             (\<lambda>(d, v). d = lp_datatype (cs_lastreleased s) \<and> v = lp_value (cs_lastreleased s)) ts)"

definition LastSentEventFilter_isblocked :: "u32 \<Rightarrow> (u32 \<times> u32 \<times> EventType) list \<Rightarrow> 'a FilterState_scheme \<Rightarrow> bool" where
  "LastSentEventFilter_isblocked type ts s =
     (if ls_datatype (cs_lastsent s) = BRIDGE_DATATYPE_NONE then False
      else blocked_by BRIDGE_FILTERTYPE_LASTSENTEVENT_NOT BRIDGE_FILTERTYPE_LASTSENTEVENT_ONLY type
             (\<lambda>(d, v, e). d = ls_datatype (cs_lastsent s) \<and> v = ls_value (cs_lastsent s) \<and>
                 (e = ls_eventtype (cs_lastsent s) \<or> e = EventType_NONE)) ts)"

definition PressingPhysicalKeysFilter_isblocked :: "u32 \<Rightarrow> nat \<Rightarrow> 'a FilterState_scheme \<Rightarrow> bool" where
  "PressingPhysicalKeysFilter_isblocked type n s =
     (if type = BRIDGE_FILTERTYPE_PRESSINGPHYSICALKEYS_GREATERTHAN \<or>
         type = BRIDGE_FILTERTYPE_PRESSINGPHYSICALKEYS_LESSTHAN
      then
        let current = pressingPhysicalKeysCountAll s
        in type = BRIDGE_FILTERTYPE_PRESSINGPHYSICALKEYS_GREATERTHAN \<and> n \<ge> current \<or>
           type = BRIDGE_FILTERTYPE_PRESSINGPHYSICALKEYS_LESSTHAN \<and> n \<le> current
      else False)"

definition UIElementRoleFilter_isblocked :: "u32 \<Rightarrow> u32 list \<Rightarrow> 'a FilterState_scheme \<Rightarrow> bool" where
  "UIElementRoleFilter_isblocked type ts s =
     blocked_by BRIDGE_FILTERTYPE_UIELEMENTROLE_NOT BRIDGE_FILTERTYPE_UIELEMENTROLE_ONLY type
       (\<lambda>t. t = cs_uiElementRoleId s) ts"

definition WindowNameFilter_isblocked :: "u32 \<Rightarrow> u32 list \<Rightarrow> 'a FilterState_scheme \<Rightarrow> bool" where
  "WindowNameFilter_isblocked type ts s =
     blocked_by BRIDGE_FILTERTYPE_WINDOWNAME_NOT BRIDGE_FILTERTYPE_WINDOWNAME_ONLY type
       (\<lambda>t. t \<in> set (cs_windowNameIds s)) ts"

fun isblocked :: "RemapFilter \<Rightarrow> 'a FilterState_scheme \<Rightarrow> bool" where
  "isblocked (ApplicationFilter type ts) s = ApplicationFilter_isblocked type ts s"
| "isblocked (ConfigFilter type ts) s = ConfigFilter_isblocked type ts s"
| "isblocked (DeviceFilter type ts) s = DeviceFilter_isblocked type ts s"
| "isblocked (ElapsedTimeSinceLastPressedFilter type ts) s = ElapsedTimeSinceLastPressedFilter_isblocked type ts s"
| "isblocked (ElapsedTimeSinceLastReleasedFilter type ts) s = ElapsedTimeSinceLastReleasedFilter_isblocked type ts s"
| "isblocked (InputSourceFilter type ts) s = InputSourceFilter_isblocked type ts s"
| "isblocked (LastPressedPhysicalKeyFilter type ts) s = LastPressedPhysicalKeyFilter_isblocked type ts s"
| "isblocked (LastReleasedPhysicalKeyFilter type ts) s = LastReleasedPhysicalKeyFilter_isblocked type ts s"
| "isblocked (LastSentEventFilter type ts) s = LastSentEventFilter_isblocked type ts s"
| "isblocked (ModifierFilter type ts) s = ModifierFilter_isblocked type ts s"
| "isblocked (PressingPhysicalKeysFilter type n) s = PressingPhysicalKeysFilter_isblocked type n s"
| "isblocked (UIElementRoleFilter type ts) s = UIElementRoleFilter_isblocked type ts s"
| "isblocked (WindowNameFilter type ts) s = WindowNameFilter_isblocked type ts s"

lemmas isblocked_defs =
  ApplicationFilter_isblocked_def ConfigFilter_isblocked_def DeviceFilter_isblocked_def
  ElapsedTimeSinceLastPressedFilter_isblocked_def ElapsedTimeSinceLastReleasedFilter_isblocked_def InputSourceFilter_isblocked_def
  LastPressedPhysicalKeyFilter_isblocked_def LastReleasedPhysicalKeyFilter_isblocked_def LastSentEventFilter_isblocked_def
  ModifierFilter_isblocked_def PressingPhysicalKeysFilter_isblocked_def UIElementRoleFilter_isblocked_def WindowNameFilter_isblocked_def

text \<open>Only the device filter blocks releases.\<close>

fun isblocked_keyup :: "RemapFilter \<Rightarrow> 'a FilterState_scheme \<Rightarrow> bool" where
  "isblocked_keyup (DeviceFilter type ts) s = isblocked (DeviceFilter type ts) s"
| "isblocked_keyup f s = False"

section \<open>NOT and ONLY\<close>

definition not_only_types :: "(u32 \<times> u32) list" where
  "not_only_types =
     [(BRIDGE_FILTERTYPE_APPLICATION_NOT, BRIDGE_FILTERTYPE_APPLICATION_ONLY),
      (BRIDGE_FILTERTYPE_WINDOWNAME_NOT, BRIDGE_FILTERTYPE_WINDOWNAME_ONLY),
      (BRIDGE_FILTERTYPE_UIELEMENTROLE_NOT, BRIDGE_FILTERTYPE_UIELEMENTROLE_ONLY),
      (BRIDGE_FILTERTYPE_CONFIG_NOT, BRIDGE_FILTERTYPE_CONFIG_ONLY),
      (BRIDGE_FILTERTYPE_DEVICE_NOT, BRIDGE_FILTERTYPE_DEVICE_ONLY),
      (BRIDGE_FILTERTYPE_INPUTSOURCE_NOT, BRIDGE_FILTERTYPE_INPUTSOURCE_ONLY),
      (BRIDGE_FILTERTYPE_LASTPRESSEDPHYSICALKEY_NOT, BRIDGE_FILTERTYPE_LASTPRESSEDPHYSICALKEY_ONLY),
      (BRIDGE_FILTERTYPE_LASTRELEASEDPHYSICALKEY_NOT, BRIDGE_FILTERTYPE_LASTRELEASEDPHYSICALKEY_ONLY),
      (BRIDGE_FILTERTYPE_LASTSENTEVENT_NOT, BRIDGE_FILTERTYPE_LASTSENTEVENT_ONLY),
      (BRIDGE_FILTERTYPE_MODIFIER_NOT, BRIDGE_FILTERTYPE_MODIFIER_ONLY),
      (BRIDGE_FILTERTYPE_MODIFIER_LOCKED_NOT, BRIDGE_FILTERTYPE_MODIFIER_LOCKED_ONLY),
      (BRIDGE_FILTERTYPE_MODIFIER_STUCK_NOT, BRIDGE_FILTERTYPE_MODIFIER_STUCK_ONLY)]"

text \<open>The event that a filter of this type looks at has not happened yet.\<close>

definition no_last_event :: "u32 \<Rightarrow> 'a CommonState_scheme \<Rightarrow> bool" where
  "no_last_event type s =
     (type = BRIDGE_FILTERTYPE_LASTPRESSEDPHYSICALKEY_NOT \<and> lp_datatype (cs_lastpressed s) = BRIDGE_DATATYPE_NONE \<or>
      type = BRIDGE_FILTERTYPE_LASTRELEASEDPHYSICALKEY_NOT \<and> lp_datatype (cs_lastreleased s) = BRIDGE_DATATYPE_NONE \<or>
      type = BRIDGE_FILTERTYPE_LASTSENTEVENT_NOT \<and> ls_datatype (cs_lastsent s) = BRIDGE_DATATYPE_NONE)"

lemma blocked_by_not_only:
  "n \<noteq> m \<Longrightarrow> blocked_by n m n found ts = (\<not> blocked_by n m m found ts)"
  by (simp add: blocked_by_def split: option.split)

text \<open>
  C39: The \<open>NOT\<close> and the \<open>ONLY\<close> form of a filter with the same targets are opposites in every state,
  so one setting can be given for some applications (devices, modifiers) and another for all others.
  A filter on the last key or event blocks in neither form before there was one.
\<close>

theorem filters_complement:
  assumes "(n, m) \<in> set not_only_types"
    and "RemapFilterFactory_create (n # vec) = Some f" and "RemapFilterFactory_create (m # vec) = Some g"
  shows "if no_last_event n s then \<not> isblocked f s \<and> \<not> isblocked g s
    else isblocked f s = (\<not> isblocked g s)"
proof -
  have f: "f = the (RemapFilterFactory_create (n # vec))" and g: "g = the (RemapFilterFactory_create (m # vec))"
    using assms(2, 3) by simp_all
  show ?thesis
    using assms(1) unfolding f g not_only_types_def list.set insert_iff empty_iff prod.inject
    by (elim disjE conjE)
      (simp_all add: RemapFilterFactory_create_def no_last_event_def blocked_by_not_only
        isblocked_defs)
qed

definition filter_static :: FilterState where
  "filter_static = KeyState.extend key_static \<lparr>mg_remapclasses = []\<rparr>"

theorem filters_complement_witness:
  "isblocked (ApplicationFilter BRIDGE_FILTERTYPE_APPLICATION_NOT [7]) (filter_static\<lparr>cs_appIds := [7]\<rparr>) =
     (\<not> isblocked (ApplicationFilter BRIDGE_FILTERTYPE_APPLICATION_ONLY [7]) (filter_static\<lparr>cs_appIds := [7]\<rparr>))"
  using filters_complement [of BRIDGE_FILTERTYPE_APPLICATION_NOT BRIDGE_FILTERTYPE_APPLICATION_ONLY "[7]"
      "ApplicationFilter BRIDGE_FILTERTYPE_APPLICATION_NOT [7]" "ApplicationFilter BRIDGE_FILTERTYPE_APPLICATION_ONLY [7]"
      "filter_static\<lparr>cs_appIds := [7]\<rparr>"]
  by (simp add: not_only_types_def RemapFilterFactory_create_def no_last_event_def)

section \<open>Reading modifiers\<close>

text \<open>How the compiler of the settings writes lists of modifiers.\<close>

definition modifier_words :: "ModifierFlag list list \<Rightarrow> u32 list" where
  "modifier_words fss =
     concat (map (\<lambda>fs. concat (map (\<lambda>f. [BRIDGE_DATATYPE_MODIFIERFLAG, f]) fs) @ [BRIDGE_DATATYPE_MODIFIERFLAGS_END, 1]) fss)"

lemma read_pairs_flags:
  "read_pairs (concat (map (\<lambda>f. [a, f]) fs) @ d # v # ws) = map (\<lambda>f. (a, f)) fs @ (d, v) # read_pairs ws"
  by (induction fs) auto

lemma map_last_snoc [simp]: "map_last f (xs @ [x]) = xs @ [f x]"
  by (induction f xs rule: map_last.induct) auto

lemma read_flags:
  "foldl read_modifier (ts @ [t]) (map (\<lambda>f. (BRIDGE_DATATYPE_MODIFIERFLAG, f)) fs) = ts @ [t @ fs]"
  by (induction fs arbitrary: t) (simp_all add: read_modifier_def ModifierFlag_of_data_def)

lemma read_modifier_words:
  "foldl read_modifier (ts @ [[]]) (read_pairs (modifier_words fss)) = ts @ fss @ [[]]"
proof (induction fss arbitrary: ts)
  case (Cons fs fss)
  have "foldl read_modifier (ts @ [[]]) (read_pairs (modifier_words (fs # fss))) =
      foldl read_modifier (read_modifier (ts @ [fs]) (BRIDGE_DATATYPE_MODIFIERFLAGS_END, 1)) (read_pairs (modifier_words fss))"
    using read_flags [of ts "[]" fs] by (simp add: modifier_words_def read_pairs_flags)
  also have "\<dots> = foldl read_modifier ((ts @ [fs]) @ [[]]) (read_pairs (modifier_words fss))"
    by (simp add: read_modifier_def)
  finally show ?case by (simp only: Cons.IH) simp
qed (simp add: modifier_words_def)


end
