(* ===== verification/FuncState.thy ===== *)
theory FuncState
  imports RemapFilters
begin

text \<open>
  The objects of the classes derived from \<^verbatim>\<open>RemapFunc::RemapFuncBase\<close> and the static members of these
  classes. Objects are numbered in the order of their creation and a number is not used again: this is
  what the identifiers of the weak pointers give. The \<open>KeyToKey\<close> members of an object have the numbers
  that follow its own, and its \<open>FromEvent\<close> and its target of the event watcher have its number. The kernel's allocator clears memory, so a member
  without an initialiser is zero.
\<close>

section \<open>DependingPressingPeriodKeyToKey\<close>

datatype PeriodMode =
    MODE_NONE
  | HOLDING_KEY_TO_KEY
  | KEY_OVERLAID_MODIFIER
  | KEY_OVERLAID_MODIFIER_WITH_REPEAT

datatype PeriodMSType = MS_SHORT_PERIOD | MS_LONG_LONG_PERIOD | MS_PRESSING_TARGET_KEY_ONLY

record PeriodMS =
  pm_mode :: PeriodMode
  pm_overwritten_value :: "PeriodMode \<Rightarrow> PeriodMSType \<Rightarrow> int"

datatype PeriodType = PERIOD_NONE | SHORT_PERIOD | LONG_PERIOD | LONG_LONG_PERIOD

record Depending =
  dp_active :: bool
  dp_periodtype :: PeriodType
  dp_isFromModifierDecreased :: bool
  dp_flagStatusWhenKeyPressed :: "FlagItem list"
  dp_fromEvent :: FromEvent
  dp_fromModifierFlags :: "ModifierFlag list"
  dp_pureFromModifierFlags :: "ModifierFlag list"
  dp_periodMS :: PeriodMS
  dp_ic :: microtime
  dp_keyboardRepeatID :: int
  dp_lastPhysicalEventType :: PhysicalEventType
  dp_interruptibleByScrollWheel :: bool

section \<open>The classes\<close>

datatype HoldingIndex =
    HK_NORMAL
  | HK_HOLDING
  | HK_KEYTOKEY_BEFORE_KEYDOWN
  | HK_KEYTOKEY_AFTER_KEYUP

record HoldingKeyToKey =
  hk_isUseSeparator :: bool
  hk_indexType :: HoldingIndex
  hk_index :: nat
  hk_fromEvent :: FromEvent

datatype OverlaidIndex =
    KO_HOLDING
  | KO_NORMAL
  | KO_REPEAT_TOKEYS
  | KO_KEYTOKEY_BEFORE_KEYDOWN
  | KO_KEYTOKEY_AFTER_KEYUP

record KeyOverlaidModifier =
  ko_isUseSeparator :: bool
  ko_indexType :: OverlaidIndex
  ko_index :: nat
  ko_fromEvent :: FromEvent

datatype DownUpIndex = KU_NONE | KU_FROM | KU_DOWNUP | KU_INTERRUPTED

record KeyDownUpToKey =
  ku_indexType :: DownUpIndex
  ku_needClearInterruptedToKeys :: bool
  ku_interrupted :: bool

record DoublePressModifier =
  dm_isUseSeparator :: bool
  dm_index_is_double_pressed :: bool
  dm_index :: nat
  dm_pressCount :: int
  dm_ic :: microtime

record IgnoreMultipleSameKeyPress =
  im_fromEvent :: FromEvent
  im_fromModifierFlags :: "ModifierFlag list"
  im_needToIgnore :: bool

text \<open>The member \<open>helper_\<close> of the two classes that cancel output events is its list of serial numbers.\<close>

record DropAllKeys =
  da_helper :: "u64 list"
  da_fromModifierFlags :: "ModifierFlag list"
  da_dropKey :: bool
  da_dropConsumerKey :: bool
  da_dropPointingButton :: bool
  da_modifierMatched :: bool
  da_doCancel :: bool
  da_dropped :: "FromEvent list"

record DropKeyAfterRemap =
  dk_helper :: "u64 list"
  dk_key :: KeyCode
  dk_flags :: Flags
  dk_strictFlagsMatch :: bool
  dk_dropped :: bool

record DropScrollWheel =
  ds_dropHorizontalScroll :: bool
  ds_dropMomentumScroll :: bool

record FlipPointingRelative =
  fp_flipHorizontal :: bool
  fp_flipVertical :: bool

record FlipScrollWheel =
  fw_flipHorizontalScroll :: bool
  fw_flipVerticalScroll :: bool
  fw_rotate :: bool

record ForceNumLockOn =
  fn_index :: nat
  fn_deviceIdentifier :: DeviceIdentifier
  fn_forceOffMode :: bool

record PointingRelativeToKey =
  pk_fromModifierFlags :: "ModifierFlag list"
  pk_deltaBuffer_dx :: DeltaBuffer
  pk_deltaBuffer_dy :: DeltaBuffer
  pk_keyrepeat_ic :: microtime
  pk_current_keytokey :: "nat option"

datatype ScrollIndex = INDEX_TYPE_DEFAULT | INDEX_TYPE_TOFLAGS | INDEX_TYPE_TOKEYS

record PointingRelativeToScroll =
  pr_index_type :: ScrollIndex
  pr_fromEvent :: FromEvent
  pr_fromModifierFlags :: "ModifierFlag list"
  pr_toModifierFlags :: "ModifierFlag list"
  pr_toEvent :: ToEvent
  pr_isToKeysDefined :: bool
  pr_absolute_distance :: u32
  pr_begin_ic :: microtime
  pr_chained_ic :: microtime
  pr_chained_delta1 :: int
  pr_chained_delta2 :: int
  pr_fixation_ic :: microtime
  pr_fixation_begin_ic :: microtime
  pr_fixation_delta1 :: int
  pr_fixation_delta2 :: int

record ScrollWheelToKey =
  sk_index :: nat
  sk_fromModifierFlags :: "ModifierFlag list"
  sk_fromScrollWheel :: ScrollWheel
  sk_continuousScrollEvent_ic :: microtime
  sk_firstScrollWheelEvent :: ScrollWheel
  sk_isContinuousScrollEventRemapped :: bool
  sk_keyrepeat_ic :: microtime

record ScrollWheelToScrollWheel =
  ss_index :: nat
  ss_fromModifierFlags :: "ModifierFlag list"
  ss_toModifierFlags :: "ModifierFlag list"

text \<open>A \<open>FromInfo\<close> holds only its event; \<open>downKeys_\<close> is scratch space of one call.\<close>

record SimultaneousKeyPresses =
  si_isUseSeparator :: bool
  si_index :: nat
  si_virtualkey :: KeyCode
  si_fromInfo :: "FromEvent list"
  si_isFromInfoFull :: bool
  si_fromModifierFlags :: "ModifierFlag list"
  si_isToRaw :: bool
  si_isPostFromEventsAsRaw :: bool
  si_isStrictKeyOrder :: bool
  si_toKey_raw :: KeyCode

datatype RemapFunc =
    RF_KeyToKey
  | RF_HoldingKeyToKey HoldingKeyToKey
  | RF_KeyOverlaidModifier KeyOverlaidModifier
  | RF_KeyDownUpToKey KeyDownUpToKey
  | RF_DoublePressModifier DoublePressModifier
  | RF_IgnoreMultipleSameKeyPress IgnoreMultipleSameKeyPress
  | RF_DropAllKeys DropAllKeys
  | RF_DropKeyAfterRemap DropKeyAfterRemap
  | RF_DropPointingRelativeCursorMove
  | RF_DropScrollWheel DropScrollWheel
  | RF_FlipPointingRelative FlipPointingRelative
  | RF_FlipScrollWheel FlipScrollWheel
  | RF_ForceNumLockOn ForceNumLockOn
  | RF_PointingRelativeToKey PointingRelativeToKey
  | RF_PointingRelativeToScroll PointingRelativeToScroll
  | RF_ScrollWheelToKey ScrollWheelToKey
  | RF_ScrollWheelToScrollWheel ScrollWheelToScrollWheel
  | RF_SetKeyboardType KeyboardType
  | RF_SimultaneousKeyPresses SimultaneousKeyPresses
  | RF_BlockUntilKeyUp FromEvent
  | RF_PassThrough

text \<open>
  An item of \<open>SimultaneousKeyPresses::ActiveFromInfos\<close>; a \<open>FromInfo\<close> is identified by the object that
  holds it and its index in \<open>fromInfo_\<close>. A device is a weak pointer, named by the number of the device item.
\<close>

record ActiveFromInfo =
  af_fromInfo :: "nat \<times> nat"
  af_device :: nat
  af_frontDeviceIdentifier :: DeviceIdentifier
  af_frontDevice :: nat
  af_serialNumber :: u64

text \<open>
  \<open>rf_next\<close> is the number of the next object, \<open>rf_func\<close> the class and members of an object and
  \<open>rf_autogenId\<close>, \<open>rf_ignorePassThrough\<close> the members of the base class. The static members are those of
  \<open>DependingPressingPeriodKeyToKey\<close> (\<open>dp_\<close>), \<open>PointingRelativeToScroll\<close> (\<open>ps_\<close>) and \<open>ActiveFromInfos\<close>.
  \<open>dn_numLock\<close> is the num lock state of each device, which the device keeps.
\<close>

record FuncState = FilterState +
  rf_next :: nat
  rf_func :: "nat \<Rightarrow> RemapFunc"
  rf_autogenId :: "nat \<Rightarrow> AutogenId"
  rf_ignorePassThrough :: "nat \<Rightarrow> bool"
  dp_objects :: "nat \<Rightarrow> Depending"
  dp_timer :: TimerWrapper
  dp_target :: "nat option"
  ps_queue :: "(int \<times> int) list"
  ps_fromModifierFlags :: "ModifierFlag list"
  ps_toModifierFlags :: "ModifierFlag list"
  ps_autogenId :: AutogenId
  ps_lastPhysicalEventType :: PhysicalEventType
  ps_timer :: TimerWrapper
  af_list :: "ActiveFromInfo list"
  dn_numLock :: "nat \<Rightarrow> bool"

section \<open>Objects\<close>

text \<open>The base class part of every constructor: the object gets its number from its owner.\<close>

definition RemapFunc_construct ::
  "nat \<Rightarrow> RemapFunc \<Rightarrow> AutogenId \<Rightarrow> 'a FuncState_scheme \<Rightarrow> 'a FuncState_scheme"
where
  "RemapFunc_construct this f autogenId s =
     (RemapFuncBase_new this s)\<lparr>rf_func := (rf_func s)(this := f), rf_autogenId := (rf_autogenId s)(this := autogenId),
       rf_ignorePassThrough := (rf_ignorePassThrough s)(this := False)\<rparr>"

definition KeyToKey_construct :: "nat \<Rightarrow> AutogenId \<Rightarrow> 'a FuncState_scheme \<Rightarrow> 'a FuncState_scheme" where
  "KeyToKey_construct this autogenId s =
     (RemapFunc_construct this RF_KeyToKey autogenId s)\<lparr>kt_objects := (kt_objects s)(this := KeyToKey_new autogenId)\<rparr>"

definition KeyToKey_add_to :: "nat \<Rightarrow> u32 \<Rightarrow> u32 \<Rightarrow> 'a FuncState_scheme \<Rightarrow> 'a FuncState_scheme" where
  "KeyToKey_add_to this datatype newval s = update_object this (KeyToKey_add (cs_pairs s) datatype newval) s"

definition KeyToKey_add_key :: "nat \<Rightarrow> KeyCode \<Rightarrow> 'a FuncState_scheme \<Rightarrow> 'a FuncState_scheme" where
  "KeyToKey_add_key this newval s = KeyToKey_add_to this BRIDGE_DATATYPE_KEYCODE newval s"

definition update_func :: "nat \<Rightarrow> RemapFunc \<Rightarrow> 'a FuncState_scheme \<Rightarrow> 'a FuncState_scheme" where
  "update_func this f s = s\<lparr>rf_func := (rf_func s)(this := f)\<rparr>"

definition update_depending :: "nat \<Rightarrow> (Depending \<Rightarrow> Depending) \<Rightarrow> 'a FuncState_scheme \<Rightarrow> 'a FuncState_scheme" where
  "update_depending this f s = s\<lparr>dp_objects := (dp_objects s)(this := f (dp_objects s this))\<rparr>"

text \<open>\<open>IntervalChecker::getmillisec\<close> of a member.\<close>

definition ms_since :: "microtime \<Rightarrow> 'a CommonState_scheme \<Rightarrow> u32" where
  "ms_since ic s = getmillisec (cs_clock s) ic"

text \<open>A call of \<open>remap\<close>: whether the event was taken, the parameters and the state afterwards.\<close>

type_synonym 's remap_result = "(bool \<times> RemapParams \<times> 's) option"

text \<open>Press and release of a \<open>KeyToKey\<close> member, which several classes send.\<close>

definition call_downup :: "nat \<Rightarrow> PhysicalEventType \<Rightarrow> 'a KeyState_scheme \<Rightarrow> 'a KeyState_scheme option" where
  "call_downup this physicalEventType s =
     do {
       (_, s) \<leftarrow> call_remap_with_VK_PSEUDO_KEY this EventType_DOWN physicalEventType s;
       (_, s) \<leftarrow> call_remap_with_VK_PSEUDO_KEY this EventType_UP physicalEventType s;
       Some s
     }"

end
