(* ===== verification/DependingKeys.thy ===== *)
theory DependingKeys
  imports FuncState
begin

text \<open>
  \<^verbatim>\<open>DependingPressingPeriodKeyToKey\<close>, which sends different keys when a key is pressed for a short time,
  longer, very long or alone, and the two classes made of it, \<^verbatim>\<open>HoldingKeyToKey\<close> and
  \<^verbatim>\<open>KeyOverlaidModifier\<close>. The object has the number of its owner.
\<close>

section \<open>PeriodMS\<close>

definition get_keyoverlaidmodifier_initial_modifier_wait :: "'a CommonState_scheme \<Rightarrow> u32" where
  "get_keyoverlaidmodifier_initial_modifier_wait s =
     Config_getvalue_min (cs_config s parameter_keyoverlaidmodifier_initial_modifier_wait) 0"

definition get_keyoverlaidmodifier_initial_wait :: "'a CommonState_scheme \<Rightarrow> u32" where
  "get_keyoverlaidmodifier_initial_wait s = Config_getvalue_min (cs_config s repeat_keyoverlaidmodifier_initial_wait) 200"

definition get_keyoverlaidmodifier_timeout :: "'a CommonState_scheme \<Rightarrow> u32" where
  "get_keyoverlaidmodifier_timeout s = Config_getvalue_min (cs_config s parameter_keyoverlaidmodifier_timeout) 0"

definition get_holdingkeytokey_wait :: "'a CommonState_scheme \<Rightarrow> u32" where
  "get_holdingkeytokey_wait s = Config_getvalue_min (cs_config s parameter_holdingkeytokey_wait) 10"

definition PeriodMS_new :: PeriodMS where
  "PeriodMS_new = \<lparr>pm_mode = MODE_NONE, pm_overwritten_value = (\<lambda>_ _. -1)\<rparr>"

definition PeriodMS_set :: "PeriodMode \<Rightarrow> PeriodMS \<Rightarrow> PeriodMS" where
  "PeriodMS_set newval p = p\<lparr>pm_mode := newval\<rparr>"

text \<open>The value is stored as an \<open>int\<close>: one of 2^31 or more becomes negative, which means not set.\<close>

definition PeriodMS_overwrite :: "PeriodMode \<Rightarrow> PeriodMSType \<Rightarrow> u32 \<Rightarrow> PeriodMS \<Rightarrow> PeriodMS" where
  "PeriodMS_overwrite mode type newval p =
     p\<lparr>pm_overwritten_value :=
         (pm_overwritten_value p)(mode := (pm_overwritten_value p mode)(type := sint newval))\<rparr>"

definition PeriodMS_get :: "PeriodMSType \<Rightarrow> PeriodMS \<Rightarrow> 'a CommonState_scheme \<Rightarrow> u32" where
  "PeriodMS_get type p s =
     (if pm_overwritten_value p (pm_mode p) type \<ge> 0 then word_of_int (pm_overwritten_value p (pm_mode p) type)
      else case pm_mode p of
        HOLDING_KEY_TO_KEY \<Rightarrow>
          (case type of
             MS_SHORT_PERIOD \<Rightarrow> get_holdingkeytokey_wait s
           | MS_LONG_LONG_PERIOD \<Rightarrow> 0
           | MS_PRESSING_TARGET_KEY_ONLY \<Rightarrow> 0)
      | KEY_OVERLAID_MODIFIER \<Rightarrow>
          (case type of
             MS_SHORT_PERIOD \<Rightarrow> get_keyoverlaidmodifier_initial_modifier_wait s
           | MS_LONG_LONG_PERIOD \<Rightarrow> 0
           | MS_PRESSING_TARGET_KEY_ONLY \<Rightarrow> get_keyoverlaidmodifier_timeout s)
      | KEY_OVERLAID_MODIFIER_WITH_REPEAT \<Rightarrow>
          (case type of
             MS_SHORT_PERIOD \<Rightarrow> get_keyoverlaidmodifier_initial_modifier_wait s
           | MS_LONG_LONG_PERIOD \<Rightarrow> get_keyoverlaidmodifier_initial_wait s
           | MS_PRESSING_TARGET_KEY_ONLY \<Rightarrow> get_keyoverlaidmodifier_timeout s)
      | MODE_NONE \<Rightarrow> 0)"

definition PeriodMS_enabled :: "PeriodMSType \<Rightarrow> PeriodMS \<Rightarrow> bool" where
  "PeriodMS_enabled type p =
     (case pm_mode p of
        HOLDING_KEY_TO_KEY \<Rightarrow>
          (case type of
             MS_SHORT_PERIOD \<Rightarrow> True
           | MS_LONG_LONG_PERIOD \<Rightarrow> False
           | MS_PRESSING_TARGET_KEY_ONLY \<Rightarrow> False)
      | KEY_OVERLAID_MODIFIER \<Rightarrow>
          (case type of
             MS_SHORT_PERIOD \<Rightarrow> True
           | MS_LONG_LONG_PERIOD \<Rightarrow> False
           | MS_PRESSING_TARGET_KEY_ONLY \<Rightarrow> True)
      | KEY_OVERLAID_MODIFIER_WITH_REPEAT \<Rightarrow>
          (case type of
             MS_SHORT_PERIOD \<Rightarrow> True
           | MS_LONG_LONG_PERIOD \<Rightarrow> True
           | MS_PRESSING_TARGET_KEY_ONLY \<Rightarrow> True)
      | MODE_NONE \<Rightarrow> False)"

section \<open>Construction\<close>

text \<open>The members \<open>keytokey_\<close> and \<open>beforeAfterKeys_\<close>.\<close>

datatype KeyToKeyType = KT_SHORT_PERIOD | KT_LONG_PERIOD | KT_LONG_LONG_PERIOD | KT_PRESSING_TARGET_KEY_ONLY

fun dp_keytokey :: "nat \<Rightarrow> KeyToKeyType \<Rightarrow> nat" where
  "dp_keytokey this KT_SHORT_PERIOD = this + 1"
| "dp_keytokey this KT_LONG_PERIOD = this + 2"
| "dp_keytokey this KT_LONG_LONG_PERIOD = this + 3"
| "dp_keytokey this KT_PRESSING_TARGET_KEY_ONLY = this + 4"

definition dp_beforeAfterKeys :: "nat \<Rightarrow> nat" where
  "dp_beforeAfterKeys this = this + 5"

definition dp_members :: "nat \<Rightarrow> nat list" where
  "dp_members this =
     map (dp_keytokey this) [KT_SHORT_PERIOD, KT_LONG_PERIOD, KT_LONG_LONG_PERIOD, KT_PRESSING_TARGET_KEY_ONLY] @
     [dp_beforeAfterKeys this]"

definition Depending_new :: Depending where
  "Depending_new =
     \<lparr>dp_active = False, dp_periodtype = PERIOD_NONE, dp_isFromModifierDecreased = False,
      dp_flagStatusWhenKeyPressed = [], dp_fromEvent = FE_NONE, dp_fromModifierFlags = [],
      dp_pureFromModifierFlags = [], dp_periodMS = PeriodMS_new, dp_ic = (0, 0), dp_keyboardRepeatID = 0,
      dp_lastPhysicalEventType = PE_DOWN, dp_interruptibleByScrollWheel = True\<rparr>"

definition Depending_construct :: "nat \<Rightarrow> AutogenId \<Rightarrow> 'a FuncState_scheme \<Rightarrow> 'a FuncState_scheme" where
  "Depending_construct this autogenId s =
     (let s = s\<lparr>dp_objects := (dp_objects s)(this := Depending_new)\<rparr>;
          s = fold (\<lambda>p. KeyToKey_construct p autogenId) (dp_members this) s;
          s = Target_new this s
      in fold (\<lambda>p. KeyToKey_add_key p KeyCode_VK_PSEUDO_KEY) (dp_members this) s)"

text \<open>The destructor and those of the members, in reverse order of their declaration.\<close>

definition Depending_delete :: "nat \<Rightarrow> 'a FuncState_scheme \<Rightarrow> 'a FuncState_scheme" where
  "Depending_delete this s =
     (let s = (if dp_target s = Some this
               then s\<lparr>dp_timer := cancelTimeout (dp_timer s), dp_target := None\<rparr> else s);
          s = Target_delete this s;
          s = fold KeyToKey_delete (rev (dp_members this)) s
      in PressingFromEvents_erase_all this s)"

definition Depending_static_initialize :: "'a FuncState_scheme \<Rightarrow> 'a FuncState_scheme" where
  "Depending_static_initialize s = s\<lparr>dp_timer := TimerWrapper_initialize True True (dp_timer s)\<rparr>"

definition Depending_static_terminate :: "'a FuncState_scheme \<Rightarrow> 'a FuncState_scheme" where
  "Depending_static_terminate s = s\<lparr>dp_timer := TimerWrapper_terminate (dp_timer s)\<rparr>"

definition setFromEvent :: "nat \<Rightarrow> FromEvent \<Rightarrow> 'a FuncState_scheme \<Rightarrow> 'a FuncState_scheme" where
  "setFromEvent this v s = update_depending this (\<lambda>d. d\<lparr>dp_fromEvent := v\<rparr>) s"

definition addFromModifierFlags :: "nat \<Rightarrow> u32 \<Rightarrow> u32 \<Rightarrow> 'a FuncState_scheme \<Rightarrow> 'a FuncState_scheme" where
  "addFromModifierFlags this datatype newval s =
     (let modifierFlag = ModifierFlag_of_data datatype newval;
          s = update_depending this (\<lambda>d. d\<lparr>dp_fromModifierFlags := dp_fromModifierFlags d @ [modifierFlag]\<rparr>) s
      in if FromEvent_getModifierFlag (cs_pairs s) (dp_fromEvent (dp_objects s this)) \<noteq> modifierFlag
         then update_depending this (\<lambda>d. d\<lparr>dp_pureFromModifierFlags := dp_pureFromModifierFlags d @ [modifierFlag]\<rparr>) s
         else s)"

definition Depending_add ::
  "nat \<Rightarrow> KeyToKeyType \<Rightarrow> u32 \<Rightarrow> u32 \<Rightarrow> 'a FuncState_scheme \<Rightarrow> 'a FuncState_scheme"
where
  "Depending_add this type datatype newval s =
     (if datatype = BRIDGE_DATATYPE_OPTION \<and> Option_UNINTERRUPTIBLE_BY_SCROLL_WHEEL = newval
      then update_depending this (\<lambda>d. d\<lparr>dp_interruptibleByScrollWheel := False\<rparr>) s
      else KeyToKey_add_to (dp_keytokey this type) datatype newval s)"

definition addBeforeAfterKeys :: "nat \<Rightarrow> u32 \<Rightarrow> u32 \<Rightarrow> 'a FuncState_scheme \<Rightarrow> 'a FuncState_scheme" where
  "addBeforeAfterKeys this datatype newval s = KeyToKey_add_to (dp_beforeAfterKeys this) datatype newval s"

definition setPeriodMS :: "nat \<Rightarrow> PeriodMode \<Rightarrow> 'a FuncState_scheme \<Rightarrow> 'a FuncState_scheme" where
  "setPeriodMS this newval s = update_depending this (\<lambda>d. d\<lparr>dp_periodMS := PeriodMS_set newval (dp_periodMS d)\<rparr>) s"

definition overwritePeriodMS ::
  "nat \<Rightarrow> PeriodMode \<Rightarrow> PeriodMSType \<Rightarrow> u32 \<Rightarrow> 'a FuncState_scheme \<Rightarrow> 'a FuncState_scheme"
where
  "overwritePeriodMS this mode type newval s =
     update_depending this (\<lambda>d. d\<lparr>dp_periodMS := PeriodMS_overwrite mode type newval (dp_periodMS d)\<rparr>) s"

definition Depending_clearToKeys :: "nat \<Rightarrow> KeyToKeyType \<Rightarrow> 'a FuncState_scheme \<Rightarrow> 'a FuncState_scheme" where
  "Depending_clearToKeys this type s = update_object (dp_keytokey this type) KeyToKey_clearToKeys s"

section \<open>Pressing and releasing\<close>

datatype Manipulation = DECREASE | INCREASE

definition manipulatePureFromModifierFlags ::
  "nat \<Rightarrow> nat \<Rightarrow> Manipulation \<Rightarrow> bool \<Rightarrow> 'a FuncState_scheme \<Rightarrow> 'a FuncState_scheme"
where
  "manipulatePureFromModifierFlags this keytokey manipulation force s =
     (let d = dp_objects s this in
      if manipulation = DECREASE \<and> dp_isFromModifierDecreased d then s
      else if manipulation = INCREASE \<and> \<not> dp_isFromModifierDecreased d then s
      else
        let needToManipulate =
              (if force then True
               else if isLastToEventModifierKeyOrLikeModifier (kt_objects s keytokey) s
               then (if manipulation = DECREASE then True else False)
               else True)
        in if needToManipulate
           then (case manipulation of
               DECREASE \<Rightarrow>
                 FlagStatus_decrease (FA_Flags (dp_pureFromModifierFlags d))
                   (update_depending this (\<lambda>d. d\<lparr>dp_isFromModifierDecreased := True\<rparr>) s)
             | INCREASE \<Rightarrow>
                 FlagStatus_increase (FA_Flags (dp_pureFromModifierFlags d))
                   (update_depending this (\<lambda>d. d\<lparr>dp_isFromModifierDecreased := False\<rparr>) s))
           else s)"

definition set_periodtype :: "nat \<Rightarrow> PeriodType \<Rightarrow> 'a FuncState_scheme \<Rightarrow> 'a FuncState_scheme" where
  "set_periodtype this newval s = update_depending this (\<lambda>d. d\<lparr>dp_periodtype := newval\<rparr>) s"

text \<open>
  The block that \<open>dokeydown\<close> and the timer share: press a \<open>KeyToKey\<close> with the modifiers that were held
  when the key was pressed.
\<close>

definition press_with_saved_flags ::
  "nat \<Rightarrow> KeyToKeyType \<Rightarrow> ('a FuncState_scheme \<Rightarrow> 'a FuncState_scheme option) \<Rightarrow> 'a FuncState_scheme \<Rightarrow>
   'a FuncState_scheme option"
where
  "press_with_saved_flags this type body s =
     (let ktk = dp_keytokey this type;
          s = manipulatePureFromModifierFlags this ktk DECREASE False s;
          (setter, s) = ScopedSetter_new (dp_flagStatusWhenKeyPressed (dp_objects s this)) s
      in do {
        s \<leftarrow> body s;
        let s = ScopedSetter_delete setter s;
        Some (manipulatePureFromModifierFlags this ktk INCREASE False s)
      })"

definition release_keytokey :: "nat \<Rightarrow> KeyToKeyType \<Rightarrow> 'a FuncState_scheme \<Rightarrow> 'a FuncState_scheme option" where
  "release_keytokey this type s =
     do {
       let ktk = dp_keytokey this type;
       (_, s) \<leftarrow> call_remap_with_VK_PSEUDO_KEY ktk EventType_UP (dp_lastPhysicalEventType (dp_objects s this)) s;
       Some (manipulatePureFromModifierFlags this ktk INCREASE False s)
     }"

definition dokeydown :: "nat \<Rightarrow> RemapParams \<Rightarrow> 'a FuncState_scheme \<Rightarrow> 'a FuncState_scheme option" where
  "dokeydown this remapParams s =
     (if \<not> dp_active (dp_objects s this) then Some s
      else
        let s = update_depending this (\<lambda>d. d\<lparr>dp_active := False\<rparr>) s;
            s = (if dp_target s = Some this then s\<lparr>dp_timer := cancelTimeout (dp_timer s)\<rparr> else s)
        in case dp_periodtype (dp_objects s this) of
             PERIOD_NONE \<Rightarrow>
               press_with_saved_flags this KT_SHORT_PERIOD (\<lambda>s. do {
                 (_, s) \<leftarrow> call_remap_with_VK_PSEUDO_KEY (dp_keytokey this KT_SHORT_PERIOD) EventType_DOWN
                            (rp_physicalEventType remapParams) s;
                 KeyToKey_prepare (dp_keytokey this KT_SHORT_PERIOD) remapParams s
               }) (set_periodtype this SHORT_PERIOD s)
           | SHORT_PERIOD \<Rightarrow> Some s
           | LONG_PERIOD \<Rightarrow> Some s
           | LONG_LONG_PERIOD \<Rightarrow> Some s)"

definition pressed_alone :: "nat \<Rightarrow> 'a FuncState_scheme \<Rightarrow> 'a FuncState_scheme option" where
  "pressed_alone this s =
     (let d = dp_objects s this in
      if PeriodMS_enabled MS_PRESSING_TARGET_KEY_ONLY (dp_periodMS d) \<and> \<not> isAnyEventHappen this s \<and>
         ms_since (dp_ic d) s < PeriodMS_get MS_PRESSING_TARGET_KEY_ONLY (dp_periodMS d) s
      then press_with_saved_flags this KT_PRESSING_TARGET_KEY_ONLY
             (\<lambda>s. call_downup (dp_keytokey this KT_PRESSING_TARGET_KEY_ONLY)
                    (dp_lastPhysicalEventType (dp_objects s this)) s) s
      else Some s)"

definition dokeyup :: "nat \<Rightarrow> 'a FuncState_scheme \<Rightarrow> 'a FuncState_scheme option" where
  "dokeyup this s =
     do {
       s \<leftarrow> (case dp_periodtype (dp_objects s this) of
           SHORT_PERIOD \<Rightarrow> release_keytokey this KT_SHORT_PERIOD (set_periodtype this PERIOD_NONE s)
         | LONG_PERIOD \<Rightarrow>
             do {
               s \<leftarrow> release_keytokey this KT_LONG_PERIOD (set_periodtype this PERIOD_NONE s);
               pressed_alone this s
             }
         | LONG_LONG_PERIOD \<Rightarrow> release_keytokey this KT_LONG_LONG_PERIOD (set_periodtype this PERIOD_NONE s)
         | PERIOD_NONE \<Rightarrow> Some s);
       Some (Target_unobserve this s)
     }"

definition press_saved :: "nat \<Rightarrow> KeyToKeyType \<Rightarrow> 'a FuncState_scheme \<Rightarrow> 'a FuncState_scheme option" where
  "press_saved this type s =
     press_with_saved_flags this type (\<lambda>s. do {
       (_, s) \<leftarrow> call_remap_with_VK_PSEUDO_KEY (dp_keytokey this type) EventType_DOWN
                  (dp_lastPhysicalEventType (dp_objects s this)) s;
       Some s
     }) s"

definition Depending_fire_timer_callback :: "'a FuncState_scheme \<Rightarrow> 'a FuncState_scheme option" where
  "Depending_fire_timer_callback s =
     (case dp_target s of
        None \<Rightarrow> Some s
      | Some target \<Rightarrow>
          (case dp_periodtype (dp_objects s target) of
             PERIOD_NONE \<Rightarrow>
               do {
                 s \<leftarrow> press_saved target KT_LONG_PERIOD (set_periodtype target LONG_PERIOD s);
                 let s = Target_observe target s;
                 let s = update_depending target (\<lambda>d. d\<lparr>dp_ic := cs_clock s\<rparr>) s;
                 if PeriodMS_enabled MS_LONG_LONG_PERIOD (dp_periodMS (dp_objects s target))
                 then
                   let s = KeyboardRepeat_cancel s;
                       s = update_depending target (\<lambda>d. d\<lparr>dp_keyboardRepeatID := kr_id s\<rparr>) s
                   in Some (s\<lparr>dp_timer := snd (setTimeoutMS
                        (PeriodMS_get MS_LONG_LONG_PERIOD (dp_periodMS (dp_objects s target)) s) True (dp_timer s))\<rparr>)
                 else Some s
               }
           | LONG_PERIOD \<Rightarrow>
               let isKeyboardRepeatCanceled = (dp_keyboardRepeatID (dp_objects s target) \<noteq> kr_id s) in
               do {
                 s \<leftarrow> release_keytokey target KT_LONG_PERIOD s;
                 if isKeyboardRepeatCanceled then Some (set_periodtype target PERIOD_NONE s)
                 else press_saved target KT_LONG_LONG_PERIOD (set_periodtype target LONG_LONG_PERIOD s)
               }
           | SHORT_PERIOD \<Rightarrow> Some s
           | LONG_LONG_PERIOD \<Rightarrow> Some s))"

definition Depending_tick :: "'a FuncState_scheme \<Rightarrow> 'a FuncState_scheme option" where
  "Depending_tick s =
     (let (run, t) = timer_callback (dp_timer s);
          s = s\<lparr>dp_timer := t\<rparr>
      in if run then Depending_fire_timer_callback s else Some s)"

section \<open>prepare and remap\<close>

definition Depending_prepare :: "nat \<Rightarrow> RemapParams \<Rightarrow> 'a FuncState_scheme \<Rightarrow> 'a FuncState_scheme option" where
  "Depending_prepare this remapParams s =
     do {
       s \<leftarrow> (case rp_params remapParams of
           P_ScrollWheel _ \<Rightarrow>
             if dp_interruptibleByScrollWheel (dp_objects s this) then dokeydown this remapParams s else Some s
         | _ \<Rightarrow> Some s);
       if iskeydown (rp_params remapParams) = Some True then dokeydown this remapParams s else Some s
     }"

text \<open>\<open>beforeAfterKeys_\<close> is pressed and released with the modifiers of the setting taken away.\<close>

definition with_flags_decreased ::
  "nat \<Rightarrow> ('a FuncState_scheme \<Rightarrow> 'a FuncState_scheme option) \<Rightarrow> 'a FuncState_scheme \<Rightarrow> 'a FuncState_scheme option"
where
  "with_flags_decreased this body s =
     do {
       s \<leftarrow> body (manipulatePureFromModifierFlags this (dp_beforeAfterKeys this) DECREASE True s);
       Some (manipulatePureFromModifierFlags this (dp_beforeAfterKeys this) INCREASE True s)
     }"

definition Depending_keydown :: "nat \<Rightarrow> PhysicalEventType \<Rightarrow> 'a FuncState_scheme \<Rightarrow> 'a FuncState_scheme option" where
  "Depending_keydown this physicalEventType s =
     (let s = s\<lparr>dp_target := Some this\<rparr>;
          s = update_depending this (\<lambda>d. d\<lparr>dp_active := True, dp_periodtype := PERIOD_NONE\<rparr>) s;
          e = dp_fromEvent (dp_objects s this);
          s = ButtonStatus_decrease (FromEvent_getPointingButton e) s;
          s = FlagStatus_decrease (FA_Flag (FromEvent_getModifierFlag (cs_pairs s) e)) s
      in do {
        s \<leftarrow> with_flags_decreased this (\<lambda>s. do {
          (_, s) \<leftarrow> call_remap_with_VK_PSEUDO_KEY (dp_beforeAfterKeys this) EventType_DOWN physicalEventType s;
          let s = update_depending this (\<lambda>d. d\<lparr>dp_flagStatusWhenKeyPressed := fs_item s\<rparr>) s;
          Some (setIgnorePhysicalUpEvent True s)
        }) s;
        let ms = PeriodMS_get MS_SHORT_PERIOD (dp_periodMS (dp_objects s this)) s;
        s \<leftarrow> (if ms = 0 then Depending_fire_timer_callback s
              else Some (s\<lparr>dp_timer := snd (setTimeoutMS ms True (dp_timer s))\<rparr>));
        Some (registerPrepareTargetItem this s)
      })"

definition Depending_keyup :: "nat \<Rightarrow> RemapParams \<Rightarrow> 'a FuncState_scheme \<Rightarrow> 'a FuncState_scheme option" where
  "Depending_keyup this remapParams s =
     (let e = dp_fromEvent (dp_objects s this);
          s = ButtonStatus_increase (FromEvent_getPointingButton e) s;
          s = FlagStatus_increase (FA_Flag (FromEvent_getModifierFlag (cs_pairs s) e)) s
      in do {
        s \<leftarrow> dokeydown this remapParams s;
        s \<leftarrow> dokeyup this s;
        s \<leftarrow> with_flags_decreased this (\<lambda>s. do {
          (_, s) \<leftarrow> call_remap_with_VK_PSEUDO_KEY (dp_beforeAfterKeys this) EventType_UP
                     (rp_physicalEventType remapParams) s;
          Some s
        }) s;
        Some (unregisterPrepareTargetItem this s)
      })"

definition Depending_remap ::
  "nat \<Rightarrow> RemapParams \<Rightarrow> 'a FuncState_scheme \<Rightarrow> 'a FuncState_scheme remap_result"
where
  "Depending_remap this remapParams s =
     (case iskeydown (rp_params remapParams) of
        None \<Rightarrow> Some (False, remapParams, s)
      | Some down \<Rightarrow>
          if rp_isremapped remapParams then Some (False, remapParams, s)
          else
            let d = dp_objects s this;
                (changed, s) = changePressingState this (dp_fromEvent d) (rp_params remapParams) (fs_item s)
                                 (dp_fromModifierFlags d) s
            in if \<not> changed then Some (False, remapParams, s)
               else do {
                 let physicalEventType = rp_physicalEventType remapParams;
                 let remapParams = remapParams\<lparr>rp_isremapped := True\<rparr>;
                 let s = update_depending this (\<lambda>d. d\<lparr>dp_lastPhysicalEventType := physicalEventType\<rparr>) s;
                 s \<leftarrow> (if down then Depending_keydown this physicalEventType s
                       else Depending_keyup this remapParams s);
                 Some (True, remapParams, s)
               })"

section \<open>HoldingKeyToKey\<close>

definition HoldingKeyToKey_new :: "nat \<Rightarrow> AutogenId \<Rightarrow> 'a FuncState_scheme \<Rightarrow> 'a FuncState_scheme" where
  "HoldingKeyToKey_new this autogenId s =
     (let s = RemapFunc_construct this
                (RF_HoldingKeyToKey \<lparr>hk_isUseSeparator = False, hk_indexType = HK_NORMAL, hk_index = 0, hk_fromEvent = FE_NONE\<rparr>)
                autogenId s;
          s = Depending_construct this autogenId s
      in setPeriodMS this HOLDING_KEY_TO_KEY s)"

definition HoldingKeyToKey_addTo ::
  "HoldingIndex \<Rightarrow> nat \<Rightarrow> u32 \<Rightarrow> u32 \<Rightarrow> 'a FuncState_scheme \<Rightarrow> 'a FuncState_scheme"
where
  "HoldingKeyToKey_addTo indexType this datatype newval s =
     (case indexType of
        HK_NORMAL \<Rightarrow> Depending_add this KT_SHORT_PERIOD datatype newval s
      | HK_HOLDING \<Rightarrow> Depending_add this KT_LONG_PERIOD datatype newval s
      | HK_KEYTOKEY_BEFORE_KEYDOWN \<Rightarrow> addBeforeAfterKeys this datatype newval s
      | HK_KEYTOKEY_AFTER_KEYUP \<Rightarrow> addBeforeAfterKeys this datatype newval s)"

definition HoldingKeyToKey_add ::
  "nat \<Rightarrow> HoldingKeyToKey \<Rightarrow> u32 \<Rightarrow> u32 \<Rightarrow> 'a FuncState_scheme \<Rightarrow> 'a FuncState_scheme"
where
  "HoldingKeyToKey_add this h datatype newval s =
     (let put = (\<lambda>h s. update_func this (RF_HoldingKeyToKey h) s) in
      if is_event_data datatype
      then
        let (h, s) =
          (if hk_index h = 0
           then
             let e = FromEvent_of_data datatype newval
             in (h\<lparr>hk_fromEvent := e\<rparr>, setFromEvent this e s)
           else if \<not> hk_isUseSeparator h \<and> datatype = BRIDGE_DATATYPE_KEYCODE \<and> KeyCode_VK_NONE = newval \<and>
                   hk_indexType h = HK_NORMAL
           then (h\<lparr>hk_indexType := HK_HOLDING\<rparr>, s)
           else (h, HoldingKeyToKey_addTo (hk_indexType h) this datatype newval s))
        in put (h\<lparr>hk_index := hk_index h + 1\<rparr>) s
      else if is_modifier_data datatype \<or> datatype = BRIDGE_DATATYPE_OPTION \<or>
              datatype = BRIDGE_DATATYPE_DELAYUNTILREPEAT \<or> datatype = BRIDGE_DATATYPE_KEYREPEAT
      then
        (if hk_index h = 0
         then
           (if datatype = BRIDGE_DATATYPE_OPTION \<and> Option_USE_SEPARATOR = newval
            then put (h\<lparr>hk_isUseSeparator := True\<rparr>) s else s)
         else if hk_index h = 1
         then (if is_modifier_data datatype then addFromModifierFlags this datatype newval s else s)
         else if datatype = BRIDGE_DATATYPE_OPTION \<and> Option_SEPARATOR = newval
         then
           (if hk_index h \<ge> 2 \<and> hk_indexType h = HK_NORMAL then put (h\<lparr>hk_indexType := HK_HOLDING\<rparr>) s else s)
         else if datatype = BRIDGE_DATATYPE_OPTION \<and> Option_KEYTOKEY_BEFORE_KEYDOWN = newval
         then addBeforeAfterKeys this datatype newval (put (h\<lparr>hk_indexType := HK_KEYTOKEY_BEFORE_KEYDOWN\<rparr>) s)
         else if datatype = BRIDGE_DATATYPE_OPTION \<and> Option_KEYTOKEY_AFTER_KEYUP = newval
         then addBeforeAfterKeys this datatype newval (put (h\<lparr>hk_indexType := HK_KEYTOKEY_AFTER_KEYUP\<rparr>) s)
         else HoldingKeyToKey_addTo (hk_indexType h) this datatype newval s)
      else if datatype = BRIDGE_DATATYPE_THRESHOLDMILLISECOND
      then overwritePeriodMS this HOLDING_KEY_TO_KEY MS_SHORT_PERIOD newval s
      else s)"

section \<open>KeyOverlaidModifier\<close>

definition KeyOverlaidModifier_new :: "nat \<Rightarrow> AutogenId \<Rightarrow> 'a FuncState_scheme \<Rightarrow> 'a FuncState_scheme" where
  "KeyOverlaidModifier_new this autogenId s =
     (let s = RemapFunc_construct this
                (RF_KeyOverlaidModifier \<lparr>ko_isUseSeparator = False, ko_indexType = KO_HOLDING, ko_index = 0, ko_fromEvent = FE_NONE\<rparr>)
                autogenId s;
          s = Depending_construct this autogenId s
      in setPeriodMS this KEY_OVERLAID_MODIFIER s)"

definition KeyOverlaidModifier_addTo ::
  "OverlaidIndex \<Rightarrow> nat \<Rightarrow> u32 \<Rightarrow> u32 \<Rightarrow> 'a FuncState_scheme \<Rightarrow> 'a FuncState_scheme"
where
  "KeyOverlaidModifier_addTo indexType this datatype newval s =
     (case indexType of
        KO_HOLDING \<Rightarrow> Depending_add this KT_LONG_PERIOD datatype newval s
      | KO_NORMAL \<Rightarrow>
          let s = Depending_add this KT_SHORT_PERIOD datatype newval s;
              s = Depending_add this KT_LONG_LONG_PERIOD datatype newval s
          in Depending_add this KT_PRESSING_TARGET_KEY_ONLY datatype newval s
      | KO_REPEAT_TOKEYS \<Rightarrow> Depending_add this KT_LONG_LONG_PERIOD datatype newval s
      | KO_KEYTOKEY_BEFORE_KEYDOWN \<Rightarrow> addBeforeAfterKeys this datatype newval s
      | KO_KEYTOKEY_AFTER_KEYUP \<Rightarrow> addBeforeAfterKeys this datatype newval s)"

definition KeyOverlaidModifier_add_option ::
  "nat \<Rightarrow> KeyOverlaidModifier \<Rightarrow> u32 \<Rightarrow> Option \<Rightarrow> 'a FuncState_scheme \<Rightarrow> 'a FuncState_scheme"
where
  "KeyOverlaidModifier_add_option this h datatype option s =
     (let put = (\<lambda>h s. update_func this (RF_KeyOverlaidModifier h) s) in
      if Option_KEYOVERLAIDMODIFIER_REPEAT = option then setPeriodMS this KEY_OVERLAID_MODIFIER_WITH_REPEAT s
      else if Option_KEYOVERLAIDMODIFIER_REPEAT_TOKEYS = option
      then Depending_clearToKeys this KT_LONG_LONG_PERIOD (put (h\<lparr>ko_indexType := KO_REPEAT_TOKEYS\<rparr>) s)
      else if Option_USE_SEPARATOR = option then put (h\<lparr>ko_isUseSeparator := True\<rparr>) s
      else if Option_SEPARATOR = option
      then (if ko_index h \<ge> 2 \<and> ko_indexType h = KO_HOLDING then put (h\<lparr>ko_indexType := KO_NORMAL\<rparr>) s else s)
      else if Option_NOREPEAT = option
      then (if ko_indexType h = KO_REPEAT_TOKEYS then Depending_add this KT_LONG_LONG_PERIOD datatype option s
            else Depending_add this KT_LONG_PERIOD datatype option s)
      else if Option_KEYTOKEY_BEFORE_KEYDOWN = option
      then addBeforeAfterKeys this datatype option (put (h\<lparr>ko_indexType := KO_KEYTOKEY_BEFORE_KEYDOWN\<rparr>) s)
      else if Option_KEYTOKEY_AFTER_KEYUP = option
      then addBeforeAfterKeys this datatype option (put (h\<lparr>ko_indexType := KO_KEYTOKEY_AFTER_KEYUP\<rparr>) s)
      else s)"

definition KeyOverlaidModifier_add ::
  "nat \<Rightarrow> KeyOverlaidModifier \<Rightarrow> u32 \<Rightarrow> u32 \<Rightarrow> 'a FuncState_scheme \<Rightarrow> 'a FuncState_scheme"
where
  "KeyOverlaidModifier_add this h datatype newval s =
     (let put = (\<lambda>h s. update_func this (RF_KeyOverlaidModifier h) s) in
      if is_event_data datatype
      then
        let (h, s) =
          (if ko_index h = 0
           then
             let e = FromEvent_of_data datatype newval
             in (h\<lparr>ko_fromEvent := e\<rparr>, setFromEvent this e s)
           else
             let h = (if \<not> ko_isUseSeparator h \<and> ko_index h \<ge> 2 \<and> ko_indexType h = KO_HOLDING
                      then h\<lparr>ko_indexType := KO_NORMAL\<rparr> else h)
             in (h, KeyOverlaidModifier_addTo (ko_indexType h) this datatype newval s))
        in put (h\<lparr>ko_index := ko_index h + 1\<rparr>) s
      else if is_modifier_data datatype
      then
        (if ko_index h = 0 then s
         else if ko_index h = 1 then addFromModifierFlags this datatype newval s
         else KeyOverlaidModifier_addTo (ko_indexType h) this datatype newval s)
      else if datatype = BRIDGE_DATATYPE_OPTION then KeyOverlaidModifier_add_option this h datatype newval s
      else if datatype = BRIDGE_DATATYPE_DELAYUNTILREPEAT \<or> datatype = BRIDGE_DATATYPE_KEYREPEAT
      then
        (if ko_indexType h = KO_REPEAT_TOKEYS then Depending_add this KT_LONG_LONG_PERIOD datatype newval s
         else Depending_add this KT_LONG_PERIOD datatype newval s)
      else s)"

end
