(* ===== verification/KeyRemaps.thy ===== *)
theory KeyRemaps
  imports FuncState
begin

text \<open>
  The remappings of keys that are made of \<open>KeyToKey\<close> members or only watch an event:
  \<^verbatim>\<open>KeyDownUpToKey\<close>, \<^verbatim>\<open>DoublePressModifier\<close>, \<^verbatim>\<open>IgnoreMultipleSameKeyPress\<close>, \<^verbatim>\<open>BlockUntilKeyUp\<close>, the
  two that cancel events of the output queue, \<^verbatim>\<open>DropAllKeys\<close> and \<^verbatim>\<open>DropKeyAfterRemap\<close>, and the two that
  concern the device, \<^verbatim>\<open>SetKeyboardType\<close> and \<^verbatim>\<open>ForceNumLockOn\<close>.
\<close>

section \<open>KeyDownUpToKey\<close>

text \<open>The members \<open>keytokey_from_\<close>, \<open>keytokey_downup_\<close> and \<open>keytokey_interrupted_\<close>.\<close>

abbreviation ku_from :: "nat \<Rightarrow> nat" where "ku_from this \<equiv> this + 1"
abbreviation ku_downup :: "nat \<Rightarrow> nat" where "ku_downup this \<equiv> this + 2"
abbreviation ku_keytokey_interrupted :: "nat \<Rightarrow> nat" where "ku_keytokey_interrupted this \<equiv> this + 3"

definition KeyDownUpToKey_new :: "nat \<Rightarrow> AutogenId \<Rightarrow> 'a FuncState_scheme \<Rightarrow> 'a FuncState_scheme" where
  "KeyDownUpToKey_new this autogenId s =
     (let s = RemapFunc_construct this
                (RF_KeyDownUpToKey \<lparr>ku_indexType = KU_NONE, ku_needClearInterruptedToKeys = False, ku_interrupted = False\<rparr>)
                autogenId s;
          s = KeyToKey_construct (ku_from this) autogenId s;
          s = KeyToKey_construct (ku_downup this) autogenId s
      in KeyToKey_construct (ku_keytokey_interrupted this) AutogenId_maxValue s)"

definition KeyDownUpToKey_add ::
  "nat \<Rightarrow> KeyDownUpToKey \<Rightarrow> u32 \<Rightarrow> u32 \<Rightarrow> 'a FuncState_scheme \<Rightarrow> 'a FuncState_scheme"
where
  "KeyDownUpToKey_add this k datatype newval s =
     (let put = (\<lambda>k s. update_func this (RF_KeyDownUpToKey k) s) in
      if is_event_data datatype
      then
        (case ku_indexType k of
           KU_NONE \<Rightarrow>
             let s = put (k\<lparr>ku_indexType := KU_FROM\<rparr>) s;
                 s = KeyToKey_add_to (ku_from this) datatype newval s;
                 s = KeyToKey_add_key (ku_downup this) KeyCode_VK_PSEUDO_KEY s;
                 s = KeyToKey_add_key (ku_keytokey_interrupted this) KeyCode_VK_PSEUDO_KEY s
             in KeyToKey_add_to (ku_keytokey_interrupted this) datatype newval s
         | KU_INTERRUPTED \<Rightarrow>
             let s = (if ku_needClearInterruptedToKeys k
                      then update_object (ku_keytokey_interrupted this) KeyToKey_clearToKeys s else s)
             in KeyToKey_add_to (ku_keytokey_interrupted this) datatype newval s
         | _ \<Rightarrow> KeyToKey_add_to (ku_downup this) datatype newval (put (k\<lparr>ku_indexType := KU_DOWNUP\<rparr>) s))
      else if is_modifier_data datatype
      then
        (case ku_indexType k of
           KU_NONE \<Rightarrow> s
         | KU_FROM \<Rightarrow>
             let s = KeyToKey_add_to (ku_from this) datatype newval s;
                 s = KeyToKey_add_to (ku_downup this) datatype newval s
             in KeyToKey_add_to (ku_keytokey_interrupted this) datatype newval s
         | KU_DOWNUP \<Rightarrow> KeyToKey_add_to (ku_downup this) datatype newval s
         | KU_INTERRUPTED \<Rightarrow> KeyToKey_add_to (ku_keytokey_interrupted this) datatype newval s)
      else if datatype = BRIDGE_DATATYPE_OPTION \<and> Option_SEPARATOR = newval
      then put (k\<lparr>ku_indexType := KU_INTERRUPTED, ku_needClearInterruptedToKeys := True\<rparr>) s
      else s)"

definition KeyDownUpToKey_prepare ::
  "nat \<Rightarrow> KeyDownUpToKey \<Rightarrow> RemapParams \<Rightarrow> 'a FuncState_scheme \<Rightarrow> (RemapParams \<times> 'a FuncState_scheme) option"
where
  "KeyDownUpToKey_prepare this k remapParams s =
     (if iskeydown (rp_params remapParams) \<noteq> None
      then do {
        (remapped, remapParams, s) \<leftarrow> KeyToKey_remap (ku_from this) remapParams s;
        s \<leftarrow> (if remapped then call_downup (ku_downup this) (rp_physicalEventType remapParams) s
              else do {
                (_, s) \<leftarrow> call_remap_with_VK_PSEUDO_KEY (ku_keytokey_interrupted this) EventType_DOWN
                           (rp_physicalEventType remapParams) s;
                Some (update_func this (RF_KeyDownUpToKey (k\<lparr>ku_interrupted := True\<rparr>)) s)
              });
        Some (remapParams, unregisterPrepareTargetItem this s)
      }
      else Some (remapParams, s))"

definition KeyDownUpToKey_remap ::
  "nat \<Rightarrow> KeyDownUpToKey \<Rightarrow> RemapParams \<Rightarrow> 'a FuncState_scheme \<Rightarrow> 'a FuncState_scheme remap_result"
where
  "KeyDownUpToKey_remap this k remapParams s =
     do {
       (remapped, remapParams, s) \<leftarrow> KeyToKey_remap (ku_from this) remapParams s;
       if \<not> remapped then Some (False, remapParams, s)
       else do {
         let put = (\<lambda>s. update_func this (RF_KeyDownUpToKey (k\<lparr>ku_interrupted := False\<rparr>)) s);
         s \<leftarrow> (if ku_interrupted k
               then do {
                 (_, s) \<leftarrow> call_remap_with_VK_PSEUDO_KEY (ku_keytokey_interrupted this) EventType_UP
                            (rp_physicalEventType remapParams) (put s);
                 Some s
               }
               else Some s);
         Some (True, remapParams,
           if KeyToKey_isPressing (ku_from this) s then put (registerPrepareTargetItem this s) else s)
       }
     }"

section \<open>DoublePressModifier\<close>

text \<open>The members \<open>keytokey_\<close> and \<open>keytokey_fire_\<close>.\<close>

abbreviation dm_keytokey :: "nat \<Rightarrow> nat" where "dm_keytokey this \<equiv> this + 1"
abbreviation dm_keytokey_fire :: "nat \<Rightarrow> nat" where "dm_keytokey_fire this \<equiv> this + 2"

definition DoublePressModifier_new :: "nat \<Rightarrow> AutogenId \<Rightarrow> 'a FuncState_scheme \<Rightarrow> 'a FuncState_scheme" where
  "DoublePressModifier_new this autogenId s =
     (let s = RemapFunc_construct this
                (RF_DoublePressModifier \<lparr>dm_isUseSeparator = False, dm_index_is_double_pressed = False, dm_index = 0,
                   dm_pressCount = 0, dm_ic = cs_clock s\<rparr>)
                autogenId s
      in KeyToKey_construct (dm_keytokey_fire this) autogenId (KeyToKey_construct (dm_keytokey this) autogenId s))"

definition DoublePressModifier_addTo ::
  "nat \<Rightarrow> DoublePressModifier \<Rightarrow> u32 \<Rightarrow> u32 \<Rightarrow> 'a FuncState_scheme \<Rightarrow> 'a FuncState_scheme"
where
  "DoublePressModifier_addTo this d datatype newval s =
     (if \<not> dm_index_is_double_pressed d then KeyToKey_add_to (dm_keytokey this) datatype newval s
      else KeyToKey_add_to (dm_keytokey_fire this) datatype newval s)"

definition DoublePressModifier_add ::
  "nat \<Rightarrow> DoublePressModifier \<Rightarrow> u32 \<Rightarrow> u32 \<Rightarrow> 'a FuncState_scheme \<Rightarrow> 'a FuncState_scheme"
where
  "DoublePressModifier_add this d datatype newval s =
     (let put = (\<lambda>d s. update_func this (RF_DoublePressModifier d) s) in
      if is_event_data datatype
      then
        let (d, s) =
          (if dm_index d = 0
           then (d, KeyToKey_add_key (dm_keytokey_fire this) KeyCode_VK_PSEUDO_KEY
                      (KeyToKey_add_to (dm_keytokey this) datatype newval s))
           else
             let d = (if \<not> dm_isUseSeparator d \<and> dm_index d \<ge> 2 then d\<lparr>dm_index_is_double_pressed := True\<rparr> else d)
             in (d, DoublePressModifier_addTo this d datatype newval s))
        in put (d\<lparr>dm_index := dm_index d + 1\<rparr>) s
      else if is_modifier_data datatype
      then
        (if dm_index d = 0 then s
         else if dm_index d = 1
         then KeyToKey_add_to (dm_keytokey_fire this) datatype newval (KeyToKey_add_to (dm_keytokey this) datatype newval s)
         else DoublePressModifier_addTo this d datatype newval s)
      else if datatype = BRIDGE_DATATYPE_OPTION
      then
        (if Option_USE_SEPARATOR = newval then put (d\<lparr>dm_isUseSeparator := True\<rparr>) s
         else if Option_SEPARATOR = newval
         then (if dm_index d \<ge> 2 then put (d\<lparr>dm_index_is_double_pressed := True\<rparr>) s else s)
         else DoublePressModifier_addTo this d datatype newval s)
      else s)"

definition DoublePressModifier_remap ::
  "nat \<Rightarrow> DoublePressModifier \<Rightarrow> RemapParams \<Rightarrow> 'a FuncState_scheme \<Rightarrow> 'a FuncState_scheme remap_result"
where
  "DoublePressModifier_remap this d remapParams s =
     (let put = (\<lambda>d s. update_func this (RF_DoublePressModifier d) s) in
      case iskeydown (rp_params remapParams) of
        None \<Rightarrow> Some (False, remapParams, s)
      | Some down \<Rightarrow> do {
          (result, remapParams, s) \<leftarrow> KeyToKey_remap (dm_keytokey this) remapParams s;
          if \<not> result then Some (False, remapParams, put (d\<lparr>dm_pressCount := 0\<rparr>) s)
          else do {
            let d = (if ms_since (dm_ic d) s > word_of_int (cs_config s parameter_doublepressmodifier_threshold)
                     then d\<lparr>dm_pressCount := 0\<rparr> else d);
            let d = d\<lparr>dm_ic := cs_clock s\<rparr>;
            if down then Some (True, remapParams, put (d\<lparr>dm_pressCount := dm_pressCount d + 1\<rparr>) s)
            else if dm_pressCount d \<ge> 2
            then do {
              s \<leftarrow> call_downup (dm_keytokey_fire this) (rp_physicalEventType remapParams)
                     (FlagStatus_set (put (d\<lparr>dm_pressCount := 0\<rparr>) s));
              Some (True, remapParams, s)
            }
            else Some (True, remapParams, put d s)
          }
        })"

section \<open>IgnoreMultipleSameKeyPress\<close>

definition IgnoreMultipleSameKeyPress_new :: "nat \<Rightarrow> AutogenId \<Rightarrow> 'a FuncState_scheme \<Rightarrow> 'a FuncState_scheme" where
  "IgnoreMultipleSameKeyPress_new this autogenId s =
     RemapFunc_construct this
       (RF_IgnoreMultipleSameKeyPress \<lparr>im_fromEvent = FE_NONE, im_fromModifierFlags = [], im_needToIgnore = False\<rparr>)
       autogenId s"

definition IgnoreMultipleSameKeyPress_add ::
  "u32 \<Rightarrow> u32 \<Rightarrow> IgnoreMultipleSameKeyPress \<Rightarrow> IgnoreMultipleSameKeyPress"
where
  "IgnoreMultipleSameKeyPress_add datatype newval i =
     (if is_event_data datatype then i\<lparr>im_fromEvent := FromEvent_of_data datatype newval\<rparr>
      else if is_modifier_data datatype
      then i\<lparr>im_fromModifierFlags := im_fromModifierFlags i @ [ModifierFlag_of_data datatype newval]\<rparr>
      else i)"

definition IgnoreMultipleSameKeyPress_remap ::
  "nat \<Rightarrow> IgnoreMultipleSameKeyPress \<Rightarrow> RemapParams \<Rightarrow> 'a FuncState_scheme \<Rightarrow>
   bool \<times> RemapParams \<times> 'a FuncState_scheme"
where
  "IgnoreMultipleSameKeyPress_remap this i remapParams s =
     (let put = (\<lambda>ignored s. update_func this (RF_IgnoreMultipleSameKeyPress (i\<lparr>im_needToIgnore := ignored\<rparr>)) s);
          nottargetevent = (\<lambda>s. (False, remapParams, put False s))
      in if rp_isremapped remapParams then nottargetevent s
         else
           let (changed, s) = changePressingState this (im_fromEvent i) (rp_params remapParams) (fs_item s)
                                (im_fromModifierFlags i) s
           in if \<not> changed then nottargetevent s
              else if im_needToIgnore i then (True, remapParams\<lparr>rp_isremapped := True\<rparr>, s)
              else (True, remapParams, if \<not> isPressing this s then put True s else s))"

section \<open>BlockUntilKeyUp and SetKeyboardType\<close>

definition BlockUntilKeyUp_new :: "nat \<Rightarrow> AutogenId \<Rightarrow> 'a FuncState_scheme \<Rightarrow> 'a FuncState_scheme" where
  "BlockUntilKeyUp_new this autogenId s = RemapFunc_construct this (RF_BlockUntilKeyUp FE_NONE) autogenId s"

definition BlockUntilKeyUp_add :: "u32 \<Rightarrow> u32 \<Rightarrow> FromEvent \<Rightarrow> FromEvent" where
  "BlockUntilKeyUp_add datatype newval e = (if is_event_data datatype then FromEvent_of_data datatype newval else e)"

definition SetKeyboardType_new :: "nat \<Rightarrow> AutogenId \<Rightarrow> 'a FuncState_scheme \<Rightarrow> 'a FuncState_scheme" where
  "SetKeyboardType_new this autogenId s = RemapFunc_construct this (RF_SetKeyboardType KeyboardType_MACBOOK) autogenId s"

definition SetKeyboardType_add :: "u32 \<Rightarrow> u32 \<Rightarrow> KeyboardType \<Rightarrow> KeyboardType" where
  "SetKeyboardType_add datatype newval t = (if datatype = BRIDGE_DATATYPE_KEYBOARDTYPE then newval else t)"

section \<open>Cancelling output events\<close>

text \<open>\<open>CancelEventOutputQueueItemsHelper\<close>: 0 marks an entry that is free.\<close>

definition THRESHOLD :: u64 where
  "THRESHOLD = 10"

fun set_free :: "u64 \<Rightarrow> u64 list \<Rightarrow> u64 list" where
  "set_free sn [] = [sn]"
| "set_free sn (n # ns) = (if n = 0 then sn # ns else n # set_free sn ns)"

definition registerSerialNumber :: "u64 \<Rightarrow> u64 list \<Rightarrow> u64 list" where
  "registerSerialNumber sn targetSerialNumbers =
     (if sn \<in> set targetSerialNumbers then targetSerialNumbers
      else set_free sn (map_if (\<lambda>n. n \<noteq> 0 \<and> n + THRESHOLD < sn) (\<lambda>n. 0) targetSerialNumbers))"

definition helper_isTarget :: "u64 list \<Rightarrow> OutItem \<Rightarrow> bool" where
  "helper_isTarget targetSerialNumbers item = (oi_serialNumber item \<in> set targetSerialNumbers)"

definition OutItem_cancel :: "OutItem \<Rightarrow> OutItem" where
  "OutItem_cancel item = item\<lparr>oi_canceled := True\<rparr>"

definition DropAllKeys_new :: "nat \<Rightarrow> AutogenId \<Rightarrow> 'a FuncState_scheme \<Rightarrow> 'a FuncState_scheme" where
  "DropAllKeys_new this autogenId s =
     RemapFunc_construct this
       (RF_DropAllKeys \<lparr>da_helper = [], da_fromModifierFlags = [], da_dropKey = False, da_dropConsumerKey = False,
          da_dropPointingButton = False, da_modifierMatched = False, da_doCancel = False, da_dropped = []\<rparr>)
       autogenId s"

definition DropAllKeys_add :: "u32 \<Rightarrow> u32 \<Rightarrow> DropAllKeys \<Rightarrow> DropAllKeys" where
  "DropAllKeys_add datatype newval d =
     (if datatype = BRIDGE_DATATYPE_MODIFIERFLAG
      then
        (if newval \<noteq> ModifierFlag_ZERO \<and> newval \<noteq> ModifierFlag_NONE
         then d\<lparr>da_fromModifierFlags := da_fromModifierFlags d @ [ModifierFlag_of_data datatype newval]\<rparr> else d)
      else if datatype = BRIDGE_DATATYPE_MODIFIERFLAGS_END then d
      else if datatype = BRIDGE_DATATYPE_OPTION
      then
        (if Option_DROPALLKEYS_DROP_KEY = newval then d\<lparr>da_dropKey := True\<rparr>
         else if Option_DROPALLKEYS_DROP_CONSUMERKEY = newval then d\<lparr>da_dropConsumerKey := True\<rparr>
         else if Option_DROPALLKEYS_DROP_POINTINGBUTTON = newval then d\<lparr>da_dropPointingButton := True\<rparr>
         else d)
      else d)"

definition DropAllKeys_remap ::
  "nat \<Rightarrow> DropAllKeys \<Rightarrow> RemapParams \<Rightarrow> 'a FuncState_scheme \<Rightarrow> bool \<times> RemapParams \<times> 'a FuncState_scheme"
where
  "DropAllKeys_remap this d remapParams s =
     (let put = (\<lambda>d. update_func this (RF_DropAllKeys d) s);
          d = d\<lparr>da_helper := registerSerialNumber (oq_serialNumber s) (da_helper d)\<rparr>
      in if da_fromModifierFlags d = []
         then (False, remapParams, put (d\<lparr>da_modifierMatched := False, da_doCancel := False\<rparr>))
         else (True, remapParams, put (d\<lparr>da_modifierMatched := FlagStatus_isOn (fs_item s) (da_fromModifierFlags d),
                da_doCancel := True\<rparr>)))"

definition DropAllKeys_dropKey :: "OutItem \<Rightarrow> DropAllKeys \<Rightarrow> OutItem \<times> DropAllKeys" where
  "DropAllKeys_dropKey item d =
     (let isTarget = (\<lambda>e. isTargetEvent e (oi_params item)) in
      case iskeydown (oi_params item) of
        None \<Rightarrow> (item, d)
      | Some True \<Rightarrow>
          if \<not> isRepeat (oi_params item)
          then
            (if da_modifierMatched d
             then (OutItem_cancel item, d\<lparr>da_dropped := da_dropped d @ [FromEvent_of_params (oi_params item)]\<rparr>)
             else (item, d))
          else if list_ex isTarget (da_dropped d) then (OutItem_cancel item, d)
          else (item, d)
      | Some False \<Rightarrow>
          (if list_ex isTarget (da_dropped d) then OutItem_cancel item else item,
           d\<lparr>da_dropped := filter (\<lambda>e. \<not> isTarget e) (da_dropped d)\<rparr>))"

definition DropAllKeys_cancelEventOutputQueueItems ::
  "Pair list \<Rightarrow> AutogenId \<Rightarrow> OutItem \<Rightarrow> DropAllKeys \<Rightarrow> OutItem \<times> DropAllKeys"
where
  "DropAllKeys_cancelEventOutputQueueItems pairs autogenId item d =
     (if \<not> helper_isTarget (da_helper d) item then (item, d)
      else if \<not> da_doCancel d then (item, d)
      else if oi_autogenId item < autogenId then (item, d)
      else if Params_isModifier pairs (oi_params item) then (item, d)
      else case oi_params item of
        P_Keyboard _ \<Rightarrow> if da_dropKey d then DropAllKeys_dropKey item d else (item, d)
      | P_Special _ \<Rightarrow> if da_dropConsumerKey d then DropAllKeys_dropKey item d else (item, d)
      | P_RelativePointer params \<Rightarrow>
          if da_dropPointingButton d \<and> da_modifierMatched d \<and> \<not> Buttons_isNONE (pp_buttons params)
          then (OutItem_cancel item, d) else (item, d)
      | _ \<Rightarrow> (item, d))"

definition Flags_isOn_flags :: "Flags \<Rightarrow> Flags \<Rightarrow> bool" where
  "Flags_isOn_flags v flags = (v AND flags = flags)"

definition DropKeyAfterRemap_new :: "nat \<Rightarrow> AutogenId \<Rightarrow> 'a FuncState_scheme \<Rightarrow> 'a FuncState_scheme" where
  "DropKeyAfterRemap_new this autogenId s =
     RemapFunc_construct this
       (RF_DropKeyAfterRemap \<lparr>dk_helper = [], dk_key = 0, dk_flags = 0, dk_strictFlagsMatch = False, dk_dropped = False\<rparr>)
       autogenId s"

definition DropKeyAfterRemap_add :: "u32 \<Rightarrow> u32 \<Rightarrow> DropKeyAfterRemap \<Rightarrow> DropKeyAfterRemap" where
  "DropKeyAfterRemap_add datatype newval d =
     (if datatype = BRIDGE_DATATYPE_KEYCODE then d\<lparr>dk_key := newval\<rparr>
      else if is_modifier_data datatype
      then
        let modifierFlag = ModifierFlag_of_data datatype newval;
            d = d\<lparr>dk_flags := Flags_addFlag (dk_flags d) modifierFlag\<rparr>
        in if ModifierFlag_NONE = modifierFlag then d\<lparr>dk_strictFlagsMatch := True\<rparr> else d
      else d)"

definition DropKeyAfterRemap_remap ::
  "nat \<Rightarrow> DropKeyAfterRemap \<Rightarrow> RemapParams \<Rightarrow> 'a FuncState_scheme \<Rightarrow> bool \<times> RemapParams \<times> 'a FuncState_scheme"
where
  "DropKeyAfterRemap_remap this d remapParams s =
     (True, remapParams,
      update_func this (RF_DropKeyAfterRemap (d\<lparr>dk_helper := registerSerialNumber (oq_serialNumber s) (dk_helper d)\<rparr>)) s)"

definition DropKeyAfterRemap_cancelEventOutputQueueItems ::
  "OutItem \<Rightarrow> DropKeyAfterRemap \<Rightarrow> OutItem \<times> DropKeyAfterRemap"
where
  "DropKeyAfterRemap_cancelEventOutputQueueItems item d =
     (if \<not> helper_isTarget (dk_helper d) item then (item, d)
      else case oi_params item of
        P_Keyboard params \<Rightarrow>
          if kp_key params \<noteq> dk_key d then (item, d)
          else if \<not> kp_ex_iskeydown params
          then (if dk_dropped d then (OutItem_cancel item, d\<lparr>dk_dropped := False\<rparr>) else (item, d))
          else if Flags_isOn_flags (kp_flags params) (dk_flags d) \<and>
                  (\<not> dk_strictFlagsMatch d \<or> kp_flags params = dk_flags d)
          then (OutItem_cancel item, d\<lparr>dk_dropped := True\<rparr>)
          else (item, d)
      | _ \<Rightarrow> (item, d))"

section \<open>ForceNumLockOn\<close>

definition ForceNumLockOn_new :: "nat \<Rightarrow> AutogenId \<Rightarrow> 'a FuncState_scheme \<Rightarrow> 'a FuncState_scheme" where
  "ForceNumLockOn_new this autogenId s =
     RemapFunc_construct this
       (RF_ForceNumLockOn \<lparr>fn_index = 0, fn_deviceIdentifier = \<lparr>di_vendor = 0, di_product = 0, di_location = 0\<rparr>,
          fn_forceOffMode = False\<rparr>)
       autogenId s"

definition ForceNumLockOn_add :: "u32 \<Rightarrow> u32 \<Rightarrow> ForceNumLockOn \<Rightarrow> ForceNumLockOn" where
  "ForceNumLockOn_add datatype newval f =
     (let d = fn_deviceIdentifier f in
      if datatype = BRIDGE_DATATYPE_DEVICEVENDOR
      then (if fn_index f = 0 then f\<lparr>fn_deviceIdentifier := d\<lparr>di_vendor := newval\<rparr>, fn_index := 1\<rparr> else f)
      else if datatype = BRIDGE_DATATYPE_DEVICEPRODUCT
      then (if fn_index f = 1 then f\<lparr>fn_deviceIdentifier := d\<lparr>di_product := newval\<rparr>, fn_index := 2\<rparr> else f)
      else if datatype = BRIDGE_DATATYPE_DEVICELOCATION
      then (if fn_index f = 2 then f\<lparr>fn_deviceIdentifier := d\<lparr>di_location := newval\<rparr>, fn_index := 3\<rparr> else f)
      else if datatype = BRIDGE_DATATYPE_OPTION
      then (if Option_FORCENUMLOCKON_FORCE_OFF = newval then f\<lparr>fn_forceOffMode := True\<rparr> else f)
      else f)"

text \<open>The only effect is a call of the keyboard's \<open>setNumLock\<close>, which changes what its \<open>numLock\<close> reports.\<close>

definition ForceNumLockOn_remapForceNumLockOn ::
  "ForceNumLockOn \<Rightarrow> HookedItem \<Rightarrow> 'a FuncState_scheme \<Rightarrow> 'a FuncState_scheme"
where
  "ForceNumLockOn_remapForceNumLockOn f item s =
     (let di = fn_deviceIdentifier f; kbd = hi_device item in
      if fn_index f < 2 then s
      else if \<not> DeviceIdentifier_isEqual (hi_identifier item) (di_vendor di) (di_product di) (di_location di) then s
      else if io_keyboard (dv_devices s kbd)
      then
        (if \<not> fn_forceOffMode f
         then (if \<not> dn_numLock s kbd then s\<lparr>dn_numLock := (dn_numLock s)(kbd := True)\<rparr> else s)
         else (if dn_numLock s kbd then s\<lparr>dn_numLock := (dn_numLock s)(kbd := False)\<rparr> else s))
      else s)"

end
