(* ===== verification/PointerRemaps.thy ===== *)
theory PointerRemaps
  imports FuncState
begin

text \<open>
  The remappings of cursor movements and of the scroll wheel: \<^verbatim>\<open>DropPointingRelativeCursorMove\<close>,
  \<^verbatim>\<open>DropScrollWheel\<close>, \<^verbatim>\<open>FlipPointingRelative\<close>, \<^verbatim>\<open>FlipScrollWheel\<close>, \<^verbatim>\<open>PointingRelativeToKey\<close>,
  \<^verbatim>\<open>PointingRelativeToScroll\<close>, \<^verbatim>\<open>ScrollWheelToKey\<close> and \<^verbatim>\<open>ScrollWheelToScrollWheel\<close>.
\<close>

section \<open>Dropping and flipping\<close>

definition DropPointingRelativeCursorMove_new :: "nat \<Rightarrow> AutogenId \<Rightarrow> 'a FuncState_scheme \<Rightarrow> 'a FuncState_scheme" where
  "DropPointingRelativeCursorMove_new this autogenId s =
     RemapFunc_construct this RF_DropPointingRelativeCursorMove autogenId s"

definition DropPointingRelativeCursorMove_remap :: "RemapParams \<Rightarrow> bool \<times> RemapParams" where
  "DropPointingRelativeCursorMove_remap remapParams =
     (case rp_params remapParams of
        P_RelativePointer params \<Rightarrow>
          if rp_isremapped remapParams then (False, remapParams)
          else if pp_dx params \<noteq> 0 \<or> pp_dy params \<noteq> 0 then (True, remapParams\<lparr>rp_isremapped := True\<rparr>)
          else (False, remapParams)
      | _ \<Rightarrow> (False, remapParams))"

definition DropScrollWheel_new :: "nat \<Rightarrow> AutogenId \<Rightarrow> 'a FuncState_scheme \<Rightarrow> 'a FuncState_scheme" where
  "DropScrollWheel_new this autogenId s =
     RemapFunc_construct this (RF_DropScrollWheel \<lparr>ds_dropHorizontalScroll = False, ds_dropMomentumScroll = False\<rparr>)
       autogenId s"

definition DropScrollWheel_add :: "u32 \<Rightarrow> u32 \<Rightarrow> DropScrollWheel \<Rightarrow> DropScrollWheel" where
  "DropScrollWheel_add datatype newval d =
     (if datatype = BRIDGE_DATATYPE_OPTION
      then
        (if Option_DROPSCROLLWHEEL_DROP_HORIZONTAL_SCROLL = newval then d\<lparr>ds_dropHorizontalScroll := True\<rparr>
         else if Option_DROPSCROLLWHEEL_DROP_MOMENTUM_SCROLL = newval then d\<lparr>ds_dropMomentumScroll := True\<rparr>
         else d)
      else d)"

definition kScrollTypeMomentumContinue :: int where
  "kScrollTypeMomentumContinue = 4"

definition DropScrollWheel_remap ::
  "nat \<Rightarrow> DropScrollWheel \<Rightarrow> RemapParams \<Rightarrow> 'a FuncState_scheme \<Rightarrow> bool \<times> RemapParams \<times> 'a FuncState_scheme"
where
  "DropScrollWheel_remap this d remapParams s =
     (case rp_params remapParams of
        P_ScrollWheel params \<Rightarrow>
          if rp_isremapped remapParams then (False, remapParams, s)
          else if ds_dropMomentumScroll d \<and> sw_options params AND kScrollTypeMomentumContinue = 0
          then (False, remapParams, s)
          else
            (True, remapParams\<lparr>rp_isremapped := True\<rparr>,
             if ds_dropHorizontalScroll d
             then FireScrollWheel_fire
                    (params\<lparr>sw_deltaAxis2 := 0, sw_deltaAxis3 := 0, sw_fixedDelta2 := 0, sw_fixedDelta3 := 0,
                            sw_pointDelta2 := 0, sw_pointDelta3 := 0\<rparr>)
                    (rf_autogenId s this) (rp_physicalEventType remapParams) s
             else s)
      | _ \<Rightarrow> (False, remapParams, s))"

definition FlipPointingRelative_new :: "nat \<Rightarrow> AutogenId \<Rightarrow> 'a FuncState_scheme \<Rightarrow> 'a FuncState_scheme" where
  "FlipPointingRelative_new this autogenId s =
     RemapFunc_construct this (RF_FlipPointingRelative \<lparr>fp_flipHorizontal = False, fp_flipVertical = False\<rparr>) autogenId s"

definition FlipPointingRelative_add :: "u32 \<Rightarrow> u32 \<Rightarrow> FlipPointingRelative \<Rightarrow> FlipPointingRelative" where
  "FlipPointingRelative_add datatype newval f =
     (if datatype = BRIDGE_DATATYPE_OPTION
      then
        (if Option_FLIPPOINTINGRELATIVE_HORIZONTAL = newval then f\<lparr>fp_flipHorizontal := True\<rparr>
         else if Option_FLIPPOINTINGRELATIVE_VERTICAL = newval then f\<lparr>fp_flipVertical := True\<rparr>
         else f)
      else f)"

definition FlipPointingRelative_remap ::
  "nat \<Rightarrow> FlipPointingRelative \<Rightarrow> RemapParams \<Rightarrow> 'a FuncState_scheme \<Rightarrow>
   bool \<times> RemapParams \<times> 'a FuncState_scheme"
where
  "FlipPointingRelative_remap this f remapParams s =
     (case rp_params remapParams of
        P_RelativePointer params \<Rightarrow>
          if rp_isremapped remapParams then (False, remapParams, s)
          else if pp_dx params = 0 \<and> pp_dy params = 0 then (False, remapParams, s)
          else
            (True, remapParams\<lparr>rp_isremapped := True\<rparr>,
             FireRelativePointer_fire (rf_autogenId s this) (rp_physicalEventType remapParams)
               (ButtonStatus_makeButtons (bs_item s))
               (if fp_flipHorizontal f then - pp_dx params else pp_dx params)
               (if fp_flipVertical f then - pp_dy params else pp_dy params) s)
      | _ \<Rightarrow> (False, remapParams, s))"

definition FlipScrollWheel_new :: "nat \<Rightarrow> AutogenId \<Rightarrow> 'a FuncState_scheme \<Rightarrow> 'a FuncState_scheme" where
  "FlipScrollWheel_new this autogenId s =
     RemapFunc_construct this
       (RF_FlipScrollWheel \<lparr>fw_flipHorizontalScroll = False, fw_flipVerticalScroll = False, fw_rotate = False\<rparr>)
       autogenId s"

definition FlipScrollWheel_add :: "u32 \<Rightarrow> u32 \<Rightarrow> FlipScrollWheel \<Rightarrow> FlipScrollWheel" where
  "FlipScrollWheel_add datatype newval f =
     (if datatype = BRIDGE_DATATYPE_OPTION
      then
        (if Option_FLIPSCROLLWHEEL_HORIZONTAL = newval then f\<lparr>fw_flipHorizontalScroll := True\<rparr>
         else if Option_FLIPSCROLLWHEEL_VERTICAL = newval then f\<lparr>fw_flipVerticalScroll := True\<rparr>
         else if Option_FLIPSCROLLWHEEL_ROTATE = newval then f\<lparr>fw_rotate := True\<rparr>
         else f)
      else f)"

text \<open>A \<open>short\<close> keeps 16 bits of the negated value: -32768 stays what it is.\<close>

definition flip_scroll :: "FlipScrollWheel \<Rightarrow> ScrollParams \<Rightarrow> ScrollParams" where
  "flip_scroll f p =
     (let p = (if fw_flipHorizontalScroll f
               then p\<lparr>sw_deltaAxis2 := to_short (- sw_deltaAxis2 p), sw_fixedDelta2 := - sw_fixedDelta2 p,
                      sw_pointDelta2 := - sw_pointDelta2 p\<rparr> else p);
          p = (if fw_flipVerticalScroll f
               then p\<lparr>sw_deltaAxis1 := to_short (- sw_deltaAxis1 p), sw_fixedDelta1 := - sw_fixedDelta1 p,
                      sw_pointDelta1 := - sw_pointDelta1 p\<rparr> else p)
      in if fw_rotate f
         then p\<lparr>sw_deltaAxis1 := sw_deltaAxis2 p, sw_deltaAxis2 := sw_deltaAxis1 p,
                sw_fixedDelta1 := sw_fixedDelta2 p, sw_fixedDelta2 := sw_fixedDelta1 p,
                sw_pointDelta1 := sw_pointDelta2 p, sw_pointDelta2 := sw_pointDelta1 p\<rparr> else p)"

definition FlipScrollWheel_remap ::
  "nat \<Rightarrow> FlipScrollWheel \<Rightarrow> RemapParams \<Rightarrow> 'a FuncState_scheme \<Rightarrow> bool \<times> RemapParams \<times> 'a FuncState_scheme"
where
  "FlipScrollWheel_remap this f remapParams s =
     (case rp_params remapParams of
        P_ScrollWheel params \<Rightarrow>
          if rp_isremapped remapParams then (False, remapParams, s)
          else
            (True, remapParams\<lparr>rp_isremapped := True\<rparr>,
             FireScrollWheel_fire (flip_scroll f params) (rf_autogenId s this) (rp_physicalEventType remapParams) s)
      | _ \<Rightarrow> (False, remapParams, s))"

section \<open>PointingRelativeToKey\<close>

text \<open>The members \<open>keytokey_\<close>, for the directions up, down, left and right.\<close>

definition pk_keytokey :: "nat \<Rightarrow> PointingRelative \<Rightarrow> nat option" where
  "pk_keytokey this direction =
     (if direction = PointingRelative_UP then Some (this + 1)
      else if direction = PointingRelative_DOWN then Some (this + 2)
      else if direction = PointingRelative_LEFT then Some (this + 3)
      else if direction = PointingRelative_RIGHT then Some (this + 4)
      else None)"

definition pk_members :: "nat \<Rightarrow> nat list" where
  "pk_members this = [this + 1, this + 2, this + 3, this + 4]"

definition DeltaBuffer_new :: DeltaBuffer where
  "DeltaBuffer_new = DeltaBuffer_clear \<lparr>d_buffer = [], d_count = 0, d_sign = 0\<rparr>"

definition PointingRelativeToKey_new :: "nat \<Rightarrow> AutogenId \<Rightarrow> 'a FuncState_scheme \<Rightarrow> 'a FuncState_scheme" where
  "PointingRelativeToKey_new this autogenId s =
     (let s = RemapFunc_construct this
                (RF_PointingRelativeToKey \<lparr>pk_fromModifierFlags = [], pk_deltaBuffer_dx = DeltaBuffer_new,
                   pk_deltaBuffer_dy = DeltaBuffer_new, pk_keyrepeat_ic = cs_clock s, pk_current_keytokey = None\<rparr>)
                autogenId s;
          s = fold (\<lambda>p. KeyToKey_construct p autogenId) (pk_members this) s
      in fold (\<lambda>p. KeyToKey_add_key p KeyCode_VK_PSEUDO_KEY) (pk_members this) s)"

definition PointingRelativeToKey_add ::
  "nat \<Rightarrow> PointingRelativeToKey \<Rightarrow> u32 \<Rightarrow> u32 \<Rightarrow> 'a FuncState_scheme \<Rightarrow> 'a FuncState_scheme"
where
  "PointingRelativeToKey_add this k datatype newval s =
     (let put = (\<lambda>k s. update_func this (RF_PointingRelativeToKey k) s);
          add_current = (case pk_current_keytokey k of None \<Rightarrow> s | Some p \<Rightarrow> KeyToKey_add_to p datatype newval s)
      in if datatype = BRIDGE_DATATYPE_POINTINGRELATIVE
         then
           (case pk_keytokey this newval of
              None \<Rightarrow> s
            | Some p \<Rightarrow> put (k\<lparr>pk_current_keytokey := Some p\<rparr>) s)
         else if is_event_data datatype \<or> datatype = BRIDGE_DATATYPE_OPTION then add_current
         else if is_modifier_data datatype
         then
           (if pk_current_keytokey k = None
            then
              let s = put (k\<lparr>pk_fromModifierFlags := pk_fromModifierFlags k @ [ModifierFlag_of_data datatype newval]\<rparr>) s
              in fold (\<lambda>p. KeyToKey_add_to p datatype newval) (pk_members this) s
            else add_current)
         else s)"

definition PointingRelativeToKey_remap ::
  "nat \<Rightarrow> PointingRelativeToKey \<Rightarrow> RemapParams \<Rightarrow> 'a FuncState_scheme \<Rightarrow> 'a FuncState_scheme remap_result"
where
  "PointingRelativeToKey_remap this k remapParams s =
     (case rp_params remapParams of
        P_RelativePointer params \<Rightarrow>
          if rp_isremapped remapParams then Some (False, remapParams, s)
          else if \<not> FlagStatus_isOn (fs_item s) (pk_fromModifierFlags k) then Some (False, remapParams, s)
          else if pp_ex_button params \<noteq> PointingButton_NONE then Some (False, remapParams, s)
          else
            let remapParams = remapParams\<lparr>rp_isremapped := True\<rparr>;
                put = (\<lambda>k s. update_func this (RF_PointingRelativeToKey k) s);
                detection_interval = word_of_int (cs_config s parameter_pointingrelativetokey_detection_interval);
                k = (if ms_since (pk_keyrepeat_ic k) s > detection_interval
                     then k\<lparr>pk_deltaBuffer_dx := DeltaBuffer_push (pk_deltaBuffer_dx k) (pp_dx params),
                            pk_deltaBuffer_dy := DeltaBuffer_push (pk_deltaBuffer_dy k) (pp_dy params)\<rparr>
                     else k)
            in if DeltaBuffer_isFull (pk_deltaBuffer_dx k) \<or> DeltaBuffer_isFull (pk_deltaBuffer_dy k)
               then
                 case pk_keytokey this (getPointingRelativeFromDelta (DeltaBuffer_sum (pk_deltaBuffer_dx k))
                        (DeltaBuffer_sum (pk_deltaBuffer_dy k))) of
                   None \<Rightarrow> Some (True, remapParams, put k s)
                 | Some p \<Rightarrow> do {
                     s \<leftarrow> call_downup p (rp_physicalEventType remapParams) (put k s);
                     let s = EventWatcher_on (FlagStatus_set s);
                     Some (True, remapParams,
                       put (k\<lparr>pk_deltaBuffer_dx := DeltaBuffer_clear (pk_deltaBuffer_dx k),
                              pk_deltaBuffer_dy := DeltaBuffer_clear (pk_deltaBuffer_dy k),
                              pk_keyrepeat_ic := cs_clock s\<rparr>) s)
                   }
               else Some (True, remapParams, put k s)
      | _ \<Rightarrow> Some (False, remapParams, s))"

section \<open>PointingRelativeToScroll\<close>

text \<open>The member \<open>keytokey_\<close>.\<close>

abbreviation pr_keytokey :: "nat \<Rightarrow> nat" where "pr_keytokey this \<equiv> this + 1"

definition SCROLL_INTERVAL_MS :: u32 where
  "SCROLL_INTERVAL_MS = 10"

definition PointingRelativeToScroll_static_initialize :: "'a FuncState_scheme \<Rightarrow> 'a FuncState_scheme" where
  "PointingRelativeToScroll_static_initialize s = s\<lparr>ps_timer := TimerWrapper_initialize True True (ps_timer s)\<rparr>"

definition PointingRelativeToScroll_static_terminate :: "'a FuncState_scheme \<Rightarrow> 'a FuncState_scheme" where
  "PointingRelativeToScroll_static_terminate s = s\<lparr>ps_timer := TimerWrapper_terminate (ps_timer s), ps_queue := []\<rparr>"

definition cancelScroll :: "'a FuncState_scheme \<Rightarrow> 'a FuncState_scheme" where
  "cancelScroll s = s\<lparr>ps_timer := cancelTimeout (ps_timer s), ps_queue := []\<rparr>"

definition PointingRelativeToScroll_new :: "nat \<Rightarrow> AutogenId \<Rightarrow> 'a FuncState_scheme \<Rightarrow> 'a FuncState_scheme" where
  "PointingRelativeToScroll_new this autogenId s =
     (let s = RemapFunc_construct this
                (RF_PointingRelativeToScroll \<lparr>pr_index_type = INDEX_TYPE_DEFAULT, pr_fromEvent = FE_NONE,
                   pr_fromModifierFlags = [], pr_toModifierFlags = [], pr_toEvent = ToEvent_new TE_NONE,
                   pr_isToKeysDefined = False, pr_absolute_distance = 0, pr_begin_ic = (0, 0), pr_chained_ic = (0, 0),
                   pr_chained_delta1 = 0, pr_chained_delta2 = 0, pr_fixation_ic = (0, 0), pr_fixation_begin_ic = (0, 0),
                   pr_fixation_delta1 = 0, pr_fixation_delta2 = 0\<rparr>)
                autogenId s;
          s = KeyToKey_construct (pr_keytokey this) autogenId s
      in KeyToKey_add_key (pr_keytokey this) KeyCode_VK_PSEUDO_KEY s)"

definition PointingRelativeToScroll_add ::
  "nat \<Rightarrow> PointingRelativeToScroll \<Rightarrow> u32 \<Rightarrow> u32 \<Rightarrow> 'a FuncState_scheme \<Rightarrow> 'a FuncState_scheme"
where
  "PointingRelativeToScroll_add this r datatype newval s =
     (let put = (\<lambda>r s. update_func this (RF_PointingRelativeToScroll r) s);
          flag = ModifierFlag_of_data datatype newval
      in if is_modifier_data datatype
         then
           (case pr_index_type r of
              INDEX_TYPE_DEFAULT \<Rightarrow>
                KeyToKey_add_to (pr_keytokey this) datatype newval
                  (put (r\<lparr>pr_fromModifierFlags := pr_fromModifierFlags r @ [flag]\<rparr>) s)
            | INDEX_TYPE_TOFLAGS \<Rightarrow> put (r\<lparr>pr_toModifierFlags := pr_toModifierFlags r @ [flag]\<rparr>) s
            | INDEX_TYPE_TOKEYS \<Rightarrow> KeyToKey_add_to (pr_keytokey this) datatype newval s)
         else if is_event_data datatype
         then
           (case pr_index_type r of
              INDEX_TYPE_DEFAULT \<Rightarrow>
                put (r\<lparr>pr_fromEvent := FromEvent_of_data datatype newval, pr_toEvent := ToEvent_of_data datatype newval\<rparr>) s
            | INDEX_TYPE_TOKEYS \<Rightarrow> KeyToKey_add_to (pr_keytokey this) datatype newval s
            | INDEX_TYPE_TOFLAGS \<Rightarrow> s)
         else if datatype = BRIDGE_DATATYPE_OPTION
         then
           (if Option_POINTINGRELATIVETOSCROLL_TOFLAGS = newval then put (r\<lparr>pr_index_type := INDEX_TYPE_TOFLAGS\<rparr>) s
            else if Option_POINTINGRELATIVETOSCROLL_TOKEYS = newval
            then put (r\<lparr>pr_index_type := INDEX_TYPE_TOKEYS, pr_isToKeysDefined := True\<rparr>) s
            else s)
         else s)"

text \<open>\<open>abs\<close> returns an \<open>unsigned int\<close>, so the sums and comparisons below are unsigned.\<close>

definition scroll_abs :: "int \<Rightarrow> u32" where
  "scroll_abs v = word_of_int (if v > 0 then v else - v)"

text \<open>Movements that are mostly vertical or mostly horizontal become entirely so.\<close>

definition ignore_minuscule :: "int \<times> int \<Rightarrow> int \<times> int" where
  "ignore_minuscule = (\<lambda>(delta1, delta2).
     let abs1 = scroll_abs delta1; abs2 = scroll_abs delta2;
         delta2 = (if abs1 > abs2 * 2 then 0 else delta2);
         delta1 = (if abs2 > abs1 * 2 then 0 else delta1)
     in (delta1, delta2))"

text \<open>The fixation keeps to the direction of the first second; \<open>abs1\<close> and \<open>abs2\<close> are the movements before \<open>ignore_minuscule\<close>.\<close>

definition fixation ::
  "microtime \<Rightarrow> u32 \<Rightarrow> u32 \<Rightarrow> int \<times> int \<Rightarrow> PointingRelativeToScroll \<Rightarrow> (int \<times> int) \<times> PointingRelativeToScroll"
where
  "fixation now abs1 abs2 = (\<lambda>(delta1, delta2) r.
     let r = (if getmillisec now (pr_fixation_ic r) > 300
              then r\<lparr>pr_fixation_begin_ic := now, pr_fixation_delta1 := 0, pr_fixation_delta2 := 0\<rparr> else r);
         r = r\<lparr>pr_fixation_ic := now\<rparr>;
         delta2 = (if pr_fixation_delta1 r > pr_fixation_delta2 r * 2 then 0 else delta2);
         delta1 = (if pr_fixation_delta2 r > pr_fixation_delta1 r * 2 then 0 else delta1);
         r = (if getmillisec now (pr_fixation_begin_ic r) < 1000
              then
                let r = (if delta1 = 0
                         then r\<lparr>pr_fixation_delta2 := sint (word_of_int (pr_fixation_delta2 r) + abs2)\<rparr> else r)
                in if delta2 = 0
                   then r\<lparr>pr_fixation_delta1 := sint (word_of_int (pr_fixation_delta1 r) + abs1)\<rparr> else r
              else r)
     in ((delta1, delta2), r))"

text \<open>The speed of a chain of movements is that of its fastest; changing the direction starts anew.\<close>

definition chain_deltas :: "int \<times> int \<Rightarrow> PointingRelativeToScroll \<Rightarrow> bool \<times> PointingRelativeToScroll" where
  "chain_deltas = (\<lambda>(delta1, delta2) r.
     if 0 > delta1 * pr_chained_delta1 r \<or> 0 > delta2 * pr_chained_delta2 r
     then (True, r\<lparr>pr_chained_delta1 := delta1, pr_chained_delta2 := delta2\<rparr>)
     else if scroll_abs delta1 > scroll_abs (pr_chained_delta1 r) \<or> scroll_abs delta2 > scroll_abs (pr_chained_delta2 r)
     then (False, r\<lparr>pr_chained_delta1 := delta1, pr_chained_delta2 := delta2\<rparr>)
     else (False, r))"

definition DELTA_SCALE :: int where
  "DELTA_SCALE = 128"

definition toscroll ::
  "nat \<Rightarrow> PointingRelativeToScroll \<Rightarrow> PointerParams \<Rightarrow> 'a FuncState_scheme \<Rightarrow>
   PointingRelativeToScroll \<times> 'a FuncState_scheme"
where
  "toscroll this r params s =
     (let (r, s) = (if ms_since (pr_chained_ic r) s > 100
                    then (r\<lparr>pr_chained_delta1 := 0, pr_chained_delta2 := 0\<rparr>, cancelScroll s) else (r, s));
          r = r\<lparr>pr_chained_ic := cs_clock s\<rparr>;
          delta1 = (if cs_config s option_pointing_disable_vertical_scroll \<noteq> 0 then 0 else - pp_dy params);
          delta2 = (if cs_config s option_pointing_disable_horizontal_scroll \<noteq> 0 then 0 else - pp_dx params);
          deltas = ignore_minuscule (delta1, delta2);
          (deltas, r) = (if cs_config s option_pointing_enable_scrollwheel_fixation \<noteq> 0
                         then fixation (cs_clock s) (scroll_abs delta1) (scroll_abs delta2) deltas r else (deltas, r));
          (turned, r) = chain_deltas deltas r;
          s = (if turned then s\<lparr>ps_queue := []\<rparr> else s);
          r = r\<lparr>pr_absolute_distance := pr_absolute_distance r +
                  (scroll_abs (pr_chained_delta1 r) + scroll_abs (pr_chained_delta2 r))\<rparr>;
          s = s\<lparr>ps_queue := ps_queue s @ [(pr_chained_delta1 r * DELTA_SCALE, pr_chained_delta2 r * DELTA_SCALE)]\<rparr>;
          s = s\<lparr>ps_fromModifierFlags := pr_fromModifierFlags r, ps_toModifierFlags := pr_toModifierFlags r,
                ps_autogenId := rf_autogenId s this\<rparr>
      in (r, s\<lparr>ps_timer := snd (setTimeoutMS SCROLL_INTERVAL_MS False (ps_timer s))\<rparr>))"

text \<open>The part that presses and releases the \<open>FromEvent\<close>.\<close>

definition scroll_from_event ::
  "nat \<Rightarrow> PointingRelativeToScroll \<Rightarrow> RemapParams \<Rightarrow> 'a FuncState_scheme \<Rightarrow>
   (PointingRelativeToScroll \<times> 'a FuncState_scheme) option"
where
  "scroll_from_event this r remapParams s =
     (let flag = FA_Flag (FromEvent_getModifierFlag (cs_pairs s) (pr_fromEvent r));
          button = FromEvent_getPointingButton (pr_fromEvent r)
      in case iskeydown (rp_params remapParams) of
           None \<Rightarrow> Some (r, s)
         | Some True \<Rightarrow>
             Some (r\<lparr>pr_absolute_distance := 0, pr_begin_ic := cs_clock s, pr_chained_ic := cs_clock s,
                     pr_chained_delta1 := 0, pr_chained_delta2 := 0\<rparr>,
                   ButtonStatus_decrease button (FlagStatus_decrease flag s))
         | Some False \<Rightarrow>
             let s = cancelScroll (ButtonStatus_increase button (FlagStatus_increase flag s)) in
             if pr_absolute_distance r \<le> 5 \<and> ms_since (pr_begin_ic r) s < 300
             then do {
               s \<leftarrow> (if pr_isToKeysDefined r
                     then call_downup (pr_keytokey this) (rp_physicalEventType remapParams) s
                     else fire_downup (rf_autogenId s this) (rp_physicalEventType remapParams) False (pr_toEvent r) s);
               Some (r, s)
             }
             else Some (r, s))"

definition PointingRelativeToScroll_remap ::
  "nat \<Rightarrow> PointingRelativeToScroll \<Rightarrow> RemapParams \<Rightarrow> 'a FuncState_scheme \<Rightarrow> 'a FuncState_scheme remap_result"
where
  "PointingRelativeToScroll_remap this r remapParams s =
     (let put = (\<lambda>r s. update_func this (RF_PointingRelativeToScroll r) s);
          returntrue = (\<lambda>r s. Some (True, remapParams\<lparr>rp_isremapped := True\<rparr>,
            (put r s)\<lparr>ps_lastPhysicalEventType := rp_physicalEventType remapParams\<rparr>));
          doremap = (\<lambda>s. case rp_params remapParams of
              P_RelativePointer params \<Rightarrow>
                if pp_ex_button params \<noteq> PointingButton_NONE then Some (False, remapParams, s)
                else let (r, s) = toscroll this r params (EventWatcher_on s) in returntrue r s
            | _ \<Rightarrow> Some (False, remapParams, s))
      in if pr_fromEvent r = FE_NONE \<and> pr_fromModifierFlags r = [] then Some (False, remapParams, s)
         else if rp_isremapped remapParams then Some (False, remapParams, s)
         else if pr_fromEvent r = FE_NONE \<or> pr_fromEvent r = FE_POINTING_BUTTON PointingButton_NONE
         then
           (if \<not> FlagStatus_isOn (fs_item s) (pr_fromModifierFlags r) then Some (False, remapParams, s)
            else doremap s)
         else
           let (changed, s) = changePressingState this (pr_fromEvent r) (rp_params remapParams) (fs_item s)
                                (pr_fromModifierFlags r) s
           in if changed
              then do {
                (r, s) \<leftarrow> scroll_from_event this r remapParams s;
                returntrue r s
              }
              else if \<not> isPressing this s then Some (False, remapParams, s)
              else doremap s)"

definition PointingRelativeToScroll_timer_callback :: "'a FuncState_scheme \<Rightarrow> 'a FuncState_scheme" where
  "PointingRelativeToScroll_timer_callback s =
     (case ps_queue s of
        [] \<Rightarrow> s
      | (delta1, delta2) # queue \<Rightarrow>
          let s = s\<lparr>ps_queue := queue\<rparr>;
              s = FlagStatus_temporary_decrease (FA_Flags (ps_fromModifierFlags s)) s;
              s = FlagStatus_temporary_increase (FA_Flags (ps_toModifierFlags s)) s;
              d1 = (if cs_config s option_pointing_reverse_vertical_scrolling \<noteq> 0 then - delta1 else delta1);
              d2 = (if cs_config s option_pointing_reverse_horizontal_scrolling \<noteq> 0 then - delta2 else delta2);
              s = FireScrollWheel_fire_delta d1 d2 (ps_autogenId s) (ps_lastPhysicalEventType s) s;
              s = FlagStatus_temporary_decrease (FA_Flags (ps_toModifierFlags s)) s;
              s = FlagStatus_temporary_increase (FA_Flags (ps_fromModifierFlags s)) s;
              s = (if cs_config s option_pointing_disable_momentum_scroll = 0 \<and> (delta1 \<noteq> 0 \<or> delta2 \<noteq> 0)
                   then s\<lparr>ps_queue := ps_queue s @ [(delta1 sdiv 2, delta2 sdiv 2)]\<rparr> else s)
          in s\<lparr>ps_timer := snd (setTimeoutMS SCROLL_INTERVAL_MS False (ps_timer s))\<rparr>)"

definition PointingRelativeToScroll_tick :: "'a FuncState_scheme \<Rightarrow> 'a FuncState_scheme" where
  "PointingRelativeToScroll_tick s =
     (let (run, t) = timer_callback (ps_timer s);
          s = s\<lparr>ps_timer := t\<rparr>
      in if run then PointingRelativeToScroll_timer_callback s else s)"

section \<open>ScrollWheelToKey\<close>

text \<open>The member \<open>keytokey_\<close>.\<close>

abbreviation sk_keytokey :: "nat \<Rightarrow> nat" where "sk_keytokey this \<equiv> this + 1"

definition CONTINUOUS_SCROLLWHEEL_EVENT_THRESHOLD :: int where
  "CONTINUOUS_SCROLLWHEEL_EVENT_THRESHOLD = 20"

definition ScrollWheelToKey_new :: "nat \<Rightarrow> AutogenId \<Rightarrow> 'a FuncState_scheme \<Rightarrow> 'a FuncState_scheme" where
  "ScrollWheelToKey_new this autogenId s =
     (let s = RemapFunc_construct this
                (RF_ScrollWheelToKey \<lparr>sk_index = 0, sk_fromModifierFlags = [], sk_fromScrollWheel = 0,
                   sk_continuousScrollEvent_ic = cs_clock s, sk_firstScrollWheelEvent = ScrollWheel_NONE,
                   sk_isContinuousScrollEventRemapped = False, sk_keyrepeat_ic = cs_clock s\<rparr>)
                autogenId s;
          s = KeyToKey_construct (sk_keytokey this) autogenId s
      in KeyToKey_add_key (sk_keytokey this) KeyCode_VK_PSEUDO_KEY s)"

definition ScrollWheelToKey_add ::
  "nat \<Rightarrow> ScrollWheelToKey \<Rightarrow> u32 \<Rightarrow> u32 \<Rightarrow> 'a FuncState_scheme \<Rightarrow> 'a FuncState_scheme"
where
  "ScrollWheelToKey_add this k datatype newval s =
     (let put = (\<lambda>k s. update_func this (RF_ScrollWheelToKey k) s) in
      if datatype = BRIDGE_DATATYPE_SCROLLWHEEL
      then put ((if sk_index k = 0 then k\<lparr>sk_fromScrollWheel := newval\<rparr> else k)\<lparr>sk_index := sk_index k + 1\<rparr>) s
      else if is_event_data datatype
      then put (k\<lparr>sk_index := sk_index k + 1\<rparr>)
             (if sk_index k = 0 then s else KeyToKey_add_to (sk_keytokey this) datatype newval s)
      else if is_modifier_data datatype
      then
        (if sk_index k = 0 then s
         else
           let k' = (if sk_index k = 1
                     then k\<lparr>sk_fromModifierFlags := sk_fromModifierFlags k @ [ModifierFlag_of_data datatype newval]\<rparr>
                     else k)
           in KeyToKey_add_to (sk_keytokey this) datatype newval (put k' s))
      else s)"

definition ScrollWheelToKey_remap ::
  "nat \<Rightarrow> ScrollWheelToKey \<Rightarrow> RemapParams \<Rightarrow> 'a FuncState_scheme \<Rightarrow> 'a FuncState_scheme remap_result"
where
  "ScrollWheelToKey_remap this k remapParams s =
     (case rp_params remapParams of
        P_ScrollWheel params \<Rightarrow>
          let put = (\<lambda>k s. update_func this (RF_ScrollWheelToKey k) s);
              millisec = sint (ms_since (sk_continuousScrollEvent_ic k) s);
              k = k\<lparr>sk_continuousScrollEvent_ic := cs_clock s\<rparr>
          in if millisec < CONTINUOUS_SCROLLWHEEL_EVENT_THRESHOLD \<and> sk_firstScrollWheelEvent k \<noteq> ScrollWheel_NONE
             then
               (if sk_isContinuousScrollEventRemapped k
                then Some (True, remapParams\<lparr>rp_isremapped := True\<rparr>, put k s)
                else Some (False, remapParams, put k s))
             else
               let k = k\<lparr>sk_isContinuousScrollEventRemapped := False,
                         sk_firstScrollWheelEvent := getScrollWheelFromDelta (sw_fixedDelta1 params) (sw_fixedDelta2 params)\<rparr>
               in if sk_firstScrollWheelEvent k = ScrollWheel_NONE then Some (False, remapParams, put k s)
                  else if rp_isremapped remapParams then Some (False, remapParams, put k s)
                  else if \<not> FlagStatus_isOn (fs_item s) (sk_fromModifierFlags k) then Some (False, remapParams, put k s)
                  else if sk_fromScrollWheel k \<noteq> sk_firstScrollWheelEvent k then Some (False, remapParams, put k s)
                  else
                    let remapParams = remapParams\<lparr>rp_isremapped := True\<rparr>;
                        k = k\<lparr>sk_isContinuousScrollEventRemapped := True\<rparr>
                    in if ms_since (sk_keyrepeat_ic k) s >
                          word_of_int (cs_config s parameter_scrollwheeltokey_keyrepeat_wait)
                       then do {
                         s \<leftarrow> call_downup (sk_keytokey this) (rp_physicalEventType remapParams) s;
                         Some (True, remapParams, put (k\<lparr>sk_keyrepeat_ic := cs_clock s\<rparr>) s)
                       }
                       else Some (True, remapParams, put k s)
      | _ \<Rightarrow> Some (False, remapParams, s))"

section \<open>ScrollWheelToScrollWheel\<close>

definition ScrollWheelToScrollWheel_new :: "nat \<Rightarrow> AutogenId \<Rightarrow> 'a FuncState_scheme \<Rightarrow> 'a FuncState_scheme" where
  "ScrollWheelToScrollWheel_new this autogenId s =
     RemapFunc_construct this
       (RF_ScrollWheelToScrollWheel \<lparr>ss_index = 0, ss_fromModifierFlags = [], ss_toModifierFlags = []\<rparr>) autogenId s"

definition ScrollWheelToScrollWheel_add ::
  "u32 \<Rightarrow> u32 \<Rightarrow> ScrollWheelToScrollWheel \<Rightarrow> ScrollWheelToScrollWheel"
where
  "ScrollWheelToScrollWheel_add datatype newval w =
     (if datatype = BRIDGE_DATATYPE_MODIFIERFLAG
      then
        (if ss_index w = 0
         then w\<lparr>ss_fromModifierFlags := ss_fromModifierFlags w @ [ModifierFlag_of_data datatype newval]\<rparr>
         else w\<lparr>ss_toModifierFlags := ss_toModifierFlags w @ [ModifierFlag_of_data datatype newval]\<rparr>)
      else if datatype = BRIDGE_DATATYPE_MODIFIERFLAGS_END then w\<lparr>ss_index := ss_index w + 1\<rparr>
      else w)"

definition ScrollWheelToScrollWheel_remap ::
  "nat \<Rightarrow> ScrollWheelToScrollWheel \<Rightarrow> RemapParams \<Rightarrow> 'a FuncState_scheme \<Rightarrow>
   bool \<times> RemapParams \<times> 'a FuncState_scheme"
where
  "ScrollWheelToScrollWheel_remap this w remapParams s =
     (case rp_params remapParams of
        P_ScrollWheel params \<Rightarrow>
          if rp_isremapped remapParams then (False, remapParams, s)
          else if \<not> FlagStatus_isOn (fs_item s) (ss_fromModifierFlags w) then (False, remapParams, s)
          else
            let s = FlagStatus_temporary_decrease (FA_Flags (ss_fromModifierFlags w)) s;
                s = FlagStatus_temporary_increase (FA_Flags (ss_toModifierFlags w)) s;
                s = FireScrollWheel_fire params (rf_autogenId s this) (rp_physicalEventType remapParams) s;
                s = cancelScroll s;
                s = FlagStatus_temporary_decrease (FA_Flags (ss_toModifierFlags w)) s
            in (True, remapParams\<lparr>rp_isremapped := True\<rparr>,
                FlagStatus_temporary_increase (FA_Flags (ss_fromModifierFlags w)) s)
      | _ \<Rightarrow> (False, remapParams, s))"

end
