(* ===== verification/SimultaneousKeys.thy ===== *)
theory SimultaneousKeys
  imports FuncState
begin

text \<open>
  \<^verbatim>\<open>RemapFunc::SimultaneousKeyPresses\<close>: keys that are pressed together are taken out of the input queue
  and replaced by one virtual key, which \<open>remap\<close> later turns into the keys of the setting. The class
  remembers which keys took part (\<open>ActiveFromInfos\<close>) so that their releases are taken out as well.
\<close>

section \<open>ActiveFromInfos\<close>

definition ActiveFromInfos_find :: "nat \<times> nat \<Rightarrow> nat \<Rightarrow> 'a FuncState_scheme \<Rightarrow> ActiveFromInfo option" where
  "ActiveFromInfos_find p d s = find (\<lambda>q. af_fromInfo q = p \<and> af_device q = d) (af_list s)"

definition find_by_serial_number :: "nat \<times> nat \<Rightarrow> u64 \<Rightarrow> 'a FuncState_scheme \<Rightarrow> ActiveFromInfo option" where
  "find_by_serial_number p sn s = find (\<lambda>q. af_fromInfo q = p \<and> af_serialNumber q = sn) (af_list s)"

definition ActiveFromInfos_clear :: "'a FuncState_scheme \<Rightarrow> 'a FuncState_scheme" where
  "ActiveFromInfos_clear s = s\<lparr>af_list := []\<rparr>"

definition erase_expired :: "'a FuncState_scheme \<Rightarrow> 'a FuncState_scheme" where
  "erase_expired s = s\<lparr>af_list := filter (\<lambda>q. find_item (af_device q) s \<noteq> None) (af_list s)\<rparr>"

definition ActiveFromInfos_push_back :: "ActiveFromInfo \<Rightarrow> 'a FuncState_scheme \<Rightarrow> 'a FuncState_scheme" where
  "ActiveFromInfos_push_back item s = (let s = erase_expired s in s\<lparr>af_list := af_list s @ [item]\<rparr>)"

fun erase_first :: "('a \<Rightarrow> bool) \<Rightarrow> 'a list \<Rightarrow> 'a list" where
  "erase_first P [] = []"
| "erase_first P (x # xs) = (if P x then xs else x # erase_first P xs)"

definition ActiveFromInfos_erase :: "nat \<times> nat \<Rightarrow> nat \<Rightarrow> 'a FuncState_scheme \<Rightarrow> 'a FuncState_scheme" where
  "ActiveFromInfos_erase p d s =
     (let s = erase_expired s
      in s\<lparr>af_list := erase_first (\<lambda>q. af_fromInfo q = p \<and> af_device q = d) (af_list s)\<rparr>)"

definition ActiveFromInfos_erase_all :: "nat \<times> nat \<Rightarrow> 'a FuncState_scheme \<Rightarrow> 'a FuncState_scheme" where
  "ActiveFromInfos_erase_all p s =
     (let s = erase_expired s in s\<lparr>af_list := filter (\<lambda>q. af_fromInfo q \<noteq> p) (af_list s)\<rparr>)"

section \<open>Construction\<close>

text \<open>The member \<open>keytokey_\<close>.\<close>

abbreviation si_keytokey :: "nat \<Rightarrow> nat" where "si_keytokey this \<equiv> this + 1"

definition SimultaneousKeyPresses_new :: "nat \<Rightarrow> AutogenId \<Rightarrow> 'a FuncState_scheme \<Rightarrow> 'a FuncState_scheme" where
  "SimultaneousKeyPresses_new this autogenId s =
     (let s = RemapFunc_construct this
                (RF_SimultaneousKeyPresses \<lparr>si_isUseSeparator = False, si_index = 0, si_virtualkey = 0, si_fromInfo = [],
                   si_isFromInfoFull = False, si_fromModifierFlags = [], si_isToRaw = False,
                   si_isPostFromEventsAsRaw = False, si_isStrictKeyOrder = False, si_toKey_raw = KeyCode_VK_NONE\<rparr>)
                autogenId s
      in KeyToKey_construct (si_keytokey this) autogenId s)"

text \<open>
  The key events of a setting are the virtual key, the keys that are pressed together and the keys that
  are sent. The destructor of the temporary \<open>FromInfo\<close> drops the expired items of \<open>ActiveFromInfos\<close>.
\<close>

definition SimultaneousKeyPresses_add_event ::
  "nat \<Rightarrow> SimultaneousKeyPresses \<Rightarrow> u32 \<Rightarrow> u32 \<Rightarrow> 'a FuncState_scheme \<Rightarrow> 'a FuncState_scheme"
where
  "SimultaneousKeyPresses_add_event this k datatype newval s =
     (let finish = (\<lambda>k s. update_func this (RF_SimultaneousKeyPresses (k\<lparr>si_index := si_index k + 1\<rparr>)) s) in
      if si_index k = 0
      then
        (if datatype \<noteq> BRIDGE_DATATYPE_KEYCODE then s
         else finish (k\<lparr>si_virtualkey := newval\<rparr>) (KeyToKey_add_key (si_keytokey this) newval s))
      else if \<not> si_isFromInfoFull k
      then
        let k = k\<lparr>si_fromInfo := si_fromInfo k @ [FromEvent_of_data datatype newval]\<rparr>;
            k = (if \<not> si_isUseSeparator k \<and> si_index k = 2 then k\<lparr>si_isFromInfoFull := True\<rparr> else k)
        in finish k (erase_expired s)
      else
        let k = (if kk_toKeys (kt_objects s (si_keytokey this)) = [] \<and> datatype = BRIDGE_DATATYPE_KEYCODE
                 then k\<lparr>si_toKey_raw := newval\<rparr> else k)
        in finish k (KeyToKey_add_to (si_keytokey this) datatype newval s))"

definition SimultaneousKeyPresses_add ::
  "nat \<Rightarrow> SimultaneousKeyPresses \<Rightarrow> u32 \<Rightarrow> u32 \<Rightarrow> 'a FuncState_scheme \<Rightarrow> 'a FuncState_scheme"
where
  "SimultaneousKeyPresses_add this k datatype newval s =
     (let put = (\<lambda>k s. update_func this (RF_SimultaneousKeyPresses k) s) in
      if is_event_data datatype then SimultaneousKeyPresses_add_event this k datatype newval s
      else if is_modifier_data datatype
      then
        (if si_index k < 2 then s
         else
           let s = (if kk_toKeys (kt_objects s (si_keytokey this)) = []
                    then put (k\<lparr>si_fromModifierFlags := si_fromModifierFlags k @ [ModifierFlag_of_data datatype newval]\<rparr>) s
                    else s)
           in KeyToKey_add_to (si_keytokey this) datatype newval s)
      else if datatype = BRIDGE_DATATYPE_OPTION
      then
        (if Option_SIMULTANEOUSKEYPRESSES_RAW = newval then put (k\<lparr>si_isToRaw := True\<rparr>) s
         else if Option_SIMULTANEOUSKEYPRESSES_POST_FROM_EVENTS_AS_RAW = newval
         then put (k\<lparr>si_isPostFromEventsAsRaw := True\<rparr>) s
         else if Option_SIMULTANEOUSKEYPRESSES_STRICT_KEY_ORDER = newval then put (k\<lparr>si_isStrictKeyOrder := True\<rparr>) s
         else if Option_USE_SEPARATOR = newval then put (k\<lparr>si_isUseSeparator := True\<rparr>) s
         else if Option_SEPARATOR = newval then put (k\<lparr>si_isFromInfoFull := True\<rparr>) s
         else if Option_NOREPEAT = newval \<or> Option_KEYTOKEY_BEFORE_KEYDOWN = newval \<or>
                 Option_KEYTOKEY_AFTER_KEYUP = newval
         then KeyToKey_add_to (si_keytokey this) BRIDGE_DATATYPE_OPTION newval s
         else s)
      else if datatype = BRIDGE_DATATYPE_DELAYUNTILREPEAT \<or> datatype = BRIDGE_DATATYPE_KEYREPEAT
      then KeyToKey_add_to (si_keytokey this) datatype newval s
      else s)"

section \<open>Replacing the events\<close>

datatype RemapSimultaneousKeyPressesResult = NOT_CHANGED | APPLIED | QUEUE_CHANGED

definition push_remapped ::
  "SimultaneousKeyPresses \<Rightarrow> bool \<Rightarrow> DeviceIdentifier \<Rightarrow> nat \<Rightarrow> 'a FuncState_scheme \<Rightarrow> 'a FuncState_scheme"
where
  "push_remapped k isKeyDown di device s =
     (let eventType = (if isKeyDown then EventType_DOWN else EventType_UP);
          key = (if si_isToRaw k then si_toKey_raw k else si_virtualkey k)
      in if key = KeyCode_VK_NONE then s
         else
           let flags = (if isKeyDown then Flags_addFlag 0 (KeyCode_getModifierFlag (cs_pairs s) key) else 0);
               params = KeyboardParams_new (cs_pairs s) eventType flags key (cs_keyboardType s) False
           in enqueue (P_Keyboard params) False di device False False s)"

text \<open>Release: the first key that was pressed as part of the setting on the device of the event.\<close>

definition released_index :: "nat \<Rightarrow> SimultaneousKeyPresses \<Rightarrow> InItem \<Rightarrow> 'a FuncState_scheme \<Rightarrow> nat option" where
  "released_index this k front s =
     find (\<lambda>i. ActiveFromInfos_find (this, i) (ii_device front) s \<noteq> None \<and>
               isTargetUpEvent (si_fromInfo k ! i) (ii_params front)) [0..<length (si_fromInfo k)]"

definition simultaneous_keyup ::
  "nat \<Rightarrow> SimultaneousKeyPresses \<Rightarrow> InItem \<Rightarrow> nat \<Rightarrow> ActiveFromInfo \<Rightarrow> 'a FuncState_scheme \<Rightarrow>
   RemapSimultaneousKeyPressesResult \<times> 'a FuncState_scheme"
where
  "simultaneous_keyup this k front i activeItem s =
     (let s = (if si_isPostFromEventsAsRaw k
               then s\<lparr>in_queue := front\<lparr>ii_simultaneous := False\<rparr> # tl (in_queue s)\<rparr>
               else s\<lparr>in_queue := tl (in_queue s)\<rparr>);
          s = ActiveFromInfos_erase (this, i) (ii_device front) s
      in if \<exists>j \<in> set [0..<length (si_fromInfo k)]. find_by_serial_number (this, j) (af_serialNumber activeItem) s \<noteq> None
         then (QUEUE_CHANGED, s)
         else (APPLIED, push_remapped k False (af_frontDeviceIdentifier activeItem) (af_frontDevice activeItem) s))"

text \<open>
  Press: the loop over the queue. \<open>downKeys_\<close> holds the place in the queue of the press of each key that
  was found; \<open>None\<close> stands for \<open>NOT_CHANGED\<close>.
\<close>

fun mark_down :: "FromEvent list \<Rightarrow> Params \<Rightarrow> nat \<Rightarrow> nat option list \<Rightarrow> nat option list option" where
  "mark_down (e # es) p n (d # downKeys) =
     (if isTargetDownEvent e p then Some (Some n # downKeys)
      else if isTargetUpEvent e p then None
      else map_option ((#) d) (mark_down es p n downKeys))"
| "mark_down _ p n downKeys = Some downKeys"

fun all_keys_down :: "bool \<Rightarrow> bool \<Rightarrow> nat option list \<Rightarrow> bool option" where
  "all_keys_down strict isAllKeysDown [] = Some isAllKeysDown"
| "all_keys_down strict isAllKeysDown (None # ds) = all_keys_down strict False ds"
| "all_keys_down strict isAllKeysDown (Some _ # ds) =
     (if \<not> isAllKeysDown \<and> strict then None else all_keys_down strict isAllKeysDown ds)"

fun scan_queue :: "FromEvent list \<Rightarrow> bool \<Rightarrow> nat \<Rightarrow> InItem list \<Rightarrow> nat option list \<Rightarrow> nat list option" where
  "scan_queue es strict n [] downKeys = None"
| "scan_queue es strict n (front # rest) downKeys =
     (if \<not> ii_simultaneous front then scan_queue es strict (n + 1) rest downKeys
      else case mark_down es (ii_params front) n downKeys of
        None \<Rightarrow> None
      | Some downKeys \<Rightarrow>
          (case all_keys_down strict True downKeys of
             None \<Rightarrow> None
           | Some True \<Rightarrow> Some (map the downKeys)
           | Some False \<Rightarrow> scan_queue es strict (n + 1) rest downKeys))"

definition erase_at :: "nat \<Rightarrow> 'a list \<Rightarrow> 'a list" where
  "erase_at n xs = take n xs @ drop (n + 1) xs"

text \<open>
  The loop over the keys, from the last to the first. Pushing to the front and erasing move the items
  that are still to be erased.
\<close>

function take_down_keys ::
  "nat \<Rightarrow> bool \<Rightarrow> DeviceIdentifier \<Rightarrow> nat \<Rightarrow> (nat \<times> nat) list \<Rightarrow> 'a FuncState_scheme \<Rightarrow> 'a FuncState_scheme"
where
  "take_down_keys this raw di device [] s = s"
| "take_down_keys this raw di device ((i, n) # ins) s =
     (let item = in_queue s ! n;
          s = ActiveFromInfos_push_back
                \<lparr>af_fromInfo = (this, i), af_device = ii_device item, af_frontDeviceIdentifier = di,
                 af_frontDevice = device, af_serialNumber = oq_serialNumber s\<rparr> s;
          old = length (in_queue s);
          s = (if raw then enqueue (ii_params item) False di device False False s else s);
          new = length (in_queue s) - old;
          s = s\<lparr>in_queue := erase_at (n + new) (in_queue s)\<rparr>
      in take_down_keys this raw di device (map (\<lambda>(j, m). (j, m + new - (if m > n then 1 else 0))) ins) s)"
  by pat_completeness auto
termination
  by (relation "measure (\<lambda>(_, _, _, _, ins, _). length ins)") auto

definition simultaneous_keydown ::
  "nat \<Rightarrow> SimultaneousKeyPresses \<Rightarrow> InItem \<Rightarrow> 'a FuncState_scheme \<Rightarrow>
   RemapSimultaneousKeyPressesResult \<times> 'a FuncState_scheme"
where
  "simultaneous_keydown this k front s =
     (let es = si_fromInfo k in
      if \<not> FlagStatus_isOn (fs_item s) (si_fromModifierFlags k) then (NOT_CHANGED, s)
      else if \<not> list_ex (\<lambda>e. isTargetDownEvent e (ii_params front)) es then (NOT_CHANGED, s)
      else case scan_queue es (si_isStrictKeyOrder k) 0 (in_queue s) (replicate (length es) None) of
        None \<Rightarrow> (NOT_CHANGED, s)
      | Some ns \<Rightarrow>
          let s = take_down_keys this (si_isPostFromEventsAsRaw k) (ii_identifier front) (ii_device front)
                    (rev (zip [0..<length es] ns)) s
          in (APPLIED, push_remapped k True (ii_identifier front) (ii_device front) s))"

definition remapSimultaneousKeyPresses ::
  "nat \<Rightarrow> SimultaneousKeyPresses \<Rightarrow> 'a FuncState_scheme \<Rightarrow> RemapSimultaneousKeyPressesResult \<times> 'a FuncState_scheme"
where
  "remapSimultaneousKeyPresses this k s =
     (case in_queue s of
        [] \<Rightarrow> (NOT_CHANGED, s)
      | front # _ \<Rightarrow>
          if \<not> ii_simultaneous front then (NOT_CHANGED, s)
          else case released_index this k front s of
            Some i \<Rightarrow>
              (case ActiveFromInfos_find (this, i) (ii_device front) s of
                 Some activeItem \<Rightarrow> simultaneous_keyup this k front i activeItem s
               | None \<Rightarrow> simultaneous_keydown this k front s)
          | None \<Rightarrow> simultaneous_keydown this k front s)"

definition SimultaneousKeyPresses_remap ::
  "nat \<Rightarrow> RemapParams \<Rightarrow> 'a FuncState_scheme \<Rightarrow> 'a FuncState_scheme remap_result"
where
  "SimultaneousKeyPresses_remap this remapParams s = KeyToKey_remap (si_keytokey this) remapParams s"

end
