(* ===== verification/RemapFuncs.thy ===== *)
theory RemapFuncs
  imports DependingKeys KeyRemaps PointerRemaps SimultaneousKeys
begin

text \<open>
  The virtual methods of \<^verbatim>\<open>RemapFunc::RemapFuncBase\<close>, which call the class an object belongs to, and
  \<^verbatim>\<open>RemapFuncFactory\<close>, which makes an object from an entry of the initialization vector. Every object
  gets a block of numbers for itself and its members; allocating an object succeeds.
\<close>

section \<open>Virtual methods\<close>

text \<open>
  The most numbers an object uses, itself included. Every object gets so many, and those that are no
  multiples belong to members, which are \<open>KeyToKey\<close> objects.
\<close>

definition OBJECT_NUMBERS :: nat where
  "OBJECT_NUMBERS = 6"

definition RemapFunc_class :: "nat \<Rightarrow> 'a FuncState_scheme \<Rightarrow> RemapFunc" where
  "RemapFunc_class this s = (if this mod OBJECT_NUMBERS \<noteq> 0 then RF_KeyToKey else rf_func s this)"

definition RemapFunc_add :: "nat \<Rightarrow> u32 \<Rightarrow> u32 \<Rightarrow> 'a FuncState_scheme \<Rightarrow> 'a FuncState_scheme" where
  "RemapFunc_add this datatype newval s =
     (case RemapFunc_class this s of
        RF_KeyToKey \<Rightarrow> KeyToKey_add_to this datatype newval s
      | RF_HoldingKeyToKey h \<Rightarrow> HoldingKeyToKey_add this h datatype newval s
      | RF_KeyOverlaidModifier h \<Rightarrow> KeyOverlaidModifier_add this h datatype newval s
      | RF_KeyDownUpToKey k \<Rightarrow> KeyDownUpToKey_add this k datatype newval s
      | RF_DoublePressModifier d \<Rightarrow> DoublePressModifier_add this d datatype newval s
      | RF_IgnoreMultipleSameKeyPress i \<Rightarrow>
          update_func this (RF_IgnoreMultipleSameKeyPress (IgnoreMultipleSameKeyPress_add datatype newval i)) s
      | RF_DropAllKeys d \<Rightarrow> update_func this (RF_DropAllKeys (DropAllKeys_add datatype newval d)) s
      | RF_DropKeyAfterRemap d \<Rightarrow> update_func this (RF_DropKeyAfterRemap (DropKeyAfterRemap_add datatype newval d)) s
      | RF_DropPointingRelativeCursorMove \<Rightarrow> s
      | RF_DropScrollWheel d \<Rightarrow> update_func this (RF_DropScrollWheel (DropScrollWheel_add datatype newval d)) s
      | RF_FlipPointingRelative f \<Rightarrow>
          update_func this (RF_FlipPointingRelative (FlipPointingRelative_add datatype newval f)) s
      | RF_FlipScrollWheel f \<Rightarrow> update_func this (RF_FlipScrollWheel (FlipScrollWheel_add datatype newval f)) s
      | RF_ForceNumLockOn f \<Rightarrow> update_func this (RF_ForceNumLockOn (ForceNumLockOn_add datatype newval f)) s
      | RF_PointingRelativeToKey k \<Rightarrow> PointingRelativeToKey_add this k datatype newval s
      | RF_PointingRelativeToScroll r \<Rightarrow> PointingRelativeToScroll_add this r datatype newval s
      | RF_ScrollWheelToKey k \<Rightarrow> ScrollWheelToKey_add this k datatype newval s
      | RF_ScrollWheelToScrollWheel w \<Rightarrow>
          update_func this (RF_ScrollWheelToScrollWheel (ScrollWheelToScrollWheel_add datatype newval w)) s
      | RF_SetKeyboardType t \<Rightarrow> update_func this (RF_SetKeyboardType (SetKeyboardType_add datatype newval t)) s
      | RF_SimultaneousKeyPresses k \<Rightarrow> SimultaneousKeyPresses_add this k datatype newval s
      | RF_BlockUntilKeyUp e \<Rightarrow> update_func this (RF_BlockUntilKeyUp (BlockUntilKeyUp_add datatype newval e)) s
      | RF_PassThrough \<Rightarrow> s)"

definition RemapFunc_prepare ::
  "nat \<Rightarrow> RemapParams \<Rightarrow> 'a FuncState_scheme \<Rightarrow> (RemapParams \<times> 'a FuncState_scheme) option"
where
  "RemapFunc_prepare this remapParams s =
     (case RemapFunc_class this s of
        RF_KeyToKey \<Rightarrow> map_option (Pair remapParams) (KeyToKey_prepare this remapParams s)
      | RF_HoldingKeyToKey _ \<Rightarrow> map_option (Pair remapParams) (Depending_prepare this remapParams s)
      | RF_KeyOverlaidModifier _ \<Rightarrow> map_option (Pair remapParams) (Depending_prepare this remapParams s)
      | RF_KeyDownUpToKey k \<Rightarrow> KeyDownUpToKey_prepare this k remapParams s
      | _ \<Rightarrow> Some (remapParams, s))"

definition RemapFunc_remap ::
  "nat \<Rightarrow> RemapParams \<Rightarrow> 'a FuncState_scheme \<Rightarrow> 'a FuncState_scheme remap_result"
where
  "RemapFunc_remap this remapParams s =
     (case RemapFunc_class this s of
        RF_KeyToKey \<Rightarrow> KeyToKey_remap this remapParams s
      | RF_HoldingKeyToKey _ \<Rightarrow> Depending_remap this remapParams s
      | RF_KeyOverlaidModifier _ \<Rightarrow> Depending_remap this remapParams s
      | RF_KeyDownUpToKey k \<Rightarrow> KeyDownUpToKey_remap this k remapParams s
      | RF_DoublePressModifier d \<Rightarrow> DoublePressModifier_remap this d remapParams s
      | RF_IgnoreMultipleSameKeyPress i \<Rightarrow> Some (IgnoreMultipleSameKeyPress_remap this i remapParams s)
      | RF_DropAllKeys d \<Rightarrow> Some (DropAllKeys_remap this d remapParams s)
      | RF_DropKeyAfterRemap d \<Rightarrow> Some (DropKeyAfterRemap_remap this d remapParams s)
      | RF_DropPointingRelativeCursorMove \<Rightarrow>
          (let (remapped, remapParams) = DropPointingRelativeCursorMove_remap remapParams in Some (remapped, remapParams, s))
      | RF_DropScrollWheel d \<Rightarrow> Some (DropScrollWheel_remap this d remapParams s)
      | RF_FlipPointingRelative f \<Rightarrow> Some (FlipPointingRelative_remap this f remapParams s)
      | RF_FlipScrollWheel f \<Rightarrow> Some (FlipScrollWheel_remap this f remapParams s)
      | RF_PointingRelativeToKey k \<Rightarrow> PointingRelativeToKey_remap this k remapParams s
      | RF_PointingRelativeToScroll r \<Rightarrow> PointingRelativeToScroll_remap this r remapParams s
      | RF_ScrollWheelToKey k \<Rightarrow> ScrollWheelToKey_remap this k remapParams s
      | RF_ScrollWheelToScrollWheel w \<Rightarrow> Some (ScrollWheelToScrollWheel_remap this w remapParams s)
      | RF_SimultaneousKeyPresses _ \<Rightarrow> SimultaneousKeyPresses_remap this remapParams s
      | _ \<Rightarrow> Some (False, remapParams, s))"

definition RemapFunc_cancelEventOutputQueueItems ::
  "nat \<Rightarrow> OutItem \<Rightarrow> 'a FuncState_scheme \<Rightarrow> OutItem \<times> 'a FuncState_scheme"
where
  "RemapFunc_cancelEventOutputQueueItems this item s =
     (case RemapFunc_class this s of
        RF_DropAllKeys d \<Rightarrow>
          let (item, d) = DropAllKeys_cancelEventOutputQueueItems (cs_pairs s) (rf_autogenId s this) item d
          in (item, update_func this (RF_DropAllKeys d) s)
      | RF_DropKeyAfterRemap d \<Rightarrow>
          let (item, d) = DropKeyAfterRemap_cancelEventOutputQueueItems item d
          in (item, update_func this (RF_DropKeyAfterRemap d) s)
      | _ \<Rightarrow> (item, s))"

definition RemapFunc_remapSimultaneousKeyPresses ::
  "nat \<Rightarrow> 'a FuncState_scheme \<Rightarrow> RemapSimultaneousKeyPressesResult \<times> 'a FuncState_scheme"
where
  "RemapFunc_remapSimultaneousKeyPresses this s =
     (case RemapFunc_class this s of
        RF_SimultaneousKeyPresses k \<Rightarrow> remapSimultaneousKeyPresses this k s
      | _ \<Rightarrow> (NOT_CHANGED, s))"

definition RemapFunc_remapSetKeyboardType :: "nat \<Rightarrow> KeyboardType \<Rightarrow> 'a FuncState_scheme \<Rightarrow> KeyboardType" where
  "RemapFunc_remapSetKeyboardType this keyboardType s =
     (case RemapFunc_class this s of
        RF_SetKeyboardType toKeyboardType \<Rightarrow> toKeyboardType
      | _ \<Rightarrow> keyboardType)"

definition RemapFunc_remapForceNumLockOn ::
  "nat \<Rightarrow> HookedItem option \<Rightarrow> 'a FuncState_scheme \<Rightarrow> 'a FuncState_scheme"
where
  "RemapFunc_remapForceNumLockOn this item s =
     (case RemapFunc_class this s of
        RF_ForceNumLockOn f \<Rightarrow> (case item of None \<Rightarrow> s | Some item \<Rightarrow> ForceNumLockOn_remapForceNumLockOn f item s)
      | _ \<Rightarrow> s)"

definition getBlockUntilKeyUpFromEvent :: "nat \<Rightarrow> 'a FuncState_scheme \<Rightarrow> FromEvent option" where
  "getBlockUntilKeyUpFromEvent this s = (case RemapFunc_class this s of RF_BlockUntilKeyUp e \<Rightarrow> Some e | _ \<Rightarrow> None)"

definition is_PassThrough :: "nat \<Rightarrow> 'a FuncState_scheme \<Rightarrow> bool" where
  "is_PassThrough this s = (case RemapFunc_class this s of RF_PassThrough \<Rightarrow> True | _ \<Rightarrow> False)"

text \<open>The destructors: members in the reverse order of their declaration, then the base class.\<close>

definition RemapFunc_delete_members :: "nat \<Rightarrow> 'a FuncState_scheme \<Rightarrow> 'a FuncState_scheme" where
  "RemapFunc_delete_members this s =
     (case RemapFunc_class this s of
        RF_KeyToKey \<Rightarrow> KeyToKey_delete this s
      | RF_HoldingKeyToKey _ \<Rightarrow> Depending_delete this s
      | RF_KeyOverlaidModifier _ \<Rightarrow> Depending_delete this s
      | RF_KeyDownUpToKey _ \<Rightarrow> fold KeyToKey_delete [ku_keytokey_interrupted this, ku_downup this, ku_from this] s
      | RF_DoublePressModifier _ \<Rightarrow> fold KeyToKey_delete [dm_keytokey_fire this, dm_keytokey this] s
      | RF_IgnoreMultipleSameKeyPress _ \<Rightarrow> PressingFromEvents_erase_all this s
      | RF_PointingRelativeToKey _ \<Rightarrow> fold KeyToKey_delete (rev (pk_members this)) s
      | RF_PointingRelativeToScroll _ \<Rightarrow> PressingFromEvents_erase_all this (KeyToKey_delete (pr_keytokey this) s)
      | RF_ScrollWheelToKey _ \<Rightarrow> KeyToKey_delete (sk_keytokey this) s
      | RF_SimultaneousKeyPresses k \<Rightarrow>
          fold (\<lambda>i. ActiveFromInfos_erase_all (this, i)) (rev [0..<length (si_fromInfo k)])
            (KeyToKey_delete (si_keytokey this) s)
      | _ \<Rightarrow> s)"

definition RemapFunc_delete :: "nat \<Rightarrow> 'a FuncState_scheme \<Rightarrow> 'a FuncState_scheme" where
  "RemapFunc_delete this s = RemapFuncBase_delete this (RemapFunc_delete_members this s)"

section \<open>RemapFuncFactory\<close>

definition RemapFunc_new ::
  "u32 \<Rightarrow> nat \<Rightarrow> AutogenId \<Rightarrow> 'a FuncState_scheme \<Rightarrow> 'a FuncState_scheme option"
where
  "RemapFunc_new type this autogenId s =
     (if type = BRIDGE_REMAPTYPE_KEYTOKEY then Some (KeyToKey_construct this autogenId s)
      else if type = BRIDGE_REMAPTYPE_DOUBLEPRESSMODIFIER then Some (DoublePressModifier_new this autogenId s)
      else if type = BRIDGE_REMAPTYPE_DROPALLKEYS then Some (DropAllKeys_new this autogenId s)
      else if type = BRIDGE_REMAPTYPE_DROPKEYAFTERREMAP then Some (DropKeyAfterRemap_new this autogenId s)
      else if type = BRIDGE_REMAPTYPE_DROPPOINTINGRELATIVECURSORMOVE
      then Some (DropPointingRelativeCursorMove_new this autogenId s)
      else if type = BRIDGE_REMAPTYPE_DROPSCROLLWHEEL then Some (DropScrollWheel_new this autogenId s)
      else if type = BRIDGE_REMAPTYPE_FLIPPOINTINGRELATIVE then Some (FlipPointingRelative_new this autogenId s)
      else if type = BRIDGE_REMAPTYPE_FLIPSCROLLWHEEL then Some (FlipScrollWheel_new this autogenId s)
      else if type = BRIDGE_REMAPTYPE_FORCENUMLOCKON then Some (ForceNumLockOn_new this autogenId s)
      else if type = BRIDGE_REMAPTYPE_HOLDINGKEYTOKEY then Some (HoldingKeyToKey_new this autogenId s)
      else if type = BRIDGE_REMAPTYPE_IGNOREMULTIPLESAMEKEYPRESS
      then Some (IgnoreMultipleSameKeyPress_new this autogenId s)
      else if type = BRIDGE_REMAPTYPE_KEYOVERLAIDMODIFIER then Some (KeyOverlaidModifier_new this autogenId s)
      else if type = BRIDGE_REMAPTYPE_KEYDOWNUPTOKEY then Some (KeyDownUpToKey_new this autogenId s)
      else if type = BRIDGE_REMAPTYPE_POINTINGRELATIVETOKEY then Some (PointingRelativeToKey_new this autogenId s)
      else if type = BRIDGE_REMAPTYPE_POINTINGRELATIVETOSCROLL
      then Some (PointingRelativeToScroll_new this autogenId s)
      else if type = BRIDGE_REMAPTYPE_SIMULTANEOUSKEYPRESSES then Some (SimultaneousKeyPresses_new this autogenId s)
      else if type = BRIDGE_REMAPTYPE_SETKEYBOARDTYPE then Some (SetKeyboardType_new this autogenId s)
      else if type = BRIDGE_REMAPTYPE_SCROLLWHEELTOSCROLLWHEEL
      then Some (ScrollWheelToScrollWheel_new this autogenId s)
      else if type = BRIDGE_REMAPTYPE_SCROLLWHEELTOKEY then Some (ScrollWheelToKey_new this autogenId s)
      else if type = BRIDGE_REMAPTYPE_BLOCKUNTILKEYUP then Some (BlockUntilKeyUp_new this autogenId s)
      else if type = BRIDGE_REMAPTYPE_PASSTHROUGH then Some (RemapFunc_construct this RF_PassThrough autogenId s)
      else None)"

definition add_data :: "nat \<Rightarrow> u32 \<times> u32 \<Rightarrow> 'a FuncState_scheme \<Rightarrow> 'a FuncState_scheme" where
  "add_data this = (\<lambda>(datatype, newval) s.
     if datatype = BRIDGE_DATATYPE_OPTION \<and> newval = Option_IGNORE_PASSTHROUGH
     then s\<lparr>rf_ignorePassThrough := (rf_ignorePassThrough s)(this := True)\<rparr>
     else RemapFunc_add this datatype newval s)"

text \<open>The result is the number of the object, or \<open>None\<close> for a null pointer.\<close>

definition RemapFuncFactory_create ::
  "u32 list \<Rightarrow> AutogenId \<Rightarrow> 'a FuncState_scheme \<Rightarrow> nat option \<times> 'a FuncState_scheme"
where
  "RemapFuncFactory_create vec autogenId s =
     (case vec of
        [] \<Rightarrow> (None, s)
      | type # data \<Rightarrow>
          let this = rf_next s in
          (case RemapFunc_new type this autogenId s of
             None \<Rightarrow> (None, s)
           | Some s \<Rightarrow> (Some this, fold (add_data this) (read_pairs data) (s\<lparr>rf_next := this + OBJECT_NUMBERS\<rparr>))))"

end
