(* ===== verification/RemapClasses.thy ===== *)
theory RemapClasses
  imports RemapFuncs
begin

text \<open>
  \<^verbatim>\<open>RemapClass\<close>: a setting of the user, with its remappings, their filters and its status message, and
  \<^verbatim>\<open>RemapClassManager\<close>, which reads all settings from the initialization vector, keeps the list of the
  enabled ones and passes every event to them. Classes are numbered in the order of their creation; an
  item is named by the number of its class and its index in \<open>items_\<close>.
\<close>

section \<open>State\<close>

record ClassItem =
  it_processor :: "nat option"
  it_filters :: "RemapFilter list"

datatype ActiveType = NORMAL | SIMULTANEOUSBUTTONPRESSES

text \<open>
  The members of a \<open>RemapClass\<close> besides those in \<open>vk_remapclass\<close>, the list of \<open>ActiveItems\<close> and the static
  members of the class; \<open>mg_\<close> are the variables of the manager besides those declared earlier. A string
  is a list of bytes without its terminator, and null is \<open>None\<close>.
\<close>

record ClassState = FuncState +
  rc_next :: nat
  rc_items :: "nat \<Rightarrow> ClassItem list"
  rc_statusmessage :: "nat \<Rightarrow> byte list option"
  rc_simultaneous :: "nat \<Rightarrow> bool"
  rc_allocation_count :: u32
  ai_list :: "((nat \<times> nat) \<times> ActiveType) list"
  mg_enabled_remapclasses :: "nat list"
  mg_statusmessage :: "byte list"
  mg_lastmessage :: "byte list"
  mg_isSimultaneousKeyPressesEnabled :: bool

definition MAX_CONFIG_COUNT :: u32 where
  "MAX_CONFIG_COUNT = 10000"

definition MAX_ALLOCATION_COUNT :: u32 where
  "MAX_ALLOCATION_COUNT = 2097152"

section \<open>ActiveItems\<close>

definition ActiveItems_find :: "nat \<times> nat \<Rightarrow> ActiveType \<Rightarrow> 'a ClassState_scheme \<Rightarrow> bool" where
  "ActiveItems_find p t s = ((p, t) \<in> set (ai_list s))"

definition ActiveItems_clear :: "'a ClassState_scheme \<Rightarrow> 'a ClassState_scheme" where
  "ActiveItems_clear s = s\<lparr>ai_list := []\<rparr>"

definition ActiveItems_push_back :: "nat \<times> nat \<Rightarrow> ActiveType \<Rightarrow> 'a ClassState_scheme \<Rightarrow> 'a ClassState_scheme" where
  "ActiveItems_push_back p t s = s\<lparr>ai_list := ai_list s @ [(p, t)]\<rparr>"

definition ActiveItems_erase :: "nat \<times> nat \<Rightarrow> ActiveType \<Rightarrow> 'a ClassState_scheme \<Rightarrow> 'a ClassState_scheme" where
  "ActiveItems_erase p t s = s\<lparr>ai_list := remove1 (p, t) (ai_list s)\<rparr>"

definition ActiveItems_erase_all :: "nat \<times> nat \<Rightarrow> 'a ClassState_scheme \<Rightarrow> 'a ClassState_scheme" where
  "ActiveItems_erase_all p s = s\<lparr>ai_list := filter (\<lambda>q. fst q \<noteq> p) (ai_list s)\<rparr>"

definition Item_active :: "nat \<times> nat \<Rightarrow> 'a ClassState_scheme \<Rightarrow> bool" where
  "Item_active p s = (ActiveItems_find p NORMAL s \<or> ActiveItems_find p SIMULTANEOUSBUTTONPRESSES s)"

section \<open>RemapClass::Item\<close>

definition RemapClassItem_new ::
  "nat \<Rightarrow> u32 list \<Rightarrow> 'a ClassState_scheme \<Rightarrow> ClassItem \<times> 'a ClassState_scheme"
where
  "RemapClassItem_new parent vec s =
     (let configindex = rc_configindex (vk_remapclass s parent);
          autogenId = (push_bit 32 (ucast configindex) OR word_of_nat (length (rc_items s parent) + 1) :: u64);
          (processor, s) = RemapFuncFactory_create vec autogenId s
      in (\<lparr>it_processor = processor, it_filters = []\<rparr>, s))"

definition RemapClassItem_delete :: "nat \<times> nat \<Rightarrow> ClassItem \<Rightarrow> 'a ClassState_scheme \<Rightarrow> 'a ClassState_scheme" where
  "RemapClassItem_delete p item s =
     (let s = ActiveItems_erase_all p s
      in case it_processor item of None \<Rightarrow> s | Some processor \<Rightarrow> RemapFunc_delete processor s)"

definition append_filter :: "u32 list \<Rightarrow> ClassItem \<Rightarrow> ClassItem" where
  "append_filter vec item =
     (if vec = [] then item
      else case RemapFilterFactory_create vec of
        None \<Rightarrow> item
      | Some newp \<Rightarrow> item\<lparr>it_filters := it_filters item @ [newp]\<rparr>)"

definition Item_isblocked :: "ClassItem \<Rightarrow> 'a ClassState_scheme \<Rightarrow> bool" where
  "Item_isblocked item s = list_ex (\<lambda>p. isblocked p s) (it_filters item)"

definition Item_isblocked_keyup :: "ClassItem \<Rightarrow> 'a ClassState_scheme \<Rightarrow> bool" where
  "Item_isblocked_keyup item s = list_ex (\<lambda>p. isblocked_keyup p s) (it_filters item)"

definition isIgnorePassThrough :: "ClassItem \<Rightarrow> 'a ClassState_scheme \<Rightarrow> bool" where
  "isIgnorePassThrough item s =
     (case it_processor item of None \<Rightarrow> False | Some processor \<Rightarrow> rf_ignorePassThrough s processor)"

definition Item_isPassThroughEnabled :: "nat \<Rightarrow> ClassItem \<Rightarrow> 'a ClassState_scheme \<Rightarrow> bool" where
  "Item_isPassThroughEnabled parent item s =
     (case it_processor item of
        None \<Rightarrow> False
      | Some processor \<Rightarrow>
          if Item_isblocked item s then False
          else if \<not> rc_enabled (vk_remapclass s parent) then False
          else is_PassThrough processor s)"

text \<open>The guards for a press, and for a release: only what was remapped at the press is remapped at the release.\<close>

definition accepts_down :: "nat \<Rightarrow> ClassItem \<Rightarrow> bool \<Rightarrow> 'a ClassState_scheme \<Rightarrow> bool" where
  "accepts_down parent item passThroughEnabled s =
     (if passThroughEnabled \<and> \<not> isIgnorePassThrough item s then False
      else if \<not> rc_enabled (vk_remapclass s parent) then False
      else if Item_isblocked item s then False
      else True)"

definition accepts_up :: "nat \<times> nat \<Rightarrow> ActiveType \<Rightarrow> ClassItem \<Rightarrow> 'a ClassState_scheme \<Rightarrow> bool" where
  "accepts_up p t item s =
     (if \<not> ActiveItems_find p t s then False
      else if Item_isblocked_keyup item s then False
      else True)"

definition Item_remap ::
  "nat \<times> nat \<Rightarrow> ClassItem \<Rightarrow> bool \<Rightarrow> RemapParams \<Rightarrow> 'a ClassState_scheme \<Rightarrow> (RemapParams \<times> 'a ClassState_scheme) option"
where
  "Item_remap p item passThroughEnabled remapParams s =
     (case it_processor item of
        None \<Rightarrow> Some (remapParams, s)
      | Some processor \<Rightarrow>
          let isalwayskeydown = (iskeydown (rp_params remapParams) = None);
              down = (iskeydown (rp_params remapParams) \<noteq> Some False)
          in if \<not> (if down then accepts_down (fst p) item passThroughEnabled s else accepts_up p NORMAL item s)
             then Some (remapParams, s)
             else do {
               (remapped, remapParams, s) \<leftarrow> RemapFunc_remap processor remapParams s;
               Some (remapParams,
                 if \<not> remapped \<or> isalwayskeydown then s
                 else if down then ActiveItems_push_back p NORMAL s
                 else ActiveItems_erase p NORMAL s)
             })"

text \<open>The loop over the items of the output queue, which \<open>cancel\<close> only marks.\<close>

fun cancel_items ::
  "nat \<Rightarrow> ClassItem \<Rightarrow> nat \<Rightarrow> OutItem list \<Rightarrow> 'a ClassState_scheme \<Rightarrow> OutItem list \<times> 'a ClassState_scheme"
where
  "cancel_items parent item processor [] s = ([], s)"
| "cancel_items parent item processor (p # ps) s =
     (let down = (iskeydown (oi_params p) \<noteq> Some False);
          skip = (if down \<and> \<not> isRepeat (oi_params p)
                  then \<not> rc_enabled (vk_remapclass s parent) \<or> Item_isblocked item s
                  else Item_isblocked_keyup item s);
          (p, s) = (if skip then (p, s) else RemapFunc_cancelEventOutputQueueItems processor p s);
          (ps, s) = cancel_items parent item processor ps s
      in (p # ps, s))"

definition Item_cancelEventOutputQueueItems ::
  "nat \<Rightarrow> ClassItem \<Rightarrow> bool \<Rightarrow> 'a ClassState_scheme \<Rightarrow> 'a ClassState_scheme"
where
  "Item_cancelEventOutputQueueItems parent item passThroughEnabled s =
     (case it_processor item of
        None \<Rightarrow> s
      | Some processor \<Rightarrow>
          if passThroughEnabled \<and> \<not> isIgnorePassThrough item s then s
          else let (ps, s) = cancel_items parent item processor (oq_queue s) s in s\<lparr>oq_queue := ps\<rparr>)"

definition Item_isTargetEventForBlockUntilKeyUp ::
  "nat \<Rightarrow> ClassItem \<Rightarrow> bool \<Rightarrow> Params \<Rightarrow> 'a ClassState_scheme \<Rightarrow> bool"
where
  "Item_isTargetEventForBlockUntilKeyUp parent item passThroughEnabled paramsBase s =
     (case it_processor item of
        None \<Rightarrow> False
      | Some processor \<Rightarrow>
          if \<not> accepts_down parent item passThroughEnabled s then False
          else case getBlockUntilKeyUpFromEvent processor s of
            None \<Rightarrow> False
          | Some fromEvent \<Rightarrow> isTargetDownEvent fromEvent paramsBase \<or> isTargetUpEvent fromEvent paramsBase)"

definition Item_remap_SimultaneousKeyPresses ::
  "nat \<times> nat \<Rightarrow> ClassItem \<Rightarrow> bool \<Rightarrow> bool \<Rightarrow> 'a ClassState_scheme \<Rightarrow> bool \<times> 'a ClassState_scheme"
where
  "Item_remap_SimultaneousKeyPresses p item passThroughEnabled down s =
     (case it_processor item of
        None \<Rightarrow> (False, s)
      | Some processor \<Rightarrow>
          if \<not> (if down then accepts_down (fst p) item passThroughEnabled s
                else accepts_up p SIMULTANEOUSBUTTONPRESSES item s)
          then (False, s)
          else
            let (result, s) = RemapFunc_remapSimultaneousKeyPresses processor s in
            if result = NOT_CHANGED then (False, s)
            else (True,
              if result = APPLIED
              then (if down then ActiveItems_push_back p SIMULTANEOUSBUTTONPRESSES s
                    else ActiveItems_erase p SIMULTANEOUSBUTTONPRESSES s)
              else s))"

definition Item_remap_setkeyboardtype ::
  "nat \<Rightarrow> ClassItem \<Rightarrow> bool \<Rightarrow> KeyboardType \<Rightarrow> 'a ClassState_scheme \<Rightarrow> KeyboardType"
where
  "Item_remap_setkeyboardtype parent item passThroughEnabled keyboardType s =
     (case it_processor item of
        None \<Rightarrow> keyboardType
      | Some processor \<Rightarrow>
          if accepts_down parent item passThroughEnabled s
          then RemapFunc_remapSetKeyboardType processor keyboardType s else keyboardType)"

definition Item_remap_forcenumlockon ::
  "nat \<Rightarrow> ClassItem \<Rightarrow> bool \<Rightarrow> HookedItem option \<Rightarrow> 'a ClassState_scheme \<Rightarrow> 'a ClassState_scheme"
where
  "Item_remap_forcenumlockon parent item passThroughEnabled hooked s =
     (case it_processor item of
        None \<Rightarrow> s
      | Some processor \<Rightarrow>
          if accepts_down parent item passThroughEnabled s then RemapFunc_remapForceNumLockOn processor hooked s else s)"

section \<open>Reading a class\<close>

text \<open>The bytes of little-endian words, and the C string at an address: up to the first zero byte.\<close>

definition bytes_of_words :: "u32 list \<Rightarrow> byte list" where
  "bytes_of_words ws = concat (map (\<lambda>w. [ucast w, ucast (drop_bit 8 w), ucast (drop_bit 16 w), ucast (drop_bit 24 w)]) ws)"

definition c_string :: "u32 list \<Rightarrow> byte list" where
  "c_string ws = takeWhile (\<lambda>b. b \<noteq> 0) (bytes_of_words ws)"

abbreviation (input) NOTIFICATION_CHANGE_INPUT_SOURCE :: u32 where "NOTIFICATION_CHANGE_INPUT_SOURCE \<equiv> 3"
abbreviation (input) NOTIFICATION_OPEN_URL :: u32 where "NOTIFICATION_OPEN_URL \<equiv> 4"
abbreviation (input) STATUS_MESSAGE_EXTRA :: nat where "STATUS_MESSAGE_EXTRA \<equiv> 1"

definition update_items ::
  "nat \<Rightarrow> (ClassItem list \<Rightarrow> ClassItem list) \<Rightarrow> 'a ClassState_scheme \<Rightarrow> 'a ClassState_scheme"
where
  "update_items this f s = s\<lparr>rc_items := (rc_items s)(this := f (rc_items s this))\<rparr>"

text \<open>
  One entry: its type, its data, and the memory from the type on, which the strings are read from;
  \<open>False\<close> when the constructor returns. Memory behind the vector reads as zero.
\<close>

definition RemapClass_entry ::
  "nat \<Rightarrow> u32 list \<Rightarrow> u32 list \<Rightarrow> 'a ClassState_scheme \<Rightarrow> bool \<times> 'a ClassState_scheme"
where
  "RemapClass_entry this entry memory s =
     (let type = hd entry; sz = length entry; p = (\<lambda>i. entry ! i) in
      if BRIDGE_REMAPTYPE_NONE < type \<and> type < BRIDGE_REMAPTYPE_END
      then
        let (newp, s) = RemapClassItem_new this entry s;
            s = update_items this (\<lambda>items. items @ [newp]) s
        in (True, if type = BRIDGE_REMAPTYPE_SIMULTANEOUSKEYPRESSES
                  then s\<lparr>rc_simultaneous := (rc_simultaneous s)(this := True)\<rparr> else s)
      else if BRIDGE_FILTERTYPE_NONE < type \<and> type < BRIDGE_FILTERTYPE_END
      then (if rc_items s this = [] then (False, s)
            else (True, update_items this (map_last (append_filter entry)) s))
      else if type = BRIDGE_STATUSMESSAGE
      then (True, s\<lparr>rc_statusmessage := (rc_statusmessage s)
              (this := map_option fst (strlcpy_utf8 (c_string (tl memory)) STATUS_MESSAGE_MAXLEN))\<rparr>)
      else if type = BRIDGE_MODIFIERNAME
      then (if sz < 3 then (False, s)
            else (True, s\<lparr>cs_names := cs_names s @ [ModifierName_item (p 1) (c_string (drop 2 memory))]\<rparr>))
      else if type = BRIDGE_VK_MODIFIER
      then (if sz \<noteq> 12 then (False, s)
            else (True, registerVirtualModifier
                    (Pair_new (p 1) (p 2) (p 3) (p 4) (p 5) (p 6) (p 7) (p 8) (p 9) (p 10) (p 11)) s))
      else if type = BRIDGE_VK_CONFIG
      then (if sz \<noteq> 5 then (False, s)
            else (True, VK_CONFIG_add_item (Some this) (p 1) (p 2) (p 3) (p 4) s))
      else if type = BRIDGE_VK_CHANGE_INPUTSOURCE \<or> type = BRIDGE_VK_OPEN_URL
      then (if sz \<noteq> 2 then (False, s)
            else (True, VK_DEFINED_IN_USERSPACE_add_item (Some this) (p 1)
                    (if type = BRIDGE_VK_CHANGE_INPUTSOURCE then NOTIFICATION_CHANGE_INPUT_SOURCE
                     else NOTIFICATION_OPEN_URL) s))
      else (False, s))"

text \<open>The loop over the entries: \<open>ws\<close> is what is left of the vector, \<open>beyond\<close> the memory behind it.\<close>

function RemapClass_entries ::
  "nat \<Rightarrow> u32 list \<Rightarrow> u32 list \<Rightarrow> 'a ClassState_scheme \<Rightarrow> 'a ClassState_scheme"
where
  "RemapClass_entries this beyond [] s = s"
| "RemapClass_entries this beyond (sz # ws) s =
     (if unat sz > length ws then s
      else if sz = 0 then RemapClass_entries this beyond ws s
      else
        let (go_on, s) = RemapClass_entry this (take (unat sz) ws) (ws @ beyond) s
        in if go_on then RemapClass_entries this beyond (drop (unat sz) ws) s else s)"
  by pat_completeness auto
termination
  by (relation "measure (\<lambda>(_, _, ws, _). length ws)") auto

text \<open>The constructor; \<open>vec\<close> is the memory from the initialization vector on.\<close>

definition RemapClass_new ::
  "u32 list option \<Rightarrow> u32 \<Rightarrow> u32 \<Rightarrow> 'a ClassState_scheme \<Rightarrow> nat \<times> 'a ClassState_scheme"
where
  "RemapClass_new vec vector_size configindex s =
     (let this = rc_next s;
          s = s\<lparr>rc_next := this + 1, rc_items := (rc_items s)(this := []),
                rc_statusmessage := (rc_statusmessage s)(this := None),
                rc_simultaneous := (rc_simultaneous s)(this := False),
                vk_remapclass := (vk_remapclass s)(this := \<lparr>rc_enabled = False, rc_configindex = configindex\<rparr>)\<rparr>
      in case vec of
           None \<Rightarrow> (this, s)
         | Some vec \<Rightarrow>
             if rc_allocation_count s + vector_size > MAX_ALLOCATION_COUNT then (this, s)
             else
               let s = s\<lparr>rc_allocation_count := rc_allocation_count s + vector_size\<rparr>;
                   n = unat vector_size
               in (this, RemapClass_entries this (drop n vec) (take n vec) s))"

definition indexed_items :: "nat \<Rightarrow> 'a ClassState_scheme \<Rightarrow> ((nat \<times> nat) \<times> ClassItem) list" where
  "indexed_items this s = map (\<lambda>i. ((this, i), rc_items s this ! i)) [0..<length (rc_items s this)]"

definition RemapClass_delete :: "nat \<Rightarrow> 'a ClassState_scheme \<Rightarrow> 'a ClassState_scheme" where
  "RemapClass_delete this s = fold (\<lambda>(p, item). RemapClassItem_delete p item) (indexed_items this s) s"

section \<open>The methods of a class\<close>

definition RemapClass_remap_setkeyboardtype ::
  "nat \<Rightarrow> bool \<Rightarrow> KeyboardType \<Rightarrow> 'a ClassState_scheme \<Rightarrow> KeyboardType"
where
  "RemapClass_remap_setkeyboardtype this passThroughEnabled keyboardType s =
     fold (\<lambda>item t. Item_remap_setkeyboardtype this item passThroughEnabled t s) (rc_items s this) keyboardType"

definition RemapClass_remap_forcenumlockon ::
  "nat \<Rightarrow> bool \<Rightarrow> HookedItem option \<Rightarrow> 'a ClassState_scheme \<Rightarrow> 'a ClassState_scheme"
where
  "RemapClass_remap_forcenumlockon this passThroughEnabled hooked s =
     fold (\<lambda>item. Item_remap_forcenumlockon this item passThroughEnabled hooked) (rc_items s this) s"

fun remap_items ::
  "((nat \<times> nat) \<times> ClassItem) list \<Rightarrow> bool \<Rightarrow> RemapParams \<Rightarrow> 'a ClassState_scheme \<Rightarrow>
   (RemapParams \<times> 'a ClassState_scheme) option"
where
  "remap_items [] passThroughEnabled remapParams s = Some (remapParams, s)"
| "remap_items ((p, item) # items) passThroughEnabled remapParams s =
     do {
       (remapParams, s) \<leftarrow> Item_remap p item passThroughEnabled remapParams s;
       remap_items items passThroughEnabled remapParams s
     }"

definition RemapClass_remap ::
  "nat \<Rightarrow> bool \<Rightarrow> RemapParams \<Rightarrow> 'a ClassState_scheme \<Rightarrow> (RemapParams \<times> 'a ClassState_scheme) option"
where
  "RemapClass_remap this passThroughEnabled remapParams s =
     remap_items (indexed_items this s) passThroughEnabled remapParams s"

definition RemapClass_isTargetEventForBlockUntilKeyUp ::
  "nat \<Rightarrow> bool \<Rightarrow> Params \<Rightarrow> 'a ClassState_scheme \<Rightarrow> bool"
where
  "RemapClass_isTargetEventForBlockUntilKeyUp this passThroughEnabled paramsBase s =
     list_ex (\<lambda>item. Item_isTargetEventForBlockUntilKeyUp this item passThroughEnabled paramsBase s) (rc_items s this)"

fun simultaneous_items ::
  "((nat \<times> nat) \<times> ClassItem) list \<Rightarrow> bool \<Rightarrow> bool \<Rightarrow> 'a ClassState_scheme \<Rightarrow> bool \<times> 'a ClassState_scheme"
where
  "simultaneous_items [] passThroughEnabled down s = (False, s)"
| "simultaneous_items ((p, item) # items) passThroughEnabled down s =
     (let (changed, s) = Item_remap_SimultaneousKeyPresses p item passThroughEnabled down s;
          (queue_changed, s) = simultaneous_items items passThroughEnabled down s
      in (changed \<or> queue_changed, s))"

definition RemapClass_remap_simultaneouskeypresses ::
  "nat \<Rightarrow> bool \<Rightarrow> bool \<Rightarrow> 'a ClassState_scheme \<Rightarrow> bool \<times> 'a ClassState_scheme"
where
  "RemapClass_remap_simultaneouskeypresses this passThroughEnabled down s =
     simultaneous_items (indexed_items this s) passThroughEnabled down s"

definition RemapClass_cancelEventOutputQueueItems ::
  "nat \<Rightarrow> bool \<Rightarrow> 'a ClassState_scheme \<Rightarrow> 'a ClassState_scheme"
where
  "RemapClass_cancelEventOutputQueueItems this passThroughEnabled s =
     fold (\<lambda>item. Item_cancelEventOutputQueueItems this item passThroughEnabled) (rc_items s this) s"

definition hasActiveItem :: "nat \<Rightarrow> 'a ClassState_scheme \<Rightarrow> bool" where
  "hasActiveItem this s = list_ex (\<lambda>(p, _). Item_active p s) (indexed_items this s)"

definition RemapClass_isPassThroughEnabled :: "nat \<Rightarrow> 'a ClassState_scheme \<Rightarrow> bool" where
  "RemapClass_isPassThroughEnabled this s =
     list_ex (\<lambda>item. Item_isPassThroughEnabled this item s) (rc_items s this)"

definition reset_allocation_count :: "'a ClassState_scheme \<Rightarrow> 'a ClassState_scheme" where
  "reset_allocation_count s = s\<lparr>rc_allocation_count := 0\<rparr>"

end
