(* ===== verification/RemapManager.thy ===== *)
theory RemapManager
  imports RemapClasses
begin

text \<open>
  \<^verbatim>\<open>RemapClassManager\<close>: reading the initialization vector, the configuration, the timer that rebuilds the
  list of enabled classes, and the calls of the event core. The enumeration of the essential
  configuration is generated when the extension is built: the operations get it as \<open>indexes\<close>, the list of
  its entries, where an entry that the modelled code does not read is \<open>None\<close>.
\<close>

section \<open>Timer\<close>

definition RemapClassManager_initialize :: "'a ClassState_scheme \<Rightarrow> 'a ClassState_scheme" where
  "RemapClassManager_initialize s =
     s\<lparr>mg_statusmessage := [], mg_lastmessage := [],
       vk_refresh_timer := TimerWrapper_initialize True True (vk_refresh_timer s)\<rparr>"

text \<open>One round of the loop of \<open>refresh_timer_callback\<close>.\<close>

definition refresh_class :: "nat option \<Rightarrow> 'a ClassState_scheme \<Rightarrow> 'a ClassState_scheme" where
  "refresh_class rc s =
     (case rc of
        None \<Rightarrow> s
      | Some p \<Rightarrow>
          let enabled = rc_enabled (vk_remapclass s p) in
          if enabled \<or> hasActiveItem p s
          then
            let s = s\<lparr>mg_enabled_remapclasses := mg_enabled_remapclasses s @ [p]\<rparr>
            in if enabled
               then
                 let s = (case rc_statusmessage s p of
                            None \<Rightarrow> s
                          | Some msg \<Rightarrow>
                              let m = c_strlcat (mg_statusmessage s) msg STATUS_MESSAGE_MAXLEN
                              in s\<lparr>mg_statusmessage := c_strlcat m (ascii '' '') STATUS_MESSAGE_MAXLEN\<rparr>)
                 in if rc_simultaneous s p then s\<lparr>mg_isSimultaneousKeyPressesEnabled := True\<rparr> else s
               else s
          else s)"

definition refresh_timer_callback :: "'a ClassState_scheme \<Rightarrow> 'a ClassState_scheme" where
  "refresh_timer_callback s =
     (let s = s\<lparr>mg_enabled_remapclasses := [], mg_statusmessage := [], mg_isSimultaneousKeyPressesEnabled := False\<rparr>;
          s = fold refresh_class (mg_remapclasses s) s
      in if mg_statusmessage s \<noteq> mg_lastmessage s
         then
           let s = (case strlcpy_utf8 (mg_statusmessage s) STATUS_MESSAGE_MAXLEN of
                      Some (copied, _) \<Rightarrow> s\<lparr>mg_lastmessage := copied\<rparr> | None \<Rightarrow> s);
               s = clear_statusmessage STATUS_MESSAGE_EXTRA s;
               s = append_statusmessage STATUS_MESSAGE_EXTRA (mg_statusmessage s) s
           in send_notification_statusmessage STATUS_MESSAGE_EXTRA s
         else s)"

definition refresh_tick :: "'a ClassState_scheme \<Rightarrow> 'a ClassState_scheme" where
  "refresh_tick s =
     (let (run, t) = timer_callback (vk_refresh_timer s);
          s = s\<lparr>vk_refresh_timer := t\<rparr>
      in if run then refresh_timer_callback s else s)"

section \<open>Loading\<close>

definition delete_class :: "nat option \<Rightarrow> 'a ClassState_scheme \<Rightarrow> 'a ClassState_scheme" where
  "delete_class p s = (case p of None \<Rightarrow> s | Some p \<Rightarrow> RemapClass_delete p s)"

definition clear_remapclasses :: "'a ClassState_scheme \<Rightarrow> 'a ClassState_scheme" where
  "clear_remapclasses s =
     (let s = clearVirtualModifiers s;
          s = s\<lparr>cs_names := normal_names\<rparr>;
          s = VK_CONFIG_clear_items s;
          s = VK_DEFINED_IN_USERSPACE_clear_items s;
          s = s\<lparr>mg_enabled_remapclasses := [], pt_list := []\<rparr>;
          s = fold delete_class (mg_remapclasses s) s
      in s\<lparr>mg_remapclasses := []\<rparr>)"

definition RemapClassManager_terminate :: "'a ClassState_scheme \<Rightarrow> 'a ClassState_scheme" where
  "RemapClassManager_terminate s =
     clear_remapclasses (s\<lparr>vk_refresh_timer := TimerWrapper_terminate (vk_refresh_timer s)\<rparr>)"

text \<open>The loop that makes the classes; \<open>False\<close> is the jump to \<open>error\<close>. \<open>ws\<close> is what is left of the vector.\<close>

fun load_classes :: "nat \<Rightarrow> u32 list \<Rightarrow> 'a ClassState_scheme \<Rightarrow> bool \<times> 'a ClassState_scheme" where
  "load_classes 0 ws s = (True, s)"
| "load_classes (Suc n) [] s = (False, s)"
| "load_classes (Suc n) (sz # ws) s =
     (if unat sz > length ws then (False, s)
      else if sz = 0 then (False, s)
      else
        let configindex = hd ws; ws = tl ws; sz = sz - 1 in
        if unat configindex \<ge> length (mg_remapclasses s) then (False, s)
        else
          let (newp, s) = RemapClass_new (Some ws) sz configindex s;
              s = s\<lparr>mg_remapclasses := (mg_remapclasses s)[unat configindex := Some newp]\<rparr>
          in load_classes n (drop (unat sz) ws) s)"

text \<open>\<open>vector_size\<close> counts bytes; \<open>vec\<close> are the words of the vector.\<close>

definition load_remapclasses_initialize_vector ::
  "u32 list \<Rightarrow> u64 \<Rightarrow> 'a ClassState_scheme \<Rightarrow> bool \<times> 'a ClassState_scheme"
where
  "load_remapclasses_initialize_vector vec vector_size s =
     (let s = clear_remapclasses s;
          err = (\<lambda>s. (False, clear_remapclasses s));
          words = vector_size div 4
      in if vector_size mod 4 \<noteq> 0 then err s
         else if words < 2 then err s
         else if words > ucast MAX_ALLOCATION_COUNT then err s
         else
           let n = hd vec in
           if n > MAX_CONFIG_COUNT then err s
           else
             let s = reset_allocation_count s;
                 s = s\<lparr>mg_remapclasses := replicate (unat n) None\<rparr>;
                 (loaded, s) = load_classes (unat n) (tl (take (unat words) vec)) s
             in if \<not> loaded then err s
                else if list_ex (\<lambda>p. p = None) (mg_remapclasses s) then err s
                else (True, s))"

section \<open>Configuration\<close>

definition load_essential_config_default :: "(ConfigIndex \<Rightarrow> int) \<Rightarrow> 'a CommonState_scheme \<Rightarrow> 'a CommonState_scheme" where
  "load_essential_config_default defaults s = s\<lparr>cs_config := defaults\<rparr>"

definition set_essential_config ::
  "ConfigIndex option list \<Rightarrow> (ConfigIndex \<Rightarrow> int) \<Rightarrow> int list \<Rightarrow> nat \<Rightarrow> 'a CommonState_scheme \<Rightarrow> 'a CommonState_scheme"
where
  "set_essential_config indexes defaults newvalues num s =
     (if num \<noteq> length indexes then load_essential_config_default defaults s
      else s\<lparr>cs_config :=
             fold (\<lambda>(i, v) config. case i of None \<Rightarrow> config | Some i \<Rightarrow> config(i := v))
               (zip indexes newvalues) (cs_config s)\<rparr>)"

definition set_essential_config_one ::
  "ConfigIndex option list \<Rightarrow> nat \<Rightarrow> int \<Rightarrow> 'a CommonState_scheme \<Rightarrow> bool \<times> 'a CommonState_scheme"
where
  "set_essential_config_one indexes index value s =
     (if index \<ge> length indexes then (False, s)
      else (True, case indexes ! index of None \<Rightarrow> s | Some i \<Rightarrow> s\<lparr>cs_config := (cs_config s)(i := value)\<rparr>))"

definition set_class_enabled :: "nat option \<times> int \<Rightarrow> 'a ClassState_scheme \<Rightarrow> 'a ClassState_scheme" where
  "set_class_enabled = (\<lambda>(rc, value) s. case rc of None \<Rightarrow> s | Some rc \<Rightarrow> setEnabled rc (value \<noteq> 0) s)"

definition set_config ::
  "ConfigIndex option list \<Rightarrow> (ConfigIndex \<Rightarrow> int) \<Rightarrow> int list \<Rightarrow> nat \<Rightarrow> 'a ClassState_scheme \<Rightarrow>
   bool \<times> 'a ClassState_scheme"
where
  "set_config indexes defaults config_vector config_size s =
     (if config_size \<noteq> (length indexes + length (mg_remapclasses s)) * 4 then (False, s)
      else
        let s = set_essential_config indexes defaults config_vector (length indexes) s;
            p = drop (length indexes) config_vector;
            s = fold set_class_enabled (zip (mg_remapclasses s) p) s
        in (True, RemapClassManager_refresh s))"

definition set_config_one ::
  "ConfigIndex option list \<Rightarrow> bool \<Rightarrow> nat \<Rightarrow> int \<Rightarrow> 'a ClassState_scheme \<Rightarrow> bool \<times> 'a ClassState_scheme"
where
  "set_config_one indexes isEssentialConfig index value s =
     (let (succeed, s) =
        (if isEssentialConfig then set_essential_config_one indexes index value s
         else if index \<ge> length (mg_remapclasses s) then (False, s)
         else case mg_remapclasses s ! index of
           None \<Rightarrow> (False, s)
         | Some rc \<Rightarrow> (True, setEnabled rc (value \<noteq> 0) s))
      in (succeed, RemapClassManager_refresh s))"

section \<open>Calls of the event core\<close>

definition isPassThroughEnabled :: "'a ClassState_scheme \<Rightarrow> bool" where
  "isPassThroughEnabled s = list_ex (\<lambda>p. RemapClass_isPassThroughEnabled p s) (mg_enabled_remapclasses s)"

definition manager_remap_setkeyboardtype :: "KeyboardType \<Rightarrow> 'a ClassState_scheme \<Rightarrow> KeyboardType" where
  "manager_remap_setkeyboardtype keyboardType s =
     fold (\<lambda>p t. RemapClass_remap_setkeyboardtype p (isPassThroughEnabled s) t s) (mg_enabled_remapclasses s) keyboardType"

definition manager_remap_forcenumlockon :: "HookedItem option \<Rightarrow> 'a ClassState_scheme \<Rightarrow> 'a ClassState_scheme" where
  "manager_remap_forcenumlockon item s =
     fold (\<lambda>p. RemapClass_remap_forcenumlockon p (isPassThroughEnabled s) item) (mg_enabled_remapclasses s) s"

fun remap_classes ::
  "nat list \<Rightarrow> bool \<Rightarrow> RemapParams \<Rightarrow> 'a ClassState_scheme \<Rightarrow> (RemapParams \<times> 'a ClassState_scheme) option"
where
  "remap_classes [] passThroughEnabled remapParams s = Some (remapParams, s)"
| "remap_classes (p # ps) passThroughEnabled remapParams s =
     do {
       (remapParams, s) \<leftarrow> RemapClass_remap p passThroughEnabled remapParams s;
       remap_classes ps passThroughEnabled remapParams s
     }"

definition manager_remap :: "RemapParams \<Rightarrow> 'a ClassState_scheme \<Rightarrow> (RemapParams \<times> 'a ClassState_scheme) option" where
  "manager_remap remapParams s = remap_classes (mg_enabled_remapclasses s) (isPassThroughEnabled s) remapParams s"

definition manager_isTargetEventForBlockUntilKeyUp :: "Params \<Rightarrow> 'a ClassState_scheme \<Rightarrow> bool" where
  "manager_isTargetEventForBlockUntilKeyUp paramsBase s =
     list_ex (\<lambda>p. RemapClass_isTargetEventForBlockUntilKeyUp p (isPassThroughEnabled s) paramsBase s)
       (mg_enabled_remapclasses s)"

fun simultaneous_classes ::
  "nat list \<Rightarrow> bool \<Rightarrow> bool \<Rightarrow> 'a ClassState_scheme \<Rightarrow> bool \<times> 'a ClassState_scheme"
where
  "simultaneous_classes [] passThroughEnabled down s = (False, s)"
| "simultaneous_classes (p # ps) passThroughEnabled down s =
     (let (changed, s) = RemapClass_remap_simultaneouskeypresses p passThroughEnabled down s;
          (queue_changed, s) = simultaneous_classes ps passThroughEnabled down s
      in (changed \<or> queue_changed, s))"

definition manager_remap_simultaneouskeypresses :: "bool \<Rightarrow> 'a ClassState_scheme \<Rightarrow> bool \<times> 'a ClassState_scheme" where
  "manager_remap_simultaneouskeypresses down s =
     simultaneous_classes (mg_enabled_remapclasses s) (isPassThroughEnabled s) down s"

definition manager_cancelEventOutputQueueItems :: "'a ClassState_scheme \<Rightarrow> 'a ClassState_scheme" where
  "manager_cancelEventOutputQueueItems s =
     fold (\<lambda>p. RemapClass_cancelEventOutputQueueItems p (isPassThroughEnabled s)) (mg_enabled_remapclasses s) s"

text \<open>No object is registered twice, because registering removes it first; \<open>remdups\<close> makes this visible.\<close>

definition prepareTargetItems :: "'a ClassState_scheme \<Rightarrow> nat list" where
  "prepareTargetItems s = remdups (pt_list s)"

text \<open>
  The loop of \<open>prepare\<close> over the items from the current one on. The next item is determined before the
  current one is prepared; what is registered meanwhile is behind it.
\<close>

partial_function (option) prepare_loop ::
  "nat list \<Rightarrow> RemapParams \<Rightarrow> 'a ClassState_scheme \<Rightarrow> (RemapParams \<times> 'a ClassState_scheme) option"
where
  "prepare_loop items remapParams s =
     (case items of
        [] \<Rightarrow> Some (remapParams, s)
      | p # ps \<Rightarrow>
          Option.bind (if p \<in> set (rf_live s) then RemapFunc_prepare p remapParams s else Some (remapParams, s))
            (\<lambda>(remapParams, s).
               prepare_loop (if ps = [] then [] else dropWhile (\<lambda>q. q \<noteq> hd ps) (prepareTargetItems s)) remapParams s))"

definition manager_prepare ::
  "RemapParams \<Rightarrow> 'a ClassState_scheme \<Rightarrow> (RemapParams \<times> 'a ClassState_scheme) option"
where
  "manager_prepare remapParams s =
     (let s = s\<lparr>oq_serialNumber := oq_serialNumber s - 1\<rparr>;
          s = s\<lparr>vk_needToDrop := False\<rparr>
      in do {
        (remapParams, s) \<leftarrow> prepare_loop (prepareTargetItems s) remapParams s;
        let remapParams = (if vk_needToDrop s then remapParams\<lparr>rp_isremapped := True\<rparr> else remapParams);
        Some (remapParams, s\<lparr>oq_serialNumber := oq_serialNumber s + 1\<rparr>)
      })"

text \<open>What the event core is linked with.\<close>

definition manager :: "('a ClassState_scheme) Remapper" where
  "manager =
     \<lparr>rm_isSimultaneousKeyPressesEnabled = mg_isSimultaneousKeyPressesEnabled,
      rm_simultaneouskeypresses = manager_remap_simultaneouskeypresses,
      rm_isTargetEventForBlockUntilKeyUp = manager_isTargetEventForBlockUntilKeyUp,
      rm_setkeyboardtype = manager_remap_setkeyboardtype,
      rm_forcenumlockon = (\<lambda>item s. manager_remap_forcenumlockon (find_item item s) s),
      rm_prepare = manager_prepare,
      rm_remap = manager_remap,
      rm_cancelScroll = cancelScroll,
      rm_clear = (\<lambda>s. ActiveFromInfos_clear (ActiveItems_clear s))\<rparr>"

end
