(* ===== verification/RemapFrame.thy ===== *)
theory RemapFrame
  imports RemapManager KeyToKeyHeld
begin

text \<open>
  Every remapping returns, whatever the event: it leaves the input queue and its timers alone and
  firing keys still returns afterwards. The same calculus bounds what a remapping may register in the
  list of objects to prepare, on which the termination of the loop of \<open>prepare\<close> rests.
\<close>

section \<open>The frame\<close>

text \<open>
  \<open>mev A s t\<close>: from \<open>s\<close> to \<open>t\<close> the input queue and its timers are the same, firing keys returns, and the
  list of objects to prepare has lost some and got only objects of \<open>A\<close> at its end.
\<close>

definition mev :: "nat set \<Rightarrow> 'a KeyState_scheme \<Rightarrow> 'a KeyState_scheme \<Rightarrow> bool" where
  "mev A s t =
     (in_frame s t \<and> fire_ok t \<and> (\<exists>P new. pt_list t = filter P (pt_list s) @ new \<and> set new \<subseteq> A))"

lemma mev_start: "fire_ok s \<Longrightarrow> mev A s s"
  unfolding mev_def by (auto intro!: exI [of _ "\<lambda>_. True"] exI [of _ "[]"])

lemma mev_trans: "mev A s t \<Longrightarrow> mev A t u \<Longrightarrow> mev A s u"
proof -
  assume st: "mev A s t" and tu: "mev A t u"
  then obtain P Q xs ys where "pt_list t = filter P (pt_list s) @ xs" "set xs \<subseteq> A"
    "pt_list u = filter Q (pt_list t) @ ys" "set ys \<subseteq> A" unfolding mev_def by blast
  then have "pt_list u = filter (\<lambda>x. P x \<and> Q x) (pt_list s) @ (filter Q xs @ ys) \<and> set (filter Q xs @ ys) \<subseteq> A"
    by (auto simp: conj_commute)
  then have "\<exists>P new. pt_list u = filter P (pt_list s) @ new \<and> set new \<subseteq> A" by blast
  with st tu show ?thesis by (auto simp: mev_def intro: in_frame_trans)
qed

lemma mev_mono: "mev A s t \<Longrightarrow> A \<subseteq> B \<Longrightarrow> mev B s t"
  unfolding mev_def by blast

lemma mev_fire_ok: "mev A s t \<Longrightarrow> fire_ok t"
  by (simp add: mev_def)

lemma mev_frame: "mev A s t \<Longrightarrow> in_frame s t"
  by (simp add: mev_def)

text \<open>Anything that only sends events keeps the frame.\<close>

lemma mev_ev:
  fixes s t u :: "'a KeyState_scheme"
  assumes "mev A s t" and "ev t d u"
  shows "mev A s u"
proof -
  have "in_frame t u" using assms by (cases t; cases u; simp add: ev_def in_frame_def)
  moreover have "pt_list u = pt_list t" using assms(2) by (cases t; cases u; simp add: ev_def)
  ultimately show ?thesis using assms by (auto simp: mev_def ev_def intro: in_frame_trans)
qed

lemma ev_self: "fire_ok t \<Longrightarrow> ev t (press_counts t) t"
  by (rule ev_start)

lemma mev_ev_self: "mev A s t \<Longrightarrow> ev t (press_counts t) t"
  by (simp add: mev_def ev_start)

lemma mev_ev_step:
  fixes s t u :: "'a KeyState_scheme"
  assumes "mev A s t" and "\<And>c. ev t c t \<Longrightarrow> \<exists>d. ev t d u"
  shows "mev A s u"
  using assms mev_ev mev_ev_self by blast

lemma mev_returns:
  fixes s t :: "'a KeyState_scheme"
  assumes "mev A s t" and "\<And>c. ev t c t \<Longrightarrow> returns m (ev t (d c))"
  shows "returns m (mev A s)"
  by (rule returns_mono [OF assms(2) [OF mev_ev_self [OF assms(1)]] mev_ev [OF assms(1)]])

text \<open>State that belongs to neither.\<close>

lemma mev_updates [simp]:
  "mev A s (t\<lparr>kt_timer := x2\<rparr>) = mev A s t" "mev A s (t\<lparr>kt_target := x3\<rparr>) = mev A s t"
  "mev A s (t\<lparr>kt_flagStatus := x4\<rparr>) = mev A s t" "mev A s (t\<lparr>pf_list := x5\<rparr>) = mev A s t"
  "mev A s (t\<lparr>ew_list := x6\<rparr>) = mev A s t" "mev A s (t\<lparr>kt_objects := x7\<rparr>) = mev A s t"
  "mev A s (t\<lparr>oq_serialNumber := x8\<rparr>) = mev A s t" "mev A s (t\<lparr>vk_needToDrop := x9\<rparr>) = mev A s t"
  by (simp_all add: mev_def in_frame_def fire_ok_def)

lemma mev_func_updates [simp]:
  fixes s t :: "'a FuncState_scheme"
  shows "mev A s (t\<lparr>rf_func := y1\<rparr>) = mev A s t" and "mev A s (t\<lparr>dp_objects := y2\<rparr>) = mev A s t"
    and "mev A s (t\<lparr>dp_timer := y3\<rparr>) = mev A s t" and "mev A s (t\<lparr>dp_target := y4\<rparr>) = mev A s t"
    and "mev A s (t\<lparr>ps_queue := y5\<rparr>) = mev A s t" and "mev A s (t\<lparr>ps_fromModifierFlags := y6\<rparr>) = mev A s t"
    and "mev A s (t\<lparr>ps_toModifierFlags := y7\<rparr>) = mev A s t" and "mev A s (t\<lparr>ps_autogenId := y8\<rparr>) = mev A s t"
    and "mev A s (t\<lparr>ps_lastPhysicalEventType := y9\<rparr>) = mev A s t" and "mev A s (t\<lparr>ps_timer := y10\<rparr>) = mev A s t"
    and "mev A s (t\<lparr>af_list := y11\<rparr>) = mev A s t" and "mev A s (t\<lparr>dn_numLock := y12\<rparr>) = mev A s t"
  by (simp_all add: mev_def in_frame_def fire_ok_def)

lemma mev_member [simp]:
  fixes s t :: "'a FuncState_scheme"
  shows "mev A s (update_object p f t) = mev A s t" and "mev A s (update_func p g t) = mev A s t"
    and "mev A s (update_depending p h t) = mev A s t"
  by (simp_all add: update_object_def update_func_def update_depending_def)

lemma mev_object [simp]: "mev A s (update_object p f t) = mev A s t"
  by (simp add: update_object_def)

lemma mev_watch [simp]:
  "mev A s (Target_observe p t) = mev A s t" "mev A s (Target_unobserve p t) = mev A s t"
  "mev A s (EventWatcher_on t) = mev A s t"
  by (simp_all add: Target_observe_def Target_unobserve_def EventWatcher_on_def on_item_def)

lemma mev_pt:
  assumes "mev A s t" and "in_frame t u" and "fire_ok u" and "pt_list u = filter Q (pt_list t) @ ys" and "set ys \<subseteq> A"
  shows "mev A s u"
  by (rule mev_trans [OF assms(1)]) (use assms(2-5) in \<open>auto simp: mev_def\<close>)

lemma mev_unregister [intro]: "mev A s t \<Longrightarrow> mev A s (unregisterPrepareTargetItem p t)"
  by (rule mev_pt [where Q = "\<lambda>x. \<not> (x \<notin> set (rf_live t) \<or> x = p)" and ys = "[]"])
    (simp_all add: unregisterPrepareTargetItem_def mev_def in_frame_def fire_ok_def)

lemma mev_register: "mev A s t \<Longrightarrow> p \<in> A \<Longrightarrow> mev A s (registerPrepareTargetItem p t)"
  by (rule mev_pt [where Q = "\<lambda>x. \<not> (x \<notin> set (rf_live t) \<or> x = p)" and ys = "[p]"])
    (simp_all add: registerPrepareTargetItem_def unregisterPrepareTargetItem_def Let_def mev_def in_frame_def fire_ok_def)

lemma mev_changePressingState [intro]:
  "mev A s t \<Longrightarrow> mev A s (snd (changePressingState p e q f fs t))"
  by (auto simp: changePressingState_def PressingFromEvents_push_back_def PressingFromEvents_erase_def
      split: option.splits bool.splits if_splits)

lemma mev_flags [intro]:
  fixes s t :: "'a KeyState_scheme"
  assumes "mev A s t"
  shows "mev A s (FlagStatus_temporary_increase a t)" and "mev A s (FlagStatus_temporary_decrease a t)"
    and "mev A s (FlagStatus_set t)" and "mev A s (FlagStatus_lazy_enable t)"
    and "mev A s (FlagStatus_lazy_disable_if_off t)" and "mev A s (FlagStatus_increase a t)"
    and "mev A s (FlagStatus_decrease a t)" and "mev A s (ButtonStatus_increase b t)"
    and "mev A s (ButtonStatus_decrease b t)" and "mev A s (KeyboardRepeat_cancel t)"
    and "mev A s (setIgnorePhysicalUpEvent x t)" and "mev A s (FireRelativePointer_fire i pe bs dx dy t)"
  by (rule mev_ev [OF assms], (rule ev_flags [OF mev_ev_self [OF assms]] ev_frames [OF mev_ev_self [OF assms]]))+

lemma mev_keeps:
  fixes s t u :: "'a KeyState_scheme"
  shows "mev A s t \<Longrightarrow> vk_keeps t u \<Longrightarrow> mev A s u"
  using ev_keeps [OF mev_ev_self] mev_ev by blast

lemma mev_scroll [intro]:
  fixes s t :: "'a KeyState_scheme"
  shows "mev A s t \<Longrightarrow> mev A s (FireScrollWheel_fire w i pe t)"
  by (erule mev_keeps) (rule FireScrollWheel_keeps)

section \<open>KeyToKey\<close>

lemma mev_KeyToKey_prepare:
  fixes s t :: "'a KeyState_scheme"
  assumes "mev A s t"
  shows "returns (KeyToKey_prepare this p t) (mev A s)"
proof -
  let ?u = "FlagStatus_set ((unregisterPrepareTargetItem this t)\<lparr>kt_timer := cancelTimeout (kt_timer (unregisterPrepareTargetItem this t))\<rparr>)"
  have u: "mev A s ?u" using assms by (auto intro!: mev_flags mev_unregister)
  have "returns (doDelayedAction this keys b ?u) (mev A s)" for keys b
    by (rule mev_returns [OF u]) (rule ev_doDelayedAction)
  with assms show ?thesis
    by (auto simp: KeyToKey_prepare_def Let_def split: option.split)
qed

lemma mev_start_delayed:
  fixes s t :: "'a KeyState_scheme"
  assumes "mev A s t" and "this \<in> A"
  shows "mev A s (start_delayed_action this t)"
proof -
  have "mev A s (decrease_delayed_flags fl u)" if "mev A s u" for fl and u :: "'a KeyState_scheme"
  proof -
    have "mev A s (FlagStatus_decrease (FA_Flags fl) u)" using that by blast
    then show ?thesis by (simp add: decrease_delayed_flags_def Let_def mev_def in_frame_def fire_ok_def)
  qed
  then show ?thesis using assms by (auto simp: start_delayed_action_def Let_def intro!: mev_register)
qed

lemma mev_remap_to_keys:
  fixes s t :: "'a KeyState_scheme"
  assumes "mev A s t"
  shows "returns (remap_to_keys this down pe t) (mev A s)"
proof -
  let ?k = "kt_objects t this"
  note here = mev_ev_self [OF assms] and go = mev_ev [OF assms]
  consider "kk_toKeys ?k = []" | "length (kk_toKeys ?k) = 1" | "length (kk_toKeys ?k) > 1"
    by (cases "length (kk_toKeys ?k)") auto
  then show ?thesis
  proof cases
    case 2
    then show ?thesis
      by (auto simp: remap_to_keys_def Let_def intro!: returns_mono [OF ev_remap_one [OF here]] go)
  next
    case 3
    then have "kk_toKeys ?k \<noteq> []" by auto
    note many = ev_remap_many_down [OF here this] ev_remap_many_up [OF here this]
    have "returns (remap_many_down ?k pe t) (\<lambda>(n, u). mev A s (case n of None \<Rightarrow> u
        | Some n \<Rightarrow> update_object this (\<lambda>k. k\<lparr>kk_keyboardRepeatID := n\<rparr>) u))"
      by (rule returns_mono [OF many(1)]) (auto split: option.split intro: go)
    moreover have "returns (remap_many_up ?k pe t) (mev A s)" by (rule returns_mono [OF many(2)]) (rule go)
    ultimately show ?thesis
      using 3 by (auto simp: remap_to_keys_def Let_def case_prod_unfold)
  qed (use assms in \<open>simp add: remap_to_keys_def Let_def\<close>)
qed

lemma mev_KeyToKey_remap:
  fixes s t :: "'a KeyState_scheme"
  assumes "mev A s t" and "this \<in> A"
  shows "returns (KeyToKey_remap this p t) (\<lambda>r. mev A s (snd (snd r)))"
proof -
  have before: "returns (fire_before_keys k pe u) (mev A s)" if "mev A s u" for k pe and u :: "'a KeyState_scheme"
    by (rule mev_returns [OF that]) (erule ev_fire_before_keys)
  have after: "returns (fire_after_keys k pe keys u) (mev A s)" if "mev A s u" for k pe keys and u :: "'a KeyState_scheme"
    by (rule mev_returns [OF that]) (erule ev_fire_after_keys)
  have from_key: "mev A s (remap_from k down u)" if "mev A s u" for k down and u :: "'a KeyState_scheme"
    using mev_ev [OF that ev_remap_from [OF mev_ev_self [OF that]]] .
  show ?thesis
  proof (cases "iskeydown (rp_params p)")
    case (Some down)
    let ?k = "kt_objects t this"
    obtain b v where ch: "changePressingState this (kk_fromEvent ?k) (rp_params p) (fs_item t) (kk_fromModifierFlags ?k) t = (b, v)"
      by fastforce
    with mev_changePressingState [OF assms(1)] have v: "mev A s v" by (metis snd_conv)
    let ?u = "remap_from ?k down (update_object this (\<lambda>k. k\<lparr>kk_lastPhysicalEventType := rp_physicalEventType p\<rparr>) v)"
    have u: "mev A s ?u" "mev A s (start_delayed_action this ?u)"
      by (intro mev_start_delayed from_key assms(2); simp add: v)+
    have rest: "returns (do {
        s4 \<leftarrow> (if down then fire_before_keys ?k pe w else Some w);
        s5 \<leftarrow> remap_to_keys this down pe s4;
        (if \<not> down then fire_after_keys ?k pe (kk_afterKeys ?k) s5 else Some s5) }) (mev A s)"
      if w: "mev A s w" for w pe
    proof -
      have s4: "returns (if down then fire_before_keys ?k pe w else Some w) (mev A s)"
        using before [OF w, of ?k pe] w by simp
      have s6: "returns (if \<not> down then fire_after_keys ?k pe (kk_afterKeys ?k) s5 else Some s5) (mev A s)"
        if "mev A s s5" for s5 :: "'a KeyState_scheme"
        using after [OF that, of ?k pe "kk_afterKeys ?k"] that by simp
      show ?thesis
        unfolding returns_bind
        by (rule returns_mono [OF s4], rule returns_mono [OF mev_remap_to_keys], assumption, rule s6)
    qed
    show ?thesis
      using rest [OF u(1)] rest [OF u(2)] assms(1) v Some by (cases down) (auto simp: KeyToKey_remap_def Let_def ch)
  qed (simp add: KeyToKey_remap_def assms Let_def)
qed

lemma mev_call_remap:
  fixes s t :: "'a KeyState_scheme"
  assumes "mev A s t" and "this \<in> A"
  shows "returns (call_remap_with_VK_PSEUDO_KEY this et pe t) (\<lambda>r. mev A s (snd r))"
  using assms
  by (auto simp: call_remap_with_VK_PSEUDO_KEY_def Let_def case_prod_unfold
      intro!: returns_mono [OF mev_KeyToKey_remap] mev_flags)

lemma mev_call_downup:
  fixes s t :: "'a KeyState_scheme"
  assumes "mev A s t" and "this \<in> A"
  shows "returns (call_downup this pe t) (mev A s)"
  using assms
  by (auto simp: call_downup_def case_prod_unfold intro!: returns_mono [OF mev_call_remap])

lemma mev_ScopedSetter:
  fixes s t :: "'a KeyState_scheme"
  assumes "mev A s t"
  shows "mev A s (snd (ScopedSetter_new items t))" and "mev A s (ScopedSetter_delete setter t)"
proof -
  note h = mev_ev_self [OF assms] and go = mev_ev [OF assms]
  show "mev A s (snd (ScopedSetter_new items t))"
    unfolding ScopedSetter_new_def Let_def snd_conv by (rule go, rule ev_fold_increase, rule ev_fold_decrease, rule h)
  show "mev A s (ScopedSetter_delete setter t)"
    unfolding ScopedSetter_delete_def by (cases setter) (auto simp: intro!: go ev_fold_increase ev_fold_decrease h)
qed

section \<open>Pressing periods\<close>

lemma mev_manipulate [intro]:
  fixes s t :: "'a FuncState_scheme"
  shows "mev A s t \<Longrightarrow> mev A s (manipulatePureFromModifierFlags this p m force t)"
  by (auto simp: manipulatePureFromModifierFlags_def Let_def split: Manipulation.split intro!: mev_flags)

lemma mev_set_periodtype [simp]: "mev A s (set_periodtype this x t) = mev A s t"
  by (simp add: set_periodtype_def)

lemma mev_press_with_saved_flags:
  fixes s t :: "'a FuncState_scheme"
  assumes "mev A s t" and "\<And>u. mev A s u \<Longrightarrow> returns (body u) (mev A s)"
  shows "returns (press_with_saved_flags this type body t) (mev A s)"
proof -
  let ?u = "manipulatePureFromModifierFlags this (dp_keytokey this type) DECREASE False t"
  have "mev A s (snd (ScopedSetter_new (dp_flagStatusWhenKeyPressed (dp_objects ?u this)) ?u))"
    by (rule mev_ScopedSetter(1)) (rule mev_manipulate [OF assms(1)])
  from returns_mono [OF assms(2) [OF this]] show ?thesis
    by (simp add: press_with_saved_flags_def Let_def case_prod_unfold mev_manipulate mev_ScopedSetter)
qed

locale depending_members =
  fixes A :: "nat set" and this :: nat
  assumes keytokey: "\<And>type. dp_keytokey this type \<in> A" and beforeAfterKeys: "dp_beforeAfterKeys this \<in> A"
begin

lemma release:
  fixes s t :: "'a FuncState_scheme"
  shows "mev A s t \<Longrightarrow> returns (release_keytokey this type t) (mev A s)"
  by (auto simp: release_keytokey_def Let_def case_prod_unfold intro!: returns_mono [OF mev_call_remap] keytokey)

lemma press:
  fixes s t :: "'a FuncState_scheme"
  shows "mev A s t \<Longrightarrow> returns (press_saved this type t) (mev A s)"
  unfolding press_saved_def
  by (erule mev_press_with_saved_flags)
    (auto simp: case_prod_unfold intro!: returns_mono [OF mev_call_remap] keytokey)

lemma keydown:
  fixes s t :: "'a FuncState_scheme"
  assumes "mev A s t"
  shows "returns (dokeydown this p t) (mev A s)"
proof -
  have body: "returns (do {
      (_, s) \<leftarrow> call_remap_with_VK_PSEUDO_KEY (dp_keytokey this KT_SHORT_PERIOD) EventType_DOWN (rp_physicalEventType p) u;
      KeyToKey_prepare (dp_keytokey this KT_SHORT_PERIOD) p s }) (mev A s)"
    if "mev A s u" for u :: "'a FuncState_scheme"
    using that by (auto simp: case_prod_unfold simp del: dp_keytokey.simps intro!: returns_mono [OF mev_call_remap] keytokey mev_KeyToKey_prepare)
  have "returns (press_with_saved_flags this KT_SHORT_PERIOD (\<lambda>s. do {
      (_, s) \<leftarrow> call_remap_with_VK_PSEUDO_KEY (dp_keytokey this KT_SHORT_PERIOD) EventType_DOWN (rp_physicalEventType p) s;
      KeyToKey_prepare (dp_keytokey this KT_SHORT_PERIOD) p s }) u) (mev A s)"
    if "mev A s u" for u :: "'a FuncState_scheme"
    by (rule mev_press_with_saved_flags [OF that body])
  with assms show ?thesis by (auto simp: dokeydown_def Let_def split: PeriodType.split)
qed

lemma alone:
  fixes s t :: "'a FuncState_scheme"
  assumes "mev A s t"
  shows "returns (pressed_alone this t) (mev A s)"
  using mev_press_with_saved_flags [where type = KT_PRESSING_TARGET_KEY_ONLY, OF assms mev_call_downup [OF _ keytokey]] assms
  by (simp add: pressed_alone_def Let_def del: dp_keytokey.simps)

lemma keyup:
  fixes s t :: "'a FuncState_scheme"
  assumes "mev A s t"
  shows "returns (dokeyup this t) (mev A s)"
  using assms
  by (cases "dp_periodtype (dp_objects t this)")
    (auto simp: dokeyup_def intro!: returns_mono [OF release] returns_mono [OF alone])

lemma timer_callback:
  fixes s t :: "'a FuncState_scheme"
  assumes "mev A s t" and "dp_target t = Some this"
  shows "returns (Depending_fire_timer_callback t) (mev A s)"
  using assms
  by (cases "dp_periodtype (dp_objects t this)")
    (auto simp: Depending_fire_timer_callback_def Let_def intro!: returns_mono [OF press] returns_mono [OF release] press mev_flags)

lemma prepare:
  fixes s t :: "'a FuncState_scheme"
  assumes "mev A s t"
  shows "returns (Depending_prepare this p t) (mev A s)"
  using assms keydown
  by (auto simp: Depending_prepare_def split: Params.split intro!: returns_mono [OF keydown])

lemma decreased:
  fixes s t :: "'a FuncState_scheme"
  assumes "mev A s t" and "\<And>u. mev A s u \<Longrightarrow> returns (body u) (mev A s)"
  shows "returns (with_flags_decreased this body t) (mev A s)"
  using returns_mono [OF assms(2) [OF mev_manipulate [OF assms(1)]]]
  by (simp add: with_flags_decreased_def mev_manipulate)

end

text \<open>The members of an object have numbers that are no multiples, so none of them is an object of its own.\<close>

definition members :: "nat set" where
  "members = {p. p mod OBJECT_NUMBERS \<noteq> 0}"

lemma members_of_object:
  assumes "this mod OBJECT_NUMBERS = 0" and "0 < i" and "i < OBJECT_NUMBERS"
  shows "this + i \<in> members"
  using assms mod_add_left_eq [of this OBJECT_NUMBERS i] by (simp add: members_def)

interpretation any: depending_members UNIV this for this
  by unfold_locales simp_all

interpretation block: depending_members members "OBJECT_NUMBERS * k" for k
proof unfold_locales
  have m: "OBJECT_NUMBERS * k mod OBJECT_NUMBERS = 0" by simp
  show "dp_keytokey (OBJECT_NUMBERS * k) type \<in> members" for type
    by (cases type; simp only: dp_keytokey.simps; rule members_of_object [OF m]; simp add: OBJECT_NUMBERS_def)
  show "dp_beforeAfterKeys (OBJECT_NUMBERS * k) \<in> members"
    unfolding dp_beforeAfterKeys_def by (rule members_of_object [OF m]) (simp_all add: OBJECT_NUMBERS_def)
qed

section \<open>Every class\<close>

text \<open>The result of a call of \<open>remap\<close> that keeps the frame.\<close>

abbreviation (input) frame_result :: "'a KeyState_scheme \<Rightarrow> bool \<times> RemapParams \<times> 'a KeyState_scheme \<Rightarrow> bool" where
  "frame_result s \<equiv> (\<lambda>r. mev UNIV s (snd (snd r)))"

lemma mev_Depending_remap:
  fixes s t :: "'a FuncState_scheme"
  assumes t: "mev UNIV s t"
  shows "returns (Depending_remap this p t) (frame_result s)"
proof -
  have timer: "returns (Depending_fire_timer_callback u) (mev UNIV s)" if "mev UNIV s u" for u :: "'a FuncState_scheme"
    using that any.timer_callback [OF that] by (cases "dp_target u") (auto simp: Depending_fire_timer_callback_def)
  have down: "returns (Depending_keydown this pe u) (mev UNIV s)" if "mev UNIV s u" for pe and u :: "'a FuncState_scheme"
    using that
    by (auto simp: Depending_keydown_def Let_def case_prod_unfold intro!: returns_mono [OF any.decreased]
        returns_mono [OF mev_call_remap] mev_flags returns_mono [OF timer] mev_register)
  have up: "returns (Depending_keyup this q u) (mev UNIV s)" if "mev UNIV s u" for q and u :: "'a FuncState_scheme"
    using that
    by (auto simp: Depending_keyup_def Let_def case_prod_unfold intro!: returns_mono [OF any.keydown]
        returns_mono [OF any.keyup] returns_mono [OF any.decreased] returns_mono [OF mev_call_remap] mev_flags)
  show ?thesis
  proof (cases "iskeydown (rp_params p)")
    case (Some d)
    obtain b v where ch: "changePressingState this (dp_fromEvent (dp_objects t this)) (rp_params p) (fs_item t)
        (dp_fromModifierFlags (dp_objects t this)) t = (b, v)" by fastforce
    with mev_changePressingState [OF t] have "mev UNIV s v" by (metis snd_conv)
    then show ?thesis
      using t Some by (auto simp: Depending_remap_def Let_def ch intro!: returns_mono [OF down] returns_mono [OF up])
  qed (simp add: Depending_remap_def t)
qed

lemma mev_KeyDownUpToKey:
  fixes s t :: "'a FuncState_scheme"
  assumes "mev A s t" and "ku_from this \<in> A" and "ku_downup this \<in> A" and "ku_keytokey_interrupted this \<in> A"
  shows "returns (KeyDownUpToKey_prepare this k p t) (\<lambda>r. mev A s (snd r))"
    and "this \<in> A \<Longrightarrow> returns (KeyDownUpToKey_remap this k p t) (\<lambda>r. mev A s (snd (snd r)))"
  using assms
  by (auto simp: KeyDownUpToKey_prepare_def KeyDownUpToKey_remap_def Let_def case_prod_unfold
      intro!: returns_mono [OF mev_KeyToKey_remap] returns_mono [OF mev_call_downup] returns_mono [OF mev_call_remap] mev_register)

lemma mev_DoublePressModifier_remap:
  fixes s t :: "'a FuncState_scheme"
  assumes "mev UNIV s t"
  shows "returns (DoublePressModifier_remap this d p t) (frame_result s)"
  using assms
  by (auto simp: DoublePressModifier_remap_def Let_def case_prod_unfold split: option.split
      intro!: returns_mono [OF mev_KeyToKey_remap] returns_mono [OF mev_call_downup] mev_flags)

lemma mev_IgnoreMultipleSameKeyPress_remap:
  fixes s t :: "'a FuncState_scheme"
  assumes "mev UNIV s t"
  shows "frame_result s (IgnoreMultipleSameKeyPress_remap this i p t)"
  using assms
  by (auto simp: IgnoreMultipleSameKeyPress_remap_def Let_def case_prod_unfold)

lemma mev_watching_remaps:
  fixes s t :: "'a FuncState_scheme"
  assumes "mev UNIV s t"
  shows "frame_result s (DropAllKeys_remap this d p t)" and "frame_result s (DropKeyAfterRemap_remap this e p t)"
    and "frame_result s (DropScrollWheel_remap this ds p t)" and "frame_result s (FlipPointingRelative_remap this f p t)"
    and "frame_result s (FlipScrollWheel_remap this w p t)" and "frame_result s (ScrollWheelToScrollWheel_remap this x p t)"
  using assms
  by (auto simp: DropAllKeys_remap_def DropKeyAfterRemap_remap_def DropScrollWheel_remap_def FlipPointingRelative_remap_def
      FlipScrollWheel_remap_def ScrollWheelToScrollWheel_remap_def cancelScroll_def Let_def split: Params.split intro!: mev_flags)

lemma mev_PointingRelativeToKey_remap:
  fixes s t :: "'a FuncState_scheme"
  assumes "mev UNIV s t"
  shows "returns (PointingRelativeToKey_remap this k p t) (frame_result s)"
  using assms
  by (auto simp: PointingRelativeToKey_remap_def Let_def split: Params.split option.split
      intro!: returns_mono [OF mev_call_downup] mev_flags)

lemma mev_ScrollWheelToKey_remap:
  fixes s t :: "'a FuncState_scheme"
  assumes "mev UNIV s t"
  shows "returns (ScrollWheelToKey_remap this k p t) (frame_result s)"
  using assms
  by (auto simp: ScrollWheelToKey_remap_def Let_def split: Params.split intro!: returns_mono [OF mev_call_downup])

lemma mev_toscroll [intro]:
  fixes s t :: "'a FuncState_scheme"
  assumes "mev UNIV s t"
  shows "mev UNIV s (snd (toscroll this r params t))"
proof -
  have c: "mev UNIV s (cancelScroll t)" using assms by (simp add: cancelScroll_def)
  with assms show ?thesis
    unfolding toscroll_def Let_def case_prod_unfold by (simp split del: if_split) (simp split: if_split)
qed

lemma mev_scroll_from_event:
  fixes s t :: "'a FuncState_scheme"
  assumes t: "mev UNIV s t"
  shows "returns (scroll_from_event this r p t) (\<lambda>x. mev UNIV s (snd x))"
proof -
  have c: "mev UNIV s (cancelScroll u)" if "mev UNIV s u" for u :: "'a FuncState_scheme"
    using that by (simp add: cancelScroll_def)
  have f: "returns (fire_downup i pe b te u) (mev UNIV s)" if "mev UNIV s u" for i pe b te and u :: "'a FuncState_scheme"
    by (rule mev_returns [OF that]) (erule ev_fire_downup)
  show ?thesis
    using t by (auto simp: scroll_from_event_def Let_def split: option.split bool.split
        intro!: returns_mono [OF mev_call_downup] returns_mono [OF f] c mev_flags)
qed

lemma mev_PointingRelativeToScroll_remap:
  fixes s t :: "'a FuncState_scheme"
  assumes t: "mev UNIV s t"
  shows "returns (PointingRelativeToScroll_remap this r p t) (frame_result s)"
proof -
  have u: "mev UNIV s (snd (changePressingState this e q f fs t))" for e q f fs
    by (rule mev_changePressingState [OF t])
  have done': "mev UNIV s (snd (toscroll this r q (EventWatcher_on v)))" if "mev UNIV s v" for q and v :: "'a FuncState_scheme"
    using that by (intro mev_toscroll) simp
  show ?thesis
    using t u by (auto simp: PointingRelativeToScroll_remap_def Let_def case_prod_unfold split: Params.split
        intro!: returns_mono [OF mev_scroll_from_event] done')
qed

lemma RemapFunc_remap_returns:
  fixes s t :: "'a FuncState_scheme"
  assumes t: "mev UNIV s t"
  shows "returns (RemapFunc_remap this p t) (frame_result s)"
  using t mev_watching_remaps [OF t] mev_IgnoreMultipleSameKeyPress_remap [OF t] mev_KeyDownUpToKey(2) [OF t]
  by (auto simp: RemapFunc_remap_def SimultaneousKeyPresses_remap_def Let_def case_prod_unfold split: RemapFunc.split
      intro!: mev_KeyToKey_remap mev_Depending_remap mev_DoublePressModifier_remap mev_PointingRelativeToKey_remap
        mev_PointingRelativeToScroll_remap mev_ScrollWheelToKey_remap)

text \<open>
  Preparing an object registers at most its members, and preparing a member registers nothing.
\<close>

lemma RemapFunc_prepare_returns:
  fixes s t :: "'a FuncState_scheme"
  assumes t: "mev A s t" and "if this mod OBJECT_NUMBERS = 0 then A = members else A = {}"
  shows "returns (RemapFunc_prepare this p t) (\<lambda>r. mev A s (snd r))"
proof (cases "this mod OBJECT_NUMBERS = 0")
  case True
  then obtain k where k: "this = OBJECT_NUMBERS * k" by (auto simp: mod_eq_0_iff_dvd)
  have A: "A = members" using assms(2) True by simp
  have m: "ku_from this \<in> members" "ku_downup this \<in> members" "ku_keytokey_interrupted this \<in> members"
    by (rule members_of_object [OF True]; simp add: OBJECT_NUMBERS_def)+
  from t A have "returns (Depending_prepare this p t) (mev A s)" "returns (KeyToKey_prepare this p t) (mev A s)"
    "returns (KeyDownUpToKey_prepare this h p t) (\<lambda>r. mev A s (snd r))" for h
    using block.prepare [of s t k p] k mev_KeyDownUpToKey(1) [OF _ m] mev_KeyToKey_prepare by auto
  with t show ?thesis by (auto simp: RemapFunc_prepare_def split: RemapFunc.split)
next
  case False
  then show ?thesis using mev_KeyToKey_prepare [OF t] by (simp add: RemapFunc_prepare_def RemapFunc_class_def)
qed

end
