(* ===== verification/ManagerLive.thy ===== *)
theory ManagerLive
  imports RemapFrame
begin

text \<open>
  The remap classes fulfil the contract the input queue relies on: every call returns, the loop of
  \<open>RemapClassManager::prepare\<close> ends although preparing an object registers others, and recognising keys
  that are pressed together uses up events. With this the queue of the running extension never stalls.
\<close>

section \<open>prepare\<close>

text \<open>
  One round of the loop: the items after the current one lose the expired and removed ones and gain
  what was registered.
\<close>

lemma prepare_next:
  assumes "remdups ys = xs @ p # q # rest" and "zs = filter P ys @ new"
  shows "set (dropWhile (\<lambda>x. x \<noteq> q) (remdups zs)) \<subseteq> set (q # rest) \<union> set new"
proof -
  let ?Q = "\<lambda>x. P x \<and> x \<notin> set new"
  have d: "distinct (xs @ p # q # rest)" using assms(1) by (metis distinct_remdups)
  have "remdups (us @ vs) = filter (\<lambda>x. x \<notin> set vs) (remdups us) @ remdups vs" for us vs :: "'a list"
    by (induction us) auto
  then have "remdups zs = filter ?Q (xs @ [p]) @ filter ?Q (q # rest) @ remdups new"
    using assms by (simp add: remdups_filter conj_commute)
  moreover have "\<forall>x \<in> set (filter ?Q (xs @ [p])). x \<noteq> q" using d by auto
  ultimately have "dropWhile (\<lambda>x. x \<noteq> q) (remdups zs) = dropWhile (\<lambda>x. x \<noteq> q) (filter ?Q (q # rest) @ remdups new)"
    by (simp only:) (rule dropWhile_append2, blast)
  moreover have "set (dropWhile (\<lambda>x. x \<noteq> q) (filter ?Q (q # rest) @ remdups new)) \<subseteq>
      set (filter ?Q (q # rest) @ remdups new)" by (rule subsetI) (rule set_dropWhileD)
  moreover have "set (filter ?Q (q # rest) @ remdups new) \<subseteq> set (q # rest) \<union> set new" by auto
  ultimately show ?thesis by (metis order.trans)
qed

text \<open>
  The loop ends: preparing an object may register members of it, but removes the object, and preparing
  a member registers nothing. So the number of objects left decreases, or it stays and that of members decreases.
\<close>

definition objects_left :: "nat list \<Rightarrow> nat" where
  "objects_left items = card {p \<in> set items. p mod OBJECT_NUMBERS = 0}"

lemma prepare_loop_returns:
  fixes s t :: "'a ClassState_scheme"
  assumes "mev members s t" and "suffix items (prepareTargetItems t)"
  shows "returns (prepare_loop items p t) (\<lambda>r. mev members s (snd r))"
  using assms
proof (induction items arbitrary: p t rule: wf_induct_rule [OF wf_measures [of "[objects_left, length]"]])
  case (1 items)
  show ?case
  proof (cases items)
    case (Cons i rest)
    let ?m = "if i \<in> set (rf_live t) then RemapFunc_prepare i p t else Some (p, t)"
    let ?A = "if i mod OBJECT_NUMBERS = 0 then members else {}"
    have "returns ?m (\<lambda>r. mev ?A t (snd r))"
      using RemapFunc_prepare_returns [OF mev_start [of t ?A], of i p] mev_start [of t ?A] mev_fire_ok [OF 1(2)] by simp
    then obtain p' u where m: "?m = Some (p', u)" and u: "mev ?A t u" by (auto dest!: returnsE)
    from mev_mono [OF u, of members] have st: "mev members s u"
      by (intro mev_trans [OF 1(2)]) (simp split: if_splits)
    define next' where "next' = (if rest = [] then [] else dropWhile (\<lambda>q. q \<noteq> hd rest) (prepareTargetItems u))"
    have suf: "suffix next' (prepareTargetItems u)"
      by (simp add: next'_def suffix_dropWhile)
    from u obtain P new where new: "pt_list u = filter P (pt_list t) @ new" "set new \<subseteq> ?A"
      unfolding mev_def by blast
    have left: "distinct items"
      using 1(3) distinct_remdups [of "pt_list t"] unfolding suffix_def prepareTargetItems_def by (metis distinct_append)
    have sub: "set next' \<subseteq> set rest \<union> set new"
    proof (cases rest)
      case (Cons q qs)
      obtain xs where "remdups (pt_list t) = xs @ i # q # qs"
        using 1(3) Cons \<open>items = i # rest\<close> by (auto simp: suffix_def prepareTargetItems_def)
      from prepare_next [OF this new(1)] show ?thesis by (simp add: next'_def Cons prepareTargetItems_def)
    qed (simp add: next'_def)
    have "distinct next'"
      by (simp add: next'_def prepareTargetItems_def distinct_dropWhile)
    then have len: "length next' = card (set next')" by (simp add: distinct_card)
    have "(next', items) \<in> measures [objects_left, length]"
    proof (cases "i mod OBJECT_NUMBERS = 0")
      case True
      then have n: "{p \<in> set new. p mod OBJECT_NUMBERS = 0} = {}" using new(2) by (auto simp: members_def)
      have "i \<notin> set next'" using sub n left Cons True by auto
      then have "{p \<in> set next'. p mod OBJECT_NUMBERS = 0} \<subset> {p \<in> set items. p mod OBJECT_NUMBERS = 0}"
        using sub n Cons True by auto
      then show ?thesis by (simp add: objects_left_def psubset_card_mono)
    next
      case False
      then have sub': "set next' \<subset> set items" using sub new(2) left Cons by auto
      then have "{p \<in> set next'. p mod OBJECT_NUMBERS = 0} \<subseteq> {p \<in> set items. p mod OBJECT_NUMBERS = 0}" by auto
      then have "objects_left next' \<le> objects_left items" by (simp add: objects_left_def card_mono)
      moreover have "length next' < length items"
        using psubset_card_mono [OF _ sub'] len left by (simp add: distinct_card)
      ultimately show ?thesis by auto
    qed
    from 1(1) [OF this st suf] have "returns (prepare_loop next' p' u) (\<lambda>r. mev members s (snd r))" .
    then show ?thesis
      by (subst prepare_loop.simps) (simp add: Cons m next'_def)
  qed (use 1 in \<open>simp add: prepare_loop.simps [of "[]"]\<close>)
qed

lemma manager_prepare_returns:
  fixes s :: "'a ClassState_scheme"
  assumes "fire_ok s"
  shows "returns (manager_prepare p s) (\<lambda>r. mev members s (snd r))"
proof -
  let ?t = "s\<lparr>oq_serialNumber := oq_serialNumber s - 1, vk_needToDrop := False\<rparr>"
  have "mev members s ?t" using mev_start [OF assms] by simp
  from prepare_loop_returns [OF this suffix_order.refl] show ?thesis
    by (auto simp: manager_prepare_def Let_def case_prod_unfold elim!: returns_mono)
qed

section \<open>remap\<close>

lemma Item_remap_returns:
  fixes s t :: "'a ClassState_scheme"
  assumes "mev UNIV s t"
  shows "returns (Item_remap p item pass q t) (\<lambda>r. mev UNIV s (snd r))"
proof -
  have "mev UNIV s (ActiveItems_push_back p a u)" "mev UNIV s (ActiveItems_erase p a u)"
    if "mev UNIV s u" for a and u :: "'a ClassState_scheme"
    using that by (simp_all add: ActiveItems_push_back_def ActiveItems_erase_def mev_def in_frame_def fire_ok_def)
  then show ?thesis
    using assms by (auto simp: Item_remap_def Let_def case_prod_unfold split: option.split
        intro!: returns_mono [OF RemapFunc_remap_returns [OF assms]])
qed

lemma remap_items_returns:
  fixes s t :: "'a ClassState_scheme"
  shows "mev UNIV s t \<Longrightarrow> returns (remap_items items pass q t) (\<lambda>r. mev UNIV s (snd r))"
proof (induction items arbitrary: q t)
  case (Cons x items)
  obtain p item where x: "x = (p, item)" by fastforce
  show ?case
    unfolding x remap_items.simps returns_bind
    by (rule returns_mono [OF Item_remap_returns [OF Cons.prems]]) (auto intro: Cons.IH)
qed simp

lemma manager_remap_returns:
  fixes s :: "'a ClassState_scheme"
  assumes "fire_ok s"
  shows "returns (manager_remap q s) (\<lambda>r. mev UNIV s (snd r))"
proof -
  have "mev UNIV s t \<Longrightarrow> returns (remap_classes ps pass q t) (\<lambda>r. mev UNIV s (snd r))" for ps pass and t :: "'a ClassState_scheme"
  proof (induction ps arbitrary: q t)
    case (Cons p ps)
    show ?case
      unfolding remap_classes.simps returns_bind RemapClass_remap_def
      by (rule returns_mono [OF remap_items_returns [OF Cons.prems]]) (auto intro: Cons.IH)
  qed simp
  then show ?thesis using mev_start [OF assms] by (simp add: manager_remap_def)
qed

section \<open>Keys pressed together\<close>

text \<open>What one call may do: the rest of the state of the queue stays, and \<open>targets\<close> does not grow.\<close>

definition uses_up :: "bool \<Rightarrow> 'a InState_scheme \<Rightarrow> 'a InState_scheme \<Rightarrow> bool" where
  "uses_up changed s t =
     (in_frame (s\<lparr>in_queue := in_queue t\<rparr>) t \<and> targets t \<le> targets s \<and> (changed \<longrightarrow> targets t < targets s))"

lemma uses_up_refl [simp]: "uses_up False s s"
  by (simp add: uses_up_def)

lemma uses_up_trans: "uses_up b s t \<Longrightarrow> uses_up c t u \<Longrightarrow> uses_up (b \<or> c) s u"
  by (auto simp: uses_up_def in_frame_def fire_ok_def)

lemma uses_up_weaken: "uses_up b s t \<Longrightarrow> (c \<Longrightarrow> b) \<Longrightarrow> uses_up c s t"
  by (auto simp: uses_up_def)

lemma uses_up_frame: "in_frame s t \<Longrightarrow> uses_up False s t"
  by (simp add: uses_up_def in_frame_def targets_def fire_ok_def)

lemma uses_up_queue:
  assumes "length (filter ii_simultaneous q) \<le> targets s" and "b \<Longrightarrow> length (filter ii_simultaneous q) < targets s"
  shows "uses_up b s (s\<lparr>in_queue := q\<rparr>)"
  using assms by (simp add: uses_up_def targets_def)

lemma uses_up_enqueue: "uses_up False s (enqueue p retain di d push_back False s)"
  by (simp add: enqueue_def Let_def uses_up_def targets_def)

lemma uses_up_active [simp]:
  fixes s t :: "'a FuncState_scheme"
  shows "uses_up b s (t\<lparr>af_list := l\<rparr>) = uses_up b s t"
  by (simp add: uses_up_def in_frame_def fire_ok_def targets_def)

lemma uses_up_infos [simp]:
  fixes s t :: "'a FuncState_scheme"
  shows "uses_up b s (ActiveFromInfos_push_back x t) = uses_up b s t" and "uses_up b s (ActiveFromInfos_erase p d t) = uses_up b s t"
  by (simp_all add: ActiveFromInfos_push_back_def ActiveFromInfos_erase_def erase_expired_def Let_def)

lemma uses_up_push_remapped: "uses_up False s (push_remapped k b di d s)"
  by (simp add: push_remapped_def Let_def uses_up_enqueue)

text \<open>The keys found in the queue are events that may be part of a combination.\<close>

lemma mark_down_places:
  "mark_down es p n ds = Some ds' \<Longrightarrow> length ds' = length ds \<and> (\<forall>m. Some m \<in> set ds' \<longrightarrow> m = n \<or> Some m \<in> set ds)"
proof (induction es p n ds arbitrary: ds' rule: mark_down.induct)
  case (1 e es p n d ds)
  then show ?case by (auto split: if_splits)
qed auto

lemma all_keys_down_True: "all_keys_down strict b ds = Some True \<Longrightarrow> b \<and> None \<notin> set ds"
  by (induction strict b ds rule: all_keys_down.induct) (auto split: if_splits)

lemma scan_queue_places:
  assumes "scan_queue es strict (length xs) q ds = Some ns"
    and "\<forall>m. Some m \<in> set ds \<longrightarrow> m < length xs \<and> ii_simultaneous (xs ! m)"
  shows "length ns = length ds \<and> (\<forall>m \<in> set ns. m < length (xs @ q) \<and> ii_simultaneous ((xs @ q) ! m))"
  using assms
proof (induction q arbitrary: xs ds)
  case (Cons front rest)
  have more: "\<forall>m. Some m \<in> set ds' \<longrightarrow> m < length (xs @ [front]) \<and> ii_simultaneous ((xs @ [front]) ! m)"
    if "\<forall>m. Some m \<in> set ds' \<longrightarrow> m = length xs \<and> ii_simultaneous front \<or> Some m \<in> set ds" for ds'
    using that Cons.prems(2) by (fastforce simp: nth_append)
  show ?case
  proof (cases "ii_simultaneous front")
    case False
    then show ?thesis using Cons.IH [of "xs @ [front]" ds] Cons.prems more [of ds] by simp
  next
    case True
    then obtain ds' where ds': "mark_down es (ii_params front) (length xs) ds = Some ds'"
      using Cons.prems(1) by (auto split: option.splits)
    note places = mark_down_places [OF ds']
    from places True more [of ds'] have m: "\<forall>m. Some m \<in> set ds' \<longrightarrow> m < length (xs @ [front]) \<and> ii_simultaneous ((xs @ [front]) ! m)"
      by auto
    show ?thesis
    proof (cases "all_keys_down strict True ds' = Some True")
      case all: True
      then have ns: "ns = map the ds'" using Cons.prems(1) True ds' by simp
      have "\<forall>d \<in> set ds'. \<exists>m. d = Some m" using all_keys_down_True [OF all] by (metis option.exhaust)
      then show ?thesis using ns m places by (fastforce simp: nth_append)
    next
      case other: False
      then have "scan_queue es strict (length (xs @ [front])) rest ds' = Some ns"
        using Cons.prems(1) True ds' by (auto split: option.splits bool.splits)
      from Cons.IH [OF this m] places show ?thesis by simp
    qed
  qed
qed simp

lemma filter_erase_at:
  "length (filter P (erase_at n xs)) \<le> length (filter P xs)"
  "n < length xs \<Longrightarrow> P (xs ! n) \<Longrightarrow> length (filter P (erase_at n xs)) < length (filter P xs)"
proof -
  have t: "filter P xs = filter P (take n xs) @ filter P (drop n xs)" by (metis append_take_drop_id filter_append)
  have "length (filter P (drop (n + 1) xs)) \<le> length (filter P (drop n xs))"
    by (cases "n < length xs") (simp_all add: Cons_nth_drop_Suc [symmetric])
  with t show "length (filter P (erase_at n xs)) \<le> length (filter P xs)" by (simp add: erase_at_def)
  show "length (filter P (erase_at n xs)) < length (filter P xs)" if "n < length xs" "P (xs ! n)"
    using t that by (simp add: erase_at_def Cons_nth_drop_Suc [symmetric])
qed

lemma take_down_step:
  fixes s :: "'a FuncState_scheme"
  assumes "s2 = (if raw then enqueue p False di d False False (ActiveFromInfos_push_back x s) else ActiveFromInfos_push_back x s)"
    and "new = length (in_queue s2) - length (in_queue s)"
  shows "uses_up (n < length (in_queue s) \<and> ii_simultaneous (in_queue s ! n)) s
    (s2\<lparr>in_queue := erase_at (n + new) (in_queue s2)\<rparr>)"
proof -
  have q: "in_queue (ActiveFromInfos_push_back x s) = in_queue s"
    by (simp add: ActiveFromInfos_push_back_def erase_expired_def Let_def)
  have s2: "uses_up False s s2"
    using uses_up_enqueue [of "ActiveFromInfos_push_back x s" p False di d False] uses_up_trans [of False s "ActiveFromInfos_push_back x s" False]
    by (auto simp: assms(1))
  obtain item where "in_queue s2 = in_queue s \<and> new = 0 \<or> in_queue s2 = item # in_queue s \<and> new = 1"
    using assms q by (auto simp: enqueue_def Let_def split: if_splits)
  then have at: "n < length (in_queue s) \<Longrightarrow> n + new < length (in_queue s2) \<and> in_queue s2 ! (n + new) = in_queue s ! n"
    by auto
  have "uses_up (n < length (in_queue s) \<and> ii_simultaneous (in_queue s ! n)) s2
      (s2\<lparr>in_queue := erase_at (n + new) (in_queue s2)\<rparr>)"
    using at filter_erase_at(1) [of ii_simultaneous] filter_erase_at(2) [of "n + new" "in_queue s2" ii_simultaneous]
    by (intro uses_up_queue) (auto simp: targets_def)
  from uses_up_trans [OF s2 this] show ?thesis by simp
qed

lemma take_down_keys_uses_up:
  fixes s :: "'a FuncState_scheme"
  shows "uses_up (case ins of [] \<Rightarrow> False | (i, n) # _ \<Rightarrow> n < length (in_queue s) \<and> ii_simultaneous (in_queue s ! n)) s
    (take_down_keys this raw di d ins s)"
proof (induction this raw di d ins s rule: take_down_keys.induct)
  case (2 this raw di d i n ins s)
  define s2 where "s2 = (let item = in_queue s ! n;
      s = ActiveFromInfos_push_back \<lparr>af_fromInfo = (this, i), af_device = ii_device item, af_frontDeviceIdentifier = di,
            af_frontDevice = d, af_serialNumber = oq_serialNumber s\<rparr> s
      in if raw then enqueue (ii_params item) False di d False False s else s)"
  define new where "new = length (in_queue s2) - length (in_queue s)"
  let ?v = "s2\<lparr>in_queue := erase_at (n + new) (in_queue s2)\<rparr>"
  let ?ins = "map (\<lambda>(j, m). (j, m + new - (if m > n then 1 else 0))) ins"
  have q: "in_queue (ActiveFromInfos_push_back x s) = in_queue s" for x
    by (simp add: ActiveFromInfos_push_back_def erase_expired_def Let_def)
  have t: "take_down_keys this raw di d ((i, n) # ins) s = take_down_keys this raw di d ?ins ?v"
    by (simp add: s2_def new_def Let_def q)
  have "uses_up False ?v (take_down_keys this raw di d ?ins ?v)"
    by (rule uses_up_weaken [OF 2]) (simp_all add: s2_def new_def Let_def q)
  from uses_up_trans [OF take_down_step [OF s2_def [unfolded Let_def] new_def] this]
  show ?case unfolding t by simp
qed simp

lemma remapSimultaneousKeyPresses_uses_up:
  fixes s :: "'a FuncState_scheme"
  assumes "remapSimultaneousKeyPresses this k s = (result, t)"
  shows "uses_up (result \<noteq> NOT_CHANGED) s t"
proof (cases "in_queue s")
  case (Cons front rest)
  show ?thesis
  proof (cases "ii_simultaneous front")
    case sim: True
    have up: "uses_up True s t" if "simultaneous_keyup this k front i a s = (result, t)" for i a
    proof -
      let ?q = "if si_isPostFromEventsAsRaw k then front\<lparr>ii_simultaneous := False\<rparr> # rest else rest"
      have "uses_up True s (s\<lparr>in_queue := ?q\<rparr>)"
        by (rule uses_up_queue) (use Cons sim in \<open>auto simp: targets_def\<close>)
      then have u: "uses_up True s (ActiveFromInfos_erase (this, i) (ii_device front) (s\<lparr>in_queue := ?q\<rparr>))" by simp
      show ?thesis
        using that uses_up_trans [OF u uses_up_push_remapped] u Cons
        by (auto simp: simultaneous_keyup_def Let_def split: if_splits)
    qed
    have down: "uses_up (result \<noteq> NOT_CHANGED) s t" if d: "simultaneous_keydown this k front s = (result, t)"
    proof (cases "result = NOT_CHANGED")
      case True
      with d show ?thesis by (auto simp: simultaneous_keydown_def Let_def split: if_splits option.splits)
    next
      case False
      let ?es = "si_fromInfo k"
      from d False obtain ns where ns: "scan_queue ?es (si_isStrictKeyOrder k) 0 (in_queue s) (replicate (length ?es) None) = Some ns"
        and es: "list_ex (\<lambda>e. isTargetDownEvent e (ii_params front)) ?es"
        and t: "t = push_remapped k True (ii_identifier front) (ii_device front)
          (take_down_keys this (si_isPostFromEventsAsRaw k) (ii_identifier front) (ii_device front) (rev (zip [0..<length ?es] ns)) s)"
        by (auto simp: simultaneous_keydown_def Let_def simp del: list_ex_iff split: if_splits option.splits)
      from scan_queue_places [of ?es "si_isStrictKeyOrder k" "[]" "in_queue s"] ns
      have places: "length ns = length ?es" "\<forall>m \<in> set ns. m < length (in_queue s) \<and> ii_simultaneous (in_queue s ! m)"
        by auto
      then have "rev (zip [0..<length ?es] ns) \<noteq> []" using es by (cases ?es) auto
      then obtain i n ins where r: "rev (zip [0..<length ?es] ns) = (i, n) # ins" by (metis list.exhaust surj_pair)
      have "n \<in> set ns" using set_zip_rightD [of i n "[0..<length ?es]" ns] arg_cong [OF r, of set] by auto
      with take_down_keys_uses_up [where ins = "rev (zip [0..<length ?es] ns)" and s = s] places(2)
      have "uses_up True s (take_down_keys this (si_isPostFromEventsAsRaw k) (ii_identifier front) (ii_device front)
          (rev (zip [0..<length ?es] ns)) s)" by (auto simp: r intro: uses_up_weaken)
      from uses_up_trans [OF this uses_up_push_remapped] show ?thesis by (simp add: t False)
    qed
    show ?thesis
      using assms Cons sim up down
      by (auto simp: remapSimultaneousKeyPresses_def split: option.splits intro: uses_up_weaken)
  qed (use assms Cons in \<open>simp add: remapSimultaneousKeyPresses_def\<close>)
qed (use assms in \<open>simp add: remapSimultaneousKeyPresses_def\<close>)

lemma Item_simultaneous_uses_up:
  fixes s :: "'a ClassState_scheme"
  assumes "Item_remap_SimultaneousKeyPresses p item pass down s = (b, t)"
  shows "uses_up b s t"
proof (cases "it_processor item")
  case (Some processor)
  have a: "uses_up c s (ActiveItems_push_back p x u)" "uses_up c s (ActiveItems_erase p x u)"
    if "uses_up c s u" for c x and u :: "'a ClassState_scheme"
    using that by (simp_all add: ActiveItems_push_back_def ActiveItems_erase_def uses_up_def in_frame_def fire_ok_def targets_def)
  obtain result u where r: "RemapFunc_remapSimultaneousKeyPresses processor s = (result, u)" by fastforce
  then have u: "uses_up (result \<noteq> NOT_CHANGED) s u"
    by (auto simp: RemapFunc_remapSimultaneousKeyPresses_def intro: remapSimultaneousKeyPresses_uses_up split: RemapFunc.splits)
  show ?thesis
    using assms u a by (auto simp: Item_remap_SimultaneousKeyPresses_def Some r Let_def split: if_splits)
qed (use assms in \<open>simp add: Item_remap_SimultaneousKeyPresses_def\<close>)

lemma simultaneous_items_uses_up:
  fixes s :: "'a ClassState_scheme"
  shows "simultaneous_items items pass down s = (b, t) \<Longrightarrow> uses_up b s t"
proof (induction items arbitrary: s b t)
  case (Cons x items)
  obtain p item where x: "x = (p, item)" by fastforce
  obtain c u where u: "Item_remap_SimultaneousKeyPresses p item pass down s = (c, u)" by fastforce
  obtain d v where v: "simultaneous_items items pass down u = (d, v)" by fastforce
  show ?case
    using Cons.prems uses_up_trans [OF Item_simultaneous_uses_up [OF u] Cons.IH [OF v]] by (simp add: x u v)
qed simp

lemma manager_simultaneous_uses_up:
  fixes s :: "'a ClassState_scheme"
  assumes "manager_remap_simultaneouskeypresses down s = (b, t)"
  shows "uses_up b s t"
proof -
  have "simultaneous_classes ps pass down s = (b, t) \<Longrightarrow> uses_up b s t" for ps pass b and s t :: "'a ClassState_scheme"
  proof (induction ps arbitrary: s b t)
    case (Cons p ps)
    obtain c u where u: "RemapClass_remap_simultaneouskeypresses p pass down s = (c, u)" by fastforce
    obtain d v where v: "simultaneous_classes ps pass down u = (d, v)" by fastforce
    have "uses_up c s u" using u by (simp add: RemapClass_remap_simultaneouskeypresses_def simultaneous_items_uses_up)
    from uses_up_trans [OF this Cons.IH [OF v]] show ?case using Cons.prems by (simp add: u v)
  qed simp
  then show ?thesis using assms by (simp add: manager_remap_simultaneouskeypresses_def)
qed

section \<open>The contract\<close>

lemma forcenumlockon_frames:
  fixes s :: "'a ClassState_scheme"
  shows "in_frame s (manager_remap_forcenumlockon i s)"
proof -
  have item: "in_frame s (Item_remap_forcenumlockon p it pass i t)" if "in_frame s t" for p it pass and t :: "'a ClassState_scheme"
    using that by (auto simp: Item_remap_forcenumlockon_def RemapFunc_remapForceNumLockOn_def ForceNumLockOn_remapForceNumLockOn_def
        Let_def in_frame_def fire_ok_def split: option.split RemapFunc.split)
  have "in_frame s t \<Longrightarrow> in_frame s (fold (\<lambda>it. Item_remap_forcenumlockon p it pass i) items t)" for p items pass and t :: "'a ClassState_scheme"
    by (induction items arbitrary: t) (auto intro: item)
  then have "in_frame s t \<Longrightarrow> in_frame s (fold (\<lambda>p. RemapClass_remap_forcenumlockon p pass i) ps t)" for ps pass and t :: "'a ClassState_scheme"
    by (induction ps arbitrary: t) (auto simp: RemapClass_remap_forcenumlockon_def)
  then show ?thesis by (simp add: manager_remap_forcenumlockon_def)
qed

interpretation manager: remapper "manager :: ('a ClassState_scheme) Remapper"
proof unfold_locales
  fix p and s :: "'a ClassState_scheme"
  assume "fire_ok s"
  note p = manager_prepare_returns [OF this, of p] and r = manager_remap_returns [OF this, of p]
  from p r show "\<exists>q t. rm_prepare manager p s = Some (q, t) \<and> in_frame s t" "\<exists>q t. rm_remap manager p s = Some (q, t) \<and> in_frame s t"
    by (auto simp: manager_def mev_def dest!: returnsE)
next
  fix i d and s :: "'a ClassState_scheme"
  show "in_frame s (rm_cancelScroll manager s)" "in_frame s (rm_clear manager s)"
    by (simp_all add: manager_def cancelScroll_def ActiveItems_clear_def ActiveFromInfos_clear_def in_frame_def fire_ok_def)
  show "in_frame s (rm_forcenumlockon manager i s)" by (simp add: manager_def forcenumlockon_frames)
  obtain b t where "manager_remap_simultaneouskeypresses d s = (b, t)" by fastforce
  with manager_simultaneous_uses_up [OF this]
  show "in_frame (s\<lparr>in_queue := in_queue (snd (rm_simultaneouskeypresses manager d s))\<rparr>) (snd (rm_simultaneouskeypresses manager d s))"
    "fst (rm_simultaneouskeypresses manager d s) \<Longrightarrow> targets (snd (rm_simultaneouskeypresses manager d s)) < targets s"
    by (simp_all add: manager_def uses_up_def)
qed

end
