(* ===== verification/LoadFrame.thy ===== *)
theory LoadFrame
  imports RemapFrame
begin

text \<open>
  What making and deleting the objects of the remap classes leaves alone. The locale \<open>construction\<close> states it
  for any part \<open>K\<close> of the state that does not depend on the members of the objects; one interpretation
  shows that loading and deleting the remap classes leaves the input queue and its timers alone.
\<close>

section \<open>Objects\<close>

locale construction =
  fixes K :: "'a FuncState_scheme \<Rightarrow> 'k"
  assumes K_base: "K (v\<lparr>rf_live := x1\<rparr>) = K v" "K (v\<lparr>pf_list := x2\<rparr>) = K v" "K (v\<lparr>ew_list := x3\<rparr>) = K v"
    and K_key: "K (v\<lparr>kt_objects := y1\<rparr>) = K v" "K (v\<lparr>kt_timer := y2\<rparr>) = K v" "K (v\<lparr>kt_target := y3\<rparr>) = K v"
    and K_func: "K (v\<lparr>rf_next := z1\<rparr>) = K v" "K (v\<lparr>rf_func := z2\<rparr>) = K v" "K (v\<lparr>rf_autogenId := z3\<rparr>) = K v"
      "K (v\<lparr>rf_ignorePassThrough := z4\<rparr>) = K v" "K (v\<lparr>af_list := z5\<rparr>) = K v"
    and K_depending: "K (v\<lparr>dp_objects := w1\<rparr>) = K v" "K (v\<lparr>dp_timer := w2\<rparr>) = K v" "K (v\<lparr>dp_target := w3\<rparr>) = K v"
begin

lemmas K_updates = K_base K_key K_func K_depending

lemma object_kept [simp]:
  "K (update_object p f v) = K v" "K (update_func p g v) = K v" "K (update_depending p h v) = K v"
  "K (RemapFunc_construct p g a v) = K v" "K (KeyToKey_construct p a v) = K v" "K (Target_new p v) = K v"
  by (simp_all add: K_updates update_object_def update_func_def update_depending_def RemapFunc_construct_def
      KeyToKey_construct_def RemapFuncBase_new_def Target_new_def)

lemma add_kept [simp]:
  "K (KeyToKey_add_to p d n v) = K v" "K (KeyToKey_add_key p k v) = K v" "K (erase_expired v) = K v"
  by (simp_all add: K_updates KeyToKey_add_to_def KeyToKey_add_key_def erase_expired_def)

lemma fold_kept:
  assumes "\<And>x v. K (f x v) = K v"
  shows "K (fold f xs v) = K v"
  by (induction xs arbitrary: v) (simp_all add: assms)

lemma depending_kept [simp]:
  "K (Depending_construct p a v) = K v" "K (setFromEvent p e v) = K v" "K (addFromModifierFlags p d n v) = K v"
  "K (Depending_add p ty d n v) = K v" "K (addBeforeAfterKeys p d n v) = K v" "K (setPeriodMS p m v) = K v"
  "K (overwritePeriodMS p m ms n v) = K v" "K (Depending_clearToKeys p ty v) = K v"
  by (simp_all add: Depending_construct_def setFromEvent_def addFromModifierFlags_def Depending_add_def addBeforeAfterKeys_def
      setPeriodMS_def overwritePeriodMS_def Depending_clearToKeys_def Let_def fold_kept K_updates)

lemma addTo_kept [simp]:
  "K (HoldingKeyToKey_addTo i p d n v) = K v" "K (KeyOverlaidModifier_addTo j p d n v) = K v"
  "K (KeyOverlaidModifier_add_option p k d n v) = K v"
  by (simp_all add: HoldingKeyToKey_addTo_def KeyOverlaidModifier_addTo_def KeyOverlaidModifier_add_option_def Let_def
      split: HoldingIndex.split OverlaidIndex.split)

lemma RemapFunc_add_kept [simp]: "K (RemapFunc_add p d n v) = K v"
proof -
  have "K (HoldingKeyToKey_add p h d n w) = K w" "K (KeyOverlaidModifier_add p k d n w) = K w" for h k d n w
    by (simp_all add: HoldingKeyToKey_add_def KeyOverlaidModifier_add_def Let_def split del: if_split split: HoldingIndex.split OverlaidIndex.split if_split)
  moreover have "K (KeyDownUpToKey_add p k d n w) = K w"
    "K (DoublePressModifier_add p dm d n w) = K w" "K (PointingRelativeToKey_add p pk d n w) = K w"
    "K (PointingRelativeToScroll_add p pr d n w) = K w" "K (ScrollWheelToKey_add p sk d n w) = K w"
    "K (SimultaneousKeyPresses_add p si d n w) = K w"
    for k dm pk pr sk si d n w
    by (simp_all add: KeyDownUpToKey_add_def DoublePressModifier_add_def DoublePressModifier_addTo_def PointingRelativeToKey_add_def
        PointingRelativeToScroll_add_def ScrollWheelToKey_add_def SimultaneousKeyPresses_add_def SimultaneousKeyPresses_add_event_def
        Let_def case_prod_unfold fold_kept split: DownUpIndex.split ScrollIndex.split option.split)
  ultimately show ?thesis by (simp add: RemapFunc_add_def split: RemapFunc.split)
qed

lemma RemapFunc_new_kept: "RemapFunc_new type p a v = Some w \<Longrightarrow> K w = K v"
  by (auto simp: RemapFunc_new_def HoldingKeyToKey_new_def KeyOverlaidModifier_new_def KeyDownUpToKey_new_def DoublePressModifier_new_def
      IgnoreMultipleSameKeyPress_new_def DropAllKeys_new_def DropKeyAfterRemap_new_def DropPointingRelativeCursorMove_new_def
      DropScrollWheel_new_def FlipPointingRelative_new_def FlipScrollWheel_new_def ForceNumLockOn_new_def PointingRelativeToKey_new_def
      PointingRelativeToScroll_new_def SimultaneousKeyPresses_new_def SetKeyboardType_new_def ScrollWheelToScrollWheel_new_def
      ScrollWheelToKey_new_def BlockUntilKeyUp_new_def Let_def fold_kept split: if_splits)

lemma create_kept [simp]: "K (snd (RemapFuncFactory_create vec a v)) = K v"
proof -
  have "K (add_data p x w) = K w" for p x w
    by (simp add: add_data_def case_prod_unfold K_updates)
  then show ?thesis
    by (auto simp: RemapFuncFactory_create_def Let_def fold_kept K_updates split: list.split option.split dest: RemapFunc_new_kept)
qed

lemma delete_kept [simp]: "K (RemapFunc_delete p v) = K v"
proof -
  have k: "K (KeyToKey_delete q w) = K w" "K (PressingFromEvents_erase_all q w) = K w" "K (Target_delete q w) = K w"
    "K (ActiveFromInfos_erase_all x w) = K w" "K (RemapFuncBase_delete q w) = K w" for q x w
    by (simp_all add: K_updates KeyToKey_delete_def PressingFromEvents_erase_all_def Target_delete_def
        ActiveFromInfos_erase_all_def erase_expired_def RemapFuncBase_delete_def Let_def)
  have d: "K (Depending_delete q w) = K w" for q w
    by (simp add: Depending_delete_def Let_def k fold_kept K_updates)
  show ?thesis
    by (simp add: RemapFunc_delete_def RemapFunc_delete_members_def k d fold_kept split: RemapFunc.split)
qed

end

interpretation in_queue: construction "in_frame u" for u
  by unfold_locales (simp_all add: in_frame_def fire_ok_def)

lemma fold_frame:
  fixes u v :: "'a InState_scheme"
  assumes "\<And>x v. in_frame u (f x v) = in_frame u v"
  shows "in_frame u (fold f xs v) = in_frame u v"
  by (induction xs arbitrary: v) (simp_all add: assms)

section \<open>Classes\<close>

lemma class_updates [simp]:
  fixes u v :: "'a ClassState_scheme"
  shows "in_frame u (v\<lparr>rc_next := x1\<rparr>) = in_frame u v" and "in_frame u (v\<lparr>rc_items := x2\<rparr>) = in_frame u v"
    and "in_frame u (v\<lparr>rc_statusmessage := x3\<rparr>) = in_frame u v" and "in_frame u (v\<lparr>rc_simultaneous := x4\<rparr>) = in_frame u v"
    and "in_frame u (v\<lparr>rc_allocation_count := x5\<rparr>) = in_frame u v" and "in_frame u (v\<lparr>ai_list := x6\<rparr>) = in_frame u v"
    and "in_frame u (v\<lparr>mg_enabled_remapclasses := x7\<rparr>) = in_frame u v" and "in_frame u (v\<lparr>mg_remapclasses := x8\<rparr>) = in_frame u v"
    and "in_frame u (v\<lparr>cs_names := x9\<rparr>) = in_frame u v" and "in_frame u (v\<lparr>vk_remapclass := x10\<rparr>) = in_frame u v"
    and "in_frame u (v\<lparr>pt_list := x11\<rparr>) = in_frame u v"
  by (simp_all add: in_frame_def fire_ok_def)

lemma register_frames [simp]:
  fixes u v :: "'a ClassState_scheme"
  shows "in_frame u (registerVirtualModifier p v) = in_frame u v" and "in_frame u (clearVirtualModifiers v) = in_frame u v"
    and "in_frame u (VK_CONFIG_add_item r a b c d v) = in_frame u v" and "in_frame u (VK_CONFIG_clear_items v) = in_frame u v"
    and "in_frame u (VK_DEFINED_IN_USERSPACE_add_item r a b v) = in_frame u v"
    and "in_frame u (VK_DEFINED_IN_USERSPACE_clear_items v) = in_frame u v"
  by (simp_all add: in_frame_def fire_ok_def registerVirtualModifier_def clearVirtualModifiers_def FlagStatus_initialize_def
      VK_CONFIG_add_item_def VK_CONFIG_clear_items_def VK_DEFINED_IN_USERSPACE_add_item_def VK_DEFINED_IN_USERSPACE_clear_items_def)

lemma entry_frame [simp]:
  fixes u v :: "'a ClassState_scheme"
  shows "in_frame u (snd (RemapClass_entry this entry memory v)) = in_frame u v"
  by (simp add: RemapClass_entry_def RemapClassItem_new_def update_items_def Let_def case_prod_unfold)

lemma entries_frame [simp]:
  fixes u v :: "'a ClassState_scheme"
  shows "in_frame u (RemapClass_entries this beyond ws v) = in_frame u v"
proof (induction this beyond ws v rule: RemapClass_entries.induct)
  case (2 this beyond sz ws s)
  obtain b t where t: "RemapClass_entry this (take (unat sz) ws) (ws @ beyond) s = (b, t)" by fastforce
  with entry_frame [of u this "take (unat sz) ws" "ws @ beyond" s] have "in_frame u t = in_frame u s" by simp
  with 2 t show ?case by simp
qed simp

lemma class_frames [simp]:
  fixes u v :: "'a ClassState_scheme"
  shows "in_frame u (snd (RemapClass_new vec n i v)) = in_frame u v" and "in_frame u (delete_class p v) = in_frame u v"
    and "in_frame u (clear_remapclasses v) = in_frame u v"
proof -
  show "in_frame u (snd (RemapClass_new vec n i v)) = in_frame u v"
    by (simp add: RemapClass_new_def Let_def split: option.split)
  have "in_frame u (RemapClassItem_delete q it w) = in_frame u w" for q it and w :: "'a ClassState_scheme"
    by (simp add: RemapClassItem_delete_def ActiveItems_erase_all_def Let_def split: option.split)
  then have d: "in_frame u (delete_class q w) = in_frame u w" for q and w :: "'a ClassState_scheme"
    by (simp add: delete_class_def RemapClass_delete_def fold_frame case_prod_unfold split: option.split)
  show "in_frame u (delete_class p v) = in_frame u v" by (rule d)
  show "in_frame u (clear_remapclasses v) = in_frame u v"
    by (simp add: clear_remapclasses_def Let_def fold_frame d)
qed

lemma load_frame:
  fixes u v :: "'a ClassState_scheme"
  shows "in_frame u (snd (load_remapclasses_initialize_vector vec n v)) = in_frame u v"
proof -
  have "in_frame u (snd (load_classes m ws w)) = in_frame u w" for m ws and w :: "'a ClassState_scheme"
    by (induction m ws w rule: load_classes.induct) (simp_all add: Let_def case_prod_unfold)
  then show ?thesis
    by (simp add: load_remapclasses_initialize_vector_def reset_allocation_count_def Let_def case_prod_unfold)
qed

end
