(* ===== verification/Extension.thy ===== *)
theory Extension
  imports ManagerLive LoadFrame
begin

text \<open>
  The extension as a whole: its timers, the calls of the devices and the configuration calls of user
  space, on the state that they share. The output queue cancels with the remap classes and delivers to
  the hooked devices; the input queue is linked with the manager of the remap classes.
\<close>

section \<open>Delivering an event\<close>

definition deliver_event :: "Params \<Rightarrow> 'a DeviceState_scheme \<Rightarrow> 'a DeviceState_scheme" where
  "deliver_event p s =
     (case p of
        P_Keyboard params \<Rightarrow>
          let (handled, s) = VirtualKey_handleAfterEnqueued params s
          in if handled then s else ListHookedKeyboard_apply params s
      | P_Special params \<Rightarrow>
          let (applied, s) = ListHookedConsumer_apply params s
          in if applied then s else VK_IOHIDPOSTEVENT_post params s
      | P_RelativePointer params \<Rightarrow> ListHookedPointing_apply params s
      | P_ScrollWheel params \<Rightarrow> ListHookedPointing_apply_scroll params s
      | _ \<Rightarrow> s)"

text \<open>It changes neither the queues nor their timers, nor the actions of the devices.\<close>

definition device_frame :: "'a DeviceState_scheme \<Rightarrow> 'a DeviceState_scheme \<Rightarrow> bool" where
  "device_frame s t =
     (DeviceState.more t = DeviceState.more s \<and> oq_queue t = oq_queue s \<and> oq_timer t = oq_timer s \<and>
      vj_newkeycode t = vj_newkeycode s \<and> dv_slots t = dv_slots s \<and> dv_devices t = dv_devices s \<and>
      dv_initialized t = dv_initialized s \<and>
      (\<forall>k. map item_hook (dl_list (dv_lists t k)) = map item_hook (dl_list (dv_lists s k))))"

lemma device_frame_trans: "device_frame s t \<Longrightarrow> device_frame t u \<Longrightarrow> device_frame s u"
  by (simp add: device_frame_def)

lemma call_original_frame: "device_frame s (call_original slot p item s)"
  by (auto simp: call_original_def device_frame_def split: prod.split option.split)

lemma replaced_frame:
  assumes "\<And>item s. device_frame s (f item s)"
  shows "device_frame s (snd (with_replaced k f s))"
proof -
  have "device_frame s (snd (DeviceList_get_replaced k s))"
    by (auto simp: DeviceList_get_replaced_def DeviceList_get_def set_list_def device_frame_def Let_def
        split: option.split list.split prod.split)
  then show ?thesis
    using assms by (auto simp: with_replaced_def split: prod.split option.split intro: device_frame_trans)
qed

lemma after_enqueued_notifies:
  "\<exists>n. snd (VirtualKey_handleAfterEnqueued k s) = s\<lparr>cs_notifications := n\<rparr>"
proof -
  have loop: "\<exists>n. snd (VK_DEFINED_IN_USERSPACE_loop items k s) = s\<lparr>cs_notifications := n\<rparr>" for items
    by (induction items) (auto simp: send_notification_to_userspace_def intro: exI [of _ "cs_notifications s"])
  have post: "\<exists>n. snd (VK_IOHIDPOSTEVENT_handleAfterEnqueued k (s\<lparr>cs_notifications := m\<rparr>)) = s\<lparr>cs_notifications := n\<rparr>" for m
    by (auto simp: VK_IOHIDPOSTEVENT_handleAfterEnqueued_def send_notification_to_userspace_def split: option.split)
  show ?thesis
    using loop [of "vu_items s"] post
    by (auto simp: VirtualKey_handleAfterEnqueued_def VK_DEFINED_IN_USERSPACE_handleAfterEnqueued_def
        split: prod.split bool.split) (metis snd_conv)+
qed

lemma deliver_frame: "device_frame s (deliver_event p s)"
proof -
  have keyboard: "device_frame s (Keyboard_Item_apply k item s)" for k item and s :: "'a DeviceState_scheme"
  proof -
    have u: "device_frame s (t\<lparr>dv_capslock_timer := x\<rparr>) = device_frame s t" for x and t :: "'a DeviceState_scheme"
      by (simp add: device_frame_def)
    have r: "device_frame s s" by (simp add: device_frame_def)
    show ?thesis
      by (auto simp: Keyboard_Item_apply_def Let_def u r split: prod.split option.split
          intro: device_frame_trans [OF _ call_original_frame] call_original_frame)
  qed
  have pointing: "device_frame s (fold (\<lambda>item s. if isReplaced k item then call_original slot q item s else s) items s)"
    for k slot q items and s :: "'a DeviceState_scheme"
  proof (induction items arbitrary: s)
    case (Cons i items)
    then show ?case by (auto intro: device_frame_trans [OF call_original_frame])
  qed (simp add: device_frame_def)
  have after: "device_frame s (snd (VirtualKey_handleAfterEnqueued k s))" for k
  proof -
    obtain n where "snd (VirtualKey_handleAfterEnqueued k s) = s\<lparr>cs_notifications := n\<rparr>"
      using after_enqueued_notifies [of k s] by blast
    then show ?thesis by (simp add: device_frame_def)
  qed
  have post: "device_frame s (VK_IOHIDPOSTEVENT_post q t) = device_frame s t" for q and s t :: "'a DeviceState_scheme"
    by (auto simp: VK_IOHIDPOSTEVENT_post_def device_frame_def send_notification_to_userspace_def split: option.split)
  have refl: "device_frame s s" for s :: "'a DeviceState_scheme" by (simp add: device_frame_def)
  have keyboards: "device_frame s (ListHookedKeyboard_apply k t)" if "device_frame s t" for k and t :: "'a DeviceState_scheme"
    unfolding ListHookedKeyboard_apply_def by (rule device_frame_trans [OF that]) (rule replaced_frame, rule keyboard)
  have consumers: "device_frame s (snd (ListHookedConsumer_apply k s))" for k
    unfolding ListHookedConsumer_apply_def by (rule replaced_frame) (simp add: refl call_original_frame)
  show ?thesis
    by (cases p) (auto simp: deliver_event_def post refl case_prod_unfold Let_def
        ListHookedPointing_apply_def ListHookedPointing_apply_scroll_def
        intro!: keyboards consumers after replaced_frame call_original_frame pointing)
qed

section \<open>Cancelling output events\<close>

text \<open>What the remap classes do to the output queue: they mark events, and change nothing the queues rest on.\<close>

definition cancel_frame :: "'a FuncState_scheme \<Rightarrow> 'a FuncState_scheme \<Rightarrow> bool" where
  "cancel_frame s t =
     (in_frame s t \<and> oq_timer t = oq_timer s \<and>
      map (\<lambda>i. i\<lparr>oi_canceled := False\<rparr>) (oq_queue t) = map (\<lambda>i. i\<lparr>oi_canceled := False\<rparr>) (oq_queue s))"

lemma cancel_frame_refl [simp]: "cancel_frame s s"
  by (simp add: cancel_frame_def)

lemma cancel_frame_trans: "cancel_frame s t \<Longrightarrow> cancel_frame t u \<Longrightarrow> cancel_frame s u"
  by (auto simp: cancel_frame_def intro: in_frame_trans)

lemma cancel_frame_func [simp]: "cancel_frame s (update_func p f t) = cancel_frame s t"
  by (simp add: cancel_frame_def update_func_def in_frame_def fire_ok_def)

lemma cancel_one:
  fixes s :: "'a FuncState_scheme"
  assumes "RemapFunc_cancelEventOutputQueueItems p item s = (item', t)"
  shows "item'\<lparr>oi_canceled := False\<rparr> = item\<lparr>oi_canceled := False\<rparr> \<and> cancel_frame s t \<and> oq_queue t = oq_queue s"
proof -
  have drop: "(fst (DropAllKeys_dropKey i d))\<lparr>oi_canceled := False\<rparr> = i\<lparr>oi_canceled := False\<rparr>" for i d
    by (auto simp: DropAllKeys_dropKey_def OutItem_cancel_def Let_def split: option.split bool.split)
  then have all: "(fst (DropAllKeys_cancelEventOutputQueueItems ps a i d))\<lparr>oi_canceled := False\<rparr> = i\<lparr>oi_canceled := False\<rparr>"
    for ps a i d
    by (auto simp: DropAllKeys_cancelEventOutputQueueItems_def OutItem_cancel_def Let_def split: Params.split)
  have one: "(fst (DropKeyAfterRemap_cancelEventOutputQueueItems i d))\<lparr>oi_canceled := False\<rparr> = i\<lparr>oi_canceled := False\<rparr>" for i d
    by (auto simp: DropKeyAfterRemap_cancelEventOutputQueueItems_def OutItem_cancel_def Let_def split: Params.split option.split)
  have q: "oq_queue (update_func p f s) = oq_queue s" for f by (simp add: update_func_def)
  show ?thesis
    using assms all one q
    by (auto simp: RemapFunc_cancelEventOutputQueueItems_def case_prod_unfold Let_def split: RemapFunc.splits)
qed

lemma cancel_items_frame:
  fixes s :: "'a ClassState_scheme"
  assumes "cancel_items parent item processor ps s = (qs, t)"
  shows "map (\<lambda>i. i\<lparr>oi_canceled := False\<rparr>) qs = map (\<lambda>i. i\<lparr>oi_canceled := False\<rparr>) ps \<and> cancel_frame s t \<and> oq_queue t = oq_queue s"
  using assms
proof (induction ps arbitrary: qs s t)
  case (Cons p ps)
  define skip where "skip = (if iskeydown (oi_params p) \<noteq> Some False \<and> \<not> isRepeat (oi_params p)
    then \<not> rc_enabled (vk_remapclass s parent) \<or> Item_isblocked item s else Item_isblocked_keyup item s)"
  obtain p' u where u: "(if skip then (p, s) else RemapFunc_cancelEventOutputQueueItems processor p s) = (p', u)" by fastforce
  obtain ps' v where v: "cancel_items parent item processor ps u = (ps', v)" by fastforce
  have "p'\<lparr>oi_canceled := False\<rparr> = p\<lparr>oi_canceled := False\<rparr>" "cancel_frame s u" "oq_queue u = oq_queue s"
    using u cancel_one [of processor p s p' u] by (auto split: if_splits)
  moreover have "qs = p' # ps'" "t = v"
    using Cons.prems u v by (simp_all add: Let_def skip_def [symmetric])
  ultimately show ?case using Cons.IH [OF v] by (auto intro: cancel_frame_trans)
qed simp

lemma manager_cancel_frame:
  fixes s :: "'a ClassState_scheme"
  shows "cancel_frame s (manager_cancelEventOutputQueueItems s)"
proof -
  have item: "cancel_frame s (Item_cancelEventOutputQueueItems p it pass s)" for p it pass and s :: "'a ClassState_scheme"
  proof (cases "it_processor it")
    case (Some processor)
    obtain qs t where c: "cancel_items p it processor (oq_queue s) s = (qs, t)" by fastforce
    from cancel_items_frame [OF c] have "cancel_frame s (t\<lparr>oq_queue := qs\<rparr>)"
      by (simp add: cancel_frame_def in_frame_def fire_ok_def)
    then show ?thesis by (simp add: Item_cancelEventOutputQueueItems_def Some c)
  qed (simp add: Item_cancelEventOutputQueueItems_def)
  have "cancel_frame s (fold (\<lambda>it. Item_cancelEventOutputQueueItems p it pass) items s)" for p items pass and s :: "'a ClassState_scheme"
    by (induction items arbitrary: s) (auto intro: cancel_frame_trans [OF item])
  then have rc: "cancel_frame s (RemapClass_cancelEventOutputQueueItems p pass s)" for p pass and s :: "'a ClassState_scheme"
    by (simp add: RemapClass_cancelEventOutputQueueItems_def)
  have "cancel_frame s (fold (\<lambda>p. RemapClass_cancelEventOutputQueueItems p pass) ps s)" for ps pass and s :: "'a ClassState_scheme"
    by (induction ps arbitrary: s) (auto intro: cancel_frame_trans [OF rc])
  then show ?thesis by (simp add: manager_cancelEventOutputQueueItems_def)
qed

text \<open>So the output queue, linked with the remap classes and the hooked devices, is the one of \<open>OutputQueue\<close>.\<close>

lemma extension_output:
  "marks_only (manager_cancelEventOutputQueueItems :: 'a ClassState_scheme \<Rightarrow> _)"
  "delivers_only (deliver_event :: Params \<Rightarrow> 'a ClassState_scheme \<Rightarrow> _)"
  using manager_cancel_frame deliver_frame by (auto simp: marks_only_def delivers_only_def cancel_frame_def device_frame_def)

section \<open>The running extension\<close>

text \<open>
  Everything that happens to the running extension: the calls of the devices and the timers of the input
  queue, the other timers, and the calls of user space that load the settings and change the configuration. \<open>EC_Clock\<close> is time that passes.
\<close>

datatype ExtCall =
    EC_Input InCall
  | EC_OutputTimer
  | EC_RepeatTimer
  | EC_MouseKeyTimer
  | EC_FixedDistanceScrollTimer
  | EC_KeyToKeyTimer
  | EC_DependingTimer
  | EC_PointingRelativeToScrollTimer
  | EC_RefreshTimer
  | EC_Load "u32 list" u64
  | EC_SetConfig "int list" nat
  | EC_SetConfigOne bool nat int
  | EC_Clock microtime
  | EC_InProgressTimer
  | EC_CapsLockTimer
  | EC_KeyboardMatched nat
  | EC_KeyboardTerminated nat
  | EC_PointingMatched nat
  | EC_PointingTerminated nat

definition refreshInProgressDevices_tick :: "'a DeviceState_scheme \<Rightarrow> 'a DeviceState_scheme" where
  "refreshInProgressDevices_tick s =
     (let (run, t) = timer_callback (dv_refresh_timer s);
          s = s\<lparr>dv_refresh_timer := t\<rparr>
      in if run then refreshInProgressDevices_timer_callback s else s)"

definition setcapslock_tick :: "'a DeviceState_scheme \<Rightarrow> 'a DeviceState_scheme" where
  "setcapslock_tick s =
     (let (run, t) = timer_callback (dv_capslock_timer s);
          s = s\<lparr>dv_capslock_timer := t\<rparr>
      in if run then setcapslock_timer_callback s else s)"

fun ext_call ::
  "ConfigIndex option list \<Rightarrow> (ConfigIndex \<Rightarrow> int) \<Rightarrow> ExtCall \<Rightarrow> 'a ClassState_scheme \<Rightarrow> 'a ClassState_scheme option"
where
  "ext_call indexes defaults (EC_Input c) s = input_call manager c s"
| "ext_call indexes defaults EC_OutputTimer s =
     Some (OutputQueue_tick manager_cancelEventOutputQueueItems deliver_event s)"
| "ext_call indexes defaults EC_RepeatTimer s = KeyboardRepeat_tick s"
| "ext_call indexes defaults EC_MouseKeyTimer s = Some (MouseKey_tick s)"
| "ext_call indexes defaults EC_FixedDistanceScrollTimer s = Some (FixedDistanceScroll_tick s)"
| "ext_call indexes defaults EC_KeyToKeyTimer s = KeyToKey_tick s"
| "ext_call indexes defaults EC_DependingTimer s = Depending_tick s"
| "ext_call indexes defaults EC_PointingRelativeToScrollTimer s = Some (PointingRelativeToScroll_tick s)"
| "ext_call indexes defaults EC_RefreshTimer s = Some (refresh_tick s)"
| "ext_call indexes defaults (EC_Load vec n) s = Some (snd (load_remapclasses_initialize_vector vec n s))"
| "ext_call indexes defaults (EC_SetConfig vec n) s = Some (snd (set_config indexes defaults vec n s))"
| "ext_call indexes defaults (EC_SetConfigOne essential index value) s =
     Some (snd (set_config_one indexes essential index value s))"
| "ext_call indexes defaults (EC_Clock now) s = Some (s\<lparr>cs_clock := now\<rparr>)"
| "ext_call indexes defaults EC_InProgressTimer s = Some (refreshInProgressDevices_tick s)"
| "ext_call indexes defaults EC_CapsLockTimer s = Some (setcapslock_tick s)"
| "ext_call indexes defaults (EC_KeyboardMatched dev) s = Some (snd (IOHIKeyboard_matched dev s))"
| "ext_call indexes defaults (EC_KeyboardTerminated dev) s = Some (snd (IOHIKeyboard_terminated dev s))"
| "ext_call indexes defaults (EC_PointingMatched dev) s = Some (snd (IOHIPointing_matched dev s))"
| "ext_call indexes defaults (EC_PointingTerminated dev) s = Some (snd (IOHIPointing_terminated dev s))"

fun ext_calls ::
  "ConfigIndex option list \<Rightarrow> (ConfigIndex \<Rightarrow> int) \<Rightarrow> ExtCall list \<Rightarrow> 'a ClassState_scheme \<Rightarrow> 'a ClassState_scheme option"
where
  "ext_calls indexes defaults [] s = Some s"
| "ext_calls indexes defaults (c # cs) s = Option.bind (ext_call indexes defaults c s) (ext_calls indexes defaults cs)"

lemma more_in_frame:
  fixes s t :: "'a InState_scheme"
  shows "MouseState.more t = MouseState.more s \<Longrightarrow> in_frame s t"
  by (cases s; cases t; simp add: in_frame_def fire_ok_def)

lemma output_tick_frame:
  fixes s :: "'a ClassState_scheme"
  shows "in_frame s (OutputQueue_tick manager_cancelEventOutputQueueItems deliver_event s)"
proof -
  have c: "in_frame u (delete_canceled (manager_cancelEventOutputQueueItems u))" for u :: "'a ClassState_scheme"
    using manager_cancel_frame [of u] by (simp add: cancel_frame_def delete_canceled_def in_frame_def fire_ok_def)
  have delay: "in_frame u (snd (calcDelay p u))" for p and u :: "'a ClassState_scheme"
    by (auto simp: calcDelay_def in_frame_def fire_ok_def split: Params.split)
  have d: "in_frame u (deliver_event p u)" for p and u :: "'a ClassState_scheme"
    using deliver_frame [of u p] by (cases u; cases "deliver_event p u"; simp add: device_frame_def in_frame_def fire_ok_def)
  have up: "in_frame u (v\<lparr>oq_queue := x\<rparr>) = in_frame u v" "in_frame u (v\<lparr>oq_timer := y\<rparr>) = in_frame u v"
    for x y and u v :: "'a ClassState_scheme"
    by (simp_all add: in_frame_def fire_ok_def)
  have fire: "in_frame u (OutputQueue_fire_timer_callback manager_cancelEventOutputQueueItems deliver_event u)"
    for u :: "'a ClassState_scheme"
    using c [of u]
    by (auto simp: OutputQueue_fire_timer_callback_def Let_def case_prod_unfold up split: list.split
        intro!: in_frame_trans [OF _ delay] in_frame_trans [OF _ d] intro: in_frame_trans)
  have "in_frame s (OutputQueue_fire_timer_callback manager_cancelEventOutputQueueItems deliver_event (s\<lparr>oq_timer := x\<rparr>))" for x
    by (rule in_frame_trans [OF _ fire]) (simp add: up)
  then show ?thesis by (auto simp: OutputQueue_tick_def Let_def case_prod_unfold up)
qed

lemma fixed_timers_frame:
  fixes s :: "'a ClassState_scheme"
  shows "in_frame s (MouseKey_tick s)" and "in_frame s (FixedDistanceScroll_tick s)"
    and "in_frame s (PointingRelativeToScroll_tick s)" and "in_frame s (refresh_tick s)"
proof -
  have scroll: "MouseState.more (FireScrollWheel_fire_delta d1 d2 a pe u) = MouseState.more u" for d1 d2 a pe and u :: "'b MouseState_scheme"
    using FireScrollWheel_emits [of u d1 d2 a pe] by (cases u; cases "FireScrollWheel_fire_delta d1 d2 a pe u"; simp add: emits_def)
  have pointer: "MouseState.more (FireRelativePointer_fire a pe b dx dy u) = MouseState.more u" for a pe b dx dy and u :: "'b MouseState_scheme"
    using FireRelativePointer_emits [of u a pe b dx dy] by (cases u; cases "FireRelativePointer_fire a pe b dx dy u"; simp add: emits_def)
  show "in_frame s (MouseKey_tick s)"
    by (rule more_in_frame) (simp add: MouseKey_tick_def MouseKey_fire_timer_callback_def MouseKey_send_def accelerate_def
        scroll pointer Let_def case_prod_unfold)
  show "in_frame s (FixedDistanceScroll_tick s)"
    by (rule more_in_frame) (simp add: FixedDistanceScroll_tick_def FixedDistanceScroll_fire_timer_callback_def
        scroll Let_def case_prod_unfold)
  have wheel: "MouseState.more t = MouseState.more u \<Longrightarrow> in_frame v u \<Longrightarrow> in_frame v t" for t u v :: "'a ClassState_scheme"
    by (rule in_frame_trans [OF _ more_in_frame])
  have ps: "in_frame u (v\<lparr>ps_queue := x\<rparr>) = in_frame u v" "in_frame u (v\<lparr>ps_timer := y\<rparr>) = in_frame u v"
    for x y and u v :: "'a ClassState_scheme"
    by (simp_all add: in_frame_def fire_ok_def)
  have flag: "in_frame u (FlagStatus_temporary_increase f v) = in_frame u v" "in_frame u (FlagStatus_temporary_decrease f v) = in_frame u v"
    for f and u v :: "'a ClassState_scheme"
  proof -
    have e: "in_frame u w = in_frame u v" if "FlagState.more w = FlagState.more v" for w
      using flag_in_frame [OF that] flag_in_frame [OF that [symmetric]] in_frame_trans by blast
    show "in_frame u (FlagStatus_temporary_increase f v) = in_frame u v" "in_frame u (FlagStatus_temporary_decrease f v) = in_frame u v"
      by (rule e, simp add: FlagStatus_temporary_increase_def FlagStatus_temporary_decrease_def)+
  qed
  have fire: "in_frame u (FireScrollWheel_fire_delta d1 d2 a pe v) = in_frame u v" for d1 d2 a pe and u v :: "'a ClassState_scheme"
    using scroll [of d1 d2 a pe v] more_in_frame [of "FireScrollWheel_fire_delta d1 d2 a pe v" v]
      more_in_frame [of v "FireScrollWheel_fire_delta d1 d2 a pe v"] by (metis in_frame_trans)
  show "in_frame s (PointingRelativeToScroll_tick s)"
    by (auto simp: PointingRelativeToScroll_tick_def PointingRelativeToScroll_timer_callback_def Let_def case_prod_unfold
        ps flag fire split: list.split)
  show "in_frame s (refresh_tick s)"
  proof -
    have m: "in_frame u (v\<lparr>mg_enabled_remapclasses := x1\<rparr>) = in_frame u v" "in_frame u (v\<lparr>mg_statusmessage := x2\<rparr>) = in_frame u v"
      "in_frame u (v\<lparr>mg_lastmessage := x3\<rparr>) = in_frame u v" "in_frame u (v\<lparr>mg_isSimultaneousKeyPressesEnabled := x4\<rparr>) = in_frame u v"
      "in_frame u (v\<lparr>vk_refresh_timer := x5\<rparr>) = in_frame u v" "in_frame u (clear_statusmessage i v) = in_frame u v"
      "in_frame u (append_statusmessage i x6 v) = in_frame u v" "in_frame u (send_notification_statusmessage i v) = in_frame u v"
      for x1 x2 x3 x4 x5 x6 i and u v :: "'a ClassState_scheme"
      by (simp_all add: in_frame_def fire_ok_def clear_statusmessage_def append_statusmessage_def send_notification_statusmessage_def)
    have "in_frame u (refresh_class rc v)" if "in_frame u v" for rc and u v :: "'a ClassState_scheme"
      using that by (auto simp: refresh_class_def Let_def m split: option.split)
    then have loop: "in_frame u (fold refresh_class rcs v)" if "in_frame u v" for rcs and u v :: "'a ClassState_scheme"
      using that by (induction rcs arbitrary: v) auto
    show ?thesis
      by (auto simp: refresh_tick_def refresh_timer_callback_def Let_def case_prod_unfold m split: option.split intro!: loop)
  qed
qed

lemma other_calls_frame:
  fixes s :: "'a ClassState_scheme"
  shows "in_frame s (snd (set_config indexes defaults vec n s))" and "in_frame s (snd (set_config_one indexes b i v s))"
    and "in_frame s (s\<lparr>cs_clock := now\<rparr>)" and "in_frame s (snd (load_remapclasses_initialize_vector ws m s))"
proof -
  show "in_frame s (snd (load_remapclasses_initialize_vector ws m s))" by (simp add: load_frame)
  have u: "in_frame u (v\<lparr>cs_config := x\<rparr>) = in_frame u v" "in_frame u (setEnabled r y v) = in_frame u v"
    "in_frame u (RemapClassManager_refresh v) = in_frame u v"
    for x r y and u v :: "'a ClassState_scheme"
    by (simp_all add: in_frame_def fire_ok_def setEnabled_def RemapClassManager_refresh_def)
  have e: "in_frame u (set_class_enabled x v) = in_frame u v" for x and u v :: "'a ClassState_scheme"
    by (auto simp: set_class_enabled_def u split: prod.split option.split)
  have es: "in_frame u (fold set_class_enabled xs v) = in_frame u v" for xs and u v :: "'a ClassState_scheme"
    by (induction xs arbitrary: v) (simp_all add: e)
  show "in_frame s (snd (set_config indexes defaults vec n s))"
    by (simp add: set_config_def Let_def u es set_essential_config_def load_essential_config_default_def)
  show "in_frame s (snd (set_config_one indexes b i v s))"
    by (auto simp: set_config_one_def Let_def case_prod_unfold u set_essential_config_one_def split: option.split)
  show "in_frame s (s\<lparr>cs_clock := now\<rparr>)" by (simp add: in_frame_def fire_ok_def)
qed

lemma waiting_timers_frame:
  fixes s :: "'a ClassState_scheme"
  assumes "fire_ok s"
  shows "\<exists>t. KeyboardRepeat_tick s = Some t \<and> in_frame s t" and "\<exists>t. KeyToKey_tick s = Some t \<and> in_frame s t"
    and "\<exists>t. Depending_tick s = Some t \<and> in_frame s t"
proof -
  have k: "in_frame u (v\<lparr>kr_timer := x\<rparr>) = in_frame u v" for x and u v :: "'a ClassState_scheme"
    by (simp add: in_frame_def fire_ok_def)
  have "\<exists>t. KeyboardRepeat_fire_timer_callback u = Some t \<and> in_frame s t" if "in_frame s u" for u :: "'a ClassState_scheme"
  proof -
    have "fire_ok u" using that assms by (simp add: in_frame_def)
    from repeat_items_total [OF this] obtain t where
      "repeat_items (length (kr_queue u) = 1) (kr_queue u) u = Some t" "vk_keeps u t" by blast
    with keeps_frame_trans [OF that] show ?thesis by (simp add: KeyboardRepeat_fire_timer_callback_def k)
  qed
  then show "\<exists>t. KeyboardRepeat_tick s = Some t \<and> in_frame s t"
    by (auto simp: KeyboardRepeat_tick_def Let_def case_prod_unfold k)
  show "\<exists>t. KeyToKey_tick s = Some t \<and> in_frame s t"
    using kev_KeyToKey_tick [OF kev_start [OF assms]] by (auto simp: kev_def dest!: returnsE)
  have "mev UNIV s (s\<lparr>dp_timer := x\<rparr>)" for x using mev_start [OF assms] by simp
  then have timer: "returns (Depending_fire_timer_callback (s\<lparr>dp_timer := x\<rparr>)) (mev UNIV s)" for x
    using any.timer_callback [of s "s\<lparr>dp_timer := x\<rparr>"]
    by (cases "dp_target s") (simp_all add: Depending_fire_timer_callback_def [of "s\<lparr>dp_timer := x\<rparr>"])
  obtain t where t: "Depending_fire_timer_callback (s\<lparr>dp_timer := snd (timer_callback (dp_timer s))\<rparr>) = Some t" "mev UNIV s t"
    using returnsE [OF timer] by blast
  have "in_frame s (s\<lparr>dp_timer := x\<rparr>)" for x by (simp add: in_frame_def fire_ok_def)
  with t show "\<exists>t. Depending_tick s = Some t \<and> in_frame s t"
    by (auto simp: Depending_tick_def Let_def case_prod_unfold mev_frame)
qed

lemma devices_live:
  fixes s t :: "'a ClassState_scheme"
  assumes "devices_only s t" and "in_live s"
  shows "in_live t"
proof -
  have "DeviceState.more t = DeviceState.more s" "vj_newkeycode t = vj_newkeycode s"
    using devices_only_fields [OF assms(1)] by blast+
  then show ?thesis using assms(2) by (cases s; cases t; simp add: in_live_def quiet_live_def fire_ok_def)
qed

lemma refreshInProgress_tick_only: "devices_only s (refreshInProgressDevices_tick s)"
  by (simp add: refreshInProgressDevices_tick_def case_prod_unfold Let_def devices_only_trans [OF _ notifications_only(5)])

lemma setcapslock_tick_frame:
  fixes s :: "'a InState_scheme"
  shows "in_frame s (setcapslock_tick s)"
proof -
  have u: "in_frame s (t\<lparr>dv_alphaLock := x\<rparr>) = in_frame s t" "in_frame s (t\<lparr>dv_capslock_timer := y\<rparr>) = in_frame s t"
    for x y and s t :: "'a InState_scheme" by (simp_all add: in_frame_def fire_ok_def)
  have "in_frame s (fold (\<lambda>item s.
      if isReplaced LK_keyboard item \<and> (hi_type item = DT_APPLE_INTERNAL \<or> hi_type item = DT_APPLE_EXTERNAL) \<and>
         io_keyboard (dv_devices s (hi_device item))
      then s\<lparr>dv_alphaLock := (dv_alphaLock s)(hi_device item := c)\<rparr> else s) items t)"
    if "in_frame s t" for c items and s t :: "'a InState_scheme"
    using that by (induction items arbitrary: t) (simp_all add: u)
  then show ?thesis by (simp add: setcapslock_tick_def setcapslock_timer_callback_def case_prod_unfold Let_def u)
qed

text \<open>The calls about devices; what IOKit announces is not in a list yet.\<close>

fun about_devices :: "ExtCall \<Rightarrow> bool" where
  "about_devices EC_InProgressTimer = True"
| "about_devices (EC_KeyboardMatched dev) = True"
| "about_devices (EC_KeyboardTerminated dev) = True"
| "about_devices (EC_PointingMatched dev) = True"
| "about_devices (EC_PointingTerminated dev) = True"
| "about_devices _ = False"

fun announced_once :: "ExtCall \<Rightarrow> 'a DeviceState_scheme \<Rightarrow> bool" where
  "announced_once (EC_KeyboardMatched dev) s = (dev \<notin> listed LK_keyboard s \<and> dev \<notin> listed LK_consumer s)"
| "announced_once (EC_PointingMatched dev) s = (dev \<notin> listed LK_pointing s)"
| "announced_once _ s = True"

lemma ext_call_total:
  fixes s :: "'a ClassState_scheme"
  assumes "in_live s"
  shows "\<exists>t. ext_call indexes defaults c s = Some t \<and> in_live t \<and> (if about_devices c then devices_only s t else hooks_kept s t)"
proof -
  have ok: "fire_ok s" using assms by (simp add: in_live_def quiet_live_def)
  have frame: "in_live t \<and> hooks_kept s t" if "in_frame s t" for t
    using frame_live [OF assms that] in_frame_hooks [OF that] by simp
  have device: "in_live t \<and> devices_only s t" if "devices_only s t" for t
    using devices_live [OF that assms] that by simp
  show ?thesis
  proof (cases c)
    case (EC_Input i)
    then show ?thesis using manager.input_call_live [OF assms, of i] by simp
  next
    case EC_RepeatTimer
    then show ?thesis using waiting_timers_frame(1) [OF ok] frame by auto
  next
    case EC_KeyToKeyTimer
    then show ?thesis using waiting_timers_frame(2) [OF ok] frame by auto
  next
    case EC_DependingTimer
    then show ?thesis using waiting_timers_frame(3) [OF ok] frame by auto
  qed (simp_all add: frame device output_tick_frame fixed_timers_frame other_calls_frame refreshInProgress_tick_only
      setcapslock_tick_frame notifications_only)
qed

lemma ext_call_live:
  fixes s :: "'a ClassState_scheme"
  assumes "in_live s"
  shows "\<exists>t. ext_call indexes defaults c s = Some t \<and> in_live t"
  using ext_call_total [OF assms, of indexes defaults c] by blast

lemma refreshInProgress_tick_inv:
  assumes "own_actions first" and "hooks_inv first s"
  shows "hooks_inv first (refreshInProgressDevices_tick s)"
proof -
  have "hooks_inv first (s\<lparr>dv_refresh_timer := x\<rparr>)" for x by (rule hooks_kept_inv [OF _ assms(2)]) simp
  then show ?thesis
    by (simp add: refreshInProgressDevices_tick_def case_prod_unfold Let_def in_progress_inv [OF assms(1)])
qed

lemma ext_call_hooks:
  fixes s :: "'a ClassState_scheme"
  assumes "own_actions first" and "hooks_inv first s" and "in_live s" and "announced_once c s"
    and "ext_call indexes defaults c s = Some t"
  shows "hooks_inv first t"
proof (cases "about_devices c")
  case False
  then have "hooks_kept s t" using ext_call_total [OF assms(3), of indexes defaults c] assms(5) by simp
  then show ?thesis by (rule hooks_kept_inv [OF _ assms(2)])
next
  case True
  note call = device_call_inv [OF assms(1,2)]
  show ?thesis
    using True assms(4,5) refreshInProgress_tick_inv [OF assms(1,2)]
      call [of "DC_Keyboard_matched dev" for dev] call [of "DC_Keyboard_terminated dev" for dev]
      call [of "DC_Pointing_matched dev" for dev] call [of "DC_Pointing_terminated dev" for dev]
    by (cases c) auto
qed

text \<open>
  C1: The running extension never gets stuck. In whatever order devices, timers and user space call it,
  whatever settings are loaded and enabled, every call returns, and while an event waits in the
  input queue or is blocked there, a timer is pending that will take it up again.
\<close>

theorem extension_never_stalls:
  fixes s :: "'a ClassState_scheme"
  assumes "in_live s"
  shows "\<exists>t. ext_calls indexes defaults cs s = Some t \<and> in_live t"
  using assms
proof (induction cs arbitrary: s)
  case (Cons c cs)
  from ext_call_live [OF Cons.prems, of indexes defaults c] obtain u where
    "ext_call indexes defaults c s = Some u" "in_live u" by blast
  with Cons.IH [of u] show ?case by simp
qed simp

text \<open>The state after the start of the extension, and a setting that makes the key A the space key.\<close>

definition ext_boot :: ClassState where
  "ext_boot = FuncState.extend
     (FilterState.extend filter_static
        \<lparr>rf_next = 0, rf_func = (\<lambda>_. RF_PassThrough), rf_autogenId = (\<lambda>_. 0), rf_ignorePassThrough = (\<lambda>_. False),
         dp_objects = (\<lambda>_. Depending_new), dp_timer = TimerWrapper_initialize True True timer_static, dp_target = None,
         ps_queue = [], ps_fromModifierFlags = [], ps_toModifierFlags = [], ps_autogenId = 0,
         ps_lastPhysicalEventType = PE_DOWN, ps_timer = TimerWrapper_initialize True True timer_static, af_list = [],
         dn_numLock = (\<lambda>_. False)\<rparr>)
     \<lparr>rc_next = 0, rc_items = (\<lambda>_. []), rc_statusmessage = (\<lambda>_. None), rc_simultaneous = (\<lambda>_. False),
      rc_allocation_count = 0, ai_list = [], mg_enabled_remapclasses = [], mg_statusmessage = [], mg_lastmessage = [],
      mg_isSimultaneousKeyPressesEnabled = False\<rparr>"

definition a_to_space_vector :: "u32 list" where
  "a_to_space_vector =
     [1, 7, 0, 5, BRIDGE_REMAPTYPE_KEYTOKEY, BRIDGE_DATATYPE_KEYCODE, KeyCode_A, BRIDGE_DATATYPE_KEYCODE, KeyCode_SPACE]"

lemma ext_boot_live: "in_live ext_boot"
proof -
  have "in_queue ext_boot = in_queue input_boot" "in_blocked ext_boot = in_blocked input_boot" "in_timer ext_boot = in_timer input_boot"
    "in_blocking_timer ext_boot = in_blocking_timer input_boot" "vj_newkeycode ext_boot = vj_newkeycode input_boot"
    by (simp_all add: ext_boot_def FuncState.extend_def FilterState.extend_def filter_static_def KeyState.extend_def key_static_def
        InState.extend_def)
  then show ?thesis using in_live_boot(1) by (simp add: in_live_def quiet_live_def fire_ok_def)
qed

theorem extension_never_stalls_witness:
  "\<exists>t. ext_calls [] (\<lambda>_. 0)
     [EC_Load a_to_space_vector 36, EC_SetConfigOne False 0 1, EC_RefreshTimer,
      EC_Input (IC_Keyboard EventType_DOWN 0 KeyCode_A 0 0 0 0 0 False 0 (Some 0)), EC_Input IC_Timer, EC_OutputTimer]
     ext_boot = Some t \<and> in_live t"
  by (rule extension_never_stalls [OF ext_boot_live])

end
