(* ===== verification/FilePath.thy ===== *)
theory FilePath
  imports Prelude
begin

text \<open>
  \<^verbatim>\<open>file_path.cpp\<close>: the directory of a path and the simplification of a path in place. A position is an
  index into the string; \<open>None\<close> stands for \<open>npos\<close>.
\<close>

abbreviation (input) slash :: char where "slash \<equiv> CHR ''/''"
abbreviation (input) dot :: char where "dot \<equiv> CHR ''.''"

section \<open>Positions\<close>

text \<open>\<open>rfind\<close>: the last slash at or before \<open>pos\<close>.\<close>

fun rfind_slash :: "string \<Rightarrow> nat \<Rightarrow> nat option" where
  "rfind_slash path 0 = (if path ! 0 = slash then Some 0 else None)"
| "rfind_slash path (Suc pos) = (if path ! Suc pos = slash then Some (Suc pos) else rfind_slash path pos)"

definition get_dirname_position :: "string \<Rightarrow> nat option \<Rightarrow> nat" where
  "get_dirname_position path pos =
     (if path = [] then 0
      else
        let pos = (case pos of None \<Rightarrow> length path - 1 | Some pos \<Rightarrow> pos)
        in if length path \<le> pos then 0
           else if pos = 0 then (if path ! pos = slash then 1 else 0)
           else
             let pos = (if path ! pos = slash then pos - 1 else pos)
             in case rfind_slash path pos of
                  None \<Rightarrow> 0
                | Some i \<Rightarrow> if i = 0 then 1 else i)"

definition process_dot :: "string \<Rightarrow> nat \<Rightarrow> nat" where
  "process_dot path pos =
     (if path = [] then pos
      else if pos > 2 \<and> path ! (pos - 2) = slash \<and> path ! (pos - 1) = dot then pos - 2
      else if pos = 1 \<and> path ! 0 = dot then 0
      else pos)"

definition process_dotdot :: "string \<Rightarrow> nat \<Rightarrow> nat" where
  "process_dotdot path pos =
     (if pos > 4 \<and> path ! (pos - 5) = dot \<and> path ! (pos - 4) = dot \<and> path ! (pos - 3) = slash \<and>
         path ! (pos - 2) = dot \<and> path ! (pos - 1) = dot
      then pos
      else if pos > 2 \<and> path ! (pos - 3) = slash \<and> path ! (pos - 2) = dot \<and> path ! (pos - 1) = dot
      then get_dirname_position path (Some (pos - 3))
      else pos)"

definition dirname :: "string \<Rightarrow> string" where
  "dirname path = (let pos = get_dirname_position path None in if pos = 0 then [dot] else take pos path)"

section \<open>normalize\<close>

text \<open>
  \<open>path[dest - 1]\<close>; the loop reads it also when \<open>dest\<close> is 0, where the index wraps around and the read is
  outside of the string: the byte it gets there is the argument \<open>outside\<close>.
\<close>

definition char_before :: "char \<Rightarrow> string \<Rightarrow> nat \<Rightarrow> char" where
  "char_before outside path dest = (if dest = 0 then outside else path ! (dest - 1))"

text \<open>One round of the loop.\<close>

definition normalize_step :: "char \<Rightarrow> nat \<Rightarrow> string \<times> nat \<Rightarrow> string \<times> nat" where
  "normalize_step outside src = (\<lambda>(path, dest).
     let copy = (\<lambda>dest. (if dest \<noteq> src then path[dest := path ! src] else path, dest + 1))
     in if char_before outside path dest = slash \<and> path ! src = slash then (path, dest)
        else if path ! src = slash
        then
          let dest = process_dotdot path (process_dot path dest)
          in if dest = 0 then (if path ! 0 \<noteq> slash then (path, dest) else copy dest)
             else if path ! (dest - 1) = slash then (path, dest)
             else copy dest
        else copy dest)"

definition normalize :: "char \<Rightarrow> string \<Rightarrow> string" where
  "normalize outside path =
     (if path = [] then [dot]
      else
        let (path, dest) = fold (normalize_step outside) [1..<length path] (path, 1);
            dest = process_dotdot path (process_dot path dest);
            (path, dest) = (if dest = 0 then (path[0 := dot], 1) else (path, dest))
        in take dest path)"

section \<open>The result\<close>

text \<open>No two slashes in a row.\<close>

definition single_slashes :: "string \<Rightarrow> bool" where
  "single_slashes xs = (\<forall>i. Suc i < length xs \<longrightarrow> \<not> (xs ! i = slash \<and> xs ! Suc i = slash))"

lemma single_slashes_take: "single_slashes (take n xs) \<Longrightarrow> m \<le> n \<Longrightarrow> single_slashes (take m xs)"
  by (auto simp: single_slashes_def)

lemma rfind_slash_le: "rfind_slash path pos = Some i \<Longrightarrow> i \<le> pos"
  by (induction pos) (auto split: if_splits intro: le_SucI)

lemma rfind_slash_first: "rfind_slash path pos = Some 0 \<Longrightarrow> path ! 0 = slash"
  by (induction pos) (auto split: if_splits)

lemma rfind_slash_None: "rfind_slash path pos = None \<Longrightarrow> path ! 0 \<noteq> slash"
  by (induction pos) (auto split: if_splits)

lemma get_dirname_position_le: "pos < length path \<Longrightarrow> get_dirname_position path (Some pos) \<le> Suc pos"
  by (auto simp: get_dirname_position_def Let_def split: option.split dest!: rfind_slash_le)

lemma get_dirname_position_zero: "pos < length path \<Longrightarrow> get_dirname_position path (Some pos) = 0 \<Longrightarrow> path ! 0 \<noteq> slash"
  by (auto simp: get_dirname_position_def Let_def dest: rfind_slash_None split: if_splits option.splits)

lemma process_le:
  "process_dot path pos \<le> pos" "pos \<le> length path \<Longrightarrow> process_dotdot path pos \<le> pos"
proof -
  have "2 < pos \<Longrightarrow> pos \<le> length path \<Longrightarrow> get_dirname_position path (Some (pos - 3)) \<le> pos"
    by (rule order.trans [OF get_dirname_position_le]) auto
  then show "process_dot path pos \<le> pos" "pos \<le> length path \<Longrightarrow> process_dotdot path pos \<le> pos"
    by (auto simp: process_dot_def process_dotdot_def)
qed

lemma process_zero:
  assumes "pos \<le> length path" and "path \<noteq> []" and "process_dotdot path (process_dot path pos) = 0"
  shows "pos = 0 \<or> path ! 0 \<noteq> slash"
proof (cases "process_dot path pos = 0")
  case True
  then show ?thesis using assms(2) by (auto simp: process_dot_def split: if_splits)
next
  case False
  let ?p = "process_dot path pos"
  have "?p \<le> length path" using process_le(1) [of path pos] assms(1) by simp
  with False assms(3) have "get_dirname_position path (Some (?p - 3)) = 0" "?p - 3 < length path"
    by (auto simp: process_dotdot_def split: if_splits)
  with get_dirname_position_zero show ?thesis by blast
qed

text \<open>
  The invariant of the loop: what is kept is a prefix without double slashes, it is not longer than what has
  been read, and when it is empty the first character is no slash.
\<close>

definition normalizing :: "nat \<Rightarrow> nat \<Rightarrow> string \<times> nat \<Rightarrow> bool" where
  "normalizing n src = (\<lambda>(path, dest).
     length path = n \<and> dest \<le> src \<and> single_slashes (take dest path) \<and> (dest = 0 \<longrightarrow> path ! 0 \<noteq> slash))"

lemma copy_char:
  assumes "single_slashes (take dest path)" and "dest < length path" and "\<not> (dest \<noteq> 0 \<and> path ! (dest - 1) = slash \<and> c = slash)"
  shows "single_slashes (take (dest + 1) (path[dest := c]))"
proof -
  have "take (dest + 1) (path[dest := c]) = take dest path @ [c]"
    using assms(2) by (simp add: take_Suc_conv_app_nth)
  with assms show ?thesis
    by (auto simp: single_slashes_def nth_append less_Suc_eq)
qed

lemma normalize_step_inv:
  assumes "normalizing n src t" and "src < n"
  shows "normalizing n (Suc src) (normalize_step outside src t)"
    and "normalize_step outside src t = normalize_step outside' src t"
proof -
  obtain path dest where t: "t = (path, dest)" by fastforce
  let ?d = "process_dotdot path (process_dot path dest)"
  have l: "length path = n" "dest \<le> src" "path \<noteq> []" "single_slashes (take dest path)" "dest = 0 \<Longrightarrow> path ! 0 \<noteq> slash"
    using assms t by (auto simp: normalizing_def)
  have d: "?d \<le> dest"
    using process_le(1) [of path dest] process_le(2) [of "process_dot path dest" path] l assms(2) by simp
  have z: "?d = 0 \<Longrightarrow> path ! 0 \<noteq> slash"
    using process_zero [of dest path] l assms(2) by auto
  have copy: "single_slashes (take (e + 1) (if e \<noteq> src then path[e := path ! src] else path))"
    if "e \<le> dest" and "\<not> (e \<noteq> 0 \<and> path ! (e - 1) = slash \<and> path ! src = slash)" for e
  proof -
    have "single_slashes (take (e + 1) (path[e := path ! src]))"
      by (rule copy_char) (use l assms(2) that single_slashes_take [of dest path e] in auto)
    then show ?thesis by (cases "e = src") simp_all
  qed
  show "normalizing n (Suc src) (normalize_step outside src t)"
    using l d z copy [of dest] copy [of ?d] single_slashes_take [OF l(4) d]
    by (auto simp: normalize_step_def t normalizing_def char_before_def Let_def split: if_splits)
  have "process_dot path 0 = 0" "process_dotdot path 0 = 0" by (simp_all add: process_dot_def process_dotdot_def)
  then show "normalize_step outside src t = normalize_step outside' src t"
    using l by (auto simp: normalize_step_def t char_before_def Let_def)
qed

lemma normalize_loop:
  assumes "normalizing n m t" and "m \<le> n"
  shows "normalizing n n (fold (normalize_step outside) [m..<n] t)"
    and "fold (normalize_step outside) [m..<n] t = fold (normalize_step outside') [m..<n] t"
proof -
  have "normalizing n n (fold (normalize_step outside) [n - k..<n] t) \<and>
      fold (normalize_step outside) [n - k..<n] t = fold (normalize_step outside') [n - k..<n] t"
    if "k \<le> n" "normalizing n (n - k) t" for k t
    using that
  proof (induction k arbitrary: t)
    case (Suc k)
    then have "[n - Suc k..<n] = (n - Suc k) # [n - k..<n]" by (simp add: upt_conv_Cons Suc_diff_Suc)
    moreover have n: "n - Suc k < n" "Suc (n - Suc k) = n - k" using Suc.prems(1) by auto
    moreover have "normalizing n (n - k) (normalize_step outside (n - Suc k) t)"
      using normalize_step_inv(1) [OF Suc.prems(2) n(1)] n(2) by simp
    then have "normalizing n n (fold (normalize_step outside) [n - k..<n] (normalize_step outside (n - Suc k) t)) \<and>
        fold (normalize_step outside) [n - k..<n] (normalize_step outside (n - Suc k) t) =
        fold (normalize_step outside') [n - k..<n] (normalize_step outside (n - Suc k) t)"
      using Suc.prems(1) by (intro Suc.IH) auto
    ultimately show ?case
      using normalize_step_inv(2) [OF Suc.prems(2) n(1), of outside outside'] by (metis fold_simps(2))
  qed simp
  from this [of "n - m" t] have "n - (n - m) = m \<Longrightarrow> normalizing n n (fold (normalize_step outside) [m..<n] t) \<and>
      fold (normalize_step outside) [m..<n] t = fold (normalize_step outside') [m..<n] t" using assms by (metis diff_le_self)
  then have "normalizing n n (fold (normalize_step outside) [m..<n] t) \<and>
      fold (normalize_step outside) [m..<n] t = fold (normalize_step outside') [m..<n] t" using assms(2) by (metis diff_diff_cancel)
  then show "normalizing n n (fold (normalize_step outside) [m..<n] t)"
    and "fold (normalize_step outside) [m..<n] t = fold (normalize_step outside') [m..<n] t" by blast+
qed

text \<open>
  C28: Simplifying a path never gives an empty path, nor one that is longer or has two slashes in a row; the
  character that the loop reads in front of the string, when all was dropped so far, does not matter.
\<close>

theorem normalize_safe:
  "normalize outside path \<noteq> [] \<and> length (normalize outside path) \<le> max 1 (length path) \<and>
   single_slashes (normalize outside path) \<and> normalize outside path = normalize outside' path"
proof (cases "path = []")
  case True
  then show ?thesis by (simp add: normalize_def single_slashes_def)
next
  case False
  let ?n = "length path"
  have "normalizing ?n 1 (path, 1)"
    using False by (cases path) (auto simp: normalizing_def single_slashes_def)
  note loop = normalize_loop(1) [OF this, of outside] normalize_loop(2) [OF this, of outside outside']
  obtain p d where f: "fold (normalize_step outside) [1..<?n] (path, 1) = (p, d)" by fastforce
  let ?d = "process_dotdot p (process_dot p d)"
  from loop f False have "normalizing ?n ?n (p, d)" "fold (normalize_step outside') [1..<?n] (path, 1) = (p, d)"
    by (auto simp: Suc_le_eq)
  then have p: "length p = ?n" "d \<le> ?n" "single_slashes (take d p)" by (auto simp: normalizing_def)
  have d: "?d \<le> d"
    using process_le(1) [of p d] process_le(2) [of "process_dot p d" p] p by simp
  have "single_slashes (take ?d p)" by (rule single_slashes_take [OF p(3) d])
  moreover have "take (Suc 0) (p[0 := dot]) = [dot]" using p False by (cases p) auto
  ultimately show ?thesis
    using p d False f \<open>fold (normalize_step outside') [1..<?n] (path, 1) = (p, d)\<close>
    by (auto simp: normalize_def Let_def single_slashes_def)
qed

text \<open>A dot behind the first slash is kept, unlike any other.\<close>

lemma normalize_leading_dot: "normalize outside ''/./foo'' = ''/./foo'' \<and> normalize outside ''/a/./foo'' = ''/a/foo''"
  by (simp add: normalize_def normalize_step_def process_dot_def process_dotdot_def char_before_def upt_rec Let_def)

end
