(* ===== verification/SettingsVector.thy ===== *)
theory SettingsVector
  imports Utf8Copy
begin

text \<open>
  \<^verbatim>\<open>xml_compiler::remapclasses_initialize_vector\<close>: the vector of words in which the settings compiler
  describes all remap classes to the extension. The first word counts the classes; each class is its
  size, its configuration index and its entries.
\<close>

section \<open>Steps that may throw\<close>

text \<open>
  A call returns the exception it throws, or \<open>None\<close>, and the state, which an exception does not undo. The
  messages the compiler collects are of the same type; \<open>Assertion_failed\<close> is a failed \<open>assert\<close>, which ends the program.
\<close>

datatype CompileError =
    Duplicated_identifier string
  | Unknown_symbol string
  | Cannot_connect string
  | Invalid_autogen string
  | Assertion_failed
  | Empty_identifier
  | Misplaced_identifier string
  | Identifier_in_item string
  | No_attribute string
  | Empty_attribute string
  | Invalid_symbol string string string
  | Invalid_notify string
  | Empty_tag string
  | No_child string string
  | Empty_child string string
  | Invalid_child string string string
  | Wrong_prefix string string
  | Braces_in_name string
  | Invalid_regex string
  | Warnings string

type_synonym 's step_result = "CompileError option \<times> 's"

definition and_then :: "('s \<Rightarrow> 's step_result) \<Rightarrow> ('s \<Rightarrow> 's step_result) \<Rightarrow> 's \<Rightarrow> 's step_result" where
  "and_then m n s = (case m s of (None, s) \<Rightarrow> n s | (Some e, s) \<Rightarrow> (Some e, s))"

fun for_each :: "('a \<Rightarrow> 's \<Rightarrow> 's step_result) \<Rightarrow> 'a list \<Rightarrow> 's \<Rightarrow> 's step_result" where
  "for_each f [] s = (None, s)"
| "for_each f (x # xs) s = and_then (f x) (for_each f xs) s"

lemma and_then_simps [simp]:
  "and_then m n s = (if fst (m s) = None then n (snd (m s)) else m s)"
  by (auto simp: and_then_def split: prod.split option.split)

lemma for_each_Cons: "for_each f (x # xs) = and_then (f x) (for_each f xs)"
  by (rule ext) simp

section \<open>The vector\<close>

text \<open>\<open>iv_added\<close> are the keys of \<open>is_config_index_added_\<close>, whose values are all true.\<close>

record InitVector =
  iv_data :: "u32 list"
  iv_added :: "u32 list"
  iv_max_config_index :: u32
  iv_freezed :: bool
  iv_start_index :: nat
  iv_ended :: bool

abbreviation (input) INDEX_OF_CONFIG_COUNT :: nat where "INDEX_OF_CONFIG_COUNT \<equiv> 0"

definition increment_at :: "nat \<Rightarrow> u32 list \<Rightarrow> u32 list" where
  "increment_at i xs = xs[i := xs ! i + 1]"

definition InitVector_clear :: "InitVector \<Rightarrow> InitVector" where
  "InitVector_clear v =
     v\<lparr>iv_data := [0], iv_added := [], iv_max_config_index := 0, iv_freezed := False, iv_start_index := 0, iv_ended := True\<rparr>"

definition InitVector_cleanup :: "InitVector \<Rightarrow> InitVector" where
  "InitVector_cleanup v =
     (if iv_ended v then v else v\<lparr>iv_data := take (iv_start_index v) (iv_data v), iv_ended := True\<rparr>)"

definition InitVector_start :: "u32 \<Rightarrow> string \<Rightarrow> InitVector \<Rightarrow> InitVector step_result" where
  "InitVector_start config_index raw_identifier v =
     (if config_index \<in> set (iv_added v) then (Some (Duplicated_identifier raw_identifier), v)
      else
        let v = (if \<not> iv_ended v then InitVector_cleanup v else v);
            v = v\<lparr>iv_start_index := length (iv_data v), iv_ended := False\<rparr>
        in (None, v\<lparr>iv_data := iv_data v @ [1] @ [config_index]\<rparr>))"

definition InitVector_push_back :: "u32 \<Rightarrow> InitVector \<Rightarrow> InitVector" where
  "InitVector_push_back w v = v\<lparr>iv_data := increment_at (iv_start_index v) (iv_data v) @ [w]\<rparr>"

definition InitVector_insert :: "nat \<Rightarrow> u32 \<Rightarrow> InitVector \<Rightarrow> InitVector" where
  "InitVector_insert index w v =
     (let data = increment_at (iv_start_index v) (iv_data v)
      in v\<lparr>iv_data := take index data @ [w] @ drop index data\<rparr>)"

definition InitVector_update :: "nat \<Rightarrow> u32 \<Rightarrow> InitVector \<Rightarrow> InitVector" where
  "InitVector_update index w v = v\<lparr>iv_data := (iv_data v)[index := w]\<rparr>"

definition InitVector_size :: "InitVector \<Rightarrow> nat" where
  "InitVector_size v = length (iv_data v)"

definition InitVector_end :: "InitVector \<Rightarrow> InitVector" where
  "InitVector_end v =
     (let v = v\<lparr>iv_ended := True, iv_data := increment_at INDEX_OF_CONFIG_COUNT (iv_data v)\<rparr>;
          config_index = iv_data v ! (iv_start_index v + 1);
          v = (if config_index > iv_max_config_index v then v\<lparr>iv_max_config_index := config_index\<rparr> else v)
      in v\<lparr>iv_added := config_index # iv_added v\<rparr>)"

text \<open>The buffer is cleared before the copy, and its words are read in the byte order of the machine.\<close>

definition string_buffer :: "byte list \<Rightarrow> nat \<Rightarrow> byte list" where
  "string_buffer src sz =
     (let dst = c_strlcpy src sz in (dst @ replicate (sz - length dst) 0)[utf8_scan dst 0 := 0])"

fun words_of_bytes :: "byte list \<Rightarrow> u32 list" where
  "words_of_bytes (a # b # c # d # bytes) =
     (ucast a OR push_bit 8 (ucast b) OR push_bit 16 (ucast c) OR push_bit 24 (ucast d)) # words_of_bytes bytes"
| "words_of_bytes _ = []"

definition InitVector_push_string :: "byte list \<Rightarrow> InitVector \<Rightarrow> nat \<times> InitVector" where
  "InitVector_push_string string v =
     (let len = length string div 4 + 1;
          buffer = string_buffer (takeWhile (\<lambda>b. b \<noteq> 0) string) (len * 4)
      in (len, fold InitVector_push_back (words_of_bytes buffer) v))"

definition InitVector_freeze :: "InitVector \<Rightarrow> InitVector" where
  "InitVector_freeze v =
     (let v = InitVector_cleanup v;
          v = fold (\<lambda>i v. if word_of_nat i \<notin> set (iv_added v)
                          then InitVector_end (snd (InitVector_start (word_of_nat i) [] v)) else v)
                [0..<unat (iv_max_config_index v)] v
      in v\<lparr>iv_freezed := True\<rparr>)"

definition InitVector_new :: InitVector where
  "InitVector_new =
     InitVector_freeze (InitVector_clear
       \<lparr>iv_data = [], iv_added = [], iv_max_config_index = 0, iv_freezed = False, iv_start_index = 0, iv_ended = False\<rparr>)"

section \<open>The classes in a vector\<close>

definition class_words :: "u32 \<times> u32 list \<Rightarrow> u32 list" where
  "class_words = (\<lambda>(config_index, body). (1 + word_of_nat (length body)) # config_index # body)"

text \<open>
  The vector holds the finished classes, in the order they were finished, and then the one that is
  being written, if any; it is not frozen.
\<close>

definition vector_holds :: "InitVector \<Rightarrow> (u32 \<times> u32 list) list \<Rightarrow> (u32 \<times> u32 list) option \<Rightarrow> bool" where
  "vector_holds v classes current =
     (iv_data v = word_of_nat (length classes) # concat (map class_words classes) @
        (case current of None \<Rightarrow> [] | Some c \<Rightarrow> class_words c) \<and>
      set (iv_added v) = set (map fst classes) \<and> distinct (map fst classes) \<and>
      iv_max_config_index v = fold max (map fst classes) 0 \<and>
      iv_ended v = (current = None) \<and> \<not> iv_freezed v \<and>
      (current \<noteq> None \<longrightarrow> iv_start_index v = 1 + length (concat (map class_words classes)) \<and>
         fst (the current) \<notin> set (map fst classes)))"

lemma holds_clear: "vector_holds (InitVector_clear v) [] None"
  by (simp add: vector_holds_def InitVector_clear_def)

lemma holds_cleanup: "vector_holds v classes current \<Longrightarrow> vector_holds (InitVector_cleanup v) classes None"
  by (auto simp: vector_holds_def InitVector_cleanup_def)

lemma holds_start:
  assumes "vector_holds v classes current" and "c \<notin> set (map fst classes)"
  shows "fst (InitVector_start c raw v) = None \<and> vector_holds (snd (InitVector_start c raw v)) classes (Some (c, []))"
proof -
  have u: "vector_holds (if \<not> iv_ended v then InitVector_cleanup v else v) classes None"
    using assms(1) holds_cleanup [OF assms(1)] by (auto simp: InitVector_cleanup_def)
  have "c \<notin> set (iv_added v)" using assms by (auto simp: vector_holds_def)
  then show ?thesis
    using u assms(2) by (simp add: InitVector_start_def vector_holds_def class_words_def Let_def)
qed

lemma start_throws:
  "vector_holds v classes current \<Longrightarrow> c \<in> set (map fst classes) \<Longrightarrow>
   InitVector_start c raw v = (Some (Duplicated_identifier raw), v)"
  by (auto simp: InitVector_start_def vector_holds_def)

lemma increment_current:
  assumes "vector_holds v classes (Some (c, body))"
  shows "increment_at (iv_start_index v) (iv_data v) =
    word_of_nat (length classes) # concat (map class_words classes) @ (1 + word_of_nat (length body + 1)) # c # body"
  using assms by (simp add: vector_holds_def increment_at_def class_words_def list_update_append nth_append)

lemma holds_push_back:
  "vector_holds v classes (Some (c, body)) \<Longrightarrow> vector_holds (InitVector_push_back w v) classes (Some (c, body @ [w]))"
  using increment_current [of v classes c body]
  by (simp add: vector_holds_def InitVector_push_back_def class_words_def)

lemma holds_push_all:
  "vector_holds v classes (Some (c, body)) \<Longrightarrow>
   vector_holds (fold InitVector_push_back ws v) classes (Some (c, body @ ws))"
proof (induction ws arbitrary: v body)
  case (Cons w ws)
  from Cons.IH [OF holds_push_back [OF Cons.prems, of w]] show ?case by simp
qed simp

text \<open>A place in the body of the class that is being written.\<close>

definition body_index :: "(u32 \<times> u32 list) list \<Rightarrow> nat \<Rightarrow> nat" where
  "body_index classes i = length (concat (map class_words classes)) + 3 + i"

lemma size_body_index:
  "vector_holds v classes (Some (c, body)) \<Longrightarrow> InitVector_size v = body_index classes (length body)"
  by (simp add: vector_holds_def InitVector_size_def body_index_def class_words_def)

lemma holds_insert:
  assumes "vector_holds v classes (Some (c, body))" and "i \<le> length body"
  shows "vector_holds (InitVector_insert (body_index classes i) w v) classes (Some (c, take i body @ [w] @ drop i body))"
proof -
  have "take (length ps + 3 + i) (p # ps @ x # y # body) = p # ps @ x # y # take i body"
    "drop (length ps + 3 + i) (p # ps @ x # y # body) = drop i body" for p x y :: u32 and ps
    by (simp_all add: numeral_3_eq_3)
  with assms increment_current [OF assms(1)] show ?thesis
    by (simp add: vector_holds_def InitVector_insert_def class_words_def body_index_def Let_def)
qed

lemma holds_update:
  assumes "vector_holds v classes (Some (c, body))" and "i < length body"
  shows "vector_holds (InitVector_update (body_index classes i) w v) classes (Some (c, body[i := w]))"
proof -
  have "(p # ps @ x # y # body)[length ps + 3 + i := w] = p # ps @ x # y # body[i := w]" for p x y :: u32 and ps
    using assms(2) by (simp add: list_update_append numeral_3_eq_3)
  with assms show ?thesis
    by (simp add: vector_holds_def InitVector_update_def class_words_def body_index_def)
qed

lemma holds_end:
  assumes "vector_holds v classes (Some (c, body))"
  shows "vector_holds (InitVector_end v) (classes @ [(c, body)]) None"
proof -
  let ?ws = "concat (map class_words classes)"
  have d: "iv_data v = word_of_nat (length classes) # ?ws @ (1 + word_of_nat (length body)) # c # body"
    "iv_start_index v = 1 + length ?ws" "c \<notin> set (map fst classes)" "distinct (map fst classes)"
    "set (iv_added v) = set (map fst classes)" "iv_max_config_index v = fold max (map fst classes) 0" "\<not> iv_freezed v"
    using assms by (auto simp: vector_holds_def class_words_def)
  have "(increment_at 0 (iv_data v)) ! (iv_start_index v + 1) = c"
    using d by (simp add: increment_at_def nth_append)
  with d show ?thesis
    by (auto simp: vector_holds_def InitVector_end_def Let_def class_words_def increment_at_def max_def)
qed

end
