(* ===== verification/PqrsText.thy ===== *)
theory PqrsText
  imports Prelude "HOL-Library.Multiset"
begin

text \<open>
  The text functions of the settings compiler: \<^verbatim>\<open>pqrs/string.hpp\<close> with \<^verbatim>\<open>string.cpp\<close> and
  \<^verbatim>\<open>vector.cpp\<close>. The functions of the boost library they call are the components of the argument \<open>Boost\<close>.
\<close>

section \<open>Library functions\<close>

text \<open>
  \<open>trim\<close> and \<open>trim_left\<close> drop white space, \<open>replace_all\<close> and \<open>replace_first\<close> get the text, what to
  replace and by what, \<open>join\<close> puts a separator between texts; the casts read a whole text as an \<open>unsigned int\<close> of base ten, eight and sixteen.
\<close>

record Boost =
  bs_trim :: "string \<Rightarrow> string"
  bs_trim_left :: "string \<Rightarrow> string"
  bs_replace_all :: "string \<Rightarrow> string \<Rightarrow> string \<Rightarrow> string"
  bs_replace_first :: "string \<Rightarrow> string \<Rightarrow> string \<Rightarrow> string"
  bs_starts_with :: "string \<Rightarrow> string \<Rightarrow> bool"
  bs_ends_with :: "string \<Rightarrow> string \<Rightarrow> bool"
  bs_cast_decimal :: "string \<Rightarrow> 32 word option"
  bs_cast_octal :: "string \<Rightarrow> 32 word option"
  bs_cast_hexadecimal :: "string \<Rightarrow> 32 word option"
  bs_of_u32 :: "32 word \<Rightarrow> string"
  bs_join :: "string list \<Rightarrow> string \<Rightarrow> string"

section \<open>Numbers\<close>

text \<open>\<open>None\<close> also stands for the \<open>bad_lexical_cast\<close> that is caught. Reading past the end gives the terminator.\<close>

definition to_uint32_t :: "Boost \<Rightarrow> string \<Rightarrow> 32 word option" where
  "to_uint32_t boost str =
     (case str of
        [] \<Rightarrow> None
      | c # cs \<Rightarrow>
          if c = CHR ''0''
          then (if cs \<noteq> [] \<and> (hd cs = CHR ''x'' \<or> hd cs = CHR ''X'') then bs_cast_hexadecimal boost str
                else bs_cast_octal boost str)
          else bs_cast_decimal boost str)"

section \<open>Tokenizer\<close>

text \<open>
  The loop of \<open>split_removing_empty\<close> from index \<open>i\<close> on: the token, if there is one, and the new \<open>pos_\<close>.
\<close>

function split_loop :: "string \<Rightarrow> char \<Rightarrow> nat \<Rightarrow> nat \<Rightarrow> string option \<times> nat" where
  "split_loop str c pos i =
     (if i < length str
      then if str ! i = c
           then if i = pos then split_loop str c (pos + 1) (i + 1)
                else (Some (take (i - pos) (drop pos str)), i + 1)
           else split_loop str c pos (i + 1)
      else if pos < length str then (Some (drop pos str), length str)
      else (None, pos))"
  by pat_completeness auto
termination by (relation "measure (\<lambda>(str, c, pos, i). length str - i)") auto

declare split_loop.simps [simp del]

definition split_removing_empty :: "string \<Rightarrow> char \<Rightarrow> nat \<Rightarrow> string option \<times> nat" where
  "split_removing_empty str c pos = split_loop str c pos pos"

lemma split_loop_moves:
  "split_loop str c pos i = (Some out, p) \<Longrightarrow> pos \<le> i \<Longrightarrow> pos < p \<and> p \<le> length str"
proof (induction str c pos i rule: split_loop.induct)
  case (1 str c pos i)
  then show ?case by (subst (asm) (3) split_loop.simps) (fastforce split: if_splits)
qed

text \<open>The tokens that repeated calls give.\<close>

function tokens_from :: "string \<Rightarrow> char \<Rightarrow> nat \<Rightarrow> string list" where
  "tokens_from str c pos =
     (case split_removing_empty str c pos of
        (None, _) \<Rightarrow> []
      | (Some out, pos) \<Rightarrow> out # tokens_from str c pos)"
  by pat_completeness auto
termination
  by (relation "measure (\<lambda>(str, c, pos). length str - pos)")
    (auto simp: split_removing_empty_def dest!: sym [of "(Some _, _)"] split_loop_moves)

declare tokens_from.simps [simp del]

definition tokens :: "string \<Rightarrow> char \<Rightarrow> string list" where
  "tokens str c = tokens_from str c 0"

text \<open>The reference: cut the text at every separator and drop the empty pieces.\<close>

fun split_at :: "char \<Rightarrow> string \<Rightarrow> string list" where
  "split_at c [] = [[]]"
| "split_at c (x # xs) =
     (if x = c then [] # split_at c xs
      else case split_at c xs of p # ps \<Rightarrow> (x # p) # ps | [] \<Rightarrow> [])"

lemma split_at_not_Nil: "split_at c xs \<noteq> []"
  by (induction xs) (auto split: list.split)

lemma split_at_prefix:
  "c \<notin> set xs \<Longrightarrow> split_at c (xs @ ys) = (xs @ hd (split_at c ys)) # tl (split_at c ys)"
  by (induction xs) (auto simp: split_at_not_Nil)

lemma split_loop_word:
  assumes "pos \<le> i" and "i \<le> length str" and "c \<notin> set (take (i - pos) (drop pos str))"
  shows "filter (\<lambda>t. t \<noteq> []) (split_at c (drop pos str)) =
    (case split_loop str c pos i of
       (None, _) \<Rightarrow> []
     | (Some out, p) \<Rightarrow> out # filter (\<lambda>t. t \<noteq> []) (split_at c (drop p str)))"
  using assms
proof (induction str c pos i rule: split_loop.induct)
  case (1 str c pos i)
  let ?w = "take (i - pos) (drop pos str)"
  have cut: "drop pos str = ?w @ drop i str"
    using 1(3,4) append_take_drop_id [of "i - pos" "drop pos str"] by simp
  show ?case
  proof (cases "i < length str")
    case True
    have d: "drop i str = str ! i # drop (i + 1) str"
      using True by (simp add: Cons_nth_drop_Suc)
    consider (skip) "str ! i = c" "i = pos" | (token) "str ! i = c" "i \<noteq> pos" | (more) "str ! i \<noteq> c" by blast
    then show ?thesis
    proof cases
      case skip
      then show ?thesis
        using 1(1) [OF True skip] True d by (subst split_loop.simps) simp
    next
      case token
      have "?w \<noteq> []" using token 1(3) True by simp
      moreover have "split_at c (drop pos str) = ?w # split_at c (drop (i + 1) str)"
        by (subst cut, subst split_at_prefix [OF 1(5)]) (simp add: d token)
      moreover have "split_loop str c pos i = (Some ?w, i + 1)"
        using True token by (subst split_loop.simps) simp
      ultimately show ?thesis by simp
    next
      case more
      have "i + 1 - pos = Suc (i - pos)" using 1(3) by simp
      then have "take (i + 1 - pos) (drop pos str) = ?w @ [str ! i]"
        using True 1(3) by (simp add: take_Suc_conv_app_nth)
      then have "c \<notin> set (take (i + 1 - pos) (drop pos str))" using 1(5) more by simp
      then show ?thesis
        using 1(2) [OF True more] 1(3) True more by (subst split_loop.simps) simp
    qed
  next
    case False
    then have i: "i = length str" using 1(4) by simp
    have "split_at c (drop pos str) = [drop pos str]"
      using split_at_prefix [of c "drop pos str" "[]"] 1(5) i by simp
    with False i show ?thesis by (subst split_loop.simps) simp
  qed
qed

text \<open>
  C29: The tokens a tokenizer gives one after the other are the non-empty pieces of the text between the
  separators, in order.
\<close>

theorem tokens_split: "tokens str c = filter (\<lambda>t. t \<noteq> []) (split_at c str)"
proof -
  have "tokens_from str c pos = filter (\<lambda>t. t \<noteq> []) (split_at c (drop pos str))" if "pos \<le> length str" for pos
    using that
  proof (induction str c pos rule: tokens_from.induct)
    case (1 str c pos)
    obtain r p where s: "split_removing_empty str c pos = (r, p)" by fastforce
    then have l: "split_loop str c pos pos = (r, p)" by (simp add: split_removing_empty_def)
    show ?case
    proof (cases r)
      case (Some out)
      then have "p \<le> length str" using split_loop_moves l by blast
      from 1(1) [OF s [symmetric] Some this] show ?thesis
        using split_loop_word [of pos pos str c] 1(2) l s Some by (subst tokens_from.simps) simp
    next
      case None
      with split_loop_word [of pos pos str c] 1(2) l s show ?thesis by (subst tokens_from.simps) simp
    qed
  qed
  then show ?thesis by (simp add: tokens_def)
qed

section \<open>White space\<close>

definition remove_whitespaces :: "string \<Rightarrow> string" where
  "remove_whitespaces str = filter (\<lambda>c. c \<notin> {CHR '' '', CHR 0x0A, CHR 0x0D, CHR 0x09}) str"

section \<open>Replacing names in double curly braces\<close>

text \<open>
  \<open>None\<close> as the previous character is the zero at the start. Inside the braces the key is collected; the
  text behind braces that are not closed is lost.
\<close>

type_synonym replacement = "string \<Rightarrow> string option"

definition missing_replacement :: "string \<Rightarrow> string" where
  "missing_replacement key = ''Warning - '' @ [CHR 0x22] @ key @ [CHR 0x22] @ '' is not found in replacement.'' @ [CHR 0x0A]"

function replace_outside ::
    "Boost \<Rightarrow> replacement \<Rightarrow> char option \<Rightarrow> string \<Rightarrow> string \<Rightarrow> string \<Rightarrow> string \<times> string"
  and replace_inside ::
    "Boost \<Rightarrow> replacement \<Rightarrow> char option \<Rightarrow> string \<Rightarrow> string \<Rightarrow> string \<Rightarrow> string \<Rightarrow> string \<times> string"
where
  "replace_outside boost r previous out warnings [] = (out, warnings)"
| "replace_outside boost r previous out warnings (c # cs) =
     (if c = CHR ''{'' \<and> previous = Some (CHR ''{'')
      then replace_inside boost r previous [] (butlast out) warnings cs
      else replace_outside boost r (Some c) (out @ [c]) warnings cs)"
| "replace_inside boost r previous key out warnings [] = (out, warnings)"
| "replace_inside boost r previous key out warnings (c # cs) =
     (if c = CHR ''}'' \<and> previous = Some (CHR ''}'')
      then
        let key = bs_trim boost (butlast key)
        in case r key of
             Some value \<Rightarrow> replace_outside boost r previous (out @ value) warnings cs
           | None \<Rightarrow> replace_outside boost r previous out (warnings @ missing_replacement key) cs
      else replace_inside boost r (Some c) (key @ [c]) out warnings cs)"
  by pat_completeness auto
termination
  by (relation "measure (\<lambda>x. case x of Inl (_, _, _, _, _, cs) \<Rightarrow> length cs | Inr (_, _, _, _, _, _, cs) \<Rightarrow> length cs)") auto

definition string_by_replacing_double_curly_braces :: "Boost \<Rightarrow> replacement \<Rightarrow> string \<Rightarrow> string \<times> string" where
  "string_by_replacing_double_curly_braces boost r source = replace_outside boost r None [] [] source"

text \<open>A text without braces but for the names in it, as pieces of plain text and names.\<close>

datatype Piece = Plain string | Name string

fun piece_text :: "Piece \<Rightarrow> string" where
  "piece_text (Plain t) = t"
| "piece_text (Name n) = ''{{'' @ n @ ''}}''"

fun piece_ok :: "Piece \<Rightarrow> bool" where
  "piece_ok (Plain t) = (CHR ''{'' \<notin> set t)"
| "piece_ok (Name n) = (CHR ''}'' \<notin> set n)"

fun piece_value :: "Boost \<Rightarrow> replacement \<Rightarrow> Piece \<Rightarrow> string" where
  "piece_value boost r (Plain t) = t"
| "piece_value boost r (Name n) = (case r (bs_trim boost n) of Some v \<Rightarrow> v | None \<Rightarrow> [])"

fun piece_warning :: "Boost \<Rightarrow> replacement \<Rightarrow> Piece \<Rightarrow> string" where
  "piece_warning boost r (Plain t) = []"
| "piece_warning boost r (Name n) =
     (if r (bs_trim boost n) = None then missing_replacement (bs_trim boost n) else [])"

lemma replace_plain:
  "CHR ''{'' \<notin> set t \<Longrightarrow> previous \<noteq> Some (CHR ''{'') \<Longrightarrow>
   \<exists>q. q \<noteq> Some (CHR ''{'') \<and> replace_outside boost r previous out w (t @ rest) = replace_outside boost r q (out @ t) w rest"
proof (induction t arbitrary: previous out)
  case (Cons c t)
  from Cons.IH [of "Some c" "out @ [c]"] Cons.prems show ?case by auto
qed auto

lemma replace_key:
  "CHR ''}'' \<notin> set n \<Longrightarrow> previous \<noteq> Some (CHR ''}'') \<Longrightarrow>
   \<exists>q. replace_inside boost r previous key out w (n @ ''}}'' @ rest) =
     replace_inside boost r (Some (CHR ''}'')) (key @ n @ ''}'') out w (''}'' @ rest)"
proof (induction n arbitrary: previous key)
  case (Cons c n)
  from Cons.IH [of "Some c" "key @ [c]"] Cons.prems show ?case by auto
qed auto

lemma replace_piece:
  assumes "piece_ok p" and "previous \<noteq> Some (CHR ''{'')"
  shows "\<exists>q. q \<noteq> Some (CHR ''{'') \<and>
    replace_outside boost r previous out w (piece_text p @ rest) =
      replace_outside boost r q (out @ piece_value boost r p) (w @ piece_warning boost r p) rest"
proof (cases p)
  case (Plain t)
  with replace_plain assms show ?thesis by simp
next
  case (Name n)
  with assms replace_key [of n "Some (CHR ''{'')" boost r "[]" out w rest] show ?thesis
    by (auto simp: Let_def butlast_append intro!: exI [of _ "Some (CHR ''}'')"] split: option.split)
qed

text \<open>
  C31: Replacing copies plain text and puts the value of each name in its place; a name that is not
  known is dropped with a warning.
\<close>

theorem replaces_names:
  assumes "list_all piece_ok ps"
  shows "string_by_replacing_double_curly_braces boost r (concat (map piece_text ps)) =
    (concat (map (piece_value boost r) ps), concat (map (piece_warning boost r) ps))"
proof -
  have "replace_outside boost r previous out w (concat (map piece_text ps)) =
      (out @ concat (map (piece_value boost r) ps), w @ concat (map (piece_warning boost r) ps))"
    if "previous \<noteq> Some (CHR ''{'')" for previous out w
    using assms that
  proof (induction ps arbitrary: previous out w)
    case (Cons p ps)
    from replace_piece [of p previous boost r out w "concat (map piece_text ps)"] Cons show ?case by auto
  qed simp
  then show ?thesis by (simp add: string_by_replacing_double_curly_braces_def)
qed

text \<open>Library functions for the examples, for texts in which nothing is to be trimmed or replaced.\<close>

definition example_boost :: Boost where
  "example_boost =
     \<lparr>bs_trim = (\<lambda>s. s), bs_trim_left = (\<lambda>s. s), bs_replace_all = (\<lambda>s p r. s), bs_replace_first = (\<lambda>s p r. s),
      bs_starts_with = (\<lambda>s p. take (length p) s = p), bs_ends_with = (\<lambda>s p. take (length p) (rev s) = rev p),
      bs_cast_decimal = (\<lambda>s. Some (word_of_nat (of_char (hd s)))), bs_cast_octal = (\<lambda>_. None), bs_cast_hexadecimal = (\<lambda>_. None),
      bs_of_u32 = (\<lambda>w. replicate (unat w) (CHR ''I'')), bs_join = (\<lambda>xs c. concat xs)\<rparr>"

theorem replaces_names_witness:
  "string_by_replacing_double_curly_braces example_boost [''A'' \<mapsto> ''x''] ''a{{A}}{{B}}'' =
    (''ax'', missing_replacement ''B'')"
  using replaces_names [of "[Plain ''a'', Name ''A'', Name ''B'']" example_boost "[''A'' \<mapsto> ''x'']"]
  by (simp add: example_boost_def)

section \<open>Combinations\<close>

text \<open>\<open>v\<close> is the vector the caller passes; its content does not matter.\<close>

function make_combination :: "string list list \<Rightarrow> string list \<Rightarrow> nat \<Rightarrow> string list list" where
  "make_combination v seeds seeds_size =
     (if seeds_size = 0 then [[]]
      else
        let l = seeds ! (seeds_size - 1);
            v = make_combination v seeds (seeds_size - 1)
        in v @ map (\<lambda>copy. copy @ [l]) v)"
  by pat_completeness auto
termination by (relation "measure (\<lambda>(v, seeds, n). n)") auto

declare make_combination.simps [simp del]

text \<open>
  C30: \<open>make_combination\<close> gives every selection of the seeds exactly once, each in the order of the seeds,
  so there are two to the number of seeds.
\<close>

theorem make_combination_all:
  "mset (make_combination v seeds (length seeds)) = mset (subseqs seeds)"
proof -
  have snoc: "mset (subseqs (xs @ [x])) = mset (subseqs xs) + mset (map (\<lambda>ys. ys @ [x]) (subseqs xs))"
    for xs and x :: string
    by (induction xs) (simp_all add: Let_def image_mset.compositionality comp_def multiset.map_comp)
  have "n \<le> length seeds \<Longrightarrow> mset (make_combination v seeds n) = mset (subseqs (take n seeds))" for n
  proof (induction n)
    case (Suc n)
    then show ?case
      by (subst make_combination.simps) (simp add: Let_def take_Suc_conv_app_nth snoc)
  qed (simp add: make_combination.simps)
  from this [of "length seeds"] show ?thesis by simp
qed

end
