(* ===== verification/SettingsDefinitions.thy ===== *)
theory SettingsDefinitions
  imports SettingsVector PqrsText Bridge
begin

text \<open>
  The settings compiler, \<^verbatim>\<open>src/lib/xml_compiler\<close>, up to the definitions that settings use: the table of
  symbols and the loaders of symbols, modifiers, applications, window names, roles, devices, input
  sources, addresses and replacements. A loader walks over the tree of a settings file, in which the
  files that it includes are already in their places.
\<close>

unbundle bit_operations_syntax

section \<open>Trees\<close>

text \<open>A node has a tag name, its text, and the nodes inside; the attributes are children of a node of their own.\<close>

datatype Node = Node (get_tag_name: string) (get_data: string) (get_children: "Node list")

definition get_attribute :: "string \<Rightarrow> Node \<Rightarrow> string option" where
  "get_attribute name node =
     (case find (\<lambda>n. get_tag_name n = ''<xmlattr>'') (get_children node) of
        None \<Rightarrow> None
      | Some attributes \<Rightarrow> map_option get_data (find (\<lambda>n. get_tag_name n = name) (get_children attributes)))"

definition children_empty :: "Node \<Rightarrow> bool" where
  "children_empty node = (get_children node = [])"

text \<open>The loop that the loaders share: nodes with other tags are searched for definitions.\<close>

fun walk :: "(string \<Rightarrow> bool) \<Rightarrow> (Node \<Rightarrow> 's \<Rightarrow> 's step_result) \<Rightarrow> Node list \<Rightarrow> 's \<Rightarrow> 's step_result" where
  "walk is_definition load [] s = (None, s)"
| "walk is_definition load (Node tag data children # nodes) s =
     and_then
       (if is_definition tag then load (Node tag data children)
        else if children \<noteq> [] then walk is_definition load children else Pair None)
       (walk is_definition load nodes) s"

section \<open>Symbols\<close>

record SymbolMap =
  sm_symbols :: "string \<Rightarrow> u32 option"
  sm_names :: "string \<Rightarrow> string option"

abbreviation (input) AUTOINDEX_BEGIN :: string where "AUTOINDEX_BEGIN \<equiv> ''VK__AUTOINDEX__BEGIN__''"

definition scoped :: "string \<Rightarrow> string \<Rightarrow> string" where
  "scoped type name = type @ ''::'' @ name"

definition SymbolMap_clear :: "SymbolMap \<Rightarrow> SymbolMap" where
  "SymbolMap_clear m = m\<lparr>sm_symbols := [scoped ''ConfigIndex'' AUTOINDEX_BEGIN \<mapsto> 0], sm_names := Map.empty\<rparr>"

text \<open>\<open>std::string::find\<close>.\<close>

fun find_text :: "string \<Rightarrow> string \<Rightarrow> nat option" where
  "find_text p [] = (if p = [] then Some 0 else None)"
| "find_text p (x # xs) = (if take (length p) (x # xs) = p then Some 0 else map_option Suc (find_text p xs))"

definition SymbolMap_get_optional :: "Boost \<Rightarrow> string \<Rightarrow> SymbolMap \<Rightarrow> u32 option" where
  "SymbolMap_get_optional boost name m =
     (case sm_symbols m name of
        Some v \<Rightarrow> Some v
      | None \<Rightarrow>
          (case find_text ''::RawValue::'' name of
             Some found \<Rightarrow> to_uint32_t boost (drop (found + length ''::RawValue::'') name)
           | None \<Rightarrow> None))"

definition SymbolMap_add :: "Boost \<Rightarrow> string \<Rightarrow> string \<Rightarrow> u32 \<Rightarrow> SymbolMap \<Rightarrow> SymbolMap" where
  "SymbolMap_add boost type name value m =
     (let n = scoped type name;
          m = (if sm_symbols m n = None then m\<lparr>sm_symbols := (sm_symbols m)(n \<mapsto> value)\<rparr> else m);
          t = scoped type (bs_of_u32 boost value)
      in if name \<noteq> AUTOINDEX_BEGIN \<and> sm_names m t = None
         then m\<lparr>sm_names := (sm_names m)(t \<mapsto> n)\<rparr> else m)"

text \<open>The number for a new symbol, and the table with the symbol; \<open>None\<close> is a failed assertion.\<close>

definition SymbolMap_add_auto :: "Boost \<Rightarrow> string \<Rightarrow> string \<Rightarrow> SymbolMap \<Rightarrow> (u32 \<times> SymbolMap) option" where
  "SymbolMap_add_auto boost type name m =
     (let n = scoped type AUTOINDEX_BEGIN in
      case SymbolMap_get_optional boost n m of
        None \<Rightarrow> None
      | Some v \<Rightarrow>
          if v = - 1 then None
          else Some (v, SymbolMap_add boost type name v (m\<lparr>sm_symbols := (sm_symbols m)(n \<mapsto> v + 1)\<rparr>)))"

definition SymbolMap_get_name :: "Boost \<Rightarrow> string \<Rightarrow> u32 \<Rightarrow> SymbolMap \<Rightarrow> string option" where
  "SymbolMap_get_name boost type value m = sm_names m (scoped type (bs_of_u32 boost value))"

section \<open>State of the compiler\<close>

record Modifier =
  mo_name :: "string option"
  mo_notify :: bool

record App =
  ap_name :: "string option"
  ap_rules_equal :: "string list"
  ap_rules_prefix :: "string list"
  ap_rules_suffix :: "string list"

record WindowNameRule =
  wn_name :: "string option"
  wn_rules_regex :: "string list"

record InputSourceRule =
  is_name :: "string option"
  is_rules_languagecode :: "string list"
  is_rules_inputsourceid_equal :: "string list"
  is_rules_inputsourceid_prefix :: "string list"
  is_rules_inputmodeid_equal :: "string list"
  is_rules_inputmodeid_prefix :: "string list"

record Url =
  ur_name :: "string option"
  ur_url :: "string option"
  ur_type :: "string option"
  ur_background :: bool

text \<open>
  \<open>co_errors\<close> are the messages of \<open>error_information_\<close>, in order; it keeps the first and counts them. The
  unordered maps from key codes and modifiers are association lists without duplicate keys.
\<close>

record Compiler =
  co_errors :: "CompileError list"
  co_symbols :: SymbolMap
  co_vector :: InitVector
  co_identifiers :: "u32 \<Rightarrow> string option"
  co_filter :: "u32 list"
  co_simultaneous_keycode_index :: u32
  co_modifiers :: "(u32 \<times> Modifier) list"
  co_apps :: "App list"
  co_window_names :: "WindowNameRule list"
  co_vk_change_inputsource :: "(u32 \<times> InputSourceRule) list"
  co_inputsources :: "InputSourceRule list"
  co_vk_open_url :: "(u32 \<times> Url) list"
  co_replacement :: replacement

type_synonym step = "Compiler \<Rightarrow> Compiler step_result"

definition error_information_set :: "CompileError \<Rightarrow> step" where
  "error_information_set message s = (None, s\<lparr>co_errors := co_errors s @ [message]\<rparr>)"

definition get_symbol :: "Boost \<Rightarrow> string \<Rightarrow> (u32 \<Rightarrow> step) \<Rightarrow> step" where
  "get_symbol boost name next s =
     (case SymbolMap_get_optional boost name (co_symbols s) of
        None \<Rightarrow> (Some (Unknown_symbol name), s)
      | Some v \<Rightarrow> next v s)"

definition add_auto_symbol :: "Boost \<Rightarrow> string \<Rightarrow> string \<Rightarrow> (u32 \<Rightarrow> step) \<Rightarrow> step" where
  "add_auto_symbol boost type name next s =
     (case SymbolMap_add_auto boost type name (co_symbols s) of
        None \<Rightarrow> (Some Assertion_failed, s)
      | Some (v, m) \<Rightarrow> next v (s\<lparr>co_symbols := m\<rparr>))"

definition add_symbol_value :: "Boost \<Rightarrow> string \<Rightarrow> string \<Rightarrow> u32 \<Rightarrow> step" where
  "add_symbol_value boost type name value s = (None, s\<lparr>co_symbols := SymbolMap_add boost type name value (co_symbols s)\<rparr>)"

definition on_vector :: "(InitVector \<Rightarrow> InitVector) \<Rightarrow> step" where
  "on_vector f s = (None, s\<lparr>co_vector := f (co_vector s)\<rparr>)"

definition vector_push :: "u32 \<Rightarrow> step" where
  "vector_push w = on_vector (InitVector_push_back w)"

definition vector_start :: "u32 \<Rightarrow> string \<Rightarrow> step" where
  "vector_start config_index raw_identifier s =
     (let (e, v) = InitVector_start config_index raw_identifier (co_vector s) in (e, s\<lparr>co_vector := v\<rparr>))"

text \<open>An entry with a string in it: its size is filled in when the string has been written.\<close>

definition vector_push_entry :: "u32 list \<Rightarrow> string \<Rightarrow> step" where
  "vector_push_entry words text s =
     (let v = co_vector s;
          index = InitVector_size v;
          v = fold InitVector_push_back words (InitVector_push_back 0 v);
          (count, v) = InitVector_push_string (map of_char text) v
      in (None, s\<lparr>co_vector := InitVector_update index (word_of_nat (count + length words)) v\<rparr>))"

definition map_set :: "'a \<Rightarrow> 'b \<Rightarrow> ('a \<times> 'b) list \<Rightarrow> ('a \<times> 'b) list" where
  "map_set k v m = filter (\<lambda>e. fst e \<noteq> k) m @ [(k, v)]"

definition normalize_identifier :: "Boost \<Rightarrow> string \<Rightarrow> string" where
  "normalize_identifier boost identifier = bs_replace_all boost (remove_whitespaces identifier) ''.'' ''_''"

section \<open>Loaders\<close>

subsection \<open>Symbols\<close>

fun symbol_map_attributes :: "string list \<Rightarrow> Node \<Rightarrow> (string list \<Rightarrow> step) \<Rightarrow> string list \<Rightarrow> step" where
  "symbol_map_attributes [] node next vec = next vec"
| "symbol_map_attributes (attrname # names) node next vec =
     (case get_attribute attrname node of
        None \<Rightarrow> and_then (error_information_set (No_attribute attrname)) (next vec)
      | Some v \<Rightarrow>
          let value = remove_whitespaces v
          in if value = []
             then and_then (error_information_set (Empty_attribute attrname)) (symbol_map_attributes names node next vec)
             else symbol_map_attributes names node next (vec @ [value]))"

definition symbol_map_definition :: "Boost \<Rightarrow> Node \<Rightarrow> step" where
  "symbol_map_definition boost node =
     symbol_map_attributes [''type'', ''name'', ''value''] node
       (\<lambda>vec. if length vec \<noteq> 3 then Pair None
              else case to_uint32_t boost (vec ! 2) of
                None \<Rightarrow> error_information_set (Invalid_symbol (vec ! 0) (vec ! 1) (vec ! 2))
              | Some value \<Rightarrow> add_symbol_value boost (vec ! 0) (vec ! 1) value) []"

definition symbol_map_loader_traverse :: "Boost \<Rightarrow> Node list \<Rightarrow> step" where
  "symbol_map_loader_traverse boost = walk (\<lambda>tag. tag = ''symbol_map'') (symbol_map_definition boost)"

subsection \<open>Modifiers\<close>

definition modifier_definition :: "Boost \<Rightarrow> Node \<Rightarrow> step" where
  "modifier_definition boost node s =
     (let name = get_data node;
          register = (\<lambda>notify.
            if name = [] then error_information_set (Empty_tag ''modifierdef'')
            else if SymbolMap_get_optional boost (scoped ''ModifierFlag'' name) (co_symbols s) = None
            then add_auto_symbol boost ''ModifierFlag'' name
                   (\<lambda>v s. (None, s\<lparr>co_modifiers := map_set v \<lparr>mo_name = Some name, mo_notify = notify\<rparr> (co_modifiers s)\<rparr>))
            else Pair None)
      in case get_attribute ''notify'' node of
           None \<Rightarrow> register True s
         | Some v \<Rightarrow>
             if v = ''false'' then register False s
             else if v = ''true'' then register True s
             else error_information_set (Invalid_notify v) s)"

definition modifier_loader_traverse :: "Boost \<Rightarrow> Node list \<Rightarrow> step" where
  "modifier_loader_traverse boost = walk (\<lambda>tag. tag = ''modifierdef'') (modifier_definition boost)"

definition modifier_keycodes :: "string \<Rightarrow> string list" where
  "modifier_keycodes name =
     [''VK_MODIFIER_'' @ name, ''VK_LOCK_'' @ name, ''VK_LOCK_'' @ name @ ''_FORCE_ON'', ''VK_LOCK_'' @ name @ ''_FORCE_OFF'',
      ''VK_NEGATIVE_LOCK_'' @ name, ''VK_NEGATIVE_LOCK_'' @ name @ ''_FORCE_ON'', ''VK_NEGATIVE_LOCK_'' @ name @ ''_FORCE_OFF'',
      ''VK_STICKY_'' @ name, ''VK_STICKY_'' @ name @ ''_FORCE_ON'', ''VK_STICKY_'' @ name @ ''_FORCE_OFF'']"

definition modifier_entry :: "Boost \<Rightarrow> u32 \<times> Modifier \<Rightarrow> step" where
  "modifier_entry boost = (\<lambda>(flag, modifier).
     case mo_name modifier of
       None \<Rightarrow> Pair None
     | Some name \<Rightarrow>
         and_then (for_each vector_push [12, BRIDGE_VK_MODIFIER, flag])
           (and_then (for_each (\<lambda>k. add_auto_symbol boost ''KeyCode'' k vector_push) (modifier_keycodes name))
             (if mo_notify modifier then vector_push_entry [BRIDGE_MODIFIERNAME, flag] name else Pair None)))"

text \<open>
  The destructors of three loaders write a class. \<open>entries\<close> are the entries of the unordered map in
  the order it is walked; an exception there fails an assertion.
\<close>

definition write_class :: "Boost \<Rightarrow> string \<Rightarrow> ('a \<Rightarrow> step) \<Rightarrow> 'a list \<Rightarrow> step" where
  "write_class boost raw_identifier write entries =
     add_auto_symbol boost ''ConfigIndex'' (normalize_identifier boost raw_identifier)
       (\<lambda>config_index s.
          let (e, s) =
            and_then (vector_start config_index raw_identifier)
              (and_then (for_each write entries) (on_vector InitVector_end))
              (s\<lparr>co_identifiers := (co_identifiers s)(config_index \<mapsto> raw_identifier)\<rparr>)
          in (if e = None then None else Some Assertion_failed, s))"

definition modifier_loader_delete :: "Boost \<Rightarrow> (u32 \<times> Modifier) list \<Rightarrow> step" where
  "modifier_loader_delete boost = write_class boost ''system.vk_modifier_definition'' (modifier_entry boost)"

subsection \<open>Applications\<close>

definition add_rule :: "string \<Rightarrow> string list \<Rightarrow> string list" where
  "add_rule v rules = (if v \<noteq> [] then rules @ [v] else rules)"

definition app_child :: "Boost \<Rightarrow> Node \<Rightarrow> App \<Rightarrow> App" where
  "app_child boost child app =
     (let tag = get_tag_name child; data = get_data child in
      if tag = ''appname'' then app\<lparr>ap_name := Some (remove_whitespaces data)\<rparr>
      else if tag = ''equal'' then app\<lparr>ap_rules_equal := add_rule (bs_trim boost data) (ap_rules_equal app)\<rparr>
      else if tag = ''prefix'' then app\<lparr>ap_rules_prefix := add_rule (bs_trim boost data) (ap_rules_prefix app)\<rparr>
      else if tag = ''suffix'' then app\<lparr>ap_rules_suffix := add_rule (bs_trim boost data) (ap_rules_suffix app)\<rparr>
      else app)"

definition app_exists :: "string \<Rightarrow> Compiler \<Rightarrow> bool" where
  "app_exists name s = list_ex (\<lambda>a. ap_name a = Some name) (co_apps s)"

definition app_definition :: "Boost \<Rightarrow> Node \<Rightarrow> step" where
  "app_definition boost node s =
     (let newapp = fold (app_child boost) (get_children node)
            \<lparr>ap_name = None, ap_rules_equal = [], ap_rules_prefix = [], ap_rules_suffix = []\<rparr>
      in case ap_name newapp of
           None \<Rightarrow> error_information_set (No_child ''appname'' ''appdef'') s
         | Some name \<Rightarrow>
             if name = [] then error_information_set (Empty_child ''appname'' ''appdef'') s
             else if app_exists name s then (None, s)
             else add_auto_symbol boost ''ApplicationType'' name (\<lambda>_ s. (None, s\<lparr>co_apps := co_apps s @ [newapp]\<rparr>)) s)"

definition app_loader_traverse :: "Boost \<Rightarrow> Node list \<Rightarrow> step" where
  "app_loader_traverse boost = walk (\<lambda>tag. tag = ''appdef'') (app_definition boost)"

definition app_is_rules_matched :: "Boost \<Rightarrow> string \<Rightarrow> App \<Rightarrow> bool" where
  "app_is_rules_matched boost identifier app =
     (identifier \<in> set (ap_rules_equal app) \<or>
      list_ex (bs_starts_with boost identifier) (ap_rules_prefix app) \<or>
      list_ex (bs_ends_with boost identifier) (ap_rules_suffix app))"

text \<open>The number of an application whose rules match, from the index of its definition.\<close>

definition is_app_matched :: "Boost \<Rightarrow> nat \<Rightarrow> string \<Rightarrow> Compiler \<Rightarrow> u32 option" where
  "is_app_matched boost index identifier s =
     (if index \<ge> length (co_apps s) then None
      else
        let item = co_apps s ! index in
        if \<not> app_is_rules_matched boost identifier item then None
        else case ap_name item of
          None \<Rightarrow> None
        | Some name \<Rightarrow> SymbolMap_get_optional boost (scoped ''ApplicationType'' name) (co_symbols s))"

subsection \<open>Window names and roles\<close>

text \<open>
  Making a \<open>std::regex\<close> throws for a text that is no regular expression; \<open>is_regex\<close> tells which ones are. This
  exception is not caught by the loader.
\<close>

fun window_name_children :: "Boost \<Rightarrow> (string \<Rightarrow> bool) \<Rightarrow> Node list \<Rightarrow> (WindowNameRule \<Rightarrow> step) \<Rightarrow> WindowNameRule \<Rightarrow> step" where
  "window_name_children boost is_regex [] next w = next w"
| "window_name_children boost is_regex (child # children) next w =
     (if get_tag_name child = ''name''
      then window_name_children boost is_regex children next (w\<lparr>wn_name := Some (remove_whitespaces (get_data child))\<rparr>)
      else if get_tag_name child = ''regex''
      then
        let regex = bs_trim boost (get_data child)
        in if regex \<noteq> [] \<and> \<not> is_regex regex then Pair (Some (Invalid_regex regex))
           else window_name_children boost is_regex children next (w\<lparr>wn_rules_regex := add_rule regex (wn_rules_regex w)\<rparr>)
      else window_name_children boost is_regex children next w)"

definition window_name_definition :: "Boost \<Rightarrow> (string \<Rightarrow> bool) \<Rightarrow> Node \<Rightarrow> step" where
  "window_name_definition boost is_regex node =
     window_name_children boost is_regex (get_children node)
       (\<lambda>w. case wn_name w of
          None \<Rightarrow> error_information_set (No_child ''name'' ''windownamedef'')
        | Some name \<Rightarrow>
            if name = [] then error_information_set (Empty_child ''name'' ''windownamedef'')
            else add_auto_symbol boost ''WindowName'' name
                   (\<lambda>_ s. (None, s\<lparr>co_window_names := co_window_names s @ [w]\<rparr>)))
       \<lparr>wn_name = None, wn_rules_regex = []\<rparr>"

definition window_name_loader_traverse :: "Boost \<Rightarrow> (string \<Rightarrow> bool) \<Rightarrow> Node list \<Rightarrow> step" where
  "window_name_loader_traverse boost is_regex =
     walk (\<lambda>tag. tag = ''windownamedef'') (window_name_definition boost is_regex)"

text \<open>\<open>search\<close> is the search for a regular expression.\<close>

definition window_name_is_rules_matched :: "(string \<Rightarrow> string \<Rightarrow> bool) \<Rightarrow> string \<Rightarrow> WindowNameRule \<Rightarrow> bool" where
  "window_name_is_rules_matched search window_name w = list_ex (search window_name) (wn_rules_regex w)"

definition is_window_name_matched ::
  "Boost \<Rightarrow> (string \<Rightarrow> string \<Rightarrow> bool) \<Rightarrow> nat \<Rightarrow> string \<Rightarrow> Compiler \<Rightarrow> u32 option"
where
  "is_window_name_matched boost search index window_name s =
     (if index \<ge> length (co_window_names s) then None
      else
        let item = co_window_names s ! index in
        if \<not> window_name_is_rules_matched search window_name item then None
        else case wn_name item of
          None \<Rightarrow> None
        | Some name \<Rightarrow> SymbolMap_get_optional boost (scoped ''WindowName'' name) (co_symbols s))"

definition ui_element_role_definition :: "Boost \<Rightarrow> Node \<Rightarrow> step" where
  "ui_element_role_definition boost node =
     (let name = remove_whitespaces (get_data node) in
      if name = [] then error_information_set (Empty_tag ''uielementroledef'')
      else add_auto_symbol boost ''UIElementRole'' name (\<lambda>_. Pair None))"

definition ui_element_role_loader_traverse :: "Boost \<Rightarrow> Node list \<Rightarrow> step" where
  "ui_element_role_loader_traverse boost = walk (\<lambda>tag. tag = ''uielementroledef'') (ui_element_role_definition boost)"

subsection \<open>Devices\<close>

definition last_child :: "string \<Rightarrow> Node \<Rightarrow> string option" where
  "last_child tag node = map_option get_data (find (\<lambda>n. get_tag_name n = tag) (rev (get_children node)))"

definition device_definition :: "Boost \<Rightarrow> Node \<Rightarrow> step" where
  "device_definition boost node =
     (let tag = get_tag_name node;
          (type, name_tag_name, value_tag_name) =
            (if tag = ''devicevendordef'' then (''DeviceVendor'', ''vendorname'', ''vendorid'')
             else if tag = ''deviceproductdef'' then (''DeviceProduct'', ''productname'', ''productid'')
             else (''DeviceLocation'', ''locationname'', ''locationid''));
          name = map_option remove_whitespaces (last_child name_tag_name node);
          value = map_option (bs_trim boost) (last_child value_tag_name node)
      in case name of
           None \<Rightarrow> error_information_set (No_child name_tag_name tag)
         | Some name \<Rightarrow>
             if name = [] then error_information_set (Empty_child name_tag_name tag)
             else case value of
               None \<Rightarrow> error_information_set (No_child value_tag_name tag)
             | Some value \<Rightarrow>
                 if value = [] then error_information_set (Empty_child value_tag_name tag)
                 else case to_uint32_t boost value of
                   None \<Rightarrow> error_information_set (Invalid_child value_tag_name tag value)
                 | Some v \<Rightarrow> add_symbol_value boost type name v)"

definition device_loader_traverse :: "Boost \<Rightarrow> Node list \<Rightarrow> step" where
  "device_loader_traverse boost =
     walk (\<lambda>tag. tag = ''devicevendordef'' \<or> tag = ''deviceproductdef'' \<or> tag = ''devicelocationdef'')
       (device_definition boost)"

subsection \<open>Input sources\<close>

definition input_source_child :: "Boost \<Rightarrow> Node \<Rightarrow> InputSourceRule \<Rightarrow> InputSourceRule" where
  "input_source_child boost child i =
     (let tag = get_tag_name child; data = bs_trim boost (get_data child) in
      if tag = ''name'' then i\<lparr>is_name := Some (remove_whitespaces (get_data child))\<rparr>
      else if tag = ''languagecode'' then i\<lparr>is_rules_languagecode := add_rule data (is_rules_languagecode i)\<rparr>
      else if tag = ''inputsourceid_equal''
      then i\<lparr>is_rules_inputsourceid_equal := add_rule data (is_rules_inputsourceid_equal i)\<rparr>
      else if tag = ''inputsourceid_prefix''
      then i\<lparr>is_rules_inputsourceid_prefix := add_rule data (is_rules_inputsourceid_prefix i)\<rparr>
      else if tag = ''inputmodeid_equal''
      then i\<lparr>is_rules_inputmodeid_equal := add_rule data (is_rules_inputmodeid_equal i)\<rparr>
      else if tag = ''inputmodeid_prefix''
      then i\<lparr>is_rules_inputmodeid_prefix := add_rule data (is_rules_inputmodeid_prefix i)\<rparr>
      else i)"

text \<open>The names in a definition that do not start as they must.\<close>

definition misnamed :: "Boost \<Rightarrow> string \<Rightarrow> Node \<Rightarrow> string list" where
  "misnamed boost prefix node =
     filter (\<lambda>name. \<not> bs_starts_with boost name prefix)
       (map (remove_whitespaces \<circ> get_data) (filter (\<lambda>n. get_tag_name n = ''name'') (get_children node)))"

definition input_source_definition :: "Boost \<Rightarrow> Node \<Rightarrow> step" where
  "input_source_definition boost node s =
     (let tag = get_tag_name node;
          vk = (tag = ''vkchangeinputsourcedef'');
          i = fold (input_source_child boost) (get_children node)
                \<lparr>is_name = None, is_rules_languagecode = [], is_rules_inputsourceid_equal = [],
                 is_rules_inputsourceid_prefix = [], is_rules_inputmodeid_equal = [], is_rules_inputmodeid_prefix = []\<rparr>;
          wrong = (if vk then misnamed boost ''KeyCode::VK_CHANGE_INPUTSOURCE_'' node else [])
      in if wrong \<noteq> [] then for_each (\<lambda>name. error_information_set (Wrong_prefix tag name)) wrong s
         else case is_name i of
           None \<Rightarrow> error_information_set (No_child ''name'' tag) s
         | Some name \<Rightarrow>
             if name = [] then error_information_set (Empty_child ''name'' tag) s
             else if vk
             then
               (if SymbolMap_get_optional boost name (co_symbols s) = None
                then add_auto_symbol boost ''KeyCode'' (bs_replace_first boost name ''KeyCode::'' [])
                       (\<lambda>keycode s. (None, s\<lparr>co_vk_change_inputsource := map_set keycode i (co_vk_change_inputsource s)\<rparr>)) s
                else (None, s))
             else add_auto_symbol boost ''InputSource'' name (\<lambda>_ s. (None, s\<lparr>co_inputsources := co_inputsources s @ [i]\<rparr>)) s)"

definition input_source_loader_traverse :: "Boost \<Rightarrow> Node list \<Rightarrow> step" where
  "input_source_loader_traverse boost =
     walk (\<lambda>tag. tag = ''vkchangeinputsourcedef'' \<or> tag = ''inputsourcedef'') (input_source_definition boost)"

definition vk_entry :: "u32 \<Rightarrow> u32 \<times> 'a \<Rightarrow> step" where
  "vk_entry type = (\<lambda>(keycode, _). for_each vector_push [2, type, keycode])"

definition input_source_loader_delete :: "Boost \<Rightarrow> (u32 \<times> InputSourceRule) list \<Rightarrow> step" where
  "input_source_loader_delete boost =
     write_class boost ''system.vk_change_inputsource_definition'' (vk_entry BRIDGE_VK_CHANGE_INPUTSOURCE)"

definition input_source_is_rules_matched :: "Boost \<Rightarrow> string \<Rightarrow> string \<Rightarrow> string \<Rightarrow> InputSourceRule \<Rightarrow> bool" where
  "input_source_is_rules_matched boost languagecode inputsourceid inputmodeid i =
     (languagecode \<in> set (is_rules_languagecode i) \<or>
      inputsourceid \<in> set (is_rules_inputsourceid_equal i) \<or>
      list_ex (bs_starts_with boost inputsourceid) (is_rules_inputsourceid_prefix i) \<or>
      inputmodeid \<in> set (is_rules_inputmodeid_equal i) \<or>
      list_ex (bs_starts_with boost inputmodeid) (is_rules_inputmodeid_prefix i))"

definition is_inputsource_matched :: "Boost \<Rightarrow> nat \<Rightarrow> string \<Rightarrow> string \<Rightarrow> string \<Rightarrow> Compiler \<Rightarrow> u32 option" where
  "is_inputsource_matched boost index languagecode inputsourceid inputmodeid s =
     (if index \<ge> length (co_inputsources s) then None
      else
        let item = co_inputsources s ! index in
        if \<not> input_source_is_rules_matched boost languagecode inputsourceid inputmodeid item then None
        else case is_name item of
          None \<Rightarrow> None
        | Some name \<Rightarrow> SymbolMap_get_optional boost (scoped ''InputSource'' name) (co_symbols s))"

definition is_vk_change_inputsource_matched :: "Boost \<Rightarrow> u32 \<Rightarrow> string \<Rightarrow> string \<Rightarrow> string \<Rightarrow> Compiler \<Rightarrow> bool" where
  "is_vk_change_inputsource_matched boost keycode languagecode inputsourceid inputmodeid s =
     (case map_of (co_vk_change_inputsource s) keycode of
        None \<Rightarrow> False
      | Some i \<Rightarrow> input_source_is_rules_matched boost languagecode inputsourceid inputmodeid i)"

subsection \<open>Addresses\<close>

definition url_child :: "Boost \<Rightarrow> Node \<Rightarrow> Url \<Rightarrow> Url" where
  "url_child boost child u =
     (let tag = get_tag_name child in
      if tag = ''name'' then u\<lparr>ur_name := Some (remove_whitespaces (get_data child))\<rparr>
      else if tag = ''url''
      then
        let u = u\<lparr>ur_url := Some (bs_trim boost (get_data child))\<rparr>
        in case get_attribute ''type'' child of
             None \<Rightarrow> u
           | Some type \<Rightarrow> u\<lparr>ur_type := Some (bs_trim boost type)\<rparr>
      else if tag = ''background'' then u\<lparr>ur_background := True\<rparr>
      else u)"

definition url_definition :: "Boost \<Rightarrow> Node \<Rightarrow> step" where
  "url_definition boost node s =
     (let tag = get_tag_name node;
          u = fold (url_child boost) (get_children node) \<lparr>ur_name = None, ur_url = None, ur_type = None, ur_background = False\<rparr>;
          wrong = misnamed boost ''KeyCode::VK_OPEN_URL_'' node
      in if wrong \<noteq> [] then for_each (\<lambda>name. error_information_set (Wrong_prefix tag name)) wrong s
         else case ur_name u of
           None \<Rightarrow> error_information_set (No_child ''name'' tag) s
         | Some name \<Rightarrow>
             if name = [] then error_information_set (Empty_child ''name'' tag) s
             else case ur_url u of
               None \<Rightarrow> error_information_set (No_child ''url'' tag) s
             | Some url \<Rightarrow>
                 if url = [] then error_information_set (Empty_child ''url'' tag) s
                 else if SymbolMap_get_optional boost name (co_symbols s) = None
                 then add_auto_symbol boost ''KeyCode'' (bs_replace_first boost name ''KeyCode::'' [])
                        (\<lambda>keycode s. (None, s\<lparr>co_vk_open_url := map_set keycode u (co_vk_open_url s)\<rparr>)) s
                 else (None, s))"

definition url_loader_traverse :: "Boost \<Rightarrow> Node list \<Rightarrow> step" where
  "url_loader_traverse boost = walk (\<lambda>tag. tag = ''vkopenurldef'') (url_definition boost)"

definition url_loader_delete :: "Boost \<Rightarrow> (u32 \<times> Url) list \<Rightarrow> step" where
  "url_loader_delete boost = write_class boost ''system.vk_open_url_definition'' (vk_entry BRIDGE_VK_OPEN_URL)"

definition get_url :: "u32 \<Rightarrow> Compiler \<Rightarrow> string option" where
  "get_url keycode s = Option.bind (map_of (co_vk_open_url s) keycode) ur_url"

definition get_url_type :: "u32 \<Rightarrow> Compiler \<Rightarrow> string option" where
  "get_url_type keycode s = Option.bind (map_of (co_vk_open_url s) keycode) ur_type"

definition get_url_background :: "u32 \<Rightarrow> Compiler \<Rightarrow> bool" where
  "get_url_background keycode s =
     (case map_of (co_vk_open_url s) keycode of None \<Rightarrow> False | Some u \<Rightarrow> ur_background u)"

subsection \<open>Replacements\<close>

text \<open>A name with a brace in it is reported, but registered all the same.\<close>

definition replacement_definition :: "Node \<Rightarrow> step" where
  "replacement_definition node =
     (case last_child ''replacementname'' node of
        None \<Rightarrow> error_information_set (No_child ''replacementname'' ''replacementdef'')
      | Some name \<Rightarrow>
          if name = [] then error_information_set (Empty_child ''replacementname'' ''replacementdef'')
          else
            and_then
              (if CHR ''{'' \<in> set name \<or> CHR ''}'' \<in> set name then error_information_set (Braces_in_name name) else Pair None)
              (case last_child ''replacementvalue'' node of
                 None \<Rightarrow> error_information_set (No_child ''replacementvalue'' name)
               | Some value \<Rightarrow>
                   (\<lambda>s. (None, if co_replacement s name = None
                               then s\<lparr>co_replacement := (co_replacement s)(name \<mapsto> value)\<rparr> else s))))"

definition replacement_loader_traverse :: "Node list \<Rightarrow> step" where
  "replacement_loader_traverse = walk (\<lambda>tag. tag = ''replacementdef'') replacement_definition"

definition append_environments_to_replacement :: "string option \<Rightarrow> string \<Rightarrow> replacement \<Rightarrow> replacement" where
  "append_environments_to_replacement home system_xml_directory r =
     (let r = (if r ''ENV_HOME'' = None
               then r(''ENV_HOME'' \<mapsto> (case home of None \<Rightarrow> [] | Some p \<Rightarrow> p)) else r)
      in if r ''ENV_Karabiner_Resources'' = None then r(''ENV_Karabiner_Resources'' \<mapsto> system_xml_directory) else r)"

end
