(* ===== verification/SettingsCompiler.thy ===== *)
theory SettingsCompiler
  imports SettingsDefinitions
begin

text \<open>
  The part of the settings compiler that writes the remap classes: the filters of a setting
  (\<^verbatim>\<open>xml_compiler+filter_vector.cpp\<close>), the expansion of the short forms in an \<open>autogen\<close> element, and the
  translation of what is left into an entry of the vector
  (\<^verbatim>\<open>xml_compiler+remapclasses_initialize_vector_loader.cpp\<close>).
\<close>

section \<open>Types of values\<close>

definition get_datatype :: "Boost \<Rightarrow> string \<Rightarrow> u32" where
  "get_datatype boost s =
     (let starts = bs_starts_with boost s in
      if starts ''KeyCode::'' then BRIDGE_DATATYPE_KEYCODE
      else if starts ''ModifierFlag::'' then BRIDGE_DATATYPE_MODIFIERFLAG
      else if starts ''ConsumerKeyCode::'' then BRIDGE_DATATYPE_CONSUMERKEYCODE
      else if starts ''PointingButton::'' then BRIDGE_DATATYPE_POINTINGBUTTON
      else if starts ''ScrollWheel::'' then BRIDGE_DATATYPE_SCROLLWHEEL
      else if starts ''PointingRelative::'' then BRIDGE_DATATYPE_POINTINGRELATIVE
      else if starts ''KeyboardType::'' then BRIDGE_DATATYPE_KEYBOARDTYPE
      else if starts ''DeviceVendor::'' then BRIDGE_DATATYPE_DEVICEVENDOR
      else if starts ''DeviceProduct::'' then BRIDGE_DATATYPE_DEVICEPRODUCT
      else if starts ''DeviceLocation::'' then BRIDGE_DATATYPE_DEVICELOCATION
      else if starts ''Option::'' then BRIDGE_DATATYPE_OPTION
      else if starts ''Millisecond::'' then BRIDGE_DATATYPE_MILLISECOND
      else if starts ''DelayUntilRepeat::'' then BRIDGE_DATATYPE_DELAYUNTILREPEAT
      else if starts ''KeyRepeat::'' then BRIDGE_DATATYPE_KEYREPEAT
      else if starts ''ThresholdMillisecond::'' then BRIDGE_DATATYPE_THRESHOLDMILLISECOND
      else if starts ''Count::'' then BRIDGE_DATATYPE_COUNT
      else if starts ''EventType::'' then BRIDGE_DATATYPE_EVENTTYPE
      else BRIDGE_DATATYPE_NONE)"

section \<open>Filters\<close>

text \<open>The state of the loops is the vector and the variable \<open>count\<close>.\<close>

type_synonym counted_words = "u32 list \<times> u32"

definition filter_push :: "u32 \<Rightarrow> counted_words \<Rightarrow> counted_words step_result" where
  "filter_push w = (\<lambda>(data, count). (None, data @ [w], count + 1))"

definition filter_push_symbol :: "Boost \<Rightarrow> SymbolMap \<Rightarrow> string \<Rightarrow> counted_words \<Rightarrow> counted_words step_result" where
  "filter_push_symbol boost symbols name =
     (case SymbolMap_get_optional boost name symbols of
        None \<Rightarrow> Pair (Some (Unknown_symbol name))
      | Some v \<Rightarrow> filter_push v)"

text \<open>A device is three values; the ones left out at the end are filled in.\<close>

definition fill_omitted_device_specifying :: "Boost \<Rightarrow> SymbolMap \<Rightarrow> counted_words \<Rightarrow> counted_words step_result" where
  "fill_omitted_device_specifying boost symbols = (\<lambda>(data, count).
     let location = filter_push_symbol boost symbols ''DeviceLocation::ANY'' in
     if (count - 1) mod 3 = 0 then (None, data, count)
     else if (count - 1) mod 3 = 1
     then and_then (filter_push_symbol boost symbols ''DeviceProduct::ANY'') location (data, count)
     else location (data, count))"

definition is_modifier_filter :: "u32 \<Rightarrow> bool" where
  "is_modifier_filter type =
     (type \<in> {BRIDGE_FILTERTYPE_MODIFIER_NOT, BRIDGE_FILTERTYPE_MODIFIER_ONLY, BRIDGE_FILTERTYPE_MODIFIER_LOCKED_NOT,
        BRIDGE_FILTERTYPE_MODIFIER_LOCKED_ONLY, BRIDGE_FILTERTYPE_MODIFIER_STUCK_NOT, BRIDGE_FILTERTYPE_MODIFIER_STUCK_ONLY})"

definition is_event_filter :: "u32 \<Rightarrow> bool" where
  "is_event_filter type =
     (type \<in> {BRIDGE_FILTERTYPE_ELAPSEDTIMESINCELASTPRESSED_GREATERTHAN,
        BRIDGE_FILTERTYPE_ELAPSEDTIMESINCELASTPRESSED_LESSTHAN,
        BRIDGE_FILTERTYPE_ELAPSEDTIMESINCELASTRELEASED_GREATERTHAN,
        BRIDGE_FILTERTYPE_ELAPSEDTIMESINCELASTRELEASED_LESSTHAN,
        BRIDGE_FILTERTYPE_LASTPRESSEDPHYSICALKEY_NOT, BRIDGE_FILTERTYPE_LASTPRESSEDPHYSICALKEY_ONLY,
        BRIDGE_FILTERTYPE_LASTRELEASEDPHYSICALKEY_NOT, BRIDGE_FILTERTYPE_LASTRELEASEDPHYSICALKEY_ONLY,
        BRIDGE_FILTERTYPE_LASTSENTEVENT_NOT, BRIDGE_FILTERTYPE_LASTSENTEVENT_ONLY})"

definition is_device_filter :: "u32 \<Rightarrow> bool" where
  "is_device_filter type = (type \<in> {BRIDGE_FILTERTYPE_DEVICE_NOT, BRIDGE_FILTERTYPE_DEVICE_ONLY})"

definition filter_argument :: "Boost \<Rightarrow> SymbolMap \<Rightarrow> u32 \<Rightarrow> string \<Rightarrow> string \<Rightarrow> counted_words \<Rightarrow> counted_words step_result" where
  "filter_argument boost symbols filter_type prefix arg =
     (let symbol = (\<lambda>name. filter_push_symbol boost symbols (normalize_identifier boost (prefix @ name))) in
      if is_modifier_filter filter_type
      then
        and_then
          (for_each (\<lambda>value. and_then (filter_push BRIDGE_DATATYPE_MODIFIERFLAG) (symbol value)) (tokens arg CHR ''|''))
          (for_each filter_push [BRIDGE_DATATYPE_MODIFIERFLAGS_END, 1])
      else if is_event_filter filter_type
      then
        let arg = normalize_identifier boost arg
        in and_then (filter_push (get_datatype boost arg)) (filter_push_symbol boost symbols arg)
      else
        and_then
          (if is_device_filter filter_type \<and> bs_starts_with boost arg ''DeviceVendor''
           then fill_omitted_device_specifying boost symbols else Pair None)
          (symbol arg))"

definition filter_vector_add ::
  "Boost \<Rightarrow> SymbolMap \<Rightarrow> u32 \<Rightarrow> string \<Rightarrow> string \<Rightarrow> u32 list \<Rightarrow> u32 list step_result"
where
  "filter_vector_add boost symbols filter_type prefix string data =
     (let string_no_whitespaces = remove_whitespaces string;
          count_index = length data;
          (e, data, count) =
            and_then (for_each (filter_argument boost symbols filter_type prefix) (tokens string_no_whitespaces CHR '',''))
              (if is_device_filter filter_type then fill_omitted_device_specifying boost symbols else Pair None)
              (data @ [0] @ [filter_type], 1)
      in if e \<noteq> None then (e, data)
         else (None, if count = 1 then take count_index data else data[count_index := count]))"

definition filter_of_tag :: "string \<Rightarrow> (u32 \<times> string) option" where
  "filter_of_tag tag =
     (if tag = ''not'' then Some (BRIDGE_FILTERTYPE_APPLICATION_NOT, ''ApplicationType::'')
      else if tag = ''only'' then Some (BRIDGE_FILTERTYPE_APPLICATION_ONLY, ''ApplicationType::'')
      else if tag = ''windowname_not'' then Some (BRIDGE_FILTERTYPE_WINDOWNAME_NOT, ''WindowName::'')
      else if tag = ''windowname_only'' then Some (BRIDGE_FILTERTYPE_WINDOWNAME_ONLY, ''WindowName::'')
      else if tag = ''uielementrole_not'' then Some (BRIDGE_FILTERTYPE_UIELEMENTROLE_NOT, ''UIElementRole::'')
      else if tag = ''uielementrole_only'' then Some (BRIDGE_FILTERTYPE_UIELEMENTROLE_ONLY, ''UIElementRole::'')
      else if tag = ''config_not'' then Some (BRIDGE_FILTERTYPE_CONFIG_NOT, ''ConfigIndex::'')
      else if tag = ''config_only'' then Some (BRIDGE_FILTERTYPE_CONFIG_ONLY, ''ConfigIndex::'')
      else if tag = ''device_not'' then Some (BRIDGE_FILTERTYPE_DEVICE_NOT, [])
      else if tag = ''device_only'' then Some (BRIDGE_FILTERTYPE_DEVICE_ONLY, [])
      else if tag = ''elapsedtimesincelastpressed_greaterthan''
      then Some (BRIDGE_FILTERTYPE_ELAPSEDTIMESINCELASTPRESSED_GREATERTHAN, [])
      else if tag = ''elapsedtimesincelastpressed_lessthan''
      then Some (BRIDGE_FILTERTYPE_ELAPSEDTIMESINCELASTPRESSED_LESSTHAN, [])
      else if tag = ''elapsedtimesincelastreleased_greaterthan''
      then Some (BRIDGE_FILTERTYPE_ELAPSEDTIMESINCELASTRELEASED_GREATERTHAN, [])
      else if tag = ''elapsedtimesincelastreleased_lessthan''
      then Some (BRIDGE_FILTERTYPE_ELAPSEDTIMESINCELASTRELEASED_LESSTHAN, [])
      else if tag = ''modifier_not'' then Some (BRIDGE_FILTERTYPE_MODIFIER_NOT, [])
      else if tag = ''modifier_only'' then Some (BRIDGE_FILTERTYPE_MODIFIER_ONLY, [])
      else if tag = ''modifierlocked_not'' then Some (BRIDGE_FILTERTYPE_MODIFIER_LOCKED_NOT, [])
      else if tag = ''modifierlocked_only'' then Some (BRIDGE_FILTERTYPE_MODIFIER_LOCKED_ONLY, [])
      else if tag = ''modifierstuck_not'' then Some (BRIDGE_FILTERTYPE_MODIFIER_STUCK_NOT, [])
      else if tag = ''modifierstuck_only'' then Some (BRIDGE_FILTERTYPE_MODIFIER_STUCK_ONLY, [])
      else if tag \<in> {''inputsource_not'', ''inputmode_not'', ''inputsourcedetail_not'', ''inputmodedetail_not''}
      then Some (BRIDGE_FILTERTYPE_INPUTSOURCE_NOT, ''InputSource::'')
      else if tag \<in> {''inputsource_only'', ''inputmode_only'', ''inputsourcedetail_only'', ''inputmodedetail_only''}
      then Some (BRIDGE_FILTERTYPE_INPUTSOURCE_ONLY, ''InputSource::'')
      else if tag = ''lastpressedphysicalkey_not'' then Some (BRIDGE_FILTERTYPE_LASTPRESSEDPHYSICALKEY_NOT, [])
      else if tag = ''lastpressedphysicalkey_only'' then Some (BRIDGE_FILTERTYPE_LASTPRESSEDPHYSICALKEY_ONLY, [])
      else if tag = ''lastreleasedphysicalkey_not'' then Some (BRIDGE_FILTERTYPE_LASTRELEASEDPHYSICALKEY_NOT, [])
      else if tag = ''lastreleasedphysicalkey_only'' then Some (BRIDGE_FILTERTYPE_LASTRELEASEDPHYSICALKEY_ONLY, [])
      else if tag = ''lastsentevent_not'' then Some (BRIDGE_FILTERTYPE_LASTSENTEVENT_NOT, [])
      else if tag = ''lastsentevent_only'' then Some (BRIDGE_FILTERTYPE_LASTSENTEVENT_ONLY, [])
      else if tag = ''pressingphysicalkeys_greaterthan''
      then Some (BRIDGE_FILTERTYPE_PRESSINGPHYSICALKEYS_GREATERTHAN, ''Count::RawValue::'')
      else if tag = ''pressingphysicalkeys_lessthan''
      then Some (BRIDGE_FILTERTYPE_PRESSINGPHYSICALKEYS_LESSTHAN, ''Count::RawValue::'')
      else None)"

definition filter_vector_node :: "Boost \<Rightarrow> SymbolMap \<Rightarrow> Node \<Rightarrow> u32 list \<Rightarrow> u32 list step_result" where
  "filter_vector_node boost symbols node =
     (case filter_of_tag (get_tag_name node) of
        None \<Rightarrow> Pair None
      | Some (filter_type, prefix) \<Rightarrow> filter_vector_add boost symbols filter_type prefix (get_data node))"

definition filter_vector_traverse :: "Boost \<Rightarrow> Node list \<Rightarrow> step" where
  "filter_vector_traverse boost nodes s =
     (let (e, data) = for_each (filter_vector_node boost (co_symbols s)) nodes (co_filter s)
      in (e, s\<lparr>co_filter := data\<rparr>))"

section \<open>Entries of remappings\<close>

text \<open>The state of the loops is the vector, \<open>count\<close> and \<open>datatype\<close>.\<close>

type_synonym entry_state = "InitVector \<times> u32 \<times> u32"

definition entry_push :: "u32 \<Rightarrow> entry_state \<Rightarrow> entry_state" where
  "entry_push w = (\<lambda>(v, count, datatype). (InitVector_push_back w v, count + 1, datatype))"

definition entry_insert :: "nat \<Rightarrow> u32 \<Rightarrow> entry_state \<Rightarrow> entry_state" where
  "entry_insert index w = (\<lambda>(v, count, datatype). (InitVector_insert index w v, count + 1, datatype))"

definition entry_value ::
  "Boost \<Rightarrow> SymbolMap \<Rightarrow> u32 \<Rightarrow> u32 \<Rightarrow> nat \<Rightarrow> string \<Rightarrow> string \<Rightarrow> entry_state \<Rightarrow> entry_state step_result"
where
  "entry_value boost symbols separator use_separator value_start_index arg value = (\<lambda>(v, count, datatype).
     let newdatatype = get_datatype boost value in
     if newdatatype = BRIDGE_DATATYPE_NONE then (Some (Unknown_symbol value), v, count, datatype)
     else if datatype \<noteq> 0 \<and> newdatatype \<noteq> BRIDGE_DATATYPE_MODIFIERFLAG
     then (Some (Cannot_connect arg), v, count, datatype)
     else case SymbolMap_get_optional boost value symbols of
       None \<Rightarrow> (Some (Unknown_symbol value), v, count, newdatatype)
     | Some newvalue \<Rightarrow>
         let s = entry_push newvalue (entry_push newdatatype (v, count, newdatatype))
         in (None,
             if newdatatype = BRIDGE_DATATYPE_OPTION \<and> newvalue = separator
             then entry_insert value_start_index BRIDGE_DATATYPE_OPTION (entry_insert value_start_index use_separator s)
             else s))"

definition entry_argument ::
  "Boost \<Rightarrow> SymbolMap \<Rightarrow> u32 \<Rightarrow> u32 \<Rightarrow> nat \<Rightarrow> string \<Rightarrow> entry_state \<Rightarrow> entry_state step_result"
where
  "entry_argument boost symbols separator use_separator value_start_index arg = (\<lambda>(v, count, _).
     and_then
       (for_each (entry_value boost symbols separator use_separator value_start_index arg) (tokens arg CHR ''|''))
       (\<lambda>(v, count, datatype).
          (None, if datatype = BRIDGE_DATATYPE_MODIFIERFLAG
                 then entry_push 1 (entry_push BRIDGE_DATATYPE_MODIFIERFLAGS_END (v, count, datatype))
                 else (v, count, datatype)))
       (v, count, 0))"

definition entry_aliases :: "Boost \<Rightarrow> string \<Rightarrow> string" where
  "entry_aliases boost params =
     fold (\<lambda>(search, format) params. bs_replace_all boost params search format)
       [(''SimultaneousKeyPresses::Option::RAW'', ''Option::SIMULTANEOUSKEYPRESSES_RAW''),
        (''KeyCode::VK_CHANGE_INPUTMODE_'', ''KeyCode::VK_CHANGE_INPUTSOURCE_''),
        (''@begin'', '',''), (''@end'', '',Option::SEPARATOR,''), (''__{'', '',''), (''}__'', '',Option::SEPARATOR,'')]
       params"

definition add_to_initialize_vector :: "Boost \<Rightarrow> u32 \<Rightarrow> u32 \<Rightarrow> string \<Rightarrow> u32 \<Rightarrow> step" where
  "add_to_initialize_vector boost separator use_separator params type s =
     (let params = entry_aliases boost params;
          count_index = InitVector_size (co_vector s);
          v = InitVector_push_back type (InitVector_push_back 0 (co_vector s));
          value_start_index = InitVector_size v;
          (e, v, count, _) =
            for_each (entry_argument boost (co_symbols s) separator use_separator value_start_index)
              (tokens params CHR '','') (v, 1, 0)
      in if e \<noteq> None then (e, s\<lparr>co_vector := v\<rparr>)
         else (None, s\<lparr>co_vector := fold InitVector_push_back (co_filter s) (InitVector_update count_index count v)\<rparr>))"

section \<open>Short forms\<close>

definition either_flags :: "(string \<times> string list) list" where
  "either_flags =
     [(''MODIFIERFLAG_EITHER_LEFT_OR_RIGHT_COMMAND'', [''ModifierFlag::COMMAND_L'', ''ModifierFlag::COMMAND_R'']),
      (''MODIFIERFLAG_EITHER_LEFT_OR_RIGHT_CONTROL'', [''ModifierFlag::CONTROL_L'', ''ModifierFlag::CONTROL_R'']),
      (''MODIFIERFLAG_EITHER_LEFT_OR_RIGHT_SHIFT'', [''ModifierFlag::SHIFT_L'', ''ModifierFlag::SHIFT_R'']),
      (''MODIFIERFLAG_EITHER_LEFT_OR_RIGHT_OPTION'', [''ModifierFlag::OPTION_L'', ''ModifierFlag::OPTION_R'']),
      (''VK_COMMAND'', [''ModifierFlag::COMMAND_L'', ''ModifierFlag::COMMAND_R'']),
      (''VK_CONTROL'', [''ModifierFlag::CONTROL_L'', ''ModifierFlag::CONTROL_R'']),
      (''VK_SHIFT'', [''ModifierFlag::SHIFT_L'', ''ModifierFlag::SHIFT_R'']),
      (''VK_OPTION'', [''ModifierFlag::OPTION_L'', ''ModifierFlag::OPTION_R''])]"

definition several_flags :: "(string \<times> string) list" where
  "several_flags =
     [(''MODIFIERFLAGS_CCOS_L'', ''ModifierFlag::COMMAND_L|ModifierFlag::CONTROL_L|ModifierFlag::OPTION_L|ModifierFlag::SHIFT_L''),
      (''MODIFIERFLAGS_CCS_L'', ''ModifierFlag::COMMAND_L|ModifierFlag::CONTROL_L|ModifierFlag::SHIFT_L''),
      (''MODIFIERFLAGS_CCO_L'', ''ModifierFlag::COMMAND_L|ModifierFlag::CONTROL_L|ModifierFlag::OPTION_L''),
      (''VK_MOD_CCOS_L'', ''ModifierFlag::COMMAND_L|ModifierFlag::CONTROL_L|ModifierFlag::OPTION_L|ModifierFlag::SHIFT_L''),
      (''VK_MOD_CCS_L'', ''ModifierFlag::COMMAND_L|ModifierFlag::CONTROL_L|ModifierFlag::SHIFT_L''),
      (''VK_MOD_CCO_L'', ''ModifierFlag::COMMAND_L|ModifierFlag::CONTROL_L|ModifierFlag::OPTION_L'')]"

definition any_flags :: "string list" where
  "any_flags = [''MODIFIERFLAGS_ANY'', ''VK_MOD_ANY'']"

definition any_seeds :: "string list" where
  "any_seeds =
     [''MODIFIERFLAG_EITHER_LEFT_OR_RIGHT_COMMAND'', ''MODIFIERFLAG_EITHER_LEFT_OR_RIGHT_CONTROL'', ''ModifierFlag::FN'',
      ''MODIFIERFLAG_EITHER_LEFT_OR_RIGHT_OPTION'', ''MODIFIERFLAG_EITHER_LEFT_OR_RIGHT_SHIFT'']"

definition any_combinations :: "Boost \<Rightarrow> string list" where
  "any_combinations boost =
     map (\<lambda>v. bs_join boost v ''|'' @ ''|ModifierFlag::NONE'') (make_combination [] any_seeds (length any_seeds))"

definition fromkeycodes :: "(string \<times> string) list" where
  "fromkeycodes =
     [(''HOME'', ''CURSOR_LEFT''), (''END'', ''CURSOR_RIGHT''), (''PAGEUP'', ''CURSOR_UP''),
      (''PAGEDOWN'', ''CURSOR_DOWN''), (''FORWARD_DELETE'', ''DELETE'')]"

definition occurs_in :: "string \<Rightarrow> string \<Rightarrow> bool" where
  "occurs_in p autogen = (find_text p autogen \<noteq> None)"

text \<open>Both forms of a key: the key itself, and the other key with fn.\<close>

definition expand_fromkeycode :: "Boost \<Rightarrow> string \<Rightarrow> string \<times> string \<Rightarrow> string list option" where
  "expand_fromkeycode boost autogen = (\<lambda>(k0, k1).
     let fromkeycode = ''FROMKEYCODE_'' @ k0;
         keycode = ''KeyCode::'' @ k0;
         other_keycode_with_fn = ''KeyCode::'' @ k1 @ '',ModifierFlag::FN''
     in if occurs_in (fromkeycode @ '',ModifierFlag::'') autogen
        then Some [bs_replace_all boost autogen fromkeycode keycode,
                   bs_replace_all boost autogen (fromkeycode @ '','') (other_keycode_with_fn @ ''|'')]
        else if occurs_in fromkeycode autogen
        then Some [bs_replace_all boost autogen fromkeycode keycode,
                   bs_replace_all boost autogen fromkeycode other_keycode_with_fn]
        else None)"

fun first_some :: "('a \<Rightarrow> 'b option) \<Rightarrow> 'a list \<Rightarrow> 'b option" where
  "first_some f [] = None"
| "first_some f (x # xs) = (case f x of None \<Rightarrow> first_some f xs | Some y \<Rightarrow> Some y)"

text \<open>The texts a text stands for; \<open>None\<close> when there is no short form in it.\<close>

definition expand_autogen :: "Boost \<Rightarrow> string \<Rightarrow> string list option" where
  "expand_autogen boost autogen =
     (case find (\<lambda>(name, flags). occurs_in name autogen) either_flags of
        Some (name, flags) \<Rightarrow> Some (map (bs_replace_all boost autogen name) flags)
      | None \<Rightarrow>
     (case find (\<lambda>(name, flag). occurs_in name autogen) several_flags of
        Some (name, flag) \<Rightarrow> Some [bs_replace_all boost autogen name flag]
      | None \<Rightarrow>
     (case find (\<lambda>name. occurs_in name autogen) any_flags of
        Some name \<Rightarrow> Some (map (bs_replace_all boost autogen name) (any_combinations boost))
      | None \<Rightarrow>
     (case first_some (expand_fromkeycode boost autogen) fromkeycodes of
        Some autogens \<Rightarrow> Some autogens
      | None \<Rightarrow>
          if bs_starts_with boost autogen ''__KeyOverlaidModifierWithRepeat__''
          then Some [bs_replace_first boost autogen ''__KeyOverlaidModifierWithRepeat__''
                       ''__KeyOverlaidModifier__Option::KEYOVERLAIDMODIFIER_REPEAT,'']
          else if bs_starts_with boost autogen ''__StripModifierFromScrollWheel__''
          then Some [bs_replace_first boost autogen ''__StripModifierFromScrollWheel__'' ''__ScrollWheelToScrollWheel__'' @
                     '',ModifierFlag::NONE'']
          else None))))"

section \<open>Settings\<close>

definition remap_types :: "(string \<times> u32) list" where
  "remap_types =
     [(''__PassThrough__'', BRIDGE_REMAPTYPE_PASSTHROUGH),
      (''__KeyToKey__'', BRIDGE_REMAPTYPE_KEYTOKEY),
      (''__KeyToConsumer__'', BRIDGE_REMAPTYPE_KEYTOKEY),
      (''__KeyToPointingButton__'', BRIDGE_REMAPTYPE_KEYTOKEY),
      (''__DoublePressModifier__'', BRIDGE_REMAPTYPE_DOUBLEPRESSMODIFIER),
      (''__HoldingKeyToKey__'', BRIDGE_REMAPTYPE_HOLDINGKEYTOKEY),
      (''__IgnoreMultipleSameKeyPress__'', BRIDGE_REMAPTYPE_IGNOREMULTIPLESAMEKEYPRESS),
      (''__KeyOverlaidModifier__'', BRIDGE_REMAPTYPE_KEYOVERLAIDMODIFIER),
      (''__KeyDownUpToKey__'', BRIDGE_REMAPTYPE_KEYDOWNUPTOKEY),
      (''__ConsumerToConsumer__'', BRIDGE_REMAPTYPE_KEYTOKEY),
      (''__ConsumerToKey__'', BRIDGE_REMAPTYPE_KEYTOKEY),
      (''__PointingButtonToPointingButton__'', BRIDGE_REMAPTYPE_KEYTOKEY),
      (''__PointingButtonToKey__'', BRIDGE_REMAPTYPE_KEYTOKEY),
      (''__PointingRelativeToKey__'', BRIDGE_REMAPTYPE_POINTINGRELATIVETOKEY),
      (''__PointingRelativeToScroll__'', BRIDGE_REMAPTYPE_POINTINGRELATIVETOSCROLL),
      (''__BlockUntilKeyUp__'', BRIDGE_REMAPTYPE_BLOCKUNTILKEYUP),
      (''__DropKeyAfterRemap__'', BRIDGE_REMAPTYPE_DROPKEYAFTERREMAP),
      (''__SetKeyboardType__'', BRIDGE_REMAPTYPE_SETKEYBOARDTYPE),
      (''__ForceNumLockOn__'', BRIDGE_REMAPTYPE_FORCENUMLOCKON),
      (''__DropAllKeys__'', BRIDGE_REMAPTYPE_DROPALLKEYS),
      (''__DropPointingRelativeCursorMove__'', BRIDGE_REMAPTYPE_DROPPOINTINGRELATIVECURSORMOVE),
      (''__DropScrollWheel__'', BRIDGE_REMAPTYPE_DROPSCROLLWHEEL),
      (''__FlipPointingRelative__'', BRIDGE_REMAPTYPE_FLIPPOINTINGRELATIVE),
      (''__FlipScrollWheel__'', BRIDGE_REMAPTYPE_FLIPSCROLLWHEEL),
      (''__ScrollWheelToScrollWheel__'', BRIDGE_REMAPTYPE_SCROLLWHEELTOSCROLLWHEEL),
      (''__ScrollWheelToKey__'', BRIDGE_REMAPTYPE_SCROLLWHEELTOKEY)]"

text \<open>\<open>separator\<close> and \<open>use_separator\<close> are the symbols the loader looked up when it was made.\<close>

definition autogen_entry :: "Boost \<Rightarrow> u32 \<Rightarrow> u32 \<Rightarrow> string \<Rightarrow> string \<Rightarrow> step" where
  "autogen_entry boost separator use_separator raw_autogen autogen s =
     (if bs_starts_with boost autogen ''__ShowStatusMessage__''
      then vector_push_entry [BRIDGE_STATUSMESSAGE] (bs_trim boost (drop (length ''__ShowStatusMessage__'') autogen)) s
      else if bs_starts_with boost autogen ''__SimultaneousKeyPresses__''
      then
        let params = drop (length ''__SimultaneousKeyPresses__'') autogen;
            newkeycode = ''VK_SIMULTANEOUSKEYPRESSES_'' @ bs_of_u32 boost (co_simultaneous_keycode_index s)
        in add_auto_symbol boost ''KeyCode'' newkeycode
             (\<lambda>_ s. add_to_initialize_vector boost separator use_separator (''KeyCode::'' @ newkeycode @ '','' @ params)
                      BRIDGE_REMAPTYPE_SIMULTANEOUSKEYPRESSES
                      (s\<lparr>co_simultaneous_keycode_index := co_simultaneous_keycode_index s + 1\<rparr>)) s
      else case find (\<lambda>(symbol, type). bs_starts_with boost autogen symbol) remap_types of
        Some (symbol, type) \<Rightarrow>
          add_to_initialize_vector boost separator use_separator (drop (length symbol) autogen) type s
      | None \<Rightarrow> (Some (Invalid_autogen raw_autogen), s))"

text \<open>
  \<open>handle_autogen\<close> calls itself for the texts that a short form stands for; the texts still to be handled
  are a list here. \<open>None\<close> is a call that does not return.
\<close>

partial_function (option) handle_autogens ::
  "Boost \<Rightarrow> u32 \<Rightarrow> u32 \<Rightarrow> string \<Rightarrow> string list \<Rightarrow> Compiler \<Rightarrow> Compiler step_result option"
where
  "handle_autogens boost separator use_separator raw_autogen autogens s =
     (case autogens of
        [] \<Rightarrow> Some (None, s)
      | autogen # rest \<Rightarrow>
          (case expand_autogen boost autogen of
             Some expanded \<Rightarrow> handle_autogens boost separator use_separator raw_autogen (expanded @ rest) s
           | None \<Rightarrow>
               (case autogen_entry boost separator use_separator raw_autogen autogen s of
                  (None, s) \<Rightarrow> handle_autogens boost separator use_separator raw_autogen rest s
                | (Some e, s) \<Rightarrow> Some (Some e, s))))"

type_synonym partial_step = "Compiler \<Rightarrow> Compiler step_result option"

definition then_do :: "partial_step \<Rightarrow> partial_step \<Rightarrow> partial_step" where
  "then_do m n s = Option.bind (m s) (\<lambda>(e, s). if e = None then n s else Some (e, s))"

definition autogen_text :: "Boost \<Rightarrow> string \<Rightarrow> string" where
  "autogen_text boost raw_autogen =
     (let autogen = (if bs_starts_with boost raw_autogen ''--''
                     then bs_replace_first boost (raw_autogen[0 := CHR ''_'', 1 := CHR ''_'']) ''--'' ''__'' else raw_autogen)
      in if \<not> bs_starts_with boost autogen ''__ShowStatusMessage__'' then remove_whitespaces autogen else autogen)"

fun traverse_autogen_nodes ::
  "Boost \<Rightarrow> u32 \<Rightarrow> u32 \<Rightarrow> string \<Rightarrow> Node list \<Rightarrow> partial_step"
where
  "traverse_autogen_nodes boost separator use_separator raw_identifier [] s = Some (None, s)"
| "traverse_autogen_nodes boost separator use_separator raw_identifier (Node tag data children # nodes) s =
     then_do
       (if tag = ''item'' then Some \<circ> error_information_set (Identifier_in_item raw_identifier)
        else if tag \<noteq> ''autogen''
        then (\<lambda>s. let size = length (co_filter s) in
               then_do (Some \<circ> filter_vector_traverse boost children)
                 (then_do (traverse_autogen_nodes boost separator use_separator raw_identifier children)
                    (\<lambda>s. Some (None, s\<lparr>co_filter := take size (co_filter s)\<rparr>))) s)
        else
          let raw_autogen = bs_trim_left boost data
          in handle_autogens boost separator use_separator raw_autogen [autogen_text boost raw_autogen])
       (traverse_autogen_nodes boost separator use_separator raw_identifier nodes) s"

definition traverse_autogen ::
  "Boost \<Rightarrow> u32 \<Rightarrow> u32 \<Rightarrow> string \<Rightarrow> Node list \<Rightarrow> partial_step"
where
  "traverse_autogen boost separator use_separator raw_identifier pt =
     then_do (Some \<circ> filter_vector_traverse boost pt)
       (traverse_autogen_nodes boost separator use_separator raw_identifier pt)"

definition valid_identifier :: "string \<Rightarrow> string \<Rightarrow> CompileError option" where
  "valid_identifier identifier parent_tag_name =
     (if identifier = [] then Some Empty_identifier
      else if parent_tag_name \<noteq> ''item'' then Some (Misplaced_identifier identifier)
      else None)"

definition vk_config_names :: "string list" where
  "vk_config_names = [''VK_CONFIG_TOGGLE_'', ''VK_CONFIG_FORCE_ON_'', ''VK_CONFIG_FORCE_OFF_'', ''VK_CONFIG_SYNC_KEYDOWNUP_'']"

text \<open>The class of a setting: its identifier is a node among \<open>pt\<close>.\<close>

definition write_setting ::
  "Boost \<Rightarrow> u32 \<Rightarrow> u32 \<Rightarrow> string \<Rightarrow> Node list \<Rightarrow> Node \<Rightarrow> partial_step"
where
  "write_setting boost separator use_separator parent_tag_name pt node =
     (if get_attribute ''essential'' node \<noteq> None then Some \<circ> Pair None
      else
        let raw_identifier = bs_trim boost (get_data node);
            identifier = normalize_identifier boost raw_identifier
        in case valid_identifier raw_identifier parent_tag_name of
             Some message \<Rightarrow> Some \<circ> error_information_set message
           | None \<Rightarrow>
               then_do
                 (Some \<circ> get_symbol boost (scoped ''ConfigIndex'' identifier)
                    (\<lambda>config_index s. vector_start config_index raw_identifier
                       (s\<lparr>co_identifiers := (co_identifiers s)(config_index \<mapsto> raw_identifier)\<rparr>)))
                 (then_do
                   (Some \<circ> (if get_attribute ''vk_config'' node \<noteq> None
                            then and_then (for_each vector_push [5, BRIDGE_VK_CONFIG])
                                   (for_each (\<lambda>n. get_symbol boost (scoped ''KeyCode'' (n @ identifier)) vector_push) vk_config_names)
                            else Pair None))
                   (then_do
                     (\<lambda>s. traverse_autogen boost separator use_separator raw_identifier pt (s\<lparr>co_filter := []\<rparr>))
                     (Some \<circ> on_vector InitVector_end))))"

text \<open>The exceptions of one round of the loop are caught there; a failed assertion is none.\<close>

definition catch_errors :: "partial_step \<Rightarrow> partial_step" where
  "catch_errors m s =
     Option.bind (m s) (\<lambda>(e, s).
       case e of
         None \<Rightarrow> Some (None, s)
       | Some e \<Rightarrow> if e = Assertion_failed then Some (Some e, s) else Some (error_information_set e s))"

fun initialize_vector_loader_traverse ::
  "Boost \<Rightarrow> u32 \<Rightarrow> u32 \<Rightarrow> string \<Rightarrow> Node list \<Rightarrow> Node list \<Rightarrow> partial_step"
where
  "initialize_vector_loader_traverse boost separator use_separator parent_tag_name pt [] s = Some (None, s)"
| "initialize_vector_loader_traverse boost separator use_separator parent_tag_name pt (Node tag data children # nodes) s =
     then_do
       (catch_errors
         (if tag \<noteq> ''identifier''
          then if children \<noteq> []
               then initialize_vector_loader_traverse boost separator use_separator tag children children
               else Some \<circ> Pair None
          else write_setting boost separator use_separator parent_tag_name pt (Node tag data children)))
       (initialize_vector_loader_traverse boost separator use_separator parent_tag_name pt nodes) s"

section \<open>Numbering the settings\<close>

text \<open>
  \<open>remapclasses_initialize_vector_prepare_loader\<close>: the identifiers of the settings become symbols before
  the settings are written. It also builds the tree of the preferences window, which is left out, so that
  \<open>essential\<close> settings only end the round. The lists are the members of the loader.
\<close>

record Prepare =
  pp_identifiers_high_priority :: "string list"
  pp_identifiers_normal_priority :: "string list"

type_synonym prepare_step = "Compiler \<times> Prepare \<Rightarrow> (Compiler \<times> Prepare) step_result"

definition lift_compiler :: "step \<Rightarrow> prepare_step" where
  "lift_compiler m = (\<lambda>(s, p). let (e, s) = m s in (e, s, p))"

definition prepare_identifier :: "Boost \<Rightarrow> string \<Rightarrow> Node \<Rightarrow> prepare_step" where
  "prepare_identifier boost parent_tag_name node =
     (let raw_identifier = bs_trim boost (get_data node) in
      case valid_identifier raw_identifier parent_tag_name of
        Some message \<Rightarrow> lift_compiler (error_information_set message)
      | None \<Rightarrow>
          let identifier = normalize_identifier boost raw_identifier in
          if get_attribute ''essential'' node \<noteq> None then Pair None
          else
            and_then
              (lift_compiler
                (if get_attribute ''vk_config'' node \<noteq> None
                 then for_each (\<lambda>n. add_auto_symbol boost ''KeyCode'' (n @ identifier) (\<lambda>_. Pair None)) vk_config_names
                 else Pair None))
              (\<lambda>(s, p).
                 (None, s,
                  if bs_starts_with boost identifier ''notsave_'' \<or> get_attribute ''high_priority'' node \<noteq> None
                  then p\<lparr>pp_identifiers_high_priority := pp_identifiers_high_priority p @ [identifier]\<rparr>
                  else p\<lparr>pp_identifiers_normal_priority := pp_identifiers_normal_priority p @ [identifier]\<rparr>)))"

text \<open>The \<open>continue\<close> for a valid essential identifier also skips the children of the node.\<close>

definition skips_children :: "Boost \<Rightarrow> string \<Rightarrow> Node \<Rightarrow> bool" where
  "skips_children boost parent_tag_name node =
     (get_tag_name node = ''identifier'' \<and> get_attribute ''essential'' node \<noteq> None \<and>
      valid_identifier (bs_trim boost (get_data node)) parent_tag_name = None)"

fun prepare_loader_traverse :: "Boost \<Rightarrow> string \<Rightarrow> Node list \<Rightarrow> prepare_step" where
  "prepare_loader_traverse boost parent_tag_name [] s = (None, s)"
| "prepare_loader_traverse boost parent_tag_name (Node tag data children # nodes) s =
     and_then
       (if tag = ''autogen'' then Pair None
        else if tag = ''item''
        then if children \<noteq> [] then prepare_loader_traverse boost tag children else Pair None
        else
          and_then
            (if tag = ''identifier'' then prepare_identifier boost parent_tag_name (Node tag data children) else Pair None)
            (if children \<noteq> [] \<and> \<not> skips_children boost parent_tag_name (Node tag data children)
             then prepare_loader_traverse boost tag children else Pair None))
       (prepare_loader_traverse boost parent_tag_name nodes) s"

definition prepare_loader_cleanup :: "Boost \<Rightarrow> prepare_step" where
  "prepare_loader_cleanup boost = (\<lambda>(s, p).
     let (e, s) = for_each (\<lambda>i. add_auto_symbol boost ''ConfigIndex'' i (\<lambda>_. Pair None))
                    (pp_identifiers_high_priority p @ pp_identifiers_normal_priority p) s
     in (e, s, p\<lparr>pp_identifiers_high_priority := [], pp_identifiers_normal_priority := []\<rparr>))"

definition prepare_loader :: "Boost \<Rightarrow> Node list list \<Rightarrow> step" where
  "prepare_loader boost trees s =
     (let (e, s, _) =
        and_then (for_each (prepare_loader_traverse boost []) trees) (prepare_loader_cleanup boost)
          (s, \<lparr>pp_identifiers_high_priority = [], pp_identifiers_normal_priority = []\<rparr>)
      in (e, s))"

section \<open>reload\<close>

text \<open>
  What the compiler gets from outside: the library, the trees of the settings files as read with a
  replacement table, the regular expressions, the environment, and the order in which the entries of an
  unordered map are walked, given by their keys.
\<close>

record World =
  wd_boost :: Boost
  wd_read_xml :: "replacement \<Rightarrow> string \<Rightarrow> Node list"
  wd_is_regex :: "string \<Rightarrow> bool"
  wd_home :: "string option"
  wd_system_xml_directory :: string
  wd_order :: "u32 list \<Rightarrow> u32 list"

definition entries_in_order :: "World \<Rightarrow> (u32 \<times> 'a) list \<Rightarrow> (u32 \<times> 'a) list" where
  "entries_in_order w m = concat (map (\<lambda>k. filter (\<lambda>e. fst e = k) m) (wd_order w (map fst m)))"

definition SymbolMap_empty :: SymbolMap where
  "SymbolMap_empty = \<lparr>sm_symbols = Map.empty, sm_names = Map.empty\<rparr>"

definition Compiler_new :: Compiler where
  "Compiler_new =
     \<lparr>co_errors = [], co_symbols = SymbolMap_clear SymbolMap_empty, co_vector = InitVector_new, co_identifiers = Map.empty,
      co_filter = [], co_simultaneous_keycode_index = 0, co_modifiers = [], co_apps = [], co_window_names = [],
      co_vk_change_inputsource = [], co_inputsources = [], co_vk_open_url = [], co_replacement = Map.empty\<rparr>"

definition Compiler_clear :: "Compiler \<Rightarrow> Compiler" where
  "Compiler_clear s =
     s\<lparr>co_errors := [], co_replacement := Map.empty, co_symbols := SymbolMap_clear (co_symbols s), co_modifiers := [],
       co_apps := [], co_window_names := [], co_vk_change_inputsource := [], co_inputsources := [], co_vk_open_url := [],
       co_identifiers := Map.empty, co_vector := InitVector_clear (co_vector s)\<rparr>"

definition load_replacement :: "World \<Rightarrow> step" where
  "load_replacement w =
     (let environments = append_environments_to_replacement (wd_home w) (wd_system_xml_directory w);
          dummy = environments Map.empty
      in and_then (replacement_loader_traverse (wd_read_xml w dummy ''private.xml''))
           (and_then (replacement_loader_traverse (wd_read_xml w dummy ''replacementdef.xml''))
              (\<lambda>s. (None, s\<lparr>co_replacement := environments (co_replacement s)\<rparr>))))"

text \<open>A loader gets the private settings first and then the files of the system.\<close>

definition load_definitions :: "World \<Rightarrow> (Node list \<Rightarrow> step) \<Rightarrow> string list \<Rightarrow> step" where
  "load_definitions w traverse files s =
     for_each traverse (map (wd_read_xml w (co_replacement s)) (''private.xml'' # files)) s"

text \<open>The loader of the remap classes starts with new members, and looks up two symbols when it is made.\<close>

definition write_settings :: "World \<Rightarrow> string \<Rightarrow> partial_step" where
  "write_settings w checkbox_xml_file_name s =
     (let boost = wd_boost w;
          trees = map (wd_read_xml w (co_replacement s)) [''private.xml'', checkbox_xml_file_name]
      in case SymbolMap_get_optional boost ''Option::SEPARATOR'' (co_symbols s) of
           None \<Rightarrow> Some (Some (Unknown_symbol ''Option::SEPARATOR''), s)
         | Some separator \<Rightarrow>
             (case SymbolMap_get_optional boost ''Option::USE_SEPARATOR'' (co_symbols s) of
                None \<Rightarrow> Some (Some (Unknown_symbol ''Option::USE_SEPARATOR''), s)
              | Some use_separator \<Rightarrow>
                  fold (\<lambda>tree m. then_do m (initialize_vector_loader_traverse boost separator use_separator [] tree tree))
                    trees (Some \<circ> Pair None) (s\<lparr>co_filter := [], co_simultaneous_keycode_index := 0\<rparr>)))"

definition load_all_definitions :: "World \<Rightarrow> step" where
  "load_all_definitions w =
     (let boost = wd_boost w in
      and_then (load_replacement w)
     (and_then (load_definitions w (symbol_map_loader_traverse boost) [''symbol_map.xml''])
     (and_then (load_definitions w (modifier_loader_traverse boost) [''modifierdef.xml''])
     (and_then (\<lambda>s. modifier_loader_delete boost (entries_in_order w (co_modifiers s)) s)
     (and_then (load_definitions w (app_loader_traverse boost) [''appdef.xml''])
     (and_then (load_definitions w (window_name_loader_traverse boost (wd_is_regex w)) [''windownamedef.xml''])
     (and_then (load_definitions w (ui_element_role_loader_traverse boost) [''uielementroledef.xml''])
     (and_then (load_definitions w (device_loader_traverse boost)
                  [''devicevendordef.xml'', ''deviceproductdef.xml'', ''devicelocationdef.xml''])
     (and_then (load_definitions w (input_source_loader_traverse boost) [''vkchangeinputsourcedef.xml'', ''inputsourcedef.xml''])
     (and_then (\<lambda>s. input_source_loader_delete boost (entries_in_order w (co_vk_change_inputsource s)) s)
     (and_then (load_definitions w (url_loader_traverse boost) [''vkopenurldef.xml''])
     (\<lambda>s. url_loader_delete boost (entries_in_order w (co_vk_open_url s)) s))))))))))))"

definition reload :: "World \<Rightarrow> string \<Rightarrow> Compiler \<Rightarrow> Compiler step_result option" where
  "reload w checkbox_xml_file_name s =
     catch_errors
       (then_do (Some \<circ> load_all_definitions w)
       (then_do (\<lambda>s. Some (prepare_loader (wd_boost w) [wd_read_xml w (co_replacement s) ''number.xml''] s))
       (then_do (\<lambda>s. Some (prepare_loader (wd_boost w)
                   (map (wd_read_xml w (co_replacement s)) [''private.xml'', checkbox_xml_file_name]) s))
       (then_do (write_settings w checkbox_xml_file_name)
          (\<lambda>s. Some (on_vector InitVector_freeze s))))))
       (Compiler_clear s)"

end
