(* ===== verification/SettingsWritten.thy ===== *)
theory SettingsWritten
  imports SettingsCompiler
begin

text \<open>
  What the settings compiler writes: whatever the settings files say, and wherever an exception ends a
  setting, the vector is a sequence of classes, and the body of a finished class is a sequence of entries
  that the extension can read.
\<close>

section \<open>Entries\<close>

definition entry_words :: "u32 list list \<Rightarrow> u32 list" where
  "entry_words es = concat (map (\<lambda>e. word_of_nat (length e) # e) es)"

definition is_remap_entry :: "u32 list \<Rightarrow> bool" where
  "is_remap_entry e = (BRIDGE_REMAPTYPE_NONE < hd e \<and> hd e < BRIDGE_REMAPTYPE_END)"

text \<open>The entries that the constructor of a class goes on after; a filter needs a remapping in front of it.\<close>

definition readable_entry :: "bool \<Rightarrow> u32 list \<Rightarrow> bool" where
  "readable_entry remapping e =
     (e \<noteq> [] \<and>
      (is_remap_entry e \<or>
       BRIDGE_FILTERTYPE_NONE < hd e \<and> hd e < BRIDGE_FILTERTYPE_END \<and> remapping \<or>
       hd e = BRIDGE_STATUSMESSAGE \<or>
       hd e = BRIDGE_MODIFIERNAME \<and> length e \<ge> 3 \<or>
       hd e = BRIDGE_VK_MODIFIER \<and> length e = 12 \<or>
       hd e = BRIDGE_VK_CONFIG \<and> length e = 5 \<or>
       (hd e = BRIDGE_VK_CHANGE_INPUTSOURCE \<or> hd e = BRIDGE_VK_OPEN_URL) \<and> length e = 2))"

fun readable_entries :: "bool \<Rightarrow> u32 list list \<Rightarrow> bool" where
  "readable_entries remapping [] = True"
| "readable_entries remapping (e # es) =
     (readable_entry remapping e \<and> readable_entries (remapping \<or> is_remap_entry e) es)"

definition readable_body :: "u32 list \<Rightarrow> bool" where
  "readable_body body = (\<exists>es. body = entry_words es \<and> readable_entries False es)"

lemma entry_words_simps [simp]:
  "entry_words [] = []" "entry_words (e # es) = word_of_nat (length e) # e @ entry_words es"
  "entry_words (es @ fs) = entry_words es @ entry_words fs"
  by (simp_all add: entry_words_def)

lemma readable_entries_mono: "readable_entries False es \<Longrightarrow> readable_entries remapping es"
proof (induction es arbitrary: remapping)
  case (Cons e es)
  then have "readable_entry remapping e" by (auto simp: readable_entry_def)
  moreover have "readable_entries (remapping \<or> is_remap_entry e) es"
    using Cons.prems Cons.IH by (cases "is_remap_entry e") auto
  ultimately show ?case by simp
qed simp

lemma readable_entries_append:
  "readable_entries remapping es \<Longrightarrow> readable_entries False fs \<Longrightarrow> readable_entries remapping (es @ fs)"
  by (induction es arbitrary: remapping) (auto intro: readable_entries_mono)

lemma readable_body_append: "readable_body a \<Longrightarrow> readable_body b \<Longrightarrow> readable_body (a @ b)"
  unfolding readable_body_def using readable_entries_append entry_words_simps(3) by metis

lemma readable_body_Nil [simp]: "readable_body []"
  unfolding readable_body_def by (rule exI [of _ "[]"]) simp

lemma readable_body_one: "readable_entry False e \<Longrightarrow> readable_body (word_of_nat (length e) # e)"
  unfolding readable_body_def by (rule exI [of _ "[e]"]) simp

section \<open>Steps that write\<close>

text \<open>
  \<open>writes m P\<close>: the step \<open>m\<close> appends to the body of the class that is being written, and when it does not
  throw, what it appends satisfies \<open>P\<close>.
\<close>

definition writing :: "Compiler \<Rightarrow> (u32 \<times> u32 list) list \<Rightarrow> u32 \<Rightarrow> u32 list \<Rightarrow> bool" where
  "writing s classes c body = vector_holds (co_vector s) classes (Some (c, body))"

definition writes :: "step \<Rightarrow> (u32 list \<Rightarrow> bool) \<Rightarrow> bool" where
  "writes m P =
     (\<forall>s classes c body. writing s classes c body \<longrightarrow>
        (\<exists>out. writing (snd (m s)) classes c (body @ out) \<and> (fst (m s) = None \<longrightarrow> P out)))"

lemma writesI:
  "(\<And>s classes c body. writing s classes c body \<Longrightarrow>
     \<exists>out. writing (snd (m s)) classes c (body @ out) \<and> (fst (m s) = None \<longrightarrow> P out)) \<Longrightarrow> writes m P"
  by (simp add: writes_def)

lemma writes_none [simp]: "P [] \<Longrightarrow> writes (Pair None) P" "writes (Pair (Some e)) P"
  by (auto simp: writes_def intro: exI [of _ "[]"])

lemma writes_mono: "writes m P \<Longrightarrow> (\<And>out. P out \<Longrightarrow> Q out) \<Longrightarrow> writes m Q"
  unfolding writes_def by metis

lemma writes_then:
  assumes "writes m P" and "writes n Q" and "\<And>x y. P x \<Longrightarrow> Q y \<Longrightarrow> R (x @ y)"
  shows "writes (and_then m n) R"
proof (rule writesI)
  fix s classes c body assume w: "writing s classes c body"
  from w assms(1) obtain x where x: "writing (snd (m s)) classes c (body @ x)" "fst (m s) = None \<longrightarrow> P x"
    unfolding writes_def by blast
  from x(1) assms(2) obtain y where "writing (snd (n (snd (m s)))) classes c ((body @ x) @ y)"
    "fst (n (snd (m s))) = None \<longrightarrow> Q y" unfolding writes_def by blast
  with x assms(3) show "\<exists>out. writing (snd (and_then m n s)) classes c (body @ out) \<and> (fst (and_then m n s) = None \<longrightarrow> R out)"
    by (cases "fst (m s)") (auto intro: exI [of _ "x @ y"])
qed

lemma writes_each:
  assumes "\<And>x. writes (f x) P" and "P []" and "\<And>a b. P a \<Longrightarrow> P b \<Longrightarrow> P (a @ b)"
  shows "writes (for_each f xs) P"
proof (induction xs)
  case (Cons x xs)
  show ?case
    unfolding for_each_Cons by (rule writes_then [where P = P and Q = P, OF assms(1) Cons]) (rule assms(3))
qed (use assms(2) in \<open>auto simp: writes_def intro: exI [of _ "[]"]\<close>)

lemma writes_push: "writes (vector_push w) (\<lambda>out. out = [w])"
  unfolding vector_push_def on_vector_def writes_def writing_def
  by (auto dest: holds_push_back)

lemma writes_pushes: "writes (for_each vector_push ws) (\<lambda>out. out = ws)"
proof (induction ws)
  case (Cons w ws)
  show ?case
    unfolding for_each_Cons by (rule writes_then [OF writes_push Cons]) simp
qed (simp add: writes_def exI [of _ "[]"])

text \<open>State besides the vector does not matter.\<close>

lemma writing_updates [simp]:
  "writing (s\<lparr>co_symbols := x1\<rparr>) = writing s" "writing (s\<lparr>co_errors := x2\<rparr>) = writing s"
  "writing (s\<lparr>co_identifiers := x3\<rparr>) = writing s" "writing (s\<lparr>co_filter := x4\<rparr>) = writing s"
  "writing (s\<lparr>co_simultaneous_keycode_index := x5\<rparr>) = writing s"
  by (simp_all add: writing_def fun_eq_iff)

lemma writes_symbol:
  assumes "\<And>v. writes (next v) P"
  shows "writes (get_symbol boost name next) P" and "writes (add_auto_symbol boost type name next) P"
proof -
  show "writes (get_symbol boost name next) P"
  proof (rule writesI)
    fix s classes c body assume w: "writing s classes c body"
    show "\<exists>out. writing (snd (get_symbol boost name next s)) classes c (body @ out) \<and>
        (fst (get_symbol boost name next s) = None \<longrightarrow> P out)"
      using w assms unfolding get_symbol_def writes_def by (auto split: option.split intro: exI [of _ "[]"])
  qed
  show "writes (add_auto_symbol boost type name next) P"
  proof (rule writesI)
    fix s classes c body assume w: "writing s classes c body"
    have "\<exists>out. writing (snd (next v (s\<lparr>co_symbols := m\<rparr>))) classes c (body @ out) \<and>
        (fst (next v (s\<lparr>co_symbols := m\<rparr>)) = None \<longrightarrow> P out)" for v m
      using w assms [of v] unfolding writes_def by (metis writing_updates(1))
    then show "\<exists>out. writing (snd (add_auto_symbol boost type name next s)) classes c (body @ out) \<and>
        (fst (add_auto_symbol boost type name next s) = None \<longrightarrow> P out)"
      using w unfolding add_auto_symbol_def by (auto split: option.split intro: exI [of _ "[]"])
  qed
qed

lemma writes_error: "P [] \<Longrightarrow> writes (error_information_set e) P"
  unfolding writes_def error_information_set_def by (auto intro: exI [of _ "[]"])

text \<open>Entries with a string.\<close>

lemma length_words_of_bytes: "length (words_of_bytes bytes) = length bytes div 4"
  by (induction bytes rule: words_of_bytes.induct) auto

lemma length_string_buffer: "0 < sz \<Longrightarrow> length (string_buffer src sz) = sz"
  by (simp add: string_buffer_def c_strlcpy_def Let_def)

lemma holds_push_string:
  assumes "vector_holds v classes (Some (c, body))" and "InitVector_push_string bytes v = (n, v')"
  shows "\<exists>ws. length ws = n \<and> vector_holds v' classes (Some (c, body @ ws)) \<and> 0 < n"
proof -
  let ?ws = "words_of_bytes (string_buffer (takeWhile (\<lambda>b. b \<noteq> 0) bytes) (n * 4))"
  have c: "n = length bytes div 4 + 1" and v: "v' = fold InitVector_push_back ?ws v"
    using assms(2) by (auto simp: InitVector_push_string_def Let_def)
  have "length ?ws = n" by (simp add: length_words_of_bytes length_string_buffer c)
  with holds_push_all [OF assms(1), of ?ws] v c show ?thesis by auto
qed

lemma writes_entry:
  "writes (vector_push_entry words text)
     (\<lambda>out. \<exists>ws. ws \<noteq> [] \<and> out = word_of_nat (length (words @ ws)) # words @ ws)"
proof (rule writesI)
  fix s classes c body assume w: "writing s classes c body"
  let ?v = "fold InitVector_push_back words (InitVector_push_back 0 (co_vector s))"
  obtain n v' where p: "InitVector_push_string (map of_char text) ?v = (n, v')" by fastforce
  have h: "vector_holds (co_vector s) classes (Some (c, body))" using w by (simp add: writing_def)
  have "vector_holds ?v classes (Some (c, body @ 0 # words))"
    using holds_push_all [OF holds_push_back [OF h, of 0], of words] by simp
  from holds_push_string [OF this p] obtain ws where ws: "length ws = n" "0 < n"
    "vector_holds v' classes (Some (c, (body @ 0 # words) @ ws))" by blast
  have i: "InitVector_size (co_vector s) = body_index classes (length body)" by (rule size_body_index [OF h])
  have "vector_holds (InitVector_update (body_index classes (length body)) (word_of_nat (n + length words)) v') classes
      (Some (c, ((body @ 0 # words) @ ws)[length body := word_of_nat (n + length words)]))"
    by (rule holds_update [OF ws(3)]) simp
  then have "writing (snd (vector_push_entry words text s)) classes c (body @ word_of_nat (length (words @ ws)) # words @ ws)"
    by (simp add: vector_push_entry_def writing_def Let_def p i ws(1) [symmetric] add.commute)
  moreover have "ws \<noteq> []" using ws by auto
  ultimately show "\<exists>out. writing (snd (vector_push_entry words text s)) classes c (body @ out) \<and>
      (fst (vector_push_entry words text s) = None \<longrightarrow> (\<exists>ws. ws \<noteq> [] \<and> out = word_of_nat (length (words @ ws)) # words @ ws))"
    by blast
qed

section \<open>The classes of the definitions\<close>

lemma writes_modifier_entry: "writes (modifier_entry boost x) readable_body"
proof -
  obtain flag modifier where x: "x = (flag, modifier)" by fastforce
  show ?thesis
  proof (cases "mo_name modifier")
    case (Some name)
    have one: "writes (\<lambda>s. add_auto_symbol boost ''KeyCode'' k vector_push s) (\<lambda>out. length out = 1)" for k
      by (rule writes_symbol) (rule writes_mono [OF writes_push], simp)
    have "writes (for_each (\<lambda>k. add_auto_symbol boost ''KeyCode'' k vector_push) ks) (\<lambda>out. length out = length ks)" for ks
    proof (induction ks)
      case (Cons k ks)
      show ?case
        unfolding for_each_Cons by (rule writes_then [OF one Cons]) simp
    qed (simp add: writes_def exI [of _ "[]"])
    then have keys: "writes (for_each (\<lambda>k. add_auto_symbol boost ''KeyCode'' k vector_push) (modifier_keycodes name))
        (\<lambda>out. length out = 10)"
      by (rule writes_mono) (simp add: modifier_keycodes_def)
    have name: "writes (if mo_notify modifier then vector_push_entry [BRIDGE_MODIFIERNAME, flag] name else Pair None) readable_body"
      by (auto intro!: writes_mono [OF writes_entry] readable_body_one [of "BRIDGE_MODIFIERNAME # flag # _", simplified]
          simp: readable_entry_def Suc_le_eq)
    have "readable_body (([12, BRIDGE_VK_MODIFIER, flag] @ out) @ rest)" if "length out = 10" "readable_body rest" for out rest
      using readable_body_append [OF readable_body_one [of "BRIDGE_VK_MODIFIER # flag # out"] that(2)] that(1)
      by (simp add: readable_entry_def)
    then have "writes (and_then (for_each vector_push [12, BRIDGE_VK_MODIFIER, flag])
        (and_then (for_each (\<lambda>k. add_auto_symbol boost ''KeyCode'' k vector_push) (modifier_keycodes name))
          (if mo_notify modifier then vector_push_entry [BRIDGE_MODIFIERNAME, flag] name else Pair None))) readable_body"
      by (intro writes_then [OF writes_pushes writes_then [OF keys name, where R = "\<lambda>out. \<exists>a b. out = a @ b \<and> length a = 10 \<and> readable_body b"]])
        auto
    then show ?thesis by (simp only: x modifier_entry_def Some prod.case option.case)
  qed (simp add: x modifier_entry_def)
qed

lemma writes_vk_entry:
  assumes "type = BRIDGE_VK_CHANGE_INPUTSOURCE \<or> type = BRIDGE_VK_OPEN_URL"
  shows "writes (vk_entry type x) readable_body"
proof -
  obtain keycode y where x: "x = (keycode, y)" by fastforce
  have "readable_body [2, type, keycode]"
    using readable_body_one [of "[type, keycode]"] assms by (auto simp: readable_entry_def)
  then show ?thesis
    unfolding x vk_entry_def by (auto intro: writes_mono [OF writes_pushes])
qed

section \<open>Filters\<close>

text \<open>A step that appends to the vector of filters and counts what it appends.\<close>

definition counts :: "(counted_words \<Rightarrow> counted_words step_result) \<Rightarrow> bool" where
  "counts m = (\<forall>data n. \<exists>e ws. m (data, n) = (e, data @ ws, n + word_of_nat (length ws)))"

lemma counts_none [simp]: "counts (Pair e)"
  unfolding counts_def by (auto intro: exI [of _ "[]"])

lemma counts_push [simp]: "counts (filter_push w)"
  unfolding counts_def filter_push_def by (auto intro: exI [of _ "[w]"])

lemma counts_then [simp]:
  assumes "counts m" and "counts k"
  shows "counts (and_then m k)"
  unfolding counts_def
proof (intro allI)
  fix data n
  from assms(1) obtain e ws where m: "m (data, n) = (e, data @ ws, n + word_of_nat (length ws))"
    unfolding counts_def by blast
  from assms(2) obtain e' ws' where k: "k (data @ ws, n + word_of_nat (length ws)) =
      (e', (data @ ws) @ ws', n + word_of_nat (length ws) + word_of_nat (length ws'))"
    unfolding counts_def by blast
  show "\<exists>e ws. and_then m k (data, n) = (e, data @ ws, n + word_of_nat (length ws))"
    using m k by (cases e) (auto intro!: exI [of _ "ws @ ws'"] exI [of _ ws])
qed

lemma counts_each [simp]: "(\<And>x. counts (f x)) \<Longrightarrow> counts (for_each f xs)"
proof (induction xs)
  case Nil
  then show ?case unfolding counts_def by (auto intro: exI [of _ "[]"])
next
  case (Cons x xs)
  then show ?case unfolding for_each_Cons by (intro counts_then) auto
qed

lemma counts_symbol [simp]: "counts (filter_push_symbol boost symbols name)"
  by (auto simp: filter_push_symbol_def split: option.split)

lemma counts_fill [simp]: "counts (fill_omitted_device_specifying boost symbols)"
proof -
  note two = counts_then [OF counts_symbol counts_symbol, of boost symbols "''DeviceProduct::ANY''" boost symbols "''DeviceLocation::ANY''"]
  note one = counts_symbol [of boost symbols "''DeviceLocation::ANY''"]
  show ?thesis
    unfolding counts_def
  proof (intro allI)
    fix data and n :: u32
    show "\<exists>e ws. fill_omitted_device_specifying boost symbols (data, n) = (e, data @ ws, n + word_of_nat (length ws))"
      using two [unfolded counts_def, rule_format, of data n] one [unfolded counts_def, rule_format, of data n]
      by (auto simp only: fill_omitted_device_specifying_def Let_def prod.case split: if_splits intro: exI [of _ "[]"])
        (auto intro!: exI [of _ "[]"])
  qed
qed

lemma counts_argument: "counts (filter_argument boost symbols type prefix arg)"
  unfolding filter_argument_def Let_def by (intro counts_then counts_each | simp | intro conjI impI)+

text \<open>The vector of filters is a sequence of filter entries.\<close>

definition filter_entries :: "u32 list \<Rightarrow> bool" where
  "filter_entries data = (\<exists>es. data = entry_words es \<and> list_all (\<lambda>e. readable_entry True e \<and> \<not> is_remap_entry e) es)"

lemma filter_entries_Nil [simp]: "filter_entries []"
  unfolding filter_entries_def by (rule exI [of _ "[]"]) simp

lemma filter_vector_add_entries:
  assumes "filter_vector_add boost symbols type prefix string data = (None, data')" and "filter_entries data"
    and "BRIDGE_FILTERTYPE_NONE < type" and "type < BRIDGE_FILTERTYPE_END"
  shows "filter_entries data' \<and> (\<exists>out. data' = data @ out)"
proof -
  let ?m = "and_then (for_each (filter_argument boost symbols type prefix) (tokens (remove_whitespaces string) CHR '',''))
      (if is_device_filter type then fill_omitted_device_specifying boost symbols else Pair None)"
  have "counts ?m" by (intro counts_then counts_each counts_argument) simp
  then obtain e ws where m: "?m (data @ [0, type], 1) = (e, (data @ [0, type]) @ ws, 1 + word_of_nat (length ws))"
    unfolding counts_def by blast
  let ?n = "1 + word_of_nat (length ws) :: u32"
  have e: "e = None" and d: "data' = (if ?n = 1 then data else data @ ?n # type # ws)"
    using assms(1) m by (auto simp: filter_vector_add_def Let_def simp del: and_then_simps split: if_splits)
  have r: "readable_entry True (type # ws) \<and> \<not> is_remap_entry (type # ws)"
    using assms(3,4) by (auto simp: readable_entry_def is_remap_entry_def word_less_nat_alt)
  obtain es where "data = entry_words es" "list_all (\<lambda>e. readable_entry True e \<and> \<not> is_remap_entry e) es"
    using assms(2) unfolding filter_entries_def by blast
  with r have "filter_entries (data @ ?n # type # ws)"
    unfolding filter_entries_def by (intro exI [of _ "es @ [type # ws]"]) simp
  with d assms(2) show ?thesis by auto
qed

lemma filter_of_tag_types:
  "filter_of_tag tag = Some (type, prefix) \<Longrightarrow> BRIDGE_FILTERTYPE_NONE < type \<and> type < BRIDGE_FILTERTYPE_END"
  by (auto simp: filter_of_tag_def split: if_splits)

lemma filter_vector_traverse_entries:
  assumes "filter_entries (co_filter s)"
  shows "\<exists>out. snd (filter_vector_traverse boost nodes s) = s\<lparr>co_filter := out\<rparr> \<and>
    (fst (filter_vector_traverse boost nodes s) = None \<longrightarrow> filter_entries out \<and> (\<exists>fs. out = co_filter s @ fs))"
proof -
  have "for_each (filter_vector_node boost (co_symbols s)) nodes data = (None, data') \<Longrightarrow> filter_entries data \<Longrightarrow>
      filter_entries data' \<and> (\<exists>fs. data' = data @ fs)" for data data'
  proof (induction nodes arbitrary: data)
    case (Cons n nodes)
    obtain e d where n: "filter_vector_node boost (co_symbols s) n data = (e, d)" by fastforce
    with Cons.prems(1) have e: "e = None" by (auto split: if_splits)
    have d: "filter_entries d \<and> (\<exists>fs. d = data @ fs)"
    proof (cases "filter_of_tag (get_tag_name n)")
      case (Some x)
      then show ?thesis
        using n e Cons.prems(2) filter_of_tag_types filter_vector_add_entries
        by (cases x) (fastforce simp: filter_vector_node_def)
    qed (use n Cons.prems(2) in \<open>auto simp: filter_vector_node_def\<close>)
    moreover have "for_each (filter_vector_node boost (co_symbols s)) nodes d = (None, data')"
      using Cons.prems(1) n e by simp
    ultimately show ?case using Cons.IH by fastforce
  qed simp
  then show ?thesis
    using assms by (auto simp: filter_vector_traverse_def Let_def split: prod.split)
qed

lemma readable_filter_entries: "list_all (\<lambda>e. readable_entry True e \<and> \<not> is_remap_entry e) es \<Longrightarrow> readable_entries True es"
  by (induction es) auto

lemma readable_remapping:
  assumes "is_remap_entry e" and "e \<noteq> []" and "filter_entries filters"
  shows "readable_body (word_of_nat (length e) # e @ filters)"
proof -
  from assms(3) obtain es where es: "filters = entry_words es" "readable_entries True es"
    unfolding filter_entries_def using readable_filter_entries by blast
  have "readable_entries False (e # es)" using es(2) assms(1,2) by (simp add: readable_entry_def)
  then show ?thesis unfolding readable_body_def by (intro exI [of _ "e # es"]) (simp add: es)
qed

section \<open>Remappings\<close>

text \<open>
  The reference: the values of a setting as pairs of a type and a number, the modifiers of an argument
  closed by an end mark, and in front one pair for each separator that tells the reader of it.
\<close>

definition value_pair :: "Boost \<Rightarrow> SymbolMap \<Rightarrow> string \<Rightarrow> u32 \<times> u32" where
  "value_pair boost symbols value =
     (get_datatype boost value, case SymbolMap_get_optional boost value symbols of Some v \<Rightarrow> v | None \<Rightarrow> 0)"

definition argument_pairs :: "Boost \<Rightarrow> SymbolMap \<Rightarrow> string \<Rightarrow> (u32 \<times> u32) list" where
  "argument_pairs boost symbols arg =
     (let ps = map (value_pair boost symbols) (tokens arg CHR ''|'')
      in ps @ (if ps \<noteq> [] \<and> fst (last ps) = BRIDGE_DATATYPE_MODIFIERFLAG then [(BRIDGE_DATATYPE_MODIFIERFLAGS_END, 1)] else []))"

definition setting_pairs :: "Boost \<Rightarrow> SymbolMap \<Rightarrow> u32 \<Rightarrow> u32 \<Rightarrow> string \<Rightarrow> (u32 \<times> u32) list" where
  "setting_pairs boost symbols separator use_separator params =
     (let ps = concat (map (argument_pairs boost symbols) (tokens (entry_aliases boost params) CHR '',''))
      in replicate (length (filter ((=) (BRIDGE_DATATYPE_OPTION, separator)) ps)) (BRIDGE_DATATYPE_OPTION, use_separator) @ ps)"

definition pair_words :: "(u32 \<times> u32) list \<Rightarrow> u32 list" where
  "pair_words ps = concat (map (\<lambda>(d, v). [d, v]) ps)"

lemma pair_words_simps [simp]:
  "pair_words [] = []" "pair_words (p # ps) = fst p # snd p # pair_words ps"
  "pair_words (ps @ qs) = pair_words ps @ pair_words qs"
  by (simp_all add: pair_words_def case_prod_unfold)

definition add_pair :: "u32 \<Rightarrow> u32 \<Rightarrow> u32 \<times> u32 \<Rightarrow> (u32 \<times> u32) list \<Rightarrow> (u32 \<times> u32) list" where
  "add_pair separator use_separator p ps =
     (if p = (BRIDGE_DATATYPE_OPTION, separator) then [(BRIDGE_DATATYPE_OPTION, use_separator)] else []) @ ps @ [p]"

lemma fold_add_pair:
  "fold (add_pair separator use_separator) ps acc =
     replicate (length (filter ((=) (BRIDGE_DATATYPE_OPTION, separator)) ps)) (BRIDGE_DATATYPE_OPTION, use_separator) @ acc @ ps"
proof (induction ps arbitrary: acc)
  case (Cons p ps)
  then show ?case by (auto simp: add_pair_def replicate_append_same)
qed simp

text \<open>The state while an entry is written: the size is still zero, the type and some pairs are there.\<close>

definition writing_pairs ::
  "(u32 \<times> u32 list) list \<Rightarrow> u32 \<Rightarrow> u32 list \<Rightarrow> u32 \<Rightarrow> entry_state \<Rightarrow> (u32 \<times> u32) list \<Rightarrow> bool"
where
  "writing_pairs classes c body type = (\<lambda>(v, n, datatype) ps.
     vector_holds v classes (Some (c, body @ 0 # type # pair_words ps)) \<and> n = word_of_nat (1 + length (pair_words ps)))"

lemma push_pair:
  assumes "writing_pairs classes c body type (v, n, datatype) ps"
  shows "writing_pairs classes c body type (entry_push b (entry_push a (v, n, datatype))) (ps @ [(a, b)])"
  using holds_push_back [OF holds_push_back, of v classes c "body @ 0 # type # pair_words ps" b a] assms
  by (simp add: writing_pairs_def entry_push_def)

lemma insert_pair:
  assumes "writing_pairs classes c body type (v, n, datatype) ps"
  shows "writing_pairs classes c body type
    (entry_insert (body_index classes (length body + 2)) a (entry_insert (body_index classes (length body + 2)) b (v, n, datatype)))
    ((a, b) # ps)"
proof -
  let ?i = "length body + 2"
  have h: "vector_holds v classes (Some (c, body @ 0 # type # pair_words ps))" using assms by (simp add: writing_pairs_def)
  have "vector_holds (InitVector_insert (body_index classes ?i) b v) classes (Some (c, body @ 0 # type # b # pair_words ps))"
    using holds_insert [OF h, of ?i b] by simp
  from holds_insert [OF this, of ?i a] assms show ?thesis
    by (simp add: writing_pairs_def entry_insert_def)
qed

lemma entry_value_pairs:
  assumes "writing_pairs classes c body type (v, n, datatype) ps"
    and "entry_value boost symbols separator use_separator (body_index classes (length body + 2)) arg value (v, n, datatype) =
      (e, v', n', datatype')"
  shows "\<exists>ps'. writing_pairs classes c body type (v', n', datatype') ps' \<and>
    (e = None \<longrightarrow> ps' = add_pair separator use_separator (value_pair boost symbols value) ps \<and>
       datatype' = fst (value_pair boost symbols value))"
proof (cases "e = None")
  case False
  then have "v' = v \<and> n' = n"
    using assms(2) by (auto simp: entry_value_def Let_def split: if_splits option.splits)
  with assms(1) have "writing_pairs classes c body type (v', n', datatype') ps" by (simp add: writing_pairs_def)
  with False show ?thesis by blast
next
  case True
  let ?d = "get_datatype boost value"
  obtain w where w: "SymbolMap_get_optional boost value symbols = Some w"
    using assms(2) True by (auto simp: entry_value_def Let_def split: if_splits option.splits)
  let ?s = "entry_push w (entry_push ?d (v, n, ?d))"
  let ?i = "body_index classes (length body + 2)"
  have s': "(v', n', datatype') = (if ?d = BRIDGE_DATATYPE_OPTION \<and> w = separator
      then entry_insert ?i BRIDGE_DATATYPE_OPTION (entry_insert ?i use_separator ?s) else ?s)"
    using assms(2) True w by (auto simp: entry_value_def Let_def split: if_splits)
  have "writing_pairs classes c body type ?s (ps @ [(?d, w)])"
    by (rule push_pair) (use assms(1) in \<open>simp add: writing_pairs_def\<close>)
  moreover obtain v2 n2 where s2: "?s = (v2, n2, ?d)" by (simp add: entry_push_def)
  ultimately show ?thesis
    using s' insert_pair [of classes c body type v2 n2 ?d "ps @ [(?d, w)]" BRIDGE_DATATYPE_OPTION use_separator] True w
    by (auto simp: value_pair_def add_pair_def entry_insert_def split: if_splits)
qed

lemma entry_values_pairs:
  assumes "writing_pairs classes c body type (v, n, dt) ps"
    and "for_each (entry_value boost symbols separator use_separator (body_index classes (length body + 2)) arg) vals
      (v, n, dt) = (e, v', n', dt')"
  shows "\<exists>ps'. writing_pairs classes c body type (v', n', dt') ps' \<and>
    (e = None \<longrightarrow> ps' = fold (add_pair separator use_separator) (map (value_pair boost symbols) vals) ps \<and>
       dt' = (if vals = [] then dt else fst (value_pair boost symbols (last vals))))"
  using assms
proof (induction vals arbitrary: v n dt ps)
  case (Cons x vals)
  obtain e1 v1 n1 d1 where one: "entry_value boost symbols separator use_separator (body_index classes (length body + 2)) arg x
      (v, n, dt) = (e1, v1, n1, d1)" by (metis prod_cases4)
  from entry_value_pairs [OF Cons.prems(1) one] obtain ps1 where ps1: "writing_pairs classes c body type (v1, n1, d1) ps1"
    "e1 = None \<Longrightarrow> ps1 = add_pair separator use_separator (value_pair boost symbols x) ps"
    "e1 = None \<Longrightarrow> d1 = fst (value_pair boost symbols x)" by blast
  show ?case
  proof (cases "e1 = None")
    case True
    with Cons.prems(2) one have "for_each (entry_value boost symbols separator use_separator (body_index classes (length body + 2)) arg)
        vals (v1, n1, d1) = (e, v', n', dt')" by simp
    from Cons.IH [OF ps1(1) this] ps1(2,3) True show ?thesis by auto
  next
    case False
    with Cons.prems(2) one ps1(1) show ?thesis by auto
  qed
qed auto

lemma entry_argument_pairs:
  assumes "writing_pairs classes c body type (v, n, datatype) ps"
    and "entry_argument boost symbols separator use_separator (body_index classes (length body + 2)) arg (v, n, datatype) =
      (e, v', n', datatype')"
  shows "\<exists>ps'. writing_pairs classes c body type (v', n', datatype') ps' \<and>
    (e = None \<longrightarrow> ps' = fold (add_pair separator use_separator) (argument_pairs boost symbols arg) ps)"
proof -
  have z: "writing_pairs classes c body type (v, n, 0) ps" using assms(1) by (simp add: writing_pairs_def)
  obtain e1 v1 n1 d1 where vs: "for_each (entry_value boost symbols separator use_separator (body_index classes (length body + 2)) arg)
      (tokens arg CHR ''|'') (v, n, 0) = (e1, v1, n1, d1)" by (metis prod_cases4)
  from entry_values_pairs [OF z vs] obtain ps1 where ps1: "writing_pairs classes c body type (v1, n1, d1) ps1"
    "e1 = None \<Longrightarrow> ps1 = fold (add_pair separator use_separator) (map (value_pair boost symbols) (tokens arg CHR ''|'')) ps"
    "e1 = None \<Longrightarrow> d1 = (if tokens arg CHR ''|'' = [] then 0 else fst (value_pair boost symbols (last (tokens arg CHR ''|''))))"
    by blast
  show ?thesis
  proof (cases "e1 = None")
    case False
    with assms(2) vs ps1(1) show ?thesis by (auto simp: entry_argument_def)
  next
    case True
    show ?thesis
      using assms(2) vs ps1 True push_pair [OF ps1(1), where a = BRIDGE_DATATYPE_MODIFIERFLAGS_END and b = 1]
      by (auto simp: entry_argument_def argument_pairs_def add_pair_def Let_def last_map split: if_splits)
  qed
qed

lemma entry_arguments_pairs:
  assumes "writing_pairs classes c body type (v, n, dt) ps"
    and "for_each (entry_argument boost symbols separator use_separator (body_index classes (length body + 2))) args
      (v, n, dt) = (e, v', n', dt')"
  shows "\<exists>ps'. writing_pairs classes c body type (v', n', dt') ps' \<and>
    (e = None \<longrightarrow> ps' = fold (add_pair separator use_separator) (concat (map (argument_pairs boost symbols) args)) ps)"
  using assms
proof (induction args arbitrary: v n dt ps)
  case (Cons arg args)
  obtain e1 v1 n1 d1 where one: "entry_argument boost symbols separator use_separator (body_index classes (length body + 2)) arg
      (v, n, dt) = (e1, v1, n1, d1)" by (metis prod_cases4)
  from entry_argument_pairs [OF Cons.prems(1) one] obtain ps1 where ps1: "writing_pairs classes c body type (v1, n1, d1) ps1"
    "e1 = None \<Longrightarrow> ps1 = fold (add_pair separator use_separator) (argument_pairs boost symbols arg) ps" by blast
  show ?case
  proof (cases "e1 = None")
    case True
    with Cons.prems(2) one have "for_each (entry_argument boost symbols separator use_separator (body_index classes (length body + 2)))
        args (v1, n1, d1) = (e, v', n', dt')" by simp
    from Cons.IH [OF ps1(1) this] ps1(2) True show ?thesis by auto
  next
    case False
    with Cons.prems(2) one ps1(1) show ?thesis by auto
  qed
qed auto

lemma remapping_written:
  assumes "writing s classes c body"
  shows "\<exists>out. writing (snd (add_to_initialize_vector boost separator use_separator params type s)) classes c (body @ out) \<and>
    (fst (add_to_initialize_vector boost separator use_separator params type s) = None \<longrightarrow>
       (let e = type # pair_words (setting_pairs boost (co_symbols s) separator use_separator params)
        in out = word_of_nat (length e) # e @ co_filter s))"
proof -
  let ?v = "InitVector_push_back type (InitVector_push_back 0 (co_vector s))"
  let ?args = "tokens (entry_aliases boost params) CHR '',''"
  have h: "vector_holds (co_vector s) classes (Some (c, body))" using assms by (simp add: writing_def)
  have i: "InitVector_size (co_vector s) = body_index classes (length body)" by (rule size_body_index [OF h])
  have v: "vector_holds ?v classes (Some (c, body @ [0, type]))"
    using holds_push_back [OF holds_push_back [OF h], of type 0] by simp
  then have start: "writing_pairs classes c body type (?v, 1, 0) []" by (simp add: writing_pairs_def)
  have j: "InitVector_size ?v = body_index classes (length body + 2)" using size_body_index [OF v] by simp
  obtain e v' n' d' where args: "for_each (entry_argument boost (co_symbols s) separator use_separator
      (body_index classes (length body + 2))) ?args (?v, 1, 0) = (e, v', n', d')" by (metis prod_cases4)
  from entry_arguments_pairs [OF start args] obtain ps where ps: "writing_pairs classes c body type (v', n', d') ps"
    "e = None \<Longrightarrow> ps = fold (add_pair separator use_separator) (concat (map (argument_pairs boost (co_symbols s)) ?args)) []"
    by blast
  have add: "add_to_initialize_vector boost separator use_separator params type s =
      (if e \<noteq> None then (e, s\<lparr>co_vector := v'\<rparr>)
       else (None, s\<lparr>co_vector := fold InitVector_push_back (co_filter s) (InitVector_update (body_index classes (length body)) n' v')\<rparr>))"
    using args by (simp add: add_to_initialize_vector_def Let_def i j)
  have h': "vector_holds v' classes (Some (c, body @ 0 # type # pair_words ps))" and n': "n' = word_of_nat (1 + length (pair_words ps))"
    using ps(1) by (simp_all add: writing_pairs_def)
  show ?thesis
  proof (cases "e = None")
    case False
    then show ?thesis
      using h' by (intro exI [of _ "0 # type # pair_words ps"]) (simp add: add writing_def False)
  next
    case True
    have p: "ps = setting_pairs boost (co_symbols s) separator use_separator params"
      using ps(2) [OF True] by (simp add: fold_add_pair setting_pairs_def Let_def)
    have "vector_holds (InitVector_update (body_index classes (length body)) n' v') classes
        (Some (c, (body @ 0 # type # pair_words ps)[length body := n']))" by (rule holds_update [OF h']) simp
    from holds_push_all [OF this, of "co_filter s"] n' True p show ?thesis
      by (simp add: add writing_def Let_def)
  qed
qed

text \<open>
  C15: Writing a remapping appends one entry: its size, its type and the pairs of its values, with a pair in front for
  every separator, and then the filters that apply. When a value is not known, nothing but the class that is
  being written is changed.
\<close>

theorem remapping_encoded:
  assumes "writing s classes c body"
  shows "\<exists>out. writing (snd (add_to_initialize_vector boost separator use_separator params type s)) classes c (body @ out) \<and>
    (fst (add_to_initialize_vector boost separator use_separator params type s) = None \<longrightarrow>
       (let e = type # pair_words (setting_pairs boost (co_symbols s) separator use_separator params)
        in out = word_of_nat (length e) # e @ co_filter s))"
  by (rule remapping_written [OF assms])

definition example_compiler :: Compiler where
  "example_compiler = snd (vector_start 0 [] (Compiler_clear Compiler_new))"

theorem remapping_encoded_witness:
  "\<exists>s. s = snd (add_to_initialize_vector example_boost 1 2 ''KeyCode::RawValue::3'' BRIDGE_REMAPTYPE_KEYTOKEY example_compiler) \<and>
     writing s [] 0 [3, BRIDGE_REMAPTYPE_KEYTOKEY, BRIDGE_DATATYPE_KEYCODE, 51]"
proof -
  have s: "writing example_compiler [] 0 []"
    using holds_start [OF holds_clear, of 0 "[]"]
    by (simp add: example_compiler_def writing_def vector_start_def Compiler_clear_def case_prod_unfold Let_def)
  have t: "tokens ''KeyCode::RawValue::3'' CHR '','' = [''KeyCode::RawValue::3'']"
    "tokens ''KeyCode::RawValue::3'' CHR ''|'' = [''KeyCode::RawValue::3'']" by code_simp+
  have "co_symbols example_compiler = SymbolMap_clear (SymbolMap_clear SymbolMap_empty)"
    by (simp add: example_compiler_def vector_start_def Compiler_clear_def Compiler_new_def case_prod_unfold Let_def)
  then have v: "SymbolMap_get_optional example_boost ''KeyCode::RawValue::3'' (co_symbols example_compiler) = Some 51"
    by (simp add: SymbolMap_get_optional_def SymbolMap_clear_def scoped_def to_uint32_t_def example_boost_def)
  have d: "entry_aliases example_boost x = x" for x
    by (simp add: entry_aliases_def example_boost_def)
  have k: "get_datatype example_boost ''KeyCode::RawValue::3'' = BRIDGE_DATATYPE_KEYCODE"
    by (simp add: get_datatype_def example_boost_def)
  have p: "setting_pairs example_boost (co_symbols example_compiler) 1 2 ''KeyCode::RawValue::3'' = [(BRIDGE_DATATYPE_KEYCODE, 51)]"
    by (simp add: setting_pairs_def argument_pairs_def value_pair_def t v d k Let_def)
  have e: "fst (add_to_initialize_vector example_boost 1 2 ''KeyCode::RawValue::3'' BRIDGE_REMAPTYPE_KEYTOKEY example_compiler) = None"
    by (simp add: add_to_initialize_vector_def entry_argument_def entry_value_def entry_push_def t v d k Let_def)
  have f: "co_filter example_compiler = []"
    by (simp add: example_compiler_def vector_start_def Compiler_clear_def Compiler_new_def case_prod_unfold Let_def)
  from remapping_encoded [OF s, of example_boost 1 2 "''KeyCode::RawValue::3''" BRIDGE_REMAPTYPE_KEYTOKEY] e p f
  show ?thesis by (auto simp: Let_def)
qed

section \<open>The entries of a setting\<close>

text \<open>
  A step that may not return, but when it does and no exception was thrown, it has appended readable entries
  and the filters are the ones from before.
\<close>

definition tracks :: "partial_step \<Rightarrow> bool" where
  "tracks m =
     (\<forall>s r classes c body. m s = Some r \<longrightarrow> writing s classes c body \<longrightarrow> filter_entries (co_filter s) \<longrightarrow>
        (\<exists>out. writing (snd r) classes c (body @ out) \<and>
           (fst r = None \<longrightarrow> readable_body out \<and> co_filter (snd r) = co_filter s)))"

lemma tracksI:
  "(\<And>s r classes c body. m s = Some r \<Longrightarrow> writing s classes c body \<Longrightarrow> filter_entries (co_filter s) \<Longrightarrow>
     \<exists>out. writing (snd r) classes c (body @ out) \<and>
       (fst r = None \<longrightarrow> readable_body out \<and> co_filter (snd r) = co_filter s)) \<Longrightarrow> tracks m"
  by (simp add: tracks_def)

lemma tracksD:
  assumes "tracks m" and "m s = Some r" and "writing s classes c body" and "filter_entries (co_filter s)"
  obtains out where "writing (snd r) classes c (body @ out)"
    and "fst r = None \<Longrightarrow> readable_body out" and "fst r = None \<Longrightarrow> co_filter (snd r) = co_filter s"
  using assms unfolding tracks_def by blast

lemma tracks_then:
  assumes "tracks m" and "tracks n"
  shows "tracks (then_do m n)"
proof (rule tracksI)
  fix s r classes c body
  assume r: "then_do m n s = Some r" and w: "writing s classes c body" and f: "filter_entries (co_filter s)"
  obtain q where q: "m s = Some q" using r by (cases "m s") (auto simp: then_do_def)
  obtain x where x: "writing (snd q) classes c (body @ x)" "fst q = None \<Longrightarrow> readable_body x"
    "fst q = None \<Longrightarrow> co_filter (snd q) = co_filter s" using tracksD [OF assms(1) q w f] by blast
  show "\<exists>out. writing (snd r) classes c (body @ out) \<and> (fst r = None \<longrightarrow> readable_body out \<and> co_filter (snd r) = co_filter s)"
  proof (cases "fst q = None")
    case True
    then have "n (snd q) = Some r" using r q by (auto simp: then_do_def case_prod_unfold)
    from tracksD [OF assms(2) this x(1)] x True f obtain y where "writing (snd r) classes c ((body @ x) @ y)"
      "fst r = None \<Longrightarrow> readable_body y" "fst r = None \<Longrightarrow> co_filter (snd r) = co_filter (snd q)" by auto
    with x True show ?thesis by (auto intro!: exI [of _ "x @ y"] readable_body_append)
  next
    case False
    then have "r = q" using r q by (cases q) (auto simp: then_do_def)
    with x False show ?thesis by auto
  qed
qed

lemma tracks_step:
  assumes "writes m readable_body" and "\<And>s. co_filter (snd (m s)) = co_filter s"
  shows "tracks (Some \<circ> m)"
proof (rule tracksI)
  fix s r classes c body
  assume "(Some \<circ> m) s = Some r" and "writing s classes c body"
  moreover from this assms(1) obtain out where "writing (snd (m s)) classes c (body @ out)" "fst (m s) = None \<longrightarrow> readable_body out"
    unfolding writes_def by blast
  ultimately show "\<exists>out. writing (snd r) classes c (body @ out) \<and> (fst r = None \<longrightarrow> readable_body out \<and> co_filter (snd r) = co_filter s)"
    using assms(2) by auto
qed

lemma add_to_initialize_vector_filter:
  "co_filter (snd (add_to_initialize_vector boost separator use_separator params type s)) = co_filter s"
  by (simp add: add_to_initialize_vector_def Let_def case_prod_unfold)

definition appends_readable :: "step \<Rightarrow> bool" where
  "appends_readable m =
     (\<forall>s classes c body. writing s classes c body \<longrightarrow> filter_entries (co_filter s) \<longrightarrow>
        co_filter (snd (m s)) = co_filter s \<and>
        (\<exists>out. writing (snd (m s)) classes c (body @ out) \<and> (fst (m s) = None \<longrightarrow> readable_body out)))"

lemma appends_readableD:
  "appends_readable m \<Longrightarrow> writing s classes c body \<Longrightarrow> filter_entries (co_filter s) \<Longrightarrow>
   co_filter (snd (m s)) = co_filter s \<and>
   (\<exists>out. writing (snd (m s)) classes c (body @ out) \<and> (fst (m s) = None \<longrightarrow> readable_body out))"
  unfolding appends_readable_def by blast

lemma add_remapping_appends:
  assumes "BRIDGE_REMAPTYPE_NONE < type" and "type < BRIDGE_REMAPTYPE_END"
  shows "appends_readable (add_to_initialize_vector boost separator use_separator params type)"
  unfolding appends_readable_def
proof (intro allI impI conjI add_to_initialize_vector_filter)
  fix s classes c body
  assume w: "writing s classes c body" and f: "filter_entries (co_filter s)"
  let ?r = "add_to_initialize_vector boost separator use_separator params type s"
  let ?e = "type # pair_words (setting_pairs boost (co_symbols s) separator use_separator params)"
  from remapping_written [OF w, of boost separator use_separator params type] obtain out where
    out: "writing (snd ?r) classes c (body @ out)" "fst ?r = None \<longrightarrow> out = word_of_nat (length ?e) # ?e @ co_filter s"
    unfolding Let_def by (elim exE conjE) (rule that)
  have "readable_body out" if "fst ?r = None"
    unfolding out(2) [rule_format, OF that]
    by (rule readable_remapping) (use f assms in \<open>simp_all add: is_remap_entry_def\<close>)
  then show "\<exists>out. writing (snd ?r) classes c (body @ out) \<and> (fst ?r = None \<longrightarrow> readable_body out)"
    by (intro exI [of _ out] conjI impI out(1))
qed

lemma appends_symbol:
  assumes "\<And>v. appends_readable (next v)"
  shows "appends_readable (add_auto_symbol boost type name next)"
  unfolding appends_readable_def
proof (intro allI impI)
  fix s classes c body
  assume w: "writing s classes c body" and f: "filter_entries (co_filter s)"
  show "co_filter (snd (add_auto_symbol boost type name next s)) = co_filter s \<and>
    (\<exists>out. writing (snd (add_auto_symbol boost type name next s)) classes c (body @ out) \<and>
      (fst (add_auto_symbol boost type name next s) = None \<longrightarrow> readable_body out))"
  proof (cases "SymbolMap_add_auto boost type name (co_symbols s)")
    case None
    with w show ?thesis by (auto simp: add_auto_symbol_def intro: exI [of _ "[]"])
  next
    case (Some x)
    obtain v m where x: "x = (v, m)" by (cases x)
    have "writing (s\<lparr>co_symbols := m\<rparr>) classes c body" "filter_entries (co_filter (s\<lparr>co_symbols := m\<rparr>))"
      using w f by simp_all
    from appends_readableD [OF assms [of v] this] show ?thesis
      by (simp add: add_auto_symbol_def Some x)
  qed
qed

lemma appends_update:
  assumes "appends_readable m"
  shows "appends_readable (\<lambda>s. m (s\<lparr>co_simultaneous_keycode_index := f s\<rparr>))"
  unfolding appends_readable_def
proof (intro allI impI)
  fix s classes c body
  assume "writing s classes c body" and "filter_entries (co_filter s)"
  then have "writing (s\<lparr>co_simultaneous_keycode_index := f s\<rparr>) classes c body"
    "filter_entries (co_filter (s\<lparr>co_simultaneous_keycode_index := f s\<rparr>))" by simp_all
  from appends_readableD [OF assms this] show
    "co_filter (snd (m (s\<lparr>co_simultaneous_keycode_index := f s\<rparr>))) = co_filter s \<and>
     (\<exists>out. writing (snd (m (s\<lparr>co_simultaneous_keycode_index := f s\<rparr>))) classes c (body @ out) \<and>
        (fst (m (s\<lparr>co_simultaneous_keycode_index := f s\<rparr>)) = None \<longrightarrow> readable_body out))" by simp
qed

lemma remap_types_range:
  "(symbol, type) \<in> set remap_types \<Longrightarrow> BRIDGE_REMAPTYPE_NONE < type \<and> type < BRIDGE_REMAPTYPE_END"
  by (auto simp: remap_types_def)

lemma autogen_entry_appends: "appends_readable (autogen_entry boost separator use_separator raw autogen)"
proof -
  consider (message) "bs_starts_with boost autogen ''__ShowStatusMessage__''"
    | (simultaneous) "\<not> bs_starts_with boost autogen ''__ShowStatusMessage__''" "bs_starts_with boost autogen ''__SimultaneousKeyPresses__''"
    | (other) "\<not> bs_starts_with boost autogen ''__ShowStatusMessage__''" "\<not> bs_starts_with boost autogen ''__SimultaneousKeyPresses__''"
    by blast
  then show ?thesis
  proof cases
    case message
    let ?m = "vector_push_entry [BRIDGE_STATUSMESSAGE] (bs_trim boost (drop (length ''__ShowStatusMessage__'') autogen))"
    have m: "autogen_entry boost separator use_separator raw autogen = ?m"
      by (rule ext) (simp only: autogen_entry_def message if_True)
    have "writes ?m readable_body"
      by (rule writes_mono [OF writes_entry])
        (auto intro!: readable_body_one [of "BRIDGE_STATUSMESSAGE # _", simplified] simp: readable_entry_def)
    moreover have "co_filter (snd (?m s)) = co_filter s" for s
      by (simp add: vector_push_entry_def Let_def case_prod_unfold)
    ultimately show ?thesis unfolding m writes_def appends_readable_def by blast
  next
    case simultaneous
    have range: "BRIDGE_REMAPTYPE_NONE < BRIDGE_REMAPTYPE_SIMULTANEOUSKEYPRESSES"
      "BRIDGE_REMAPTYPE_SIMULTANEOUSKEYPRESSES < BRIDGE_REMAPTYPE_END" by simp_all
    show ?thesis
      unfolding appends_readable_def
    proof (intro allI impI)
      fix s classes c body
      assume w: "writing s classes c body" "filter_entries (co_filter s)"
      show "co_filter (snd (autogen_entry boost separator use_separator raw autogen s)) = co_filter s \<and>
          (\<exists>out. writing (snd (autogen_entry boost separator use_separator raw autogen s)) classes c (body @ out) \<and>
             (fst (autogen_entry boost separator use_separator raw autogen s) = None \<longrightarrow> readable_body out))"
        unfolding autogen_entry_def Let_def if_not_P [OF simultaneous(1)] if_P [OF simultaneous(2)]
        by (rule appends_readableD [OF _ w], rule appends_symbol, rule appends_update,
            rule add_remapping_appends [OF range])
    qed
  next
    case other
    have m: "autogen_entry boost separator use_separator raw autogen =
        (\<lambda>s. case find (\<lambda>(symbol, type). bs_starts_with boost autogen symbol) remap_types of
          Some (symbol, type) \<Rightarrow> add_to_initialize_vector boost separator use_separator (drop (length symbol) autogen) type s
        | None \<Rightarrow> (Some (Invalid_autogen raw), s))"
      by (rule ext) (simp only: autogen_entry_def other if_False)
    show ?thesis
    proof (cases "find (\<lambda>(symbol, type). bs_starts_with boost autogen symbol) remap_types")
      case None
      show ?thesis unfolding m None appends_readable_def by (auto intro: exI [of _ "[]"])
    next
      case (Some x)
      obtain symbol type where x: "x = (symbol, type)" by fastforce
      have "(symbol, type) \<in> set remap_types" using Some unfolding x by (metis find_Some_iff nth_mem)
      from add_remapping_appends remap_types_range [OF this] show ?thesis unfolding m Some x by simp
    qed
  qed
qed

lemma autogen_entry_tracks:
  assumes "writing s classes c body" and "filter_entries (co_filter s)"
    and "autogen_entry boost separator use_separator raw autogen s = r"
  shows "\<exists>out. writing (snd r) classes c (body @ out) \<and> (fst r = None \<longrightarrow> readable_body out) \<and> co_filter (snd r) = co_filter s"
  using autogen_entry_appends [of boost separator use_separator raw autogen] assms unfolding appends_readable_def by blast

lemma handle_autogens_tracks: "tracks (handle_autogens boost separator use_separator raw autogens)"
proof (rule tracksI)
  fix s r classes c body
  let ?P = "\<lambda>s r body. \<exists>out. writing (snd r) classes c (body @ out) \<and>
    (fst r = None \<longrightarrow> readable_body out \<and> co_filter (snd r) = co_filter s)"
  assume h: "handle_autogens boost separator use_separator raw autogens s = Some r"
    and w: "writing s classes c body" and f: "filter_entries (co_filter s)"
  have "\<forall>body. writing s classes c body \<longrightarrow> filter_entries (co_filter s) \<longrightarrow> ?P s r body"
  proof (rule handle_autogens.raw_induct [where P = "\<lambda>boost separator use_separator raw autogens s r.
      \<forall>body. writing s classes c body \<longrightarrow> filter_entries (co_filter s) \<longrightarrow> ?P s r body", OF _ h], intro allI impI)
    fix handle boost separator use_separator raw autogens s r body
    assume IH: "\<And>boost separator use_separator raw autogens s r. handle boost separator use_separator raw autogens s = Some r \<Longrightarrow>
        \<forall>body. writing s classes c body \<longrightarrow> filter_entries (co_filter s) \<longrightarrow> ?P s r body"
      and body: "(case autogens of [] \<Rightarrow> Some (None, s)
        | autogen # rest \<Rightarrow> (case expand_autogen boost autogen of
             Some expanded \<Rightarrow> handle boost separator use_separator raw (expanded @ rest) s
           | None \<Rightarrow> (case autogen_entry boost separator use_separator raw autogen s of
                  (None, s) \<Rightarrow> handle boost separator use_separator raw rest s
                | (Some e, s) \<Rightarrow> Some (Some e, s)))) = Some r"
      and w: "writing s classes c body" and f: "filter_entries (co_filter s)"
    show "?P s r body"
    proof (cases autogens)
      case Nil
      with body w show ?thesis by (auto intro: exI [of _ "[]"])
    next
      case (Cons autogen rest)
      show ?thesis
      proof (cases "expand_autogen boost autogen")
        case (Some expanded)
        with body Cons have "handle boost separator use_separator raw (expanded @ rest) s = Some r" by simp
        from IH [OF this] w f show ?thesis by blast
      next
        case None
        obtain e t where e: "autogen_entry boost separator use_separator raw autogen s = (e, t)" by fastforce
        from autogen_entry_tracks [OF w f e] obtain x where x: "writing t classes c (body @ x)"
          "e = None \<Longrightarrow> readable_body x" "co_filter t = co_filter s" by auto
        show ?thesis
        proof (cases e)
          case (Some m)
          with body Cons None e x(1) show ?thesis by auto
        next
          case e': None
          then have "handle boost separator use_separator raw rest t = Some r" using body Cons None e by simp
          from IH [OF this] x f obtain y where "writing (snd r) classes c ((body @ x) @ y)"
            "fst r = None \<longrightarrow> readable_body y \<and> co_filter (snd r) = co_filter t" by auto
          with x e' show ?thesis by (auto intro!: exI [of _ "x @ y"] readable_body_append)
        qed
      qed
    qed
  qed
  with w f show "?P s r body" by blast
qed

lemma tracks_in_filters:
  assumes "tracks m"
  shows "tracks (\<lambda>s. let size = length (co_filter s) in
    then_do (Some \<circ> filter_vector_traverse boost children)
      (then_do m (\<lambda>s. Some (None, s\<lparr>co_filter := take size (co_filter s)\<rparr>))) s)"
proof (rule tracksI)
  fix s r classes c body
  assume r: "(let size = length (co_filter s) in
      then_do (Some \<circ> filter_vector_traverse boost children)
        (then_do m (\<lambda>s. Some (None, s\<lparr>co_filter := take size (co_filter s)\<rparr>))) s) = Some r"
    and w: "writing s classes c body" and f: "filter_entries (co_filter s)"
  obtain e t where t: "filter_vector_traverse boost children s = (e, t)" by fastforce
  from filter_vector_traverse_entries [OF f, of boost children] t obtain out where
    out: "t = s\<lparr>co_filter := out\<rparr>" "e = None \<Longrightarrow> filter_entries out" "e = None \<Longrightarrow> \<exists>fs. out = co_filter s @ fs" by auto
  show "\<exists>out. writing (snd r) classes c (body @ out) \<and> (fst r = None \<longrightarrow> readable_body out \<and> co_filter (snd r) = co_filter s)"
  proof (cases e)
    case (Some x)
    then show ?thesis using r t w out(1) by (auto simp: then_do_def intro: exI [of _ "[]"])
  next
    case None
    have wt: "writing t classes c body" "filter_entries (co_filter t)" using w out None by simp_all
    from r t None obtain q where q: "m t = Some q"
      and r': "r = (if fst q = None then (None, (snd q)\<lparr>co_filter := take (length (co_filter s)) (co_filter (snd q))\<rparr>) else q)"
      by (cases "m t") (auto simp: then_do_def case_prod_unfold split: if_splits)
    from tracksD [OF assms q wt] obtain x where x: "writing (snd q) classes c (body @ x)"
      "fst q = None \<Longrightarrow> readable_body x" "fst q = None \<Longrightarrow> co_filter (snd q) = co_filter t" by blast
    with r' out None show ?thesis by (auto split: if_splits)
  qed
qed

lemma traverse_autogen_nodes_tracks: "tracks (traverse_autogen_nodes boost separator use_separator raw nodes)"
proof (induction nodes rule: traverse_autogen_nodes.induct [of "\<lambda>boost separator use_separator raw nodes s.
      tracks (traverse_autogen_nodes boost separator use_separator raw nodes)"])
  case (1 boost separator use_separator raw s)
  show ?case unfolding tracks_def by (auto intro: exI [of _ "[]"])
next
  case (2 boost separator use_separator raw tag data children nodes s)
  have "traverse_autogen_nodes boost separator use_separator raw (Node tag data children # nodes) =
      then_do
       (if tag = ''item'' then Some \<circ> error_information_set (Identifier_in_item raw)
        else if tag \<noteq> ''autogen''
        then (\<lambda>s. let size = length (co_filter s) in
               then_do (Some \<circ> filter_vector_traverse boost children)
                 (then_do (traverse_autogen_nodes boost separator use_separator raw children)
                    (\<lambda>s. Some (None, s\<lparr>co_filter := take size (co_filter s)\<rparr>))) s)
        else handle_autogens boost separator use_separator (bs_trim_left boost data) [autogen_text boost (bs_trim_left boost data)])
       (traverse_autogen_nodes boost separator use_separator raw nodes)"
    by (rule ext) (simp only: traverse_autogen_nodes.simps Let_def)
  moreover have "tracks (Some \<circ> error_information_set (Identifier_in_item raw))"
    by (rule tracks_step) (simp_all add: writes_error error_information_set_def)
  ultimately show ?case
    using 2 handle_autogens_tracks tracks_in_filters
    by (simp only:) (intro tracks_then; simp)
qed

end
