(* ===== verification/SettingsReload.thy ===== *)
theory SettingsReload
  imports SettingsWritten
begin

text \<open>
  The invariant of the vector through \<open>reload\<close>: the loaders of the definitions do not touch it, a setting
  that fails leaves a class that the next one replaces, and freezing fills the gaps in the numbering.
\<close>

section \<open>The invariant\<close>

definition written :: "Compiler \<Rightarrow> bool" where
  "written s = (\<exists>classes current. vector_holds (co_vector s) classes current \<and> (\<forall>x \<in> set classes. readable_body (snd x)))"

lemma written_cong: "co_vector t = co_vector s \<Longrightarrow> written t = written s"
  by (simp add: written_def)

lemma writing_written: "writing s classes c body \<Longrightarrow> \<forall>x \<in> set classes. readable_body (snd x) \<Longrightarrow> written s"
  unfolding written_def writing_def by blast

definition keeps :: "partial_step \<Rightarrow> bool" where
  "keeps m = (\<forall>s r. m s = Some r \<longrightarrow> written s \<longrightarrow> written (snd r))"

lemma keepsI: "(\<And>s r. m s = Some r \<Longrightarrow> written s \<Longrightarrow> written (snd r)) \<Longrightarrow> keeps m"
  by (simp add: keeps_def)

lemma keepsD: "keeps m \<Longrightarrow> m s = Some r \<Longrightarrow> written s \<Longrightarrow> written (snd r)"
  unfolding keeps_def by blast

lemma then_doE:
  assumes "then_do m n s = Some r"
  obtains e where "m s = Some (Some e, snd r)" and "fst r = Some e"
    | t where "m s = Some (None, t)" and "n t = Some r"
proof (cases "m s")
  case None
  then show ?thesis using assms by (simp add: then_do_def)
next
  case (Some q)
  then show ?thesis using assms that by (cases q; cases "fst q") (auto simp: then_do_def)
qed

lemma keeps_then:
  assumes "keeps m" and "keeps n"
  shows "keeps (then_do m n)"
proof (rule keepsI)
  fix s r assume "then_do m n s = Some r" and w: "written s"
  then show "written (snd r)"
  proof (elim then_doE)
    fix e assume "m s = Some (Some e, snd r)"
    from keepsD [OF assms(1) this w] show ?thesis by simp
  next
    fix t assume m: "m s = Some (None, t)" and n: "n t = Some r"
    from keepsD [OF assms(1) m w] have "written t" by simp
    from keepsD [OF assms(2) n this] show ?thesis .
  qed
qed

lemma then_do_Some: "then_do (Some \<circ> m) (Some \<circ> n) = Some \<circ> and_then m n"
  by (rule ext) (simp add: then_do_def and_then_def split: prod.split option.split)

lemma then_do_assoc: "then_do (then_do m n) k = then_do m (then_do n k)"
proof (rule ext)
  fix s
  show "then_do (then_do m n) k s = then_do m (then_do n k) s"
    by (cases "m s") (simp_all add: then_do_def case_prod_unfold)
qed

section \<open>Steps that leave the vector alone\<close>

definition quiet_step :: "step \<Rightarrow> bool" where
  "quiet_step m = (\<forall>s. co_vector (snd (m s)) = co_vector s)"

lemma quietI: "(\<And>s. co_vector (snd (m s)) = co_vector s) \<Longrightarrow> quiet_step m"
  by (simp add: quiet_step_def)

lemma quietD: "quiet_step m \<Longrightarrow> co_vector (snd (m s)) = co_vector s"
  by (simp add: quiet_step_def)

lemma keeps_quiet: "quiet_step m \<Longrightarrow> keeps (Some \<circ> m)"
proof (rule keepsI)
  fix s r assume "quiet_step m" and "(Some \<circ> m) s = Some r" and "written s"
  then show "written (snd r)" using written_cong [OF quietD, of m s] by auto
qed

lemma quiet_then [simp, intro]: "quiet_step m \<Longrightarrow> quiet_step n \<Longrightarrow> quiet_step (and_then m n)"
  by (simp add: quiet_step_def)

lemma quiet_each [simp, intro]: "(\<And>x. quiet_step (f x)) \<Longrightarrow> quiet_step (for_each f xs)"
proof (induction xs)
  case (Cons x xs)
  then show ?case unfolding for_each_Cons by (intro quiet_then) auto
qed (simp add: quiet_step_def)

lemma quiet_none [simp, intro]: "quiet_step (Pair e)"
  by (simp add: quiet_step_def)

lemma quiet_update: "(\<And>s. co_vector (f s) = co_vector s) \<Longrightarrow> quiet_step (\<lambda>s. (e, f s))"
  by (simp add: quiet_step_def)

lemma quiet_error [simp, intro]: "quiet_step (error_information_set e)"
  by (simp add: quiet_step_def error_information_set_def)

lemma quiet_add_value [simp, intro]: "quiet_step (add_symbol_value boost type name v)"
  by (simp add: quiet_step_def add_symbol_value_def)

lemma quiet_symbol [simp, intro]:
  assumes "\<And>v. quiet_step (next v)"
  shows "quiet_step (get_symbol boost name next)" and "quiet_step (add_auto_symbol boost type name next)"
  using quietD [OF assms] by (auto simp: quiet_step_def get_symbol_def add_auto_symbol_def split: option.split)

lemma quiet_walk [simp, intro]:
  assumes "\<And>node. quiet_step (load node)"
  shows "quiet_step (walk is_definition load nodes)"
proof (rule quietI)
  fix s show "co_vector (snd (walk is_definition load nodes s)) = co_vector s"
    using quietD [OF assms]
    by (induction is_definition load nodes s rule: walk.induct) (auto split: if_splits)
qed

section \<open>The loaders of definitions\<close>

lemma quiet_app [simp]: "quiet_step (app_loader_traverse boost nodes)"
proof -
  have "quiet_step (app_definition boost node)" for node
    by (rule quietI)
      (auto simp: app_definition_def Let_def quietD [OF quiet_error] quietD [OF quiet_symbol(2)] quiet_step_def split: option.split)
  then show ?thesis unfolding app_loader_traverse_def by (rule quiet_walk)
qed

lemma quiet_symbol_map [simp]: "quiet_step (symbol_map_loader_traverse boost nodes)"
proof -
  have all: "(\<And>vec. quiet_step (f vec)) \<Longrightarrow> quiet_step (symbol_map_attributes names node f vec)" for names node f vec
    by (induction names node f vec rule: symbol_map_attributes.induct)
      (auto simp: Let_def simp del: and_then_simps split: option.split)
  have "quiet_step (symbol_map_definition boost node)" for node
    unfolding symbol_map_definition_def by (rule all) (auto split: option.split)
  then show ?thesis unfolding symbol_map_loader_traverse_def by (rule quiet_walk)
qed

lemma quiet_window_name [simp]: "quiet_step (window_name_loader_traverse boost is_regex nodes)"
proof -
  have all: "(\<And>w. quiet_step (f w)) \<Longrightarrow> quiet_step (window_name_children boost is_regex children f w)" for children f w
    by (induction boost is_regex children f w rule: window_name_children.induct) (auto simp: Let_def)
  have "quiet_step (window_name_definition boost is_regex node)" for node
    unfolding window_name_definition_def by (rule all) (auto intro!: quiet_symbol quiet_update split: option.split)
  then show ?thesis unfolding window_name_loader_traverse_def by (rule quiet_walk)
qed

lemma quiet_modifier [simp]: "quiet_step (modifier_loader_traverse boost nodes)"
proof -
  have "quiet_step (modifier_definition boost node)" for node
    by (rule quietI)
      (auto simp: modifier_definition_def Let_def quietD [OF quiet_error] quietD [OF quiet_symbol(2)] quietD [OF quiet_none]
        quiet_step_def split: option.split)
  then show ?thesis unfolding modifier_loader_traverse_def by (rule quiet_walk)
qed

lemma quiet_ui_element_role [simp]: "quiet_step (ui_element_role_loader_traverse boost nodes)"
  unfolding ui_element_role_loader_traverse_def
  by (rule quiet_walk) (simp add: ui_element_role_definition_def Let_def)

lemma quiet_device [simp]: "quiet_step (device_loader_traverse boost nodes)"
proof -
  have "quiet_step (device_definition boost node)" for node
  proof -
    let ?tag = "get_tag_name node"
    obtain type name v where "(if ?tag = ''devicevendordef'' then (''DeviceVendor'', ''vendorname'', ''vendorid'')
        else if ?tag = ''deviceproductdef'' then (''DeviceProduct'', ''productname'', ''productid'')
        else (''DeviceLocation'', ''locationname'', ''locationid'')) = (type, name, v)" by (metis prod_cases3)
    then show ?thesis
      by (simp only: device_definition_def Let_def prod.case) (auto split: option.split)
  qed
  then show ?thesis unfolding device_loader_traverse_def by (rule quiet_walk)
qed

lemma quiet_input_source [simp]: "quiet_step (input_source_loader_traverse boost nodes)"
proof -
  have "quiet_step (input_source_definition boost node)" for node
    by (rule quietI)
      (auto simp: input_source_definition_def Let_def quietD [OF quiet_error] quietD [OF quiet_symbol(2)]
        quietD [OF quiet_each [OF quiet_error]] quiet_step_def split: option.split)
  then show ?thesis unfolding input_source_loader_traverse_def by (rule quiet_walk)
qed

lemma quiet_url [simp]: "quiet_step (url_loader_traverse boost nodes)"
proof -
  have "quiet_step (url_definition boost node)" for node
    by (rule quietI)
      (auto simp: url_definition_def Let_def quietD [OF quiet_error] quietD [OF quiet_symbol(2)]
        quietD [OF quiet_each [OF quiet_error]] quiet_step_def split: option.split)
  then show ?thesis unfolding url_loader_traverse_def by (rule quiet_walk)
qed

lemma quiet_replacement [simp]: "quiet_step (replacement_loader_traverse nodes)"
proof -
  have "quiet_step (replacement_definition node)" for node
    unfolding replacement_definition_def
    by (auto intro!: quiet_update quiet_then simp del: and_then_simps split: option.split)
  then show ?thesis unfolding replacement_loader_traverse_def by (rule quiet_walk)
qed

section \<open>Writing a class\<close>

text \<open>
  A part of a setting: it appends to the class that is being written, and what it appends is readable unless
  an exception is thrown.
\<close>

definition fills :: "partial_step \<Rightarrow> bool" where
  "fills m =
     (\<forall>s r classes c body. m s = Some r \<longrightarrow> writing s classes c body \<longrightarrow>
        (\<exists>out. writing (snd r) classes c (body @ out) \<and> (fst r = None \<longrightarrow> readable_body out)))"

lemma fillsD:
  assumes "fills m" and "m s = Some r" and "writing s classes c body"
  obtains out where "writing (snd r) classes c (body @ out)" and "fst r = None \<Longrightarrow> readable_body out"
  using assms unfolding fills_def by blast

lemma fills_writes: "writes m readable_body \<Longrightarrow> fills (Some \<circ> m)"
  unfolding fills_def writes_def by auto

lemma fills_then:
  assumes "fills m" and "fills n"
  shows "fills (then_do m n)"
  unfolding fills_def
proof (intro allI impI)
  fix s r classes c body
  assume r: "then_do m n s = Some r" and w: "writing s classes c body"
  show "\<exists>out. writing (snd r) classes c (body @ out) \<and> (fst r = None \<longrightarrow> readable_body out)"
    using r
  proof (cases rule: then_doE)
    case (1 e)
    from fillsD [OF assms(1) 1(1) w] obtain out where "writing (snd r) classes c (body @ out)" by auto
    with 1(2) show ?thesis by auto
  next
    case (2 t)
    from fillsD [OF assms(1) 2(1) w] obtain x where x: "writing t classes c (body @ x)" "readable_body x" by auto
    from fillsD [OF assms(2) 2(2) x(1)] obtain y where "writing (snd r) classes c ((body @ x) @ y)"
      "fst r = None \<Longrightarrow> readable_body y" by blast
    with x(2) show ?thesis by (intro exI [of _ "x @ y"]) (auto intro: readable_body_append)
  qed
qed

lemma class_written:
  assumes "fills m"
  shows "keeps (then_do (Some \<circ> vector_start c raw) (then_do m (Some \<circ> on_vector InitVector_end)))"
proof (rule keepsI)
  fix s r
  assume r: "then_do (Some \<circ> vector_start c raw) (then_do m (Some \<circ> on_vector InitVector_end)) s = Some r" and w: "written s"
  then obtain classes current where h: "vector_holds (co_vector s) classes current"
    and ok: "\<forall>x \<in> set classes. readable_body (snd x)" unfolding written_def by blast
  show "written (snd r)"
  proof (cases "c \<in> set (map fst classes)")
    case True
    have "vector_start c raw s = (Some (Duplicated_identifier raw), s)"
      using start_throws [OF h True, of raw] by (simp add: vector_start_def)
    with r have "snd r = s" by (elim then_doE) simp_all
    with w show ?thesis by simp
  next
    case False
    let ?t = "s\<lparr>co_vector := snd (InitVector_start c raw (co_vector s))\<rparr>"
    note start = holds_start [OF h False, of raw]
    have t: "writing ?t classes c []" using start by (simp add: writing_def)
    have "vector_start c raw s = (None, ?t)" using start by (simp add: vector_start_def case_prod_unfold)
    with r have r': "then_do m (Some \<circ> on_vector InitVector_end) ?t = Some r"
      by (simp only: then_do_def comp_def Option.bind.simps prod.case if_True simp_thms)
    show ?thesis using r'
    proof (cases rule: then_doE)
      case (1 e)
      from fillsD [OF assms 1(1) t] obtain out where "writing (snd r) classes c out" by auto
      with ok show ?thesis by (rule writing_written [rotated])
    next
      case (2 u)
      from fillsD [OF assms 2(1) t] obtain out where out: "writing u classes c out" "readable_body out" by auto
      have "vector_holds (InitVector_end (co_vector u)) (classes @ [(c, out)]) None"
        using out(1) unfolding writing_def by (rule holds_end)
      with 2(2) ok out(2) show ?thesis
        unfolding written_def by (intro exI [of _ "classes @ [(c, out)]"] exI [of _ None]) (auto simp: on_vector_def)
    qed
  qed
qed

lemma keeps_write_class:
  assumes "\<And>x. writes (write x) readable_body"
  shows "keeps (Some \<circ> write_class boost raw write entries)"
proof -
  have f: "fills (Some \<circ> for_each write entries)"
    by (rule fills_writes, rule writes_each [OF assms]) (simp_all add: readable_body_append)
  have k: "keeps (Some \<circ> and_then (vector_start c raw) (and_then (for_each write entries) (on_vector InitVector_end)))" for c
    using class_written [OF f, of c raw] by (simp only: then_do_Some)
  show ?thesis
  proof (rule keepsI)
    fix s r assume r: "(Some \<circ> write_class boost raw write entries) s = Some r" and w: "written s"
    let ?m = "\<lambda>c. and_then (vector_start c raw) (and_then (for_each write entries) (on_vector InitVector_end))"
    show "written (snd r)"
    proof (cases "SymbolMap_add_auto boost ''ConfigIndex'' (normalize_identifier boost raw) (co_symbols s)")
      case None
      then show ?thesis using r w by (auto simp: write_class_def add_auto_symbol_def)
    next
      case (Some x)
      let ?s = "s\<lparr>co_symbols := snd x, co_identifiers := (co_identifiers s)(fst x \<mapsto> raw)\<rparr>"
      have "written (snd (?m (fst x) ?s))"
        using keepsD [OF k [of "fst x"], of ?s] w written_cong [of ?s s] by simp
      moreover have "snd r = snd (?m (fst x) ?s)"
        using r by (auto simp: write_class_def add_auto_symbol_def Some Let_def case_prod_unfold simp del: and_then_simps)
      ultimately show ?thesis by simp
    qed
  qed
qed

section \<open>Settings\<close>

lemma writes_pushed_symbols:
  "writes (for_each (\<lambda>k. get_symbol boost (f k) vector_push) ks) (\<lambda>out. length out = length ks)"
proof (induction ks)
  case (Cons k ks)
  have one: "writes (get_symbol boost (f k) vector_push) (\<lambda>out. length out = 1)"
    by (rule writes_symbol) (rule writes_mono [OF writes_push], simp)
  show ?case
    unfolding for_each_Cons by (rule writes_then [OF one Cons]) simp
qed (simp add: writes_def exI [of _ "[]"])

lemma writes_vk_config:
  "writes (and_then (for_each vector_push [5, BRIDGE_VK_CONFIG])
     (for_each (\<lambda>n. get_symbol boost (f n) vector_push) vk_config_names)) readable_body"
proof (rule writes_then [OF writes_pushes writes_pushed_symbols])
  fix x y :: "u32 list" assume "x = [5, BRIDGE_VK_CONFIG]" and "length y = length vk_config_names"
  then show "readable_body (x @ y)"
    using readable_body_one [of "BRIDGE_VK_CONFIG # y"] by (simp add: readable_entry_def vk_config_names_def)
qed

lemma fills_traverse_autogen:
  "fills (\<lambda>s. traverse_autogen boost separator use_separator raw pt (s\<lparr>co_filter := []\<rparr>))"
  unfolding fills_def
proof (intro allI impI)
  fix s r classes c body
  assume r: "traverse_autogen boost separator use_separator raw pt (s\<lparr>co_filter := []\<rparr>) = Some r"
    and w: "writing s classes c body"
  let ?s = "s\<lparr>co_filter := []\<rparr>"
  have ws: "writing ?s classes c body" using w by simp
  obtain e t where t: "filter_vector_traverse boost pt ?s = (e, t)" by fastforce
  from filter_vector_traverse_entries [of ?s boost pt] t obtain out where
    out: "t = ?s\<lparr>co_filter := out\<rparr>" "e = None \<Longrightarrow> filter_entries out" by auto
  have wt: "writing t classes c body" using ws out(1) by simp
  show "\<exists>out. writing (snd r) classes c (body @ out) \<and> (fst r = None \<longrightarrow> readable_body out)"
    using r [unfolded traverse_autogen_def]
  proof (cases rule: then_doE)
    case (1 e')
    with t wt show ?thesis by (intro exI [of _ "[]"]) simp
  next
    case (2 u)
    with t out have "u = t" "filter_entries (co_filter t)" by auto
    with tracksD [OF traverse_autogen_nodes_tracks _ wt] 2(2) show ?thesis by metis
  qed
qed

lemma keeps_write_setting: "keeps (write_setting boost separator use_separator parent pt node)"
proof -
  let ?raw = "bs_trim boost (get_data node)"
  let ?identifier = "normalize_identifier boost ?raw"
  let ?vk = "Some \<circ> (if get_attribute ''vk_config'' node \<noteq> None
               then and_then (for_each vector_push [5, BRIDGE_VK_CONFIG])
                      (for_each (\<lambda>n. get_symbol boost (scoped ''KeyCode'' (n @ ?identifier)) vector_push) vk_config_names)
               else Pair None)"
  let ?traverse = "\<lambda>s. traverse_autogen boost separator use_separator ?raw pt (s\<lparr>co_filter := []\<rparr>)"
  let ?close = "Some \<circ> on_vector InitVector_end"
  have f: "fills (then_do ?vk ?traverse)"
    using fills_then [OF fills_writes fills_traverse_autogen] writes_vk_config by simp
  have k: "keeps (then_do (Some \<circ> get_symbol boost name (\<lambda>c s. vector_start c ?raw (g c s))) (then_do ?vk (then_do ?traverse ?close)))"
    if g: "\<And>c s. co_vector (g c s) = co_vector s" for name g
  proof (rule keepsI)
    fix s r
    assume r: "then_do (Some \<circ> get_symbol boost name (\<lambda>c s. vector_start c ?raw (g c s))) (then_do ?vk (then_do ?traverse ?close)) s = Some r"
      and w: "written s"
    show "written (snd r)"
    proof (cases "SymbolMap_get_optional boost name (co_symbols s)")
      case None
      with r w show ?thesis by (elim then_doE) (simp_all add: get_symbol_def)
    next
      case (Some c)
      have "written (g c s)" using w written_cong [OF g] by simp
      moreover have "then_do (Some \<circ> vector_start c ?raw) (then_do (then_do ?vk ?traverse) ?close) (g c s) = Some r"
        using r by (simp only: then_do_assoc) (simp only: then_do_def comp_def get_symbol_def Some option.case)
      ultimately show ?thesis using keepsD [OF class_written [OF f]] by blast
    qed
  qed
  show ?thesis
  proof (cases "get_attribute ''essential'' node = None")
    case False
    then show ?thesis by (simp add: write_setting_def keeps_quiet)
  next
    case True
    show ?thesis
    proof (cases "valid_identifier ?raw parent")
      case None
      show ?thesis
        unfolding write_setting_def Let_def None option.case True
        by (simp only: simp_thms if_False) (rule k, simp)
    next
      case (Some message)
      with True show ?thesis by (simp add: write_setting_def keeps_quiet)
    qed
  qed
qed

lemma catch_errors_written:
  assumes "keeps m"
  shows "keeps (catch_errors m)"
proof (rule keepsI)
  fix s r assume r: "catch_errors m s = Some r" and w: "written s"
  obtain e t where q: "m s = Some (e, t)" using r by (cases "m s") (auto simp: catch_errors_def)
  from keepsD [OF assms q w] have "written t" by simp
  moreover have "co_vector (snd r) = co_vector t"
  proof (cases e)
    case None
    with r q show ?thesis by (auto simp: catch_errors_def)
  next
    case (Some x)
    show ?thesis
    proof (cases "x = Assertion_failed")
      case True
      with r q Some show ?thesis by (auto simp: catch_errors_def)
    next
      case False
      with r q Some have "r = error_information_set x t" by (simp add: catch_errors_def)
      then show ?thesis using quietD [OF quiet_error] by simp
    qed
  qed
  ultimately show "written (snd r)" using written_cong by blast
qed

lemma keeps_traverse: "keeps (initialize_vector_loader_traverse boost separator use_separator parent pt nodes)"
proof (induction nodes rule: initialize_vector_loader_traverse.induct [of "\<lambda>boost separator use_separator parent pt nodes s.
      keeps (initialize_vector_loader_traverse boost separator use_separator parent pt nodes)"])
  case (1 boost separator use_separator parent pt s)
  show ?case by (rule keepsI) simp
next
  case (2 boost separator use_separator parent pt tag data children nodes s)
  have "initialize_vector_loader_traverse boost separator use_separator parent pt (Node tag data children # nodes) =
      then_do
       (catch_errors
         (if tag \<noteq> ''identifier''
          then if children \<noteq> []
               then initialize_vector_loader_traverse boost separator use_separator tag children children
               else Some \<circ> Pair None
          else write_setting boost separator use_separator parent pt (Node tag data children)))
       (initialize_vector_loader_traverse boost separator use_separator parent pt nodes)"
    by (rule ext) (simp only: initialize_vector_loader_traverse.simps)
  moreover have "keeps (if tag \<noteq> ''identifier''
          then if children \<noteq> []
               then initialize_vector_loader_traverse boost separator use_separator tag children children
               else Some \<circ> Pair None
          else write_setting boost separator use_separator parent pt (Node tag data children))"
    using 2 keeps_write_setting keeps_quiet [OF quiet_none] by simp
  ultimately show ?case
    using 2 by (simp only:) (intro keeps_then catch_errors_written; simp)
qed

section \<open>Numbering the settings\<close>

definition quiet_prepare :: "prepare_step \<Rightarrow> bool" where
  "quiet_prepare m = (\<forall>s. co_vector (fst (snd (m s))) = co_vector (fst s))"

lemma quiet_prepare_then [intro]: "quiet_prepare m \<Longrightarrow> quiet_prepare n \<Longrightarrow> quiet_prepare (and_then m n)"
  by (simp add: quiet_prepare_def del: split_paired_All)

lemma quiet_prepare_none [intro]: "quiet_prepare (Pair e)"
  by (simp add: quiet_prepare_def)

lemma quiet_prepare_if: "(P \<Longrightarrow> quiet_prepare m) \<Longrightarrow> (\<not> P \<Longrightarrow> quiet_prepare n) \<Longrightarrow> quiet_prepare (if P then m else n)"
  by simp

lemma quiet_prepare_lift [intro]: "quiet_step m \<Longrightarrow> quiet_prepare (lift_compiler m)"
  by (simp add: quiet_prepare_def quiet_step_def lift_compiler_def case_prod_unfold Let_def)

lemma quiet_prepare_each [intro]: "(\<And>x. quiet_prepare (f x)) \<Longrightarrow> quiet_prepare (for_each f xs)"
proof (induction xs)
  case (Cons x xs)
  then show ?case unfolding for_each_Cons by (intro quiet_prepare_then) auto
qed (simp add: quiet_prepare_def)

lemma quiet_prepare_traverse: "quiet_prepare (prepare_loader_traverse boost parent nodes)"
proof -
  have i: "quiet_prepare (prepare_identifier boost parent node)" for boost parent node
    unfolding prepare_identifier_def Let_def
    by (auto intro!: quiet_prepare_then quiet_prepare_none quiet_prepare_lift quiet_symbol quiet_each quiet_none
        simp: case_prod_unfold simp del: and_then_simps split: option.split)
      (simp_all add: quiet_prepare_def)
  show ?thesis
  proof (induction nodes rule: prepare_loader_traverse.induct [of "\<lambda>boost parent nodes s.
        quiet_prepare (prepare_loader_traverse boost parent nodes)"])
    case (1 boost parent s)
    show ?case by (simp add: quiet_prepare_def)
  next
    case (2 boost parent tag data children nodes s)
    have "prepare_loader_traverse boost parent (Node tag data children # nodes) =
        and_then
         (if tag = ''autogen'' then Pair None
          else if tag = ''item''
          then if children \<noteq> [] then prepare_loader_traverse boost tag children else Pair None
          else
            and_then
              (if tag = ''identifier'' then prepare_identifier boost parent (Node tag data children) else Pair None)
              (if children \<noteq> [] \<and> \<not> skips_children boost parent (Node tag data children)
               then prepare_loader_traverse boost tag children else Pair None))
         (prepare_loader_traverse boost parent nodes)"
      by (rule ext) (simp only: prepare_loader_traverse.simps)
    then show ?case
      by (simp only:) (intro quiet_prepare_then quiet_prepare_if quiet_prepare_none; use 2 i in auto)
  qed
qed

lemma quiet_prepare_loader [simp]: "quiet_step (prepare_loader boost trees)"
proof -
  have "quiet_step (for_each (\<lambda>i. add_auto_symbol boost ''ConfigIndex'' i (\<lambda>_. Pair None)) xs)" for xs
    by (intro quiet_each quiet_symbol quiet_none)
  then have "quiet_prepare (prepare_loader_cleanup boost)"
    by (simp add: quiet_prepare_def quiet_step_def prepare_loader_cleanup_def case_prod_unfold Let_def)
  then have "quiet_prepare (and_then (for_each (prepare_loader_traverse boost []) trees) (prepare_loader_cleanup boost))"
    by (intro quiet_prepare_then quiet_prepare_each quiet_prepare_traverse)
  then show ?thesis
    by (simp add: quiet_prepare_def quiet_step_def prepare_loader_def case_prod_unfold Let_def del: and_then_simps)
qed

section \<open>Freezing\<close>

text \<open>The vector describes the classes, which are numbered without a gap, and the extension can read each of them.\<close>

definition compiled :: "u32 list \<Rightarrow> (u32 \<times> u32 list) list \<Rightarrow> bool" where
  "compiled data classes =
     (data = word_of_nat (length classes) # concat (map class_words classes) \<and>
      distinct (map fst classes) \<and> set (map fst classes) = word_of_nat ` {..<length classes} \<and>
      (\<forall>x \<in> set classes. readable_body (snd x)))"

lemma fill_gaps:
  assumes "vector_holds v classes None" and "\<forall>x \<in> set classes. readable_body (snd x)"
  shows "\<exists>all. vector_holds
      (fold (\<lambda>i v. if word_of_nat i \<notin> set (iv_added v) then InitVector_end (snd (InitVector_start (word_of_nat i) [] v)) else v)
        [0..<k] v) all None \<and>
    set (map fst all) = set (map fst classes) \<union> word_of_nat ` {..<k} \<and> (\<forall>x \<in> set all. readable_body (snd x))"
proof (induction k)
  case 0
  with assms show ?case by auto
next
  case (Suc k)
  let ?f = "\<lambda>i v. if word_of_nat i \<notin> set (iv_added v) then InitVector_end (snd (InitVector_start (word_of_nat i) [] v)) else v"
  let ?v = "fold ?f [0..<k] v" and ?c = "word_of_nat k :: u32"
  from Suc obtain all where all: "vector_holds ?v all None"
    "set (map fst all) = set (map fst classes) \<union> word_of_nat ` {..<k}" "\<forall>x \<in> set all. readable_body (snd x)" by blast
  have e: "fold ?f [0..<Suc k] v = ?f k ?v" by simp
  have a: "set (iv_added ?v) = set (map fst all)" using all(1) by (simp add: vector_holds_def)
  show ?case
  proof (cases "?c \<in> set (map fst all)")
    case True
    with a have "?f k ?v = ?v" by simp
    with all True show ?thesis unfolding e by (intro exI [of _ all]) (auto simp: lessThan_Suc)
  next
    case False
    from holds_end [of "snd (InitVector_start ?c [] ?v)" all ?c "[]"] holds_start [OF all(1) False, of "[]"]
    have "vector_holds (?f k ?v) (all @ [(?c, [])]) None" using False a by simp
    with all show ?thesis unfolding e by (intro exI [of _ "all @ [(?c, [])]"]) (auto simp: lessThan_Suc)
  qed
qed

lemma unat_u32: "unat (m :: u32) < 2 ^ 32"
  using unsigned_less [of m, where ?'a = nat] by simp

lemma initial_words:
  fixes m :: u32
  shows "word_of_nat ` {..<Suc (unat m)} = {..m}"
proof -
  have "c \<in> word_of_nat ` {..<Suc (unat m)}" if "c \<le> m" for c :: u32
    using that by (intro image_eqI [of _ _ "unat c"]) (simp_all add: word_le_nat_alt less_Suc_eq_le)
  moreover have "(word_of_nat i :: u32) \<le> m" if "i < Suc (unat m)" for i
  proof -
    have "i \<le> unat m" "unat m < 2 ^ 32" using that unat_u32 [of m] by simp_all
    then show ?thesis by (simp add: word_le_nat_alt unat_of_nat take_bit_nat_eq_self)
  qed
  ultimately show ?thesis by blast
qed

lemma numbered:
  fixes xs :: "u32 list"
  assumes "distinct ys" and "set ys = set xs \<union> word_of_nat ` {..<unat (fold max xs 0)}"
  shows "set ys = word_of_nat ` {..<length ys}"
proof (cases "xs = []")
  case True
  with assms(2) show ?thesis by simp
next
  case False
  let ?m = "fold max xs 0"
  have m: "?m = Max (set xs)"
  proof -
    have "?m = Max (insert 0 (set xs))" using Max.set_eq_fold [of "0 :: u32" xs] by simp
    also have "\<dots> = max 0 (Max (set xs))" using False by (intro Max_insert) simp_all
    finally show ?thesis by (simp add: max_def)
  qed
  then have in_xs: "?m \<in> set xs" "\<And>x. x \<in> set xs \<Longrightarrow> x \<le> ?m" using False by (simp_all del: fold_simps)
  have "set ys = insert ?m (word_of_nat ` {..<unat ?m}) \<union> set xs" using assms(2) in_xs(1) by blast
  also have "insert ?m (word_of_nat ` {..<unat ?m}) = {..?m}"
    using initial_words [of ?m] by (simp add: lessThan_Suc)
  also have "{..?m} \<union> set xs = {..?m}" using in_xs(2) by auto
  finally have s: "set ys = {..?m}" .
  have "inj_on (word_of_nat :: nat \<Rightarrow> u32) {..<Suc (unat ?m)}"
  proof (rule inj_onI)
    fix i j assume "i \<in> {..<Suc (unat ?m)}" "j \<in> {..<Suc (unat ?m)}" and e: "(word_of_nat i :: u32) = word_of_nat j"
    then have "i < 2 ^ 32" "j < 2 ^ 32" using unat_u32 [of ?m] by auto
    then show "i = j" using arg_cong [OF e, of unat] by (simp add: unat_of_nat take_bit_nat_eq_self)
  qed
  from card_image [OF this] have "card {..?m} = Suc (unat ?m)" by (simp only: initial_words card_lessThan)
  then have "length ys = Suc (unat ?m)" using assms(1) s distinct_card by metis
  then show ?thesis using s initial_words by simp
qed

lemma frozen:
  assumes "written s"
  shows "\<exists>classes. compiled (iv_data (InitVector_freeze (co_vector s))) classes"
proof -
  obtain classes current where h: "vector_holds (co_vector s) classes current"
    and ok: "\<forall>x \<in> set classes. readable_body (snd x)" using assms unfolding written_def by blast
  let ?v = "InitVector_cleanup (co_vector s)"
  have v: "vector_holds ?v classes None" by (rule holds_cleanup [OF h])
  then have max: "iv_max_config_index ?v = fold max (map fst classes) 0" by (simp add: vector_holds_def)
  from fill_gaps [OF v ok, of "unat (iv_max_config_index ?v)"] obtain all where
    all: "vector_holds (fold (\<lambda>i v. if word_of_nat i \<notin> set (iv_added v) then InitVector_end (snd (InitVector_start (word_of_nat i) [] v)) else v)
        [0..<unat (iv_max_config_index ?v)] ?v) all None"
      "set (map fst all) = set (map fst classes) \<union> word_of_nat ` {..<unat (iv_max_config_index ?v)}"
      "\<forall>x \<in> set all. readable_body (snd x)" by blast
  have "distinct (map fst all)" using all(1) by (simp add: vector_holds_def)
  from numbered [OF this all(2) [unfolded max]] this all(1,3) show ?thesis
    by (intro exI [of _ all]) (simp add: compiled_def InitVector_freeze_def Let_def vector_holds_def)
qed

section \<open>reload\<close>

lemma keeps_and_then: "keeps (Some \<circ> m) \<Longrightarrow> keeps (Some \<circ> n) \<Longrightarrow> keeps (Some \<circ> and_then m n)"
  unfolding then_do_Some [symmetric] by (rule keeps_then)

lemma keeps_depending: "(\<And>x. keeps (Some \<circ> f x)) \<Longrightarrow> keeps (Some \<circ> (\<lambda>s. f s s))"
  unfolding keeps_def by auto

lemma quiet_load_definitions: "(\<And>nodes. quiet_step (traverse nodes)) \<Longrightarrow> quiet_step (load_definitions w traverse files)"
  unfolding load_definitions_def by (rule quietI, rule quietD, rule quiet_each)

lemma quiet_load_replacement: "quiet_step (load_replacement w)"
  unfolding load_replacement_def Let_def by (intro quiet_then quiet_replacement quiet_update) simp

lemma keeps_load_all_definitions: "keeps (Some \<circ> load_all_definitions w)"
proof -
  note q = keeps_quiet [OF quiet_load_definitions] keeps_quiet [OF quiet_load_replacement]
  have "keeps (Some \<circ> (\<lambda>s. modifier_loader_delete boost (entries_in_order w (co_modifiers s)) s))"
    "keeps (Some \<circ> (\<lambda>s. input_source_loader_delete boost (entries_in_order w (co_vk_change_inputsource s)) s))"
    "keeps (Some \<circ> (\<lambda>s. url_loader_delete boost (entries_in_order w (co_vk_open_url s)) s))" for boost
    unfolding modifier_loader_delete_def input_source_loader_delete_def url_loader_delete_def
    by (rule keeps_depending, rule keeps_write_class, simp add: writes_modifier_entry writes_vk_entry)+
  then show ?thesis
    unfolding load_all_definitions_def Let_def by (intro keeps_and_then q) simp_all
qed

lemma keeps_write_settings: "keeps (write_settings w file)"
proof (rule keepsI)
  fix s r assume r: "write_settings w file s = Some r" and w: "written s"
  have w': "written (s\<lparr>co_filter := [], co_simultaneous_keycode_index := 0\<rparr>)"
    using w written_cong [of "s\<lparr>co_filter := [], co_simultaneous_keycode_index := 0\<rparr>" s] by simp
  show "written (snd r)"
  proof (cases "SymbolMap_get_optional (wd_boost w) ''Option::SEPARATOR'' (co_symbols s)")
    case None
    with r w show ?thesis by (auto simp: write_settings_def)
  next
    case separator: (Some separator)
    show ?thesis
    proof (cases "SymbolMap_get_optional (wd_boost w) ''Option::USE_SEPARATOR'' (co_symbols s)")
      case None
      with separator r w show ?thesis by (auto simp: write_settings_def)
    next
      case (Some use_separator)
      have "keeps (fold (\<lambda>tree m. then_do m (initialize_vector_loader_traverse (wd_boost w) separator use_separator [] tree tree))
          trees m)" if "keeps m" for trees m
        using that by (induction trees arbitrary: m) (simp_all add: keeps_then keeps_traverse)
      from keepsD [OF this [OF keeps_quiet [OF quiet_none]] _ w'] show ?thesis
        using r unfolding write_settings_def Let_def separator Some option.case by blast
    qed
  qed
qed

lemma reload_writes:
  assumes "reload w file s = Some (e, t)" and "iv_freezed (co_vector t)"
  shows "\<exists>classes. compiled (iv_data (co_vector t)) classes"
proof -
  let ?settings = "then_do (Some \<circ> load_all_definitions w)
       (then_do (\<lambda>s. Some (prepare_loader (wd_boost w) [wd_read_xml w (co_replacement s) ''number.xml''] s))
       (then_do (\<lambda>s. Some (prepare_loader (wd_boost w) (map (wd_read_xml w (co_replacement s)) [''private.xml'', file]) s))
          (write_settings w file)))"
  have k: "keeps ?settings"
  proof (intro keeps_then keeps_load_all_definitions keeps_write_settings)
    have "keeps (Some \<circ> (\<lambda>s. prepare_loader (wd_boost w) (trees s) s))" for trees :: "Compiler \<Rightarrow> Node list list"
      using keeps_depending [of "\<lambda>x. prepare_loader (wd_boost w) (trees x)"] keeps_quiet [OF quiet_prepare_loader] by blast
    from this [of "\<lambda>s. [wd_read_xml w (co_replacement s) ''number.xml'']"]
      this [of "\<lambda>s. map (wd_read_xml w (co_replacement s)) [''private.xml'', file]"]
    show "keeps (\<lambda>s. Some (prepare_loader (wd_boost w) [wd_read_xml w (co_replacement s) ''number.xml''] s))"
      "keeps (\<lambda>s. Some (prepare_loader (wd_boost w) (map (wd_read_xml w (co_replacement s)) [''private.xml'', file]) s))"
      by (simp_all only: comp_def)
  qed
  have start: "written (Compiler_clear s)"
    unfolding written_def Compiler_clear_def using holds_clear by (intro exI [of _ "[]"] exI [of _ None]) simp
  have r: "catch_errors (then_do ?settings (Some \<circ> on_vector InitVector_freeze)) (Compiler_clear s) = Some (e, t)"
    using assms(1) unfolding reload_def by (simp only: then_do_assoc comp_def)
  then obtain q where q: "then_do ?settings (Some \<circ> on_vector InitVector_freeze) (Compiler_clear s) = Some q"
    by (auto simp: catch_errors_def bind_eq_Some_conv)
  have v: "co_vector t = co_vector (snd q)"
  proof (cases "fst q")
    case None
    with r q show ?thesis by (cases q) (simp add: catch_errors_def)
  next
    case (Some x)
    with r q have "t = (if x = Assertion_failed then snd q else snd (error_information_set x (snd q)))"
      by (cases q) (auto simp: catch_errors_def split: if_splits)
    then show ?thesis using quietD [OF quiet_error] by auto
  qed
  show ?thesis
    using q
  proof (cases rule: then_doE)
    case (1 x)
    from keepsD [OF k 1(1) start] have "\<not> iv_freezed (co_vector (snd q))" by (auto simp: written_def vector_holds_def)
    with assms(2) v show ?thesis by simp
  next
    case (2 u)
    from keepsD [OF k 2(1) start] have "written u" by simp
    moreover have "co_vector (snd q) = InitVector_freeze (co_vector u)" using 2(2) by (auto simp: on_vector_def)
    ultimately show ?thesis using frozen v by metis
  qed
qed

text \<open>
  C3: Whatever the settings files say, a vector that \<open>reload\<close> has frozen is a count and the words of as many
  classes, which are numbered from zero without a gap, and the body of each class is a sequence of entries
  that the extension can read. This holds although settings that fail are abandoned half written.
\<close>

theorem reload_compiles:
  assumes "reload w file s = Some (e, t)" and "iv_freezed (co_vector t)"
  shows "\<exists>classes. compiled (iv_data (co_vector t)) classes"
  by (rule reload_writes [OF assms])

text \<open>A settings file with two symbols only: the classes are those of the three loaders that always write one.\<close>

definition example_symbol :: "string \<Rightarrow> string \<Rightarrow> string \<Rightarrow> Node" where
  "example_symbol type name v =
     Node ''symbol_map'' [] [Node ''<xmlattr>'' [] [Node ''type'' type [], Node ''name'' name [], Node ''value'' v []]]"

definition example_world :: World where
  "example_world =
     \<lparr>wd_boost = example_boost,
      wd_read_xml = (\<lambda>_ f.
        if f = ''symbol_map.xml''
        then [example_symbol ''Option'' ''SEPARATOR'' ''1'', example_symbol ''Option'' ''USE_SEPARATOR'' ''2'']
        else []),
      wd_is_regex = (\<lambda>_. True), wd_home = None, wd_system_xml_directory = [], wd_order = (\<lambda>x. x)\<rparr>"


lemma upt2: "[0..<2] = [0, Suc 0]"
  by (simp add: upt_rec)

lemma example_reload:
  "\<exists>c. reload example_world ''checkbox.xml'' Compiler_new = Some (None, c) \<and> iv_freezed (co_vector c) \<and>
     iv_data (co_vector c) = [3, 1, 0, 1, 1, 1, 2]"
  by (simp add: reload_def catch_errors_def then_do_def load_all_definitions_def Let_def load_replacement_def example_world_def
    append_environments_to_replacement_def replacement_loader_traverse_def load_definitions_def
    symbol_map_loader_traverse_def modifier_loader_traverse_def app_loader_traverse_def window_name_loader_traverse_def
    ui_element_role_loader_traverse_def device_loader_traverse_def input_source_loader_traverse_def url_loader_traverse_def
    modifier_loader_delete_def input_source_loader_delete_def url_loader_delete_def entries_in_order_def
    write_class_def add_auto_symbol_def SymbolMap_add_auto_def SymbolMap_get_optional_def SymbolMap_add_def scoped_def
    example_boost_def normalize_identifier_def remove_whitespaces_def vector_start_def on_vector_def InitVector_start_def InitVector_end_def
    InitVector_freeze_def InitVector_cleanup_def increment_at_def
    example_symbol_def symbol_map_definition_def get_attribute_def to_uint32_t_def add_symbol_value_def
    Compiler_clear_def Compiler_new_def SymbolMap_clear_def SymbolMap_empty_def InitVector_clear_def InitVector_new_def
    prepare_loader_def prepare_loader_cleanup_def write_settings_def upt2)

theorem reload_compiles_witness:
  "\<exists>c classes. reload example_world ''checkbox.xml'' Compiler_new = Some (None, c) \<and>
     iv_data (co_vector c) = [3, 1, 0, 1, 1, 1, 2] \<and> compiled (iv_data (co_vector c)) classes"
proof -
  from example_reload obtain c where c: "reload example_world ''checkbox.xml'' Compiler_new = Some (None, c)"
    "iv_freezed (co_vector c)" "iv_data (co_vector c) = [3, 1, 0, 1, 1, 1, 2]" by blast
  from reload_compiles [OF c(1,2)] c(1,3) show ?thesis by blast
qed

end
