(* ===== verification/SettingsLoad.thy ===== *)
theory SettingsLoad
  imports SettingsReload LoadFrame
begin

text \<open>
  The two ends of the initialization vector together: the extension loads what the settings compiler has
  written, unless it is longer than the extension allows, and every remapping of a setting becomes an
  item of the class with the number of the setting.
\<close>

section \<open>Reading an entry\<close>

text \<open>The part of the state that making an object of a remapping leaves alone.\<close>

definition class_state :: "'a FuncState_scheme \<Rightarrow> nat option list \<times> (nat \<Rightarrow> RemapClassObj) \<times> 'a" where
  "class_state s = (mg_remapclasses s, vk_remapclass s, FuncState.more s)"

interpretation class_state: construction class_state
  by unfold_locales (simp_all add: class_state_def)

text \<open>Only the items of the class \<open>this\<close> differ.\<close>

definition reads_class :: "nat \<Rightarrow> 'a ClassState_scheme \<Rightarrow> 'a ClassState_scheme \<Rightarrow> bool" where
  "reads_class this s t =
     (mg_remapclasses t = mg_remapclasses s \<and> vk_remapclass t = vk_remapclass s \<and> rc_next t = rc_next s \<and>
      rc_allocation_count t = rc_allocation_count s \<and> (\<forall>q. q \<noteq> this \<longrightarrow> rc_items t q = rc_items s q))"

lemma reads_refl [simp]: "reads_class this s s"
  by (simp add: reads_class_def)

lemma reads_updates [simp]:
  "reads_class this s (s\<lparr>rc_statusmessage := x1\<rparr>)" "reads_class this s (s\<lparr>cs_names := x2\<rparr>)"
  by (simp_all add: reads_class_def)

lemma reads_trans: "reads_class this s t \<Longrightarrow> reads_class this t u \<Longrightarrow> reads_class this s u"
  by (simp add: reads_class_def)

lemma ClassItem_new_reads:
  fixes s :: "'a ClassState_scheme"
  shows "mg_remapclasses (snd (RemapClassItem_new this e s)) = mg_remapclasses s"
    and "vk_remapclass (snd (RemapClassItem_new this e s)) = vk_remapclass s"
    and "rc_next (snd (RemapClassItem_new this e s)) = rc_next s"
    and "rc_allocation_count (snd (RemapClassItem_new this e s)) = rc_allocation_count s"
    and "rc_items (snd (RemapClassItem_new this e s)) = rc_items s"
proof -
  have "class_state (snd (RemapClassItem_new this e s)) = class_state s"
    by (simp add: RemapClassItem_new_def Let_def case_prod_unfold)
  then show "mg_remapclasses (snd (RemapClassItem_new this e s)) = mg_remapclasses s"
    "vk_remapclass (snd (RemapClassItem_new this e s)) = vk_remapclass s"
    "rc_next (snd (RemapClassItem_new this e s)) = rc_next s"
    "rc_allocation_count (snd (RemapClassItem_new this e s)) = rc_allocation_count s"
    "rc_items (snd (RemapClassItem_new this e s)) = rc_items s"
    by (cases s; cases "snd (RemapClassItem_new this e s)"; simp add: class_state_def)+
qed

lemma registered [simp]:
  fixes s :: "'a ClassState_scheme"
  shows "reads_class this s (registerVirtualModifier p s)" and "reads_class this s (VK_CONFIG_add_item r a b c d s)"
    and "reads_class this s (VK_DEFINED_IN_USERSPACE_add_item r a b s)"
    and "rc_items (registerVirtualModifier p s) = rc_items s" and "rc_items (VK_CONFIG_add_item r a b c d s) = rc_items s"
    and "rc_items (VK_DEFINED_IN_USERSPACE_add_item r a b s) = rc_items s"
  by (simp_all add: reads_class_def registerVirtualModifier_def FlagStatus_initialize_def VK_CONFIG_add_item_def
      VK_DEFINED_IN_USERSPACE_add_item_def)

lemma length_map_last [simp]: "length (map_last f xs) = length xs"
  by (induction f xs rule: map_last.induct) auto

lemma entry_read:
  fixes s :: "'a ClassState_scheme"
  assumes "readable_entry (rc_items s this \<noteq> []) e"
  shows "fst (RemapClass_entry this e memory s) \<and> reads_class this s (snd (RemapClass_entry this e memory s)) \<and>
    length (rc_items (snd (RemapClass_entry this e memory s)) this) =
      length (rc_items s this) + (if is_remap_entry e then 1 else 0)"
proof (cases "is_remap_entry e")
  case True
  then show ?thesis
    by (simp add: RemapClass_entry_def is_remap_entry_def Let_def case_prod_unfold update_items_def reads_class_def
        ClassItem_new_reads)
next
  case False
  then have n: "\<not> (BRIDGE_REMAPTYPE_NONE < hd e \<and> hd e < BRIDGE_REMAPTYPE_END)" by (simp add: is_remap_entry_def)
  show ?thesis
  proof (cases "BRIDGE_FILTERTYPE_NONE < hd e \<and> hd e < BRIDGE_FILTERTYPE_END")
    case True
    then have "\<not> (hd e = BRIDGE_STATUSMESSAGE \<or> hd e = BRIDGE_MODIFIERNAME \<or> hd e = BRIDGE_VK_MODIFIER \<or> hd e = BRIDGE_VK_CONFIG \<or>
        hd e = BRIDGE_VK_CHANGE_INPUTSOURCE \<or> hd e = BRIDGE_VK_OPEN_URL)" by auto
    then have "rc_items s this \<noteq> []" using assms False by (auto simp: readable_entry_def)
    with False show ?thesis
      unfolding RemapClass_entry_def Let_def if_not_P [OF n] if_P [OF True]
      by (simp add: update_items_def reads_class_def)
  next
    case other: False
    with assms False have "hd e = BRIDGE_STATUSMESSAGE \<or> hd e = BRIDGE_MODIFIERNAME \<and> length e \<ge> 3 \<or>
       hd e = BRIDGE_VK_MODIFIER \<and> length e = 12 \<or> hd e = BRIDGE_VK_CONFIG \<and> length e = 5 \<or>
       (hd e = BRIDGE_VK_CHANGE_INPUTSOURCE \<or> hd e = BRIDGE_VK_OPEN_URL) \<and> length e = 2"
      by (auto simp: readable_entry_def)
    with False show ?thesis
      unfolding RemapClass_entry_def Let_def if_not_P [OF n] if_not_P [OF other]
      by (elim disjE conjE) simp_all
  qed
qed

lemma unat_small: "n < 2 ^ 32 \<Longrightarrow> unat (word_of_nat n :: u32) = n"
  by (simp add: unat_of_nat take_bit_nat_eq_self)

lemma unat_small64: "n < 2 ^ 64 \<Longrightarrow> unat (word_of_nat n :: u64) = n"
  by (simp add: unat_of_nat take_bit_nat_eq_self)

lemma entries_read:
  fixes s :: "'a ClassState_scheme"
  assumes "readable_entries (rc_items s this \<noteq> []) es" and "length (entry_words es) < 2 ^ 32"
  shows "reads_class this s (RemapClass_entries this beyond (entry_words es) s) \<and>
    length (rc_items (RemapClass_entries this beyond (entry_words es) s) this) =
      length (rc_items s this) + length (filter is_remap_entry es)"
  using assms
proof (induction es arbitrary: s)
  case (Cons e es)
  have e: "readable_entry (rc_items s this \<noteq> []) e" "length e < 2 ^ 32" "e \<noteq> []"
    using Cons.prems by (auto simp: readable_entry_def)
  have n: "unat (word_of_nat (length e) :: u32) = length e" using e(2) by (rule unat_small)
  then have z: "(word_of_nat (length e) :: u32) \<noteq> 0" using e(3) by (metis unat_0 length_0_conv)
  obtain t where t: "RemapClass_entry this e ((e @ entry_words es) @ beyond) s = (True, t)"
    "reads_class this s t" "length (rc_items t this) = length (rc_items s this) + (if is_remap_entry e then 1 else 0)"
    using entry_read [OF e(1), of "(e @ entry_words es) @ beyond"]
    by (cases "RemapClass_entry this e ((e @ entry_words es) @ beyond) s") simp
  have "(rc_items t this \<noteq> []) = (rc_items s this \<noteq> [] \<or> is_remap_entry e)" using t(3) by (cases "is_remap_entry e") auto
  then have "readable_entries (rc_items t this \<noteq> []) es" "length (entry_words es) < 2 ^ 32" using Cons.prems by simp_all
  note IH = Cons.IH [OF this]
  have "RemapClass_entries this beyond (entry_words (e # es)) s = RemapClass_entries this beyond (entry_words es) t"
    using t(1) n z by simp
  with IH reads_trans [OF t(2)] t(3) show ?case by (cases "is_remap_entry e") simp_all
qed simp

section \<open>Reading all classes\<close>

text \<open>The class that the pointer for a configuration index names has an item for every remapping in the body.\<close>

definition class_loaded :: "'a ClassState_scheme \<Rightarrow> u32 \<times> u32 list \<Rightarrow> bool" where
  "class_loaded s = (\<lambda>(c, body).
     \<exists>p es. unat c < length (mg_remapclasses s) \<and> mg_remapclasses s ! unat c = Some p \<and> p < rc_next s \<and>
       vk_remapclass s p = \<lparr>rc_enabled = False, rc_configindex = c\<rparr> \<and>
       body = entry_words es \<and> readable_entries False es \<and>
       length (rc_items s p) = length (filter is_remap_entry es))"

definition keeps_classes :: "'a ClassState_scheme \<Rightarrow> 'a ClassState_scheme \<Rightarrow> bool" where
  "keeps_classes s t =
     (rc_next s \<le> rc_next t \<and> length (mg_remapclasses t) = length (mg_remapclasses s) \<and>
      (\<forall>p < rc_next s. vk_remapclass t p = vk_remapclass s p \<and> rc_items t p = rc_items s p))"

lemma keeps_classes_trans: "keeps_classes s t \<Longrightarrow> keeps_classes t u \<Longrightarrow> keeps_classes s u"
  by (auto simp: keeps_classes_def)

lemma class_loaded_keeps:
  assumes "class_loaded s (c, body)" and "keeps_classes s t" and "mg_remapclasses t ! unat c = mg_remapclasses s ! unat c"
  shows "class_loaded t (c, body)"
  using assms unfolding class_loaded_def keeps_classes_def by fastforce

lemma RemapClass_new_loads:
  fixes s :: "'a ClassState_scheme"
  assumes "readable_body body" and "unat (rc_allocation_count s) + length body \<le> unat MAX_ALLOCATION_COUNT"
    and "unat c < length (mg_remapclasses s)"
  obtains p t where "RemapClass_new (Some (body @ rest)) (word_of_nat (length body)) c s = (p, t)"
    and "mg_remapclasses t = mg_remapclasses s" and "keeps_classes s t"
    and "unat (rc_allocation_count t) = unat (rc_allocation_count s) + length body"
    and "class_loaded (t\<lparr>mg_remapclasses := (mg_remapclasses t)[unat c := Some p]\<rparr>) (c, body)"
proof -
  let ?new = "rc_next s"
  let ?s = "s\<lparr>rc_next := ?new + 1, rc_items := (rc_items s)(?new := []),
      rc_statusmessage := (rc_statusmessage s)(?new := None), rc_simultaneous := (rc_simultaneous s)(?new := False),
      vk_remapclass := (vk_remapclass s)(?new := \<lparr>rc_enabled = False, rc_configindex = c\<rparr>)\<rparr>"
  let ?n = "word_of_nat (length body) :: u32"
  let ?u = "?s\<lparr>rc_allocation_count := rc_allocation_count s + ?n\<rparr>"
  let ?t = "RemapClass_entries ?new rest body ?u"
  from assms(1) obtain es where es: "body = entry_words es" "readable_entries False es" unfolding readable_body_def by blast
  have small: "length body < 2 ^ 32" using assms(2) by (simp add: MAX_ALLOCATION_COUNT_def)
  have n: "unat ?n = length body" by (rule unat_small [OF small])
  have a: "unat (rc_allocation_count s + ?n) = unat (rc_allocation_count s) + length body"
    using assms(2) n by (subst unat_plus_if_size) (simp add: word_size MAX_ALLOCATION_COUNT_def)
  then have fits: "\<not> rc_allocation_count s + ?n > MAX_ALLOCATION_COUNT" using assms(2) by (simp add: word_less_nat_alt)
  have new: "RemapClass_new (Some (body @ rest)) ?n c s = (?new, ?t)"
    using fits n by (simp add: RemapClass_new_def Let_def)
  have small': "length (entry_words es) < 2 ^ 32" using small es(1) by simp
  have "reads_class ?new ?u ?t \<and> length (rc_items ?t ?new) = length (filter is_remap_entry es)"
    using entries_read [of ?u ?new es rest] es small' by simp
  then have r: "reads_class ?new ?u ?t" "length (rc_items ?t ?new) = length (filter is_remap_entry es)" by simp_all
  show thesis
  proof (rule that [OF new])
    show "mg_remapclasses ?t = mg_remapclasses s" using r(1) by (simp add: reads_class_def)
    show "keeps_classes s ?t" using r(1) by (simp add: reads_class_def keeps_classes_def)
    show "unat (rc_allocation_count ?t) = unat (rc_allocation_count s) + length body"
      using r(1) a by (simp add: reads_class_def)
    show "class_loaded (?t\<lparr>mg_remapclasses := (mg_remapclasses ?t)[unat c := Some ?new]\<rparr>) (c, body)"
      unfolding class_loaded_def prod.case
      using r es assms(3) by (intro exI [of _ ?new] exI [of _ es]) (simp add: reads_class_def)
  qed
qed

lemma load_classes_loads:
  fixes s :: "'a ClassState_scheme"
  assumes "\<forall>x \<in> set classes. readable_body (snd x)" and "distinct (map fst classes)"
    and "\<forall>c \<in> set (map fst classes). unat c < length (mg_remapclasses s)"
    and "unat (rc_allocation_count s) + length (concat (map class_words classes)) \<le> unat MAX_ALLOCATION_COUNT"
  shows "\<exists>t. load_classes (length classes) (concat (map class_words classes)) s = (True, t) \<and> keeps_classes s t \<and>
    (\<forall>x \<in> set classes. class_loaded t x) \<and>
    (\<forall>i. i \<notin> unat ` set (map fst classes) \<longrightarrow> mg_remapclasses t ! i = mg_remapclasses s ! i)"
  using assms
proof (induction classes arbitrary: s)
  case Nil
  then show ?case by (simp add: keeps_classes_def)
next
  case (Cons x classes)
  obtain c body where x: "x = (c, body)" by fastforce
  let ?rest = "concat (map class_words classes)"
  let ?sz = "1 + word_of_nat (length body) :: u32"
  have total: "unat (rc_allocation_count s) + (2 + length body) + length ?rest \<le> unat MAX_ALLOCATION_COUNT"
    using Cons.prems(4) by (simp add: x class_words_def)
  have sz: "unat ?sz = 1 + length body"
    using total unat_small [of "1 + length body"] by (simp add: MAX_ALLOCATION_COUNT_def)
  have n: "unat (word_of_nat (length body) :: u32) = length body"
    using total by (intro unat_small) (simp add: MAX_ALLOCATION_COUNT_def)
  from sz have sz0: "?sz \<noteq> 0" by (metis One_nat_def add_is_0 nat.distinct(1) unat_0)
  have c: "unat c < length (mg_remapclasses s)" using Cons.prems(3) x by simp
  have b: "readable_body body" using Cons.prems(1) x by simp
  have l: "unat (rc_allocation_count s) + length body \<le> unat MAX_ALLOCATION_COUNT" using total by simp
  obtain p u where u: "RemapClass_new (Some (body @ ?rest)) (word_of_nat (length body)) c s = (p, u)"
    "mg_remapclasses u = mg_remapclasses s" "keeps_classes s u"
    "unat (rc_allocation_count u) = unat (rc_allocation_count s) + length body"
    "class_loaded (u\<lparr>mg_remapclasses := (mg_remapclasses u)[unat c := Some p]\<rparr>) (c, body)"
    using RemapClass_new_loads [OF b l c, of ?rest] by blast
  let ?u = "u\<lparr>mg_remapclasses := (mg_remapclasses u)[unat c := Some p]\<rparr>"
  have k: "keeps_classes s ?u" using u(2,3) by (simp add: keeps_classes_def)
  have "load_classes (length (x # classes)) (concat (map class_words (x # classes))) s =
      load_classes (length classes) ?rest ?u"
    using u(1,2) c sz sz0 n by (simp add: x class_words_def Let_def not_le)
  moreover have "\<exists>t. load_classes (length classes) ?rest ?u = (True, t) \<and> keeps_classes ?u t \<and>
    (\<forall>x \<in> set classes. class_loaded t x) \<and>
    (\<forall>i. i \<notin> unat ` set (map fst classes) \<longrightarrow> mg_remapclasses t ! i = mg_remapclasses ?u ! i)"
    using Cons.prems u(2,4) total by (intro Cons.IH) (simp_all add: x)
  ultimately obtain t where t: "load_classes (length (x # classes)) (concat (map class_words (x # classes))) s = (True, t)"
    "keeps_classes ?u t" "\<forall>x \<in> set classes. class_loaded t x"
    "\<forall>i. i \<notin> unat ` set (map fst classes) \<longrightarrow> mg_remapclasses t ! i = mg_remapclasses ?u ! i" by auto
  have "unat c \<notin> unat ` set (map fst classes)" using Cons.prems(2) x by (auto dest: unsigned_word_eqI)
  with t(4) have "mg_remapclasses t ! unat c = mg_remapclasses ?u ! unat c" by blast
  from class_loaded_keeps [OF u(5) t(2) this] have "class_loaded t (c, body)" .
  moreover have "mg_remapclasses t ! i = mg_remapclasses s ! i" if "i \<notin> unat ` set (map fst (x # classes))" for i
    using that t(4) u(2) x by simp
  ultimately show ?case
    using t(1,3) keeps_classes_trans [OF k t(2)] x by auto
qed

section \<open>From the settings to the classes\<close>

lemma compiled_loads:
  fixes s :: "'a ClassState_scheme"
  assumes "compiled data classes" and "2 \<le> length data" and "length data \<le> unat MAX_ALLOCATION_COUNT"
    and "length classes \<le> unat MAX_CONFIG_COUNT"
  shows "\<exists>t. load_remapclasses_initialize_vector data (word_of_nat (4 * length data)) s = (True, t) \<and>
    length (mg_remapclasses t) = length classes \<and> (\<forall>x \<in> set classes. class_loaded t x)"
proof -
  let ?n = "length classes"
  have d: "data = word_of_nat ?n # concat (map class_words classes)" and dist: "distinct (map fst classes)"
    and numbers: "set (map fst classes) = word_of_nat ` {..<?n}" and ok: "\<forall>x \<in> set classes. readable_body (snd x)"
    using assms(1) by (simp_all add: compiled_def)
  have n: "unat (word_of_nat ?n :: u32) = ?n" using assms(4) by (intro unat_small) (simp add: MAX_CONFIG_COUNT_def)
  have indices: "unat ` set (map fst classes) = {..<?n}"
  proof -
    have "unat (word_of_nat i :: u32) = i" if "i < ?n" for i
      using that assms(4) by (intro unat_small) (simp add: MAX_CONFIG_COUNT_def)
    then show ?thesis unfolding numbers image_image by simp
  qed
  let ?s = "(reset_allocation_count (clear_remapclasses s))\<lparr>mg_remapclasses := replicate ?n None\<rparr>"
  have "unat (rc_allocation_count ?s) = 0" by (simp add: reset_allocation_count_def)
  then have "unat (rc_allocation_count ?s) + length (concat (map class_words classes)) \<le> unat MAX_ALLOCATION_COUNT"
    using assms(3) d by simp
  moreover have "\<forall>c \<in> set (map fst classes). unat c < length (mg_remapclasses ?s)"
    using indices by auto
  ultimately obtain t where t: "load_classes ?n (concat (map class_words classes)) ?s = (True, t)"
    "keeps_classes ?s t" "\<forall>x \<in> set classes. class_loaded t x" using load_classes_loads [OF ok dist, of ?s] by auto
  have len: "length (mg_remapclasses t) = ?n" using t(2) by (simp add: keeps_classes_def)
  have "mg_remapclasses t ! i \<noteq> None" if "i < ?n" for i
  proof -
    have "i \<in> unat ` set (map fst classes)" unfolding indices using that by simp
    then obtain x where "x \<in> set classes" "i = unat (fst x)" by auto
    with bspec [OF t(3), of x] show ?thesis by (cases x) (auto simp: class_loaded_def)
  qed
  then have "\<not> list_ex (\<lambda>p. p = None) (mg_remapclasses t)" using len by (simp add: list_ex_length)
  moreover have u: "unat (word_of_nat (4 * length data) :: u64) = 4 * length data"
    using assms(3) by (intro unat_small64) (simp add: MAX_ALLOCATION_COUNT_def)
  then have w: "unat (word_of_nat (4 * length data) div 4 :: u64) = length data" by (simp only: unat_div) simp
  moreover have "(word_of_nat (4 * length data) :: u64) mod 4 = 0"
  proof -
    have "unat ((word_of_nat (4 * length data) :: u64) mod 4) = 0" by (simp only: unat_mod u) simp
    then show ?thesis by (simp only: unat_eq_zero)
  qed
  moreover have "\<not> (word_of_nat (4 * length data) div 4 :: u64) < 2"
    using w assms(2) by (simp add: word_less_nat_alt)
  moreover have "\<not> (word_of_nat (4 * length data) div 4 :: u64) > ucast MAX_ALLOCATION_COUNT"
    using w assms(3) by (simp add: word_less_nat_alt MAX_ALLOCATION_COUNT_def)
  moreover have "\<not> (word_of_nat ?n :: u32) > MAX_CONFIG_COUNT"
    using n assms(4) by (simp add: word_less_nat_alt)
  moreover have "hd data = word_of_nat ?n" "tl (take (length data) data) = concat (map class_words classes)"
    using d by simp_all
  ultimately have "load_remapclasses_initialize_vector data (word_of_nat (4 * length data)) s = (True, t)"
    using t(1) n by (simp only: load_remapclasses_initialize_vector_def Let_def if_False simp_thms prod.case)
  with len t(3) show ?thesis by blast
qed

text \<open>
  C2: The extension accepts every frozen vector of the settings compiler that is long enough to have a class and
  within the limits of the extension. Every class of the vector ends up behind the pointer for its
  configuration index, disabled, and has an item for every remapping in its body, although the reader
  stops at the first entry it does not know.
\<close>

theorem settings_loaded:
  fixes s :: "'a ClassState_scheme"
  assumes "reload w file c = Some (e, c')" and "iv_freezed (co_vector c')" and "data = iv_data (co_vector c')"
    and "2 \<le> length data" and "length data \<le> unat MAX_ALLOCATION_COUNT" and "hd data \<le> MAX_CONFIG_COUNT"
  shows "\<exists>classes t. compiled data classes \<and>
    load_remapclasses_initialize_vector data (word_of_nat (4 * length data)) s = (True, t) \<and>
    length (mg_remapclasses t) = length classes \<and> (\<forall>x \<in> set classes. class_loaded t x)"
proof -
  from reload_writes [OF assms(1,2)] obtain classes where c: "compiled data classes" using assms(3) by blast
  have "length classes \<le> length data"
  proof -
    have "length classes \<le> length (concat (map class_words classes))"
      by (induction classes) (auto simp: class_words_def)
    then show ?thesis using c by (simp add: compiled_def)
  qed
  then have "unat (word_of_nat (length classes) :: u32) = length classes"
    using assms(5) by (intro unat_small) (simp add: MAX_ALLOCATION_COUNT_def)
  then have "length classes \<le> unat MAX_CONFIG_COUNT" using c assms(6) by (simp add: compiled_def word_le_nat_alt)
  from compiled_loads [OF c assms(4,5) this] c show ?thesis by blast
qed

theorem settings_loaded_witness:
  "\<exists>classes t. compiled [3, 1, 0, 1, 1, 1, 2] classes \<and>
     load_remapclasses_initialize_vector [3, 1, 0, 1, 1, 1, 2] 28 (undefined :: unit ClassState_scheme) = (True, t) \<and>
     length (mg_remapclasses t) = length classes \<and> (\<forall>x \<in> set classes. class_loaded t x)"
proof -
  from example_reload obtain c where c: "reload example_world ''checkbox.xml'' Compiler_new = Some (None, c)"
    "iv_freezed (co_vector c)" "[3, 1, 0, 1, 1, 1, 2] = iv_data (co_vector c)" by force
  from settings_loaded [OF c, of undefined] show ?thesis by (simp add: MAX_ALLOCATION_COUNT_def MAX_CONFIG_COUNT_def)
qed

end
