(* ===== verification/Spec2Isabelle.thy ===== *)
theory Spec2Isabelle
  imports
    KeyNormalize
    Utf8Copy
    EventParams
    LinkedList
    Containers
    KeyToKeyHeld
    RemapFilters
    Extension
    FilePath
    SettingsLoad
begin

text \<open>
  Karabiner remaps keys, consumer keys, pointing buttons, cursor movement and scrolling of Mac OS X
  input devices. This development models the two programs that do the work: the kernel extension
  (\<^verbatim>\<open>src/core/kext\<close>), which changes the events, and the settings compiler (\<^verbatim>\<open>src/lib/xml_compiler\<close>), which
  turns the settings files into the vector of words that configures the extension.

  The way of an event. A device calls an action; the extension has put its own function there
  (theory \<open>Devices\<close>). The function normalises the key and appends the event to the input queue
  (\<open>InputQueue\<close>). The timer of that queue takes the front event, drops bouncing keys, recognises keys
  pressed together, blocks the queue for keys that must be released first, lets the remap classes
  change or swallow the event and passes what is left (\<open>EventCore\<close>) to the key repeat (\<open>KeyRepeat\<close>) and
  to the output: \<open>FireKey\<close> offers a key to the virtual keys (\<open>VirtualKeys\<close>, \<open>MouseKey\<close>), the modifiers
  that changed are sent first, and the event is appended to the output queue (\<open>OutputQueue\<close>). The
  timer of the output queue calls the original action of the device, with delays around modifiers.
  \<open>FlagState\<close> and \<open>ButtonState\<close> count what is pressed, \<open>PressState\<close> and \<open>ToEvents\<close> serve the remappings.

  The way of a setting. The compiler reads the definitions (\<open>SettingsDefinitions\<close>, with the text and
  path functions of \<open>PqrsText\<close> and \<open>FilePath\<close>), expands each setting and writes its filters and
  remappings (\<open>SettingsCompiler\<close>) into the vector of \<open>SettingsVector\<close>. The extension checks the vector
  and makes an object for every class (\<open>RemapManager\<close>, \<open>RemapClasses\<close>), with the remappings and filters
  it describes, coded by the numbers of \<open>Bridge\<close>.

  State of the extension. Everything is under one lock, so one record is threaded through all
  operations, extended from theory to theory:
  \<open>CommonState\<close> (\<^verbatim>\<open>CommonData.cpp\<close>, \<^verbatim>\<open>Config.hpp\<close>, the clock),
  \<open>FlagState\<close> (\<^verbatim>\<open>FlagStatus.cpp\<close>), \<open>ButtonState\<close> (\<^verbatim>\<open>ButtonStatus.cpp\<close>),
  \<open>OutState\<close> (\<^verbatim>\<open>EventOutputQueue.cpp\<close>, \<^verbatim>\<open>PressDownKeys.cpp\<close>), \<open>MouseState\<close> (\<^verbatim>\<open>VK_MOUSEKEY.cpp\<close>),
  \<open>VKState\<close> (\<^verbatim>\<open>VirtualKey.cpp\<close> and the other virtual keys), \<open>RepeatState\<close> (\<^verbatim>\<open>KeyboardRepeat.cpp\<close>),
  \<open>PressState\<close> (\<^verbatim>\<open>PressingPhysicalKeys.cpp\<close>, \<^verbatim>\<open>FromEvent.cpp\<close>, \<^verbatim>\<open>EventWatcher.cpp\<close>),
  \<open>DeviceState\<close> (\<^verbatim>\<open>ListHookedDevice.cpp\<close> and its subclasses), \<open>InState\<close> (\<^verbatim>\<open>EventInputQueue.cpp\<close>),
  \<open>FuncState\<close> (the objects of \<^verbatim>\<open>RemapFunc\<close> on a heap, with the static members of their classes) and
  \<open>ClassState\<close> (\<^verbatim>\<open>RemapClass.cpp\<close>).
  Operations keep the names of the source, with the class as a prefix where names clash. Below
  them are theories without this state: \<open>Symbols\<close>, \<open>KeyTypes\<close>, \<open>ModifierPairs\<close>, \<open>Pointing\<close>,
  \<open>EventParams\<close> and \<open>KeyNormalize\<close> (\<^verbatim>\<open>KeyCode.hpp\<close>, \<^verbatim>\<open>KeyCode.cpp\<close>, \<^verbatim>\<open>Types.hpp\<close>, \<^verbatim>\<open>Params.hpp\<close>),
  \<open>Timer\<close> (\<^verbatim>\<open>TimerWrapper.cpp\<close>), \<open>LinkedList\<close> (\<^verbatim>\<open>List.cpp\<close>), \<open>Containers\<close> (\<^verbatim>\<open>Vector.hpp\<close>,
  \<^verbatim>\<open>WeakPointer.hpp\<close>) and \<open>Utf8Copy\<close> (\<^verbatim>\<open>strlcpy_utf8.hpp\<close>).

  The remap classes. \<open>KeyToKeys\<close> is \<^verbatim>\<open>KeyToKey.cpp\<close>; \<open>DependingKeys\<close>, \<open>KeyRemaps\<close>, \<open>PointerRemaps\<close> and
  \<open>SimultaneousKeys\<close> are the other classes of \<^verbatim>\<open>RemapFunc\<close>, and \<open>RemapFuncs\<close> dispatches between
  them. \<open>RemapFilters\<close> is \<^verbatim>\<open>RemapFilter\<close>. \<open>RemapClasses\<close> is a class of the vector with its items, and
  \<open>RemapManager\<close> is \<^verbatim>\<open>RemapClassManager\<close>. The input queue is written over the argument \<open>Remapper\<close>; the
  manager is the instance of it with which \<open>Extension\<close> closes the loop, together with the functions
  that the devices, the timers and user space call.

  State of the compiler. The record \<open>Compiler\<close> holds the members of \<^verbatim>\<open>xml_compiler\<close>; a step returns the
  exception it throws, or none, and the state, since an exception undoes nothing. The loop that expands
  \<^verbatim>\<open>autogen\<close> elements may not end for hostile settings, so it is a partial function, \<open>None\<close> when it does not.

  What the lemmas show.
  \<^item> Flags and counters: the flag word sent to applications is exactly the set of modifiers whose
    counters are positive; the counters are those of an abstract count and lock specification, and
    keep their invariant through every operation; the same for buttons.
  \<^item> Output: the modifier events of \<open>FireModifiers\<close> are releases before presses, one per changed
    modifier, and a second call sends nothing; each press and release of a key appears in the queue
    as the event the source describes; a queue with events always has a timer pending.
  \<^item> Virtual keys: \<open>FireKey\<close> returns, although handlers call it again. The recursion has fuel 3: a
    handler fires a key code that is no virtual key of the same kind, so the second call is the last
    but for the swap of Japanese keys, which needs one more.
  \<^item> Input: blocking and unblocking keep the events and their order, no operation leaves an event
    waiting without a timer, and the timers drain both queues in a bounded number of steps (the
    measure \<open>weight\<close>). The loop over simultaneous key presses is a partial function in the option
    monad; it returns for every \<open>Remapper\<close> that obeys the laws of the locale \<open>remapper\<close>.
  \<^item> Remap classes: what a \<open>KeyToKey\<close> presses it releases (\<open>KeyToKeyHeld\<close>); every remapping returns and
    leaves the input queue alone (\<open>KeyFrame\<close>, \<open>RemapFrame\<close>); the loop of \<open>prepare\<close> ends, because an object
    registers fewer objects than it is worth (\<open>ManagerLive\<close>), so the manager is a \<open>remapper\<close>; making and
    deleting classes leaves the queues alone (\<open>LoadFrame\<close>, the locale \<open>construction\<close>).
  \<^item> The extension: after any sequence of calls and timeouts no event waits without a timer.
  \<^item> Compiler: whatever the settings files say, the frozen vector is a count and that many classes, numbered
    without a gap, with entries that the extension can read (\<open>SettingsWritten\<close>, \<open>SettingsReload\<close>), and
    the extension loads such a vector within its limits completely (\<open>SettingsLoad\<close>).
  \<^item> Devices: hooking and unhooking restore the actions of a device.
  \<^item> Data structures: the intrusive list refines a list on an explicit heap, growable arrays report
    a failed allocation, timers and weak pointers keep their invariants.

  Not modelled. IOKit and the C library (devices, event sources, the clock, allocation) are inputs
  of the model: the calls of the extension to a device are logged, the timeouts an event source
  accepts and whether an allocation succeeds are parameters. C++ \<open>int\<close> counters, whose overflow is
  undefined, are integers. The boost functions are the argument \<open>Boost\<close>, and a settings file is read as a tree
  with its includes in place by the field \<open>wd_read_xml\<close> of the argument \<open>World\<close>. The user client and the driver
  class (\<^verbatim>\<open>UserClient_kext.cpp\<close>, \<^verbatim>\<open>Driver.cpp\<close>) connect the extension to IOKit and to user space; the tree of
  the preferences window, the C bindings of the compiler and the applications are user interface and exchange
  data through those interfaces only.
\<close>

end
